(* ===== verification/Prelude.thy ===== *)
theory Prelude
  imports Main "HOL-Library.Word" "HOL-Library.List_Lexorder" "HOL-Library.Char_ord"
begin

text \<open>
  Shared vocabulary of the development: Rust results as sums, \<open>i64\<close> arithmetic on
  \<open>int\<close> with its range written out, byte strings and the ASCII and whitespace predicates the
  sources call on them, and the string-enumeration interface that every persisted state
  vocabulary implements.

  A Rust \<open>String\<close> or \<open>&str\<close> is the list of its UTF-8 bytes, one \<open>char\<close> per byte, so
  \<open>length\<close> is Rust's \<open>len()\<close> and an all-ASCII string has one \<open>char\<close> per character.
\<close>

named_theorems result_simps "equations for the result combinators"
named_theorems int_simps "definitions of the i64 operations"

type_synonym i64 = int
type_synonym u8 = "8 word"
type_synonym u16 = "16 word"
type_synonym u32 = "32 word"
type_synonym u64 = "64 word"

section \<open>Results\<close>

text \<open>\<open>Result<T, E>\<close> is \<open>'e + 'a\<close> with \<open>Inl\<close> for \<open>Err\<close>; \<open>rbind\<close> is the \<open>?\<close> operator.\<close>

definition rbind :: "'e + 'a \<Rightarrow> ('a \<Rightarrow> 'e + 'b) \<Rightarrow> 'e + 'b" where
  "rbind m k = (case m of Inl e \<Rightarrow> Inl e | Inr x \<Rightarrow> k x)"

definition map_err :: "('e \<Rightarrow> 'f) \<Rightarrow> 'e + 'a \<Rightarrow> 'f + 'a" where
  "map_err f m = (case m of Inl e \<Rightarrow> Inl (f e) | Inr x \<Rightarrow> Inr x)"

definition ok_or :: "'e \<Rightarrow> 'a option \<Rightarrow> 'e + 'a" where
  "ok_or e x = (case x of None \<Rightarrow> Inl e | Some v \<Rightarrow> Inr v)"

definition is_ok :: "'e + 'a \<Rightarrow> bool" where
  "is_ok m = (case m of Inl _ \<Rightarrow> False | Inr _ \<Rightarrow> True)"

definition guard_err :: "bool \<Rightarrow> 'e \<Rightarrow> 'e + unit" where
  "guard_err bad e = (if bad then Inl e else Inr ())"

text \<open>A sequence of \<open>check()?;\<close> statements: the first error wins.\<close>

fun check_all :: "('e + unit) list \<Rightarrow> 'e + unit" where
  "check_all [] = Inr ()"
| "check_all (c # cs) = (case c of Inl e \<Rightarrow> Inl e | Inr _ \<Rightarrow> check_all cs)"

text \<open>\<open>iter().map(f).collect::<Result<Vec<_>, _>>()\<close>.\<close>

fun collect_results :: "('a \<Rightarrow> 'e + 'b) \<Rightarrow> 'a list \<Rightarrow> 'e + 'b list" where
  "collect_results f [] = Inr []"
| "collect_results f (x # xs) =
     rbind (f x) (\<lambda>y. rbind (collect_results f xs) (\<lambda>ys. Inr (y # ys)))"

lemma rbind_simps [simp, result_simps]:
  "rbind (Inl e) k = Inl e" "rbind (Inr x) k = k x"
  by (simp_all add: rbind_def)

lemma map_err_simps [simp, result_simps]:
  "map_err f (Inl e) = Inl (f e)" "map_err f (Inr x) = Inr x"
  by (simp_all add: map_err_def)

lemma ok_or_simps [simp, result_simps]:
  "ok_or e None = Inl e" "ok_or e (Some v) = Inr v"
  by (simp_all add: ok_or_def)

lemma is_ok_simps [simp, result_simps]:
  "is_ok (Inl e) = False" "is_ok (Inr x) = True"
  by (simp_all add: is_ok_def)

lemma rbind_eq_Inr [simp]:
  "rbind m k = Inr y \<longleftrightarrow> (\<exists>x. m = Inr x \<and> k x = Inr y)"
  by (cases m) simp_all

lemma rbind_eq_Inl:
  "rbind m k = Inl e \<longleftrightarrow> m = Inl e \<or> (\<exists>x. m = Inr x \<and> k x = Inl e)"
  by (cases m) auto

lemma map_err_eq_Inr [simp]: "map_err f m = Inr y \<longleftrightarrow> m = Inr y"
  by (cases m) simp_all

lemma ok_or_eq_Inr [simp]: "ok_or e x = Inr y \<longleftrightarrow> x = Some y"
  by (cases x) simp_all

lemma guard_err_eq_Inr [simp]: "guard_err b e = Inr u \<longleftrightarrow> \<not> b"
  by (simp add: guard_err_def)

lemma guard_err_eq_Inl [simp]: "guard_err b e = Inl e' \<longleftrightarrow> b \<and> e' = e"
  by (auto simp: guard_err_def)

lemma is_ok_guard_err [simp]: "is_ok (guard_err b e) \<longleftrightarrow> \<not> b"
  by (simp add: guard_err_def)

lemma is_ok_iff: "is_ok m \<longleftrightarrow> (\<exists>x. m = Inr x)"
  by (cases m) simp_all

lemma is_ok_check_all [simp]: "is_ok (check_all cs) \<longleftrightarrow> (\<forall>c \<in> set cs. is_ok c)"
  by (induction cs) (auto split: sum.split)

lemma check_all_eq_Inr: "check_all cs = Inr u \<longleftrightarrow> (\<forall>c \<in> set cs. is_ok c)"
  using is_ok_check_all [of cs] by (cases "check_all cs") auto

lemma check_all_append:
  "check_all (xs @ ys) = rbind (check_all xs) (\<lambda>_. check_all ys)"
  by (induction xs) (auto split: sum.split)

text \<open>An error of a check sequence is the error of its first failing check.\<close>

lemma check_all_eq_Inl:
  "check_all cs = Inl e \<longleftrightarrow>
     (\<exists>pre post. cs = pre @ Inl e # post \<and> (\<forall>c \<in> set pre. is_ok c))"
proof (induction cs)
  case Nil
  then show ?case by simp
next
  case (Cons c cs)
  show ?case
  proof (cases c)
    case (Inl e')
    show ?thesis
    proof
      assume "check_all (c # cs) = Inl e"
      with Inl have "c # cs = [] @ Inl e # cs" by simp
      then show "\<exists>pre post. c # cs = pre @ Inl e # post \<and> (\<forall>c \<in> set pre. is_ok c)"
        by fastforce
    next
      assume "\<exists>pre post. c # cs = pre @ Inl e # post \<and> (\<forall>c \<in> set pre. is_ok c)"
      then obtain pre post where *: "c # cs = pre @ Inl e # post" "\<forall>c \<in> set pre. is_ok c"
        by blast
      with Inl show "check_all (c # cs) = Inl e" by (cases pre) auto
    qed
  next
    case (Inr u)
    show ?thesis
    proof
      assume "check_all (c # cs) = Inl e"
      with Inr Cons.IH obtain pre post
        where "cs = pre @ Inl e # post" "\<forall>c \<in> set pre. is_ok c" by auto
      with Inr have "c # cs = (c # pre) @ Inl e # post \<and> (\<forall>c \<in> set (c # pre). is_ok c)"
        by simp
      then show "\<exists>pre post. c # cs = pre @ Inl e # post \<and> (\<forall>c \<in> set pre. is_ok c)"
        by blast
    next
      assume "\<exists>pre post. c # cs = pre @ Inl e # post \<and> (\<forall>c \<in> set pre. is_ok c)"
      then obtain pre post where *: "c # cs = pre @ Inl e # post" "\<forall>c \<in> set pre. is_ok c"
        by blast
      with Inr Cons.IH show "check_all (c # cs) = Inl e" by (cases pre) auto
    qed
  qed
qed

declare check_all.simps [simp del, result_simps]

lemma collect_results_Inr:
  "collect_results f xs = Inr ys \<longleftrightarrow> list_all2 (\<lambda>x y. f x = Inr y) xs ys"
  by (induction xs arbitrary: ys) (auto simp: list_all2_Cons1)

section \<open>Signed 64-bit arithmetic\<close>

definition i64_min :: int where "i64_min = - 9223372036854775808"
definition i64_max :: int where "i64_max = 9223372036854775807"
definition u32_max :: int where "u32_max = 4294967295"

definition in_i64 :: "int \<Rightarrow> bool" where
  "in_i64 x \<longleftrightarrow> i64_min \<le> x \<and> x \<le> i64_max"

definition checked_add :: "int \<Rightarrow> int \<Rightarrow> int option" where
  "checked_add a b = (if in_i64 (a + b) then Some (a + b) else None)"

definition checked_sub :: "int \<Rightarrow> int \<Rightarrow> int option" where
  "checked_sub a b = (if in_i64 (a - b) then Some (a - b) else None)"

definition checked_mul :: "int \<Rightarrow> int \<Rightarrow> int option" where
  "checked_mul a b = (if in_i64 (a * b) then Some (a * b) else None)"

text \<open>Rust's \<open>/\<close> truncates towards zero; \<open>checked_div\<close> is \<open>None\<close> on a zero divisor and on
  \<open>i64::MIN / -1\<close>.\<close>

definition trunc_div :: "int \<Rightarrow> int \<Rightarrow> int" where
  "trunc_div a b = sgn a * sgn b * (\<bar>a\<bar> div \<bar>b\<bar>)"

definition checked_div :: "int \<Rightarrow> int \<Rightarrow> int option" where
  "checked_div a b = (if b = 0 \<or> \<not> in_i64 (trunc_div a b) then None else Some (trunc_div a b))"

definition clamp_int :: "int \<Rightarrow> int \<Rightarrow> int \<Rightarrow> int" where
  "clamp_int lo hi x = (if x < lo then lo else if hi < x then hi else x)"

definition saturating_sub_i64 :: "int \<Rightarrow> int \<Rightarrow> int" where
  "saturating_sub_i64 a b = clamp_int i64_min i64_max (a - b)"

lemmas i64_defs [int_simps] = in_i64_def i64_min_def i64_max_def
lemmas checked_defs [int_simps] = checked_add_def checked_sub_def checked_mul_def

lemma checked_add_eq_Some [simp]: "checked_add a b = Some c \<longleftrightarrow> c = a + b \<and> in_i64 c"
  by (auto simp: checked_add_def)

lemma checked_sub_eq_Some [simp]: "checked_sub a b = Some c \<longleftrightarrow> c = a - b \<and> in_i64 c"
  by (auto simp: checked_sub_def)

lemma checked_mul_eq_Some [simp]: "checked_mul a b = Some c \<longleftrightarrow> c = a * b \<and> in_i64 c"
  by (auto simp: checked_mul_def)

lemma div_bounds_int:
  fixes a b :: int
  assumes "0 < b"
  shows "a div b * b \<le> a" and "a < (a div b + 1) * b"
proof -
  have "a = a div b * b + a mod b" "0 \<le> a mod b" "a mod b < b"
    using assms by simp_all
  then show "a div b * b \<le> a" and "a < (a div b + 1) * b"
    by (simp_all only: distrib_right)
qed

lemma trunc_div_nonneg: "0 \<le> a \<Longrightarrow> 0 < b \<Longrightarrow> trunc_div a b = a div b"
  by (cases "a = 0") (auto simp: trunc_div_def)

lemma trunc_div_in_i64:
  assumes "0 \<le> a" and "0 < b" and "in_i64 a"
  shows "in_i64 (trunc_div a b)"
proof -
  have "a div b \<le> a div 1" using assms by (intro zdiv_mono2) auto
  moreover have "0 \<le> a div b" using assms by (simp add: pos_imp_zdiv_nonneg_iff)
  ultimately show ?thesis using assms by (simp add: trunc_div_nonneg i64_defs)
qed

lemma checked_div_nonneg:
  assumes "0 \<le> a" and "0 < b" and "in_i64 a"
  shows "checked_div a b = Some (a div b)"
  using assms trunc_div_in_i64 [OF assms] by (simp add: checked_div_def trunc_div_nonneg)

lemma in_i64_range_add: "in_i64 a \<Longrightarrow> in_i64 (a + b) \<Longrightarrow> 0 \<le> c \<Longrightarrow> c \<le> b \<Longrightarrow> in_i64 (a + c)"
  by (auto simp: i64_defs)

section \<open>Words\<close>

lemmas unat_bounds =
  unsigned_less [where 'a = nat and 'b = 16, simplified]
  unsigned_less [where 'a = nat and 'b = 32, simplified]
  unsigned_less [where 'a = nat and 'b = 64, simplified]

lemma unat_ucast_up:
  "LENGTH('a) \<le> LENGTH('b) \<Longrightarrow> unat (ucast (w :: 'a::len word) :: 'b::len word) = unat w"
  by (metis (mono_tags, lifting) is_up.rep_eq source_size target_size uint_up_ucast unat_eq_nat_uint)

lemma unat_ucast_16_32 [simp]: "unat (ucast (w :: u16) :: u32) = unat w"
  by (rule unat_ucast_up) simp

lemma unat_ucast_32_64 [simp]: "unat (ucast (w :: u32) :: u64) = unat w"
  by (rule unat_ucast_up) simp

lemma unat_max_word_32 [simp]: "unat (- 1 :: u32) = 4294967295"
  by (simp add: unsigned_minus_1_eq_mask mask_eq_exp_minus_1)

lemma unat_le_imp_uint_le: "unat w \<le> n \<Longrightarrow> uint w \<le> int n"
  by (metis of_nat_mono of_nat_unat)

lemma le_unat_imp_le_uint: "n \<le> unat w \<Longrightarrow> int n \<le> uint w"
  by (metis of_nat_mono of_nat_unat)

lemma unat_min: "unat (min a b) = min (unat a) (unat b)"
  by (simp add: min_def word_le_nat_alt)

lemma unat_max: "unat (max a b) = max (unat a) (unat b)"
  by (simp add: max_def word_le_nat_alt)

lemma unat_ucast_64_32:
  "unat w < 2 ^ 32 \<Longrightarrow> unat (ucast (w :: u64) :: u32) = unat w"
  by (simp add: unsigned_ucast_eq take_bit_nat_eq_self)

definition saturating_add_u32 :: "u32 \<Rightarrow> u32 \<Rightarrow> u32" where
  "saturating_add_u32 a b = (if unat a + unat b < 2 ^ 32 then a + b else - 1)"

lemma unat_saturating_add_u32:
  "unat (saturating_add_u32 a b) = min (unat a + unat b) 4294967295"
  by (auto simp: saturating_add_u32_def unat_word_ariths)

section \<open>Bytes and strings\<close>

definition byte_val :: "char \<Rightarrow> nat" where
  "byte_val c = of_char c"

definition is_ascii_digit :: "char \<Rightarrow> bool" where
  "is_ascii_digit c \<longleftrightarrow> 48 \<le> byte_val c \<and> byte_val c \<le> 57"

definition is_ascii_lowercase :: "char \<Rightarrow> bool" where
  "is_ascii_lowercase c \<longleftrightarrow> 97 \<le> byte_val c \<and> byte_val c \<le> 122"

definition is_ascii_uppercase :: "char \<Rightarrow> bool" where
  "is_ascii_uppercase c \<longleftrightarrow> 65 \<le> byte_val c \<and> byte_val c \<le> 90"

definition is_ascii_alphanumeric :: "char \<Rightarrow> bool" where
  "is_ascii_alphanumeric c \<longleftrightarrow>
     is_ascii_digit c \<or> is_ascii_lowercase c \<or> is_ascii_uppercase c"

definition is_ascii_str :: "string \<Rightarrow> bool" where
  "is_ascii_str s \<longleftrightarrow> list_all (\<lambda>c. byte_val c < 128) s"

definition is_hex_lower :: "char \<Rightarrow> bool" where
  "is_hex_lower c \<longleftrightarrow> is_ascii_digit c \<or> (97 \<le> byte_val c \<and> byte_val c \<le> 102)"

definition to_ascii_lowercase :: "char \<Rightarrow> char" where
  "to_ascii_lowercase c = (if is_ascii_uppercase c then char_of (byte_val c + 32) else c)"

text \<open>The UTF-8 encodings of the code points with the Unicode \<open>White_Space\<close> property, which is
  what \<open>char::is_whitespace\<close>, and so \<open>trim\<close> and \<open>split_whitespace\<close>, test.\<close>

definition whitespace_seqs :: "string list" where
  "whitespace_seqs =
     [[CHR 0x09], [CHR 0x0A], [CHR 0x0B], [CHR 0x0C], [CHR 0x0D], [CHR 0x20],
      [CHR 0xC2, CHR 0x85], [CHR 0xC2, CHR 0xA0], [CHR 0xE1, CHR 0x9A, CHR 0x80],
      [CHR 0xE2, CHR 0x80, CHR 0x80], [CHR 0xE2, CHR 0x80, CHR 0x81],
      [CHR 0xE2, CHR 0x80, CHR 0x82], [CHR 0xE2, CHR 0x80, CHR 0x83],
      [CHR 0xE2, CHR 0x80, CHR 0x84], [CHR 0xE2, CHR 0x80, CHR 0x85],
      [CHR 0xE2, CHR 0x80, CHR 0x86], [CHR 0xE2, CHR 0x80, CHR 0x87],
      [CHR 0xE2, CHR 0x80, CHR 0x88], [CHR 0xE2, CHR 0x80, CHR 0x89],
      [CHR 0xE2, CHR 0x80, CHR 0x8A], [CHR 0xE2, CHR 0x80, CHR 0xA8],
      [CHR 0xE2, CHR 0x80, CHR 0xA9], [CHR 0xE2, CHR 0x80, CHR 0xAF],
      [CHR 0xE2, CHR 0x81, CHR 0x9F], [CHR 0xE3, CHR 0x80, CHR 0x80]]"

fun drop_prefix :: "string \<Rightarrow> string \<Rightarrow> string option" where
  "drop_prefix [] s = Some s"
| "drop_prefix (p # ps) [] = None"
| "drop_prefix (p # ps) (c # cs) = (if p = c then drop_prefix ps cs else None)"

fun drop_any :: "string list \<Rightarrow> string \<Rightarrow> string option" where
  "drop_any [] s = None"
| "drop_any (p # ps) s = (case drop_prefix p s of None \<Rightarrow> drop_any ps s | Some r \<Rightarrow> Some r)"

fun strip_seqs :: "nat \<Rightarrow> string list \<Rightarrow> string \<Rightarrow> string" where
  "strip_seqs 0 ps s = s"
| "strip_seqs (Suc n) ps s =
     (case drop_any ps s of None \<Rightarrow> s | Some r \<Rightarrow> strip_seqs n ps r)"

definition trim_start :: "string \<Rightarrow> string" where
  "trim_start s = strip_seqs (length s) whitespace_seqs s"

definition trim_end :: "string \<Rightarrow> string" where
  "trim_end s = rev (strip_seqs (length s) (map rev whitespace_seqs) (rev s))"

definition str_trim :: "string \<Rightarrow> string" where
  "str_trim s = trim_end (trim_start s)"

text \<open>\<open>str::split(c)\<close> for one ASCII separator: always at least one piece.\<close>

fun split_char :: "char \<Rightarrow> string \<Rightarrow> string list" where
  "split_char sep [] = [[]]"
| "split_char sep (c # cs) =
     (if c = sep then [] # split_char sep cs
      else case split_char sep cs of [] \<Rightarrow> [[c]] | p # ps \<Rightarrow> (c # p) # ps)"

text \<open>\<open>str::split_once(c)\<close>.\<close>

fun split_once :: "char \<Rightarrow> string \<Rightarrow> (string \<times> string) option" where
  "split_once sep [] = None"
| "split_once sep (c # cs) =
     (if c = sep then Some ([], cs)
      else case split_once sep cs of None \<Rightarrow> None | Some (a, b) \<Rightarrow> Some (c # a, b))"

definition ends_with :: "string \<Rightarrow> string \<Rightarrow> bool" where
  "ends_with s suffix \<longleftrightarrow> drop_prefix (rev suffix) (rev s) \<noteq> None"

text \<open>\<open>split_whitespace().collect()\<close>: maximal runs of non-whitespace, one pass with the current
  word accumulated in reverse.\<close>

fun split_ws :: "nat \<Rightarrow> string \<Rightarrow> string \<Rightarrow> string list" where
  "split_ws 0 acc s = (if acc = [] then [] else [rev acc])"
| "split_ws (Suc n) acc s =
     (case s of
        [] \<Rightarrow> if acc = [] then [] else [rev acc]
      | c # cs \<Rightarrow>
          (case drop_any whitespace_seqs s of
             Some r \<Rightarrow> (if acc = [] then split_ws n [] r else rev acc # split_ws n [] r)
           | None \<Rightarrow> split_ws n (c # acc) cs))"

definition split_whitespace :: "string \<Rightarrow> string list" where
  "split_whitespace s = split_ws (Suc (length s)) [] s"

fun join_with :: "string \<Rightarrow> string list \<Rightarrow> string" where
  "join_with sep [] = []"
| "join_with sep [x] = x"
| "join_with sep (x # y # ys) = x @ sep @ join_with sep (y # ys)"

lemma drop_prefix_eq_Some [simp]: "drop_prefix p s = Some r \<longleftrightarrow> s = p @ r"
  by (induction p s rule: drop_prefix.induct) auto

lemma ends_with_iff: "ends_with s suffix \<longleftrightarrow> (\<exists>p. s = p @ suffix)"
proof -
  have "ends_with s suffix \<longleftrightarrow> (\<exists>r. rev s = rev suffix @ r)"
    by (auto simp: ends_with_def)
  also have "\<dots> \<longleftrightarrow> (\<exists>r. s = rev r @ suffix)"
    by (metis rev_append rev_rev_ident)
  also have "\<dots> \<longleftrightarrow> (\<exists>p. s = p @ suffix)"
    by (metis rev_rev_ident)
  finally show ?thesis .
qed

lemma split_once_SomeD: "split_once sep s = Some (a, b) \<Longrightarrow> s = a @ sep # b \<and> sep \<notin> set a"
  by (induction s arbitrary: a) (auto split: if_splits option.splits)

lemma split_char_not_Nil [simp]: "split_char sep s \<noteq> []"
  by (induction s) (auto split: list.splits)

lemma split_char_set: "p \<in> set (split_char sep s) \<Longrightarrow> set p \<subseteq> set s"
proof (induction s arbitrary: p)
  case Nil
  then show ?case by simp
next
  case (Cons c s)
  then show ?case
    by (fastforce split: if_splits list.splits)
qed

lemma in_split_char:
  "c \<in> set s \<Longrightarrow> c \<noteq> sep \<Longrightarrow> \<exists>p \<in> set (split_char sep s). c \<in> set p"
  by (induction s) (auto split: list.splits)

text \<open>Splitting at a separator and joining with it are inverse.\<close>

lemma split_char_no_sep: "sep \<notin> set s \<Longrightarrow> split_char sep s = [s]"
  by (induction s) auto

lemma split_char_append: "sep \<notin> set a \<Longrightarrow> split_char sep (a @ sep # b) = a # split_char sep b"
  by (induction a) auto

lemma split_char_join:
  assumes "xs \<noteq> []" and "\<forall>x \<in> set xs. sep \<notin> set x"
  shows "split_char sep (join_with [sep] xs) = xs"
  using assms
  by (induction "[sep]" xs rule: join_with.induct) (auto simp: split_char_no_sep split_char_append)

lemma join_with_Cons: "xs \<noteq> [] \<Longrightarrow> join_with sep (x # xs) = x @ sep @ join_with sep xs"
  by (cases xs) simp_all

lemma join_split_char [simp]: "join_with [sep] (split_char sep s) = s"
proof (induction s)
  case Nil
  then show ?case by simp
next
  case (Cons c s)
  obtain p ps where ps: "split_char sep s = p # ps"
    by (cases "split_char sep s") auto
  with Cons show ?case by (cases ps) (auto simp: join_with_Cons)
qed

lemma split_char_pieces: "p \<in> set (split_char sep s) \<Longrightarrow> sep \<notin> set p"
  by (induction s arbitrary: p) (fastforce split: if_splits list.splits)+

lemma split_char_snoc: "split_char sep (s @ [sep]) = split_char sep s @ [[]]"
  by (induction s) (auto split: list.splits)

lemma split_once_append: "sep \<notin> set a \<Longrightarrow> split_once sep (a @ sep # b) = Some (a, b)"
  by (induction a) auto

text \<open>A string whose first and last bytes are printable ASCII is its own \<open>trim\<close>.\<close>

definition is_graphic :: "char \<Rightarrow> bool" where
  "is_graphic c \<longleftrightarrow> 33 \<le> byte_val c \<and> byte_val c < 128"

lemma drop_any_None:
  "\<forall>p \<in> set ps. p \<noteq> [] \<and> hd p \<noteq> c \<Longrightarrow> drop_any ps (c # cs) = None"
proof (induction ps)
  case (Cons p ps)
  then show ?case by (cases p) auto
qed simp

lemma whitespace_seqs_ends:
  "\<forall>p \<in> set whitespace_seqs. p \<noteq> [] \<and> \<not> is_graphic (hd p) \<and> \<not> is_graphic (last p)"
  by (simp add: whitespace_seqs_def is_graphic_def byte_val_def)

lemma strip_seqs_None: "drop_any ps s = None \<Longrightarrow> strip_seqs n ps s = s"
  by (cases n) simp_all

lemma trim_graphic:
  assumes "s \<noteq> []" and "is_graphic (hd s)" and "is_graphic (last s)"
  shows "str_trim s = s"
proof -
  obtain c cs where s: "s = c # cs" using assms(1) by (cases s) auto
  have "drop_any whitespace_seqs s = None"
    unfolding s using assms(2) s whitespace_seqs_ends by (intro drop_any_None) auto
  then have start: "trim_start s = s" by (simp add: trim_start_def strip_seqs_None)
  obtain d ds where d: "rev s = d # ds" using assms(1) by (cases "rev s") auto
  then have "is_graphic d" using assms(3) by (metis hd_rev list.sel(1))
  then have "drop_any (map rev whitespace_seqs) (rev s) = None"
    unfolding d using whitespace_seqs_ends
    by (intro drop_any_None) (auto simp: hd_rev)
  then have "trim_end s = s" by (simp add: trim_end_def strip_seqs_None)
  with start show ?thesis by (simp add: str_trim_def)
qed

lemma alphanumeric_graphic: "is_ascii_alphanumeric c \<Longrightarrow> is_graphic c"
  by (auto simp: is_ascii_alphanumeric_def is_ascii_digit_def is_ascii_lowercase_def
      is_ascii_uppercase_def is_graphic_def)

text \<open>Joining the words of \<open>split_whitespace\<close> with single spaces is a canonical form.\<close>

fun ws_free_at :: "string \<Rightarrow> string \<Rightarrow> bool" where
  "ws_free_at [] s = True"
| "ws_free_at (c # cs) s \<longleftrightarrow> drop_any whitespace_seqs (c # cs @ s) = None \<and> ws_free_at cs s"

lemma drop_prefix_eq_None: "drop_prefix p s = None \<longleftrightarrow> (\<forall>r. s \<noteq> p @ r)"
  by (metis drop_prefix_eq_Some not_Some_eq)

lemma drop_any_eq_None: "drop_any ps s = None \<longleftrightarrow> (\<forall>p \<in> set ps. \<forall>r. s \<noteq> p @ r)"
  by (induction ps) (auto simp: drop_prefix_eq_None split: option.split)

lemma drop_any_append_None: "drop_any ps (s @ r) = None \<Longrightarrow> drop_any ps s = None"
  by (auto simp: drop_any_eq_None)

lemma ws_free_at_mono: "ws_free_at w s \<Longrightarrow> ws_free_at w []"
proof (induction w)
  case (Cons c cs)
  then show ?case using drop_any_append_None [of whitespace_seqs "c # cs" s] by simp
qed simp

lemma ws_free_at_snoc:
  "ws_free_at (u @ [c]) s \<longleftrightarrow> ws_free_at u (c # s) \<and> drop_any whitespace_seqs (c # s) = None"
  by (induction u) auto

lemma split_ws_words:
  "ws_free_at (rev acc) s \<Longrightarrow> w \<in> set (split_ws n acc s) \<Longrightarrow> w \<noteq> [] \<and> ws_free_at w []"
proof (induction n acc s rule: split_ws.induct)
  case (1 acc s)
  then show ?case using ws_free_at_mono by (auto split: if_splits)
next
  case (2 n acc s)
  show ?case
  proof (cases s)
    case Nil
    with 2 show ?thesis by (auto split: if_splits)
  next
    case (Cons c cs)
    show ?thesis
    proof (cases "drop_any whitespace_seqs s")
      case None
      then show ?thesis using 2 Cons by (auto simp: ws_free_at_snoc)
    next
      case (Some r)
      then show ?thesis using 2 Cons ws_free_at_mono by (auto split: if_splits)
    qed
  qed
qed

lemma whitespace_seqs_space: "\<forall>p \<in> set whitespace_seqs. 2 \<le> length p \<longrightarrow> CHR '' '' \<notin> set p"
  by (simp add: whitespace_seqs_def)

lemma drop_any_before_space:
  assumes "drop_any whitespace_seqs u = None" and "u \<noteq> []"
  shows "drop_any whitespace_seqs (u @ CHR '' '' # rest) = None"
  unfolding drop_any_eq_None
proof (intro ballI allI notI)
  fix p r
  assume p: "p \<in> set whitespace_seqs" and eq: "u @ CHR '' '' # rest = p @ r"
  from eq consider v where "p @ v = u" | v where "p = u @ CHR '' '' # v"
    by (auto simp: append_eq_append_conv2 Cons_eq_append_conv)
  then show False
  proof cases
    case 1
    then show False using assms(1) p by (auto simp: drop_any_eq_None)
  next
    case 2
    then have "2 \<le> length p" "CHR '' '' \<in> set p" using assms(2) by (cases u; simp)+
    then show False using whitespace_seqs_space p by blast
  qed
qed

lemma drop_any_single:
  assumes "\<forall>p \<in> set ps. p \<noteq> [] \<and> (hd p = c \<longrightarrow> p = [c])" and "[c] \<in> set ps"
  shows "drop_any ps (c # rest) = Some rest"
  using assms
proof (induction ps)
  case (Cons p ps)
  then show ?case by (cases p) auto
qed simp

lemma space_is_whitespace: "drop_any whitespace_seqs (CHR '' '' # rest) = Some rest"
proof (rule drop_any_single)
  show "\<forall>p \<in> set whitespace_seqs. p \<noteq> [] \<and> (hd p = CHR '' '' \<longrightarrow> p = [CHR '' ''])"
    by (simp add: whitespace_seqs_def)
  show "[CHR '' ''] \<in> set whitespace_seqs" by (simp add: whitespace_seqs_def)
qed

lemma split_ws_word:
  "ws_free_at w [] \<Longrightarrow> length w < n \<Longrightarrow>
     split_ws n acc (w @ CHR '' '' # rest) =
       (if acc @ w = [] then [] else [rev acc @ w]) @ split_ws (n - length w - 1) [] rest"
proof (induction w arbitrary: acc n)
  case Nil
  then obtain m where "n = Suc m" by (cases n) auto
  then show ?case by (simp add: space_is_whitespace)
next
  case (Cons c w)
  then obtain m where m: "n = Suc m" by (cases n) auto
  have "drop_any whitespace_seqs ((c # w) @ CHR '' '' # rest) = None"
    using Cons.prems(1) by (intro drop_any_before_space) auto
  then show ?case using Cons m by simp
qed

lemma split_ws_last:
  "ws_free_at w [] \<Longrightarrow> length w < n \<Longrightarrow>
     split_ws n acc w = (if acc @ w = [] then [] else [rev acc @ w])"
proof (induction w arbitrary: acc n)
  case Nil
  then obtain m where "n = Suc m" by (cases n) auto
  then show ?case by simp
next
  case (Cons c w)
  then obtain m where "n = Suc m" by (cases n) auto
  with Cons show ?case by simp
qed

lemma split_ws_join:
  assumes "\<forall>w \<in> set ws. w \<noteq> [] \<and> ws_free_at w []" and "length (join_with '' '' ws) < n"
  shows "split_ws n [] (join_with '' '' ws) = ws"
  using assms
proof (induction ws arbitrary: n rule: induct_list012)
  case 1
  then obtain m where "n = Suc m" by (cases n) auto
  then show ?case by simp
next
  case (2 w)
  then show ?case by (simp add: split_ws_last)
next
  case (3 w v ws)
  then show ?case by (simp add: split_ws_word)
qed

lemma ws_free_graphic: "\<forall>c \<in> set w. is_graphic c \<Longrightarrow> ws_free_at w []"
proof (induction w)
  case (Cons c w)
  then have "drop_any whitespace_seqs (c # w) = None"
    using whitespace_seqs_ends by (intro drop_any_None) auto
  with Cons show ?case by simp
qed simp

lemma split_whitespace_graphic:
  "\<forall>w \<in> set ws. w \<noteq> [] \<and> list_all is_graphic w \<Longrightarrow>
     split_whitespace (join_with '' '' ws) = ws"
  unfolding split_whitespace_def
  by (rule split_ws_join) (auto simp: list_all_iff intro: ws_free_graphic)

lemma split_whitespace_join:
  "split_whitespace (join_with '' '' (split_whitespace s)) = split_whitespace s"
proof -
  have "\<forall>w \<in> set (split_whitespace s). w \<noteq> [] \<and> ws_free_at w []"
    using split_ws_words [of "[]" s] unfolding split_whitespace_def rev.simps ws_free_at.simps
    by blast
  then show ?thesis by (subst split_whitespace_def) (rule split_ws_join, simp_all)
qed

text \<open>\<open>u32::to_string\<close>, \<open>i64::to_string\<close>: decimal digits with a minus sign.\<close>

fun nat_digits :: "nat \<Rightarrow> string" where
  "nat_digits n =
     (if n < 10 then [char_of (48 + n)] else nat_digits (n div 10) @ [char_of (48 + n mod 10)])"

declare nat_digits.simps [simp del]

definition int_to_string :: "int \<Rightarrow> string" where
  "int_to_string i = (if i < 0 then ''-'' @ nat_digits (nat (- i)) else nat_digits (nat i))"

section \<open>Persisted vocabularies\<close>

text \<open>
  Every state column is an enum with an \<open>as_str\<close> and a parser. The interface: the parser
  accepts exactly what \<open>as_str\<close> prints.
\<close>

locale string_enum =
  fixes as_str :: "'a \<Rightarrow> string"
    and parse :: "string \<Rightarrow> 'e + 'a"
  assumes parse_as_str: "parse (as_str x) = Inr x"
    and as_str_parse: "parse s = Inr x \<Longrightarrow> as_str x = s"
begin

lemma parse_iff: "parse s = Inr x \<longleftrightarrow> s = as_str x"
  using parse_as_str as_str_parse by blast

lemma as_str_inj: "as_str x = as_str y \<longleftrightarrow> x = y"
  by (metis parse_as_str sum.inject(2))

lemma parse_rejects: "(\<exists>e. parse s = Inl e) \<longleftrightarrow> s \<notin> range as_str"
  by (cases "parse s") (auto simp: parse_iff parse_as_str)

end

lemma find_SomeD: "List.find P xs = Some v \<Longrightarrow> v \<in> set xs \<and> P v"
  by (induction xs) (auto split: if_splits)

lemma find_append_None: "List.find P xs = None \<Longrightarrow> List.find P (xs @ ys) = List.find P ys"
  by (induction xs) (auto split: if_splits)

lemma distinct_map_filter_weaken:
  assumes "distinct (map key (filter P rows))" and "\<And>r. r \<in> set rows \<Longrightarrow> Q r \<Longrightarrow> P r"
  shows "distinct (map key (filter Q rows))"
proof -
  have eq: "filter Q rows = filter Q (filter P rows)"
    using assms(2) by (induction rows) auto
  show ?thesis unfolding eq by (rule distinct_map_filter [OF assms(1)])
qed

text \<open>A concatenation without repetitions, where empty parts may repeat.\<close>

lemma distinct_concat_map:
  assumes "distinct xs" and "\<And>x. x \<in> set xs \<Longrightarrow> distinct (f x)"
    and "\<And>x y. x \<in> set xs \<Longrightarrow> y \<in> set xs \<Longrightarrow> x \<noteq> y \<Longrightarrow> set (f x) \<inter> set (f y) = {}"
  shows "distinct (concat (map f xs))"
  using assms by (induction xs) fastforce+

end
