(* ===== verification/Scheduler_Policy.thy ===== *)
theory Scheduler_Policy
  imports Prelude
begin

text \<open>
  \<^verbatim>\<open>crates/core/src/scheduler_policy.rs\<close>: the operational policy every scheduled job, run and
  delivery carries as an immutable snapshot, its validation, and the retry arithmetic the stores
  derive from it.

  The policy is a record with the source's integer widths. Comparisons the source performs after
  widening to \<open>u128\<close> are comparisons of \<open>unat\<close> values, since no product reaches \<open>2 ^ 128\<close>.
  A policy deadline or delay added to an \<open>i64\<close> clock uses the checked addition of the prelude.
\<close>

unbundle bit_operations_syntax

section \<open>The policy record\<close>

record policy =
  policy_schema_version :: u32
  recovery_batch_limit :: u16
  materialization_batch_limit :: u16
  occurrence_search_limit :: u32
  tick_interval_ms :: u64
  error_backoff_ms :: u64
  minimum_schedule_cadence_seconds :: u32
  max_active_jobs :: u32
  max_active_jobs_per_owner :: u32
  max_prompt_bytes :: u32
  max_result_bytes :: u32
  max_summary_bytes :: u32
  run_lease_seconds :: u16
  run_heartbeat_interval_ms :: u64
  run_timeout_seconds :: u32
  run_prepare_grace_ms :: u64
  run_cancellation_grace_ms :: u64
  run_finalization_grace_ms :: u64
  run_retry_base_seconds :: u32
  run_retry_max_seconds :: u32
  run_deadline_seconds :: u32
  run_max_attempts :: u16
  delivery_tick_interval_ms :: u64
  delivery_batch_limit :: u16
  delivery_lease_seconds :: u16
  delivery_heartbeat_interval_ms :: u64
  delivery_readiness_timeout_seconds :: u16
  delivery_send_timeout_seconds :: u16
  delivery_finalization_timeout_seconds :: u16
  delivery_max_attempts :: u16
  delivery_retry_base_seconds :: u32
  delivery_retry_max_seconds :: u32
  delivery_retry_after_max_seconds :: u32
  delivery_deadline_seconds :: u32
  delivery_readiness_retry_base_seconds :: u16
  delivery_readiness_retry_max_seconds :: u16

record policy_error =
  err_field :: string
  err_reason :: string

definition SCHEDULER_OPERATIONAL_POLICY_VERSION :: u32 where
  "SCHEDULER_OPERATIONAL_POLICY_VERSION = 1"

definition default_policy :: policy where
  "default_policy = \<lparr>
     policy_schema_version = SCHEDULER_OPERATIONAL_POLICY_VERSION,
     recovery_batch_limit = 32,
     materialization_batch_limit = 32,
     occurrence_search_limit = 100000,
     tick_interval_ms = 250,
     error_backoff_ms = 1000,
     minimum_schedule_cadence_seconds = 60,
     max_active_jobs = 1000,
     max_active_jobs_per_owner = 100,
     max_prompt_bytes = 64 * 1024,
     max_result_bytes = 64 * 1024,
     max_summary_bytes = 32 * 1024,
     run_lease_seconds = 60,
     run_heartbeat_interval_ms = 15000,
     run_timeout_seconds = 1800,
     run_prepare_grace_ms = 5000,
     run_cancellation_grace_ms = 5000,
     run_finalization_grace_ms = 5000,
     run_retry_base_seconds = 30,
     run_retry_max_seconds = 300,
     run_deadline_seconds = 3600,
     run_max_attempts = 3,
     delivery_tick_interval_ms = 250,
     delivery_batch_limit = 32,
     delivery_lease_seconds = 60,
     delivery_heartbeat_interval_ms = 10000,
     delivery_readiness_timeout_seconds = 10,
     delivery_send_timeout_seconds = 30,
     delivery_finalization_timeout_seconds = 5,
     delivery_max_attempts = 5,
     delivery_retry_base_seconds = 5,
     delivery_retry_max_seconds = 300,
     delivery_retry_after_max_seconds = 3600,
     delivery_deadline_seconds = 3600,
     delivery_readiness_retry_base_seconds = 1,
     delivery_readiness_retry_max_seconds = 60 \<rparr>"

definition legacy_compatible :: policy where
  "legacy_compatible = default_policy \<lparr>
     minimum_schedule_cadence_seconds := 1,
     max_active_jobs := 1000000,
     max_active_jobs_per_owner := 1000000,
     max_summary_bytes := 64 * 1024,
     run_retry_max_seconds := 30 \<rparr>"

section \<open>Validation\<close>

definition invalid :: "string \<Rightarrow> string \<Rightarrow> policy_error" where
  "invalid f r = \<lparr>err_field = f, err_reason = r\<rparr>"

definition validate_eq :: "string \<Rightarrow> 'a \<Rightarrow> 'a \<Rightarrow> string \<Rightarrow> policy_error + unit" where
  "validate_eq f v expected r = (if v \<noteq> expected then Inl (invalid f r) else Inr ())"

definition validate_range ::
  "string \<Rightarrow> 'a::linorder \<Rightarrow> 'a \<Rightarrow> 'a \<Rightarrow> policy_error + unit" where
  "validate_range f v lo hi =
     (if v < lo \<or> v > hi then Inl (invalid f ''is outside the supported range'') else Inr ())"

definition validate_heartbeat :: "string \<Rightarrow> u64 \<Rightarrow> u16 \<Rightarrow> policy_error + unit" where
  "validate_heartbeat f heartbeat_ms lease_seconds =
     (if heartbeat_ms = 0 \<or> unat heartbeat_ms * 3 \<ge> unat lease_seconds * 1000
      then Inl (invalid f ''must be positive and strictly shorter than one third of its lease'')
      else Inr ())"

definition validate_run_policy :: "policy \<Rightarrow> policy_error + unit" where
  "validate_run_policy p = check_all [
     validate_range ''run_lease_seconds'' (run_lease_seconds p) 5 3600,
     validate_heartbeat ''run_heartbeat_interval_ms''
       (run_heartbeat_interval_ms p) (run_lease_seconds p),
     guard_err (unat (tick_interval_ms p) \<ge> unat (run_lease_seconds p) * 1000)
       (invalid ''tick_interval_ms'' ''must be shorter than run_lease_seconds''),
     validate_range ''run_timeout_seconds'' (run_timeout_seconds p) 1 21600,
     validate_range ''run_prepare_grace_ms'' (run_prepare_grace_ms p) 1 60000,
     validate_range ''run_cancellation_grace_ms'' (run_cancellation_grace_ms p) 3 60000,
     validate_range ''run_finalization_grace_ms'' (run_finalization_grace_ms p) 1 60000,
     validate_range ''run_retry_base_seconds'' (run_retry_base_seconds p) 1 86400,
     validate_range ''run_retry_max_seconds'' (run_retry_max_seconds p)
       (run_retry_base_seconds p) 86400,
     validate_range ''run_deadline_seconds'' (run_deadline_seconds p) 1 604800,
     validate_range ''run_max_attempts'' (run_max_attempts p) 1 20,
     guard_err
       (unat (run_timeout_seconds p) * 1000 + unat (run_prepare_grace_ms p)
          + unat (run_cancellation_grace_ms p) + unat (run_finalization_grace_ms p)
        > unat (run_deadline_seconds p) * 1000)
       (invalid ''run_deadline_seconds''
          ''must cover run timeout and all completion grace intervals'')]"

definition validate_delivery_policy :: "policy \<Rightarrow> policy_error + unit" where
  "validate_delivery_policy p = check_all [
     validate_range ''delivery_tick_interval_ms'' (delivery_tick_interval_ms p) 10 60000,
     validate_range ''delivery_batch_limit'' (delivery_batch_limit p) 1 1024,
     validate_range ''delivery_lease_seconds'' (delivery_lease_seconds p) 5 3600,
     validate_heartbeat ''delivery_heartbeat_interval_ms''
       (delivery_heartbeat_interval_ms p) (delivery_lease_seconds p),
     guard_err (unat (delivery_tick_interval_ms p) \<ge> unat (delivery_lease_seconds p) * 1000)
       (invalid ''delivery_tick_interval_ms'' ''must be shorter than delivery_lease_seconds''),
     validate_range ''delivery_readiness_timeout_seconds''
       (delivery_readiness_timeout_seconds p) 1 300,
     validate_range ''delivery_send_timeout_seconds'' (delivery_send_timeout_seconds p) 1 3600,
     validate_range ''delivery_finalization_timeout_seconds''
       (delivery_finalization_timeout_seconds p) 1 60,
     validate_range ''delivery_max_attempts'' (delivery_max_attempts p) 1 20,
     validate_range ''delivery_retry_base_seconds'' (delivery_retry_base_seconds p) 1 3600,
     validate_range ''delivery_retry_max_seconds'' (delivery_retry_max_seconds p)
       (delivery_retry_base_seconds p) 86400,
     validate_range ''delivery_retry_after_max_seconds'' (delivery_retry_after_max_seconds p)
       1 (delivery_deadline_seconds p),
     validate_range ''delivery_deadline_seconds'' (delivery_deadline_seconds p) 1 604800,
     validate_range ''delivery_readiness_retry_base_seconds''
       (delivery_readiness_retry_base_seconds p) 1 3600,
     validate_range ''delivery_readiness_retry_max_seconds''
       (delivery_readiness_retry_max_seconds p) (delivery_readiness_retry_base_seconds p) 3600,
     guard_err
       (saturating_add_u32 (ucast (delivery_send_timeout_seconds p))
          (ucast (delivery_finalization_timeout_seconds p)) > delivery_deadline_seconds p)
       (invalid ''delivery_deadline_seconds''
          ''must cover delivery send and finalization timeouts'')]"

definition validate_policy :: "policy \<Rightarrow> policy_error + unit" where
  "validate_policy p = check_all [
     validate_eq ''schema_version'' (policy_schema_version p)
       SCHEDULER_OPERATIONAL_POLICY_VERSION
       ''must be the supported scheduler policy schema version'',
     validate_range ''recovery_batch_limit'' (recovery_batch_limit p) 1 1024,
     validate_range ''materialization_batch_limit'' (materialization_batch_limit p) 1 1024,
     validate_range ''occurrence_search_limit'' (occurrence_search_limit p) 1 1000000,
     validate_range ''tick_interval_ms'' (tick_interval_ms p) 10 60000,
     validate_range ''error_backoff_ms'' (error_backoff_ms p) 10 300000,
     validate_range ''minimum_schedule_cadence_seconds''
       (minimum_schedule_cadence_seconds p) 1 86400,
     validate_range ''max_active_jobs'' (max_active_jobs p) 1 1000000,
     validate_range ''max_active_jobs_per_owner'' (max_active_jobs_per_owner p)
       1 (max_active_jobs p),
     validate_range ''max_prompt_bytes'' (max_prompt_bytes p) 1 (256 * 1024),
     validate_range ''max_result_bytes'' (max_result_bytes p) 1 (256 * 1024),
     validate_range ''max_summary_bytes'' (max_summary_bytes p) 1 (max_result_bytes p),
     validate_run_policy p,
     validate_delivery_policy p]"

section \<open>Retry arithmetic\<close>

text \<open>FNV-1a over the identity's bytes, with \<open>wrapping_mul\<close> as word multiplication.\<close>

definition stable_hash :: "string \<Rightarrow> u64" where
  "stable_hash value =
     fold (\<lambda>byte hash. (hash XOR of_nat (byte_val byte)) * 0x00000100000001b3)
       value 0xcbf29ce484222325"

text \<open>\<open>u32::checked_shl\<close> refuses a shift amount of 32 or more; shifted-out bits are dropped.\<close>

definition checked_shl_u32 :: "u32 \<Rightarrow> nat \<Rightarrow> u32 option" where
  "checked_shl_u32 w n = (if n < 32 then Some (push_bit n w) else None)"

definition unwrap_or :: "'a option \<Rightarrow> 'a \<Rightarrow> 'a" where
  "unwrap_or x d = (case x of None \<Rightarrow> d | Some v \<Rightarrow> v)"

definition backoff_exponent :: "i64 \<Rightarrow> nat" where
  "backoff_exponent attempt = nat (clamp_int 0 31 (saturating_sub_i64 attempt 1))"

definition u32_try_from_u64 :: "u64 \<Rightarrow> u32 option" where
  "u32_try_from_u64 w = (if unat w < 2 ^ 32 then Some (ucast w) else None)"

definition bounded_exponential_delay :: "u32 \<Rightarrow> u32 \<Rightarrow> string \<Rightarrow> i64 \<Rightarrow> u32" where
  "bounded_exponential_delay base cap identity attempt =
     (let exponential = min (unwrap_or (checked_shl_u32 base (backoff_exponent attempt)) cap) cap;
          jitter_bound = max (exponential div 4) 1;
          jitter = stable_hash identity mod ucast jitter_bound
      in min (saturating_add_u32 exponential (unwrap_or (u32_try_from_u64 jitter) (- 1))) cap)"

definition run_retry_delay_seconds :: "policy \<Rightarrow> string \<Rightarrow> i64 \<Rightarrow> u32" where
  "run_retry_delay_seconds p run_id attempt =
     bounded_exponential_delay (run_retry_base_seconds p) (run_retry_max_seconds p)
       run_id attempt"

definition delivery_retry_delay_seconds :: "policy \<Rightarrow> string \<Rightarrow> i64 \<Rightarrow> u32" where
  "delivery_retry_delay_seconds p delivery_id attempt =
     bounded_exponential_delay (delivery_retry_base_seconds p) (delivery_retry_max_seconds p)
       delivery_id attempt"

definition run_deadline_at :: "policy \<Rightarrow> i64 \<Rightarrow> i64 option" where
  "run_deadline_at p scheduled_for = checked_add scheduled_for (uint (run_deadline_seconds p))"

definition delivery_deadline_at :: "policy \<Rightarrow> i64 \<Rightarrow> i64 option" where
  "delivery_deadline_at p payload_created_at =
     checked_add payload_created_at (uint (delivery_deadline_seconds p))"

definition can_retry :: "i64 \<Rightarrow> u16 \<Rightarrow> i64 \<Rightarrow> i64 \<Rightarrow> bool" where
  "can_retry attempt max_attempts next_at absolute_deadline \<longleftrightarrow>
     attempt < uint max_attempts \<and> next_at < absolute_deadline"

definition run_retry_at :: "policy \<Rightarrow> string \<Rightarrow> i64 \<Rightarrow> i64 \<Rightarrow> i64 \<Rightarrow> i64 option" where
  "run_retry_at p run_id attempt scheduled_for now =
     Option.bind (checked_add now (uint (run_retry_delay_seconds p run_id attempt))) (\<lambda>nxt.
     Option.bind (run_deadline_at p scheduled_for) (\<lambda>deadline.
       if can_retry attempt (run_max_attempts p) nxt deadline then Some nxt else None))"

text \<open>\<open>Ord::clamp\<close> asserts \<open>min \<le> max\<close>: with a zero \<open>delivery_retry_after_max_seconds\<close> the
  source panics, so \<open>delivery_retry_at\<close> is a result whose error is that panic.\<close>

datatype panic = ClampMinExceedsMax

definition retry_after_delay :: "policy \<Rightarrow> u64 option \<Rightarrow> panic + i64" where
  "retry_after_delay p retry_after_seconds =
     (case retry_after_seconds of
        None \<Rightarrow> Inr 0
      | Some seconds \<Rightarrow>
          (let limit = uint (delivery_retry_after_max_seconds p);
               value = (if in_i64 (uint seconds) then uint seconds else limit)
           in if limit < 1 then Inl ClampMinExceedsMax else Inr (clamp_int 1 limit value)))"

definition delivery_retry_at ::
  "policy \<Rightarrow> string \<Rightarrow> i64 \<Rightarrow> i64 \<Rightarrow> i64 \<Rightarrow> u64 option \<Rightarrow> panic + i64 option" where
  "delivery_retry_at p delivery_id attempt payload_created_at now retry_after_seconds =
     rbind (retry_after_delay p retry_after_seconds) (\<lambda>retry_after.
       Inr (Option.bind
         (checked_add now (max (uint (delivery_retry_delay_seconds p delivery_id attempt))
            retry_after)) (\<lambda>nxt.
         Option.bind (delivery_deadline_at p payload_created_at) (\<lambda>deadline.
           if can_retry attempt (delivery_max_attempts p) nxt deadline
           then Some nxt else None))))"

definition delivery_can_retry_at :: "policy \<Rightarrow> i64 \<Rightarrow> i64 \<Rightarrow> i64 \<Rightarrow> bool" where
  "delivery_can_retry_at p attempt payload_created_at next_at =
     (case delivery_deadline_at p payload_created_at of
        None \<Rightarrow> False
      | Some deadline \<Rightarrow> can_retry attempt (delivery_max_attempts p) next_at deadline)"

section \<open>The coherence contract\<close>

text \<open>
  What a validated policy promises its consumers, stated over natural numbers: every limit in its
  supported range, each heartbeat below a third of its lease, each tick below its lease, and each
  deadline long enough for the work it bounds.
\<close>

definition run_coherent :: "policy \<Rightarrow> bool" where
  "run_coherent p \<longleftrightarrow>
     (5 \<le> unat (run_lease_seconds p) \<and> unat (run_lease_seconds p) \<le> 3600) \<and>
     (0 < unat (run_heartbeat_interval_ms p) \<and>
        3 * unat (run_heartbeat_interval_ms p) < 1000 * unat (run_lease_seconds p)) \<and>
     unat (tick_interval_ms p) < 1000 * unat (run_lease_seconds p) \<and>
     (1 \<le> unat (run_timeout_seconds p) \<and> unat (run_timeout_seconds p) \<le> 21600) \<and>
     (1 \<le> unat (run_prepare_grace_ms p) \<and> unat (run_prepare_grace_ms p) \<le> 60000) \<and>
     (3 \<le> unat (run_cancellation_grace_ms p) \<and> unat (run_cancellation_grace_ms p) \<le> 60000) \<and>
     (1 \<le> unat (run_finalization_grace_ms p) \<and> unat (run_finalization_grace_ms p) \<le> 60000) \<and>
     (1 \<le> unat (run_retry_base_seconds p) \<and> unat (run_retry_base_seconds p) \<le> 86400) \<and>
     (unat (run_retry_base_seconds p) \<le> unat (run_retry_max_seconds p) \<and>
        unat (run_retry_max_seconds p) \<le> 86400) \<and>
     (1 \<le> unat (run_deadline_seconds p) \<and> unat (run_deadline_seconds p) \<le> 604800) \<and>
     (1 \<le> unat (run_max_attempts p) \<and> unat (run_max_attempts p) \<le> 20) \<and>
     1000 * unat (run_timeout_seconds p) + unat (run_prepare_grace_ms p)
       + unat (run_cancellation_grace_ms p) + unat (run_finalization_grace_ms p)
       \<le> 1000 * unat (run_deadline_seconds p)"

definition delivery_coherent :: "policy \<Rightarrow> bool" where
  "delivery_coherent p \<longleftrightarrow>
     (10 \<le> unat (delivery_tick_interval_ms p) \<and> unat (delivery_tick_interval_ms p) \<le> 60000) \<and>
     (1 \<le> unat (delivery_batch_limit p) \<and> unat (delivery_batch_limit p) \<le> 1024) \<and>
     (5 \<le> unat (delivery_lease_seconds p) \<and> unat (delivery_lease_seconds p) \<le> 3600) \<and>
     (0 < unat (delivery_heartbeat_interval_ms p) \<and>
        3 * unat (delivery_heartbeat_interval_ms p) < 1000 * unat (delivery_lease_seconds p)) \<and>
     unat (delivery_tick_interval_ms p) < 1000 * unat (delivery_lease_seconds p) \<and>
     (1 \<le> unat (delivery_readiness_timeout_seconds p) \<and>
        unat (delivery_readiness_timeout_seconds p) \<le> 300) \<and>
     (1 \<le> unat (delivery_send_timeout_seconds p) \<and>
        unat (delivery_send_timeout_seconds p) \<le> 3600) \<and>
     (1 \<le> unat (delivery_finalization_timeout_seconds p) \<and>
        unat (delivery_finalization_timeout_seconds p) \<le> 60) \<and>
     (1 \<le> unat (delivery_max_attempts p) \<and> unat (delivery_max_attempts p) \<le> 20) \<and>
     (1 \<le> unat (delivery_retry_base_seconds p) \<and> unat (delivery_retry_base_seconds p) \<le> 3600) \<and>
     (unat (delivery_retry_base_seconds p) \<le> unat (delivery_retry_max_seconds p) \<and>
        unat (delivery_retry_max_seconds p) \<le> 86400) \<and>
     (1 \<le> unat (delivery_retry_after_max_seconds p) \<and>
        unat (delivery_retry_after_max_seconds p) \<le> unat (delivery_deadline_seconds p)) \<and>
     (1 \<le> unat (delivery_deadline_seconds p) \<and> unat (delivery_deadline_seconds p) \<le> 604800) \<and>
     (1 \<le> unat (delivery_readiness_retry_base_seconds p) \<and>
        unat (delivery_readiness_retry_base_seconds p) \<le> 3600) \<and>
     (unat (delivery_readiness_retry_base_seconds p)
          \<le> unat (delivery_readiness_retry_max_seconds p) \<and>
        unat (delivery_readiness_retry_max_seconds p) \<le> 3600) \<and>
     unat (delivery_send_timeout_seconds p) + unat (delivery_finalization_timeout_seconds p)
       \<le> unat (delivery_deadline_seconds p)"

definition policy_coherent :: "policy \<Rightarrow> bool" where
  "policy_coherent p \<longleftrightarrow>
     policy_schema_version p = SCHEDULER_OPERATIONAL_POLICY_VERSION \<and>
     (1 \<le> unat (recovery_batch_limit p) \<and> unat (recovery_batch_limit p) \<le> 1024) \<and>
     (1 \<le> unat (materialization_batch_limit p) \<and> unat (materialization_batch_limit p) \<le> 1024) \<and>
     (1 \<le> unat (occurrence_search_limit p) \<and> unat (occurrence_search_limit p) \<le> 1000000) \<and>
     (10 \<le> unat (tick_interval_ms p) \<and> unat (tick_interval_ms p) \<le> 60000) \<and>
     (10 \<le> unat (error_backoff_ms p) \<and> unat (error_backoff_ms p) \<le> 300000) \<and>
     (1 \<le> unat (minimum_schedule_cadence_seconds p) \<and>
        unat (minimum_schedule_cadence_seconds p) \<le> 86400) \<and>
     (1 \<le> unat (max_active_jobs p) \<and> unat (max_active_jobs p) \<le> 1000000) \<and>
     (1 \<le> unat (max_active_jobs_per_owner p) \<and>
        unat (max_active_jobs_per_owner p) \<le> unat (max_active_jobs p)) \<and>
     (1 \<le> unat (max_prompt_bytes p) \<and> unat (max_prompt_bytes p) \<le> 262144) \<and>
     (1 \<le> unat (max_result_bytes p) \<and> unat (max_result_bytes p) \<le> 262144) \<and>
     (1 \<le> unat (max_summary_bytes p) \<and> unat (max_summary_bytes p) \<le> unat (max_result_bytes p)) \<and>
     run_coherent p \<and> delivery_coherent p"

lemma is_ok_validate_range [simp]:
  fixes v :: "'a::len word"
  shows "is_ok (validate_range f v lo hi) \<longleftrightarrow> unat lo \<le> unat v \<and> unat v \<le> unat hi"
  by (simp add: validate_range_def word_less_nat_alt not_less)

lemma is_ok_validate_eq [simp]: "is_ok (validate_eq f v e r) \<longleftrightarrow> v = e"
  by (simp add: validate_eq_def)

lemma is_ok_validate_heartbeat [simp]:
  "is_ok (validate_heartbeat f h l) \<longleftrightarrow> 0 < unat h \<and> 3 * unat h < 1000 * unat l"
  by (auto simp: validate_heartbeat_def unat_gt_0)

lemma is_ok_validate_run_policy [simp]: "is_ok (validate_run_policy p) \<longleftrightarrow> run_coherent p"
  by (simp add: validate_run_policy_def run_coherent_def not_le not_less mult.commute)

lemma deadline_covers_iff:
  fixes s f :: u16
  shows "saturating_add_u32 (ucast s) (ucast f) \<le> d \<longleftrightarrow> unat s + unat f \<le> unat d"
  using unat_bounds(1) [of s] unat_bounds(1) [of f]
  by (simp add: word_le_nat_alt unat_saturating_add_u32)

lemma is_ok_validate_delivery_policy [simp]:
  "is_ok (validate_delivery_policy p) \<longleftrightarrow> delivery_coherent p"
  by (simp add: validate_delivery_policy_def delivery_coherent_def not_le not_less mult.commute
      deadline_covers_iff)

lemma validate_policy_okD:
  assumes "validate_policy p = Inr ()"
  shows "policy_coherent p"
  using assms is_ok_check_all [of "[]"]
  by (simp add: validate_policy_def policy_coherent_def check_all_eq_Inr)

lemma policy_coherent_run: "policy_coherent p \<Longrightarrow> run_coherent p"
  by (simp add: policy_coherent_def)

lemma policy_coherent_delivery: "policy_coherent p \<Longrightarrow> delivery_coherent p"
  by (simp add: policy_coherent_def)

lemma default_policies_valid:
  "validate_policy default_policy = Inr ()" "validate_policy legacy_compatible = Inr ()"
  by (simp_all add: check_all_eq_Inr validate_policy_def default_policy_def legacy_compatible_def
      run_coherent_def delivery_coherent_def SCHEDULER_OPERATIONAL_POLICY_VERSION_def)

section \<open>Backoff\<close>

lemma backoff_exponent_less: "backoff_exponent attempt < 32"
  by (auto simp: backoff_exponent_def clamp_int_def nat_less_iff)

lemma backoff_exponent_small:
  "1 \<le> attempt \<Longrightarrow> attempt \<le> 32 \<Longrightarrow> backoff_exponent attempt = nat (attempt - 1)"
  by (simp add: backoff_exponent_def clamp_int_def saturating_sub_i64_def i64_defs)

text \<open>The delay over natural numbers: \<open>checked_shl\<close> keeps the low 32 bits of the product.\<close>

definition exponential_nat :: "nat \<Rightarrow> nat \<Rightarrow> nat \<Rightarrow> nat" where
  "exponential_nat base cap e = min (base * 2 ^ e mod 2 ^ 32) cap"

lemma unat_push_bit_u32: "unat (push_bit n (w :: u32)) = unat w * 2 ^ n mod 2 ^ 32"
  by (subst unsigned_push_bit_eq) (simp add: take_bit_eq_mod push_bit_eq_mult)

lemma unat_exponential:
  "unat (min (unwrap_or (checked_shl_u32 base (backoff_exponent attempt)) cap) cap)
     = exponential_nat (unat base) (unat cap) (backoff_exponent attempt)"
  using backoff_exponent_less [of attempt] unat_push_bit_u32 [of "backoff_exponent attempt" base]
  by (simp add: checked_shl_u32_def unwrap_or_def unat_min exponential_nat_def)

lemma unat_delay:
  "unat (bounded_exponential_delay base cap identity attempt) =
     (let x = exponential_nat (unat base) (unat cap) (backoff_exponent attempt)
      in min (x + unat (stable_hash identity) mod max (x div 4) 1) (unat cap))"
proof -
  define x where
    "x = min (unwrap_or (checked_shl_u32 base (backoff_exponent attempt)) cap) cap"
  define b where "b = max (x div 4) 1"
  define j :: u64 where "j = stable_hash identity mod ucast b"
  have b: "unat b = max (unat x div 4) 1"
    by (simp add: b_def unat_max unat_div)
  have j: "unat j = unat (stable_hash identity) mod unat b"
    by (simp add: j_def unat_mod)
  have "unat b < 2 ^ 32" "0 < unat b" using unat_bounds(2) [of b] b by simp_all
  then have "unat j < 2 ^ 32"
    using mod_less_divisor [of "unat b" "unat (stable_hash identity)"] j by linarith
  then have "unat (unwrap_or (u32_try_from_u64 j) (- 1)) = unat j"
    by (simp add: u32_try_from_u64_def unwrap_or_def unat_ucast_64_32)
  moreover have "bounded_exponential_delay base cap identity attempt =
      min (saturating_add_u32 x (unwrap_or (u32_try_from_u64 j) (- 1))) cap"
    by (simp add: bounded_exponential_delay_def x_def b_def j_def Let_def)
  ultimately have "unat (bounded_exponential_delay base cap identity attempt)
      = min (unat x + unat j) (unat cap)"
    using unat_bounds(2) [of cap] by (simp add: unat_min unat_saturating_add_u32)
  then show ?thesis
    using b j unat_exponential [of base attempt cap] by (simp add: x_def Let_def)
qed

lemma delay_le_cap:
  "unat (bounded_exponential_delay base cap identity attempt) \<le> unat cap"
  by (simp add: unat_delay Let_def)

lemma delay_window:
  fixes base cap :: u32
  assumes "unat base * 2 ^ backoff_exponent attempt < 2 ^ 32"
  defines "x \<equiv> min (unat base * 2 ^ backoff_exponent attempt) (unat cap)"
  shows "x \<le> unat (bounded_exponential_delay base cap identity attempt)"
    and "unat (bounded_exponential_delay base cap identity attempt) \<le> x + x div 4"
proof -
  have x: "exponential_nat (unat base) (unat cap) (backoff_exponent attempt) = x"
    using assms(1) by (simp add: exponential_nat_def x_def)
  show "x \<le> unat (bounded_exponential_delay base cap identity attempt)"
    by (simp add: unat_delay x Let_def) (simp add: x_def)
  have "unat (stable_hash identity) mod max (x div 4) 1 \<le> x div 4"
    using mod_less_divisor [of "max (x div 4) 1" "unat (stable_hash identity)"] by linarith
  then show "unat (bounded_exponential_delay base cap identity attempt) \<le> x + x div 4"
    by (simp add: unat_delay x Let_def)
qed

lemma delivery_shift_no_overflow:
  assumes "delivery_coherent p" and "1 \<le> attempt" and "attempt \<le> uint (delivery_max_attempts p)"
  shows "backoff_exponent attempt = nat (attempt - 1)"
    and "unat (delivery_retry_base_seconds p) * 2 ^ backoff_exponent attempt < 2 ^ 32"
proof -
  have "attempt \<le> 20"
    using assms(3) unat_le_imp_uint_le [of "delivery_max_attempts p" 20] assms(1)
    by (simp add: delivery_coherent_def)
  then show e: "backoff_exponent attempt = nat (attempt - 1)"
    using assms(2) by (simp add: backoff_exponent_small)
  have "nat (attempt - 1) \<le> 19" using \<open>attempt \<le> 20\<close> by simp
  then have "(2 :: nat) ^ backoff_exponent attempt \<le> 2 ^ 19"
    unfolding e by (rule power_increasing) simp
  moreover have "unat (delivery_retry_base_seconds p) \<le> 3600"
    using assms(1) by (simp add: delivery_coherent_def)
  ultimately have "unat (delivery_retry_base_seconds p) * 2 ^ backoff_exponent attempt
      \<le> 3600 * 2 ^ 19"
    using mult_le_mono by blast
  then show "unat (delivery_retry_base_seconds p) * 2 ^ backoff_exponent attempt < 2 ^ 32"
    by simp
qed

text \<open>
  Under a valid policy a delivery's retry delay is the capped exponential plus at most a
  quarter of it: for every attempt the policy allows, the delay is at least
  \<open>min (base * 2 ^ (attempt - 1)) cap\<close>, at most five quarters of that, and never above the cap.
\<close>

lemma delivery_delay_is_bounded_exponential:
  assumes "validate_policy p = Inr ()"
    and "1 \<le> attempt" and "attempt \<le> uint (delivery_max_attempts p)"
  shows "let x = min (unat (delivery_retry_base_seconds p) * 2 ^ nat (attempt - 1))
                     (unat (delivery_retry_max_seconds p));
             d = unat (delivery_retry_delay_seconds p delivery_id attempt)
         in 1 \<le> x \<and> x \<le> d \<and> d \<le> x + x div 4 \<and> d \<le> unat (delivery_retry_max_seconds p)"
proof -
  have coh: "delivery_coherent p"
    using assms(1) validate_policy_okD policy_coherent_delivery by blast
  note shift = delivery_shift_no_overflow [OF coh assms(2,3)]
  have "1 \<le> unat (delivery_retry_base_seconds p)" "1 \<le> unat (delivery_retry_max_seconds p)"
    using coh by (auto simp: delivery_coherent_def)
  then show ?thesis
    using delay_window [OF shift(2), of "delivery_retry_max_seconds p" delivery_id]
      delay_le_cap [of "delivery_retry_base_seconds p" "delivery_retry_max_seconds p"
        delivery_id attempt]
    by (simp add: shift(1) delivery_retry_delay_seconds_def Let_def)
qed

text \<open>A valid policy in which the exponential of run retries leaves 32 bits.\<close>

definition wrapping_policy :: policy where
  "wrapping_policy = default_policy \<lparr>
     run_retry_base_seconds := 65536, run_retry_max_seconds := 86400,
     run_deadline_seconds := 604800, run_max_attempts := 20 \<rparr>"

lemma wrapping_policy_valid: "validate_policy wrapping_policy = Inr ()"
  by (simp add: check_all_eq_Inr validate_policy_def default_policy_def wrapping_policy_def
      run_coherent_def delivery_coherent_def SCHEDULER_OPERATIONAL_POLICY_VERSION_def)

text \<open>
  C34: run backoff can collapse. \<open>checked_shl\<close> only refuses shift amounts of 32 or more and
  silently drops shifted-out bits, so a policy that passes validation (base 65536 s, cap 86400 s,
  20 attempts) yields a zero delay at attempt 17, although attempts 1 and 2 wait at least the base:
  the retry of that attempt is scheduled at the very instant of the failure.
\<close>

theorem run_backoff_collapses:
  "validate_policy wrapping_policy = Inr () \<and>
   (17 :: int) < uint (run_max_attempts wrapping_policy) \<and>
   65536 \<le> unat (run_retry_delay_seconds wrapping_policy run_id 1) \<and>
   run_retry_delay_seconds wrapping_policy run_id 17 = 0 \<and>
   run_retry_at wrapping_policy run_id 17 1000 1000 = Some 1000"
proof -
  have e: "backoff_exponent 17 = 16" "backoff_exponent 1 = 0"
    by (simp_all add: backoff_exponent_small)
  have z: "unat (run_retry_delay_seconds wrapping_policy run_id 17) = 0"
    by (simp add: run_retry_delay_seconds_def unat_delay e wrapping_policy_def exponential_nat_def)
  have "65536 \<le> unat (run_retry_delay_seconds wrapping_policy run_id 1)"
    by (simp add: run_retry_delay_seconds_def unat_delay e wrapping_policy_def
        exponential_nat_def Let_def)
  then show ?thesis
    using z wrapping_policy_valid
    by (simp add: unat_eq_0 run_retry_at_def run_deadline_at_def can_retry_def checked_add_def
        i64_defs) (simp add: wrapping_policy_def)
qed

section \<open>Deadline-bounded retries\<close>

text \<open>
  The contract the run and delivery stores rely on: a granted retry consumes one of a bounded
  number of attempts, never lies in the past and lies before the absolute deadline.
\<close>

text \<open>Successive failures: each entry is the instant of the next failure, not before the retry
  granted for the previous one.\<close>

fun retry_chain :: "(i64 \<Rightarrow> i64 \<Rightarrow> i64 option) \<Rightarrow> i64 \<Rightarrow> i64 \<Rightarrow> i64 list \<Rightarrow> bool" where
  "retry_chain retry attempt now [] = True"
| "retry_chain retry attempt now (t # ts) \<longleftrightarrow>
     (case retry attempt now of
        None \<Rightarrow> False
      | Some r \<Rightarrow> r \<le> t \<and> retry_chain retry (attempt + 1) t ts)"

locale deadline_retry =
  fixes retry :: "i64 \<Rightarrow> i64 \<Rightarrow> i64 option"
    and max_attempts :: int
    and deadline :: int
  assumes granted: "retry attempt now = Some t \<Longrightarrow>
      attempt < max_attempts \<and> now \<le> t \<and> t < deadline"
begin

lemma chain_length: "retry_chain retry attempt now ts \<Longrightarrow> ts \<noteq> [] \<Longrightarrow> attempt + int (length ts) \<le> max_attempts"
proof (induction ts arbitrary: attempt now)
  case Nil
  then show ?case by simp
next
  case (Cons t ts)
  then obtain r where r: "retry attempt now = Some r" "retry_chain retry (attempt + 1) t ts"
    by (auto split: option.splits)
  show ?case
  proof (cases "ts = []")
    case True
    then show ?thesis using granted [OF r(1)] by simp
  next
    case False
    then show ?thesis using Cons.IH [OF r(2)] by simp
  qed
qed

lemma chain_sorted: "retry_chain retry attempt now ts \<Longrightarrow> sorted (now # ts)"
proof (induction ts arbitrary: attempt now)
  case Nil
  then show ?case by simp
next
  case (Cons t ts)
  then obtain r where r: "retry attempt now = Some r" "r \<le> t" "retry_chain retry (attempt + 1) t ts"
    by (auto split: option.splits)
  then show ?case using Cons.IH [OF r(3)] granted [OF r(1)] by auto
qed

lemma chain_before_deadline: "retry_chain retry attempt now ts \<Longrightarrow> ts \<noteq> [] \<Longrightarrow> \<forall>t \<in> set (now # butlast ts). t < deadline"
proof (induction ts arbitrary: attempt now)
  case Nil
  then show ?case by simp
next
  case (Cons t ts)
  then obtain r where r: "retry attempt now = Some r" "r \<le> t" "retry_chain retry (attempt + 1) t ts"
    by (auto split: option.splits)
  then show ?case using Cons.IH [OF r(3)] granted [OF r(1)] by (cases ts) auto
qed

end

interpretation run_retry: deadline_retry
  "\<lambda>attempt now. run_retry_at p run_id attempt scheduled_for now"
  "uint (run_max_attempts p)" "scheduled_for + uint (run_deadline_seconds p)"
  for p run_id scheduled_for
  by unfold_locales
    (auto simp: run_retry_at_def run_deadline_at_def can_retry_def bind_eq_Some_conv
      split: if_splits)

definition delivery_retry_granted ::
  "policy \<Rightarrow> string \<Rightarrow> i64 \<Rightarrow> u64 option \<Rightarrow> i64 \<Rightarrow> i64 \<Rightarrow> i64 option" where
  "delivery_retry_granted p delivery_id created retry_after attempt now =
     (case delivery_retry_at p delivery_id attempt created now retry_after of
        Inl _ \<Rightarrow> None | Inr next \<Rightarrow> next)"

interpretation delivery_retry: deadline_retry
  "delivery_retry_granted p delivery_id created retry_after"
  "uint (delivery_max_attempts p)" "created + uint (delivery_deadline_seconds p)"
  for p delivery_id created retry_after
  by unfold_locales
    (auto simp: delivery_retry_granted_def delivery_retry_at_def delivery_deadline_at_def
      can_retry_def bind_eq_Some_conv le_max_iff_disj split: if_splits sum.splits)

text \<open>
  C35: run retries are finite and bounded in time. Whatever the failure instants, a run that
  starts at attempt 1 is retried fewer than \<open>run_max_attempts\<close> times, the instants of its
  failures never go back in time, and no retry is granted for a failure at or after
  \<open>scheduled_for + run_deadline_seconds\<close>.
\<close>

theorem run_retries_bounded:
  assumes "retry_chain (\<lambda>attempt now. run_retry_at p run_id attempt scheduled_for now) 1 now ts"
    and "ts \<noteq> []"
  shows "int (length ts) < uint (run_max_attempts p) \<and> sorted (now # ts) \<and>
    (\<forall>t \<in> set (now # butlast ts). t < scheduled_for + uint (run_deadline_seconds p))"
  using run_retry.chain_length [OF assms] run_retry.chain_sorted [OF assms(1)]
    run_retry.chain_before_deadline [OF assms] by simp

lemma default_run_delay: "uint (run_retry_delay_seconds default_policy run_id attempt) \<le> 300"
  using unat_le_imp_uint_le [OF delay_le_cap [of 30 300 run_id attempt]]
  by (simp add: run_retry_delay_seconds_def default_policy_def)

theorem run_retries_bounded_witness:
  "int (length [1400 :: int, 2000]) < uint (run_max_attempts default_policy) \<and>
   sorted ((1000 :: int) # [1400, 2000]) \<and>
   1000 < 990 + uint (run_deadline_seconds default_policy) \<and>
   1400 < 990 + uint (run_deadline_seconds default_policy)"
proof -
  have lim: "uint (run_deadline_seconds default_policy) = 3600"
    "uint (run_max_attempts default_policy) = 3"
    by (simp_all add: default_policy_def)
  have "\<exists>r. run_retry_at default_policy ''r1'' a 990 n = Some r \<and> r \<le> n + 300"
    if "a < 3" "1000 \<le> n" "n \<le> 1400" for a n
  proof -
    obtain d where d: "d = uint (run_retry_delay_seconds default_policy ''r1'' a)"
      "0 \<le> d" "d \<le> 300"
      using default_run_delay by simp
    show ?thesis
      using that d(2,3) lim unfolding run_retry_at_def d(1) [symmetric]
      by (simp add: run_deadline_at_def can_retry_def checked_add_def i64_defs)
  qed
  from this [of 1 1000] this [of 2 1400]
  have "retry_chain (\<lambda>attempt now. run_retry_at default_policy ''r1'' attempt 990 now) 1 1000
      [1400, 2000]"
    by auto
  from run_retries_bounded [OF this] show ?thesis by simp
qed

text \<open>
  The delivery retry instant, completely. Under a valid policy \<open>delivery_retry_at\<close> never
  panics, and it grants \<open>t\<close> exactly when \<open>t\<close> is the failure instant plus the larger of the backoff
  and the provider's clamped \<open>Retry-After\<close>, the attempt is below the maximum, and \<open>t\<close> is
  before the absolute deadline (all sums representable).
\<close>

lemma delivery_retry_at_spec:
  assumes "validate_policy p = Inr ()"
  shows "\<exists>granted. delivery_retry_at p delivery_id attempt created now retry_after = Inr granted \<and>
    (\<forall>t. granted = Some t \<longleftrightarrow>
       t = now + max (uint (delivery_retry_delay_seconds p delivery_id attempt))
                 (case retry_after of None \<Rightarrow> 0
                  | Some s \<Rightarrow> max 1 (min (uint s) (uint (delivery_retry_after_max_seconds p)))) \<and>
       attempt < uint (delivery_max_attempts p) \<and>
       t < created + uint (delivery_deadline_seconds p) \<and>
       in_i64 t \<and> in_i64 (created + uint (delivery_deadline_seconds p)))"
proof -
  have lim: "1 \<le> uint (delivery_retry_after_max_seconds p)"
    using assms validate_policy_okD policy_coherent_delivery
      le_unat_imp_le_uint [of 1 "delivery_retry_after_max_seconds p"]
    by (fastforce simp: delivery_coherent_def)
  have lim_hi: "uint (delivery_retry_after_max_seconds p) \<le> i64_max"
    using uint_lt2p [of "delivery_retry_after_max_seconds p"] by (simp add: i64_defs)
  have lo: "i64_min \<le> uint w" for w :: u64
    using uint_ge_0 [of w] unfolding i64_min_def by linarith
  have ra: "retry_after_delay p retry_after = Inr (case retry_after of None \<Rightarrow> 0
      | Some s \<Rightarrow> max 1 (min (uint s) (uint (delivery_retry_after_max_seconds p))))"
    using lim lim_hi lo
    by (auto simp: retry_after_delay_def clamp_int_def Let_def in_i64_def
        max_def min_def split: option.splits)
  show ?thesis
    by (auto simp: delivery_retry_at_def ra bind_eq_Some_conv delivery_deadline_at_def
        can_retry_def)
qed

end
