(* ===== verification/Scheduled_Identity.thy ===== *)
theory Scheduled_Identity
  imports Prelude
begin

text \<open>
  \<^verbatim>\<open>crates/core/src/scheduled_identity.rs\<close>: the canonical identifiers that appear in signed
  scheduling bindings. Every newtype wraps a string that its parser has accepted, so a value is its
  string and \<open>as_str\<close> is the identity; an error is its \<open>reason\<close>.

  The interface \<open>canonical_token\<close> is what the stores and evidence documents rely on: a parser
  never rewrites its input and never lets a separator byte through, so identifiers can be joined
  with a separator without ambiguity.
\<close>

type_synonym identity_error = string

definition MAX_CRITICAL_ID_BYTES :: nat where "MAX_CRITICAL_ID_BYTES = 128"
definition MAX_CREDENTIAL_REVISION_BYTES :: nat where "MAX_CREDENTIAL_REVISION_BYTES = 128"
definition MAX_EVIDENCE_KEY_ID_BYTES :: nat where "MAX_EVIDENCE_KEY_ID_BYTES = 128"
definition MAX_RUNNER_WORKLOAD_IDENTITY_BYTES :: nat where
  "MAX_RUNNER_WORKLOAD_IDENTITY_BYTES = 256"

section \<open>Parsers\<close>

definition token_byte :: "bool \<Rightarrow> bool \<Rightarrow> char \<Rightarrow> bool" where
  "token_byte lowercase_only allow_colon byte \<longleftrightarrow>
     is_ascii_digit byte \<or> is_ascii_lowercase byte
     \<or> (\<not> lowercase_only \<and> is_ascii_uppercase byte)
     \<or> byte \<in> set ''-_.'' \<or> (allow_colon \<and> byte = CHR '':'')"

definition is_bounded_ascii_token :: "string \<Rightarrow> nat \<Rightarrow> bool \<Rightarrow> bool \<Rightarrow> bool" where
  "is_bounded_ascii_token value max_bytes lowercase_only allow_colon =
     (if value = [] \<or> length value > max_bytes \<or> \<not> is_ascii_str value \<or> value \<noteq> str_trim value
      then False
      else let first = hd value; final = last value in
        if \<not> is_ascii_alphanumeric first \<or> (lowercase_only \<and> is_ascii_uppercase first) then False
        else if \<not> is_ascii_alphanumeric final \<or> (lowercase_only \<and> is_ascii_uppercase final)
        then False
        else list_all (token_byte lowercase_only allow_colon) value)"

definition parse_critical_id :: "string \<Rightarrow> identity_error + string" where
  "parse_critical_id value =
     (if \<not> is_bounded_ascii_token value MAX_CRITICAL_ID_BYTES False True
      then Inl ''critical_id_invalid'' else Inr value)"

definition parse_credential_revision :: "string \<Rightarrow> identity_error + string" where
  "parse_credential_revision value =
     (if \<not> is_bounded_ascii_token value MAX_CREDENTIAL_REVISION_BYTES True False
      then Inl ''credential_revision_invalid'' else Inr value)"

definition evidence_key_byte :: "char \<Rightarrow> bool" where
  "evidence_key_byte byte \<longleftrightarrow>
     is_ascii_lowercase byte \<or> is_ascii_digit byte \<or> byte = CHR ''-''"

definition parse_evidence_key_id :: "string \<Rightarrow> identity_error + string" where
  "parse_evidence_key_id value =
     (if value = [] \<or> length value > MAX_EVIDENCE_KEY_ID_BYTES
         \<or> \<not> list_all evidence_key_byte value
      then Inl ''evidence_key_id_invalid'' else Inr value)"

definition valid_label :: "string \<Rightarrow> bool" where
  "valid_label label \<longleftrightarrow>
     label \<noteq> [] \<and> length label \<le> 63 \<and> list_all evidence_key_byte label
     \<and> (is_ascii_lowercase (hd label) \<or> is_ascii_digit (hd label))
     \<and> (is_ascii_lowercase (last label) \<or> is_ascii_digit (last label))"

definition valid_trust_domain :: "string \<Rightarrow> bool" where
  "valid_trust_domain value =
     (if value = [] \<or> length value > 128 \<or> \<not> is_ascii_str value then False
      else list_all valid_label (split_char CHR ''.'' value))"

definition valid_segment :: "string \<Rightarrow> bool" where
  "valid_segment segment \<longleftrightarrow>
     segment \<noteq> [] \<and> length segment \<le> 64 \<and> segment \<noteq> ''.'' \<and> segment \<noteq> ''..''
     \<and> list_all (\<lambda>byte. is_ascii_alphanumeric byte \<or> byte \<in> set ''-_.'') segment"

definition valid_spiffe_path :: "string \<Rightarrow> bool" where
  "valid_spiffe_path value \<longleftrightarrow>
     value \<noteq> [] \<and> \<not> ends_with value ''/''
     \<and> list_all valid_segment (split_char CHR ''/'' value)"

definition parse_runner_workload_identity :: "string \<Rightarrow> identity_error + string" where
  "parse_runner_workload_identity value =
     (if value = [] \<or> length value > MAX_RUNNER_WORKLOAD_IDENTITY_BYTES
         \<or> \<not> is_ascii_str value \<or> value \<noteq> str_trim value
      then Inl ''runner_workload_identity_invalid''
      else rbind (ok_or ''runner_workload_identity_scheme_invalid''
                    (drop_prefix ''spiffe://'' value)) (\<lambda>remainder.
           rbind (ok_or ''runner_workload_identity_path_missing''
                    (split_once CHR ''/'' remainder)) (\<lambda>(trust_domain, path).
           if \<not> valid_trust_domain trust_domain \<or> \<not> valid_spiffe_path path
           then Inl ''runner_workload_identity_noncanonical''
           else Inr value)))"

section \<open>The canonical-token interface\<close>

text \<open>Two accepted identifiers joined by a byte neither can contain determine both.\<close>

lemma append_sep_inj:
  fixes sep :: char
  assumes "sep \<notin> set a" and "sep \<notin> set a'"
  shows "a @ sep # b = a' @ sep # b' \<longleftrightarrow> a = a' \<and> b = b'"
proof
  assume eq: "a @ sep # b = a' @ sep # b'"
  have "Some (a, b) = split_once sep (a @ sep # b)"
    by (simp only: split_once_append [OF assms(1)])
  also have "\<dots> = Some (a', b')"
    by (simp only: eq split_once_append [OF assms(2)])
  finally show "a = a' \<and> b = b'" by simp
qed simp

locale canonical_token =
  fixes parse :: "string \<Rightarrow> identity_error + string"
    and max_bytes :: nat
    and allowed :: "char \<Rightarrow> bool"
  assumes verbatim: "parse s = Inr t \<Longrightarrow> t = s"
    and bounded: "parse s = Inr t \<Longrightarrow> s \<noteq> [] \<and> length s \<le> max_bytes"
    and alphabet: "parse s = Inr t \<Longrightarrow> c \<in> set s \<Longrightarrow> allowed c"
begin

lemma idempotent: "parse s = Inr t \<Longrightarrow> parse t = Inr t"
  using verbatim by blast

lemma injective: "parse s = Inr t \<Longrightarrow> parse s' = Inr t \<Longrightarrow> s = s'"
  using verbatim by blast

lemma joined_unambiguous:
  assumes "parse s = Inr t" and "parse s' = Inr t'" and "\<not> allowed sep"
  shows "t @ sep # b = t' @ sep # b' \<longleftrightarrow> s = s' \<and> b = b'"
  using verbatim [OF assms(1)] verbatim [OF assms(2)] alphabet [OF assms(1)] alphabet [OF assms(2)]
    assms(3) append_sep_inj [of sep s s' b b'] by blast

end

lemma token_byte_ascii: "token_byte l k c \<Longrightarrow> byte_val c < 128"
  by (auto simp: token_byte_def is_ascii_digit_def is_ascii_lowercase_def is_ascii_uppercase_def
      byte_val_def)

text \<open>The ASCII and trim guards of the token test are implied by its byte class.\<close>

lemma is_bounded_ascii_token_iff:
  "is_bounded_ascii_token s n l k \<longleftrightarrow>
     s \<noteq> [] \<and> length s \<le> n
     \<and> is_ascii_alphanumeric (hd s) \<and> is_ascii_alphanumeric (last s)
     \<and> \<not> (l \<and> (is_ascii_uppercase (hd s) \<or> is_ascii_uppercase (last s)))
     \<and> (\<forall>c \<in> set s. token_byte l k c)"
  (is "?l \<longleftrightarrow> ?r")
proof
  assume ?l
  then show ?r
    by (auto simp: is_bounded_ascii_token_def list_all_iff Let_def split: if_splits)
next
  assume r: ?r
  then have "str_trim s = s" by (simp add: trim_graphic alphanumeric_graphic)
  moreover have "is_ascii_str s" using r token_byte_ascii by (auto simp: is_ascii_str_def list_all_iff)
  ultimately show ?l
    using r by (simp add: is_bounded_ascii_token_def list_all_iff Let_def)
qed

interpretation critical_id: canonical_token
  parse_critical_id MAX_CRITICAL_ID_BYTES "token_byte False True"
  by unfold_locales (auto simp: parse_critical_id_def is_bounded_ascii_token_iff split: if_splits)

interpretation credential_revision: canonical_token
  parse_credential_revision MAX_CREDENTIAL_REVISION_BYTES "token_byte True False"
  by unfold_locales
    (auto simp: parse_credential_revision_def is_bounded_ascii_token_iff split: if_splits)

interpretation evidence_key: canonical_token
  parse_evidence_key_id MAX_EVIDENCE_KEY_ID_BYTES evidence_key_byte
  by unfold_locales (auto simp: parse_evidence_key_id_def list_all_iff split: if_splits)

section \<open>The SPIFFE grammar\<close>

text \<open>The documented shape of a workload identity, as a grammar on the string.\<close>

definition spiffe_shape :: "string \<Rightarrow> string list \<Rightarrow> string list \<Rightarrow> bool" where
  "spiffe_shape s labels segments \<longleftrightarrow>
     s = ''spiffe://'' @ join_with ''.'' labels @ CHR ''/'' # join_with ''/'' segments
     \<and> labels \<noteq> [] \<and> length (join_with ''.'' labels) \<le> 128
     \<and> segments \<noteq> [] \<and> list_all valid_label labels \<and> list_all valid_segment segments"

lemma valid_label_bytes: "valid_label l \<Longrightarrow> c \<in> set l \<Longrightarrow> evidence_key_byte c"
  by (simp add: valid_label_def list_all_iff)

lemma valid_segment_bytes:
  "valid_segment x \<Longrightarrow> c \<in> set x \<Longrightarrow> is_ascii_alphanumeric c \<or> c \<in> set ''-_.''"
  by (simp add: valid_segment_def list_all_iff)

lemma not_alphanumeric_punct [simp]:
  "\<not> is_ascii_alphanumeric CHR ''/''" "\<not> evidence_key_byte CHR ''/''" "\<not> evidence_key_byte CHR ''.''"
  by code_simp+

lemma set_join: "set (join_with sep xs) \<subseteq> \<Union> (set ` set xs) \<union> set sep"
  by (induction sep xs rule: join_with.induct) auto

lemma in_set_join: "c \<in> set (join_with sep xs) \<Longrightarrow> (\<exists>x \<in> set xs. c \<in> set x) \<or> c \<in> set sep"
  using set_join by blast

lemma valid_trust_domain_iff:
  "valid_trust_domain d \<longleftrightarrow>
     length d \<le> 128 \<and> (\<exists>labels. labels \<noteq> [] \<and> list_all valid_label labels \<and> d = join_with ''.'' labels)"
  (is "?l \<longleftrightarrow> ?r")
proof
  assume ?l
  then have "length d \<le> 128" "list_all valid_label (split_char CHR ''.'' d)"
    by (auto simp: valid_trust_domain_def split: if_splits)
  moreover have "d = join_with ''.'' (split_char CHR ''.'' d)" by simp
  ultimately show ?r using split_char_not_Nil by blast
next
  assume ?r
  then obtain labels where l: "length d \<le> 128" "labels \<noteq> []" "list_all valid_label labels"
    "d = join_with ''.'' labels" by blast
  have "\<forall>x \<in> set labels. CHR ''.'' \<notin> set x"
    using l(3) valid_label_bytes by (fastforce simp: list_all_iff)
  then have sp: "split_char CHR ''.'' d = labels" using l split_char_join by simp
  then have "d \<noteq> []" using l(3) by (auto simp: valid_label_def)
  moreover have "is_ascii_str d"
  proof -
    have "byte_val c < 128" if "c \<in> set d" for c
      using in_set_join [OF that [unfolded l(4)]] l(3) valid_label_bytes
      by (fastforce simp: list_all_iff evidence_key_byte_def is_ascii_lowercase_def
          is_ascii_digit_def byte_val_def)
    then show ?thesis by (simp add: is_ascii_str_def list_all_iff)
  qed
  ultimately show ?l using l sp by (simp add: valid_trust_domain_def)
qed

lemma valid_spiffe_path_iff:
  "valid_spiffe_path p \<longleftrightarrow>
     (\<exists>segments. segments \<noteq> [] \<and> list_all valid_segment segments \<and> p = join_with ''/'' segments)"
  (is "?l \<longleftrightarrow> ?r")
proof
  assume ?l
  then have "list_all valid_segment (split_char CHR ''/'' p)"
    by (simp add: valid_spiffe_path_def)
  moreover have "p = join_with ''/'' (split_char CHR ''/'' p)" by simp
  ultimately show ?r using split_char_not_Nil by blast
next
  assume ?r
  then obtain segments where l: "segments \<noteq> []" "list_all valid_segment segments"
    "p = join_with ''/'' segments" by blast
  have "\<forall>x \<in> set segments. CHR ''/'' \<notin> set x"
    using l(2) valid_segment_bytes by (fastforce simp: list_all_iff)
  then have sp: "split_char CHR ''/'' p = segments" using l split_char_join by simp
  have "p \<noteq> []" using l(2) sp by (auto simp: valid_segment_def)
  moreover have "\<not> ends_with p ''/''"
  proof
    assume "ends_with p ''/''"
    then obtain q where q: "p = q @ ''/''" by (auto simp: ends_with_iff)
    have "[] \<in> set (split_char CHR ''/'' (q @ ''/''))"
      by (simp add: split_char_snoc)
    with q sp l(2) show False by (auto simp: list_all_iff valid_segment_def)
  qed
  ultimately show ?l using l sp by (simp add: valid_spiffe_path_def)
qed

lemma evidence_key_byte_graphic: "evidence_key_byte c \<Longrightarrow> is_graphic c"
  by (auto simp: evidence_key_byte_def is_ascii_lowercase_def is_ascii_digit_def is_graphic_def
      byte_val_def)

lemma segment_byte_graphic: "is_ascii_alphanumeric c \<or> c \<in> set ''-_.'' \<Longrightarrow> is_graphic c"
  using alphanumeric_graphic by (auto simp: is_graphic_def byte_val_def)

lemma spiffe_shape_graphic:
  assumes "spiffe_shape s labels segments" and "c \<in> set s"
  shows "is_graphic c"
proof -
  have s: "s = ''spiffe://'' @ join_with ''.'' labels @ CHR ''/'' # join_with ''/'' segments"
    and v: "list_all valid_label labels" "list_all valid_segment segments"
    using assms(1) by (auto simp: spiffe_shape_def)
  consider "c \<in> set ''spiffe:/''" | "c \<in> set (join_with ''.'' labels)"
    | "c \<in> set (join_with ''/'' segments)"
    using assms(2) unfolding s by auto
  then show ?thesis
  proof cases
    case 1
    then show ?thesis by (auto simp: is_graphic_def byte_val_def)
  next
    case 2
    then show ?thesis
      using in_set_join [OF 2] v(1) valid_label_bytes evidence_key_byte_graphic
      by (fastforce simp: list_all_iff is_graphic_def byte_val_def)
  next
    case 3
    then show ?thesis
      using in_set_join [OF 3] v(2) valid_segment_bytes segment_byte_graphic
      by (fastforce simp: list_all_iff is_graphic_def byte_val_def)
  qed
qed

lemma parse_runner_shapeD:
  assumes "parse_runner_workload_identity s = Inr t"
  shows "t = s \<and> length s \<le> MAX_RUNNER_WORKLOAD_IDENTITY_BYTES
    \<and> (\<exists>labels segments. spiffe_shape s labels segments)"
proof -
  have len: "length s \<le> MAX_RUNNER_WORKLOAD_IDENTITY_BYTES"
    using assms by (simp add: parse_runner_workload_identity_def split: if_splits)
  obtain rest td path where r: "drop_prefix ''spiffe://'' s = Some rest"
    "split_once CHR ''/'' rest = Some (td, path)"
    and t: "t = s" and v: "valid_trust_domain td" "valid_spiffe_path path"
    using assms
    by (auto simp: parse_runner_workload_identity_def simp del: drop_prefix_eq_Some
        split: if_splits)
  have s: "s = ''spiffe://'' @ td @ CHR ''/'' # path"
    using r(1) split_once_SomeD [OF r(2)] by simp
  from v(1) obtain labels where l: "length td \<le> 128" "labels \<noteq> []" "list_all valid_label labels"
    "td = join_with ''.'' labels" by (auto simp: valid_trust_domain_iff)
  from v(2) obtain segments where "segments \<noteq> []" "list_all valid_segment segments"
    "path = join_with ''/'' segments" by (auto simp: valid_spiffe_path_iff)
  with l s have "spiffe_shape s labels segments" by (simp add: spiffe_shape_def)
  with t len show ?thesis by blast
qed

lemma shape_parses:
  assumes "spiffe_shape s labels segments" and "length s \<le> MAX_RUNNER_WORKLOAD_IDENTITY_BYTES"
  shows "parse_runner_workload_identity s = Inr s"
proof -
  define td where "td = join_with ''.'' labels"
  define path where "path = join_with ''/'' segments"
  have s: "s = ''spiffe://'' @ td @ CHR ''/'' # path"
    and td: "valid_trust_domain td" and path: "valid_spiffe_path path"
    using assms(1) by (auto simp: spiffe_shape_def td_def path_def valid_trust_domain_iff
        valid_spiffe_path_iff)
  have "CHR ''/'' \<notin> set td"
    using assms(1) valid_label_bytes in_set_join [of "CHR ''/''" "''.''" labels]
    by (fastforce simp: spiffe_shape_def td_def list_all_iff)
  then have once: "split_once CHR ''/'' (td @ CHR ''/'' # path) = Some (td, path)"
    by (rule split_once_append)
  have "s \<noteq> []" using s by simp
  moreover have gr: "\<forall>c \<in> set s. is_graphic c"
    using spiffe_shape_graphic [OF assms(1)] by blast
  ultimately have "str_trim s = s" by (simp add: trim_graphic)
  moreover have "is_ascii_str s"
    using gr by (auto simp: is_ascii_str_def list_all_iff is_graphic_def)
  moreover have "drop_prefix ''spiffe://'' s = Some (td @ CHR ''/'' # path)"
    using s by simp
  ultimately show ?thesis
    using assms(2) once td path \<open>s \<noteq> []\<close>
    by (simp add: parse_runner_workload_identity_def)
qed

interpretation runner_identity: canonical_token
  parse_runner_workload_identity MAX_RUNNER_WORKLOAD_IDENTITY_BYTES is_graphic
proof unfold_locales
  fix s t c
  assume p: "parse_runner_workload_identity s = Inr t"
  then obtain labels segments where sh: "spiffe_shape s labels segments"
    using parse_runner_shapeD by blast
  show "t = s" using parse_runner_shapeD [OF p] by simp
  show "s \<noteq> [] \<and> length s \<le> MAX_RUNNER_WORKLOAD_IDENTITY_BYTES"
    using parse_runner_shapeD [OF p] sh by (auto simp: spiffe_shape_def)
  show "is_graphic c" if "c \<in> set s" using spiffe_shape_graphic [OF sh that] .
qed

text \<open>
  The workload-identity parser recognises exactly the documented SPIFFE grammar. A string is
  accepted (and returned unchanged) if and only if it has at most 256 bytes and is
  \<open>spiffe://\<close>, dot-separated DNS-like labels of total length at most 128, a slash, and a
  nonempty slash-separated path whose segments are nonempty, at most 64 bytes, drawn from the
  safe alphabet and never \<open>.\<close> or \<open>..\<close>.
\<close>

lemma runner_workload_identity_grammar:
  "parse_runner_workload_identity s = Inr t \<longleftrightarrow>
     t = s \<and> length s \<le> MAX_RUNNER_WORKLOAD_IDENTITY_BYTES
     \<and> (\<exists>labels segments. spiffe_shape s labels segments)"
  using parse_runner_shapeD [of s t] shape_parses [of s] by blast

text \<open>
  Critical identifiers never make a composite key ambiguous. Two parsed identifiers, each
  followed by a slash (or any byte outside the token alphabet) and arbitrary data, give the same
  string only when both the identifiers and the data agree.
\<close>

lemma critical_ids_join_unambiguously:
  assumes "parse_critical_id s = Inr t" and "parse_critical_id s' = Inr t'"
    and "\<not> token_byte False True sep"
  shows "t @ sep # b = t' @ sep # b' \<longleftrightarrow> s = s' \<and> b = b'"
  using critical_id.joined_unambiguous [OF assms] .

end
