(* ===== verification/State_Error.thy ===== *)
theory State_Error
  imports Prelude
begin

text \<open>
  \<^verbatim>\<open>crates/state/src/error.rs\<close> and the value and occurrence errors of
  \<^verbatim>\<open>crates/state/src/scheduler.rs\<close>. The sources of wrapped errors (I/O, serde, migration) are
  dropped; a \<open>sqlx::Error\<close> keeps what the code inspects, the code of a database error.
\<close>

datatype sqlx_error =
    SqlxDatabase "string option"
  | SqlxOther

datatype state_error =
    CreateStateDir string
  | WriteProbe string
  | CreateDatabaseDir string
  | RemoveProbe string
  | InvalidDatabaseUrl string
  | Connect
  | Readiness sqlx_error
  | Migrate
  | ClaimIdempotencyKey sqlx_error
  | PersistSlackSourceEvent sqlx_error
  | SerializeChannelEvent
  | SerializeStatePayload string
  | QueryChannelEventState sqlx_error
  | ChannelEventQueue sqlx_error
  | DeserializeChannelEvent
  | SlackDelivery sqlx_error
  | CleanupRetainedData sqlx_error
  | InvalidSlackDeliveryStatus string
  | InvalidSlackDeliveryOperation string
  | InvalidSlackProcessingIndicatorStatus string
  | InvalidChannelEventStatus string
  | SerializeSlackDeliveryResponse
  | ContextFetchAttempt sqlx_error
  | InvalidSchedulerState string
  | SchedulerGenerationConflict
  | ScheduledRunLostLease
  | ScheduledRunCounterExhausted
  | ScheduledExecutorAdmissionUnavailable
  | ScheduledActiveJobLimitExceeded string
  | ScheduledRunCompletionConflict
  | ScheduledDeliveryLostLease
  | ScheduledDeliveryCounterExhausted
  | ScheduledDeliveryBaselineConflict
  | ScheduledDeliveryPayloadConflict
  | ScheduledDeliveryRetentionConflict
  | ScheduledRunRetentionConflict
  | ScheduledOnceExpired
  | SchedulerError sqlx_error

definition is_transient_storage_contention :: "state_error \<Rightarrow> bool" where
  "is_transient_storage_contention e =
     (let transient = (\<lambda>source.
        case source of
          SqlxDatabase (Some code) \<Rightarrow>
            code \<in> set [''5'', ''6'', ''261'', ''262'', ''517'', ''518'', ''773'']
        | _ \<Rightarrow> False)
      in case e of
           SlackDelivery source \<Rightarrow> transient source
         | SchedulerError source \<Rightarrow> transient source
         | _ \<Rightarrow> False)"

datatype state_value_error =
    Empty string
  | TooLarge string
  | InvalidJson string
  | NonCanonicalJson string
  | ForbiddenDurableData string
  | InvalidSha256 string
  | InvalidValue string
  | InvalidVersion
  | OnceNotFuture
  | InvalidInterval
  | CadenceTooShort
  | CadenceProofExhausted
  | CadenceProofUnavailable
  | InvalidCronFieldCount
  | InvalidCron
  | InvalidTimezone

datatype occurrence_error =
    NoFutureOccurrence
  | ArithmeticOverflow
  | SearchExhausted

end
