(* ===== verification/Schedule_Spec.thy ===== *)
theory Schedule_Spec
  imports State_Error
begin

text \<open>
  The schedule model of \<^verbatim>\<open>crates/state/src/scheduler.rs\<close> (\<open>ScheduleSpec\<close> and the
  occurrence arithmetic below it) and the timezone adapter of
  \<^verbatim>\<open>crates/state/src/scheduler/timezone.rs\<close> as far as the scheduler calls it.

  The calendar libraries are parameters, collected in the record \<open>calendar\<close>: croner's parser
  and occurrence search, jiff's bundled timezone database, and chrono's timestamp range. A zoned
  instant handed to croner is the pair of its zone and its Unix second.
\<close>

section \<open>Calendar libraries\<close>

record ('tz, 'cron) calendar =
  cron_parse :: "string \<Rightarrow> 'cron option"
  find_next_occurrence :: "'cron \<Rightarrow> 'tz \<Rightarrow> i64 \<Rightarrow> bool \<Rightarrow> i64 option"
  find_previous_occurrence :: "'cron \<Rightarrow> 'tz \<Rightarrow> i64 \<Rightarrow> bool \<Rightarrow> i64 option"
  utc_timestamp_ok :: "i64 \<Rightarrow> bool"
  tzdb_version :: "string option"
  tzdb_get :: "string \<Rightarrow> 'tz option"
  iana_name :: "'tz \<Rightarrow> string option"
  jiff_timestamp_ok :: "i64 \<Rightarrow> bool"
  tz_following :: "'tz \<Rightarrow> i64 \<Rightarrow> nat \<Rightarrow> i64 option"

definition REQUIRED_TZDB_VERSION :: string where
  "REQUIRED_TZDB_VERSION = ''2026c''"

definition tz_parse :: "('tz, 'cron) calendar \<Rightarrow> string \<Rightarrow> 'tz option" where
  "tz_parse cal name =
     (if tzdb_version cal \<noteq> Some REQUIRED_TZDB_VERSION then None else tzdb_get cal name)"

definition canonical_name :: "('tz, 'cron) calendar \<Rightarrow> 'tz \<Rightarrow> string option" where
  "canonical_name cal tz = iana_name cal tz"

definition supports_timestamp :: "('tz, 'cron) calendar \<Rightarrow> i64 \<Rightarrow> bool" where
  "supports_timestamp cal timestamp = jiff_timestamp_ok cal timestamp"

text \<open>\<open>TimeZone::following\<close> is a possibly unbounded iterator; \<open>tz_following cal tz start n\<close> is
  its \<open>n\<close>-th item. The loop stops at the first transition past the end or at the limit.\<close>

function transition_loop ::
  "(nat \<Rightarrow> i64 option) \<Rightarrow> i64 \<Rightarrow> nat \<Rightarrow> nat \<Rightarrow> i64 list \<Rightarrow> (i64 list) option" where
  "transition_loop items end_at limit n transitions =
     (case items n of
        None \<Rightarrow> Some transitions
      | Some timestamp \<Rightarrow>
          if timestamp \<ge> end_at then Some transitions
          else if length transitions \<ge> limit then None
          else transition_loop items end_at limit (Suc n) (transitions @ [timestamp]))"
  by pat_completeness auto
termination
  by (relation "measure (\<lambda>(items, end_at, limit, n, transitions). limit - length transitions)") auto

declare transition_loop.simps [simp del]

definition transition_timestamps ::
  "('tz, 'cron) calendar \<Rightarrow> 'tz \<Rightarrow> i64 \<Rightarrow> i64 \<Rightarrow> u32 \<Rightarrow> (i64 list) option" where
  "transition_timestamps cal tz start end_at limit =
     (if \<not> jiff_timestamp_ok cal start then None
      else transition_loop (tz_following cal tz start) end_at (unat limit) 0 [])"

section \<open>Schedules\<close>

definition MAX_CRON_HORIZON_SECONDS :: int where
  "MAX_CRON_HORIZON_SECONDS = 366 * 24 * 60 * 60 * 10"

definition GREGORIAN_CYCLE_START :: int where "GREGORIAN_CYCLE_START = 946684800"
definition GREGORIAN_CYCLE_END :: int where "GREGORIAN_CYCLE_END = 13569465600"

datatype schedule_spec =
    Once (once_at: i64)
  | FixedInterval (interval_anchor: i64) (every_seconds: i64)
  | Cron (cron_expression: string) (cron_timezone: string)

record occurrence_window =
  scheduled_for :: i64
  coalesced_through :: i64
  skipped_count :: u32
  skipped_count_saturated :: bool
  next_run_at :: "i64 option"

definition once :: "i64 \<Rightarrow> schedule_spec" where
  "once at_time = Once at_time"

definition fixed_interval :: "i64 \<Rightarrow> i64 \<Rightarrow> state_value_error + schedule_spec" where
  "fixed_interval anchor every =
     (if every \<le> 0 then Inl InvalidInterval else Inr (FixedInterval anchor every))"

definition cron ::
  "('tz, 'cron) calendar \<Rightarrow> string \<Rightarrow> string \<Rightarrow> state_value_error + schedule_spec" where
  "cron cal expression timezone =
     (let canonical = join_with '' '' (split_whitespace expression) in
      if length (split_whitespace canonical) \<noteq> 5 then Inl InvalidCronFieldCount
      else rbind (ok_or InvalidCron (cron_parse cal canonical)) (\<lambda>_.
           rbind (ok_or InvalidTimezone (tz_parse cal timezone)) (\<lambda>tz.
           Inr (Cron canonical
             (case canonical_name cal tz of None \<Rightarrow> timezone | Some name \<Rightarrow> name)))))"

definition validate_for_create :: "schedule_spec \<Rightarrow> i64 \<Rightarrow> state_value_error + unit" where
  "validate_for_create spec now =
     (case spec of
        Once at_time \<Rightarrow> if at_time \<le> now then Inl OnceNotFuture else Inr ()
      | _ \<Rightarrow> Inr ())"

definition next_fixed_interval :: "i64 \<Rightarrow> i64 \<Rightarrow> i64 \<Rightarrow> occurrence_error + i64" where
  "next_fixed_interval anchor every reference =
     (if reference < anchor then Inr anchor
      else rbind (ok_or ArithmeticOverflow (checked_sub reference anchor)) (\<lambda>elapsed.
           rbind (ok_or ArithmeticOverflow
             (Option.bind (checked_div elapsed every) (\<lambda>steps. checked_add steps 1))) (\<lambda>steps.
           rbind (ok_or ArithmeticOverflow (checked_mul steps every)) (\<lambda>offset.
           ok_or ArithmeticOverflow (checked_add anchor offset)))))"

definition u32_of_i64_or_max :: "i64 \<Rightarrow> u32" where
  "u32_of_i64_or_max x = (if 0 \<le> x \<and> x \<le> u32_max then word_of_int x else - 1)"

definition coalesce_fixed_interval ::
  "i64 \<Rightarrow> i64 \<Rightarrow> i64 \<Rightarrow> occurrence_error + occurrence_window" where
  "coalesce_fixed_interval due now every =
     rbind (ok_or ArithmeticOverflow (checked_sub now due)) (\<lambda>elapsed.
     rbind (ok_or ArithmeticOverflow (checked_div elapsed every)) (\<lambda>skipped.
     rbind (ok_or ArithmeticOverflow (checked_mul skipped every)) (\<lambda>offset.
     rbind (ok_or ArithmeticOverflow (checked_add due offset)) (\<lambda>through.
     rbind (ok_or ArithmeticOverflow (checked_add through every)) (\<lambda>nxt.
     Inr \<lparr>scheduled_for = due, coalesced_through = through,
          skipped_count = u32_of_i64_or_max skipped,
          skipped_count_saturated = (skipped > u32_max),
          next_run_at = Some nxt\<rparr>)))))"

definition next_cron ::
  "('tz, 'cron) calendar \<Rightarrow> string \<Rightarrow> string \<Rightarrow> i64 \<Rightarrow> occurrence_error + i64" where
  "next_cron cal expression timezone reference =
     rbind (ok_or ArithmeticOverflow (checked_add reference MAX_CRON_HORIZON_SECONDS))
       (\<lambda>horizon_end.
     if \<not> supports_timestamp cal reference \<or> \<not> supports_timestamp cal horizon_end
     then Inl ArithmeticOverflow
     else rbind (ok_or NoFutureOccurrence (cron_parse cal expression)) (\<lambda>c.
     rbind (ok_or NoFutureOccurrence (tz_parse cal timezone)) (\<lambda>tz.
     if \<not> utc_timestamp_ok cal reference then Inl ArithmeticOverflow
     else rbind (ok_or NoFutureOccurrence (find_next_occurrence cal c tz reference False))
       (\<lambda>timestamp.
     if timestamp \<le> reference
        \<or> (case checked_sub timestamp reference of
             None \<Rightarrow> True | Some distance \<Rightarrow> distance > MAX_CRON_HORIZON_SECONDS)
     then Inl SearchExhausted else Inr timestamp))))"

definition next_after ::
  "('tz, 'cron) calendar \<Rightarrow> schedule_spec \<Rightarrow> i64 \<Rightarrow> occurrence_error + i64" where
  "next_after cal spec reference =
     (case spec of
        Once at_time \<Rightarrow> if at_time > reference then Inr at_time else Inl NoFutureOccurrence
      | FixedInterval anchor every \<Rightarrow> next_fixed_interval anchor every reference
      | Cron expression timezone \<Rightarrow> next_cron cal expression timezone reference)"

definition first_after_create ::
  "('tz, 'cron) calendar \<Rightarrow> schedule_spec \<Rightarrow> i64 \<Rightarrow> occurrence_error + i64" where
  "first_after_create cal spec now =
     (case spec of
        Once at_time \<Rightarrow> Inr at_time
      | FixedInterval anchor every \<Rightarrow>
          if anchor > now then Inr anchor else next_after cal spec now
      | _ \<Rightarrow> next_after cal spec now)"

text \<open>The bounded search of \<open>coalesce\<close>: the remaining steps, the current occurrence and the count.\<close>

fun coalesce_loop ::
  "(i64 \<Rightarrow> occurrence_error + i64) \<Rightarrow> i64 \<Rightarrow> i64 \<Rightarrow> nat \<Rightarrow> i64 \<Rightarrow> u32
     \<Rightarrow> occurrence_error + occurrence_window" where
  "coalesce_loop next due now 0 current skipped = Inl SearchExhausted"
| "coalesce_loop next due now (Suc steps) current skipped =
     (case next current of
        Inl NoFutureOccurrence \<Rightarrow>
          Inr \<lparr>scheduled_for = due, coalesced_through = current, skipped_count = skipped,
               skipped_count_saturated = False, next_run_at = None\<rparr>
      | Inl e \<Rightarrow> Inl e
      | Inr nxt \<Rightarrow>
          if nxt > now then
            Inr \<lparr>scheduled_for = due, coalesced_through = current, skipped_count = skipped,
                 skipped_count_saturated = False, next_run_at = Some nxt\<rparr>
          else coalesce_loop next due now steps nxt (saturating_add_u32 skipped 1))"

definition coalesce ::
  "('tz, 'cron) calendar \<Rightarrow> schedule_spec \<Rightarrow> i64 \<Rightarrow> i64 \<Rightarrow> u32
     \<Rightarrow> occurrence_error + occurrence_window" where
  "coalesce cal spec due now max_steps =
     (if due > now then
        Inr \<lparr>scheduled_for = due, coalesced_through = due, skipped_count = 0,
             skipped_count_saturated = False, next_run_at = Some due\<rparr>
      else case spec of
        Once _ \<Rightarrow>
          Inr \<lparr>scheduled_for = due, coalesced_through = due, skipped_count = 0,
               skipped_count_saturated = False, next_run_at = None\<rparr>
      | FixedInterval _ every \<Rightarrow> coalesce_fixed_interval due now every
      | Cron _ _ \<Rightarrow> coalesce_loop (next_after cal spec) due now (unat max_steps) due 0)"

section \<open>Cadence proofs\<close>

text \<open>\<open>str::parse::<u8>\<close>: an optional plus sign and at least one digit, at most 255.\<close>

definition digits_value :: "string \<Rightarrow> nat" where
  "digits_value ds = fold (\<lambda>d acc. acc * 10 + (byte_val d - 48)) ds 0"

definition parse_u8 :: "string \<Rightarrow> nat option" where
  "parse_u8 s =
     (let ds = (case s of [] \<Rightarrow> [] | c # cs \<Rightarrow> if c = CHR ''+'' then cs else s)
      in if ds = [] \<or> \<not> list_all is_ascii_digit ds \<or> digits_value ds > 255 then None
         else Some (digits_value ds))"

definition parses_below :: "string \<Rightarrow> nat \<Rightarrow> bool" where
  "parses_below s bound = (case parse_u8 s of None \<Rightarrow> False | Some n \<Rightarrow> n < bound)"

text \<open>The checkpoints of the fixed-daily proof: the gap around each must reach the minimum.\<close>

fun check_checkpoints ::
  "('tz, 'cron) calendar \<Rightarrow> 'cron \<Rightarrow> 'tz \<Rightarrow> i64 \<Rightarrow> i64 list \<Rightarrow> state_value_error + bool" where
  "check_checkpoints cal c tz minimum [] = Inr True"
| "check_checkpoints cal c tz minimum (checkpoint # rest) =
     (if \<not> utc_timestamp_ok cal checkpoint then Inl CadenceProofUnavailable
      else rbind (ok_or CadenceProofUnavailable
                    (find_previous_occurrence cal c tz checkpoint False)) (\<lambda>previous.
           rbind (ok_or CadenceProofUnavailable
                    (find_next_occurrence cal c tz checkpoint True)) (\<lambda>nxt.
           if (case checked_sub nxt previous of None \<Rightarrow> True | Some gap \<Rightarrow> gap < minimum)
           then Inr False
           else check_checkpoints cal c tz minimum rest)))"

definition prove_fixed_daily ::
  "('tz, 'cron) calendar \<Rightarrow> 'cron \<Rightarrow> 'tz \<Rightarrow> i64 \<Rightarrow> u32 \<Rightarrow> state_value_error + bool" where
  "prove_fixed_daily cal c tz minimum proof_limit =
     rbind (ok_or CadenceProofExhausted
       (transition_timestamps cal tz GREGORIAN_CYCLE_START GREGORIAN_CYCLE_END proof_limit))
       (\<lambda>transitions.
     rbind (check_checkpoints cal c tz minimum
       (GREGORIAN_CYCLE_START # transitions @ [GREGORIAN_CYCLE_END - 1])) (\<lambda>gaps_ok.
     if \<not> gaps_ok then Inr False
     else let cycle = GREGORIAN_CYCLE_END - GREGORIAN_CYCLE_START in
     if \<not> utc_timestamp_ok cal (GREGORIAN_CYCLE_START - 1)
        \<or> \<not> utc_timestamp_ok cal GREGORIAN_CYCLE_END
     then Inl CadenceProofUnavailable
     else rbind (ok_or CadenceProofUnavailable
       (find_next_occurrence cal c tz (GREGORIAN_CYCLE_START - 1) False)) (\<lambda>first.
     rbind (ok_or CadenceProofUnavailable
       (find_previous_occurrence cal c tz GREGORIAN_CYCLE_END False)) (\<lambda>final.
     Inr (first + cycle - final \<ge> minimum)))))"

text \<open>The general proof walks every occurrence of one Gregorian cycle. It leaves the loop with an
  answer or, at the end of the cycle, with the first and the last occurrence.\<close>

datatype cadence_exit =
    Answer bool
  | CycleEnd "i64 option" "i64 option"

function cadence_loop ::
  "('tz, 'cron) calendar \<Rightarrow> 'cron \<Rightarrow> 'tz \<Rightarrow> i64 \<Rightarrow> nat \<Rightarrow> i64 option \<Rightarrow> i64 option \<Rightarrow> i64 \<Rightarrow> nat
     \<Rightarrow> state_value_error + cadence_exit" where
  "cadence_loop cal c tz minimum proof_limit previous first reference occurrences =
     (if \<not> utc_timestamp_ok cal reference then Inl CadenceProofUnavailable
      else case find_next_occurrence cal c tz reference False of
        None \<Rightarrow> Inl CadenceProofUnavailable
      | Some occurrence \<Rightarrow>
          if occurrence \<le> reference then Inl CadenceProofUnavailable
          else if occurrence \<ge> GREGORIAN_CYCLE_END then Inr (CycleEnd first previous)
          else if occurrences + 1 \<ge> 2 ^ 32 then Inl CadenceProofExhausted
          else if occurrences + 1 > proof_limit then Inl CadenceProofExhausted
          else if (case previous of None \<Rightarrow> False | Some prior \<Rightarrow> occurrence - prior < minimum)
          then Inr (Answer False)
          else cadence_loop cal c tz minimum proof_limit (Some occurrence)
                 (case first of None \<Rightarrow> Some occurrence | Some f \<Rightarrow> Some f)
                 occurrence (occurrences + 1))"
  by pat_completeness auto
termination
  by (relation "measure (\<lambda>(cal, c, tz, minimum, proof_limit, previous, first, reference, occurrences).
        proof_limit - occurrences)") auto

declare cadence_loop.simps [simp del]

definition prove_cron_minimum_cadence ::
  "('tz, 'cron) calendar \<Rightarrow> string \<Rightarrow> string \<Rightarrow> i64 \<Rightarrow> u32 \<Rightarrow> state_value_error + bool" where
  "prove_cron_minimum_cadence cal expression timezone minimum proof_limit =
     (if minimum \<le> 60 then Inr True
      else let fields = split_whitespace expression in
      if length fields \<noteq> 5 then Inl InvalidCron
      else let fixed_minute = parses_below (fields ! 0) 60;
               fixed_hour = parses_below (fields ! 1) 24;
               every_day = (drop 2 fields = [''*'', ''*'', ''*'']) in
      if timezone = ''UTC'' \<and> fixed_minute \<and> fields ! 1 = ''*'' \<and> every_day
      then Inr (minimum \<le> 3600)
      else if timezone = ''UTC'' \<and> fixed_minute \<and> fixed_hour \<and> every_day
      then Inr (minimum \<le> 86400)
      else let fixed_daily = (fixed_minute \<and> fixed_hour \<and> every_day) in
      if timezone \<noteq> ''UTC'' \<and> \<not> fixed_daily then Inl CadenceProofUnavailable
      else rbind (ok_or InvalidCron (cron_parse cal expression)) (\<lambda>c.
      rbind (ok_or CadenceProofUnavailable (tz_parse cal timezone)) (\<lambda>tz.
      if fixed_daily then prove_fixed_daily cal c tz minimum proof_limit
      else rbind (cadence_loop cal c tz minimum (unat proof_limit) None None
                    (GREGORIAN_CYCLE_START - 1) 0) (\<lambda>exit.
      case exit of
        Answer b \<Rightarrow> Inr b
      | CycleEnd (Some first) (Some final) \<Rightarrow>
          Inr (first + (GREGORIAN_CYCLE_END - GREGORIAN_CYCLE_START) - final \<ge> minimum)
      | CycleEnd _ _ \<Rightarrow> Inl CadenceProofUnavailable))))"

definition validate_minimum_cadence ::
  "('tz, 'cron) calendar \<Rightarrow> schedule_spec \<Rightarrow> i64 \<Rightarrow> u32 \<Rightarrow> u32 \<Rightarrow> state_value_error + unit" where
  "validate_minimum_cadence cal spec now minimum_seconds proof_limit =
     (let minimum = uint minimum_seconds in
      rbind (case spec of
               Once at_time \<Rightarrow>
                 Inr (case checked_sub at_time now of None \<Rightarrow> False | Some delay \<Rightarrow> delay \<ge> minimum)
             | FixedInterval _ every \<Rightarrow> Inr (every \<ge> minimum)
             | Cron expression timezone \<Rightarrow>
                 prove_cron_minimum_cadence cal expression timezone minimum proof_limit)
        (\<lambda>valid. if \<not> valid then Inl CadenceTooShort else Inr ()))"

section \<open>Persistence\<close>

record schedule_parts =
  part_kind :: string
  part_canonical_spec :: string
  part_timezone :: "string option"
  part_once_at :: "i64 option"
  part_anchor_at :: "i64 option"
  part_interval_seconds :: "i64 option"

definition storage_parts :: "schedule_spec \<Rightarrow> schedule_parts" where
  "storage_parts spec =
     (case spec of
        Once at_time \<Rightarrow>
          \<lparr>part_kind = ''once'', part_canonical_spec = int_to_string at_time,
           part_timezone = None, part_once_at = Some at_time, part_anchor_at = None,
           part_interval_seconds = None\<rparr>
      | FixedInterval anchor every \<Rightarrow>
          \<lparr>part_kind = ''fixed_interval'', part_canonical_spec = int_to_string every,
           part_timezone = None, part_once_at = None, part_anchor_at = Some anchor,
           part_interval_seconds = Some every\<rparr>
      | Cron expression timezone \<Rightarrow>
          \<lparr>part_kind = ''cron'', part_canonical_spec = expression,
           part_timezone = Some timezone, part_once_at = None, part_anchor_at = None,
           part_interval_seconds = None\<rparr>)"

definition ok_option :: "'e + 'a \<Rightarrow> 'a option" where
  "ok_option r = (case r of Inl _ \<Rightarrow> None | Inr x \<Rightarrow> Some x)"

definition from_storage ::
  "('tz, 'cron) calendar \<Rightarrow> schedule_parts \<Rightarrow> state_error + schedule_spec" where
  "from_storage cal parts =
     ok_or (InvalidSchedulerState ''invalid persisted schedule'')
       (if part_kind parts = ''once'' then map_option once (part_once_at parts)
        else if part_kind parts = ''fixed_interval'' then
          (case (part_anchor_at parts, part_interval_seconds parts) of
             (Some anchor, Some every) \<Rightarrow> ok_option (fixed_interval anchor every)
           | _ \<Rightarrow> None)
        else if part_kind parts = ''cron'' then
          Option.bind (part_timezone parts)
            (\<lambda>timezone. ok_option (cron cal (part_canonical_spec parts) timezone))
        else None)"

section \<open>Fixed intervals\<close>

text \<open>The occurrences of an interval schedule, and being the first one after a reference.\<close>

definition occurs_at :: "i64 \<Rightarrow> i64 \<Rightarrow> i64 \<Rightarrow> bool" where
  "occurs_at anchor every t \<longleftrightarrow> anchor \<le> t \<and> every dvd (t - anchor)"

definition first_occurrence_after :: "i64 \<Rightarrow> i64 \<Rightarrow> i64 \<Rightarrow> i64 \<Rightarrow> bool" where
  "first_occurrence_after anchor every reference t \<longleftrightarrow>
     occurs_at anchor every t \<and> reference < t \<and>
     (\<forall>u. occurs_at anchor every u \<longrightarrow> reference < u \<longrightarrow> t \<le> u)"

lemma first_occurrence_closed_form:
  assumes "0 < every" and "anchor \<le> reference"
  shows "first_occurrence_after anchor every reference t \<longleftrightarrow>
    t = anchor + ((reference - anchor) div every + 1) * every"
proof -
  define q where "q = (reference - anchor) div every"
  define t0 where "t0 = anchor + (q + 1) * every"
  have q: "q * every \<le> reference - anchor" "reference - anchor < (q + 1) * every" "0 \<le> q"
    using assms div_bounds_int [OF assms(1), of "reference - anchor"]
    by (auto simp: q_def pos_imp_zdiv_nonneg_iff)
  have "every dvd t0 - anchor" by (simp add: t0_def)
  then have occ: "occurs_at anchor every t0" "reference < t0"
    using q assms by (auto simp: occurs_at_def t0_def)
  have least: "t0 \<le> u" if "occurs_at anchor every u" "reference < u" for u
  proof -
    from that(1) obtain k where k: "u - anchor = every * k" by (auto simp: occurs_at_def dvd_def)
    have "q * every < k * every" using q(1) that(2) k by (simp add: mult.commute)
    then have "q < k" using assms(1) by (simp add: mult_less_cancel_right)
    then have "(q + 1) * every \<le> k * every" using assms(1) by (intro mult_right_mono) auto
    then show ?thesis using k by (simp add: t0_def mult.commute)
  qed
  show ?thesis
    using occ least unfolding first_occurrence_after_def q_def [symmetric] t0_def [symmetric]
    by (meson order_antisym)
qed

lemma first_occurrence_before_anchor:
  assumes "reference < anchor"
  shows "first_occurrence_after anchor every reference t \<longleftrightarrow> t = anchor"
  using assms unfolding first_occurrence_after_def occurs_at_def
  by (metis cancel_comm_monoid_add_class.diff_cancel dvd_0_right order_antisym order_less_le_trans
      order_refl)

lemma next_fixed_interval_cases:
  assumes "0 < every" and "anchor \<le> reference"
  defines "t \<equiv> anchor + ((reference - anchor) div every + 1) * every"
  shows "next_fixed_interval anchor every reference =
    (if in_i64 (t - anchor) \<and> in_i64 t then Inr t else Inl ArithmeticOverflow)"
proof -
  define q where "q = (reference - anchor) div every"
  have q: "0 \<le> q" "reference - anchor < (q + 1) * every"
    using assms(1,2) div_bounds_int [OF assms(1), of "reference - anchor"]
    by (auto simp: q_def pos_imp_zdiv_nonneg_iff)
  have "q + 1 \<le> (q + 1) * every"
    using mult_left_mono [of 1 every "q + 1"] q(1) assms(1) by simp
  then have range: "in_i64 ((q + 1) * every) \<Longrightarrow> in_i64 (q + 1) \<and> in_i64 (reference - anchor)"
    using q assms(2) unfolding i64_defs by linarith
  show ?thesis
  proof (cases "in_i64 (reference - anchor)")
    case True
    then have "checked_div (reference - anchor) every = Some q"
      using assms(1,2) checked_div_nonneg by (simp add: q_def)
    with True range assms(2) show ?thesis
      by (auto simp: next_fixed_interval_def t_def q_def [symmetric] checked_defs)
  next
    case False
    with range have "\<not> in_i64 (t - anchor)" by (auto simp: t_def q_def [symmetric])
    with False assms(2) show ?thesis by (simp add: next_fixed_interval_def checked_sub_def)
  qed
qed

text \<open>
  C31: the interval arithmetic finds the canonical next occurrence. For a positive interval and
  an anchor in range, \<open>next_fixed_interval\<close> returns \<open>t\<close> exactly when \<open>t\<close> is the least
  element of \<open>{anchor + k * every | k \<ge> 0}\<close> strictly after the reference and both \<open>t\<close> and its
  distance from the anchor fit an \<open>i64\<close>; in every other case it reports \<open>ArithmeticOverflow\<close>.
\<close>

theorem next_fixed_interval_is_first_occurrence:
  assumes "0 < every" and "in_i64 anchor"
  shows "(next_fixed_interval anchor every reference = Inr t \<longleftrightarrow>
       first_occurrence_after anchor every reference t \<and> in_i64 t \<and> in_i64 (t - anchor))
    \<and> (next_fixed_interval anchor every reference = Inl ArithmeticOverflow
       \<or> (\<exists>u. next_fixed_interval anchor every reference = Inr u))"
proof (cases "reference < anchor")
  case True
  then show ?thesis
    using assms first_occurrence_before_anchor [OF True, of every t]
    by (auto simp: next_fixed_interval_def i64_defs)
next
  case False
  then have le: "anchor \<le> reference" by simp
  show ?thesis
    using next_fixed_interval_cases [OF assms(1) le] first_occurrence_closed_form [OF assms(1) le]
    by (auto split: if_splits)
qed

theorem next_fixed_interval_is_first_occurrence_witness:
  "(next_fixed_interval 1000 60 1090 = Inr 1120 \<longleftrightarrow>
       first_occurrence_after 1000 60 1090 1120 \<and> in_i64 1120 \<and> in_i64 (1120 - 1000))
    \<and> next_fixed_interval 1000 60 1090 = Inr 1120"
proof -
  have "next_fixed_interval 1000 60 1090 = Inr 1120" by code_simp
  then show ?thesis
    using next_fixed_interval_is_first_occurrence [of 60 1000 1090 1120]
    by (simp add: i64_defs)
qed

section \<open>Coalescing\<close>

text \<open>
  What \<open>coalesce\<close> needs from the occurrence search: progress. Every window then starts at the
  due occurrence, ends at or before the clock, and resumes strictly after it.
\<close>

definition window_ok :: "i64 \<Rightarrow> i64 \<Rightarrow> occurrence_window \<Rightarrow> bool" where
  "window_ok due now w \<longleftrightarrow>
     scheduled_for w = due \<and> due \<le> coalesced_through w \<and> coalesced_through w \<le> now \<and>
     (case next_run_at w of None \<Rightarrow> True | Some t \<Rightarrow> now < t)"

locale occurrence_source =
  fixes next_of :: "i64 \<Rightarrow> occurrence_error + i64"
  assumes progress: "next_of reference = Inr t \<Longrightarrow> reference < t"
begin

lemma loop_window:
  assumes "coalesce_loop next_of due now n current skipped = Inr w"
    and "due \<le> current" and "current \<le> now"
  shows "window_ok due now w \<and> \<not> skipped_count_saturated w"
  using assms
proof (induction n arbitrary: current skipped)
  case (Suc n)
  show ?case
  proof (cases "next_of current")
    case (Inl e)
    then show ?thesis using Suc.prems by (cases e) (auto simp: window_ok_def)
  next
    case (Inr t)
    then show ?thesis
      using Suc.prems Suc.IH [of t "saturating_add_u32 skipped 1"] progress [OF Inr]
      by (auto simp: window_ok_def split: if_splits)
  qed
qed simp

text \<open>The count is the number of occurrences stepped over, saturating with the word.\<close>

lemma loop_count:
  assumes "coalesce_loop next_of due now n current skipped = Inr w"
  shows "unat skipped \<le> unat (skipped_count w) \<and> unat (skipped_count w) < unat skipped + n"
  using assms
proof (induction n arbitrary: current skipped)
  case (Suc n)
  show ?case
  proof (cases "next_of current")
    case (Inl e)
    then show ?thesis using Suc.prems by (cases e) auto
  next
    case (Inr t)
    show ?thesis
    proof (cases "t > now")
      case True
      then show ?thesis using Suc.prems Inr by auto
    next
      case False
      then have "coalesce_loop next_of due now n t (saturating_add_u32 skipped 1) = Inr w"
        using Suc.prems Inr by simp
      from Suc.IH [OF this] show ?thesis
        using unat_bounds(2) [of skipped] by (simp add: unat_saturating_add_u32 min_def split: if_splits)
    qed
  qed
qed simp

end

interpretation cron_next: occurrence_source "next_cron cal expression timezone"
  for cal expression timezone
  by unfold_locales (auto simp: next_cron_def split: if_splits option.splits)

lemma coalesce_fixed_interval_ok:
  assumes "0 < every" and "due \<le> now"
  shows "coalesce_fixed_interval due now every = Inr w \<longleftrightarrow>
    (let q = (now - due) div every; through = due + q * every in
       in_i64 (now - due) \<and> in_i64 (q * every) \<and> in_i64 through \<and> in_i64 (through + every) \<and>
       w = \<lparr>scheduled_for = due, coalesced_through = through,
            skipped_count = u32_of_i64_or_max q, skipped_count_saturated = (q > u32_max),
            next_run_at = Some (through + every)\<rparr>)"
proof (cases "in_i64 (now - due)")
  case True
  then show ?thesis
    using assms checked_div_nonneg [of "now - due" every]
    by (auto simp: coalesce_fixed_interval_def Let_def checked_sub_def)
next
  case False
  then show ?thesis by (simp add: coalesce_fixed_interval_def Let_def checked_sub_def)
qed

lemma coalesce_fixed_interval_window:
  assumes "0 < every" and "due \<le> now" and "coalesce_fixed_interval due now every = Inr w"
  shows "window_ok due now w"
proof -
  define q where "q = (now - due) div every"
  have q: "q * every \<le> now - due" "now - due < (q + 1) * every" "0 \<le> q * every"
    using assms div_bounds_int [OF assms(1), of "now - due"]
    by (auto simp: q_def pos_imp_zdiv_nonneg_iff)
  then have "now < due + q * every + every" by (simp add: distrib_right)
  moreover have "w = \<lparr>scheduled_for = due, coalesced_through = due + q * every,
            skipped_count = u32_of_i64_or_max q, skipped_count_saturated = (q > u32_max),
            next_run_at = Some (due + q * every + every)\<rparr>"
    using assms by (simp add: coalesce_fixed_interval_ok q_def Let_def)
  ultimately show ?thesis using q by (simp add: window_ok_def)
qed

text \<open>What the constructors establish of a schedule.\<close>

definition spec_ok :: "schedule_spec \<Rightarrow> bool" where
  "spec_ok spec = (case spec of FixedInterval _ every \<Rightarrow> 0 < every | _ \<Rightarrow> True)"

lemma coalesce_window_ok:
  assumes "spec_ok spec" and "due \<le> now" and "coalesce cal spec due now max_steps = Inr w"
  shows "window_ok due now w"
proof (cases spec)
  case (Once t)
  then show ?thesis using assms by (auto simp: coalesce_def window_ok_def)
next
  case (FixedInterval anchor every)
  then show ?thesis
    using assms coalesce_fixed_interval_window by (simp add: coalesce_def spec_ok_def)
next
  case (Cron e tz)
  then have "next_after cal spec = next_cron cal e tz" by (simp add: next_after_def fun_eq_iff)
  then show ?thesis
    using Cron assms cron_next.loop_window [of cal e tz due now "unat max_steps" due 0 w]
    by (simp add: coalesce_def)
qed

text \<open>
  A coalesced window never loses its place. For every constructible schedule and every due
  occurrence not after the clock, a successful \<open>coalesce\<close> starts at that occurrence, merges only
  occurrences up to the clock, and either ends the schedule or resumes strictly after the clock, so
  no occurrence is materialized twice; under a cron schedule it steps at most \<open>max_steps\<close> times.
\<close>

lemma coalesce_window:
  assumes "spec_ok spec" and "due \<le> now" and "coalesce cal spec due now max_steps = Inr w"
  shows "scheduled_for w = due \<and> due \<le> coalesced_through w \<and> coalesced_through w \<le> now
    \<and> (next_run_at w = None \<or> now < the (next_run_at w))
    \<and> (case spec of Cron _ _ \<Rightarrow> unat (skipped_count w) < unat max_steps | _ \<Rightarrow> True)"
proof -
  have "unat (skipped_count w) < unat max_steps" if c: "spec = Cron e tz" for e tz
  proof -
    have "coalesce_loop (next_cron cal e tz) due now (unat max_steps) due 0 = Inr w"
      using assms(2,3) c by (simp add: coalesce_def next_after_def [abs_def])
    from cron_next.loop_count [OF this] show ?thesis by simp
  qed
  then have "case spec of Cron _ _ \<Rightarrow> unat (skipped_count w) < unat max_steps | _ \<Rightarrow> True"
    by (cases spec) simp_all
  moreover have "window_ok due now w" by (rule coalesce_window_ok [OF assms])
  ultimately show ?thesis by (auto simp: window_ok_def split: option.splits)
qed

definition no_calendar :: "(unit, unit) calendar" where
  "no_calendar = \<lparr>cron_parse = \<lambda>_. None, find_next_occurrence = \<lambda>_ _ _ _. None,
     find_previous_occurrence = \<lambda>_ _ _ _. None, utc_timestamp_ok = \<lambda>_. False,
     tzdb_version = None, tzdb_get = \<lambda>_. None, iana_name = \<lambda>_. None,
     jiff_timestamp_ok = \<lambda>_. False, tz_following = \<lambda>_ _ _. None\<rparr>"

subsection \<open>The closed form against the step search\<close>






section \<open>Cadence proofs are sound\<close>

text \<open>The occurrences of one Gregorian cycle, as the calendar enumerates them.\<close>

fun occurrence_run :: "('tz, 'cron) calendar \<Rightarrow> 'cron \<Rightarrow> 'tz \<Rightarrow> i64 \<Rightarrow> i64 list \<Rightarrow> bool" where
  "occurrence_run cal c tz reference [] \<longleftrightarrow>
     (\<exists>t. find_next_occurrence cal c tz reference False = Some t \<and> GREGORIAN_CYCLE_END \<le> t)"
| "occurrence_run cal c tz reference (t # ts) \<longleftrightarrow>
     find_next_occurrence cal c tz reference False = Some t \<and> reference < t
     \<and> t < GREGORIAN_CYCLE_END \<and> occurrence_run cal c tz t ts"

definition spaced :: "i64 \<Rightarrow> i64 list \<Rightarrow> bool" where
  "spaced minimum ts \<longleftrightarrow> successively (\<lambda>a b. minimum \<le> b - a) ts"

lemma cadence_loop_cycle_end:
  assumes "cadence_loop cal c tz minimum limit previous first reference n = Inr (CycleEnd f l)"
  shows "\<exists>ts. occurrence_run cal c tz reference ts
    \<and> spaced minimum (case previous of None \<Rightarrow> ts | Some p \<Rightarrow> p # ts)
    \<and> f = (case first of None \<Rightarrow> (if ts = [] then None else Some (hd ts)) | Some x \<Rightarrow> Some x)
    \<and> l = (if ts = [] then previous else Some (last ts))
    \<and> length ts \<le> limit - n"
  using assms
proof (induction cal c tz minimum limit previous first reference n rule: cadence_loop.induct)
  case (1 cal c tz minimum limit previous first reference n)
  note unfold = cadence_loop.simps [of cal c tz minimum limit previous first reference n]
  from "1.prems" obtain t where t: "utc_timestamp_ok cal reference"
    "find_next_occurrence cal c tz reference False = Some t" "reference < t"
    by (auto simp: unfold split: if_splits option.splits)
  show ?case
  proof (cases "GREGORIAN_CYCLE_END \<le> t")
    case True
    then have "f = first" "l = previous"
      using "1.prems" t by (simp_all add: unfold)
    then show ?thesis
      using True t by (intro exI [of _ "[]"]) (auto simp: spaced_def split: option.splits)
  next
    case False
    define first' where "first' = (case first of None \<Rightarrow> Some t | Some f \<Rightarrow> Some f)"
    have ok: "\<not> 2 ^ 32 \<le> n + 1" "\<not> limit < n + 1"
      "\<not> (case previous of None \<Rightarrow> False | Some prior \<Rightarrow> t - prior < minimum)"
      and rec: "cadence_loop cal c tz minimum limit (Some t) first' t (n + 1) = Inr (CycleEnd f l)"
      using "1.prems" t False
      by (auto simp: unfold first'_def split: if_splits)
    from "1.IH" [OF _ t(2) _ _ ok, folded first'_def] rec t False obtain ts where
      ts: "occurrence_run cal c tz t ts" "spaced minimum (t # ts)"
      "f = (case first' of None \<Rightarrow> if ts = [] then None else Some (hd ts) | Some x \<Rightarrow> Some x)"
      "l = (if ts = [] then Some t else Some (last ts))" "length ts \<le> limit - (n + 1)"
      by auto
    then show ?thesis
      using t False ok
      by (intro exI [of _ "t # ts"])
        (auto simp: spaced_def first'_def successively_Cons split: option.splits)
  qed
qed

lemma cadence_loop_no_true:
  "cadence_loop cal c tz minimum limit previous first reference n \<noteq> Inr (Answer True)"
proof (induction cal c tz minimum limit previous first reference n rule: cadence_loop.induct)
  case (1 cal c tz minimum limit previous first reference n)
  then show ?case
    by (subst cadence_loop.simps) (auto split: option.split)
qed

text \<open>The field shapes the proof answers without walking the calendar.\<close>

definition fixed_daily_fields :: "string \<Rightarrow> bool" where
  "fixed_daily_fields expression \<longleftrightarrow>
     (let fields = split_whitespace expression in
      parses_below (fields ! 0) 60 \<and> drop 2 fields = [''*'', ''*'', ''*''] \<and>
      (fields ! 1 = ''*'' \<or> parses_below (fields ! 1) 24))"

text \<open>
  C33: an accepted cron schedule really keeps the minimum cadence. When the cadence proof of a
  UTC cron expression that needs the calendar walk answers true, the occurrences the calendar
  enumerates over a whole 400-year Gregorian cycle are nonempty, at most \<open>proof_limit\<close> many,
  pairwise at least the minimum apart, and the gap across the end of the cycle is too.
\<close>

theorem cron_cadence_proof_sound:
  assumes "prove_cron_minimum_cadence cal expression ''UTC'' minimum proof_limit = Inr True"
    and "60 < minimum" and "\<not> fixed_daily_fields expression"
  shows "\<exists>c tz ts. cron_parse cal expression = Some c \<and> tz_parse cal ''UTC'' = Some tz \<and>
    ts \<noteq> [] \<and> length ts \<le> unat proof_limit \<and>
    occurrence_run cal c tz (GREGORIAN_CYCLE_START - 1) ts \<and> spaced minimum ts \<and>
    minimum \<le> hd ts + (GREGORIAN_CYCLE_END - GREGORIAN_CYCLE_START) - last ts"
proof -
  have nd: "\<not> (parses_below (split_whitespace expression ! 0) 60 \<and>
      parses_below (split_whitespace expression ! 1) 24 \<and>
      drop 2 (split_whitespace expression) = [''*'', ''*'', ''*''])"
    "\<not> (parses_below (split_whitespace expression ! 0) 60 \<and>
      split_whitespace expression ! 1 = ''*'' \<and>
      drop 2 (split_whitespace expression) = [''*'', ''*'', ''*''])"
    using assms(3) by (auto simp: fixed_daily_fields_def Let_def)
  obtain c tz exit where c: "cron_parse cal expression = Some c" "tz_parse cal ''UTC'' = Some tz"
    and exit: "cadence_loop cal c tz minimum (unat proof_limit) None None
        (GREGORIAN_CYCLE_START - 1) 0 = Inr exit"
    "(case exit of Answer b \<Rightarrow> Inr b
      | CycleEnd (Some first) (Some final) \<Rightarrow>
          Inr (first + (GREGORIAN_CYCLE_END - GREGORIAN_CYCLE_START) - final \<ge> minimum)
      | CycleEnd _ _ \<Rightarrow> Inl CadenceProofUnavailable) = Inr True"
    using assms(1,2) nd
    by (auto simp: prove_cron_minimum_cadence_def Let_def split: if_splits)
  show ?thesis
  proof (cases exit)
    case (Answer b)
    then show ?thesis using exit cadence_loop_no_true by fastforce
  next
    case (CycleEnd f l)
    with exit obtain first final where fl: "f = Some first" "l = Some final"
      "minimum \<le> first + (GREGORIAN_CYCLE_END - GREGORIAN_CYCLE_START) - final"
      by (auto split: option.splits)
    from cadence_loop_cycle_end [OF exit(1) [unfolded CycleEnd]] obtain ts where
      "occurrence_run cal c tz (GREGORIAN_CYCLE_START - 1) ts" "spaced minimum ts"
      "f = (if ts = [] then None else Some (hd ts))" "l = (if ts = [] then None else Some (last ts))"
      "length ts \<le> unat proof_limit"
      by auto
    with fl c show ?thesis by (auto split: if_splits)
  qed
qed

definition sparse_calendar :: "(unit, unit) calendar" where
  "sparse_calendar = \<lparr>cron_parse = \<lambda>_. Some (),
     find_next_occurrence = \<lambda>_ _ r _. Some ((r div 5000000000 + 1) * 5000000000),
     find_previous_occurrence = \<lambda>_ _ _ _. None, utc_timestamp_ok = \<lambda>_. True,
     tzdb_version = Some ''2026c'', tzdb_get = \<lambda>_. Some (), iana_name = \<lambda>_. Some ''UTC'',
     jiff_timestamp_ok = \<lambda>_. True, tz_following = \<lambda>_ _ _. None\<rparr>"

lemma sparse_fields:
  "find_next_occurrence sparse_calendar c tz r b = Some ((r div 5000000000 + 1) * 5000000000)"
  "utc_timestamp_ok sparse_calendar r"
  by (simp_all add: sparse_calendar_def)

theorem cron_cadence_proof_sound_witness:
  "\<exists>c tz ts. cron_parse sparse_calendar ''0 0 1 1 *'' = Some c \<and>
    tz_parse sparse_calendar ''UTC'' = Some tz \<and>
    ts \<noteq> [] \<and> length ts \<le> unat (10 :: u32) \<and>
    occurrence_run sparse_calendar c tz (GREGORIAN_CYCLE_START - 1) ts \<and> spaced 3600 ts \<and>
    3600 \<le> hd ts + (GREGORIAN_CYCLE_END - GREGORIAN_CYCLE_START) - last ts"
proof (rule cron_cadence_proof_sound)
  have words: "split_whitespace ''0 0 1 1 *'' = [''0'', ''0'', ''1'', ''1'', ''*'']"
    using split_whitespace_graphic [of "[''0'', ''0'', ''1'', ''1'', ''*'']"]
    by (simp add: is_graphic_def byte_val_def)
  then show "\<not> fixed_daily_fields ''0 0 1 1 *''" by (simp add: fixed_daily_fields_def)
  note fields = sparse_fields GREGORIAN_CYCLE_START_def GREGORIAN_CYCLE_END_def
  have l2: "cadence_loop sparse_calendar () () 3600 10 (Some 10000000000) (Some 5000000000)
      10000000000 2 = Inr (CycleEnd (Some 5000000000) (Some 10000000000))"
    by (subst cadence_loop.simps) (simp add: fields)
  have l1: "cadence_loop sparse_calendar () () 3600 10 (Some 5000000000) (Some 5000000000)
      5000000000 1 = Inr (CycleEnd (Some 5000000000) (Some 10000000000))"
    by (subst cadence_loop.simps) (simp add: fields l2 numeral_2_eq_2 [symmetric])
  have "cadence_loop sparse_calendar () () 3600 (unat (10 :: u32)) None None
      (GREGORIAN_CYCLE_START - 1) 0 = Inr (CycleEnd (Some 5000000000) (Some 10000000000))"
    by (subst cadence_loop.simps) (simp add: fields l1 [simplified])
  then show "prove_cron_minimum_cadence sparse_calendar ''0 0 1 1 *'' ''UTC'' 3600 10 = Inr True"
    using words by (simp add: prove_cron_minimum_cadence_def Let_def tz_parse_def sparse_calendar_def
        REQUIRED_TZDB_VERSION_def GREGORIAN_CYCLE_START_def GREGORIAN_CYCLE_END_def)
qed simp

section \<open>Persisted schedules\<close>

text \<open>What the constructors return, a schedule built by \<open>once\<close>, \<open>fixed_interval\<close> or \<open>cron\<close>.\<close>

inductive constructed :: "('tz, 'cron) calendar \<Rightarrow> schedule_spec \<Rightarrow> bool" for cal where
  constructed_once: "constructed cal (once t)"
| constructed_interval: "fixed_interval anchor every = Inr spec \<Longrightarrow> constructed cal spec"
| constructed_cron: "cron cal expression timezone = Inr spec \<Longrightarrow> constructed cal spec"

lemma constructed_spec_ok: "constructed cal spec \<Longrightarrow> spec_ok spec"
  by (induction rule: constructed.induct)
    (auto simp: once_def fixed_interval_def cron_def spec_ok_def Let_def split: if_splits)

text \<open>jiff's database resolves a canonical name to a zone of that same name.\<close>

definition canonical_names_resolve :: "('tz, 'cron) calendar \<Rightarrow> bool" where
  "canonical_names_resolve cal \<longleftrightarrow>
     (\<forall>name tz canonical. tzdb_get cal name = Some tz \<longrightarrow> iana_name cal tz = Some canonical \<longrightarrow>
        (\<exists>tz'. tzdb_get cal canonical = Some tz' \<and> iana_name cal tz' = Some canonical))"

lemma cron_idempotent:
  assumes "canonical_names_resolve cal" and "cron cal e z = Inr (Cron e' z')"
  shows "cron cal e' z' = Inr (Cron e' z')"
proof -
  have e': "e' = join_with '' '' (split_whitespace e)" "length (split_whitespace e') = 5"
    and parsed: "\<exists>c. cron_parse cal e' = Some c"
    and tz: "\<exists>tz. tz_parse cal z = Some tz \<and>
        z' = (case iana_name cal tz of None \<Rightarrow> z | Some name \<Rightarrow> name)"
    using assms(2)
    by (auto simp: cron_def Let_def canonical_name_def split_whitespace_join split: if_splits)
  have canon: "join_with '' '' (split_whitespace e') = e'"
    using e'(1) by (simp add: split_whitespace_join)
  from tz obtain zone where zone: "tz_parse cal z = Some zone"
    "z' = (case iana_name cal zone of None \<Rightarrow> z | Some name \<Rightarrow> name)" by blast
  obtain zone' where "tz_parse cal z' = Some zone'"
    "(case iana_name cal zone' of None \<Rightarrow> z' | Some name \<Rightarrow> name) = z'"
  proof (cases "iana_name cal zone")
    case None
    with zone that show thesis by simp
  next
    case (Some name)
    with zone assms(1) obtain zone' where "tzdb_get cal name = Some zone'"
      "iana_name cal zone' = Some name"
      by (auto simp: canonical_names_resolve_def tz_parse_def split: if_splits)
    with zone Some that show thesis by (auto simp: tz_parse_def split: if_splits)
  qed
  with canon parsed e'(2) show ?thesis
    by (auto simp: cron_def Let_def canonical_name_def)
qed

text \<open>
  Schedules survive the database. Every schedule a constructor can return is read back
  unchanged by \<open>from_storage\<close> from the columns \<open>storage_parts\<close> writes; for cron schedules this
  uses that the timezone database resolves its own canonical names.
\<close>

lemma schedule_storage_roundtrip:
  assumes "constructed cal spec" and "canonical_names_resolve cal"
  shows "from_storage cal (storage_parts spec) = Inr spec"
  using assms(1)
proof cases
  case (constructed_once t)
  then show ?thesis by (simp add: once_def storage_parts_def from_storage_def)
next
  case (constructed_interval anchor every)
  then show ?thesis
    by (auto simp: fixed_interval_def storage_parts_def from_storage_def ok_option_def
        split: if_splits)
next
  case (constructed_cron e z)
  then obtain e' z' where spec: "spec = Cron e' z'"
    by (auto simp: cron_def Let_def split: if_splits)
  with constructed_cron have "cron cal e z = Inr (Cron e' z')" by simp
  from cron_idempotent [OF assms(2) this] show ?thesis
    by (simp add: spec storage_parts_def from_storage_def ok_option_def)
qed

end
