(* ===== verification/Json_Value.thy ===== *)
theory Json_Value
  imports State_Error Scheduler_Policy
begin

text \<open>
  The JSON values the stores snapshot, with the accessors of \<open>serde_json::Value\<close> that the sources
  call. An object is a \<open>BTreeMap\<close>: an association list sorted by key without duplicates, so that
  structural equality is \<open>Value\<close> equality.

  serde's parser and printers, SHA-256 and SQLite's JSON functions are not part of the sources.
  They are fields of the record \<open>ext\<close>, an argument of every definition that calls them.
\<close>

datatype json =
    JNull
  | JBool bool
  | JInt int
  | JFloat string
  | JStr string
  | JArr "json list"
  | JObj "(string \<times> json) list"

record ext =
  json_parse :: "string \<Rightarrow> string + json"
  json_print :: "json \<Rightarrow> string"
  policy_parse :: "string \<Rightarrow> string + policy"
  policy_print :: "policy \<Rightarrow> string"
  policy_value :: "policy \<Rightarrow> json"
  sha256 :: "string \<Rightarrow> string"
  sql_json_int :: "string \<Rightarrow> string \<Rightarrow> int option"
  sql_json_valid :: "string \<Rightarrow> bool"

fun obj_insert :: "string \<Rightarrow> json \<Rightarrow> (string \<times> json) list \<Rightarrow> (string \<times> json) list" where
  "obj_insert k v [] = [(k, v)]"
| "obj_insert k v ((k', v') # m) =
     (if k < k' then (k, v) # (k', v') # m
      else if k = k' then (k, v) # m
      else (k', v') # obj_insert k v m)"

text \<open>\<open>json!({...})\<close>: the entries are inserted in order.\<close>

definition json_obj :: "(string \<times> json) list \<Rightarrow> json" where
  "json_obj entries = JObj (fold (\<lambda>(k, v) m. obj_insert k v m) entries [])"

fun value_get :: "json \<Rightarrow> string \<Rightarrow> json option" where
  "value_get (JObj m) k = map_of m k"
| "value_get _ k = None"

fun as_str :: "json \<Rightarrow> string option" where
  "as_str (JStr s) = Some s"
| "as_str _ = None"

fun as_bool :: "json \<Rightarrow> bool option" where
  "as_bool (JBool b) = Some b"
| "as_bool _ = None"

fun as_u64 :: "json \<Rightarrow> int option" where
  "as_u64 (JInt n) = (if 0 \<le> n \<and> n < 2 ^ 64 then Some n else None)"
| "as_u64 _ = None"

fun as_i64 :: "json \<Rightarrow> int option" where
  "as_i64 (JInt n) = (if - (2 ^ 63) \<le> n \<and> n < 2 ^ 63 then Some n else None)"
| "as_i64 _ = None"

fun as_array :: "json \<Rightarrow> json list option" where
  "as_array (JArr xs) = Some xs"
| "as_array _ = None"

fun as_object :: "json \<Rightarrow> (string \<times> json) list option" where
  "as_object (JObj m) = Some m"
| "as_object _ = None"

definition get_str :: "json \<Rightarrow> string \<Rightarrow> string option" where
  "get_str v k = Option.bind (value_get v k) as_str"

definition get_u64 :: "json \<Rightarrow> string \<Rightarrow> int option" where
  "get_u64 v k = Option.bind (value_get v k) as_u64"

text \<open>\<open>Value::pointer\<close> restricted to the object paths the sources use.\<close>

fun pointer :: "json \<Rightarrow> string list \<Rightarrow> json option" where
  "pointer v [] = Some v"
| "pointer v (k # ks) = (case value_get v k of None \<Rightarrow> None | Some v' \<Rightarrow> pointer v' ks)"

definition pointer_str :: "json \<Rightarrow> string list \<Rightarrow> string option" where
  "pointer_str v ks = Option.bind (pointer v ks) as_str"

definition pointer_u64 :: "json \<Rightarrow> string list \<Rightarrow> int option" where
  "pointer_u64 v ks = Option.bind (pointer v ks) as_u64"

definition option_json :: "('a \<Rightarrow> json) \<Rightarrow> 'a option \<Rightarrow> json" where
  "option_json f x = (case x of None \<Rightarrow> JNull | Some v \<Rightarrow> f v)"

section \<open>Object lemmas\<close>

definition obj_sorted :: "(string \<times> json) list \<Rightarrow> bool" where
  "obj_sorted m \<longleftrightarrow> sorted_wrt (<) (map fst m)"

lemma set_obj_insert: "fst ` set (obj_insert k v m) = insert k (fst ` set m)"
  by (induction k v m rule: obj_insert.induct) (auto simp: image_iff)

lemma obj_insert_sorted: "obj_sorted m \<Longrightarrow> obj_sorted (obj_insert k v m)"
proof (induction k v m rule: obj_insert.induct)
  case (2 k v k' v' m)
  have keys: "set (map fst (obj_insert k v m)) = insert k (set (map fst m))"
    using set_obj_insert [of k v m] by simp
  show ?case
  proof (cases "k \<le> k'")
    case True
    then show ?thesis
      using "2.prems" by (auto simp: obj_sorted_def order.strict_iff_order)
  next
    case False
    then have "k' < k" by simp
    then show ?thesis
      using 2 keys by (auto simp: obj_sorted_def)
  qed
qed (simp add: obj_sorted_def)

lemma map_of_obj_insert: "obj_sorted m \<Longrightarrow> map_of (obj_insert k v m) = (map_of m)(k \<mapsto> v)"
proof (induction k v m rule: obj_insert.induct)
  case (2 k v k' v' m)
  then show ?case by (auto simp: obj_sorted_def fun_eq_iff)
qed (simp add: fun_eq_iff)

lemma json_obj_sorted:
  "obj_sorted m \<Longrightarrow> obj_sorted (fold (\<lambda>(k, v) m. obj_insert k v m) entries m)"
  by (induction entries arbitrary: m) (auto simp: obj_insert_sorted)

lemma map_of_json_fold:
  "obj_sorted m \<Longrightarrow> map_of (fold (\<lambda>(k, v) m. obj_insert k v m) entries m) k =
     (case map_of (rev entries) k of None \<Rightarrow> map_of m k | Some v \<Rightarrow> Some v)"
proof (induction entries arbitrary: m)
  case (Cons e es)
  obtain k' v' where e: "e = (k', v')" by (cases e)
  with Cons show ?case
    by (auto simp: obj_insert_sorted map_of_obj_insert map_add_def split: option.splits)
qed simp

lemma value_get_json_obj: "value_get (json_obj entries) k = map_of (rev entries) k"
  by (simp add: json_obj_def map_of_json_fold obj_sorted_def split: option.splits)

lemma length_obj_insert: "k \<notin> fst ` set m \<Longrightarrow> length (obj_insert k v m) = Suc (length m)"
  by (induction k v m rule: obj_insert.induct) auto

lemma length_json_fold:
  "distinct (map fst entries) \<Longrightarrow> fst ` set entries \<inter> fst ` set m = {} \<Longrightarrow>
     length (fold (\<lambda>(k, v) m. obj_insert k v m) entries m) = length entries + length m"
proof (induction entries arbitrary: m)
  case (Cons e es)
  obtain k v where e: "e = (k, v)" by (cases e)
  have "length (fold (\<lambda>(k, v) m. obj_insert k v m) es (obj_insert k v m))
      = length es + length (obj_insert k v m)"
    using Cons.prems e by (intro Cons.IH) (auto simp: set_obj_insert)
  then show ?case using Cons.prems e by (simp add: length_obj_insert)
qed simp

lemma json_obj_object:
  obtains m where "json_obj entries = JObj m" and "\<And>k. map_of m k = map_of (rev entries) k"
    and "distinct (map fst entries) \<Longrightarrow> length m = length entries"
proof
  let ?m = "fold (\<lambda>(k, v) m. obj_insert k v m) entries []"
  show "json_obj entries = JObj ?m" by (simp add: json_obj_def)
  show "map_of ?m k = map_of (rev entries) k" for k
    by (simp add: map_of_json_fold obj_sorted_def split: option.splits)
  show "distinct (map fst entries) \<Longrightarrow> length ?m = length entries"
    using length_json_fold [of entries "[]"] by simp
qed

end
