(* ===== verification/State_Values.thy ===== *)
theory State_Values
  imports Json_Value Schedule_Spec
begin

text \<open>
  Durable values of \<^verbatim>\<open>crates/state/src/scheduler.rs\<close>: the persisted vocabularies, the text,
  digest and snapshot validators every store operation starts with, and the small value types the
  run store exchanges with its callers (principals, snapshots, lease bindings, admissions, permits,
  dispositions and outcomes).
\<close>

section \<open>Error displays\<close>

definition value_error_display :: "state_value_error \<Rightarrow> string" where
  "value_error_display e =
     (case e of
        Empty field \<Rightarrow> field @ '' must not be empty''
      | TooLarge field \<Rightarrow> field @ '' exceeds its storage bound''
      | InvalidJson field \<Rightarrow> field @ '' must be valid JSON''
      | NonCanonicalJson field \<Rightarrow> field @ '' must use canonical JSON encoding''
      | ForbiddenDurableData field \<Rightarrow> field @ '' contains forbidden durable data''
      | InvalidSha256 field \<Rightarrow> field @ '' must be lowercase sha256''
      | InvalidValue field \<Rightarrow> field @ '' is invalid''
      | InvalidVersion \<Rightarrow> ''version must be positive''
      | OnceNotFuture \<Rightarrow> ''once timestamp must be strictly later than now''
      | InvalidInterval \<Rightarrow> ''fixed interval must be positive''
      | CadenceTooShort \<Rightarrow> ''schedule cadence is shorter than the configured minimum''
      | CadenceProofExhausted \<Rightarrow> ''cron cadence proof exhausted its configured occurrence bound''
      | CadenceProofUnavailable \<Rightarrow>
          ''cron cadence cannot be proven for this timezone and minimum''
      | InvalidCronFieldCount \<Rightarrow> ''cron must contain exactly five fields''
      | InvalidCron \<Rightarrow> ''invalid cron expression''
      | InvalidTimezone \<Rightarrow> ''invalid IANA timezone'')"

definition occurrence_error_display :: "occurrence_error \<Rightarrow> string" where
  "occurrence_error_display e =
     (case e of
        NoFutureOccurrence \<Rightarrow> ''schedule has no future occurrence''
      | ArithmeticOverflow \<Rightarrow> ''occurrence arithmetic overflowed''
      | SearchExhausted \<Rightarrow> ''bounded occurrence search was exhausted'')"

definition policy_error_display :: "policy_error \<Rightarrow> string" where
  "policy_error_display e = err_field e @ '' '' @ err_reason e"

definition invalid_value :: "state_value_error \<Rightarrow> state_error" where
  "invalid_value e = InvalidSchedulerState (value_error_display e)"

definition invalid_occurrence :: "occurrence_error \<Rightarrow> state_error" where
  "invalid_occurrence e = InvalidSchedulerState (occurrence_error_display e)"

definition scheduler_error :: "sqlx_error \<Rightarrow> state_error" where
  "scheduler_error source = SchedulerError source"

definition invalid_json :: "string \<Rightarrow> state_error" where
  "invalid_json message = InvalidSchedulerState message"

section \<open>Persisted vocabularies\<close>

datatype run_state =
    Pending | Leased | Executing | Succeeded | Failed | TimedOut | Cancelled | OutcomeUnknown

datatype job_status = JobActive | JobPaused | JobCompleted | JobDeleted

fun run_state_as_str :: "run_state \<Rightarrow> string" where
  "run_state_as_str Pending = ''pending''"
| "run_state_as_str Leased = ''leased''"
| "run_state_as_str Executing = ''executing''"
| "run_state_as_str Succeeded = ''succeeded''"
| "run_state_as_str Failed = ''failed''"
| "run_state_as_str TimedOut = ''timed_out''"
| "run_state_as_str Cancelled = ''cancelled''"
| "run_state_as_str OutcomeUnknown = ''outcome_unknown''"

definition run_state_from_str :: "string \<Rightarrow> state_error + run_state" where
  "run_state_from_str value =
     (if value = ''pending'' then Inr Pending
      else if value = ''leased'' then Inr Leased
      else if value = ''executing'' then Inr Executing
      else if value = ''succeeded'' then Inr Succeeded
      else if value = ''failed'' then Inr Failed
      else if value = ''timed_out'' then Inr TimedOut
      else if value = ''cancelled'' then Inr Cancelled
      else if value = ''outcome_unknown'' then Inr OutcomeUnknown
      else Inl (InvalidSchedulerState (''invalid run state '' @ value)))"

fun job_status_as_str :: "job_status \<Rightarrow> string" where
  "job_status_as_str JobActive = ''active''"
| "job_status_as_str JobPaused = ''paused''"
| "job_status_as_str JobCompleted = ''completed''"
| "job_status_as_str JobDeleted = ''deleted''"

definition job_status_parse :: "string \<Rightarrow> state_error + job_status" where
  "job_status_parse value =
     (if value = ''active'' then Inr JobActive
      else if value = ''paused'' then Inr JobPaused
      else if value = ''completed'' then Inr JobCompleted
      else if value = ''deleted'' then Inr JobDeleted
      else Inl (InvalidSchedulerState (''invalid job status '' @ value)))"

datatype transition_kind =
    OccurrencesMaterialized | MisfireCoalescedSkipped | OverlapSuppressed | RunClaimed
  | RunCompleted | RunFailed | RunTimedOut | RunCancelled | RunOutcomeUnknown
  | RunObserveOnlyReexecution | RunLeaseReclaimed | StaleFenceRejected | PolicyLimitRejected
  | DeliveryClaimed | DeliveryDelivered | DeliveryRetry | DeliveryFailure | DeliveryUnknown
  | DeliverySkipped | DeliveryForcedUnknownResend | ExecutionBaselineAdvanced
  | AcceptedDeliveryBaselineAdvanced | ProfileValidationFailed | ArtifactValidationFailed
  | ToolListValidationFailed | UnauthorizedSchedulerMutation

definition transition_kinds_all :: "transition_kind list" where
  "transition_kinds_all =
     [OccurrencesMaterialized, MisfireCoalescedSkipped, OverlapSuppressed, RunClaimed,
      RunCompleted, RunFailed, RunTimedOut, RunCancelled, RunOutcomeUnknown,
      RunObserveOnlyReexecution, RunLeaseReclaimed, StaleFenceRejected, PolicyLimitRejected,
      DeliveryClaimed, DeliveryDelivered, DeliveryRetry, DeliveryFailure, DeliveryUnknown,
      DeliverySkipped, DeliveryForcedUnknownResend, ExecutionBaselineAdvanced,
      AcceptedDeliveryBaselineAdvanced, ProfileValidationFailed, ArtifactValidationFailed,
      ToolListValidationFailed, UnauthorizedSchedulerMutation]"

fun transition_kind_as_str :: "transition_kind \<Rightarrow> string" where
  "transition_kind_as_str OccurrencesMaterialized = ''occurrences_materialized''"
| "transition_kind_as_str MisfireCoalescedSkipped = ''misfire_coalesced_skipped''"
| "transition_kind_as_str OverlapSuppressed = ''overlap_suppressed''"
| "transition_kind_as_str RunClaimed = ''run_claimed''"
| "transition_kind_as_str RunCompleted = ''run_completed''"
| "transition_kind_as_str RunFailed = ''run_failed''"
| "transition_kind_as_str RunTimedOut = ''run_timed_out''"
| "transition_kind_as_str RunCancelled = ''run_cancelled''"
| "transition_kind_as_str RunOutcomeUnknown = ''run_outcome_unknown''"
| "transition_kind_as_str RunObserveOnlyReexecution = ''run_observe_only_reexecution''"
| "transition_kind_as_str RunLeaseReclaimed = ''run_lease_reclaimed''"
| "transition_kind_as_str StaleFenceRejected = ''stale_fence_rejected''"
| "transition_kind_as_str PolicyLimitRejected = ''policy_limit_rejected''"
| "transition_kind_as_str DeliveryClaimed = ''delivery_claimed''"
| "transition_kind_as_str DeliveryDelivered = ''delivery_delivered''"
| "transition_kind_as_str DeliveryRetry = ''delivery_retry''"
| "transition_kind_as_str DeliveryFailure = ''delivery_failure''"
| "transition_kind_as_str DeliveryUnknown = ''delivery_unknown''"
| "transition_kind_as_str DeliverySkipped = ''delivery_skipped''"
| "transition_kind_as_str DeliveryForcedUnknownResend = ''delivery_forced_unknown_resend''"
| "transition_kind_as_str ExecutionBaselineAdvanced = ''execution_baseline_advanced''"
| "transition_kind_as_str AcceptedDeliveryBaselineAdvanced =
     ''accepted_delivery_baseline_advanced''"
| "transition_kind_as_str ProfileValidationFailed = ''profile_validation_failed''"
| "transition_kind_as_str ArtifactValidationFailed = ''artifact_validation_failed''"
| "transition_kind_as_str ToolListValidationFailed = ''tool_list_validation_failed''"
| "transition_kind_as_str UnauthorizedSchedulerMutation = ''unauthorized_scheduler_mutation''"

datatype late_evidence_kind =
    CompletionAfterLeaseLoss | PreflightAfterLeaseLoss | HeartbeatAfterLeaseLoss

fun late_evidence_kind_as_str :: "late_evidence_kind \<Rightarrow> string" where
  "late_evidence_kind_as_str CompletionAfterLeaseLoss = ''completion_after_lease_loss''"
| "late_evidence_kind_as_str PreflightAfterLeaseLoss = ''preflight_after_lease_loss''"
| "late_evidence_kind_as_str HeartbeatAfterLeaseLoss = ''heartbeat_after_lease_loss''"

section \<open>Validators\<close>

definition MAX_SNAPSHOT_BYTES :: nat where "MAX_SNAPSHOT_BYTES = 256 * 1024"
definition MAX_CONTEXT_BYTES :: nat where "MAX_CONTEXT_BYTES = 64 * 1024"
definition MAX_PREVIOUS_SUCCESS_BYTES :: nat where "MAX_PREVIOUS_SUCCESS_BYTES = 16 * 1024"

definition validate_text :: "string \<Rightarrow> string \<Rightarrow> state_value_error + unit" where
  "validate_text field value =
     (if value = [] then Inl (Empty field)
      else if length value > MAX_CONTEXT_BYTES then Inl (TooLarge field)
      else Inr ())"

definition validate_lowercase_sha256 :: "string \<Rightarrow> string \<Rightarrow> state_value_error + unit" where
  "validate_lowercase_sha256 field value =
     (if length value \<noteq> 64 \<or> \<not> list_all is_hex_lower value then Inl (InvalidSha256 field)
      else Inr ())"

definition replace_char :: "char \<Rightarrow> char \<Rightarrow> string \<Rightarrow> string" where
  "replace_char a b s = map (\<lambda>c. if c = a then b else c) s"

definition forbidden_durable_names :: "string list" where
  "forbidden_durable_names =
     [''secret'', ''token'', ''password'', ''private_key'', ''auth'', ''authorization'',
      ''credentials'', ''api_key'', ''client_secret'', ''access_token'', ''refresh_token'',
      ''event_id'', ''dedupe_key'', ''origin'', ''slack_event'', ''live_event'']"

definition is_forbidden_durable_key :: "string \<Rightarrow> bool" where
  "is_forbidden_durable_key key =
     (let normalized = replace_char CHR ''-'' CHR ''_'' (map to_ascii_lowercase (str_trim key))
      in normalized \<in> set forbidden_durable_names
         \<or> ends_with normalized ''_secret'' \<or> ends_with normalized ''_token''
         \<or> ends_with normalized ''_password'' \<or> ends_with normalized ''_private_key''
         \<or> ends_with normalized ''_api_key'')"

fun contains_forbidden_durable_key :: "json \<Rightarrow> bool" where
  "contains_forbidden_durable_key (JObj m) \<longleftrightarrow>
     (\<exists>kv \<in> set m. is_forbidden_durable_key (fst kv) \<or> contains_forbidden_durable_key (snd kv))"
| "contains_forbidden_durable_key (JArr vs) \<longleftrightarrow>
     (\<exists>v \<in> set vs. contains_forbidden_durable_key v)"
| "contains_forbidden_durable_key _ \<longleftrightarrow> False"

definition canonicalize_snapshot ::
  "ext \<Rightarrow> u32 \<Rightarrow> string \<Rightarrow> string \<Rightarrow> state_value_error + string" where
  "canonicalize_snapshot x version field text =
     (if version = 0 then Inl InvalidVersion
      else if length text > MAX_SNAPSHOT_BYTES then Inl (TooLarge field)
      else rbind (map_err (\<lambda>_. InvalidJson field) (json_parse x text)) (\<lambda>value.
      if contains_forbidden_durable_key value then Inl (ForbiddenDurableData field)
      else let canonical = json_print x value in
      if length canonical > MAX_SNAPSHOT_BYTES then Inl (TooLarge field)
      else Inr canonical))"

definition validate_canonical_snapshot ::
  "ext \<Rightarrow> u32 \<Rightarrow> string \<Rightarrow> string \<Rightarrow> state_value_error + unit" where
  "validate_canonical_snapshot x version field text =
     rbind (canonicalize_snapshot x version field text) (\<lambda>canonical.
       if canonical \<noteq> text then Inl (NonCanonicalJson field) else Inr ())"

definition validate_canonical_json :: "ext \<Rightarrow> string \<Rightarrow> string \<Rightarrow> state_value_error + unit" where
  "validate_canonical_json x field text =
     (if length text > MAX_SNAPSHOT_BYTES then Inl (TooLarge field)
      else rbind (map_err (\<lambda>_. InvalidJson field) (json_parse x text)) (\<lambda>value.
      if json_print x value \<noteq> text then Inl (NonCanonicalJson field) else Inr ()))"

text \<open>A byte starts a character unless it is a UTF-8 continuation byte.\<close>

definition is_char_start :: "char \<Rightarrow> bool" where
  "is_char_start c \<longleftrightarrow> \<not> (128 \<le> byte_val c \<and> byte_val c < 192)"

definition char_indices :: "string \<Rightarrow> nat list" where
  "char_indices value = filter (\<lambda>i. is_char_start (value ! i)) [0..<length value]"

definition bounded_utf8_boundary :: "string \<Rightarrow> nat \<Rightarrow> nat" where
  "bounded_utf8_boundary value maximum =
     (if length value \<le> maximum then length value
      else let starts = takeWhile (\<lambda>i. i \<le> maximum) (char_indices value)
           in if starts = [] then 0 else last starts)"

definition hex_digit :: "nat \<Rightarrow> char" where
  "hex_digit n = (if n < 10 then char_of (48 + n) else char_of (87 + n))"

definition encode_sha256 :: "string \<Rightarrow> string" where
  "encode_sha256 value =
     concat (map (\<lambda>b. [hex_digit (byte_val b div 16), hex_digit (byte_val b mod 16)]) value)"

definition sha256_hex :: "ext \<Rightarrow> string \<Rightarrow> string" where
  "sha256_hex x value = encode_sha256 (sha256 x value)"

text \<open>The length frame: eight big-endian bytes of the length, saturating at \<open>u64::MAX\<close>.\<close>

definition be_bytes_u64 :: "nat \<Rightarrow> string" where
  "be_bytes_u64 n =
     (let n = min n (2 ^ 64 - 1)
      in map (\<lambda>i. char_of ((n div 256 ^ (7 - i)) mod 256)) [0..<8])"

definition frame :: "string \<Rightarrow> string" where
  "frame value = be_bytes_u64 (length value) @ value"

definition framed_sha256 :: "ext \<Rightarrow> string \<Rightarrow> string list \<Rightarrow> string" where
  "framed_sha256 x domain values =
     encode_sha256 (sha256 x (concat (map frame (domain # values))))"

definition operator_reason_code_byte :: "char \<Rightarrow> bool" where
  "operator_reason_code_byte c \<longleftrightarrow>
     is_ascii_lowercase c \<or> is_ascii_digit c \<or> c = CHR ''_''"

definition validate_operator_reason ::
  "ext \<Rightarrow> string \<Rightarrow> string \<Rightarrow> state_value_error + unit" where
  "validate_operator_reason x reason_json reason_digest =
     (let field = ''operator retry reason'' in
      if length reason_json > MAX_CONTEXT_BYTES then Inl (TooLarge field)
      else rbind (validate_canonical_json x field reason_json) (\<lambda>_.
      rbind (validate_lowercase_sha256 ''operator retry reason digest'' reason_digest) (\<lambda>_.
      if sha256_hex x reason_json \<noteq> reason_digest
      then Inl (InvalidSha256 ''operator retry reason digest'')
      else rbind (map_err (\<lambda>_. InvalidJson field) (json_parse x reason_json)) (\<lambda>value.
      rbind (ok_or (InvalidJson field) (as_object value)) (\<lambda>object.
      let reason = get_str (JObj object) ''reason'';
          reason_code = get_str (JObj object) ''reason_code'' in
      if length object \<noteq> 3
         \<or> list_ex (\<lambda>key. map_of object key = None) [''reason'', ''reason_code'', ''schema_version'']
         \<or> get_u64 (JObj object) ''schema_version'' \<noteq> Some 1
         \<or> (case reason of None \<Rightarrow> True
            | Some r \<Rightarrow> r = [] \<or> length r > 4 * 1024 \<or> str_trim r \<noteq> r)
         \<or> (case reason_code of None \<Rightarrow> True
            | Some code \<Rightarrow> code = [] \<or> length code > 64
                \<or> \<not> list_all operator_reason_code_byte code)
      then Inl (InvalidJson field) else Inr ())))))"

definition positive_u32 :: "i64 \<Rightarrow> state_error + u32" where
  "positive_u32 value =
     (if 0 < value \<and> value \<le> u32_max then Inr (word_of_int value)
      else Inl (InvalidSchedulerState ''persisted version is not positive''))"

section \<open>Value types\<close>

record principal_key =
  principal_kind :: string
  principal_provider :: string
  principal_tenant :: string
  principal_subject :: string

definition principal_validate :: "principal_key \<Rightarrow> state_value_error + unit" where
  "principal_validate p = check_all [
     validate_text ''principal.kind'' (principal_kind p),
     validate_text ''principal.provider'' (principal_provider p),
     validate_text ''principal.tenant'' (principal_tenant p),
     validate_text ''principal.subject'' (principal_subject p)]"

definition principal_new ::
  "string \<Rightarrow> string \<Rightarrow> string \<Rightarrow> string \<Rightarrow> state_value_error + principal_key" where
  "principal_new kind provider tenant subject =
     (let value = \<lparr>principal_kind = kind, principal_provider = provider,
                   principal_tenant = tenant, principal_subject = subject\<rparr>
      in rbind (check_all [
           validate_text ''principal.kind'' (principal_kind value),
           validate_text ''principal.provider'' (principal_provider value),
           validate_text ''principal.tenant'' (principal_tenant value),
           validate_text ''principal.subject'' (principal_subject value)]) (\<lambda>_. Inr value))"

record job_definition =
  definition_snapshot_version :: u32
  definition_canonical_json :: string

definition job_definition_new ::
  "ext \<Rightarrow> u32 \<Rightarrow> string \<Rightarrow> state_value_error + job_definition" where
  "job_definition_new x version text =
     rbind (canonicalize_snapshot x version ''definition'' text) (\<lambda>canonical.
       Inr \<lparr>definition_snapshot_version = version, definition_canonical_json = canonical\<rparr>)"

definition job_definition_validate :: "ext \<Rightarrow> job_definition \<Rightarrow> state_value_error + unit" where
  "job_definition_validate x d =
     validate_canonical_snapshot x (definition_snapshot_version d) ''definition''
       (definition_canonical_json d)"

record capability_snapshot =
  capability_snapshot_version :: u32
  capability_snapshot_digest :: string
  capability_canonical_json :: string

definition capability_snapshot_new ::
  "ext \<Rightarrow> u32 \<Rightarrow> string \<Rightarrow> string \<Rightarrow> state_value_error + capability_snapshot" where
  "capability_snapshot_new x version digest text =
     rbind (canonicalize_snapshot x version ''capability profile'' text) (\<lambda>canonical.
     rbind (validate_text ''capability profile digest'' digest) (\<lambda>_.
     Inr \<lparr>capability_snapshot_version = version, capability_snapshot_digest = digest,
          capability_canonical_json = canonical\<rparr>))"

definition capability_snapshot_validate ::
  "ext \<Rightarrow> capability_snapshot \<Rightarrow> state_value_error + unit" where
  "capability_snapshot_validate x c =
     rbind (validate_text ''capability profile digest'' (capability_snapshot_digest c)) (\<lambda>_.
     validate_canonical_snapshot x (capability_snapshot_version c) ''capability profile''
       (capability_canonical_json c))"

record attested_profile =
  attested_schema_version :: u32
  attested_canonical_json :: string
  attested_hash_algorithm :: string
  attested_digest :: string

definition attested_profile_new ::
  "ext \<Rightarrow> u32 \<Rightarrow> string \<Rightarrow> string \<Rightarrow> string \<Rightarrow> state_value_error + attested_profile" where
  "attested_profile_new x version text algorithm digest =
     rbind (canonicalize_snapshot x version ''attested execution profile'' text) (\<lambda>canonical.
     rbind (validate_text ''attested profile hash algorithm'' algorithm) (\<lambda>_.
     rbind (validate_text ''attested profile digest'' digest) (\<lambda>_.
     Inr \<lparr>attested_schema_version = version, attested_canonical_json = canonical,
          attested_hash_algorithm = algorithm, attested_digest = digest\<rparr>)))"

definition attested_profile_validate ::
  "ext \<Rightarrow> attested_profile \<Rightarrow> state_value_error + unit" where
  "attested_profile_validate x p =
     rbind (validate_canonical_snapshot x (attested_schema_version p)
       ''attested execution profile'' (attested_canonical_json p)) (\<lambda>_.
     rbind (validate_text ''attested profile hash algorithm'' (attested_hash_algorithm p)) (\<lambda>_.
     validate_text ''attested profile digest'' (attested_digest p)))"

record run_lease_binding =
  binding_run_id :: string
  binding_job_id :: string
  binding_attempt :: i64
  binding_fence :: i64
  binding_lease_owner :: string

record executor_admission =
  admission_schema_version :: u32
  admission_deployment_epoch :: i64
  admission_attestation_id :: string
  admission_profile_digest :: string
  admission_signed_not_after :: i64
  admission_operation_deadline :: i64

definition admission_validate :: "executor_admission \<Rightarrow> state_value_error + unit" where
  "admission_validate a = check_all [
     guard_err (admission_schema_version a \<noteq> 1 \<or> admission_deployment_epoch a \<le> 0
         \<or> admission_operation_deadline a \<le> 0
         \<or> admission_operation_deadline a \<ge> admission_signed_not_after a)
       (InvalidValue ''scheduled executor admission''),
     validate_lowercase_sha256 ''scheduled executor admission id'' (admission_attestation_id a),
     validate_lowercase_sha256 ''scheduled executor admission profile''
       (admission_profile_digest a)]"

record epoch_authority =
  epoch_schema_version :: u32
  epoch_deployment_epoch :: i64
  epoch_attestation_id :: string
  epoch_attestation_digest :: string
  epoch_profile_digest :: string
  epoch_issued_at :: i64
  epoch_expires_at :: i64

definition epoch_authority_validate ::
  "epoch_authority \<Rightarrow> i64 \<Rightarrow> state_value_error + unit" where
  "epoch_authority_validate e now = check_all [
     guard_err (epoch_schema_version e \<noteq> 1 \<or> epoch_deployment_epoch e \<le> 0)
       (InvalidValue ''scheduled executor deployment epoch''),
     validate_lowercase_sha256 ''scheduled executor attestation id'' (epoch_attestation_id e),
     validate_lowercase_sha256 ''scheduled executor attestation digest''
       (epoch_attestation_digest e),
     validate_lowercase_sha256 ''scheduled executor profile digest'' (epoch_profile_digest e),
     guard_err (epoch_issued_at e \<le> 0 \<or> epoch_expires_at e \<le> epoch_issued_at e
         \<or> epoch_expires_at e \<le> now)
       (InvalidValue ''scheduled executor epoch validity'')]"

datatype epoch_registration = Activated | Resumed

record execution_permit =
  permit_deployment_epoch :: i64
  permit_attestation_id :: string
  permit_profile_digest :: string
  permit_run_id :: string
  permit_job_id :: string
  permit_attempt :: i64
  permit_fence :: i64
  permit_authority_digest :: string
  permit_nonce :: string
  permit_id :: string
  permit_consumed_at :: i64

definition permit_validate :: "execution_permit \<Rightarrow> state_value_error + unit" where
  "permit_validate p = check_all [
     guard_err (permit_deployment_epoch p \<le> 0 \<or> permit_attempt p \<le> 0 \<or> permit_fence p \<le> 0
         \<or> permit_consumed_at p \<le> 0 \<or> permit_run_id p = [] \<or> permit_job_id p = [])
       (InvalidValue ''scheduled execution permit binding''),
     validate_lowercase_sha256 ''scheduled execution attestation id'' (permit_attestation_id p),
     validate_lowercase_sha256 ''scheduled execution profile digest'' (permit_profile_digest p),
     validate_lowercase_sha256 ''scheduled execution authority digest''
       (permit_authority_digest p),
     validate_lowercase_sha256 ''scheduled execution permit nonce'' (permit_nonce p),
     validate_lowercase_sha256 ''scheduled execution permit id'' (permit_id p)]"

record claimed_run =
  claimed_binding :: run_lease_binding
  claimed_schedule_id :: string
  claimed_job_generation :: i64
  claimed_schedule_generation :: i64
  claimed_scheduled_for :: i64
  claimed_coalesced_through :: i64
  claimed_definition_version :: u32
  claimed_definition_json :: string
  claimed_capability_schema_version :: u32
  claimed_capability_digest :: string
  claimed_capability_json :: string
  claimed_targets_json :: string
  claimed_execution_baseline_json :: string
  claimed_scheduler_policy :: policy

datatype preflight_disposition = PreflightRetryAt i64 | PreflightFail

datatype execution_terminal = TFailed | TTimedOut | TCancelled | TOutcomeUnknown

datatype transport_convergence = Converged

datatype execution_disposition =
    ExecutionRetryAt (exec_retry_at: i64) (exec_deadline_at: i64) (exec_max_attempts: i64)
      (exec_transport: transport_convergence) (exec_exhausted: execution_terminal)
  | ExecutionTerminal execution_terminal

datatype reclaim_outcome =
    ReclaimIdle
  | ReclaimRetried string i64 i64
  | ReclaimFailed string i64 i64
  | ReclaimOutcomeUnknown string i64 i64

datatype reconcile_outcome = Applied reclaim_outcome | Stale | NotEligible

datatype late_evidence_outcome = Recorded | Duplicate | QuotaExceeded

datatype execution_outcome =
    OutcomeRetried
  | OutcomeTerminal execution_terminal
  | OutcomeLateEvidence late_evidence_outcome

record run_result =
  result_summary :: string
  result_previous_success_context :: string

definition run_result_new :: "string \<Rightarrow> string \<Rightarrow> state_value_error + run_result" where
  "run_result_new summary context =
     rbind (validate_text ''scheduled result summary'' summary) (\<lambda>_.
     if length context > MAX_CONTEXT_BYTES
     then Inl (TooLarge ''scheduled result previous success context'')
     else Inr \<lparr>result_summary = summary, result_previous_success_context = context\<rparr>)"

record reconcile_candidate =
  candidate_run_id :: string
  candidate_state :: run_state
  candidate_attempt :: i64
  candidate_fence :: i64
  candidate_lease_owner :: string
  candidate_lease_expires_at :: i64
  candidate_next_attempt_at :: "i64 option"

definition canonical_plan_snapshot :: "ext \<Rightarrow> reconcile_candidate \<Rightarrow> string" where
  "canonical_plan_snapshot x c = json_print x (json_obj [
     (''attempt'', JInt (candidate_attempt c)),
     (''fence'', JInt (candidate_fence c)),
     (''lease_expires_at'', JInt (candidate_lease_expires_at c)),
     (''lease_owner_digest'', JStr (sha256_hex x (candidate_lease_owner c))),
     (''next_attempt_at'', option_json JInt (candidate_next_attempt_at c)),
     (''retry_eligible'', JBool (candidate_next_attempt_at c \<noteq> None)),
     (''run_id'', JStr (candidate_run_id c)),
     (''state'', JStr (run_state_as_str (candidate_state c)))])"

section \<open>Vocabularies round-trip\<close>

interpretation run_state_enum: string_enum run_state_as_str run_state_from_str
proof
  show "run_state_from_str (run_state_as_str x) = Inr x" for x
    by (cases x) (simp_all add: run_state_from_str_def)
  show "run_state_from_str s = Inr x \<Longrightarrow> run_state_as_str x = s" for s x
    by (auto simp: run_state_from_str_def split: if_splits)
qed

interpretation job_status_enum: string_enum job_status_as_str job_status_parse
proof
  show "job_status_parse (job_status_as_str x) = Inr x" for x
    by (cases x) (simp_all add: job_status_parse_def)
  show "job_status_parse s = Inr x \<Longrightarrow> job_status_as_str x = s" for s x
    by (auto simp: job_status_parse_def split: if_splits)
qed

lemma transition_kinds_complete: "set transition_kinds_all = UNIV"
proof -
  have "k \<in> set transition_kinds_all" for k
    by (cases k) (simp_all add: transition_kinds_all_def)
  then show ?thesis by blast
qed

text \<open>
  The run-state column is a faithful encoding. Parsing accepts exactly the eight persisted
  names, each the name of the state it yields, distinct states have distinct names, and every other
  string is rejected as an invalid scheduler state naming it.
\<close>

lemma run_state_column_faithful:
  "(run_state_from_str s = Inr st \<longleftrightarrow> s = run_state_as_str st) \<and>
   (run_state_as_str st = run_state_as_str st' \<longleftrightarrow> st = st') \<and>
   ((\<exists>e. run_state_from_str s = Inl e) \<longleftrightarrow>
      run_state_from_str s = Inl (InvalidSchedulerState (''invalid run state '' @ s)))"
  using run_state_enum.parse_iff run_state_enum.as_str_inj
  by (auto simp: run_state_from_str_def)

section \<open>Snapshots carry no forbidden key\<close>

text \<open>A key occurs in a value at any depth, through objects and arrays.\<close>

inductive key_occurs :: "string \<Rightarrow> json \<Rightarrow> bool" where
  here: "(k, v) \<in> set m \<Longrightarrow> key_occurs k (JObj m)"
| in_object: "(k', v) \<in> set m \<Longrightarrow> key_occurs k v \<Longrightarrow> key_occurs k (JObj m)"
| in_array: "v \<in> set vs \<Longrightarrow> key_occurs k v \<Longrightarrow> key_occurs k (JArr vs)"

inductive_simps key_occurs_simps [simp]:
  "key_occurs k JNull" "key_occurs k (JBool b)" "key_occurs k (JInt n)" "key_occurs k (JFloat f)"
  "key_occurs k (JStr s)" "key_occurs k (JArr vs)" "key_occurs k (JObj m)"

lemma contains_forbidden_iff:
  "contains_forbidden_durable_key v \<longleftrightarrow> (\<exists>k. key_occurs k v \<and> is_forbidden_durable_key k)"
proof (induction v rule: contains_forbidden_durable_key.induct)
  case (1 m)
  have IH: "contains_forbidden_durable_key v \<longleftrightarrow> (\<exists>k. key_occurs k v \<and> is_forbidden_durable_key k)"
    if "(k', v) \<in> set m" for k' v
    using 1 [OF that] by simp
  show ?case
    unfolding contains_forbidden_durable_key.simps key_occurs_simps Bex_def split_paired_Ex
      fst_conv snd_conv
    using IH by blast
next
  case (2 vs)
  then show ?case
    unfolding contains_forbidden_durable_key.simps key_occurs_simps by blast
qed simp_all

text \<open>
  No credential-like key is ever snapshotted. A snapshot that \<open>canonicalize_snapshot\<close> accepts
  was parsed from JSON in which no key, at any depth of objects and arrays, is a forbidden durable
  name, is bounded by the snapshot limit, and is the canonical printing of that value.
\<close>

lemma accepted_snapshot_has_no_forbidden_key:
  assumes "canonicalize_snapshot x version field text = Inr canonical"
  shows "\<exists>value. json_parse x text = Inr value \<and> canonical = json_print x value
    \<and> \<not> (\<exists>k. key_occurs k value \<and> is_forbidden_durable_key k)
    \<and> length text \<le> MAX_SNAPSHOT_BYTES \<and> length canonical \<le> MAX_SNAPSHOT_BYTES \<and> version \<noteq> 0"
  using assms
  by (auto simp: canonicalize_snapshot_def Let_def contains_forbidden_iff split: if_splits)

text \<open>A toy printer and parser for the empty object and one-entry objects, for witnesses.\<close>

definition tiny_ext :: ext where
  "tiny_ext = \<lparr>json_parse = \<lambda>t. if t = ''[1]'' then Inr (JArr [JInt 1]) else Inl ''expected value'',
     json_print = \<lambda>v. if v = JArr [JInt 1] then ''[1]'' else ''null'',
     policy_parse = \<lambda>_. Inr default_policy, policy_print = \<lambda>_. ''{}'', policy_value = \<lambda>_. JNull,
     sha256 = \<lambda>_. replicate 32 CHR 0x00, sql_json_int = \<lambda>_ _. None,
     sql_json_valid = \<lambda>t. t = ''[1]''\<rparr>"

section \<open>Digests\<close>

lemma byte_val_less: "byte_val c < 256"
  using of_char_mod_256 [of c] mod_less_divisor [of 256 "byte_val c"]
  by (simp add: byte_val_def)

lemma byte_val_char_of: "n < 256 \<Longrightarrow> byte_val (char_of n) = n"
  by (simp add: byte_val_def)

lemma byte_val_inject: "byte_val a = byte_val b \<longleftrightarrow> a = b"
  by (simp add: byte_val_def)

lemma hex_digit_lower: "n < 16 \<Longrightarrow> is_hex_lower (hex_digit n)"
  by (auto simp: hex_digit_def is_hex_lower_def is_ascii_digit_def byte_val_char_of)

lemma hex_digit_inject: "n < 16 \<Longrightarrow> m < 16 \<Longrightarrow> hex_digit n = hex_digit m \<longleftrightarrow> n = m"
  by (auto simp: hex_digit_def byte_val_inject [symmetric] byte_val_char_of split: if_splits)

lemma length_encode_sha256 [simp]: "length (encode_sha256 bs) = 2 * length bs"
  by (induction bs) (auto simp: encode_sha256_def)

lemma encode_sha256_hex: "c \<in> set (encode_sha256 bs) \<Longrightarrow> is_hex_lower c"
proof -
  have "byte_val b div 16 < 16" for b using byte_val_less [of b] by linarith
  then show "c \<in> set (encode_sha256 bs) \<Longrightarrow> is_hex_lower c"
    by (auto simp: encode_sha256_def intro!: hex_digit_lower)
qed

lemma encode_sha256_inject: "encode_sha256 a = encode_sha256 b \<longleftrightarrow> a = b"
proof (induction a arbitrary: b)
  case Nil
  then show ?case by (cases b) (auto simp: encode_sha256_def)
next
  case (Cons c a)
  show ?case
  proof (cases b)
    case Nil
    then show ?thesis by (simp add: encode_sha256_def)
  next
    case (Cons d b')
    have "hex_digit (byte_val c div 16) = hex_digit (byte_val d div 16) \<and>
        hex_digit (byte_val c mod 16) = hex_digit (byte_val d mod 16) \<longleftrightarrow> c = d"
      using byte_val_less [of c] byte_val_less [of d]
      by (auto simp: hex_digit_inject) (metis byte_val_inject div_mult_mod_eq)
    then show ?thesis
      using Cons Cons.IH [of b'] by (auto simp: encode_sha256_def)
  qed
qed

fun be_value :: "string \<Rightarrow> nat \<Rightarrow> nat" where
  "be_value [] acc = acc"
| "be_value (c # cs) acc = be_value cs (acc * 256 + byte_val c)"

lemma be_value_snoc: "be_value (cs @ [c]) acc = be_value cs acc * 256 + byte_val c"
  by (induction cs arbitrary: acc) auto

lemma be_value_digits:
  "be_value (map (\<lambda>i. char_of ((n div 256 ^ (k - Suc i)) mod 256)) [0..<k]) 0 = n mod 256 ^ k"
proof (induction k arbitrary: n)
  case 0
  then show ?case by simp
next
  case (Suc k)
  have "map (\<lambda>i. char_of ((n div 256 ^ (Suc k - Suc i)) mod 256) :: char) [0..<k]
      = map (\<lambda>i. char_of (((n div 256) div 256 ^ (k - Suc i)) mod 256)) [0..<k]"
  proof (rule map_cong [OF refl])
    fix i
    assume "i \<in> set [0..<k]"
    then have "Suc k - Suc i = Suc (k - Suc i)" by simp
    then show "(char_of ((n div 256 ^ (Suc k - Suc i)) mod 256) :: char)
        = char_of (((n div 256) div 256 ^ (k - Suc i)) mod 256)"
      by (simp add: div_mult2_eq)
  qed
  then have "map (\<lambda>i. char_of ((n div 256 ^ (Suc k - Suc i)) mod 256)) [0..<Suc k]
      = map (\<lambda>i. char_of (((n div 256) div 256 ^ (k - Suc i)) mod 256)) [0..<k]
        @ [char_of (n mod 256)]"
    by (simp only: upt_Suc map_append) simp
  then have "be_value (map (\<lambda>i. char_of ((n div 256 ^ (Suc k - Suc i)) mod 256)) [0..<Suc k]) 0
      = (n div 256 mod 256 ^ k) * 256 + byte_val (char_of (n mod 256))"
    by (simp only: be_value_snoc Suc.IH [of "n div 256"])
  also have "\<dots> = (n div 256 mod 256 ^ k) * 256 + n mod 256"
    by (subst byte_val_char_of) simp_all
  also have "\<dots> = n mod 256 ^ Suc k"
    by (simp add: mod_mult2_eq)
  finally show ?case .
qed

lemma be_bytes_inject:
  assumes "n < 2 ^ 64" and "m < 2 ^ 64" and "be_bytes_u64 n = be_bytes_u64 m"
  shows "n = m"
proof -
  have "be_value (be_bytes_u64 k) 0 = k" if "k < 2 ^ 64" for k
    using be_value_digits [of k 8] that by (simp add: be_bytes_u64_def Let_def)
  then show ?thesis using assms by metis
qed

lemma length_be_bytes [simp]: "length (be_bytes_u64 n) = 8"
  by (simp add: be_bytes_u64_def Let_def)

lemma frames_inject:
  assumes "\<forall>x \<in> set xs. length x < 2 ^ 64" and "\<forall>y \<in> set ys. length y < 2 ^ 64"
    and "concat (map frame xs) = concat (map frame ys)"
  shows "xs = ys"
  using assms
proof (induction xs arbitrary: ys)
  case Nil
  then show ?case
    by (cases ys) (auto simp: frame_def dest: arg_cong [where f = length])
next
  case (Cons x xs)
  then obtain y ys' where ys: "ys = y # ys'"
    by (cases ys) (auto simp: frame_def dest: arg_cong [where f = length])
  have eq: "be_bytes_u64 (length x) @ x @ concat (map frame xs)
      = be_bytes_u64 (length y) @ y @ concat (map frame ys')"
    using Cons.prems(3) ys by (simp add: frame_def [of x] frame_def [of y])
  then have "be_bytes_u64 (length x) = be_bytes_u64 (length y)"
    and rest: "x @ concat (map frame xs) = y @ concat (map frame ys')"
    by (simp_all add: append_eq_append_conv)
  then have "length x = length y"
    using Cons.prems(1,2) ys be_bytes_inject by simp
  with rest have "x = y" "concat (map frame xs) = concat (map frame ys')" by simp_all
  with Cons.IH [of ys'] Cons.prems(1,2) ys show ?case by simp
qed

text \<open>
  Framed digests separate their domains and fields. Two framed digests agree exactly when
  SHA-256 agrees on the two framed byte strings, and those byte strings agree exactly when the domain
  tags and the field lists do: the length frames leave no way to shift bytes between a domain and a
  field or between neighbouring fields.
\<close>

lemma framed_digest_separates_fields:
  assumes "\<forall>v \<in> set (domain # values). length v < 2 ^ 64"
    and "\<forall>v \<in> set (domain' # values'). length v < 2 ^ 64"
  shows "(framed_sha256 x domain values = framed_sha256 x domain' values' \<longleftrightarrow>
      sha256 x (concat (map frame (domain # values)))
        = sha256 x (concat (map frame (domain' # values')))) \<and>
    (concat (map frame (domain # values)) = concat (map frame (domain' # values')) \<longleftrightarrow>
      domain = domain' \<and> values = values')"
  using frames_inject [OF assms] by (auto simp: framed_sha256_def encode_sha256_inject)

text \<open>
  Every digest the store computes passes its own digest validator: the hexadecimal encoding of
  a 32-byte hash is 64 lowercase hexadecimal characters, and different hashes encode differently.
\<close>

lemma computed_digests_validate:
  assumes "length (sha256 x value) = 32"
  shows "validate_lowercase_sha256 field (sha256_hex x value) = Inr () \<and>
    (sha256_hex x value = sha256_hex x value' \<longleftrightarrow> sha256 x value = sha256 x value')"
  using assms encode_sha256_hex
  by (auto simp: validate_lowercase_sha256_def sha256_hex_def list_all_iff encode_sha256_inject)

section \<open>Bounded UTF-8 prefixes\<close>

definition is_char_boundary :: "string \<Rightarrow> nat \<Rightarrow> bool" where
  "is_char_boundary value i \<longleftrightarrow>
     i = length value \<or> (i < length value \<and> is_char_start (value ! i))"

lemma sorted_char_indices: "sorted (char_indices value)"
  by (simp add: char_indices_def sorted_wrt_filter)

lemma sorted_le_last: "sorted xs \<Longrightarrow> i \<in> set xs \<Longrightarrow> i \<le> last xs"
  by (induction xs) (auto split: if_splits)

lemma set_takeWhile_sorted:
  "sorted xs \<Longrightarrow> set (takeWhile (\<lambda>i. i \<le> (m :: nat)) xs) = {i \<in> set xs. i \<le> m}"
  by (induction xs) auto

text \<open>
  Previous-success context is cut at a character boundary, as late as the bound allows. For a
  value that starts with a character (as every nonempty UTF-8 string does),
  \<open>bounded_utf8_boundary\<close> returns the greatest character boundary that does not exceed the maximum.
\<close>

lemma bounded_utf8_boundary_greatest:
  assumes "value = [] \<or> is_char_start (hd value)"
  shows "bounded_utf8_boundary value maximum \<le> maximum
    \<and> is_char_boundary value (bounded_utf8_boundary value maximum)
    \<and> \<not> (\<exists>i. is_char_boundary value i \<and> i \<le> maximum \<and> bounded_utf8_boundary value maximum < i)"
proof (cases "length value \<le> maximum")
  case True
  then show ?thesis by (auto simp: bounded_utf8_boundary_def is_char_boundary_def)
next
  case False
  define starts where "starts = takeWhile (\<lambda>i. i \<le> maximum) (char_indices value)"
  have mem: "set starts = {i. i < length value \<and> is_char_start (value ! i) \<and> i \<le> maximum}"
    unfolding starts_def set_takeWhile_sorted [OF sorted_char_indices]
    by (auto simp: char_indices_def)
  have "value \<noteq> []" using False by auto
  then have "0 \<in> set starts" using assms by (auto simp: mem hd_conv_nth)
  then have ne: "starts \<noteq> []" by auto
  have b: "bounded_utf8_boundary value maximum = last starts"
    using False ne by (simp add: bounded_utf8_boundary_def starts_def [symmetric])
  have "last starts \<in> set starts" using ne by simp
  then have at: "last starts < length value" "is_char_start (value ! last starts)"
    "last starts \<le> maximum"
    by (simp_all add: mem)
  have "sorted starts"
    using sorted_char_indices by (simp add: starts_def sorted_takeWhile)
  then have le: "i \<le> last starts" if "i \<in> set starts" for i
    using that by (rule sorted_le_last)
  have "\<not> last starts < i" if "is_char_boundary value i" "i \<le> maximum" for i
    using that False le [of i] by (auto simp: is_char_boundary_def mem)
  with at show ?thesis unfolding b is_char_boundary_def by blast
qed

end
