(* ===== verification/Attested_Capability.thy ===== *)
theory Attested_Capability
  imports Scheduled_Identity State_Values
begin

text \<open>
  \<^verbatim>\<open>crates/core/src/attested_capability.rs\<close>: the capability profile a scheduled executor attests,
  its canonical JSON form, its self-digest, its validation and its strict parser. A \<open>BTreeSet\<close> of
  tool names is the sorted list of its elements.
\<close>

definition EXPECTED_GITHUB_TOOLS :: "string list" where
  "EXPECTED_GITHUB_TOOLS =
     [''get_me'', ''issue_read'', ''list_issues'', ''search_issues'', ''search_orgs'']"

record capability_profile =
  cap_codex_version :: string
  cap_app_server_schema_sha256 :: string
  cap_codex_program_sha256 :: string
  cap_github_mcp_version :: string
  cap_github_mcp_configured_artifact_sha256 :: string
  cap_github_mcp_configured_endpoint_identity :: string
  cap_github_mcp_access_auth_mode :: string
  cap_github_mcp_access_token_revision :: string
  cap_github_mcp_health_checked_at_unix_seconds :: int
  cap_github_mcp_health_credential_revision :: string
  cap_github_mcp_health_result_sha256 :: string
  cap_github_mcp_health_tool :: string
  cap_github_tool_schema_sha256 :: string
  cap_github_tools :: "string list"
  cap_credential_reference :: string
  cap_permission_policy_revision :: string
  cap_config_revision :: string
  cap_config_sha256 :: string
  cap_gateway_image_digest :: string
  cap_runner_image_digest :: string
  cap_runner_workload_identity :: string
  cap_runner_client_cert_public_key_fingerprint :: string
  cap_credential_revision :: string
  cap_credential_isolation_revision :: string
  cap_credential_deny_policy_revision :: string
  cap_negative_test_revision :: string
  cap_output_schema_revision :: string
  cap_attested_at_unix_seconds :: int
  cap_profile_sha256 :: string

datatype capability_error =
    CapInvalidJson | CapNonCanonicalJson | CapInvalidShape | CapInvalidField | CapDigestMismatch

definition btree_set :: "string list \<Rightarrow> string list" where
  "btree_set xs = sort (remdups xs)"

definition capability_entries :: "capability_profile \<Rightarrow> (string \<times> json) list" where
  "capability_entries p = [
     (''app_server_schema_sha256'', JStr (cap_app_server_schema_sha256 p)),
     (''attested_at_unix_seconds'', JInt (cap_attested_at_unix_seconds p)),
     (''codex_program_sha256'', JStr (cap_codex_program_sha256 p)),
     (''codex_version'', JStr (cap_codex_version p)),
     (''config_revision'', JStr (cap_config_revision p)),
     (''config_sha256'', JStr (cap_config_sha256 p)),
     (''credential_deny_policy_revision'', JStr (cap_credential_deny_policy_revision p)),
     (''credential_isolation_revision'', JStr (cap_credential_isolation_revision p)),
     (''credential_reference'', JStr (cap_credential_reference p)),
     (''credential_revision'', JStr (cap_credential_revision p)),
     (''gateway_image_digest'', JStr (cap_gateway_image_digest p)),
     (''github_mcp_configured_artifact_sha256'', JStr (cap_github_mcp_configured_artifact_sha256 p)),
     (''github_mcp_access_auth_mode'', JStr (cap_github_mcp_access_auth_mode p)),
     (''github_mcp_access_token_revision'', JStr (cap_github_mcp_access_token_revision p)),
     (''github_mcp_configured_endpoint_identity'', JStr (cap_github_mcp_configured_endpoint_identity p)),
     (''github_mcp_health_checked_at_unix_seconds'', JInt (cap_github_mcp_health_checked_at_unix_seconds p)),
     (''github_mcp_health_credential_revision'', JStr (cap_github_mcp_health_credential_revision p)),
     (''github_mcp_health_result_sha256'', JStr (cap_github_mcp_health_result_sha256 p)),
     (''github_mcp_health_tool'', JStr (cap_github_mcp_health_tool p)),
     (''github_mcp_version'', JStr (cap_github_mcp_version p)),
     (''github_tool_schema_sha256'', JStr (cap_github_tool_schema_sha256 p)),
     (''github_tools'', JArr (map JStr (cap_github_tools p))),
     (''negative_test_revision'', JStr (cap_negative_test_revision p)),
     (''output_schema_revision'', JStr (cap_output_schema_revision p)),
     (''permission_policy_revision'', JStr (cap_permission_policy_revision p)),
     (''profile_sha256'', JStr (cap_profile_sha256 p)),
     (''runner_client_cert_public_key_fingerprint'', JStr (cap_runner_client_cert_public_key_fingerprint p)),
     (''runner_image_digest'', JStr (cap_runner_image_digest p)),
     (''runner_workload_identity'', JStr (cap_runner_workload_identity p))]"

definition capability_value :: "capability_profile \<Rightarrow> json" where
  "capability_value p = json_obj (capability_entries p)"

definition capability_canonical :: "ext \<Rightarrow> capability_profile \<Rightarrow> string" where
  "capability_canonical x p = json_print x (capability_value p)"

definition computed_profile_sha256 :: "ext \<Rightarrow> capability_profile \<Rightarrow> string" where
  "computed_profile_sha256 x p = sha256_hex x (json_print x (json_obj [
     (''app_server_schema_sha256'', JStr (cap_app_server_schema_sha256 p)),
     (''codex_program_sha256'', JStr (cap_codex_program_sha256 p)),
     (''codex_version'', JStr (cap_codex_version p)),
     (''config_revision'', JStr (cap_config_revision p)),
     (''config_sha256'', JStr (cap_config_sha256 p)),
     (''credential_deny_policy_revision'', JStr (cap_credential_deny_policy_revision p)),
     (''credential_isolation_revision'', JStr (cap_credential_isolation_revision p)),
     (''credential_reference'', JStr (cap_credential_reference p)),
     (''credential_revision'', JStr (cap_credential_revision p)),
     (''gateway_image_digest'', JStr (cap_gateway_image_digest p)),
     (''github_mcp_configured_artifact_sha256'', JStr (cap_github_mcp_configured_artifact_sha256 p)),
     (''github_mcp_access_auth_mode'', JStr (cap_github_mcp_access_auth_mode p)),
     (''github_mcp_access_token_revision'', JStr (cap_github_mcp_access_token_revision p)),
     (''github_mcp_configured_endpoint_identity'', JStr (cap_github_mcp_configured_endpoint_identity p)),
     (''github_mcp_health_checked_at_unix_seconds'', JInt (cap_github_mcp_health_checked_at_unix_seconds p)),
     (''github_mcp_health_credential_revision'', JStr (cap_github_mcp_health_credential_revision p)),
     (''github_mcp_health_result_sha256'', JStr (cap_github_mcp_health_result_sha256 p)),
     (''github_mcp_health_tool'', JStr (cap_github_mcp_health_tool p)),
     (''github_mcp_version'', JStr (cap_github_mcp_version p)),
     (''github_tool_schema_sha256'', JStr (cap_github_tool_schema_sha256 p)),
     (''github_tools'', JArr (map JStr (cap_github_tools p))),
     (''negative_test_revision'', JStr (cap_negative_test_revision p)),
     (''output_schema_revision'', JStr (cap_output_schema_revision p)),
     (''permission_policy_revision'', JStr (cap_permission_policy_revision p)),
     (''runner_client_cert_public_key_fingerprint'', JStr (cap_runner_client_cert_public_key_fingerprint p)),
     (''runner_image_digest'', JStr (cap_runner_image_digest p)),
     (''runner_workload_identity'', JStr (cap_runner_workload_identity p))]))"

definition is_lowercase_hex :: "string \<Rightarrow> nat \<Rightarrow> bool" where
  "is_lowercase_hex value len \<longleftrightarrow> length value = len \<and> list_all is_hex_lower value"

definition text_fields :: "capability_profile \<Rightarrow> string list" where
  "text_fields p = [
     cap_codex_version p,
     cap_github_mcp_version p,
     cap_github_mcp_configured_endpoint_identity p,
     cap_github_mcp_access_auth_mode p,
     cap_github_mcp_access_token_revision p,
     cap_github_mcp_health_credential_revision p,
     cap_github_mcp_health_tool p,
     cap_credential_reference p,
     cap_permission_policy_revision p,
     cap_config_revision p,
     cap_credential_revision p,
     cap_credential_isolation_revision p,
     cap_credential_deny_policy_revision p,
     cap_negative_test_revision p,
     cap_output_schema_revision p,
     cap_runner_workload_identity p,
     cap_gateway_image_digest p,
     cap_runner_image_digest p,
     cap_profile_sha256 p]"

definition digest_fields :: "capability_profile \<Rightarrow> string list" where
  "digest_fields p = [
     cap_app_server_schema_sha256 p,
     cap_codex_program_sha256 p,
     cap_config_sha256 p,
     cap_github_mcp_configured_artifact_sha256 p,
     cap_github_mcp_health_result_sha256 p,
     cap_github_tool_schema_sha256 p,
     cap_profile_sha256 p,
     cap_runner_client_cert_public_key_fingerprint p]"

definition capability_validate :: "ext \<Rightarrow> capability_profile \<Rightarrow> capability_error + unit" where
  "capability_validate x p =
     (if cap_attested_at_unix_seconds p = 0
         \<or> cap_github_mcp_health_checked_at_unix_seconds p \<noteq> cap_attested_at_unix_seconds p
         \<or> cap_github_mcp_access_auth_mode p \<noteq> ''supervisor-dynamic-tools-v1''
         \<or> cap_github_mcp_health_tool p \<noteq> ''get_me''
         \<or> cap_github_mcp_health_credential_revision p \<noteq> cap_credential_revision p
         \<or> \<not> is_ok (parse_credential_revision (cap_github_mcp_access_token_revision p))
         \<or> cap_profile_sha256 p \<noteq> computed_profile_sha256 x p
         \<or> list_ex (\<lambda>value. value = []) (text_fields p)
         \<or> cap_github_tools p \<noteq> btree_set EXPECTED_GITHUB_TOOLS
      then Inl CapInvalidField
      else if list_ex (\<lambda>digest. \<not> is_lowercase_hex digest 64) (digest_fields p)
      then Inl CapInvalidField
      else if list_ex (\<lambda>digest.
          case drop_prefix ''sha256:'' digest of
            None \<Rightarrow> True | Some value \<Rightarrow> \<not> is_lowercase_hex value 64)
          [cap_gateway_image_digest p, cap_runner_image_digest p]
      then Inl CapInvalidField
      else Inr ())"

definition string_field :: "(string \<times> json) list \<Rightarrow> string \<Rightarrow> capability_error + string" where
  "string_field object field = ok_or CapInvalidField (Option.bind (map_of object field) as_str)"

definition u64_field :: "(string \<times> json) list \<Rightarrow> string \<Rightarrow> capability_error + int" where
  "u64_field object field = ok_or CapInvalidField (Option.bind (map_of object field) as_u64)"

definition tools_field :: "(string \<times> json) list \<Rightarrow> capability_error + string list" where
  "tools_field object =
     rbind (ok_or CapInvalidField (Option.bind (map_of object ''github_tools'') as_array))
       (\<lambda>values. rbind (collect_results (\<lambda>v. ok_or CapInvalidField (as_str v)) values)
          (\<lambda>tools. Inr (btree_set tools)))"

definition profile_from_object ::
  "(string \<times> json) list \<Rightarrow> capability_error + capability_profile" where
  "profile_from_object object =
     rbind (tools_field object) (\<lambda>github_tools.
     rbind (string_field object ''app_server_schema_sha256'') (\<lambda>app_server_schema_sha256.
     rbind (u64_field object ''attested_at_unix_seconds'') (\<lambda>attested_at_unix_seconds.
     rbind (string_field object ''codex_program_sha256'') (\<lambda>codex_program_sha256.
     rbind (string_field object ''codex_version'') (\<lambda>codex_version.
     rbind (string_field object ''config_revision'') (\<lambda>config_revision.
     rbind (string_field object ''config_sha256'') (\<lambda>config_sha256.
     rbind (string_field object ''credential_deny_policy_revision'') (\<lambda>credential_deny_policy_revision.
     rbind (string_field object ''credential_isolation_revision'') (\<lambda>credential_isolation_revision.
     rbind (string_field object ''credential_reference'') (\<lambda>credential_reference.
     rbind (string_field object ''credential_revision'') (\<lambda>credential_revision.
     rbind (string_field object ''gateway_image_digest'') (\<lambda>gateway_image_digest.
     rbind (string_field object ''github_mcp_configured_artifact_sha256'') (\<lambda>github_mcp_configured_artifact_sha256.
     rbind (string_field object ''github_mcp_access_auth_mode'') (\<lambda>github_mcp_access_auth_mode.
     rbind (string_field object ''github_mcp_access_token_revision'') (\<lambda>github_mcp_access_token_revision.
     rbind (string_field object ''github_mcp_configured_endpoint_identity'') (\<lambda>github_mcp_configured_endpoint_identity.
     rbind (u64_field object ''github_mcp_health_checked_at_unix_seconds'') (\<lambda>github_mcp_health_checked_at_unix_seconds.
     rbind (string_field object ''github_mcp_health_credential_revision'') (\<lambda>github_mcp_health_credential_revision.
     rbind (string_field object ''github_mcp_health_result_sha256'') (\<lambda>github_mcp_health_result_sha256.
     rbind (string_field object ''github_mcp_health_tool'') (\<lambda>github_mcp_health_tool.
     rbind (string_field object ''github_mcp_version'') (\<lambda>github_mcp_version.
     rbind (string_field object ''github_tool_schema_sha256'') (\<lambda>github_tool_schema_sha256.
     rbind (string_field object ''negative_test_revision'') (\<lambda>negative_test_revision.
     rbind (string_field object ''output_schema_revision'') (\<lambda>output_schema_revision.
     rbind (string_field object ''permission_policy_revision'') (\<lambda>permission_policy_revision.
     rbind (string_field object ''profile_sha256'') (\<lambda>profile_sha256.
     rbind (string_field object ''runner_client_cert_public_key_fingerprint'') (\<lambda>runner_client_cert_public_key_fingerprint.
     rbind (string_field object ''runner_image_digest'') (\<lambda>runner_image_digest.
     rbind (string_field object ''runner_workload_identity'') (\<lambda>runner_workload_identity.
     Inr
       \<lparr>cap_codex_version = codex_version, cap_app_server_schema_sha256 =
       app_server_schema_sha256, cap_codex_program_sha256 = codex_program_sha256,
       cap_github_mcp_version = github_mcp_version, cap_github_mcp_configured_artifact_sha256 =
       github_mcp_configured_artifact_sha256, cap_github_mcp_configured_endpoint_identity =
       github_mcp_configured_endpoint_identity, cap_github_mcp_access_auth_mode =
       github_mcp_access_auth_mode, cap_github_mcp_access_token_revision =
       github_mcp_access_token_revision, cap_github_mcp_health_checked_at_unix_seconds =
       github_mcp_health_checked_at_unix_seconds, cap_github_mcp_health_credential_revision =
       github_mcp_health_credential_revision, cap_github_mcp_health_result_sha256 =
       github_mcp_health_result_sha256, cap_github_mcp_health_tool = github_mcp_health_tool,
       cap_github_tool_schema_sha256 = github_tool_schema_sha256, cap_github_tools =
       github_tools, cap_credential_reference = credential_reference,
       cap_permission_policy_revision = permission_policy_revision, cap_config_revision =
       config_revision, cap_config_sha256 = config_sha256, cap_gateway_image_digest =
       gateway_image_digest, cap_runner_image_digest = runner_image_digest,
       cap_runner_workload_identity = runner_workload_identity,
       cap_runner_client_cert_public_key_fingerprint =
       runner_client_cert_public_key_fingerprint, cap_credential_revision =
       credential_revision, cap_credential_isolation_revision = credential_isolation_revision,
       cap_credential_deny_policy_revision = credential_deny_policy_revision,
       cap_negative_test_revision = negative_test_revision, cap_output_schema_revision =
       output_schema_revision, cap_attested_at_unix_seconds = attested_at_unix_seconds,
       cap_profile_sha256 = profile_sha256\<rparr>)))))))))))))))))))))))))))))"

definition parse_canonical_json :: "ext \<Rightarrow> string \<Rightarrow> capability_error + capability_profile" where
  "parse_canonical_json x value =
     rbind (map_err (\<lambda>_. CapInvalidJson) (json_parse x value)) (\<lambda>parsed.
     if json_print x parsed \<noteq> value then Inl CapNonCanonicalJson
     else rbind (ok_or CapInvalidShape
       (Option.bind (as_object parsed)
          (\<lambda>object. if length object = 29 then Some object else None))) (\<lambda>object.
     rbind (profile_from_object object) (\<lambda>profile.
     rbind (capability_validate x profile) (\<lambda>_. Inr profile))))"

section \<open>Parsing canonical profiles\<close>

lemma collect_JStr: "collect_results (\<lambda>v. ok_or e (as_str v)) (map JStr ss) = Inr ss"
  by (induction ss) simp_all

definition u64_range :: "int \<Rightarrow> bool" where
  "u64_range n \<longleftrightarrow> 0 \<le> n \<and> n < 2 ^ 64"

lemma capability_value_object:
  assumes "u64_range (cap_attested_at_unix_seconds p)"
    and "u64_range (cap_github_mcp_health_checked_at_unix_seconds p)"
  obtains m where "capability_value p = JObj m" and "length m = 29"
    and "profile_from_object m = Inr (p \<lparr>cap_github_tools := btree_set (cap_github_tools p)\<rparr>)"
proof -
  obtain m where obj: "json_obj (capability_entries p) = JObj m"
    and lookup: "\<And>k. map_of m k = map_of (rev (capability_entries p)) k"
    and len: "distinct (map fst (capability_entries p)) \<Longrightarrow> length m = length (capability_entries p)"
    using json_obj_object by blast
  have "distinct (map fst (capability_entries p))" "length (capability_entries p) = 29"
    by (simp_all add: capability_entries_def)
  with obj len have m: "capability_value p = JObj m" "length m = 29"
    by (simp_all add: capability_value_def)
  have "profile_from_object m = Inr (p \<lparr>cap_github_tools := btree_set (cap_github_tools p)\<rparr>)"
    using assms
    by (simp add: profile_from_object_def string_field_def u64_field_def tools_field_def lookup
        capability_entries_def collect_JStr u64_range_def)
  with m that show thesis by blast
qed

text \<open>A parsed capability document is its profile with the tool array read as a set.\<close>

lemma parse_capability_value:
  assumes "json_parse x (capability_canonical x p) = Inr (capability_value p)"
    and "u64_range (cap_attested_at_unix_seconds p)"
    and "u64_range (cap_github_mcp_health_checked_at_unix_seconds p)"
  defines "q \<equiv> p \<lparr>cap_github_tools := btree_set (cap_github_tools p)\<rparr>"
  shows "parse_canonical_json x (capability_canonical x p) =
    rbind (capability_validate x q) (\<lambda>_. Inr q)"
proof -
  obtain m where "capability_value p = JObj m" "length m = 29" "profile_from_object m = Inr q"
    using capability_value_object [OF assms(2,3)] unfolding q_def by blast
  with assms(1) show ?thesis
    by (simp add: parse_canonical_json_def capability_canonical_def)
qed

section \<open>A concrete profile\<close>

definition zero_digest :: string where
  "zero_digest = replicate 64 CHR ''0''"

definition sample_profile :: capability_profile where
  "sample_profile = \<lparr>
     cap_codex_version = ''r1'',
     cap_app_server_schema_sha256 = zero_digest,
     cap_codex_program_sha256 = zero_digest,
     cap_github_mcp_version = ''r1'',
     cap_github_mcp_configured_artifact_sha256 = zero_digest,
     cap_github_mcp_configured_endpoint_identity = ''r1'',
     cap_github_mcp_access_auth_mode = ''supervisor-dynamic-tools-v1'',
     cap_github_mcp_access_token_revision = ''r1'',
     cap_github_mcp_health_checked_at_unix_seconds = 1,
     cap_github_mcp_health_credential_revision = ''r1'',
     cap_github_mcp_health_result_sha256 = zero_digest,
     cap_github_mcp_health_tool = ''get_me'',
     cap_github_tool_schema_sha256 = zero_digest,
     cap_github_tools = EXPECTED_GITHUB_TOOLS,
     cap_credential_reference = ''r1'',
     cap_permission_policy_revision = ''r1'',
     cap_config_revision = ''r1'',
     cap_config_sha256 = zero_digest,
     cap_gateway_image_digest = ''sha256:'' @ zero_digest,
     cap_runner_image_digest = ''sha256:'' @ zero_digest,
     cap_runner_workload_identity = ''r1'',
     cap_runner_client_cert_public_key_fingerprint = zero_digest,
     cap_credential_revision = ''r1'',
     cap_credential_isolation_revision = ''r1'',
     cap_credential_deny_policy_revision = ''r1'',
     cap_negative_test_revision = ''r1'',
     cap_output_schema_revision = ''r1'',
     cap_attested_at_unix_seconds = 1,
     cap_profile_sha256 = zero_digest\<rparr>"

definition shuffled_profile :: capability_profile where
  "shuffled_profile = sample_profile \<lparr>cap_github_tools := rev EXPECTED_GITHUB_TOOLS\<rparr>"

text \<open>A printer that names a document by its first tool, with its parser, and a constant hash.\<close>

definition sample_print :: "json \<Rightarrow> string" where
  "sample_print v =
     (case value_get v ''github_tools'' of Some (JArr (JStr t # _)) \<Rightarrow> t | _ \<Rightarrow> ''none'')"

definition sample_ext :: ext where
  "sample_ext = tiny_ext \<lparr>
     json_print := sample_print,
     json_parse := \<lambda>t. if t = ''get_me'' then Inr (capability_value sample_profile)
                       else if t = ''search_orgs'' then Inr (capability_value shuffled_profile)
                       else Inl ''expected value'' \<rparr>"

lemma encode_zero: "encode_sha256 (replicate n CHR 0x00) = replicate (2 * n) CHR ''0''"
proof -
  have "hex_digit 0 = CHR ''0''" by code_simp
  then show ?thesis by (induction n) (simp_all add: encode_sha256_def byte_val_def)
qed

lemma sample_sha256: "sha256_hex sample_ext v = zero_digest"
  using encode_zero [of 32]
  by (simp add: sha256_hex_def sample_ext_def tiny_ext_def zero_digest_def)

lemma zero_digest_hex: "is_lowercase_hex zero_digest 64" "zero_digest \<noteq> []"
proof -
  have "is_hex_lower CHR ''0''" by (simp add: is_hex_lower_def is_ascii_digit_def byte_val_def)
  then show "is_lowercase_hex zero_digest 64" "zero_digest \<noteq> []"
    by (simp_all add: is_lowercase_hex_def zero_digest_def list_all_length)
qed

lemma expected_tools_sorted: "btree_set EXPECTED_GITHUB_TOOLS = EXPECTED_GITHUB_TOOLS"
  "btree_set (rev EXPECTED_GITHUB_TOOLS) = EXPECTED_GITHUB_TOOLS"
  by code_simp+

lemma credential_r1: "is_ok (parse_credential_revision ''r1'')"
  by (simp add: parse_credential_revision_def is_bounded_ascii_token_iff token_byte_def
      byte_val_def is_ascii_alphanumeric_def is_ascii_digit_def is_ascii_lowercase_def
      is_ascii_uppercase_def MAX_CREDENTIAL_REVISION_BYTES_def)

lemma sample_profile_valid: "capability_validate sample_ext sample_profile = Inr ()"
  using zero_digest_hex credential_r1
  by (simp add: capability_validate_def sample_profile_def expected_tools_sorted text_fields_def
      digest_fields_def computed_profile_sha256_def sample_sha256)

lemma sample_range: "u64_range (cap_attested_at_unix_seconds sample_profile)"
  by (simp add: u64_range_def sample_profile_def)

lemma sample_texts:
  "capability_canonical sample_ext sample_profile = ''get_me''"
  "capability_canonical sample_ext shuffled_profile = ''search_orgs''"
  by (simp_all add: capability_canonical_def sample_ext_def sample_print_def capability_value_def
      value_get_json_obj capability_entries_def shuffled_profile_def sample_profile_def
      EXPECTED_GITHUB_TOOLS_def)

lemma sample_parses:
  "json_parse sample_ext ''get_me'' = Inr (capability_value sample_profile)"
  "json_parse sample_ext ''search_orgs'' = Inr (capability_value shuffled_profile)"
  by (simp_all add: sample_ext_def)

section \<open>Properties\<close>

text \<open>
  C30: capability profiles round-trip. Parsing the canonical JSON of a valid profile returns that
  profile, whenever serde parses back the text it printed for that value.
\<close>

theorem capability_profile_roundtrip:
  assumes "capability_validate x p = Inr ()"
    and "json_parse x (capability_canonical x p) = Inr (capability_value p)"
    and "u64_range (cap_attested_at_unix_seconds p)"
  shows "parse_canonical_json x (capability_canonical x p) = Inr p"
proof -
  have tools: "cap_github_tools p = btree_set EXPECTED_GITHUB_TOOLS"
    and health: "cap_github_mcp_health_checked_at_unix_seconds p = cap_attested_at_unix_seconds p"
    using assms(1) by (auto simp: capability_validate_def split: if_splits)
  have "btree_set (btree_set ts) = btree_set ts" for ts
    by (simp add: btree_set_def distinct_remdups_id sorted_sort_id)
  then have "p \<lparr>cap_github_tools := btree_set (cap_github_tools p)\<rparr> = p"
    using tools by simp
  then show ?thesis
    using parse_capability_value [of x p] assms health by simp
qed

theorem capability_profile_roundtrip_witness:
  "parse_canonical_json sample_ext (capability_canonical sample_ext sample_profile)
     = Inr sample_profile"
  by (rule capability_profile_roundtrip)
    (simp_all add: sample_profile_valid sample_texts sample_parses sample_range)

text \<open>
  The strict parser does not pin the tool array. A document whose tool array lists the
  expected tools in another order, or repeatedly, is accepted as the same profile although it is not
  that profile's canonical JSON: the array is read into a set before it is compared.
\<close>

lemma capability_parser_ignores_tool_order:
  assumes "capability_validate x p = Inr ()" and "btree_set ts = cap_github_tools p"
    and "json_parse x (capability_canonical x (p \<lparr>cap_github_tools := ts\<rparr>))
      = Inr (capability_value (p \<lparr>cap_github_tools := ts\<rparr>))"
    and "u64_range (cap_attested_at_unix_seconds p)"
  shows "parse_canonical_json x (capability_canonical x (p \<lparr>cap_github_tools := ts\<rparr>)) = Inr p"
proof -
  have health: "cap_github_mcp_health_checked_at_unix_seconds p = cap_attested_at_unix_seconds p"
    using assms(1) by (auto simp: capability_validate_def split: if_splits)
  have "p \<lparr>cap_github_tools := btree_set ts\<rparr> = p" using assms(2) by simp
  then show ?thesis
    using parse_capability_value [of x "p \<lparr>cap_github_tools := ts\<rparr>"] assms health by simp
qed

end
