(* ===== verification/Prepare_Authority.thy ===== *)
theory Prepare_Authority
  imports Attested_Capability
begin

text \<open>
  \<open>ScheduledPrepareAuthority\<close> of \<^verbatim>\<open>crates/state/src/scheduler.rs\<close>: the execution authority built
  over a claimed run, the attestation envelopes a gateway or runner derives from it, and the checks
  that decide whether a persisted attestation authorises a retry or a recovery.

  The envelope builders re-parse the authority's own canonical JSON and panic when that fails; the
  panic is \<open>None\<close>.
\<close>

record prepare_authority =
  authority_nonce :: string
  authority_canonical_json :: string
  authority_digest :: string
  authority_instruction :: string
  authority_previous_success :: "string option"
  authority_previous_success_was_truncated :: bool

section \<open>Building the authority\<close>

definition claimed_task_id :: "claimed_run \<Rightarrow> string" where
  "claimed_task_id claim =
     (let b = claimed_binding claim
      in ''scheduled:'' @ binding_run_id b @ '':'' @ int_to_string (binding_attempt b) @ '':''
         @ int_to_string (binding_fence b))"

definition task_value :: "claimed_run \<Rightarrow> string \<Rightarrow> string option \<Rightarrow> bool \<Rightarrow> json" where
  "task_value claim instruction previous_success was_truncated = json_obj [
     (''channel'', JNull),
     (''feedback_target'', JNull),
     (''instruction'', JStr instruction),
     (''previous_success'', option_json (\<lambda>content. json_obj [
        (''content'', JStr content),
        (''was_truncated'', JBool was_truncated)]) previous_success),
     (''principal'', json_obj [(''kind'', JStr ''service''), (''service'', JStr ''codeoff-scheduler'')]),
     (''session'', JStr ''fresh''),
     (''source'', json_obj [
        (''job_id'', JStr (binding_job_id (claimed_binding claim))),
        (''kind'', JStr ''scheduled_run''),
        (''run_id'', JStr (binding_run_id (claimed_binding claim))),
        (''scheduled_for'', JStr (int_to_string (claimed_scheduled_for claim)))]),
     (''task_id'', JStr (claimed_task_id claim)),
     (''tool_policy'', JStr ''none'')]"

definition binding_value :: "run_lease_binding \<Rightarrow> json" where
  "binding_value b = json_obj [
     (''attempt'', JInt (binding_attempt b)),
     (''fence'', JInt (binding_fence b)),
     (''job_id'', JStr (binding_job_id b)),
     (''lease_owner'', JStr (binding_lease_owner b)),
     (''run_id'', JStr (binding_run_id b))]"

definition authority_entries ::
  "ext \<Rightarrow> claimed_run \<Rightarrow> string \<Rightarrow> string \<Rightarrow> string option \<Rightarrow> bool \<Rightarrow> (string \<times> json) list" where
  "authority_entries x claim nonce instruction previous_success was_truncated = [
     (''binding'', binding_value (claimed_binding claim)),
     (''capability_identity_digest'', JStr (claimed_capability_digest claim)),
     (''claim'', json_obj [
        (''capability_schema_version'', JInt (uint (claimed_capability_schema_version claim))),
        (''coalesced_through'', JInt (claimed_coalesced_through claim)),
        (''definition_version'', JInt (uint (claimed_definition_version claim))),
        (''job_generation'', JInt (claimed_job_generation claim)),
        (''schedule_generation'', JInt (claimed_schedule_generation claim)),
        (''schedule_id'', JStr (claimed_schedule_id claim)),
        (''scheduled_for'', JInt (claimed_scheduled_for claim))]),
     (''digests'', json_obj [
        (''baseline'', JStr (framed_sha256 x ''scheduled-baseline-v1''
           [claimed_execution_baseline_json claim])),
        (''capability'', JStr (framed_sha256 x ''scheduled-capability-v1''
           [claimed_capability_json claim])),
        (''definition'', JStr (framed_sha256 x ''scheduled-definition-v1''
           [claimed_definition_json claim])),
        (''instruction'', JStr (framed_sha256 x ''scheduled-instruction-v1'' [instruction])),
        (''targets'', JStr (framed_sha256 x ''scheduled-targets-v1'' [claimed_targets_json claim])),
        (''task'', JStr (framed_sha256 x ''scheduled-agent-task-v1''
           [json_print x (task_value claim instruction previous_success was_truncated)]))]),
     (''nonce'', JStr nonce),
     (''operational_policy'', policy_value x (claimed_scheduler_policy claim)),
     (''schema_version'', JInt 1)]"

definition for_claim :: "ext \<Rightarrow> claimed_run \<Rightarrow> string \<Rightarrow> state_value_error + prepare_authority" where
  "for_claim x claim nonce =
     rbind (check_all [
       validate_lowercase_sha256 ''scheduled prepare nonce'' nonce,
       validate_canonical_snapshot x (claimed_definition_version claim) ''scheduled definition''
         (claimed_definition_json claim),
       validate_canonical_snapshot x (claimed_capability_schema_version claim)
         ''scheduled capability'' (claimed_capability_json claim),
       validate_canonical_json x ''scheduled targets'' (claimed_targets_json claim),
       validate_canonical_json x ''scheduled execution baseline''
         (claimed_execution_baseline_json claim),
       map_err (\<lambda>_. InvalidValue ''scheduled operational policy'')
         (validate_policy (claimed_scheduler_policy claim))]) (\<lambda>_.
     rbind (map_err (\<lambda>_. InvalidJson ''scheduled definition'')
       (json_parse x (claimed_definition_json claim))) (\<lambda>definition_value.
     rbind (ok_or (InvalidJson ''scheduled definition'')
       (Option.bind (get_str definition_value ''instruction'')
          (\<lambda>value. if str_trim value \<noteq> [] then Some value else None))) (\<lambda>instruction.
     rbind (map_err (\<lambda>_. InvalidJson ''scheduled execution baseline'')
       (json_parse x (claimed_execution_baseline_json claim))) (\<lambda>baseline.
     let include_previous =
           (pointer_str definition_value [''previous_success'', ''kind''] = Some ''latest_success'');
         previous = (if include_previous then get_str baseline ''previous_success_context'' else None);
         (previous_success, was_truncated) =
           (case previous of
              None \<Rightarrow> (None, False)
            | Some value \<Rightarrow>
                (let boundary = bounded_utf8_boundary value MAX_PREVIOUS_SUCCESS_BYTES
                 in (Some (take boundary value), boundary < length value)));
         authority_json = json_print x (json_obj
           (authority_entries x claim nonce instruction previous_success was_truncated))
     in Inr \<lparr>authority_nonce = nonce, authority_canonical_json = authority_json,
             authority_digest = framed_sha256 x ''scheduled-prepare-authority-v1'' [authority_json],
             authority_instruction = instruction,
             authority_previous_success = previous_success,
             authority_previous_success_was_truncated = was_truncated\<rparr>))))"

section \<open>Attestation envelopes\<close>

definition validate_recovery_capability_profile :: "ext \<Rightarrow> string \<Rightarrow> state_value_error + json" where
  "validate_recovery_capability_profile x canonical_json =
     rbind (map_err (\<lambda>_. InvalidJson ''scheduled recovery capability profile'')
       (parse_canonical_json x canonical_json)) (\<lambda>_.
     map_err (\<lambda>_. InvalidJson ''scheduled recovery capability profile'')
       (json_parse x canonical_json))"

definition validate_recovery_capability_profile_value ::
  "ext \<Rightarrow> json \<Rightarrow> state_value_error + unit" where
  "validate_recovery_capability_profile_value x value =
     rbind (map_err (\<lambda>_. InvalidJson ''scheduled recovery capability profile'')
       (parse_canonical_json x (json_print x value))) (\<lambda>_. Inr ())"

definition expected_surface :: json where
  "expected_surface = json_obj [
     (''approval_policy'', JStr ''never''),
     (''dynamic_tools'', JBool False),
     (''network_access'', JBool False),
     (''sandbox'', JStr ''read-only''),
     (''web_search'', JStr ''disabled'')]"

definition parse_ok :: "ext \<Rightarrow> string \<Rightarrow> json option" where
  "parse_ok x text = ok_option (json_parse x text)"

definition attestation_value :: "prepare_authority \<Rightarrow> json \<Rightarrow> bool \<Rightarrow> json" where
  "attestation_value a authority side_effect_free = json_obj [
     (''authority'', authority),
     (''authority_digest'', JStr (authority_digest a)),
     (''schema_version'', JInt 1),
     (''side_effect_free'', JBool side_effect_free)]"

definition attestation_json :: "ext \<Rightarrow> prepare_authority \<Rightarrow> bool \<Rightarrow> string option" where
  "attestation_json x a side_effect_free =
     map_option (\<lambda>authority. json_print x (attestation_value a authority side_effect_free))
       (parse_ok x (authority_canonical_json a))"

definition recovery_value :: "prepare_authority \<Rightarrow> json \<Rightarrow> json \<Rightarrow> json" where
  "recovery_value a authority capability_profile = json_obj [
     (''authority'', authority),
     (''authority_digest'', JStr (authority_digest a)),
     (''capability_profile'', capability_profile),
     (''execution_surface'', expected_surface),
     (''schema_version'', JInt 2)]"

definition recovery_attestation_json ::
  "ext \<Rightarrow> prepare_authority \<Rightarrow> string \<Rightarrow> (state_value_error + string) option" where
  "recovery_attestation_json x a capability_profile_json =
     (case validate_recovery_capability_profile x capability_profile_json of
        Inl e \<Rightarrow> Some (Inl e)
      | Inr profile \<Rightarrow>
          map_option (\<lambda>authority. Inr (json_print x (recovery_value a authority profile)))
            (parse_ok x (authority_canonical_json a)))"

definition remote_recovery_value ::
  "prepare_authority \<Rightarrow> json \<Rightarrow> json \<Rightarrow> string \<Rightarrow> u64 \<Rightarrow> json" where
  "remote_recovery_value a authority profile profile_digest epoch = json_obj [
     (''authority'', authority),
     (''authority_digest'', JStr (authority_digest a)),
     (''capability_profile'', profile),
     (''deployment_epoch'', JInt (uint epoch)),
     (''deployment_profile_digest'', JStr profile_digest),
     (''execution_surface'', expected_surface),
     (''schema_version'', JInt 3)]"

definition remote_recovery_attestation_json ::
  "ext \<Rightarrow> prepare_authority \<Rightarrow> string \<Rightarrow> string \<Rightarrow> u64 \<Rightarrow> (state_value_error + string) option" where
  "remote_recovery_attestation_json x a capability_profile_json profile_digest epoch =
     (case rbind (validate_recovery_capability_profile x capability_profile_json) (\<lambda>profile.
           rbind (validate_lowercase_sha256 ''scheduled deployment profile digest'' profile_digest)
             (\<lambda>_. if epoch = 0 then Inl (InvalidValue ''scheduled deployment epoch'')
                   else Inr profile)) of
        Inl e \<Rightarrow> Some (Inl e)
      | Inr profile \<Rightarrow>
          map_option (\<lambda>authority.
              Inr (json_print x (remote_recovery_value a authority profile profile_digest epoch)))
            (parse_ok x (authority_canonical_json a)))"

section \<open>Matching attestations\<close>

definition attestation_matches ::
  "ext \<Rightarrow> prepare_authority \<Rightarrow> string \<Rightarrow> string \<Rightarrow> bool \<Rightarrow> bool" where
  "attestation_matches x a canonical_json digest require_side_effect_free =
     (case json_parse x canonical_json of
        Inl _ \<Rightarrow> False
      | Inr profile \<Rightarrow>
          if json_print x profile \<noteq> canonical_json
             \<or> sha256_hex x canonical_json \<noteq> digest
             \<or> get_u64 profile ''schema_version'' \<noteq> Some 1
             \<or> get_str profile ''authority_digest'' \<noteq> Some (authority_digest a)
             \<or> value_get profile ''authority'' \<noteq> parse_ok x (authority_canonical_json a)
          then False
          else \<not> require_side_effect_free
               \<or> Option.bind (value_get profile ''side_effect_free'') as_bool = Some True)"

definition recovery_attestation_matches ::
  "ext \<Rightarrow> prepare_authority \<Rightarrow> string \<Rightarrow> string \<Rightarrow> bool" where
  "recovery_attestation_matches x a canonical_json digest =
     (case json_parse x canonical_json of
        Inl _ \<Rightarrow> False
      | Inr profile \<Rightarrow>
          if json_print x profile \<noteq> canonical_json
             \<or> sha256_hex x canonical_json \<noteq> digest
             \<or> get_u64 profile ''schema_version'' \<noteq> Some 2
             \<or> get_str profile ''authority_digest'' \<noteq> Some (authority_digest a)
             \<or> value_get profile ''authority'' \<noteq> parse_ok x (authority_canonical_json a)
             \<or> value_get profile ''execution_surface'' \<noteq> Some expected_surface
          then False
          else (case value_get profile ''capability_profile'' of
                  None \<Rightarrow> False
                | Some value \<Rightarrow> is_ok (validate_recovery_capability_profile_value x value)))"

definition remote_recovery_attestation_matches ::
  "ext \<Rightarrow> prepare_authority \<Rightarrow> string \<Rightarrow> string \<Rightarrow> string \<Rightarrow> u64 \<Rightarrow> bool" where
  "remote_recovery_attestation_matches x a canonical_json digest profile_digest epoch =
     (case json_parse x canonical_json of
        Inl _ \<Rightarrow> False
      | Inr profile \<Rightarrow>
          (case as_object profile of None \<Rightarrow> False | Some object \<Rightarrow> length object = 7)
          \<and> json_print x profile = canonical_json
          \<and> sha256_hex x canonical_json = digest
          \<and> get_u64 profile ''schema_version'' = Some 3
          \<and> get_str profile ''authority_digest'' = Some (authority_digest a)
          \<and> value_get profile ''authority'' = parse_ok x (authority_canonical_json a)
          \<and> get_str profile ''deployment_profile_digest'' = Some profile_digest
          \<and> get_u64 profile ''deployment_epoch'' = Some (uint epoch)
          \<and> epoch > 0
          \<and> is_ok (validate_lowercase_sha256 ''scheduled deployment profile digest'' profile_digest)
          \<and> value_get profile ''execution_surface'' = Some expected_surface
          \<and> (case value_get profile ''capability_profile'' of
               None \<Rightarrow> False
             | Some value \<Rightarrow> is_ok (validate_recovery_capability_profile_value x value)))"

definition matches_remote_binding ::
  "ext \<Rightarrow> prepare_authority \<Rightarrow> string \<Rightarrow> string \<Rightarrow> u32 \<Rightarrow> u64 \<Rightarrow> string \<Rightarrow> bool" where
  "matches_remote_binding x a run_id job_id attempt fence digest =
     (case json_parse x (authority_canonical_json a) of
        Inl _ \<Rightarrow> False
      | Inr authority \<Rightarrow>
          digest = authority_digest a
          \<and> pointer_str authority [''binding'', ''run_id''] = Some run_id
          \<and> pointer_str authority [''binding'', ''job_id''] = Some job_id
          \<and> pointer_u64 authority [''binding'', ''attempt''] = Some (uint attempt)
          \<and> pointer_u64 authority [''binding'', ''fence''] = Some (uint fence))"

section \<open>Properties\<close>

text \<open>serde parses back the text it printed for a value.\<close>

definition reparses :: "ext \<Rightarrow> json \<Rightarrow> bool" where
  "reparses x v \<longleftrightarrow> json_parse x (json_print x v) = Inr v"

lemma for_claim_shape:
  assumes "for_claim x claim nonce = Inr a"
  obtains instruction previous_success was_truncated where
    "authority_canonical_json a = json_print x (json_obj
      (authority_entries x claim nonce instruction previous_success was_truncated))"
    and "authority_digest a = framed_sha256 x ''scheduled-prepare-authority-v1''
      [authority_canonical_json a]"
    and "authority_nonce a = nonce"
  using assms that by (auto simp: for_claim_def Let_def split: prod.splits option.splits)

text \<open>
  A version-one attestation authorises a retry exactly when it says the execution was free
  of side effects. The envelope an authority builds for itself, with its own digest, is accepted by
  \<open>attestation_matches\<close> without the side-effect requirement, and with it if and only if the
  envelope was built as side-effect free.
\<close>

lemma attestation_accepts_own_envelope:
  assumes "json_parse x (authority_canonical_json a) = Inr authority"
    and "reparses x (attestation_value a authority free)"
  shows "\<exists>text. attestation_json x a free = Some text \<and>
    (attestation_matches x a text (sha256_hex x text) required \<longleftrightarrow> free \<or> \<not> required)"
  using assms
  by (auto simp: attestation_json_def attestation_matches_def parse_ok_def ok_option_def reparses_def
      attestation_value_def get_u64_def get_str_def value_get_json_obj)

text \<open>
  The three attestation versions never stand in for one another. No document satisfies two of
  the version-one, version-two and remote version-three checks, whatever the authority, digest and
  deployment it is checked against.
\<close>

lemma attestation_versions_disjoint:
  "\<not> (attestation_matches x a text d r \<and> recovery_attestation_matches x b text e) \<and>
   \<not> (attestation_matches x a text d r \<and> remote_recovery_attestation_matches x b text e p n) \<and>
   \<not> (recovery_attestation_matches x a text d \<and>
      remote_recovery_attestation_matches x b text e p n)"
  by (auto simp: attestation_matches_def recovery_attestation_matches_def
      remote_recovery_attestation_matches_def split: sum.splits if_splits)

lemma binding_lookup:
  "value_get (json_obj (authority_entries x claim nonce i p t)) ''binding''
     = Some (binding_value (claimed_binding claim))"
  "value_get (binding_value b) ''run_id'' = Some (JStr (binding_run_id b))"
  "value_get (binding_value b) ''job_id'' = Some (JStr (binding_job_id b))"
  "value_get (binding_value b) ''attempt'' = Some (JInt (binding_attempt b))"
  "value_get (binding_value b) ''fence'' = Some (JInt (binding_fence b))"
  by (simp_all add: value_get_json_obj authority_entries_def binding_value_def)

lemma as_u64_JInt_eq: "0 \<le> n \<Longrightarrow> n < 2 ^ 64 \<Longrightarrow> as_u64 (JInt k) = Some n \<longleftrightarrow> n = k"
  by auto

text \<open>
  An authority is bound to one lease. The authority built for a claim matches a remote
  binding if and only if the binding names its run, job, attempt and fence and its digest, whenever
  serde parses the authority's text back to the value it printed.
\<close>

lemma authority_bound_to_lease:
  assumes "for_claim x claim nonce = Inr a"
    and "\<forall>v. json_print x v = authority_canonical_json a \<longrightarrow>
      json_parse x (authority_canonical_json a) = Inr v"
  shows "matches_remote_binding x a run_id job_id attempt fence digest \<longleftrightarrow>
    digest = authority_digest a \<and> run_id = binding_run_id (claimed_binding claim) \<and>
    job_id = binding_job_id (claimed_binding claim) \<and>
    uint attempt = binding_attempt (claimed_binding claim) \<and>
    uint fence = binding_fence (claimed_binding claim)"
proof -
  obtain i p t where "json_parse x (authority_canonical_json a)
      = Inr (json_obj (authority_entries x claim nonce i p t))"
    using for_claim_shape [OF assms(1)] assms(2) by metis
  moreover have "uint attempt < 2 ^ 64" "uint fence < 2 ^ 64"
    using uint_lt2p [of attempt] uint_lt2p [of fence] by simp_all
  ultimately show ?thesis
    by (auto simp: matches_remote_binding_def pointer_str_def pointer_u64_def binding_lookup
        as_u64_JInt_eq simp del: as_u64.simps)
qed

section \<open>A concrete claim\<close>

definition sample_binding :: run_lease_binding where
  "sample_binding = \<lparr>binding_run_id = ''run-1'', binding_job_id = ''job-1'', binding_attempt = 2,
     binding_fence = 3, binding_lease_owner = ''worker''\<rparr>"

definition sample_claim :: claimed_run where
  "sample_claim = \<lparr>claimed_binding = sample_binding, claimed_schedule_id = ''s'',
     claimed_job_generation = 0, claimed_schedule_generation = 0, claimed_scheduled_for = 100,
     claimed_coalesced_through = 100, claimed_definition_version = 1,
     claimed_definition_json = ''D'', claimed_capability_schema_version = 1,
     claimed_capability_digest = ''c'', claimed_capability_json = ''null'',
     claimed_targets_json = ''null'', claimed_execution_baseline_json = ''null'',
     claimed_scheduler_policy = default_policy\<rparr>"

definition sample_definition :: json where
  "sample_definition = JObj [(''instruction'', JStr ''go'')]"

definition base_ext :: ext where
  "base_ext = tiny_ext \<lparr>json_print := \<lambda>_. ''-''\<rparr>"

definition sample_authority_value :: json where
  "sample_authority_value =
     json_obj (authority_entries base_ext sample_claim zero_digest ''go'' None False)"

text \<open>A printer that names the definition, null, and one authority, with its parser.\<close>

definition claim_ext :: ext where
  "claim_ext = tiny_ext \<lparr>
     json_print := \<lambda>v. if v = sample_definition then ''D'' else if v = JNull then ''null''
                       else if v = sample_authority_value then ''A'' else ''-'',
     json_parse := \<lambda>t. if t = ''D'' then Inr sample_definition else if t = ''null'' then Inr JNull
                       else if t = ''A'' then Inr sample_authority_value else Inl ''expected value''\<rparr>"

lemma sample_values_distinct:
  "sample_authority_value \<noteq> sample_definition" "sample_authority_value \<noteq> JNull"
  "JNull \<noteq> sample_definition"
proof -
  have "value_get sample_authority_value ''nonce'' \<noteq> value_get sample_definition ''nonce''"
    by (simp add: sample_authority_value_def sample_definition_def value_get_json_obj
        authority_entries_def)
  then show "sample_authority_value \<noteq> sample_definition" by auto
qed (simp_all add: sample_authority_value_def json_obj_def sample_definition_def)

text \<open>The authority of the sample claim, for every parser that knows its documents.\<close>

definition knows_sample :: "ext \<Rightarrow> bool" where
  "knows_sample x \<longleftrightarrow>
     json_print x sample_definition = ''D'' \<and> json_print x JNull = ''null''
     \<and> json_print x sample_authority_value = ''A''
     \<and> json_parse x ''D'' = Inr sample_definition \<and> json_parse x ''null'' = Inr JNull
     \<and> json_parse x ''A'' = Inr sample_authority_value
     \<and> sha256 x = sha256 tiny_ext \<and> policy_value x = policy_value tiny_ext"

lemma known_authority_entries:
  assumes "knows_sample x"
  shows "authority_entries x sample_claim nonce i p t
     = authority_entries base_ext sample_claim nonce i p t"
  using assms
  by (simp add: knows_sample_def authority_entries_def framed_sha256_def base_ext_def tiny_ext_def)

definition sample_authority :: "ext \<Rightarrow> prepare_authority" where
  "sample_authority x = \<lparr>authority_nonce = zero_digest, authority_canonical_json = ''A'',
      authority_digest = framed_sha256 x ''scheduled-prepare-authority-v1'' [''A''],
      authority_instruction = ''go'', authority_previous_success = None,
      authority_previous_success_was_truncated = False\<rparr>"

lemma known_claim_authority:
  assumes "knows_sample x"
  shows "for_claim x sample_claim zero_digest = Inr (sample_authority x)"
proof -
  note p = assms [unfolded knows_sample_def]
  have forb: "\<not> contains_forbidden_durable_key sample_definition"
    by (simp add: sample_definition_def) code_simp
  have trim: "str_trim ''go'' = ''go''"
    by (rule trim_graphic) (simp_all add: is_graphic_def byte_val_def)
  have digest: "validate_lowercase_sha256 f zero_digest = Inr ()" for f
    using zero_digest_hex by (simp add: validate_lowercase_sha256_def is_lowercase_hex_def)
  have claim: "claimed_definition_json sample_claim = ''D''" "claimed_definition_version sample_claim = 1"
    "claimed_capability_json sample_claim = ''null''"
    "claimed_capability_schema_version sample_claim = 1"
    "claimed_targets_json sample_claim = ''null''"
    "claimed_execution_baseline_json sample_claim = ''null''"
    "claimed_scheduler_policy sample_claim = default_policy"
    by (simp_all add: sample_claim_def)
  have fields: "get_str sample_definition ''instruction'' = Some ''go''"
    "pointer_str sample_definition [''previous_success'', ''kind''] = None"
    by (simp_all add: get_str_def pointer_str_def sample_definition_def)
  have auth: "json_print x
      (json_obj (authority_entries x sample_claim zero_digest ''go'' None False)) = ''A''"
    using p by (simp add: known_authority_entries [OF assms] sample_authority_value_def)
  show ?thesis
    using default_policies_valid(1)
    by (simp add: for_claim_def check_all_eq_Inr digest p claim fields trim forb auth
        validate_canonical_snapshot_def canonicalize_snapshot_def validate_canonical_json_def
        MAX_SNAPSHOT_BYTES_def Let_def sample_authority_def)
qed

lemma claim_ext_knows: "knows_sample claim_ext"
  using sample_values_distinct by (simp add: knows_sample_def claim_ext_def)

lemmas sample_claim_authority = known_claim_authority [OF claim_ext_knows]

end
