(* ===== verification/Sql_Table.thy ===== *)
theory Sql_Table
  imports State_Values
begin

text \<open>
  The part of SQLite the stores rely on: a table is the list of its rows, an \<open>update\<close> statement
  changes the rows its \<open>where\<close> clause selects and reports how many, an \<open>insert\<close> appends one, and
  both fail without effect when a changed row violates a \<open>check\<close> clause or the table would violate a
  uniqueness constraint. The codes are SQLite's extended result codes, which sqlx reports.

  The interface \<open>checked_table\<close> states what the stores need from those statements: constraints are
  an invariant of every table, and rows an update does not select are untouched.
\<close>

definition SQLITE_CONSTRAINT_CHECK :: sqlx_error where
  "SQLITE_CONSTRAINT_CHECK = SqlxDatabase (Some ''275'')"

definition SQLITE_CONSTRAINT_UNIQUE :: sqlx_error where
  "SQLITE_CONSTRAINT_UNIQUE = SqlxDatabase (Some ''2067'')"

definition SQLITE_CONSTRAINT_FOREIGNKEY :: sqlx_error where
  "SQLITE_CONSTRAINT_FOREIGNKEY = SqlxDatabase (Some ''787'')"

definition SQLITE_CONSTRAINT_TRIGGER :: sqlx_error where
  "SQLITE_CONSTRAINT_TRIGGER = SqlxDatabase (Some ''1811'')"

definition sql_update ::
  "('r \<Rightarrow> bool) \<Rightarrow> ('r list \<Rightarrow> bool) \<Rightarrow> ('r \<Rightarrow> bool) \<Rightarrow> ('r \<Rightarrow> 'r) \<Rightarrow> 'r list
     \<Rightarrow> sqlx_error + ('r list \<times> nat)" where
  "sql_update check unique sel upd rows =
     (let rows' = map (\<lambda>r. if sel r then upd r else r) rows in
      if list_ex (\<lambda>r. sel r \<and> \<not> check (upd r)) rows then Inl SQLITE_CONSTRAINT_CHECK
      else if \<not> unique rows' then Inl SQLITE_CONSTRAINT_UNIQUE
      else Inr (rows', length (filter sel rows)))"

definition sql_insert ::
  "('r \<Rightarrow> bool) \<Rightarrow> ('r list \<Rightarrow> bool) \<Rightarrow> 'r \<Rightarrow> 'r list \<Rightarrow> sqlx_error + 'r list" where
  "sql_insert check unique r rows =
     (if \<not> check r then Inl SQLITE_CONSTRAINT_CHECK
      else if \<not> unique (rows @ [r]) then Inl SQLITE_CONSTRAINT_UNIQUE
      else Inr (rows @ [r]))"

text \<open>\<open>order by ... limit 1\<close>: the first row of the smallest key among the selected rows.\<close>

fun select_min :: "('r \<Rightarrow> 'k::linorder) \<Rightarrow> ('r \<Rightarrow> bool) \<Rightarrow> 'r list \<Rightarrow> 'r option" where
  "select_min key sel [] = None"
| "select_min key sel (r # rs) =
     (case select_min key sel rs of
        None \<Rightarrow> if sel r then Some r else None
      | Some m \<Rightarrow> if sel r \<and> key r \<le> key m then Some r else Some m)"

lemma select_min_None: "select_min key w rs = None \<longleftrightarrow> (\<forall>r \<in> set rs. \<not> w r)"
  by (induction rs) (auto split: option.splits if_splits)

lemma select_min_SomeD:
  "select_min key w rs = Some m \<Longrightarrow> m \<in> set rs \<and> w m \<and> (\<forall>r \<in> set rs. w r \<longrightarrow> key m \<le> key r)"
proof (induction rs arbitrary: m)
  case (Cons r rs)
  show ?case
  proof (cases "select_min key w rs")
    case None
    then show ?thesis using Cons.prems select_min_None [of key w rs] by (auto split: if_splits)
  next
    case (Some k)
    then have "k \<in> set rs \<and> w k \<and> (\<forall>r \<in> set rs. w r \<longrightarrow> key k \<le> key r)" using Cons.IH by blast
    then show ?thesis using Cons.prems Some by (fastforce split: if_splits)
  qed
qed simp

section \<open>Constraints are invariants\<close>

definition table_ok :: "('r \<Rightarrow> bool) \<Rightarrow> ('r list \<Rightarrow> bool) \<Rightarrow> 'r list \<Rightarrow> bool" where
  "table_ok check unique rows \<longleftrightarrow> list_all check rows \<and> unique rows"

lemma sql_update_InrD:
  assumes "sql_update check unique w f rows = Inr (rows', n)"
  shows "rows' = map (\<lambda>r. if w r then f r else r) rows" and "n = length (filter w rows)"
    and "\<And>r. r \<in> set rows \<Longrightarrow> w r \<Longrightarrow> check (f r)" and "unique rows'"
  using assms by (auto simp: sql_update_def Let_def list_ex_iff split: if_splits)

locale checked_table =
  fixes check :: "'r \<Rightarrow> bool" and unique :: "'r list \<Rightarrow> bool" and key :: "'r \<Rightarrow> 'k"
  assumes unique_keys: "unique rows \<Longrightarrow> distinct (map key rows)"
begin

abbreviation ok :: "'r list \<Rightarrow> bool" where
  "ok \<equiv> table_ok check unique"

lemma update_ok:
  assumes "ok rows" and "sql_update check unique w f rows = Inr (rows', n)"
  shows "ok rows'"
  using assms by (auto simp: table_ok_def sql_update_def Let_def list_all_iff list_ex_iff
      split: if_splits)

lemma insert_ok:
  assumes "ok rows" and "sql_insert check unique r rows = Inr rows'"
  shows "ok rows'"
  using assms by (auto simp: table_ok_def sql_insert_def split: if_splits)

lemma key_inj:
  assumes "ok rows" and "r \<in> set rows" and "s \<in> set rows" and "key r = key s"
  shows "r = s"
  using assms unique_keys [of rows]
  by (auto simp: table_ok_def distinct_map dest: inj_onD)

text \<open>A statement that fixes the key changes at most one row.\<close>

lemma filter_key:
  assumes "ok rows" and "r \<in> set rows" and "w r" and "\<And>s. w s \<Longrightarrow> key s = key r"
  shows "filter w rows = [r]"
proof -
  have "distinct rows" using assms(1) unique_keys by (auto simp: table_ok_def distinct_map)
  moreover have "set (filter w rows) = {r}"
    using assms key_inj by auto
  ultimately show ?thesis
    by (metis distinct_filter distinct_length_2_or_more list.exhaust list.set_intros(1)
        list.set_intros(2) set_empty singletonD insert_not_empty)
qed

lemma find_row:
  assumes "ok rows" and "r \<in> set rows" and "key r = k"
  shows "List.find (\<lambda>s. key s = k) rows = Some r"
proof (cases "List.find (\<lambda>s. key s = k) rows")
  case None
  then show ?thesis using assms(2,3) by (auto simp: find_None_iff)
next
  case (Some s)
  then have "s \<in> set rows" "key s = k" by (auto simp: find_Some_iff)
  then show ?thesis using Some key_inj [OF assms(1) _ assms(2)] assms(3) by simp
qed

text \<open>A keyed statement that did not change exactly one row changed none.\<close>

lemma update_missed:
  assumes "ok rows" and "sql_update check unique w f rows = Inr (rows', n)" and "n \<noteq> 1"
    and "\<And>r s. w r \<Longrightarrow> w s \<Longrightarrow> key r = key s"
  shows "rows' = rows"
proof -
  have "\<not> w r" if r: "r \<in> set rows" for r
  proof
    assume "w r"
    then have "filter w rows = [r]" using filter_key [OF assms(1) r, of w] assms(4) by blast
    then show False using assms(3) sql_update_InrD(2) [OF assms(2)] by simp
  qed
  then have "map (\<lambda>r. if w r then f r else r) rows = rows" by (intro map_idI) simp
  then show ?thesis using sql_update_InrD(1) [OF assms(2)] by simp
qed

end

lemma sql_insert_InrD:
  assumes "sql_insert check unique r rows = Inr rows'"
  shows "rows' = rows @ [r]" and "check r" and "unique rows'"
  using assms by (auto simp: sql_insert_def split: if_splits)

end
