(* ===== verification/Run_Tables.thy ===== *)
theory Run_Tables
  imports Sql_Table Prepare_Authority "HOL-Library.Product_Lexorder"
begin

text \<open>
  The tables behind scheduled runs, as the migrations under
  \<^verbatim>\<open>crates/state/migrations\<close> declare them: rows, check clauses, uniqueness constraints and the
  metric triggers, with the statement wrappers and the transaction shape the operations of
  \<^verbatim>\<open>crates/state/src/scheduler/store.rs\<close> share.

  A state column is its enum (the check clauses admit exactly those names). The random key of a
  late-evidence row is not modelled, nor are the columns of a result artifact that its acceptance
  trigger fixes (schema version, hash algorithm and provenance). Failures of the storage engine itself (I/O, contention) are outside the model, so a
  \<open>SchedulerError\<close> here is always a constraint violation or an undecodable value.
\<close>

section \<open>Rows\<close>

record run_row =
  r_run_id :: string
  r_job_id :: string
  r_schedule_id :: string
  r_job_generation :: i64
  r_schedule_generation :: i64
  r_scheduled_for :: i64
  r_coalesced_through :: i64
  r_definition_version :: i64
  r_definition_json :: string
  r_capability_schema_version :: i64
  r_capability_digest :: string
  r_capability_json :: string
  r_targets_json :: string
  r_execution_baseline_json :: "string option"
  r_policy_version :: i64
  r_policy_json :: string
  r_state :: run_state
  r_attempt :: i64
  r_next_attempt_at :: "i64 option"
  r_lease_owner :: "string option"
  r_lease_expires_at :: "i64 option"
  r_fence :: i64
  r_overlap_slot :: "i64 option"
  r_result_artifact_id :: "string option"
  r_result_context :: "string option"
  r_result_hash_algorithm :: "string option"
  r_result_hash :: "string option"
  r_error_kind :: "string option"
  r_error_message :: "string option"
  r_updated_at :: i64
  r_counter_limit_recorded :: bool

datatype attempt_state =
    ALeased | AExecuting | ARetryScheduled | APreflightRejected | ALeaseExpired | ASucceeded
  | AFailed | ATimedOut | ACancelled | AOutcomeUnknown

record attempt_row =
  a_run_id :: string
  a_job_id :: string
  a_attempt :: i64
  a_fence :: i64
  a_lease_owner :: string
  a_state :: attempt_state
  a_claimed_at :: i64
  a_lease_expires_at :: i64
  a_preflight_completed_at :: "i64 option"
  a_executing_at :: "i64 option"
  a_completed_at :: "i64 option"
  a_profile_schema_version :: "i64 option"
  a_profile_json :: "string option"
  a_profile_hash_algorithm :: "string option"
  a_profile_digest :: "string option"
  a_error_kind :: "string option"
  a_error_message :: "string option"

record evidence_row =
  e_run_id :: string
  e_attempt :: i64
  e_fence :: i64
  e_kind :: late_evidence_kind
  e_digest :: string
  e_observed_at :: i64

record artifact_row =
  ar_artifact_id :: string
  ar_run_id :: string
  ar_job_id :: string
  ar_accepted_attempt :: i64
  ar_accepted_fence :: i64
  ar_result_json :: string
  ar_result_hash :: string
  ar_previous_success_context :: string
  ar_completed_at :: i64

record epoch_row =
  ep_authority :: epoch_authority
  ep_registered_at :: i64

record permit_row =
  pm_permit :: execution_permit
  pm_authority_expires_at :: i64

record store =
  st_runs :: "run_row list"
  st_attempts :: "attempt_row list"
  st_evidence :: "evidence_row list"
  st_totals :: "transition_kind \<rightharpoonup> int"
  st_epoch :: "epoch_row option"
  st_permits :: "permit_row list"

section \<open>Constraints\<close>

definition slot_states :: "run_state list" where
  "slot_states = [Pending, Leased, Executing, OutcomeUnknown]"

definition lease_states :: "run_state list" where
  "lease_states = [Leased, Executing]"

definition run_check :: "ext \<Rightarrow> run_row \<Rightarrow> bool" where
  "run_check x r \<longleftrightarrow>
     r_job_generation r \<ge> 0 \<and> r_schedule_generation r \<ge> 0
     \<and> r_scheduled_for r \<le> r_coalesced_through r
     \<and> r_definition_version r > 0 \<and> sql_json_valid x (r_definition_json r)
     \<and> r_capability_schema_version r > 0 \<and> r_capability_digest r \<noteq> []
     \<and> sql_json_valid x (r_capability_json r) \<and> sql_json_valid x (r_targets_json r)
     \<and> (case r_execution_baseline_json r of None \<Rightarrow> True | Some j \<Rightarrow> sql_json_valid x j)
     \<and> r_policy_version r = 1 \<and> sql_json_valid x (r_policy_json r)
     \<and> r_attempt r \<ge> 0 \<and> r_fence r \<ge> 0
     \<and> (if r_state r \<in> set lease_states
        then r_lease_owner r \<noteq> None \<and> r_lease_expires_at r \<noteq> None
        else r_lease_owner r = None \<and> r_lease_expires_at r = None)
     \<and> (r_next_attempt_at r = None \<or> r_state r = Pending)
     \<and> ((r_result_hash_algorithm r = None \<and> r_result_hash r = None)
        \<or> (r_result_hash_algorithm r \<noteq> None \<and> r_result_hash r \<noteq> None \<and> r_state r = Succeeded))
     \<and> (r_result_context r = None \<or> r_state r = Succeeded)
     \<and> ((r_error_kind r = None \<and> r_error_message r = None)
        \<or> (r_state r \<in> set [Failed, TimedOut, OutcomeUnknown] \<and> r_error_kind r \<noteq> None))
     \<and> (if r_state r \<in> set slot_states then r_overlap_slot r = Some 1
        else r_overlap_slot r = None)"

definition run_unique :: "run_row list \<Rightarrow> bool" where
  "run_unique rows \<longleftrightarrow>
     distinct (map r_run_id rows)
     \<and> distinct (map (\<lambda>r. (r_job_id r, r_scheduled_for r)) rows)
     \<and> distinct (map (\<lambda>r. (r_job_id r, r_overlap_slot r))
         (filter (\<lambda>r. r_overlap_slot r \<noteq> None) rows))"

definition attempt_check :: "ext \<Rightarrow> attempt_row \<Rightarrow> bool" where
  "attempt_check x a \<longleftrightarrow>
     a_attempt a > 0 \<and> a_fence a > 0 \<and> a_lease_owner a \<noteq> []
     \<and> a_lease_expires_at a > a_claimed_at a
     \<and> ((a_profile_schema_version a = None \<and> a_profile_json a = None
         \<and> a_profile_hash_algorithm a = None \<and> a_profile_digest a = None)
        \<or> ((case a_profile_schema_version a of None \<Rightarrow> False | Some v \<Rightarrow> v > 0)
         \<and> (case a_profile_json a of None \<Rightarrow> False | Some j \<Rightarrow> sql_json_valid x j)
         \<and> (case a_profile_hash_algorithm a of None \<Rightarrow> False | Some h \<Rightarrow> h \<noteq> [])
         \<and> (case a_profile_digest a of None \<Rightarrow> False | Some d \<Rightarrow> d \<noteq> [])))
     \<and> (a_state a \<in> set [AExecuting, ASucceeded, ATimedOut, AOutcomeUnknown]
        \<longrightarrow> a_profile_json a \<noteq> None)
     \<and> (a_state a = AExecuting \<longrightarrow> a_executing_at a \<noteq> None \<and> a_completed_at a = None)
     \<and> (if a_state a \<in> set [ALeased, AExecuting] then a_completed_at a = None
        else a_completed_at a \<noteq> None)
     \<and> ((a_error_kind a = None \<and> a_error_message a = None)
        \<or> (a_error_kind a \<noteq> None \<and> a_state a \<notin> set [ALeased, AExecuting]))"

definition attempt_unique :: "attempt_row list \<Rightarrow> bool" where
  "attempt_unique rows \<longleftrightarrow>
     distinct (map (\<lambda>a. (a_run_id a, a_attempt a)) rows)
     \<and> distinct (map (\<lambda>a. (a_run_id a, a_fence a)) rows)"

definition evidence_key ::
  "evidence_row \<Rightarrow> string \<times> i64 \<times> i64 \<times> late_evidence_kind \<times> string" where
  "evidence_key e = (e_run_id e, e_attempt e, e_fence e, e_kind e, e_digest e)"

definition evidence_check :: "evidence_row \<Rightarrow> bool" where
  "evidence_check e \<longleftrightarrow>
     e_attempt e > 0 \<and> e_fence e > 0 \<and> length (e_digest e) = 64 \<and> list_all is_hex_lower (e_digest e)"

definition evidence_unique :: "evidence_row list \<Rightarrow> bool" where
  "evidence_unique rows \<longleftrightarrow> distinct (map evidence_key rows)"

section \<open>Metrics\<close>

definition bump :: "transition_kind \<Rightarrow> (transition_kind \<rightharpoonup> int) \<Rightarrow> (transition_kind \<rightharpoonup> int)" where
  "bump kind totals =
     (case totals kind of
        None \<Rightarrow> totals
      | Some value \<Rightarrow> totals(kind \<mapsto> (if value < i64_max then value + 1 else value)))"

definition run_metrics ::
  "run_row \<Rightarrow> run_row \<Rightarrow> (transition_kind \<rightharpoonup> int) \<Rightarrow> (transition_kind \<rightharpoonup> int)" where
  "run_metrics old new totals =
     (if r_state old = r_state new then totals
      else let totals' =
          (case r_state new of
             Leased \<Rightarrow> bump RunClaimed totals
           | Succeeded \<Rightarrow> bump RunCompleted totals
           | Failed \<Rightarrow> bump RunFailed totals
           | TimedOut \<Rightarrow> bump RunTimedOut totals
           | Cancelled \<Rightarrow> bump RunCancelled totals
           | OutcomeUnknown \<Rightarrow> bump RunOutcomeUnknown totals
           | _ \<Rightarrow> totals)
        in if r_state new = Failed
              \<and> r_error_kind new \<in> set [Some ''run_deadline_exceeded'', Some ''run_retry_exhausted'']
           then bump PolicyLimitRejected totals' else totals')"

definition attempt_metrics ::
  "attempt_row \<Rightarrow> attempt_row \<Rightarrow> (transition_kind \<rightharpoonup> int) \<Rightarrow> (transition_kind \<rightharpoonup> int)" where
  "attempt_metrics old new totals =
     (if a_state old = a_state new then totals
      else if a_error_kind new = Some ''profile_validation_failed''
      then bump ProfileValidationFailed totals
      else if a_error_kind new = Some ''artifact_validation_failed''
      then bump ArtifactValidationFailed totals
      else if a_error_kind new = Some ''tool_list_validation_failed''
      then bump ToolListValidationFailed totals
      else totals)"

definition increment_scheduler_transition_total ::
  "transition_kind \<Rightarrow> nat \<Rightarrow> store \<Rightarrow> state_error + store" where
  "increment_scheduler_transition_total kind amount db =
     (case st_totals db kind of
        None \<Rightarrow> Inl (InvalidSchedulerState ''scheduler transition metric vocabulary is incomplete'')
      | Some value \<Rightarrow>
          Inr (db \<lparr>st_totals := (st_totals db)(kind \<mapsto>
            value + min (min (int amount) i64_max) (i64_max - value))\<rparr>))"

definition record_stale_fence_rejection :: "store \<Rightarrow> state_error + store" where
  "record_stale_fence_rejection db = increment_scheduler_transition_total StaleFenceRejected 1 db"

section \<open>Statements\<close>

definition update_runs ::
  "ext \<Rightarrow> (run_row \<Rightarrow> bool) \<Rightarrow> (run_row \<Rightarrow> run_row) \<Rightarrow> store \<Rightarrow> state_error + (store \<times> nat)" where
  "update_runs x w f db =
     rbind (map_err scheduler_error (sql_update (run_check x) run_unique w f (st_runs db)))
       (\<lambda>(rows, n). Inr (db \<lparr>st_runs := rows,
          st_totals := fold (\<lambda>r t. if w r then run_metrics r (f r) t else t)
            (st_runs db) (st_totals db)\<rparr>, n))"

definition update_attempts ::
  "ext \<Rightarrow> (attempt_row \<Rightarrow> bool) \<Rightarrow> (attempt_row \<Rightarrow> attempt_row) \<Rightarrow> store
     \<Rightarrow> state_error + (store \<times> nat)" where
  "update_attempts x w f db =
     rbind (map_err scheduler_error
       (sql_update (attempt_check x) attempt_unique w f (st_attempts db)))
       (\<lambda>(rows, n). Inr (db \<lparr>st_attempts := rows,
          st_totals := fold (\<lambda>a t. if w a then attempt_metrics a (f a) t else t)
            (st_attempts db) (st_totals db)\<rparr>, n))"

text \<open>\<open>insert ... on conflict(job_id, scheduled_for) do nothing\<close> for a run, with its metric
  trigger.\<close>

definition materialized_metrics ::
  "int \<Rightarrow> (transition_kind \<rightharpoonup> int) \<Rightarrow> (transition_kind \<rightharpoonup> int)" where
  "materialized_metrics skipped totals =
     (let totals' = bump OccurrencesMaterialized totals in
      case totals' MisfireCoalescedSkipped of
        None \<Rightarrow> totals'
      | Some value \<Rightarrow>
          totals'(MisfireCoalescedSkipped \<mapsto> value + min skipped (i64_max - value)))"

definition insert_run :: "ext \<Rightarrow> run_row \<Rightarrow> int \<Rightarrow> store \<Rightarrow> state_error + (store \<times> nat)" where
  "insert_run x r skipped db =
     (if \<not> run_check x r then Inl (scheduler_error SQLITE_CONSTRAINT_CHECK)
      else if list_ex (\<lambda>s. r_job_id s = r_job_id r \<and> r_scheduled_for s = r_scheduled_for r) (st_runs db)
      then Inr (db, 0)
      else rbind (map_err scheduler_error (sql_insert (run_check x) run_unique r (st_runs db)))
        (\<lambda>rows. Inr (db \<lparr>st_runs := rows,
           st_totals := materialized_metrics skipped (st_totals db)\<rparr>, 1)))"

definition insert_attempt :: "ext \<Rightarrow> attempt_row \<Rightarrow> store \<Rightarrow> state_error + store" where
  "insert_attempt x a db =
     rbind (map_err scheduler_error
       (sql_insert (attempt_check x) attempt_unique a (st_attempts db))) (\<lambda>rows.
     if \<not> list_ex (\<lambda>r. r_run_id r = a_run_id a \<and> r_job_id r = a_job_id a) (st_runs db)
     then Inl (scheduler_error SQLITE_CONSTRAINT_FOREIGNKEY)
     else Inr (db \<lparr>st_attempts := rows\<rparr>))"

definition insert_evidence :: "evidence_row \<Rightarrow> store \<Rightarrow> state_error + store" where
  "insert_evidence e db =
     rbind (map_err scheduler_error
       (sql_insert evidence_check evidence_unique e (st_evidence db))) (\<lambda>rows.
     if \<not> list_ex (\<lambda>a. a_run_id a = e_run_id e \<and> a_attempt a = e_attempt e
           \<and> a_fence a = e_fence e) (st_attempts db)
     then Inl (scheduler_error SQLITE_CONSTRAINT_FOREIGNKEY)
     else Inr (db \<lparr>st_evidence := rows\<rparr>))"

section \<open>Transactions\<close>

text \<open>
  A transaction body ends by committing a value, by an error that drops (rolls back) the
  transaction, or by the lost-lease exit: an explicit rollback followed by the stale-fence counter,
  outside the transaction, and \<open>ScheduledRunLostLease\<close>.
\<close>

datatype txn_exit = Abort state_error | LostLease

definition lift :: "state_error + 'a \<Rightarrow> txn_exit + 'a" where
  "lift m = map_err Abort m"

definition one_row :: "store \<times> nat \<Rightarrow> txn_exit + store" where
  "one_row dn = (case dn of (db, n) \<Rightarrow> if n \<noteq> 1 then Inl LostLease else Inr db)"

definition lost_lease :: "store \<Rightarrow> (state_error + 'a) \<times> store" where
  "lost_lease db =
     (case record_stale_fence_rejection db of
        Inl e \<Rightarrow> (Inl e, db)
      | Inr db' \<Rightarrow> (Inl ScheduledRunLostLease, db'))"

definition transact ::
  "store \<Rightarrow> txn_exit + (store \<times> (state_error + 'a)) \<Rightarrow> (state_error + 'a) \<times> store" where
  "transact db m =
     (case m of
        Inl (Abort e) \<Rightarrow> (Inl e, db)
      | Inl LostLease \<Rightarrow> lost_lease db
      | Inr (db', v) \<Rightarrow> (v, db'))"

lemma lift_simps [simp]: "lift (Inl e) = Inl (Abort e)" "lift (Inr v) = Inr v"
  by (simp_all add: lift_def)

lemma lift_eq_Inr [simp]: "lift m = Inr v \<longleftrightarrow> m = Inr v"
  by (simp add: lift_def)

lemma one_row_eq_Inr [simp]: "one_row (db, n) = Inr db' \<longleftrightarrow> n = 1 \<and> db' = db"
  by (auto simp: one_row_def)

interpretation runs: checked_table "run_check x" run_unique r_run_id for x
  by unfold_locales (simp add: run_unique_def)

interpretation attempts: checked_table "attempt_check x" attempt_unique
  "\<lambda>a. (a_run_id a, a_attempt a)" for x
  by unfold_locales (simp add: attempt_unique_def)

interpretation evidence: checked_table evidence_check evidence_unique evidence_key
  by unfold_locales (simp add: evidence_unique_def)

section \<open>Effects of the statements\<close>

text \<open>The counters are the only thing two stores may differ in.\<close>

definition same_tables :: "store \<Rightarrow> store \<Rightarrow> bool" where
  "same_tables db db' \<longleftrightarrow>
     st_runs db' = st_runs db \<and> st_attempts db' = st_attempts db
     \<and> st_evidence db' = st_evidence db \<and> st_epoch db' = st_epoch db
     \<and> st_permits db' = st_permits db"

lemma same_tables_refl [simp]: "same_tables db db"
  by (simp add: same_tables_def)

lemma same_tables_trans: "same_tables a b \<Longrightarrow> same_tables b c \<Longrightarrow> same_tables a c"
  by (simp add: same_tables_def)

lemma same_tablesD:
  assumes "same_tables db db'"
  shows "st_runs db' = st_runs db" and "st_attempts db' = st_attempts db"
    and "st_evidence db' = st_evidence db" and "st_epoch db' = st_epoch db"
    and "st_permits db' = st_permits db"
  using assms by (simp_all add: same_tables_def)

lemma update_runs_InrD:
  assumes "update_runs x w f db = Inr (db', n)"
  shows "sql_update (run_check x) run_unique w f (st_runs db) = Inr (st_runs db', n)"
    and "st_attempts db' = st_attempts db" and "st_evidence db' = st_evidence db"
    and "st_epoch db' = st_epoch db" and "st_permits db' = st_permits db"
  using assms by (auto simp: update_runs_def)

lemma update_attempts_InrD:
  assumes "update_attempts x w f db = Inr (db', n)"
  shows "sql_update (attempt_check x) attempt_unique w f (st_attempts db) = Inr (st_attempts db', n)"
    and "st_runs db' = st_runs db" and "st_evidence db' = st_evidence db"
    and "st_epoch db' = st_epoch db" and "st_permits db' = st_permits db"
  using assms by (auto simp: update_attempts_def)

lemma insert_attempt_InrD:
  assumes "insert_attempt x a db = Inr db'"
  shows "sql_insert (attempt_check x) attempt_unique a (st_attempts db) = Inr (st_attempts db')"
    and "st_runs db' = st_runs db" and "st_evidence db' = st_evidence db"
    and "\<exists>r \<in> set (st_runs db). r_run_id r = a_run_id a \<and> r_job_id r = a_job_id a"
    and "st_epoch db' = st_epoch db" and "st_permits db' = st_permits db"
  using assms by (auto simp: insert_attempt_def list_ex_iff split: if_splits)

lemma insert_evidence_InrD:
  assumes "insert_evidence e db = Inr db'"
  shows "sql_insert evidence_check evidence_unique e (st_evidence db) = Inr (st_evidence db')"
    and "st_runs db' = st_runs db" and "st_attempts db' = st_attempts db"
    and "st_epoch db' = st_epoch db" and "st_permits db' = st_permits db"
  using assms by (auto simp: insert_evidence_def split: if_splits)

lemma increment_same_tables:
  "increment_scheduler_transition_total kind n db = Inr db' \<Longrightarrow> same_tables db db'"
  by (auto simp: increment_scheduler_transition_total_def same_tables_def split: option.splits)

text \<open>The three ways a transaction can leave the store.\<close>

lemma transact_cases:
  assumes "transact db m = (v, db')"
  obtains (rolled_back) "db' = db" "\<exists>e. v = Inl e"
  | (lost) "m = Inl LostLease" "same_tables db db'" "\<exists>e. v = Inl e"
  | (committed) "m = Inr (db', v)"
proof (cases m)
  case (Inl e)
  show ?thesis
  proof (cases e)
    case (Abort s)
    then show ?thesis using assms Inl rolled_back by (auto simp: transact_def)
  next
    case LostLease
    then show ?thesis
      using assms Inl lost [OF _ increment_same_tables] rolled_back
      by (auto simp: transact_def lost_lease_def record_stale_fence_rejection_def split: sum.splits)
  qed
next
  case (Inr dv)
  then show ?thesis using assms committed by (cases dv) (simp add: transact_def)
qed

lemma transact_Inr: "transact db m = (Inr u, db') \<longleftrightarrow> m = Inr (db', Inr u)"
proof
  assume "transact db m = (Inr u, db')"
  then show "m = Inr (db', Inr u)" by (cases rule: transact_cases) auto
qed (simp add: transact_def)

end
