(* ===== verification/Run_Store.thy ===== *)
theory Run_Store
  imports Run_Tables
begin

text \<open>
  The run operations of \<^verbatim>\<open>crates/state/src/scheduler/store.rs\<close>: executor epochs and permits,
  claiming, heartbeats, the fenced transitions of a leased or executing run, lease reclamation and
  reconciliation, late evidence and the cancellation of pre-execution work. Every operation maps a
  store to its result and the store it leaves behind.

  An \<open>async\<close> operation is one atomic step: it runs in a single SQLite write transaction. Clock reads
  and the cancellation flag inside a claim are arguments.
\<close>

section \<open>Policy snapshots\<close>

definition scheduler_policy_json :: "ext \<Rightarrow> policy \<Rightarrow> state_error + string" where
  "scheduler_policy_json x p =
     rbind (map_err (\<lambda>e. InvalidSchedulerState (policy_error_display e)) (validate_policy p))
       (\<lambda>_. Inr (policy_print x p))"

definition scheduler_policy_from_snapshot :: "ext \<Rightarrow> i64 \<Rightarrow> string \<Rightarrow> state_error + policy" where
  "scheduler_policy_from_snapshot x version snapshot =
     (if version \<noteq> uint SCHEDULER_OPERATIONAL_POLICY_VERSION
      then Inl (InvalidSchedulerState ''unsupported scheduler operational policy version'')
      else rbind (map_err invalid_json (policy_parse x snapshot)) (\<lambda>p.
      rbind (map_err (\<lambda>e. InvalidSchedulerState (policy_error_display e)) (validate_policy p)) (\<lambda>_.
      rbind (scheduler_policy_json x p) (\<lambda>text.
      if text \<noteq> snapshot
      then Inl (InvalidSchedulerState ''scheduler operational policy snapshot is not canonical'')
      else Inr p))))"

section \<open>Executor epochs, permits and admissions\<close>

definition register_scheduled_executor_epoch ::
  "epoch_authority \<Rightarrow> i64 \<Rightarrow> store \<Rightarrow> (state_error + epoch_registration) \<times> store" where
  "register_scheduled_executor_epoch authority now db =
     transact db
       (rbind (lift (map_err invalid_value (epoch_authority_validate authority now))) (\<lambda>_.
        let new_row = \<lparr>ep_authority = authority, ep_registered_at = now\<rparr>;
            (current, changed) =
              (case st_epoch db of
                 None \<Rightarrow> (new_row, True)
               | Some old \<Rightarrow>
                   if epoch_deployment_epoch authority > epoch_deployment_epoch (ep_authority old)
                   then (new_row, True) else (old, False))
        in if ep_authority current \<noteq> authority
           then Inl (Abort (InvalidSchedulerState
             ''scheduled executor epoch rollback or same-epoch authority conflict''))
           else Inr (db \<lparr>st_epoch := Some current\<rparr>,
                     Inr (if changed then Activated else Resumed))))"

definition permit_unique :: "permit_row list \<Rightarrow> bool" where
  "permit_unique rows \<longleftrightarrow>
     distinct (map (\<lambda>p. permit_id (pm_permit p)) rows)
     \<and> distinct (map (\<lambda>p. (permit_run_id (pm_permit p), permit_attempt (pm_permit p),
          permit_fence (pm_permit p))) rows)
     \<and> distinct (map (\<lambda>p. (permit_deployment_epoch (pm_permit p), permit_nonce (pm_permit p))) rows)"

definition epoch_admits :: "epoch_authority \<Rightarrow> execution_permit \<Rightarrow> bool" where
  "epoch_admits e p \<longleftrightarrow>
     epoch_deployment_epoch e = permit_deployment_epoch p
     \<and> epoch_attestation_id e = permit_attestation_id p
     \<and> epoch_profile_digest e = permit_profile_digest p
     \<and> epoch_expires_at e > permit_consumed_at p"

definition consume_scheduled_execution_permit ::
  "execution_permit \<Rightarrow> store \<Rightarrow> (state_error + unit) \<times> store" where
  "consume_scheduled_execution_permit permit db =
     transact db
       (rbind (lift (map_err invalid_value (permit_validate permit))) (\<lambda>_.
        case st_epoch db of
          None \<Rightarrow> Inl (Abort (InvalidSchedulerState
            ''scheduled execution permit deployment epoch is not current''))
        | Some e \<Rightarrow>
            if \<not> epoch_admits (ep_authority e) permit
            then Inl (Abort (InvalidSchedulerState
              ''scheduled execution permit deployment epoch is not current''))
            else let rows = st_permits db @ [\<lparr>pm_permit = permit,
                   pm_authority_expires_at = epoch_expires_at (ep_authority e)\<rparr>]
            in if \<not> permit_unique rows
               then Inl (Abort (InvalidSchedulerState
                 ''scheduled execution permit was already consumed or replayed''))
               else Inr (db \<lparr>st_permits := rows\<rparr>, Inr ())))"

definition revalidate_executor_admission ::
  "executor_admission option \<Rightarrow> i64 \<Rightarrow> store \<Rightarrow> state_error + unit" where
  "revalidate_executor_admission admission now db =
     (case admission of
        None \<Rightarrow> Inr ()
      | Some a \<Rightarrow>
          if now \<le> 0 \<or> now \<ge> admission_operation_deadline a \<or> now \<ge> admission_signed_not_after a
          then Inl ScheduledExecutorAdmissionUnavailable
          else (case st_epoch db of
                  None \<Rightarrow> Inl ScheduledExecutorAdmissionUnavailable
                | Some row \<Rightarrow>
                    (let e = ep_authority row in
                     if epoch_schema_version e = admission_schema_version a
                        \<and> epoch_deployment_epoch e = admission_deployment_epoch a
                        \<and> epoch_attestation_id e = admission_attestation_id a
                        \<and> epoch_profile_digest e = admission_profile_digest a
                        \<and> epoch_expires_at e = admission_signed_not_after a
                        \<and> epoch_expires_at e > now
                     then Inr () else Inl ScheduledExecutorAdmissionUnavailable)))"

definition acquire_and_validate_executor_admission ::
  "executor_admission option \<Rightarrow> i64 \<Rightarrow> store \<Rightarrow> state_error + unit" where
  "acquire_and_validate_executor_admission admission now db =
     (case admission of
        None \<Rightarrow> Inr ()
      | Some a \<Rightarrow>
          rbind (map_err invalid_value (admission_validate a)) (\<lambda>_.
          if st_epoch db = None then Inl ScheduledExecutorAdmissionUnavailable
          else revalidate_executor_admission (Some a) now db))"

definition ensure_executor_admission_not_cancelled ::
  "executor_admission option \<Rightarrow> bool \<Rightarrow> state_error + unit" where
  "ensure_executor_admission_not_cancelled admission cancellation =
     (if admission \<noteq> None \<and> cancellation then Inl ScheduledExecutorAdmissionUnavailable
      else Inr ())"

section \<open>Leases\<close>

definition validate_lease_binding :: "run_lease_binding \<Rightarrow> state_error + unit" where
  "validate_lease_binding b =
     rbind (map_err invalid_value (check_all [
       validate_text ''scheduled run id'' (binding_run_id b),
       validate_text ''scheduled run job id'' (binding_job_id b),
       validate_text ''scheduled run lease owner'' (binding_lease_owner b)])) (\<lambda>_.
     if binding_attempt b \<le> 0 \<or> binding_fence b \<le> 0
     then Inl (InvalidSchedulerState ''scheduled run attempt and fence must be positive'')
     else Inr ())"

definition run_matches :: "run_lease_binding \<Rightarrow> run_row \<Rightarrow> bool" where
  "run_matches b r \<longleftrightarrow>
     r_run_id r = binding_run_id b \<and> r_job_id r = binding_job_id b
     \<and> r_attempt r = binding_attempt b \<and> r_fence r = binding_fence b
     \<and> r_lease_owner r = Some (binding_lease_owner b)"

definition attempt_matches :: "run_lease_binding \<Rightarrow> attempt_row \<Rightarrow> bool" where
  "attempt_matches b a \<longleftrightarrow>
     a_run_id a = binding_run_id b \<and> a_job_id a = binding_job_id b
     \<and> a_attempt a = binding_attempt b \<and> a_fence a = binding_fence b
     \<and> a_lease_owner a = binding_lease_owner b"

definition run_lease_after :: "i64 \<Rightarrow> run_row \<Rightarrow> bool" where
  "run_lease_after now r = (case r_lease_expires_at r of None \<Rightarrow> False | Some t \<Rightarrow> t > now)"

definition run_lease_expired :: "i64 \<Rightarrow> run_row \<Rightarrow> bool" where
  "run_lease_expired now r = (case r_lease_expires_at r of None \<Rightarrow> False | Some t \<Rightarrow> t \<le> now)"

definition due :: "i64 \<Rightarrow> run_row \<Rightarrow> bool" where
  "due now r \<longleftrightarrow> r_state r = Pending
     \<and> (case r_next_attempt_at r of None \<Rightarrow> True | Some t \<Rightarrow> t \<le> now)"

text \<open>\<open>cast(json_extract(scheduler_policy_json, '$.field') as integer)\<close>; null makes a comparison
  false.\<close>

definition policy_int :: "ext \<Rightarrow> run_row \<Rightarrow> string \<Rightarrow> int option" where
  "policy_int x r field = sql_json_int x (r_policy_json r) field"

definition deadline_passed :: "ext \<Rightarrow> i64 \<Rightarrow> run_row \<Rightarrow> bool" where
  "deadline_passed x now r =
     (case policy_int x r ''run_deadline_seconds'' of
        None \<Rightarrow> False
      | Some d \<Rightarrow> r_scheduled_for r > i64_max - d \<or> now \<ge> r_scheduled_for r + d)"

definition attempts_spent :: "ext \<Rightarrow> run_row \<Rightarrow> bool" where
  "attempts_spent x r =
     (case policy_int x r ''run_max_attempts'' of None \<Rightarrow> False | Some m \<Rightarrow> r_attempt r \<ge> m)"

definition fail_run :: "ext \<Rightarrow> i64 \<Rightarrow> run_row \<Rightarrow> run_row" where
  "fail_run x now r = r \<lparr>
     r_state := Failed, r_overlap_slot := None, r_next_attempt_at := None, r_lease_owner := None,
     r_lease_expires_at := None,
     r_error_kind := Some (if deadline_passed x now r then ''run_deadline_exceeded''
                           else ''run_retry_exhausted''),
     r_error_message := None, r_updated_at := now \<rparr>"

definition fail_exhausted_runs :: "ext \<Rightarrow> i64 \<Rightarrow> store \<Rightarrow> state_error + (store \<times> nat)" where
  "fail_exhausted_runs x now db =
     update_runs x (\<lambda>r. due now r \<and> (deadline_passed x now r \<or> attempts_spent x r))
       (fail_run x now) db"

definition claimable :: "i64 \<Rightarrow> run_row \<Rightarrow> bool" where
  "claimable now r \<longleftrightarrow> due now r \<and> r_attempt r < i64_max \<and> r_fence r < i64_max"

definition counter_exhausted :: "i64 \<Rightarrow> run_row \<Rightarrow> bool" where
  "counter_exhausted now r \<longleftrightarrow> due now r \<and> (r_attempt r = i64_max \<or> r_fence r = i64_max)"

definition claim_row :: "ext \<Rightarrow> string \<Rightarrow> i64 \<Rightarrow> i64 \<Rightarrow> run_row \<Rightarrow> run_row" where
  "claim_row x owner requested now r = r \<lparr>
     r_state := Leased, r_attempt := r_attempt r + 1, r_fence := r_fence r + 1,
     r_next_attempt_at := None, r_lease_owner := Some owner,
     r_lease_expires_at :=
       (if requested > now then Some requested
        else map_option (\<lambda>s. now + s) (policy_int x r ''run_lease_seconds'')),
     r_updated_at := now \<rparr>"

definition lease_attempt :: "run_row \<Rightarrow> string \<Rightarrow> i64 \<Rightarrow> i64 \<Rightarrow> attempt_row" where
  "lease_attempt r owner now expires = \<lparr>
     a_run_id = r_run_id r, a_job_id = r_job_id r, a_attempt = r_attempt r, a_fence = r_fence r,
     a_lease_owner = owner, a_state = ALeased, a_claimed_at = now, a_lease_expires_at = expires,
     a_preflight_completed_at = None, a_executing_at = None, a_completed_at = None,
     a_profile_schema_version = None, a_profile_json = None, a_profile_hash_algorithm = None,
     a_profile_digest = None, a_error_kind = None, a_error_message = None \<rparr>"

definition claimed_from_row ::
  "ext \<Rightarrow> run_lease_binding \<Rightarrow> string \<Rightarrow> run_row \<Rightarrow> state_error + claimed_run" where
  "claimed_from_row x b baseline r =
     rbind (positive_u32 (r_definition_version r)) (\<lambda>definition_version.
     rbind (positive_u32 (r_capability_schema_version r)) (\<lambda>capability_version.
     rbind (scheduler_policy_from_snapshot x (r_policy_version r) (r_policy_json r)) (\<lambda>p.
     Inr \<lparr>claimed_binding = b, claimed_schedule_id = r_schedule_id r,
          claimed_job_generation = r_job_generation r,
          claimed_schedule_generation = r_schedule_generation r,
          claimed_scheduled_for = r_scheduled_for r,
          claimed_coalesced_through = r_coalesced_through r,
          claimed_definition_version = definition_version,
          claimed_definition_json = r_definition_json r,
          claimed_capability_schema_version = capability_version,
          claimed_capability_digest = r_capability_digest r,
          claimed_capability_json = r_capability_json r,
          claimed_targets_json = r_targets_json r,
          claimed_execution_baseline_json = baseline,
          claimed_scheduler_policy = p\<rparr>)))"

section \<open>Claiming\<close>

record claim_env =
  clock_admission :: i64
  clock_mutation :: i64
  clock_commit :: i64
  cancelled_before :: bool
  cancelled_after :: bool

definition claim_exhausted ::
  "ext \<Rightarrow> executor_admission option \<Rightarrow> claim_env \<Rightarrow> store
     \<Rightarrow> txn_exit + (store \<times> (state_error + claimed_run option))" where
  "claim_exhausted x admission env db =
     (let now = clock_mutation env in
      if list_ex (counter_exhausted now) (st_runs db) then
        rbind (lift (update_runs x
          (\<lambda>r. counter_exhausted now r \<and> \<not> r_counter_limit_recorded r)
          (\<lambda>r. r \<lparr>r_counter_limit_recorded := True\<rparr>) db)) (\<lambda>(db', n).
        rbind (lift (increment_scheduler_transition_total PolicyLimitRejected n db')) (\<lambda>db''.
        rbind (lift (ensure_executor_admission_not_cancelled admission (cancelled_after env))) (\<lambda>_.
        rbind (lift (revalidate_executor_admission admission (clock_commit env) db'')) (\<lambda>_.
        Inr (db'', Inl ScheduledRunCounterExhausted)))))
      else
        rbind (lift (ensure_executor_admission_not_cancelled admission (cancelled_after env))) (\<lambda>_.
        rbind (lift (revalidate_executor_admission admission (clock_commit env) db)) (\<lambda>_.
        Inr (db, Inr None))))"

definition claim_selected ::
  "ext \<Rightarrow> string \<Rightarrow> i64 \<Rightarrow> executor_admission option \<Rightarrow> claim_env \<Rightarrow> run_row \<Rightarrow> store
     \<Rightarrow> txn_exit + (store \<times> (state_error + claimed_run option))" where
  "claim_selected x owner requested admission env m db =
     (let now = clock_mutation env; r = claim_row x owner requested now m in
      rbind (lift (update_runs x (\<lambda>r. r_run_id r = r_run_id m \<and> claimable now r)
        (claim_row x owner requested now) db)) (\<lambda>(db1, _).
      rbind (lift (ok_or (scheduler_error SqlxOther)
        (Option.bind (r_lease_expires_at r) (\<lambda>t. if in_i64 t then Some t else None)))) (\<lambda>expires.
      rbind (lift (insert_attempt x (lease_attempt r owner now expires) db1)) (\<lambda>db2.
      rbind (lift (ok_or (InvalidSchedulerState
          ''materialized run is missing its execution baseline snapshot'')
        (r_execution_baseline_json r))) (\<lambda>baseline.
      rbind (lift (claimed_from_row x \<lparr>binding_run_id = r_run_id r, binding_job_id = r_job_id r,
          binding_attempt = r_attempt r, binding_fence = r_fence r,
          binding_lease_owner = owner\<rparr> baseline r)) (\<lambda>claimed.
      rbind (lift (ensure_executor_admission_not_cancelled admission (cancelled_after env))) (\<lambda>_.
      rbind (lift (revalidate_executor_admission admission (clock_commit env) db2)) (\<lambda>_.
      Inr (db2, Inr (Some claimed))))))))))"

definition claim_next_scheduled_run_inner ::
  "ext \<Rightarrow> string \<Rightarrow> i64 \<Rightarrow> i64 option \<Rightarrow> executor_admission option \<Rightarrow> claim_env \<Rightarrow> store
     \<Rightarrow> (state_error + claimed_run option) \<times> store" where
  "claim_next_scheduled_run_inner x owner now lease_expires_at admission env db =
     transact db
       (rbind (lift (map_err invalid_value (validate_text ''scheduled run lease owner'' owner))) (\<lambda>_.
        if (case lease_expires_at of None \<Rightarrow> False | Some t \<Rightarrow> t \<le> now)
        then Inl (Abort (InvalidSchedulerState ''scheduled run lease must expire after claim time''))
        else rbind (lift (acquire_and_validate_executor_admission admission
               (clock_admission env) db)) (\<lambda>_.
        rbind (lift (ensure_executor_admission_not_cancelled admission (cancelled_before env))) (\<lambda>_.
        let mutation_now = clock_mutation env in
        rbind (if lease_expires_at = None
               then lift (rbind (fail_exhausted_runs x mutation_now db) (\<lambda>(db', _). Inr db'))
               else Inr db) (\<lambda>db1.
        let requested = (case lease_expires_at of None \<Rightarrow> mutation_now | Some t \<Rightarrow> t) in
        case select_min (\<lambda>r. (r_scheduled_for r, r_run_id r)) (claimable mutation_now)
            (st_runs db1) of
          None \<Rightarrow> claim_exhausted x admission env db1
        | Some m \<Rightarrow> claim_selected x owner requested admission env m db1)))))"

definition clock_at :: "i64 \<Rightarrow> claim_env" where
  "clock_at now = \<lparr>clock_admission = now, clock_mutation = now, clock_commit = now,
     cancelled_before = False, cancelled_after = False\<rparr>"

definition claim_next_scheduled_run ::
  "ext \<Rightarrow> string \<Rightarrow> i64 \<Rightarrow> i64 \<Rightarrow> store \<Rightarrow> (state_error + claimed_run option) \<times> store" where
  "claim_next_scheduled_run x owner now lease_expires_at db =
     claim_next_scheduled_run_inner x owner now (Some lease_expires_at) None (clock_at now) db"

definition claim_next_scheduled_run_from_snapshot ::
  "ext \<Rightarrow> string \<Rightarrow> i64 \<Rightarrow> store \<Rightarrow> (state_error + claimed_run option) \<times> store" where
  "claim_next_scheduled_run_from_snapshot x owner now db =
     claim_next_scheduled_run_inner x owner now None None (clock_at now) db"

definition claim_next_scheduled_run_from_snapshot_with_clock ::
  "ext \<Rightarrow> string \<Rightarrow> i64 \<Rightarrow> claim_env \<Rightarrow> store \<Rightarrow> (state_error + claimed_run option) \<times> store" where
  "claim_next_scheduled_run_from_snapshot_with_clock x owner now env db =
     claim_next_scheduled_run_inner x owner now None None
       (env \<lparr>cancelled_before := False, cancelled_after := False\<rparr>) db"

definition claim_next_scheduled_run_with_admission ::
  "ext \<Rightarrow> string \<Rightarrow> i64 \<Rightarrow> i64 \<Rightarrow> executor_admission \<Rightarrow> claim_env \<Rightarrow> store
     \<Rightarrow> (state_error + claimed_run option) \<times> store" where
  "claim_next_scheduled_run_with_admission x owner now lease_expires_at admission env db =
     claim_next_scheduled_run_inner x owner now (Some lease_expires_at) (Some admission) env db"

definition claim_next_scheduled_run_from_snapshot_with_admission ::
  "ext \<Rightarrow> string \<Rightarrow> i64 \<Rightarrow> executor_admission \<Rightarrow> claim_env \<Rightarrow> store
     \<Rightarrow> (state_error + claimed_run option) \<times> store" where
  "claim_next_scheduled_run_from_snapshot_with_admission x owner now admission env db =
     claim_next_scheduled_run_inner x owner now None (Some admission) env db"

section \<open>Heartbeats and the start of execution\<close>

definition live_state :: "run_row \<Rightarrow> bool" where
  "live_state r \<longleftrightarrow> r_state r \<in> set [Leased, Executing]"

definition live_attempt :: "attempt_row \<Rightarrow> bool" where
  "live_attempt a \<longleftrightarrow> a_state a \<in> set [ALeased, AExecuting]"

text \<open>
  The pair of guarded statements every fenced transition ends with: the run, then its attempt, and
  the lost-lease exit unless each changed exactly one row.
\<close>

definition fenced_update ::
  "ext \<Rightarrow> (run_row \<Rightarrow> bool) \<Rightarrow> (run_row \<Rightarrow> run_row) \<Rightarrow> (attempt_row \<Rightarrow> bool)
     \<Rightarrow> (attempt_row \<Rightarrow> attempt_row) \<Rightarrow> store \<Rightarrow> txn_exit + store" where
  "fenced_update x wr fr wa fa db =
     rbind (lift (update_runs x wr fr db)) (\<lambda>u.
     rbind (one_row u) (\<lambda>db1.
     rbind (lift (update_attempts x wa fa db1)) (\<lambda>v. one_row v)))"

definition heartbeat_scheduled_run ::
  "ext \<Rightarrow> run_lease_binding \<Rightarrow> i64 \<Rightarrow> i64 \<Rightarrow> store \<Rightarrow> (state_error + unit) \<times> store" where
  "heartbeat_scheduled_run x b now lease_expires_at db =
     transact db
       (rbind (lift (validate_lease_binding b)) (\<lambda>_.
        if lease_expires_at \<le> now
        then Inl (Abort (InvalidSchedulerState ''scheduled run heartbeat must extend beyond now''))
        else rbind (fenced_update x
          (\<lambda>r. run_matches b r \<and> live_state r
             \<and> (case r_lease_expires_at r of None \<Rightarrow> False
                | Some t \<Rightarrow> t > now \<and> lease_expires_at > t))
          (\<lambda>r. r \<lparr>r_lease_expires_at := Some lease_expires_at, r_updated_at := now\<rparr>)
          (\<lambda>a. attempt_matches b a \<and> live_attempt a
             \<and> a_lease_expires_at a > now \<and> lease_expires_at > a_lease_expires_at a)
          (\<lambda>a. a \<lparr>a_lease_expires_at := lease_expires_at\<rparr>) db)
          (\<lambda>db'. Inr (db', Inr ()))))"

definition mark_scheduled_run_executing ::
  "ext \<Rightarrow> run_lease_binding \<Rightarrow> attested_profile \<Rightarrow> i64 \<Rightarrow> store
     \<Rightarrow> (state_error + unit) \<times> store" where
  "mark_scheduled_run_executing x b profile now db =
     transact db
       (rbind (lift (validate_lease_binding b)) (\<lambda>_.
        rbind (lift (map_err invalid_value (attested_profile_validate x profile))) (\<lambda>_.
        rbind (fenced_update x
          (\<lambda>r. run_matches b r \<and> r_state r = Leased \<and> run_lease_after now r)
          (\<lambda>r. r \<lparr>r_state := Executing, r_updated_at := now\<rparr>)
          (\<lambda>a. attempt_matches b a \<and> a_state a = ALeased \<and> a_lease_expires_at a > now)
          (\<lambda>a. a \<lparr>a_state := AExecuting, a_preflight_completed_at := Some now,
             a_executing_at := Some now,
             a_profile_schema_version := Some (uint (attested_schema_version profile)),
             a_profile_json := Some (attested_canonical_json profile),
             a_profile_hash_algorithm := Some (attested_hash_algorithm profile),
             a_profile_digest := Some (attested_digest profile)\<rparr>) db)
          (\<lambda>db'. Inr (db', Inr ())))))"

section \<open>Preflight failures\<close>

text \<open>The run a live leased binding selects, as the policy lookup reads it.\<close>

definition leased_run :: "run_lease_binding \<Rightarrow> i64 \<Rightarrow> store \<Rightarrow> run_row option" where
  "leased_run b now db =
     List.find (\<lambda>r. run_matches b r \<and> r_state r = Leased \<and> run_lease_after now r) (st_runs db)"

definition preflight_disposition_of ::
  "ext \<Rightarrow> run_lease_binding \<Rightarrow> preflight_disposition \<Rightarrow> bool option \<Rightarrow> i64 \<Rightarrow> store
     \<Rightarrow> txn_exit + preflight_disposition" where
  "preflight_disposition_of x b disposition snapshot_retryable now db =
     (case snapshot_retryable of
        None \<Rightarrow> Inr disposition
      | Some False \<Rightarrow> Inr PreflightFail
      | Some True \<Rightarrow>
          (case leased_run b now db of
             None \<Rightarrow> Inl LostLease
           | Some r \<Rightarrow>
               rbind (lift (scheduler_policy_from_snapshot x (r_policy_version r) (r_policy_json r)))
                 (\<lambda>p. Inr (case run_retry_at p (binding_run_id b) (binding_attempt b)
                       (r_scheduled_for r) now of
                     None \<Rightarrow> PreflightFail | Some t \<Rightarrow> PreflightRetryAt t))))"

definition preflight_states ::
  "preflight_disposition \<Rightarrow> run_state \<times> attempt_state \<times> i64 option \<times> i64 option" where
  "preflight_states d =
     (case d of
        PreflightRetryAt t \<Rightarrow> (Pending, ARetryScheduled, Some t, Some 1)
      | PreflightFail \<Rightarrow> (Failed, APreflightRejected, None, None))"

definition preflight_run ::
  "preflight_disposition \<Rightarrow> string \<Rightarrow> string \<Rightarrow> i64 \<Rightarrow> run_row \<Rightarrow> run_row" where
  "preflight_run d kind message now r =
     (case preflight_states d of (run_state, _, retry_at, overlap_slot) \<Rightarrow>
        r \<lparr>r_state := run_state, r_next_attempt_at := retry_at, r_lease_owner := None,
           r_lease_expires_at := None, r_overlap_slot := overlap_slot,
           r_error_kind := (if run_state = Failed then Some kind else None),
           r_error_message := (if run_state = Failed then Some message else None),
           r_updated_at := now\<rparr>)"

definition preflight_attempt ::
  "preflight_disposition \<Rightarrow> string \<Rightarrow> string \<Rightarrow> i64 \<Rightarrow> attempt_row \<Rightarrow> attempt_row" where
  "preflight_attempt d kind message now a =
     (case preflight_states d of (_, attempt_state, _, _) \<Rightarrow>
        a \<lparr>a_state := attempt_state, a_preflight_completed_at := Some now,
           a_completed_at := Some now, a_error_kind := Some kind,
           a_error_message := Some message\<rparr>)"

definition record_scheduled_run_preflight_failure_inner ::
  "ext \<Rightarrow> run_lease_binding \<Rightarrow> preflight_disposition \<Rightarrow> bool option \<Rightarrow> string \<Rightarrow> string \<Rightarrow> i64
     \<Rightarrow> store \<Rightarrow> (state_error + unit) \<times> store" where
  "record_scheduled_run_preflight_failure_inner x b disposition snapshot_retryable kind message now
     db =
     transact db
       (rbind (lift (validate_lease_binding b)) (\<lambda>_.
        rbind (lift (map_err invalid_value
          (validate_text ''scheduled preflight error kind'' kind))) (\<lambda>_.
        if length message > MAX_CONTEXT_BYTES
        then Inl (Abort (InvalidSchedulerState
          ''scheduled preflight error exceeds its storage bound''))
        else rbind (preflight_disposition_of x b disposition snapshot_retryable now db) (\<lambda>d.
        if (case d of PreflightRetryAt t \<Rightarrow> t \<le> now | PreflightFail \<Rightarrow> False)
        then Inl (Abort (InvalidSchedulerState
          ''scheduled preflight retry must be later than now''))
        else rbind (fenced_update x
          (\<lambda>r. run_matches b r \<and> r_state r = Leased \<and> run_lease_after now r)
          (preflight_run d kind message now)
          (\<lambda>a. attempt_matches b a \<and> a_state a = ALeased \<and> a_lease_expires_at a > now)
          (preflight_attempt d kind message now) db)
          (\<lambda>db'. Inr (db', Inr ()))))))"

definition record_scheduled_run_preflight_failure ::
  "ext \<Rightarrow> run_lease_binding \<Rightarrow> preflight_disposition \<Rightarrow> string \<Rightarrow> string \<Rightarrow> i64 \<Rightarrow> store
     \<Rightarrow> (state_error + unit) \<times> store" where
  "record_scheduled_run_preflight_failure x b disposition kind message now db =
     record_scheduled_run_preflight_failure_inner x b disposition None kind message now db"

definition record_scheduled_run_preflight_failure_from_snapshot ::
  "ext \<Rightarrow> run_lease_binding \<Rightarrow> bool \<Rightarrow> string \<Rightarrow> string \<Rightarrow> i64 \<Rightarrow> store
     \<Rightarrow> (state_error + unit) \<times> store" where
  "record_scheduled_run_preflight_failure_from_snapshot x b retryable kind message now db =
     record_scheduled_run_preflight_failure_inner x b PreflightFail (Some retryable) kind message
       now db"

section \<open>Late evidence\<close>

definition LATE_EVIDENCE_QUOTA :: nat where
  "LATE_EVIDENCE_QUOTA = 32"

definition append_late_evidence_in_transaction ::
  "run_lease_binding \<Rightarrow> late_evidence_kind \<Rightarrow> string \<Rightarrow> i64 \<Rightarrow> store
     \<Rightarrow> state_error + (store \<times> late_evidence_outcome)" where
  "append_late_evidence_in_transaction b kind digest observed_at db =
     (if list_ex (\<lambda>e. e_run_id e = binding_run_id b \<and> e_attempt e = binding_attempt b
           \<and> e_fence e = binding_fence b \<and> e_kind e = kind \<and> e_digest e = digest) (st_evidence db)
      then Inr (db, Duplicate)
      else if length (filter (\<lambda>e. e_run_id e = binding_run_id b \<and> e_attempt e = binding_attempt b)
           (st_evidence db)) \<ge> LATE_EVIDENCE_QUOTA
      then Inr (db, QuotaExceeded)
      else rbind (insert_evidence \<lparr>e_run_id = binding_run_id b, e_attempt = binding_attempt b,
             e_fence = binding_fence b, e_kind = kind, e_digest = digest,
             e_observed_at = observed_at\<rparr> db) (\<lambda>db'. Inr (db', Recorded)))"

definition append_scheduled_run_late_evidence ::
  "run_lease_binding \<Rightarrow> late_evidence_kind \<Rightarrow> string \<Rightarrow> i64 \<Rightarrow> store
     \<Rightarrow> (state_error + late_evidence_outcome) \<times> store" where
  "append_scheduled_run_late_evidence b kind digest observed_at db =
     transact db
       (rbind (lift (validate_lease_binding b)) (\<lambda>_.
        if length digest \<noteq> 64 \<or> \<not> list_all is_hex_lower digest
        then Inl (Abort (InvalidSchedulerState
          ''scheduled late evidence digest must be lowercase sha256''))
        else rbind (lift (append_late_evidence_in_transaction b kind digest observed_at db))
          (\<lambda>(db', outcome). Inr (db', Inr outcome))))"

section \<open>Execution outcomes\<close>

definition attempt_state_as_str :: "attempt_state \<Rightarrow> string" where
  "attempt_state_as_str s =
     (case s of ALeased \<Rightarrow> ''leased'' | AExecuting \<Rightarrow> ''executing''
      | ARetryScheduled \<Rightarrow> ''retry_scheduled'' | APreflightRejected \<Rightarrow> ''preflight_rejected''
      | ALeaseExpired \<Rightarrow> ''lease_expired'' | ASucceeded \<Rightarrow> ''succeeded'' | AFailed \<Rightarrow> ''failed''
      | ATimedOut \<Rightarrow> ''timed_out'' | ACancelled \<Rightarrow> ''cancelled''
      | AOutcomeUnknown \<Rightarrow> ''outcome_unknown'')"

text \<open>The join of a run with the attempt that carries its authority.\<close>

definition joined :: "run_row \<Rightarrow> attempt_row \<Rightarrow> bool" where
  "joined r a \<longleftrightarrow>
     a_run_id a = r_run_id r \<and> a_job_id a = r_job_id r \<and> a_attempt a = r_attempt r
     \<and> a_fence a = r_fence r \<and> Some (a_lease_owner a) = r_lease_owner r"

definition joined_state :: "run_row \<Rightarrow> attempt_row \<Rightarrow> bool" where
  "joined_state r a \<longleftrightarrow>
     joined r a \<and> attempt_state_as_str (a_state a) = run_state_as_str (r_state r)"

definition persisted_profile :: "i64 \<Rightarrow> attempt_row option \<Rightarrow> (string \<times> string) option" where
  "persisted_profile version ao =
     Option.bind ao (\<lambda>a.
     Option.bind (a_profile_json a) (\<lambda>json.
     Option.bind (a_profile_digest a) (\<lambda>digest.
     if a_profile_schema_version a \<noteq> Some version
        \<or> a_profile_hash_algorithm a \<noteq> Some ''sha256-v1''
     then None else Some (json, digest))))"

definition persisted_authority ::
  "ext \<Rightarrow> run_lease_binding \<Rightarrow> run_row \<Rightarrow> string \<Rightarrow> state_error + prepare_authority option" where
  "persisted_authority x b r json =
     rbind (map_err invalid_json (json_parse x json)) (\<lambda>profile.
     case pointer_str profile [''authority'', ''nonce''] of
       None \<Rightarrow> Inr None
     | Some nonce \<Rightarrow>
         rbind (positive_u32 (r_definition_version r)) (\<lambda>_.
         rbind (positive_u32 (r_capability_schema_version r)) (\<lambda>_.
         rbind (ok_or (InvalidSchedulerState
             ''materialized run is missing its execution baseline snapshot'')
           (r_execution_baseline_json r)) (\<lambda>baseline.
         rbind (claimed_from_row x b baseline r) (\<lambda>claim.
         Inr (case for_claim x claim nonce of Inl _ \<Rightarrow> None | Inr a \<Rightarrow> Some a))))))"

definition persisted_profile_allows_retry ::
  "ext \<Rightarrow> run_lease_binding \<Rightarrow> run_row \<Rightarrow> attempt_row option \<Rightarrow> state_error + bool" where
  "persisted_profile_allows_retry x b r ao =
     (case persisted_profile 1 ao of
        None \<Rightarrow> Inr False
      | Some (json, digest) \<Rightarrow>
          rbind (persisted_authority x b r json) (\<lambda>authority.
          Inr (case authority of
                 None \<Rightarrow> False | Some a \<Rightarrow> attestation_matches x a json digest True)))"

definition persisted_profile_allows_recovery ::
  "ext \<Rightarrow> run_lease_binding \<Rightarrow> run_row \<Rightarrow> attempt_row option \<Rightarrow> state_error + bool" where
  "persisted_profile_allows_recovery x b r ao =
     (case persisted_profile 2 ao of
        None \<Rightarrow> Inr False
      | Some (json, digest) \<Rightarrow>
          rbind (persisted_authority x b r json) (\<lambda>authority.
          Inr (case authority of
                 None \<Rightarrow> False | Some a \<Rightarrow> recovery_attestation_matches x a json digest)))"

record outcome_transition =
  ot_run_state :: run_state
  ot_attempt_state :: attempt_state
  ot_retry_at :: "i64 option"
  ot_overlap_slot :: "i64 option"
  ot_outcome :: execution_outcome

definition terminal_transition :: "execution_terminal \<Rightarrow> outcome_transition" where
  "terminal_transition terminal =
     (let (run_state, attempt_state) =
        (case terminal of
           TFailed \<Rightarrow> (Failed, AFailed)
         | TTimedOut \<Rightarrow> (TimedOut, ATimedOut)
         | TCancelled \<Rightarrow> (Cancelled, ACancelled)
         | TOutcomeUnknown \<Rightarrow> (OutcomeUnknown, AOutcomeUnknown))
      in \<lparr>ot_run_state = run_state, ot_attempt_state = attempt_state, ot_retry_at = None,
          ot_overlap_slot = (if terminal = TOutcomeUnknown then Some 1 else None),
          ot_outcome = OutcomeTerminal terminal\<rparr>)"

definition execution_outcome_transition ::
  "ext \<Rightarrow> run_lease_binding \<Rightarrow> execution_disposition \<Rightarrow> run_row \<Rightarrow> attempt_row \<Rightarrow> i64
     \<Rightarrow> state_error + outcome_transition" where
  "execution_outcome_transition x b disposition r a now =
     (case disposition of
        ExecutionTerminal terminal \<Rightarrow> Inr (terminal_transition terminal)
      | ExecutionRetryAt retry_at _ _ _ exhausted \<Rightarrow>
          rbind (scheduler_policy_from_snapshot x (r_policy_version r) (r_policy_json r)) (\<lambda>p.
          rbind (persisted_profile_allows_retry x b r (Some a)) (\<lambda>allowed.
          Inr (if \<not> allowed then terminal_transition TOutcomeUnknown
               else if binding_attempt b \<ge> uint (run_max_attempts p)
                 \<or> (case run_deadline_at p (r_scheduled_for r) of
                      None \<Rightarrow> True | Some deadline \<Rightarrow> now \<ge> deadline \<or> retry_at \<ge> deadline)
               then terminal_transition exhausted
               else \<lparr>ot_run_state = Pending, ot_attempt_state = ARetryScheduled,
                     ot_retry_at = Some retry_at, ot_overlap_slot = Some 1,
                     ot_outcome = OutcomeRetried\<rparr>))))"

definition outcome_run ::
  "outcome_transition \<Rightarrow> string \<Rightarrow> string \<Rightarrow> i64 \<Rightarrow> run_row \<Rightarrow> run_row" where
  "outcome_run t kind message now r = r \<lparr>
     r_state := ot_run_state t, r_next_attempt_at := ot_retry_at t, r_lease_owner := None,
     r_lease_expires_at := None, r_overlap_slot := ot_overlap_slot t,
     r_error_kind := (if ot_run_state t = Pending then None else Some kind),
     r_error_message := (if ot_run_state t = Pending then None else Some message),
     r_updated_at := now\<rparr>"

definition outcome_attempt ::
  "outcome_transition \<Rightarrow> string \<Rightarrow> string \<Rightarrow> i64 \<Rightarrow> attempt_row \<Rightarrow> attempt_row" where
  "outcome_attempt t kind message now a = a \<lparr>
     a_state := ot_attempt_state t, a_completed_at := Some now, a_error_kind := Some kind,
     a_error_message := Some message\<rparr>"

definition outcome_evidence :: "ext \<Rightarrow> run_lease_binding \<Rightarrow> string \<Rightarrow> string \<Rightarrow> string" where
  "outcome_evidence x b kind message =
     sha256_hex x (''scheduled-execution-outcome-v1'' @ [CHR 0x0A] @ binding_run_id b @ [CHR 0x0A]
       @ int_to_string (binding_attempt b) @ [CHR 0x0A] @ kind @ [CHR 0x0A] @ message)"

definition executing_pair ::
  "run_lease_binding \<Rightarrow> i64 \<Rightarrow> store \<Rightarrow> (run_row \<times> attempt_row) option" where
  "executing_pair b now db =
     List.find (\<lambda>(r, a). joined r a \<and> run_matches b r \<and> r_state r = Executing
       \<and> a_state a = AExecuting \<and> run_lease_after now r \<and> a_lease_expires_at a > now)
       (List.product (st_runs db) (st_attempts db))"

definition record_scheduled_run_execution_outcome ::
  "ext \<Rightarrow> run_lease_binding \<Rightarrow> execution_disposition \<Rightarrow> string \<Rightarrow> string \<Rightarrow> i64 \<Rightarrow> store
     \<Rightarrow> (state_error + execution_outcome) \<times> store" where
  "record_scheduled_run_execution_outcome x b disposition kind message now db =
     transact db
       (rbind (lift (validate_lease_binding b)) (\<lambda>_.
        rbind (lift (map_err invalid_value
          (validate_text ''scheduled execution error kind'' kind))) (\<lambda>_.
        if length message > MAX_CONTEXT_BYTES
        then Inl (Abort (InvalidSchedulerState
          ''scheduled execution error exceeds its storage bound''))
        else if (case disposition of
            ExecutionRetryAt retry_at _ max_attempts _ _ \<Rightarrow> retry_at \<le> now \<or> max_attempts \<le> 0
          | ExecutionTerminal _ \<Rightarrow> False)
        then Inl (Abort (InvalidSchedulerState ''invalid scheduled execution retry policy''))
        else case executing_pair b now db of
          None \<Rightarrow>
            rbind (lift (append_late_evidence_in_transaction b CompletionAfterLeaseLoss
              (outcome_evidence x b kind message) now db)) (\<lambda>(db1, evidence).
            rbind (lift (increment_scheduler_transition_total StaleFenceRejected 1 db1)) (\<lambda>db2.
            Inr (db2, Inr (OutcomeLateEvidence evidence))))
        | Some (r, a) \<Rightarrow>
            rbind (lift (execution_outcome_transition x b disposition r a now)) (\<lambda>t.
            rbind (fenced_update x
              (\<lambda>r. run_matches b r \<and> r_state r = Executing \<and> run_lease_after now r)
              (outcome_run t kind message now)
              (\<lambda>a. attempt_matches b a \<and> a_state a = AExecuting \<and> a_lease_expires_at a > now)
              (outcome_attempt t kind message now) db)
              (\<lambda>db'. Inr (db', Inr (ot_outcome t)))))))"

section \<open>Completion\<close>

text \<open>
  The two statements that conclude a successful run, in the order the code issues them: the attempt,
  then the run. A run only becomes succeeded under the triggers that require its accepted artifact,
  which no other statement fires. A constraint violation of the second statement and a statement that
  changes no row are conflicts, to be resolved outside the rolled-back transaction.
\<close>

definition completion_storage_error :: "sqlx_error \<Rightarrow> state_error" where
  "completion_storage_error e =
     (case e of
        SqlxDatabase (Some code) \<Rightarrow>
          if code \<in> set [''19'', ''275'', ''787'', ''1299'', ''1555'', ''1811'', ''2067'']
          then ScheduledRunCompletionConflict else scheduler_error e
      | _ \<Rightarrow> scheduler_error e)"

datatype completion_exit = CompletionAbort state_error | CompletionConflict

definition completion_result :: "state_error + 'a \<Rightarrow> completion_exit + 'a" where
  "completion_result m =
     (case m of
        Inr v \<Rightarrow> Inr v
      | Inl (SchedulerError e) \<Rightarrow>
          Inl (if completion_storage_error e = ScheduledRunCompletionConflict then CompletionConflict
               else CompletionAbort (completion_storage_error e))
      | Inl e \<Rightarrow> Inl (CompletionAbort e))"

definition one_completed :: "'d \<times> nat \<Rightarrow> completion_exit + 'd" where
  "one_completed dn = (case dn of (db, n) \<Rightarrow> if n \<noteq> 1 then Inl CompletionConflict else Inr db)"

definition success_authority :: "artifact_row list \<Rightarrow> attempt_row list \<Rightarrow> run_row \<Rightarrow> bool" where
  "success_authority artifacts attempts r \<longleftrightarrow>
     list_ex (\<lambda>a. r_result_artifact_id r = Some (ar_artifact_id a)
       \<and> ar_run_id a = r_run_id r \<and> ar_job_id a = r_job_id r
       \<and> ar_accepted_attempt a = r_attempt r \<and> ar_accepted_fence a = r_fence r
       \<and> r_result_hash_algorithm r = Some ''sha256-v1''
       \<and> r_result_hash r = Some (ar_result_hash a)
       \<and> r_result_context r = Some (ar_previous_success_context a)
       \<and> list_ex (\<lambda>t. a_run_id t = ar_run_id a \<and> a_attempt t = ar_accepted_attempt a
           \<and> a_fence t = ar_accepted_fence a \<and> a_state t = ASucceeded
           \<and> a_completed_at t \<noteq> None) attempts) artifacts"

definition succeed_run :: "string \<Rightarrow> string \<Rightarrow> string \<Rightarrow> i64 \<Rightarrow> run_row \<Rightarrow> run_row" where
  "succeed_run artifact_id context hash now r = r \<lparr>
     r_state := Succeeded, r_overlap_slot := None, r_lease_owner := None,
     r_lease_expires_at := None, r_result_artifact_id := Some artifact_id,
     r_result_context := Some context, r_result_hash_algorithm := Some ''sha256-v1'',
     r_result_hash := Some hash, r_updated_at := now\<rparr>"

definition succeed_attempt :: "i64 \<Rightarrow> attempt_row \<Rightarrow> attempt_row" where
  "succeed_attempt now a = a \<lparr>a_state := ASucceeded, a_completed_at := Some now\<rparr>"

definition succeed_runs ::
  "ext \<Rightarrow> artifact_row list \<Rightarrow> (run_row \<Rightarrow> bool) \<Rightarrow> (run_row \<Rightarrow> run_row) \<Rightarrow> store
     \<Rightarrow> state_error + (store \<times> nat)" where
  "succeed_runs x artifacts w f db =
     (if list_ex (\<lambda>r. w r \<and> (\<not> success_authority artifacts (st_attempts db) (f r)
           \<or> (r_result_artifact_id r \<noteq> None
              \<and> r_result_artifact_id (f r) \<noteq> r_result_artifact_id r))) (st_runs db)
      then Inl (scheduler_error SQLITE_CONSTRAINT_TRIGGER)
      else update_runs x w f db)"

definition complete_run_rows ::
  "ext \<Rightarrow> run_lease_binding \<Rightarrow> artifact_row list \<Rightarrow> string \<Rightarrow> string \<Rightarrow> string \<Rightarrow> i64 \<Rightarrow> store
     \<Rightarrow> completion_exit + store" where
  "complete_run_rows x b artifacts artifact_id context hash now db =
     rbind (map_err CompletionAbort (update_attempts x
       (\<lambda>a. attempt_matches b a \<and> a_state a = AExecuting \<and> a_lease_expires_at a > now)
       (succeed_attempt now) db)) (\<lambda>u.
     rbind (one_completed u) (\<lambda>db1.
     rbind (completion_result (succeed_runs x artifacts
       (\<lambda>r. run_matches b r \<and> r_state r = Executing \<and> run_lease_after now r)
       (succeed_run artifact_id context hash now) db1)) one_completed))"

section \<open>Operator retries\<close>

text \<open>The statement with which an operator sends a conclusively ended run back to pending. No other
  statement reopens a run, so the trigger that asks for the operator's action is part of the operation
  that issues this one.\<close>

definition reopenable_states :: "run_state list" where
  "reopenable_states = [Failed, TimedOut, Cancelled]"

definition reopen_row :: "i64 \<Rightarrow> i64 \<Rightarrow> run_row \<Rightarrow> run_row" where
  "reopen_row next_attempt_at now r = r \<lparr>
     r_state := Pending, r_next_attempt_at := Some next_attempt_at, r_lease_owner := None,
     r_lease_expires_at := None, r_overlap_slot := Some 1, r_error_kind := None,
     r_error_message := None, r_updated_at := now\<rparr>"

definition reopen_selects :: "string \<Rightarrow> i64 \<Rightarrow> i64 \<Rightarrow> run_state \<Rightarrow> run_row \<Rightarrow> bool" where
  "reopen_selects run_id attempt fence state r \<longleftrightarrow>
     r_run_id r = run_id \<and> r_attempt r = attempt \<and> r_fence r = fence \<and> r_state r = state
     \<and> r_result_artifact_id r = None"

definition reopen_run ::
  "ext \<Rightarrow> string \<Rightarrow> i64 \<Rightarrow> i64 \<Rightarrow> run_state \<Rightarrow> i64 \<Rightarrow> i64 \<Rightarrow> store \<Rightarrow> state_error + (store \<times> nat)" where
  "reopen_run x run_id attempt fence state next_attempt_at now db =
     update_runs x (reopen_selects run_id attempt fence state) (reopen_row next_attempt_at now) db"

section \<open>Expired leases\<close>

record reclaim_transition =
  rt_run_state :: run_state
  rt_attempt_state :: attempt_state
  rt_overlap_slot :: "i64 option"
  rt_error_kind :: string
  rt_outcome :: reclaim_outcome

definition expired_reclaim_transition ::
  "run_state \<Rightarrow> string \<Rightarrow> i64 \<Rightarrow> i64 \<Rightarrow> i64 \<Rightarrow> bool \<Rightarrow> reclaim_transition" where
  "expired_reclaim_transition state run_id attempt fence max_attempts safe_execution_retry =
     (if state = Executing \<and> \<not> safe_execution_retry
      then \<lparr>rt_run_state = OutcomeUnknown, rt_attempt_state = AOutcomeUnknown,
            rt_overlap_slot = Some 1, rt_error_kind = ''execution_lease_expired'',
            rt_outcome = ReclaimOutcomeUnknown run_id attempt fence\<rparr>
      else if attempt < max_attempts
      then \<lparr>rt_run_state = Pending, rt_attempt_state = ALeaseExpired, rt_overlap_slot = Some 1,
            rt_error_kind = (if state = Executing then ''safe_execution_lease_expired''
                             else ''preflight_lease_expired''),
            rt_outcome = ReclaimRetried run_id attempt fence\<rparr>
      else \<lparr>rt_run_state = Failed, rt_attempt_state = ALeaseExpired, rt_overlap_slot = None,
            rt_error_kind = (if state = Executing then ''safe_execution_lease_exhausted''
                             else ''preflight_lease_exhausted''),
            rt_outcome = ReclaimFailed run_id attempt fence\<rparr>)"

definition reclaim_run :: "reclaim_transition \<Rightarrow> i64 option \<Rightarrow> i64 \<Rightarrow> run_row \<Rightarrow> run_row" where
  "reclaim_run t retry_at now r =
     (let err = (if rt_run_state t \<in> set [Failed, OutcomeUnknown] then Some (rt_error_kind t)
                 else None)
      in r \<lparr>r_state := rt_run_state t, r_next_attempt_at := retry_at, r_lease_owner := None,
            r_lease_expires_at := None, r_overlap_slot := rt_overlap_slot t,
            r_error_kind := err, r_error_message := err, r_updated_at := now\<rparr>)"

definition reclaim_attempt :: "reclaim_transition \<Rightarrow> i64 \<Rightarrow> attempt_row \<Rightarrow> attempt_row" where
  "reclaim_attempt t now a = a \<lparr>a_state := rt_attempt_state t, a_completed_at := Some now,
     a_error_kind := Some (rt_error_kind t), a_error_message := Some (rt_error_kind t)\<rparr>"

definition count_reclaim :: "run_state \<Rightarrow> bool \<Rightarrow> store \<Rightarrow> state_error + store" where
  "count_reclaim state safe_execution_retry db =
     rbind (increment_scheduler_transition_total RunLeaseReclaimed 1 db) (\<lambda>db1.
     if state = Executing \<and> safe_execution_retry
     then increment_scheduler_transition_total RunObserveOnlyReexecution 1 db1 else Inr db1)"

definition expired_pair :: "i64 \<Rightarrow> store \<Rightarrow> (run_row \<times> attempt_row) option" where
  "expired_pair now db =
     select_min (\<lambda>(r, a). (case r_lease_expires_at r of None \<Rightarrow> 0 | Some t \<Rightarrow> t, r_run_id r))
       (\<lambda>(r, a). joined_state r a \<and> live_state r \<and> run_lease_expired now r
          \<and> a_lease_expires_at a \<le> now)
       (List.product (st_runs db) (st_attempts db))"

text \<open>The maximal attempt and the retry time a reclaim works with.\<close>

definition reclaim_policy ::
  "ext \<Rightarrow> run_row \<Rightarrow> i64 \<Rightarrow> (i64 \<times> i64) option \<Rightarrow> state_error + (i64 \<times> i64)" where
  "reclaim_policy x r now override =
     (case override of
        Some p \<Rightarrow> Inr p
      | None \<Rightarrow>
          rbind (scheduler_policy_from_snapshot x (r_policy_version r) (r_policy_json r)) (\<lambda>p.
          Inr (case run_retry_at p (r_run_id r) (r_attempt r) (r_scheduled_for r) now of
                 None \<Rightarrow> (r_attempt r, now)
               | Some retry_at \<Rightarrow> (uint (run_max_attempts p), retry_at))))"

definition row_binding :: "run_row \<Rightarrow> string \<Rightarrow> run_lease_binding" where
  "row_binding r owner = \<lparr>binding_run_id = r_run_id r, binding_job_id = r_job_id r,
     binding_attempt = r_attempt r, binding_fence = r_fence r, binding_lease_owner = owner\<rparr>"

definition allows_recovery ::
  "ext \<Rightarrow> run_lease_binding \<Rightarrow> run_row \<Rightarrow> attempt_row option \<Rightarrow> state_error + bool" where
  "allows_recovery x b r ao =
     (if r_state r = Executing then persisted_profile_allows_recovery x b r ao else Inr False)"

definition reclaim_next_expired_scheduled_run_inner ::
  "ext \<Rightarrow> i64 \<Rightarrow> (i64 \<times> i64) option \<Rightarrow> store \<Rightarrow> (state_error + reclaim_outcome) \<times> store" where
  "reclaim_next_expired_scheduled_run_inner x now override db =
     transact db
       (case expired_pair now db of
          None \<Rightarrow> Inr (db, Inr ReclaimIdle)
        | Some (r0, a0) \<Rightarrow>
            rbind (lift (ok_or (scheduler_error SqlxOther) (r_lease_owner r0))) (\<lambda>owner.
            rbind (lift (reclaim_policy x r0 now override)) (\<lambda>(max_attempts, next_attempt_at).
            let b = row_binding r0 owner in
            rbind (lift (allows_recovery x b r0 (Some a0))) (\<lambda>safe.
            let t = expired_reclaim_transition (r_state r0) (r_run_id r0) (r_attempt r0) (r_fence r0)
                  max_attempts safe;
                retry_at = (if rt_run_state t = Pending then Some next_attempt_at else None) in
            rbind (fenced_update x
              (\<lambda>r. run_matches b r \<and> r_state r = r_state r0 \<and> run_lease_expired now r)
              (reclaim_run t retry_at now)
              (\<lambda>a. attempt_matches b a
                 \<and> attempt_state_as_str (a_state a) = run_state_as_str (r_state r0)
                 \<and> a_lease_expires_at a \<le> now)
              (reclaim_attempt t now) db) (\<lambda>db1.
            rbind (lift (count_reclaim (r_state r0) safe db1)) (\<lambda>db2.
            Inr (db2, Inr (rt_outcome t))))))))"

definition reclaim_next_expired_scheduled_run ::
  "ext \<Rightarrow> i64 \<Rightarrow> i64 \<Rightarrow> i64 \<Rightarrow> store \<Rightarrow> (state_error + reclaim_outcome) \<times> store" where
  "reclaim_next_expired_scheduled_run x now max_attempts next_attempt_at db =
     (if max_attempts \<le> 0 \<or> next_attempt_at \<le> now
      then (Inl (InvalidSchedulerState ''invalid scheduled run reclaim policy''), db)
      else reclaim_next_expired_scheduled_run_inner x now (Some (max_attempts, next_attempt_at)) db)"

definition reclaim_next_expired_scheduled_run_from_snapshot ::
  "ext \<Rightarrow> i64 \<Rightarrow> store \<Rightarrow> (state_error + reclaim_outcome) \<times> store" where
  "reclaim_next_expired_scheduled_run_from_snapshot x now db =
     reclaim_next_expired_scheduled_run_inner x now None db"

definition reconcile_stale ::
  "store \<Rightarrow> txn_exit + (store \<times> (state_error + reconcile_outcome))" where
  "reconcile_stale db =
     rbind (lift (increment_scheduler_transition_total StaleFenceRejected 1 db))
       (\<lambda>db'. Inr (db', Inr Stale))"

text \<open>The transition half of a reconciliation, once the observed authority has been confirmed.\<close>

definition reconcile_confirmed ::
  "ext \<Rightarrow> run_row \<Rightarrow> string \<Rightarrow> i64 \<Rightarrow> i64 option \<Rightarrow> i64 \<Rightarrow> store
     \<Rightarrow> txn_exit + (store \<times> (state_error + reconcile_outcome))" where
  "reconcile_confirmed x r0 owner expires expected_next now db =
     (let b = row_binding r0 owner in
      rbind (lift (allows_recovery x b r0 (List.find (joined_state r0) (st_attempts db)))) (\<lambda>safe.
      rbind (lift (scheduler_policy_from_snapshot x (r_policy_version r0) (r_policy_json r0))) (\<lambda>p.
      let next_attempt_at = run_retry_at p (r_run_id r0) (r_attempt r0) (r_scheduled_for r0) now in
      if next_attempt_at \<noteq> expected_next then reconcile_stale db
      else
        let max_attempts = (case next_attempt_at of
                None \<Rightarrow> r_attempt r0 | Some _ \<Rightarrow> uint (run_max_attempts p));
            t = expired_reclaim_transition (r_state r0) (r_run_id r0) (r_attempt r0) (r_fence r0)
                  max_attempts safe;
            retry_at = (if rt_run_state t = Pending then next_attempt_at else None) in
        rbind (lift (update_runs x
          (\<lambda>r. run_matches b r \<and> r_state r = r_state r0 \<and> r_lease_expires_at r = Some expires
             \<and> expires \<le> now \<and> r_updated_at r \<le> now)
          (reclaim_run t retry_at now) db)) (\<lambda>(db1, n).
        if n \<noteq> 1 then reconcile_stale db1
        else rbind (lift (update_attempts x
          (\<lambda>a. attempt_matches b a
             \<and> attempt_state_as_str (a_state a) = run_state_as_str (r_state r0)
             \<and> a_lease_expires_at a = expires \<and> expires \<le> now \<and> a_claimed_at a \<le> now)
          (reclaim_attempt t now) db1)) (\<lambda>(db2, k).
        if k \<noteq> 1
        then Inl (Abort (InvalidSchedulerState
          ''exact run reconciliation found inconsistent attempt authority''))
        else rbind (lift (count_reclaim (r_state r0) safe db2)) (\<lambda>db3.
          Inr (db3, Inr (Applied (rt_outcome t)))))))))"

definition reconcile_expired_scheduled_run ::
  "ext \<Rightarrow> string \<Rightarrow> run_state \<Rightarrow> i64 \<Rightarrow> i64 \<Rightarrow> string \<Rightarrow> i64 \<Rightarrow> i64 option \<Rightarrow> i64 \<Rightarrow> store
     \<Rightarrow> (state_error + reconcile_outcome) \<times> store" where
  "reconcile_expired_scheduled_run x run_id state attempt fence owner expires expected_next now db =
     transact db
       (rbind (lift (map_err invalid_value (check_all [
          validate_text ''scheduled run reconciliation id'' run_id,
          validate_text ''scheduled run reconciliation owner'' owner]))) (\<lambda>_.
        if state \<notin> set [Leased, Executing] \<or> attempt \<le> 0 \<or> fence \<le> 0 \<or> expires < 0 \<or> now < 0
        then Inl (Abort (InvalidSchedulerState
          ''invalid exact scheduled run reconciliation authority''))
        else case List.find (\<lambda>r. r_run_id r = run_id) (st_runs db) of
          None \<Rightarrow> reconcile_stale db
        | Some r0 \<Rightarrow>
            if r_state r0 \<noteq> state \<or> r_attempt r0 \<noteq> attempt \<or> r_fence r0 \<noteq> fence
               \<or> r_lease_owner r0 \<noteq> Some owner \<or> r_lease_expires_at r0 \<noteq> Some expires
            then reconcile_stale db
            else if expires > now \<or> r_updated_at r0 > now then Inr (db, Inr NotEligible)
            else reconcile_confirmed x r0 owner expires expected_next now db))"

section \<open>Cancellation of pre-execution work\<close>

definition cancellable_attempt :: "string \<Rightarrow> i64 \<Rightarrow> store \<Rightarrow> attempt_row \<Rightarrow> bool" where
  "cancellable_attempt job_id generation db a \<longleftrightarrow>
     a_state a = ALeased \<and> list_ex (\<lambda>r. joined r a \<and> r_job_id r = job_id
       \<and> r_job_generation r = generation \<and> r_state r = Leased) (st_runs db)"

definition cancellable_run :: "string \<Rightarrow> i64 \<Rightarrow> run_row \<Rightarrow> bool" where
  "cancellable_run job_id generation r \<longleftrightarrow>
     r_job_id r = job_id \<and> r_job_generation r = generation \<and> r_state r \<in> set [Pending, Leased]"

definition cancel_run :: "i64 \<Rightarrow> run_row \<Rightarrow> run_row" where
  "cancel_run now r = r \<lparr>r_state := Cancelled, r_overlap_slot := None, r_lease_owner := None,
     r_lease_expires_at := None, r_updated_at := now\<rparr>"

definition cancel_pre_execution_runs ::
  "ext \<Rightarrow> string \<Rightarrow> i64 \<Rightarrow> i64 \<Rightarrow> store \<Rightarrow> state_error + store" where
  "cancel_pre_execution_runs x job_id generation now db =
     (let leased_runs = length (filter (\<lambda>r. r_job_id r = job_id \<and> r_job_generation r = generation
            \<and> r_state r = Leased) (st_runs db)) in
      rbind (update_attempts x (cancellable_attempt job_id generation db)
        (\<lambda>a. a \<lparr>a_state := ACancelled, a_completed_at := Some now\<rparr>) db) (\<lambda>(db1, cancelled).
      if cancelled \<noteq> leased_runs
      then Inl (InvalidSchedulerState
        ''leased scheduled run is missing its current attempt authority'')
      else rbind (update_runs x (cancellable_run job_id generation) (cancel_run now) db1)
        (\<lambda>(db2, _).
      Inr db2)))"

end
