(* ===== verification/Run_Lifecycle.thy ===== *)
theory Run_Lifecycle
  imports Run_Store
begin

text \<open>
  What the run store promises. The abstract lifecycle of one run is a state machine on its state and
  its two counters; the store invariant ties every live lease to exactly one attempt; and the
  interface \<open>fenced_transition\<close> says what a pair of guarded statements must satisfy for both to be
  kept. The operations discharge it in \<open>Run_Safety\<close>.
\<close>

named_theorems row_simps "updates and guards of the two authority tables"

section \<open>The abstract lifecycle\<close>

type_synonym life = "run_state \<times> int \<times> int"

inductive life_step :: "life \<Rightarrow> life \<Rightarrow> bool" where
  claim: "life_step (Pending, n, f) (Leased, n + 1, f + 1)"
| exhaust: "life_step (Pending, n, f) (Failed, n, f)"
| withdraw: "s \<in> {Pending, Leased} \<Longrightarrow> life_step (s, n, f) (Cancelled, n, f)"
| start: "life_step (Leased, n, f) (Executing, n, f)"
| release: "s \<in> {Leased, Executing} \<Longrightarrow> t \<in> {Pending, Failed} \<Longrightarrow> life_step (s, n, f) (t, n, f)"
| conclude: "t \<in> {Succeeded, TimedOut, Cancelled, OutcomeUnknown} \<Longrightarrow>
    life_step (Executing, n, f) (t, n, f)"
| reopen: "s \<in> {Failed, TimedOut, Cancelled} \<Longrightarrow> life_step (s, n, f) (Pending, n, f)"

inductive_cases life_stepE [elim!]: "life_step (s, n, f) v"

definition terminal_states :: "run_state list" where
  "terminal_states = [Succeeded, OutcomeUnknown]"

lemma life_step_final: "life_step (s, n, f) v \<Longrightarrow> s \<notin> set terminal_states"
  by (auto simp: terminal_states_def)

lemma life_steps_final:
  assumes "life_step\<^sup>*\<^sup>* (s, n, f) v" and "s \<in> set terminal_states"
  shows "v = (s, n, f)"
  using assms(1) by (rule converse_rtranclpE) (use assms(2) life_step_final in auto)

lemma life_step_counters:
  "life_step (s, n, f) (t, m, g) \<Longrightarrow> (m = n \<and> g = f) \<or> (s = Pending \<and> t = Leased \<and> m = n + 1 \<and> g = f + 1)"
  by auto

lemma life_steps_counters:
  "life_step\<^sup>*\<^sup>* (s, n, f) (t, m, g) \<Longrightarrow> f \<le> g \<and> m - n = g - f"
proof (induction "(t, m, g)" arbitrary: t m g rule: rtranclp_induct)
  case base
  then show ?case by simp
next
  case (step y)
  obtain t' m' g' where y: "y = (t', m', g')" by (cases y) auto
  then show ?case
    using step.hyps(3) [OF y] life_step_counters [of t' m' g' t m g] step.hyps(2) by auto
qed

text \<open>A run that is not leased can only be leased again under a larger fence.\<close>

lemma life_steps_release:
  "life_step\<^sup>*\<^sup>* (s, n, f) (t, m, g) \<Longrightarrow> s \<notin> {Leased, Executing} \<Longrightarrow> t \<in> {Leased, Executing} \<Longrightarrow> f < g"
proof (induction "(t, m, g)" arbitrary: t m g rule: rtranclp_induct)
  case base
  then show ?case by simp
next
  case (step y)
  obtain t' m' g' where y: "y = (t', m', g')" by (cases y) auto
  show ?case
  proof (cases "t' \<in> {Leased, Executing}")
    case True
    then show ?thesis
      using step.hyps(3) [OF y] step.prems life_step_counters [of t' m' g' t m g] step.hyps(2) y
      by auto
  next
    case False
    then have "g = g' + 1" using step.hyps(2) step.prems y by auto
    then show ?thesis using life_steps_counters [of s n f t' m' g'] step.hyps(1) y by simp
  qed
qed

section \<open>Runs evolve along it\<close>

definition life :: "run_row \<Rightarrow> life" where
  "life r = (r_state r, r_attempt r, r_fence r)"

text \<open>The columns no operation may change, with the mutable ones masked.\<close>

definition run_snapshot :: "run_row \<Rightarrow> run_row" where
  "run_snapshot r = r \<lparr>r_state := Pending, r_attempt := 0, r_next_attempt_at := None,
     r_lease_owner := None, r_lease_expires_at := None, r_fence := 0, r_overlap_slot := None,
     r_result_artifact_id := None, r_result_context := None, r_result_hash_algorithm := None,
     r_result_hash := None,
     r_error_kind := None, r_error_message := None, r_updated_at := 0,
     r_counter_limit_recorded := False\<rparr>"

definition evolves :: "run_row \<Rightarrow> run_row \<Rightarrow> bool" where
  "evolves r r' \<longleftrightarrow> run_snapshot r' = run_snapshot r \<and> life_step\<^sup>*\<^sup>* (life r) (life r')"

definition advances :: "store \<Rightarrow> store \<Rightarrow> bool" where
  "advances db db' \<longleftrightarrow> (\<forall>r \<in> set (st_runs db). \<exists>r' \<in> set (st_runs db'). evolves r r')"

lemma run_snapshot_keys:
  assumes "run_snapshot r' = run_snapshot r"
  shows "r_run_id r' = r_run_id r" and "r_job_id r' = r_job_id r"
    and "r_scheduled_for r' = r_scheduled_for r"
  using arg_cong [OF assms, of r_run_id] arg_cong [OF assms, of r_job_id]
    arg_cong [OF assms, of r_scheduled_for]
  by (simp_all add: run_snapshot_def)

lemma evolves_refl [simp]: "evolves r r"
  by (simp add: evolves_def)

lemma evolves_trans: "evolves a b \<Longrightarrow> evolves b c \<Longrightarrow> evolves a c"
  unfolding evolves_def by (metis rtranclp_trans)

lemma evolves_step:
  "run_snapshot r' = run_snapshot r \<Longrightarrow> life_step (life r) (life r') \<Longrightarrow> evolves r r'"
  by (simp add: evolves_def)

lemma evolves_same:
  "run_snapshot r' = run_snapshot r \<Longrightarrow> life r' = life r \<Longrightarrow> evolves r r'"
  by (simp add: evolves_def)

lemma advances_same: "st_runs db' = st_runs db \<Longrightarrow> advances db db'"
  by (auto simp: advances_def intro: evolves_refl)

lemma advances_trans: "advances a b \<Longrightarrow> advances b c \<Longrightarrow> advances a c"
  unfolding advances_def by (meson evolves_trans)

lemma advances_update:
  assumes "update_runs x w f db = Inr (db', n)"
    and "\<And>r. r \<in> set (st_runs db) \<Longrightarrow> w r \<Longrightarrow> evolves r (f r)"
  shows "advances db db'"
  unfolding advances_def
proof
  fix r assume "r \<in> set (st_runs db)"
  then show "\<exists>r' \<in> set (st_runs db'). evolves r r'"
    using sql_update_InrD(1) [OF update_runs_InrD(1) [OF assms(1)]] assms(2) [of r]
    by (intro bexI [of _ "if w r then f r else r"]) auto
qed

section \<open>The store invariant\<close>

text \<open>The attempt that carries a live run's authority.\<close>

definition current :: "run_row \<Rightarrow> attempt_row \<Rightarrow> bool" where
  "current r a \<longleftrightarrow> joined_state r a \<and> r_lease_expires_at r = Some (a_lease_expires_at a)"

definition coherent :: "store \<Rightarrow> bool" where
  "coherent db \<longleftrightarrow>
     (\<forall>r \<in> set (st_runs db). live_state r \<longrightarrow> (\<exists>a \<in> set (st_attempts db). current r a))
     \<and> (\<forall>a \<in> set (st_attempts db). \<exists>r \<in> set (st_runs db).
          r_run_id r = a_run_id a \<and> r_job_id r = a_job_id a \<and> a_attempt a \<le> r_attempt r
          \<and> a_fence a \<le> r_fence r \<and> (live_attempt a \<longrightarrow> current r a))"

definition evidence_bounded :: "store \<Rightarrow> bool" where
  "evidence_bounded db \<longleftrightarrow>
     (\<forall>e \<in> set (st_evidence db).
        length (filter (\<lambda>d. e_run_id d = e_run_id e \<and> e_attempt d = e_attempt e) (st_evidence db))
          \<le> LATE_EVIDENCE_QUOTA)"

definition store_inv :: "ext \<Rightarrow> store \<Rightarrow> bool" where
  "store_inv x db \<longleftrightarrow>
     table_ok (run_check x) run_unique (st_runs db)
     \<and> table_ok (attempt_check x) attempt_unique (st_attempts db)
     \<and> table_ok evidence_check evidence_unique (st_evidence db)
     \<and> coherent db \<and> evidence_bounded db"

lemma store_inv_same_tables: "same_tables db db' \<Longrightarrow> store_inv x db' = store_inv x db"
  by (simp add: store_inv_def coherent_def evidence_bounded_def same_tables_def)

lemma state_strings:
  "attempt_state_as_str s = ''leased'' \<longleftrightarrow> s = ALeased"
  "attempt_state_as_str s = ''executing'' \<longleftrightarrow> s = AExecuting"
  by (cases s; simp add: attempt_state_as_str_def)+

lemma current_live: "current r a \<Longrightarrow> live_state r \<longleftrightarrow> live_attempt a"
  by (cases "r_state r"; cases "a_state a")
    (auto simp: current_def joined_state_def live_state_def live_attempt_def attempt_state_as_str_def)

lemma current_joined: "current r a \<Longrightarrow> joined r a"
  by (simp add: current_def joined_state_def)

text \<open>Updating a statement's rows in place keeps the other rows.\<close>

lemma update_unselected:
  "sql_update c u w f rows = Inr (rows', n) \<Longrightarrow> r \<in> set rows \<Longrightarrow> \<not> w r \<Longrightarrow> r \<in> set rows'"
  by (drule sql_update_InrD(1)) force

lemma update_selected:
  "sql_update c u w f rows = Inr (rows', n) \<Longrightarrow> r \<in> set rows \<Longrightarrow> w r \<Longrightarrow> f r \<in> set rows'"
  by (drule sql_update_InrD(1)) force

lemma update_origin:
  assumes "sql_update c u w f rows = Inr (rows', n)" and "r' \<in> set rows'"
  obtains r where "r \<in> set rows" "\<not> w r" "r' = r" | r where "r \<in> set rows" "w r" "r' = f r"
  using assms sql_update_InrD(1) [OF assms(1)] by (auto split: if_splits)

lemma update_oneD:
  assumes "sql_update c u w f rows = Inr (rows', 1)"
  obtains r where "r \<in> set rows" "w r"
proof -
  have "length (filter w rows) = 1" using sql_update_InrD(2) [OF assms] by simp
  then obtain r where "filter w rows = [r]" by (auto simp: length_Suc_conv)
  then have "r \<in> set (filter w rows)" by simp
  then show ?thesis using that by auto
qed

lemma update_none:
  assumes "table_ok c u rows" and "\<forall>r \<in> set rows. \<not> w r"
  shows "sql_update c u w f rows = Inr (rows, 0)"
proof -
  have "map (\<lambda>r. if w r then f r else r) rows = rows" using assms(2) by (induction rows) auto
  moreover have "filter w rows = []" using assms(2) by (simp add: filter_empty_conv)
  ultimately show ?thesis
    using assms by (auto simp: sql_update_def Let_def table_ok_def list_ex_iff)
qed

section \<open>Fenced transitions\<close>

locale fenced_transition =
  fixes b :: run_lease_binding
    and wr :: "run_row \<Rightarrow> bool" and fr :: "run_row \<Rightarrow> run_row"
    and wa :: "attempt_row \<Rightarrow> bool" and fa :: "attempt_row \<Rightarrow> attempt_row"
  assumes run_guard: "wr r \<Longrightarrow> run_matches b r \<and> live_state r"
    and attempt_guard: "wa a \<Longrightarrow> attempt_matches b a \<and> live_attempt a"
    and run_keys: "run_snapshot (fr r) = run_snapshot r"
      "r_attempt (fr r) = r_attempt r" "r_fence (fr r) = r_fence r"
    and attempt_keys: "a_run_id (fa a) = a_run_id a" "a_job_id (fa a) = a_job_id a"
      "a_attempt (fa a) = a_attempt a" "a_fence (fa a) = a_fence a"
    and agreement: "wr r \<Longrightarrow> wa a \<Longrightarrow> current r a \<Longrightarrow> live_state (fr r) \<or> live_attempt (fa a) \<Longrightarrow>
      current (fr r) (fa a)"
    and lifecycle: "wr r \<Longrightarrow> life (fr r) = life r \<or> life_step (life r) (life (fr r))"
begin

text \<open>The two statements select a run and the attempt that carries its authority.\<close>

lemma selected:
  assumes inv: "store_inv x db"
    and runs: "update_runs x wr fr db = Inr (db1, 1)"
    and attempts: "update_attempts x wa fa db1 = Inr (db2, 1)"
  obtains r a where "r \<in> set (st_runs db)" "wr r" "a \<in> set (st_attempts db)" "wa a" "current r a"
    "\<forall>s \<in> set (st_runs db). wr s \<longrightarrow> s = r" "\<forall>s \<in> set (st_attempts db). wa s \<longrightarrow> s = a"
proof -
  note R = update_runs_InrD [OF runs] and A = update_attempts_InrD [OF attempts]
  obtain r where r: "r \<in> set (st_runs db)" "wr r" by (rule update_oneD [OF R(1)])
  obtain a where a: "a \<in> set (st_attempts db)" "wa a"
    using update_oneD [OF A(1)] R(2) by auto
  have tables: "table_ok (run_check x) run_unique (st_runs db)"
    "table_ok (attempt_check x) attempt_unique (st_attempts db)"
    using inv by (simp_all add: store_inv_def)
  obtain r' where r': "r' \<in> set (st_runs db)" "r_run_id r' = a_run_id a" "current r' a"
    using inv a attempt_guard [OF a(2)] by (auto simp: store_inv_def coherent_def)
  have "r_run_id r' = r_run_id r"
    using r' run_guard [OF r(2)] attempt_guard [OF a(2)]
    by (simp add: run_matches_def attempt_matches_def)
  then have "r' = r" using runs.key_inj [OF tables(1) r'(1) r(1)] by simp
  moreover have "s = r" if "s \<in> set (st_runs db)" "wr s" for s
    using that r run_guard [of s] run_guard [of r] runs.key_inj [OF tables(1), of s r]
    by (simp add: run_matches_def)
  moreover have "s = a" if "s \<in> set (st_attempts db)" "wa s" for s
    using that a attempt_guard [of s] attempt_guard [of a] attempts.key_inj [OF tables(2), of s a]
    by (simp add: attempt_matches_def)
  ultimately show ?thesis using that r a r' by blast
qed

lemma coherent_pair:
  assumes inv: "store_inv x db"
    and runs: "update_runs x wr fr db = Inr (db1, 1)"
    and attempts: "update_attempts x wa fa db1 = Inr (db2, 1)"
  shows "coherent db2"
proof -
  note R = update_runs_InrD [OF runs] and A = update_attempts_InrD [OF attempts]
  have aok: "table_ok (attempt_check x) attempt_unique (st_attempts db)"
    using inv by (simp add: store_inv_def)
  have upd: "sql_update (attempt_check x) attempt_unique wa fa (st_attempts db) =
      Inr (st_attempts db2, 1)"
    using A(1) R(2) by simp
  have upd_r: "sql_update (run_check x) run_unique wr fr (st_runs db) = Inr (st_runs db2, 1)"
    using R(1) A(2) by simp
  obtain r0 a0 where sel: "r0 \<in> set (st_runs db)" "wr r0" "a0 \<in> set (st_attempts db)" "wa a0"
      "current r0 a0" "\<forall>s \<in> set (st_runs db). wr s \<longrightarrow> s = r0"
      "\<forall>s \<in> set (st_attempts db). wa s \<longrightarrow> s = a0"
    by (rule selected [OF inv runs attempts])
  have only: "a = a0" if "a \<in> set (st_attempts db)" "current r0 a" for a
  proof -
    have "joined r0 a" "joined r0 a0" using that(2) sel(5) current_joined by blast+
    then show ?thesis
      using attempts.key_inj [OF aok that(1) sel(3)] by (simp add: joined_def)
  qed
  have new: "fr r0 \<in> set (st_runs db2)" "fa a0 \<in> set (st_attempts db2)"
    using update_selected [OF upd_r sel(1,2)] update_selected [OF upd sel(3,4)] .
  have keys: "r_run_id (fr r) = r_run_id r" "r_job_id (fr r) = r_job_id r" for r
    using run_snapshot_keys(1,2) [OF run_keys(1)] .
  show ?thesis
    unfolding coherent_def
  proof (intro conjI ballI impI)
    fix r' assume r': "r' \<in> set (st_runs db2)" and live: "live_state r'"
    from upd_r r' show "\<exists>a \<in> set (st_attempts db2). current r' a"
    proof (cases rule: update_origin)
      case (1 r)
      then obtain a where a: "a \<in> set (st_attempts db)" "current r a"
        using inv live by (auto simp: store_inv_def coherent_def)
      have "\<not> wa a"
      proof
        assume "wa a"
        then have "a = a0" using sel(7) a(1) by blast
        then have "r_run_id r = r_run_id r0"
          using a(2) sel(5) by (simp add: current_def joined_state_def joined_def)
        then have "r = r0" using runs.key_inj [of x "st_runs db" r r0] inv 1 sel(1)
          by (simp add: store_inv_def)
        then show False using 1 sel(2) by simp
      qed
      then show ?thesis using update_unselected [OF upd a(1)] a(2) 1 by auto
    next
      case (2 r)
      then have "current (fr r0) (fa a0)"
        using agreement [OF sel(2,4,5)] live sel(6) by auto
      then show ?thesis using new 2 sel(6) by auto
    qed
  next
    fix a' assume "a' \<in> set (st_attempts db2)"
    from upd this show "\<exists>r \<in> set (st_runs db2). r_run_id r = a_run_id a' \<and> r_job_id r = a_job_id a'
        \<and> a_attempt a' \<le> r_attempt r \<and> a_fence a' \<le> r_fence r
        \<and> (live_attempt a' \<longrightarrow> current r a')"
    proof (cases rule: update_origin)
      case (1 a)
      then obtain r where r: "r \<in> set (st_runs db)" "r_run_id r = a_run_id a"
          "r_job_id r = a_job_id a" "a_attempt a \<le> r_attempt r" "a_fence a \<le> r_fence r"
          "live_attempt a \<longrightarrow> current r a"
        using inv by (auto simp: store_inv_def coherent_def)
      show ?thesis
      proof (cases "wr r")
        case True
        then have "r = r0" using sel(6) r(1) by blast
        then have "\<not> live_attempt a" using only [OF 1(1)] r(6) 1(2) sel(4) by blast
        moreover have "fr r \<in> set (st_runs db2)" by (rule update_selected [OF upd_r r(1) True])
        ultimately show ?thesis
          using r 1(3) by (intro bexI [of _ "fr r"]) (simp_all add: keys run_keys)
      next
        case False
        then show ?thesis using update_unselected [OF upd_r r(1)] r 1(3) by blast
      qed
    next
      case (2 a)
      then have a: "a = a0" using sel(7) by blast
      have "joined r0 a0" using sel(5) current_joined by blast
      moreover have "live_attempt (fa a0) \<longrightarrow> current (fr r0) (fa a0)"
        using agreement [OF sel(2,4,5)] by blast
      ultimately show ?thesis
        using new(1) 2(3) a
        by (intro bexI [of _ "fr r0"]) (simp_all add: keys run_keys attempt_keys joined_def)
    qed
  qed
qed

lemma keeps_inv:
  assumes inv: "store_inv x db"
    and runs: "update_runs x wr fr db = Inr (db1, 1)"
    and attempts: "update_attempts x wa fa db1 = Inr (db2, 1)"
  shows "store_inv x db2"
proof -
  note R = update_runs_InrD [OF runs] and A = update_attempts_InrD [OF attempts]
  have "table_ok (run_check x) run_unique (st_runs db2)"
    using runs.update_ok [OF _ R(1)] inv A(2) by (simp add: store_inv_def)
  moreover have "table_ok (attempt_check x) attempt_unique (st_attempts db2)"
    using attempts.update_ok [OF _ A(1)] inv R(2) by (simp add: store_inv_def)
  ultimately show ?thesis
    using inv coherent_pair [OF inv runs attempts] R(3) A(3)
    by (simp add: store_inv_def evidence_bounded_def)
qed

lemma advances_pair:
  assumes runs: "update_runs x wr fr db = Inr (db1, n)"
    and attempts: "update_attempts x wa fa db1 = Inr (db2, m)"
  shows "advances db db2"
proof -
  have "advances db db1"
    by (rule advances_update [OF runs])
      (use lifecycle run_keys(1) in \<open>auto intro: evolves_step evolves_same\<close>)
  then show ?thesis
    using advances_trans advances_same update_attempts_InrD(2) [OF attempts] by blast
qed

text \<open>A binding no run carries changes nothing.\<close>

lemma stale_update:
  assumes "store_inv x db" and "\<forall>r \<in> set (st_runs db). \<not> run_matches b r"
  shows "fenced_update x wr fr wa fa db = Inl LostLease"
proof -
  have "sql_update (run_check x) run_unique wr fr (st_runs db) = Inr (st_runs db, 0)"
    by (rule update_none) (use assms run_guard in \<open>auto simp: store_inv_def\<close>)
  then show ?thesis by (simp add: fenced_update_def update_runs_def one_row_def)
qed

text \<open>Only the bound run and its attempt change.\<close>

lemma untouched:
  assumes "update_runs x wr fr db = Inr (db1, n)" and "update_attempts x wa fa db1 = Inr (db2, m)"
  shows "r \<in> set (st_runs db) \<Longrightarrow> \<not> run_matches b r \<Longrightarrow> r \<in> set (st_runs db2)"
    and "a \<in> set (st_attempts db) \<Longrightarrow> \<not> attempt_matches b a \<Longrightarrow> a \<in> set (st_attempts db2)"
  using update_unselected [OF update_runs_InrD(1) [OF assms(1)], of r] run_guard [of r]
    update_unselected [OF update_attempts_InrD(1) [OF assms(2)], of a] attempt_guard [of a]
    update_runs_InrD(2) [OF assms(1)] update_attempts_InrD(2) [OF assms(2)]
  by auto

end

lemma fenced_update_eq_Inr:
  "fenced_update x wr fr wa fa db = Inr db2 \<longleftrightarrow>
     (\<exists>db1. update_runs x wr fr db = Inr (db1, 1) \<and> update_attempts x wa fa db1 = Inr (db2, 1))"
  by (auto simp: fenced_update_def)

end
