(* ===== verification/Run_Safety.thy ===== *)
theory Run_Safety
  imports Run_Lifecycle
begin

text \<open>
  Every operation of the run store keeps the store invariant and moves each run along the abstract
  lifecycle, so both hold of every reachable store. From them: fencing (a superseded binding can
  never change anything again), exclusive leases, finality of terminal states and the bound on late
  evidence.
\<close>

section \<open>Preservation\<close>

definition preserves :: "ext \<Rightarrow> store \<Rightarrow> store \<Rightarrow> bool" where
  "preserves x db db' \<longleftrightarrow> (store_inv x db \<longrightarrow> store_inv x db' \<and> advances db db')"

lemma preserves_trans: "preserves x a b \<Longrightarrow> preserves x b c \<Longrightarrow> preserves x a c"
  by (auto simp: preserves_def intro: advances_trans)

lemma preserves_unchanged:
  "st_runs db' = st_runs db \<Longrightarrow> st_attempts db' = st_attempts db \<Longrightarrow>
     st_evidence db' = st_evidence db \<Longrightarrow> preserves x db db'"
  by (auto simp: preserves_def store_inv_def coherent_def evidence_bounded_def intro: advances_same)

lemma preserves_same_tables: "same_tables db db' \<Longrightarrow> preserves x db db'"
  by (rule preserves_unchanged) (simp_all add: same_tables_def)

lemma preserves_refl [simp]: "preserves x db db"
  by (rule preserves_unchanged) simp_all

lemma transact_preserves:
  assumes "\<And>db' v. m = Inr (db', v) \<Longrightarrow> preserves x db db'"
  shows "preserves x db (snd (transact db m))"
proof (cases "transact db m")
  case (Pair v db')
  from Pair have "preserves x db db'"
    by (cases rule: transact_cases) (auto intro: preserves_same_tables assms)
  with Pair show ?thesis by simp
qed

text \<open>A statement on runs that hold no lease.\<close>

lemma update_unleased_preserves:
  assumes upd: "update_runs x w f db = Inr (db', n)"
    and w: "\<And>r. w r \<Longrightarrow> \<not> live_state r \<and> \<not> live_state (f r) \<and> run_snapshot (f r) = run_snapshot r
      \<and> life_step\<^sup>*\<^sup>* (life r) (life (f r))"
  shows "preserves x db db'"
proof -
  note R = update_runs_InrD [OF upd]
  have counters: "r_attempt r \<le> r_attempt (f r) \<and> r_fence r \<le> r_fence (f r)" if "w r" for r
    using w [OF that] life_steps_counters [of "r_state r" "r_attempt r" "r_fence r"
        "r_state (f r)" "r_attempt (f r)" "r_fence (f r)"]
    by (simp add: life_def)
  have "coherent db'" if inv: "store_inv x db"
    unfolding coherent_def
  proof (intro conjI ballI impI)
    fix r' assume "r' \<in> set (st_runs db')" and live: "live_state r'"
    with R(1) obtain r where "r \<in> set (st_runs db)" "r' = r"
      by (cases rule: update_origin) (use w in blast)+
    then show "\<exists>a \<in> set (st_attempts db'). current r' a"
      using inv live R(2) by (auto simp: store_inv_def coherent_def)
  next
    fix a assume "a \<in> set (st_attempts db')"
    then obtain r where r: "r \<in> set (st_runs db)" "r_run_id r = a_run_id a" "r_job_id r = a_job_id a"
        "a_attempt a \<le> r_attempt r" "a_fence a \<le> r_fence r" "live_attempt a \<longrightarrow> current r a"
      using inv R(2) unfolding store_inv_def coherent_def by metis
    show "\<exists>r \<in> set (st_runs db'). r_run_id r = a_run_id a \<and> r_job_id r = a_job_id a
        \<and> a_attempt a \<le> r_attempt r \<and> a_fence a \<le> r_fence r \<and> (live_attempt a \<longrightarrow> current r a)"
    proof (cases "w r")
      case True
      have "\<not> live_attempt a" using w [OF True] r(6) current_live by blast
      moreover have "f r \<in> set (st_runs db')" by (rule update_selected [OF R(1) r(1) True])
      ultimately show ?thesis
        using r counters [OF True] run_snapshot_keys [of "f r" r] w [OF True]
        by (intro bexI [of _ "f r"]) auto
    next
      case False
      then show ?thesis using update_unselected [OF R(1) r(1)] r by blast
    qed
  qed
  moreover have "table_ok (run_check x) run_unique (st_runs db')" if "store_inv x db"
    using runs.update_ok [OF _ R(1)] that by (simp add: store_inv_def)
  moreover have "advances db db'"
    by (rule advances_update [OF upd]) (use w in \<open>simp add: evolves_def\<close>)
  ultimately show ?thesis
    using R(2,3) by (simp add: preserves_def store_inv_def evidence_bounded_def)
qed

context fenced_transition
begin

lemma pair_preserves:
  assumes "update_runs x wr fr db = Inr (db1, 1)" and "update_attempts x wa fa db1 = Inr (db2, 1)"
  shows "preserves x db db2"
  using keeps_inv [OF _ assms] advances_pair [OF assms] by (simp add: preserves_def)

lemma update_preserves:
  assumes "fenced_update x wr fr wa fa db = Inr db2"
  shows "preserves x db db2"
  using assms pair_preserves by (auto simp: fenced_update_eq_Inr)

end

section \<open>The operations are fenced transitions\<close>

lemmas fenced_simps = run_matches_def attempt_matches_def live_state_def live_attempt_def
  current_def joined_state_def joined_def run_snapshot_def life_def state_strings

interpretation heartbeat: fenced_transition b
  "\<lambda>r. run_matches b r \<and> live_state r
     \<and> (case r_lease_expires_at r of None \<Rightarrow> False | Some t \<Rightarrow> t > now \<and> lease_expires_at > t)"
  "\<lambda>r. r \<lparr>r_lease_expires_at := Some lease_expires_at, r_updated_at := now\<rparr>"
  "\<lambda>a. attempt_matches b a \<and> live_attempt a
     \<and> a_lease_expires_at a > now \<and> lease_expires_at > a_lease_expires_at a"
  "\<lambda>a. a \<lparr>a_lease_expires_at := lease_expires_at\<rparr>"
  for b now lease_expires_at
  by unfold_locales (simp_all add: fenced_simps)

interpretation start: fenced_transition b
  "\<lambda>r. run_matches b r \<and> r_state r = Leased \<and> run_lease_after now r"
  "\<lambda>r. r \<lparr>r_state := Executing, r_updated_at := now\<rparr>"
  "\<lambda>a. attempt_matches b a \<and> a_state a = ALeased \<and> a_lease_expires_at a > now"
  "\<lambda>a. a \<lparr>a_state := AExecuting, a_preflight_completed_at := Some now,
     a_executing_at := Some now,
     a_profile_schema_version := Some (uint (attested_schema_version profile)),
     a_profile_json := Some (attested_canonical_json profile),
     a_profile_hash_algorithm := Some (attested_hash_algorithm profile),
     a_profile_digest := Some (attested_digest profile)\<rparr>"
  for b now profile
  by unfold_locales (simp_all add: fenced_simps life_step.start)

lemmas disposition_simps = preflight_run_def preflight_attempt_def preflight_states_def
  outcome_run_def outcome_attempt_def terminal_transition_def

interpretation preflight: fenced_transition b
  "\<lambda>r. run_matches b r \<and> r_state r = Leased \<and> run_lease_after now r"
  "preflight_run d kind message now"
  "\<lambda>a. attempt_matches b a \<and> a_state a = ALeased \<and> a_lease_expires_at a > now"
  "preflight_attempt d kind message now"
  for b now d kind message
  by (cases d; unfold_locales) (simp_all add: fenced_simps disposition_simps life_step.release)

interpretation terminal_outcome: fenced_transition b
  "\<lambda>r. run_matches b r \<and> r_state r = Executing \<and> run_lease_after now r"
  "outcome_run (terminal_transition terminal) kind message now"
  "\<lambda>a. attempt_matches b a \<and> a_state a = AExecuting \<and> a_lease_expires_at a > now"
  "outcome_attempt (terminal_transition terminal) kind message now"
  for b now terminal kind message
  by (cases terminal; unfold_locales)
    (simp_all add: fenced_simps disposition_simps life_step.release life_step.conclude)

definition retry_transition :: "i64 \<Rightarrow> outcome_transition" where
  "retry_transition retry_at = \<lparr>ot_run_state = Pending, ot_attempt_state = ARetryScheduled,
     ot_retry_at = Some retry_at, ot_overlap_slot = Some 1, ot_outcome = OutcomeRetried\<rparr>"

interpretation retry_outcome: fenced_transition b
  "\<lambda>r. run_matches b r \<and> r_state r = Executing \<and> run_lease_after now r"
  "outcome_run (retry_transition retry_at) kind message now"
  "\<lambda>a. attempt_matches b a \<and> a_state a = AExecuting \<and> a_lease_expires_at a > now"
  "outcome_attempt (retry_transition retry_at) kind message now"
  for b now retry_at kind message
  by unfold_locales (simp_all add: fenced_simps disposition_simps retry_transition_def
      life_step.release)

interpretation completion: fenced_transition b
  "\<lambda>r. run_matches b r \<and> r_state r = Executing \<and> run_lease_after now r"
  "succeed_run artifact_id ctxt hash now"
  "\<lambda>a. attempt_matches b a \<and> a_state a = AExecuting \<and> a_lease_expires_at a > now"
  "succeed_attempt now"
  for b now artifact_id ctxt hash
  by unfold_locales
    (simp_all add: fenced_simps succeed_run_def succeed_attempt_def life_step.conclude)

lemma reclaim_states:
  assumes "state = Leased \<or> state = Executing"
  shows "rt_run_state (expired_reclaim_transition state i n f m safe) \<in> set [Pending, Failed]
      \<or> state = Executing
        \<and> rt_run_state (expired_reclaim_transition state i n f m safe) = OutcomeUnknown"
    and "rt_attempt_state (expired_reclaim_transition state i n f m safe)
      \<in> set [ALeaseExpired, AOutcomeUnknown]"
  by (auto simp: expired_reclaim_transition_def)

lemma reclaim_fenced:
  assumes t: "t = expired_reclaim_transition state i n f m safe"
    and state: "state = Leased \<or> state = Executing"
    and wr: "\<And>r. wr r \<Longrightarrow> run_matches b r \<and> r_state r = state"
    and wa: "\<And>a. wa a \<Longrightarrow> attempt_matches b a
      \<and> attempt_state_as_str (a_state a) = run_state_as_str state"
  shows "fenced_transition b wr (reclaim_run t retry_at now) wa (reclaim_attempt t now)"
proof
  show "wr r \<Longrightarrow> run_matches b r \<and> live_state r" for r
    using wr state by (auto simp: live_state_def)
  show "wa a \<Longrightarrow> attempt_matches b a \<and> live_attempt a" for a
    using wa [of a] state by (auto simp: live_attempt_def state_strings)
  show "current (reclaim_run t retry_at now r) (reclaim_attempt t now a)"
    if "live_state (reclaim_run t retry_at now r) \<or> live_attempt (reclaim_attempt t now a)" for r a
    using that reclaim_states [OF state, of i n f m safe]
    by (auto simp: t reclaim_run_def reclaim_attempt_def Let_def live_state_def live_attempt_def)
  show "life (reclaim_run t retry_at now r) = life r
      \<or> life_step (life r) (life (reclaim_run t retry_at now r))" if "wr r" for r
    using wr [OF that] state reclaim_states(1) [OF state, of i n f m safe]
    by (auto simp: t life_def reclaim_run_def Let_def intro: life_step.intros)
qed (simp_all add: reclaim_run_def reclaim_attempt_def Let_def run_snapshot_def)

section \<open>Fenced operations keep the invariant\<close>

lemma heartbeat_preserves: "preserves x db (snd (heartbeat_scheduled_run x b now expires db))"
  unfolding heartbeat_scheduled_run_def
  by (rule transact_preserves) (auto intro: heartbeat.update_preserves split: if_splits)

lemma start_preserves: "preserves x db (snd (mark_scheduled_run_executing x b profile now db))"
  unfolding mark_scheduled_run_executing_def
  by (rule transact_preserves) (auto intro: start.update_preserves)

lemma preflight_preserves:
  "preserves x db
     (snd (record_scheduled_run_preflight_failure_inner x b d snapshot kind message now db))"
  unfolding record_scheduled_run_preflight_failure_inner_def
  by (rule transact_preserves) (auto intro: preflight.update_preserves split: if_splits)

text \<open>A completion writes the attempt before the run; up to the counters the order does not matter.\<close>

lemma executing_pairD:
  assumes "executing_pair b now db = Some (r, a)"
  shows "r \<in> set (st_runs db)" and "a \<in> set (st_attempts db)" and "joined r a" and "run_matches b r"
    and "r_state r = Executing" and "a_state a = AExecuting" and "run_lease_after now r"
    and "a_lease_expires_at a > now" and "attempt_matches b a"
  using find_SomeD [OF assms [unfolded executing_pair_def]]
  by (auto simp: joined_def run_matches_def attempt_matches_def)

lemma swap_statements:
  assumes "update_attempts x wa fa db = Inr (db1, n)" and "update_runs x wr fr db1 = Inr (db2, k)"
  obtains db1' db2' where "update_runs x wr fr db = Inr (db1', k)"
    "update_attempts x wa fa db1' = Inr (db2', n)" "same_tables db2' db2"
proof -
  have "\<exists>db1'. update_runs x wr fr db = Inr (db1', k) \<and> st_runs db1' = st_runs db2
      \<and> (\<exists>db2'. update_attempts x wa fa db1' = Inr (db2', n) \<and> same_tables db2' db2)"
    using assms by (auto simp: update_attempts_def update_runs_def same_tables_def)
  then show ?thesis using that by blast
qed

lemma completion_result_eq_Inr [simp]: "completion_result m = Inr v \<longleftrightarrow> m = Inr v"
proof (cases m)
  case (Inl e)
  then show ?thesis by (cases e) (simp_all add: completion_result_def)
qed (simp add: completion_result_def)

lemma one_completed_eq_Inr [simp]: "one_completed (db, n) = Inr db' \<longleftrightarrow> n = 1 \<and> db' = db"
  by (auto simp: one_completed_def)

lemma complete_rowsE:
  assumes "complete_run_rows x b artifacts artifact_id ctxt hash now db = Inr db2"
  obtains db1 where
    "update_attempts x (\<lambda>a. attempt_matches b a \<and> a_state a = AExecuting \<and> a_lease_expires_at a > now)
       (succeed_attempt now) db = Inr (db1, 1)"
    "update_runs x (\<lambda>r. run_matches b r \<and> r_state r = Executing \<and> run_lease_after now r)
       (succeed_run artifact_id ctxt hash now) db1 = Inr (db2, 1)"
  using assms
  by (auto simp: complete_run_rows_def succeed_runs_def split: if_splits)

lemma complete_rows_preserves:
  assumes "complete_run_rows x b artifacts artifact_id ctxt hash now db = Inr db2"
  shows "preserves x db db2"
  using assms
proof (cases rule: complete_rowsE)
  case (1 db1)
  obtain db1' db2' where swapped: "update_runs x
        (\<lambda>r. run_matches b r \<and> r_state r = Executing \<and> run_lease_after now r)
        (succeed_run artifact_id ctxt hash now) db = Inr (db1', 1)"
      "update_attempts x
        (\<lambda>a. attempt_matches b a \<and> a_state a = AExecuting \<and> a_lease_expires_at a > now)
        (succeed_attempt now) db1' = Inr (db2', 1)" "same_tables db2' db2"
    by (rule swap_statements [OF 1])
  show ?thesis
    by (rule preserves_trans [OF completion.pair_preserves [OF swapped(1,2)]
          preserves_same_tables [OF swapped(3)]])
qed

lemma append_evidence_preserves:
  assumes "append_late_evidence_in_transaction b kind digest at db = Inr (db', outcome)"
  shows "preserves x db db'"
proof (cases "outcome = Recorded")
  case False
  then have "db' = db"
    using assms by (auto simp: append_late_evidence_in_transaction_def split: if_splits)
  then show ?thesis by simp
next
  case True
  define e where "e = \<lparr>e_run_id = binding_run_id b, e_attempt = binding_attempt b,
    e_fence = binding_fence b, e_kind = kind, e_digest = digest, e_observed_at = at\<rparr>"
  have few: "length (filter (\<lambda>d. e_run_id d = e_run_id e \<and> e_attempt d = e_attempt e)
      (st_evidence db)) < LATE_EVIDENCE_QUOTA" and ins: "insert_evidence e db = Inr db'"
    using assms True
    by (auto simp: append_late_evidence_in_transaction_def e_def split: if_splits)
  note E = insert_evidence_InrD [OF ins]
  have rows: "st_evidence db' = st_evidence db @ [e]" by (rule sql_insert_InrD(1) [OF E(1)])
  have "evidence_bounded db'" if "evidence_bounded db"
    using that few unfolding evidence_bounded_def rows by auto
  then show ?thesis
    using E(2,3) evidence.insert_ok [OF _ E(1)]
    by (auto simp: preserves_def store_inv_def coherent_def intro: advances_same)
qed

lemma late_evidence_preserves:
  "preserves x db (snd (append_scheduled_run_late_evidence b kind digest at db))"
  unfolding append_scheduled_run_late_evidence_def
  by (rule transact_preserves) (auto intro: append_evidence_preserves split: if_splits)

lemma outcome_transition_cases:
  assumes "execution_outcome_transition x b d r a now = Inr t"
  obtains terminal where "t = terminal_transition terminal"
  | retry_at where "t = retry_transition retry_at"
  using assms
  by (auto simp: execution_outcome_transition_def retry_transition_def
      split: execution_disposition.splits if_splits)

lemma outcome_update_preserves:
  assumes "execution_outcome_transition x b d r a now = Inr t"
    and "fenced_update x
      (\<lambda>r. run_matches b r \<and> r_state r = Executing \<and> run_lease_after now r)
      (outcome_run t kind message now)
      (\<lambda>a. attempt_matches b a \<and> a_state a = AExecuting \<and> a_lease_expires_at a > now)
      (outcome_attempt t kind message now) db = Inr db'"
  shows "preserves x db db'"
  using assms(1)
proof (cases rule: outcome_transition_cases)
  case (1 terminal)
  show ?thesis using assms(2) unfolding 1 by (rule terminal_outcome.update_preserves)
next
  case (2 retry_at)
  show ?thesis using assms(2) unfolding 2 by (rule retry_outcome.update_preserves)
qed

lemma outcome_preserves:
  "preserves x db (snd (record_scheduled_run_execution_outcome x b d kind message now db))"
  unfolding record_scheduled_run_execution_outcome_def
proof (rule transact_preserves, goal_cases)
  case (1 db' v)
  show ?case
  proof (cases "executing_pair b now db")
    case None
    with 1 obtain db1 outcome where
      "append_late_evidence_in_transaction b CompletionAfterLeaseLoss
         (outcome_evidence x b kind message) now db = Inr (db1, outcome)"
      "increment_scheduler_transition_total StaleFenceRejected 1 db1 = Inr db'"
      by (auto split: if_splits)
    then show ?thesis
      by (meson append_evidence_preserves increment_same_tables preserves_same_tables
          preserves_trans)
  next
    case (Some p)
    with 1 show ?thesis
      by (cases p) (auto split: if_splits intro: outcome_update_preserves)
  qed
qed

section \<open>Reclamation\<close>

lemma count_reclaim_same_tables: "count_reclaim s safe db = Inr db' \<Longrightarrow> same_tables db db'"
  by (auto simp: count_reclaim_def split: if_splits
      intro: increment_same_tables same_tables_trans [OF increment_same_tables])

lemma expired_pairD:
  assumes "expired_pair now db = Some (r, a)"
  shows "r \<in> set (st_runs db)" and "a \<in> set (st_attempts db)" and "joined_state r a"
    and "r_state r = Leased \<or> r_state r = Executing" and "run_lease_expired now r"
    and "a_lease_expires_at a \<le> now"
  using select_min_SomeD [OF assms [unfolded expired_pair_def]] by (auto simp: live_state_def)

text \<open>What a committed reclamation did.\<close>

lemma reclaim_committedE:
  assumes "reclaim_next_expired_scheduled_run_inner x now override db = (Inr outcome, db')"
    and "outcome \<noteq> ReclaimIdle"
  obtains r a owner m nxt safe t db1 where "expired_pair now db = Some (r, a)"
    "r_lease_owner r = Some owner" "reclaim_policy x r now override = Inr (m, nxt)"
    "allows_recovery x (row_binding r owner) r (Some a) = Inr safe"
    "t = expired_reclaim_transition (r_state r) (r_run_id r) (r_attempt r) (r_fence r) m safe"
    "fenced_update x
       (\<lambda>s. run_matches (row_binding r owner) s \<and> r_state s = r_state r \<and> run_lease_expired now s)
       (reclaim_run t (if rt_run_state t = Pending then Some nxt else None) now)
       (\<lambda>a. attempt_matches (row_binding r owner) a
          \<and> attempt_state_as_str (a_state a) = run_state_as_str (r_state r)
          \<and> a_lease_expires_at a \<le> now)
       (reclaim_attempt t now) db = Inr db1"
    "count_reclaim (r_state r) safe db1 = Inr db'" "outcome = rt_outcome t"
  using assms unfolding reclaim_next_expired_scheduled_run_inner_def transact_Inr
  by (auto simp: Let_def split: option.splits prod.splits)

lemma reclaim_preserves:
  "preserves x db (snd (reclaim_next_expired_scheduled_run_inner x now override db))"
proof (cases "reclaim_next_expired_scheduled_run_inner x now override db")
  case (Pair v db')
  have "preserves x db db'"
  proof (cases "v = Inr ReclaimIdle \<or> (\<exists>e. v = Inl e)")
    case True
    with Pair show ?thesis
      unfolding reclaim_next_expired_scheduled_run_inner_def
      by (elim transact_cases)
        (auto intro: preserves_same_tables simp: Let_def expired_reclaim_transition_def
          split: option.splits prod.splits if_splits)
  next
    case False
    then obtain outcome where "v = Inr outcome" and busy: "outcome \<noteq> ReclaimIdle"
      by (cases v) auto
    with Pair have "reclaim_next_expired_scheduled_run_inner x now override db =
        (Inr outcome, db')" by simp
    then show ?thesis using busy
    proof (cases rule: reclaim_committedE)
      case (1 r a owner m nxt safe t db1)
      have "preserves x db db1"
        by (rule fenced_transition.update_preserves
            [OF reclaim_fenced [OF 1(5) expired_pairD(4) [OF 1(1)]] 1(6)]) auto
      then show ?thesis
        using count_reclaim_same_tables [OF 1(7)] preserves_same_tables preserves_trans by blast
    qed
  qed
  with Pair show ?thesis by simp
qed

lemma reconcile_stale_preserves: "reconcile_stale db = Inr (db', v) \<Longrightarrow> preserves x db db'"
  by (auto simp: reconcile_stale_def intro: preserves_same_tables increment_same_tables)

lemma reconcile_confirmedE:
  assumes "reconcile_confirmed x r owner expires expected now db = Inr (db', Inr (Applied outcome))"
  obtains safe p m t db1 db2 where
    "allows_recovery x (row_binding r owner) r (List.find (joined_state r) (st_attempts db)) =
       Inr safe"
    "scheduler_policy_from_snapshot x (r_policy_version r) (r_policy_json r) = Inr p"
    "run_retry_at p (r_run_id r) (r_attempt r) (r_scheduled_for r) now = expected"
    "m = (case expected of None \<Rightarrow> r_attempt r | Some _ \<Rightarrow> uint (run_max_attempts p))"
    "t = expired_reclaim_transition (r_state r) (r_run_id r) (r_attempt r) (r_fence r) m safe"
    "update_runs x
       (\<lambda>s. run_matches (row_binding r owner) s \<and> r_state s = r_state r
          \<and> r_lease_expires_at s = Some expires \<and> expires \<le> now \<and> r_updated_at s \<le> now)
       (reclaim_run t (if rt_run_state t = Pending then expected else None) now) db = Inr (db1, 1)"
    "update_attempts x
       (\<lambda>a. attempt_matches (row_binding r owner) a
          \<and> attempt_state_as_str (a_state a) = run_state_as_str (r_state r)
          \<and> a_lease_expires_at a = expires \<and> expires \<le> now \<and> a_claimed_at a \<le> now)
       (reclaim_attempt t now) db1 = Inr (db2, 1)"
    "count_reclaim (r_state r) safe db2 = Inr db'" "outcome = rt_outcome t"
  using assms unfolding reconcile_confirmed_def
  by (auto simp: Let_def reconcile_stale_def split: if_splits)

text \<open>A stale answer comes before any row has changed.\<close>

lemma update_zero_same_tables:
  assumes "store_inv x db" and "update_runs x w f db = Inr (db1, n)" and "n \<noteq> 1"
    and "\<And>r s. w r \<Longrightarrow> w s \<Longrightarrow> r_run_id r = r_run_id s"
  shows "same_tables db db1"
proof -
  note R = update_runs_InrD [OF assms(2)]
  have "table_ok (run_check x) run_unique (st_runs db)" using assms(1) by (simp add: store_inv_def)
  then have "st_runs db1 = st_runs db" using runs.update_missed [OF _ R(1) assms(3,4)] by blast
  then show ?thesis using R by (simp add: same_tables_def)
qed

lemma reconcile_confirmed_preserves:
  assumes "reconcile_confirmed x r owner expires expected now db = Inr (db', v)"
    and live: "r_state r = Leased \<or> r_state r = Executing"
  shows "preserves x db db'"
proof (cases "\<exists>outcome. v = Inr (Applied outcome)")
  case True
  then obtain outcome where
    "reconcile_confirmed x r owner expires expected now db = Inr (db', Inr (Applied outcome))"
    using assms(1) by blast
  then show ?thesis
  proof (cases rule: reconcile_confirmedE)
    case (1 safe p m t db1 db2)
    have "preserves x db db2"
      by (rule fenced_transition.pair_preserves [OF reclaim_fenced [OF 1(5) live] 1(6,7)]) auto
    then show ?thesis
      using count_reclaim_same_tables [OF 1(8)] preserves_same_tables preserves_trans by blast
  qed
next
  case False
  have "preserves x db db'" if inv: "store_inv x db"
    using assms(1) False
    by (auto simp: reconcile_confirmed_def Let_def row_binding_def run_matches_def
        split: if_splits
        intro: reconcile_stale_preserves
          preserves_trans [OF preserves_same_tables [OF update_zero_same_tables [OF inv]]
            reconcile_stale_preserves])
  then show ?thesis by (auto simp: preserves_def)
qed

lemma reconcile_preserves:
  "preserves x db (snd (reconcile_expired_scheduled_run x run_id state attempt fence owner expires
     expected now db))"
  unfolding reconcile_expired_scheduled_run_def
  by (rule transact_preserves)
    (auto split: if_splits option.splits
      intro: reconcile_stale_preserves reconcile_confirmed_preserves)

section \<open>Claims\<close>

lemma fail_exhausted_preserves:
  assumes "fail_exhausted_runs x now db = Inr (db', n)"
  shows "preserves x db db'"
  using assms unfolding fail_exhausted_runs_def
proof (rule update_unleased_preserves)
  fix r assume "due now r \<and> (deadline_passed x now r \<or> attempts_spent x r)"
  then have "r_state r = Pending" by (simp add: due_def)
  then show "\<not> live_state r \<and> \<not> live_state (fail_run x now r)
      \<and> run_snapshot (fail_run x now r) = run_snapshot r
      \<and> life_step\<^sup>*\<^sup>* (life r) (life (fail_run x now r))"
    by (auto simp: live_state_def fail_run_def run_snapshot_def life_def
        intro: r_into_rtranclp life_step.exhaust)
qed

lemma reopen_preserves:
  assumes "state \<in> set reopenable_states"
    and "reopen_run x run_id attempt fence state next_attempt_at now db = Inr (db', n)"
  shows "preserves x db db'"
  using assms(2) unfolding reopen_run_def
proof (rule update_unleased_preserves)
  fix r assume "reopen_selects run_id attempt fence state r"
  then show "\<not> live_state r \<and> \<not> live_state (reopen_row next_attempt_at now r)
      \<and> run_snapshot (reopen_row next_attempt_at now r) = run_snapshot r
      \<and> life_step\<^sup>*\<^sup>* (life r) (life (reopen_row next_attempt_at now r))"
    using assms(1)
    by (auto simp: reopen_selects_def live_state_def reopen_row_def run_snapshot_def life_def reopenable_states_def
        intro: r_into_rtranclp life_step.reopen)
qed

lemma claim_exhausted_preserves:
  assumes "claim_exhausted x admission env db = Inr (db', v)"
  shows "preserves x db db'"
proof -
  have flag: "preserves x db db1"
    if "update_runs x (\<lambda>r. counter_exhausted now r \<and> \<not> r_counter_limit_recorded r)
      (\<lambda>r. r \<lparr>r_counter_limit_recorded := True\<rparr>) db = Inr (db1, n)" for now db1 n
    using that
    by (rule update_unleased_preserves)
      (auto simp: counter_exhausted_def due_def live_state_def run_snapshot_def life_def)
  from assms show ?thesis
    by (auto simp: claim_exhausted_def Let_def split: if_splits
        intro: preserves_trans [OF flag preserves_same_tables [OF increment_same_tables]])
qed

lemma claim_row_keys:
  "r_run_id (claim_row x owner t now r) = r_run_id r"
  "r_job_id (claim_row x owner t now r) = r_job_id r"
  "run_snapshot (claim_row x owner t now r) = run_snapshot r"
  "r_state (claim_row x owner t now r) = Leased"
  "r_attempt (claim_row x owner t now r) = r_attempt r + 1"
  "r_fence (claim_row x owner t now r) = r_fence r + 1"
  "r_lease_owner (claim_row x owner t now r) = Some owner"
  by (simp_all add: claim_row_def run_snapshot_def)

lemma claim_current:
  assumes "r_lease_expires_at (claim_row x owner t now m) = Some e"
  shows "current (claim_row x owner t now m) (lease_attempt (claim_row x owner t now m) owner now e)"
  using assms
  by (simp add: current_def joined_state_def joined_def lease_attempt_def claim_row_keys
      attempt_state_as_str_def)

lemma claim_update_preserves:
  assumes m: "m \<in> set (st_runs db)" "claimable now m"
    and upd: "update_runs x (\<lambda>r. r_run_id r = r_run_id m \<and> claimable now r)
      (claim_row x owner t now) db = Inr (db1, n)"
    and expires: "r_lease_expires_at (claim_row x owner t now m) = Some e"
    and ins: "insert_attempt x (lease_attempt (claim_row x owner t now m) owner now e) db1 = Inr db2"
  shows "preserves x db db2"
proof -
  let ?m = "claim_row x owner t now m"
  let ?a = "lease_attempt ?m owner now e"
  note R = update_runs_InrD [OF upd] and A = insert_attempt_InrD [OF ins]
  have upd_r: "sql_update (run_check x) run_unique (\<lambda>r. r_run_id r = r_run_id m \<and> claimable now r)
      (claim_row x owner t now) (st_runs db) = Inr (st_runs db2, n)"
    using R(1) A(2) by simp
  have rows: "st_attempts db2 = st_attempts db @ [?a]"
    using sql_insert_InrD(1) [OF A(1)] R(2) by simp
  have m': "?m \<in> set (st_runs db2)" using update_selected [OF upd_r m(1)] m(2) by simp
  have pending: "r_state m = Pending" using m(2) by (simp add: due_def claimable_def)
  have advance: "advances db db2"
  proof (rule advances_trans)
    show "advances db db1"
    proof (rule advances_update [OF upd])
      fix r assume "r_run_id r = r_run_id m \<and> claimable now r"
      then show "evolves r (claim_row x owner t now r)"
        by (intro evolves_step)
          (simp_all add: claim_row_keys life_def due_def claimable_def life_step.claim)
    qed
    show "advances db1 db2" by (rule advances_same) (rule A(2))
  qed
  have "coherent db2" if inv: "store_inv x db"
  proof -
    have unique: "r = m" if "r \<in> set (st_runs db)" "r_run_id r = r_run_id m" for r
      using runs.key_inj [of x "st_runs db" r m] that inv m(1) by (simp add: store_inv_def)
    show ?thesis
      unfolding coherent_def
    proof (intro conjI ballI impI)
      fix r' assume r': "r' \<in> set (st_runs db2)" and live: "live_state r'"
      from upd_r r' show "\<exists>a \<in> set (st_attempts db2). current r' a"
      proof (cases rule: update_origin)
        case (1 r)
        then show ?thesis
          using inv live rows unfolding store_inv_def coherent_def by (metis Un_iff set_append)
      next
        case (2 r)
        then have "r' = ?m" using unique by blast
        then show ?thesis using claim_current [OF expires] rows by auto
      qed
    next
      fix a assume "a \<in> set (st_attempts db2)"
      then consider "a \<in> set (st_attempts db)" | "a = ?a" using rows by auto
      then show "\<exists>r \<in> set (st_runs db2). r_run_id r = a_run_id a \<and> r_job_id r = a_job_id a
          \<and> a_attempt a \<le> r_attempt r \<and> a_fence a \<le> r_fence r \<and> (live_attempt a \<longrightarrow> current r a)"
      proof cases
        case 1
        then obtain r where r: "r \<in> set (st_runs db)" "r_run_id r = a_run_id a"
            "r_job_id r = a_job_id a" "a_attempt a \<le> r_attempt r" "a_fence a \<le> r_fence r"
            "live_attempt a \<longrightarrow> current r a"
          using inv unfolding store_inv_def coherent_def by metis
        show ?thesis
        proof (cases "r = m")
          case True
          then have "\<not> live_attempt a"
            using r(6) current_live [of r a] pending by (auto simp: live_state_def)
          then show ?thesis
            using r True m' by (intro bexI [of _ ?m]) (simp_all add: claim_row_keys)
        next
          case False
          then show ?thesis using update_unselected [OF upd_r r(1)] unique r by blast
        qed
      next
        case 2
        then show ?thesis
          using claim_current [OF expires] m'
          by (intro bexI [of _ ?m]) (simp_all add: lease_attempt_def)
      qed
    qed
  qed
  then show ?thesis
    using advance R(2,3) A(2,3) runs.update_ok [OF _ upd_r] attempts.insert_ok [OF _ A(1)]
    by (simp add: preserves_def store_inv_def evidence_bounded_def)
qed

lemma claim_selected_preserves:
  assumes "claim_selected x owner requested admission env m db = Inr (db', v)"
    and "m \<in> set (st_runs db)" and "claimable (clock_mutation env) m"
  shows "preserves x db db'"
  using assms(1) claim_update_preserves [OF assms(2,3)]
  by (auto simp: claim_selected_def Let_def bind_eq_Some_conv split: if_splits)

lemma claim_preserves:
  "preserves x db (snd (claim_next_scheduled_run_inner x owner now expires admission env db))"
  unfolding claim_next_scheduled_run_inner_def
proof (rule transact_preserves, goal_cases)
  case (1 db' v)
  define final where "final = (\<lambda>db1.
    case select_min (\<lambda>r. (r_scheduled_for r, r_run_id r)) (claimable (clock_mutation env))
        (st_runs db1) of
      None \<Rightarrow> claim_exhausted x admission env db1
    | Some m \<Rightarrow> claim_selected x owner
        (case expires of None \<Rightarrow> clock_mutation env | Some t \<Rightarrow> t) admission env m db1)"
  from 1 have "\<exists>db1. preserves x db db1 \<and> final db1 = Inr (db', v)"
    unfolding final_def Let_def
    by (cases expires) (auto split: if_splits intro: fail_exhausted_preserves preserves_refl)
  then obtain db1 where first: "preserves x db db1" and rest: "final db1 = Inr (db', v)" by blast
  from rest have "preserves x db1 db'"
    by (auto simp: final_def split: option.splits dest!: select_min_SomeD
        intro: claim_exhausted_preserves claim_selected_preserves)
  with first show ?case by (rule preserves_trans)
qed

section \<open>Cancellation\<close>

lemma cancelE:
  assumes "cancel_pre_execution_runs x job_id generation now db = Inr db2"
  obtains db1 n k where
    "update_attempts x (cancellable_attempt job_id generation db)
       (\<lambda>a. a \<lparr>a_state := ACancelled, a_completed_at := Some now\<rparr>) db = Inr (db1, n)"
    "update_runs x (cancellable_run job_id generation) (cancel_run now) db1 = Inr (db2, k)"
  using assms unfolding cancel_pre_execution_runs_def Let_def by (clarsimp split: if_splits)

lemma cancel_coherent:
  assumes inv: "store_inv x db"
    and upd_a: "sql_update (attempt_check x) attempt_unique (cancellable_attempt job_id generation db)
      (\<lambda>a. a \<lparr>a_state := ACancelled, a_completed_at := Some now\<rparr>) (st_attempts db) =
      Inr (st_attempts db2, n)"
    and upd_r: "sql_update (run_check x) run_unique (cancellable_run job_id generation)
      (cancel_run now) (st_runs db) = Inr (st_runs db2, k)"
  shows "coherent db2"
proof -
  have unique: "r = s" if "r \<in> set (st_runs db)" "s \<in> set (st_runs db)" "r_run_id r = r_run_id s"
    for r s
    using runs.key_inj [of x "st_runs db" r s] that inv by (simp add: store_inv_def)
  show ?thesis
    unfolding coherent_def
  proof (intro conjI ballI impI)
    fix r' assume r': "r' \<in> set (st_runs db2)" and live: "live_state r'"
    with upd_r obtain r where r: "r \<in> set (st_runs db)" "r' = r"
        "\<not> cancellable_run job_id generation r"
      by (cases rule: update_origin) (auto simp: live_state_def cancel_run_def)
    obtain a where a: "a \<in> set (st_attempts db)" "current r a"
      using inv live r by (auto simp: store_inv_def coherent_def)
    have "\<not> cancellable_attempt job_id generation db a"
    proof
      assume "cancellable_attempt job_id generation db a"
      then obtain s where "s \<in> set (st_runs db)" "joined s a" "r_job_id s = job_id"
          "r_job_generation s = generation" "r_state s = Leased"
        by (auto simp: cancellable_attempt_def list_ex_iff)
      moreover from this have "s = r"
        using unique r(1) current_joined [OF a(2)] by (auto simp: joined_def)
      ultimately show False using r(3) by (simp add: cancellable_run_def)
    qed
    then show "\<exists>a \<in> set (st_attempts db2). current r' a"
      using update_unselected [OF upd_a a(1)] a(2) r(2) by blast
  next
    fix a' assume "a' \<in> set (st_attempts db2)"
    with upd_a obtain a where a: "a \<in> set (st_attempts db)" "a_run_id a' = a_run_id a"
        "a_job_id a' = a_job_id a" "a_attempt a' = a_attempt a" "a_fence a' = a_fence a"
        "live_attempt a' \<longrightarrow> a' = a \<and> \<not> cancellable_attempt job_id generation db a"
      by (cases rule: update_origin) (auto simp: live_attempt_def)
    obtain r where r: "r \<in> set (st_runs db)" "r_run_id r = a_run_id a" "r_job_id r = a_job_id a"
        "a_attempt a \<le> r_attempt r" "a_fence a \<le> r_fence r" "live_attempt a \<longrightarrow> current r a"
      using inv a(1) unfolding store_inv_def coherent_def by metis
    show "\<exists>r \<in> set (st_runs db2). r_run_id r = a_run_id a' \<and> r_job_id r = a_job_id a'
        \<and> a_attempt a' \<le> r_attempt r \<and> a_fence a' \<le> r_fence r
        \<and> (live_attempt a' \<longrightarrow> current r a')"
    proof (cases "cancellable_run job_id generation r")
      case True
      have "\<not> live_attempt a'"
      proof
        assume live: "live_attempt a'"
        with a(6) r(6) have c: "current r a" by auto
        with live a(6) True have "r_state r = Leased"
          using current_live [OF c] by (auto simp: live_state_def cancellable_run_def)
        then have "cancellable_attempt job_id generation db a"
          using c True r(1)
          by (auto simp: cancellable_attempt_def cancellable_run_def list_ex_iff current_def
              joined_state_def state_strings)
        with live a(6) show False by blast
      qed
      then show ?thesis
        using update_selected [OF upd_r r(1) True] a r
        by (intro bexI [of _ "cancel_run now r"]) (simp_all add: cancel_run_def)
    next
      case False
      then show ?thesis
        using update_unselected [OF upd_r r(1) False] a r by (intro bexI [of _ r]) auto
    qed
  qed
qed

lemma cancel_preserves:
  assumes "cancel_pre_execution_runs x job_id generation now db = Inr db2"
  shows "preserves x db db2"
  using assms
proof (cases rule: cancelE)
  case (1 db1 n k)
  note A = update_attempts_InrD [OF 1(1)] and R = update_runs_InrD [OF 1(2)]
  have "advances db1 db2"
  proof (rule advances_update [OF 1(2)])
    fix r assume "cancellable_run job_id generation r"
    then show "evolves r (cancel_run now r)"
      by (intro evolves_step)
        (auto simp: run_snapshot_def life_def cancel_run_def cancellable_run_def
          intro: life_step.withdraw)
  qed
  moreover have "advances db db1" by (rule advances_same) (rule A(2))
  moreover have "coherent db2" if "store_inv x db"
    by (rule cancel_coherent [OF that, where n = n and k = k])
      (use A(1) R(1) A(2) R(2) in simp_all)
  ultimately show ?thesis
    using attempts.update_ok [OF _ A(1)] runs.update_ok [OF _ R(1)] A(2,3) R(2,3)
    by (auto simp: preserves_def store_inv_def evidence_bounded_def intro: advances_trans)
qed

section \<open>Reachable stores\<close>

text \<open>The row a materialization inserts: pending, with fresh counters and no lease.\<close>

definition fresh_run :: "run_row \<Rightarrow> bool" where
  "fresh_run r \<longleftrightarrow> r_state r = Pending \<and> r_attempt r = 0 \<and> r_fence r = 0
     \<and> r_next_attempt_at r = None \<and> \<not> r_counter_limit_recorded r"

lemma insert_run_preserves:
  assumes "insert_run x r skipped db = Inr (db', n)" and "fresh_run r"
  shows "preserves x db db'"
proof (cases "n = 0")
  case True
  then show ?thesis using assms(1) by (auto simp: insert_run_def split: if_splits)
next
  case False
  then have I: "sql_insert (run_check x) run_unique r (st_runs db) = Inr (st_runs db')"
      "st_attempts db' = st_attempts db" "st_evidence db' = st_evidence db"
    using assms(1) by (auto simp: insert_run_def split: if_splits)
  have rows: "st_runs db' = st_runs db @ [r]" by (rule sql_insert_InrD(1) [OF I(1)])
  have "\<not> live_state r" using assms(2) by (simp add: fresh_run_def live_state_def)
  then have "coherent db'" if "coherent db"
    using that unfolding coherent_def rows I(2) by fastforce
  moreover have "advances db db'" unfolding advances_def rows by (auto intro: evolves_refl)
  ultimately show ?thesis
    using runs.insert_ok [OF _ I(1)] I(2,3)
    by (simp add: preserves_def store_inv_def evidence_bounded_def)
qed

inductive run_step :: "ext \<Rightarrow> store \<Rightarrow> store \<Rightarrow> bool" for x where
  step_materialize: "fresh_run r \<Longrightarrow> insert_run x r skipped db = Inr (db', n) \<Longrightarrow> run_step x db db'"
| step_claim: "run_step x db
    (snd (claim_next_scheduled_run_inner x owner now expires admission env db))"
| step_heartbeat: "run_step x db (snd (heartbeat_scheduled_run x b now expires db))"
| step_start: "run_step x db (snd (mark_scheduled_run_executing x b profile now db))"
| step_preflight: "run_step x db
    (snd (record_scheduled_run_preflight_failure_inner x b d snapshot kind message now db))"
| step_outcome: "run_step x db
    (snd (record_scheduled_run_execution_outcome x b disposition kind message now db))"
| step_complete: "complete_run_rows x b artifacts artifact_id ctxt hash now db = Inr db' \<Longrightarrow>
    run_step x db db'"
| step_reopen: "state \<in> set reopenable_states \<Longrightarrow>
    reopen_run x run_id attempt fence state next_attempt_at now db = Inr (db', n) \<Longrightarrow> run_step x db db'"
| step_reclaim: "run_step x db (snd (reclaim_next_expired_scheduled_run_inner x now override db))"
| step_reconcile: "run_step x db
    (snd (reconcile_expired_scheduled_run x run_id state attempt fence owner at expected now db))"
| step_evidence: "run_step x db (snd (append_scheduled_run_late_evidence b ev digest now db))"
| step_cancel: "cancel_pre_execution_runs x job_id generation now db = Inr db' \<Longrightarrow> run_step x db db'"
| step_epoch: "run_step x db (snd (register_scheduled_executor_epoch authority now db))"
| step_permit: "run_step x db (snd (consume_scheduled_execution_permit permit db))"
| step_metric: "same_tables db db' \<Longrightarrow> run_step x db db'"

definition initial_store :: "store \<Rightarrow> bool" where
  "initial_store db \<longleftrightarrow> st_runs db = [] \<and> st_attempts db = [] \<and> st_evidence db = []
     \<and> st_epoch db = None \<and> st_permits db = []"

definition reachable :: "ext \<Rightarrow> store \<Rightarrow> bool" where
  "reachable x db \<longleftrightarrow> (\<exists>db0. initial_store db0 \<and> (run_step x)\<^sup>*\<^sup>* db0 db)"

lemma epoch_preserves: "preserves x db (snd (register_scheduled_executor_epoch authority now db))"
  unfolding register_scheduled_executor_epoch_def
  by (rule transact_preserves)
    (auto simp: Let_def split: prod.splits if_splits intro!: preserves_unchanged)

lemma permit_preserves: "preserves x db (snd (consume_scheduled_execution_permit permit db))"
  unfolding consume_scheduled_execution_permit_def
  by (rule transact_preserves)
    (auto simp: Let_def split: option.splits if_splits intro!: preserves_unchanged)

lemma run_step_preserves: "run_step x db db' \<Longrightarrow> preserves x db db'"
  by (induction rule: run_step.induct)
    (rule insert_run_preserves claim_preserves heartbeat_preserves start_preserves
      preflight_preserves outcome_preserves complete_rows_preserves reopen_preserves reclaim_preserves reconcile_preserves
      late_evidence_preserves cancel_preserves epoch_preserves permit_preserves
      preserves_same_tables; assumption)+

lemma run_steps_preserve: "(run_step x)\<^sup>*\<^sup>* db db' \<Longrightarrow> preserves x db db'"
  by (induction rule: rtranclp_induct) (auto intro: preserves_trans run_step_preserves)

lemma initial_inv: "initial_store db \<Longrightarrow> store_inv x db"
  by (simp add: initial_store_def store_inv_def table_ok_def run_unique_def attempt_unique_def
      evidence_unique_def coherent_def evidence_bounded_def)

lemma reachable_inv: "reachable x db \<Longrightarrow> store_inv x db"
  unfolding reachable_def using initial_inv run_steps_preserve by (metis preserves_def)

lemma reachable_step: "reachable x db \<Longrightarrow> run_step x db db' \<Longrightarrow> reachable x db'"
  unfolding reachable_def by (meson rtranclp.rtrancl_into_rtrancl)

lemma reachable_steps: "reachable x db \<Longrightarrow> (run_step x)\<^sup>*\<^sup>* db db' \<Longrightarrow> reachable x db'"
  unfolding reachable_def by (meson rtranclp_trans)

text \<open>The row a run has become.\<close>

lemma run_later:
  assumes "store_inv x db" and "(run_step x)\<^sup>*\<^sup>* db db'" and "r \<in> set (st_runs db)"
    and "r' \<in> set (st_runs db')" and "r_run_id r' = r_run_id r"
  shows "evolves r r'"
proof -
  have p: "store_inv x db'" "advances db db'"
    using run_steps_preserve [OF assms(2)] assms(1) by (auto simp: preserves_def)
  then obtain s where s: "s \<in> set (st_runs db')" "evolves r s"
    using assms(3) by (auto simp: advances_def)
  have "r_run_id s = r_run_id r" using s(2) run_snapshot_keys(1) [of s r] by (simp add: evolves_def)
  then have "s = r'"
    using runs.key_inj [of x "st_runs db'" s r'] p(1) s(1) assms(4,5) by (simp add: store_inv_def)
  with s show ?thesis by simp
qed

end
