(* ===== verification/Run_Sample.thy ===== *)
theory Run_Sample
  imports Run_Safety
begin

text \<open>
  A concrete history of the run store, evaluated step by step: one run is materialized, claimed,
  started, or sent back for a retry, then reclaimed by a second worker. The properties of the run
  store are applied to its stores.
\<close>

definition run_ext :: ext where
  "run_ext = tiny_ext \<lparr>policy_print := \<lambda>_. ''[1]''\<rparr>"

lemma run_ext_simps [simp]:
  "sql_json_valid run_ext t \<longleftrightarrow> t = ''[1]''" "sql_json_int run_ext t f = None"
  "json_parse run_ext ''[1]'' = Inr (JArr [JInt 1])" "json_print run_ext (JArr [JInt 1]) = ''[1]''"
  "sha256 run_ext t = replicate 32 CHR 0x00"
  by (simp_all add: run_ext_def tiny_ext_def)

lemma sample_policy: "scheduler_policy_from_snapshot run_ext 1 ''[1]'' = Inr default_policy"
  using default_policies_valid(1)
  by (simp add: scheduler_policy_from_snapshot_def scheduler_policy_json_def
      SCHEDULER_OPERATIONAL_POLICY_VERSION_def run_ext_def tiny_ext_def)

lemma validate_graphic:
  assumes "s \<noteq> []" and "list_all is_graphic s" and "length s \<le> MAX_CONTEXT_BYTES"
  shows "validate_text field s = Inr ()"
  using assms trim_graphic [OF assms(1)] by (auto simp: validate_text_def list_all_iff)

lemma run_texts [simp]:
  "validate_text field ''w'' = Inr ()" "validate_text field ''v'' = Inr ()"
  "validate_text field ''run'' = Inr ()" "validate_text field ''job'' = Inr ()"
  "validate_text field ''kind'' = Inr ()"
  by (rule validate_graphic; simp add: is_graphic_def byte_val_def MAX_CONTEXT_BYTES_def)+

lemmas store_defs = update_runs_def update_attempts_def sql_update_def insert_attempt_def
  sql_insert_def run_check_def attempt_check_def run_unique_def attempt_unique_def
  lease_states_def slot_states_def lift_def one_row_def fenced_update_def transact_def Let_def

section \<open>Materialized and claimed\<close>

definition sample_run :: run_row where
  "sample_run = \<lparr>r_run_id = ''run'', r_job_id = ''job'', r_schedule_id = ''s'',
     r_job_generation = 0, r_schedule_generation = 0, r_scheduled_for = 5, r_coalesced_through = 5,
     r_definition_version = 1, r_definition_json = ''[1]'', r_capability_schema_version = 1,
     r_capability_digest = ''c'', r_capability_json = ''[1]'', r_targets_json = ''[1]'',
     r_execution_baseline_json = Some ''[1]'', r_policy_version = 1, r_policy_json = ''[1]'',
     r_state = Pending, r_attempt = 0, r_next_attempt_at = None, r_lease_owner = None,
     r_lease_expires_at = None, r_fence = 0, r_overlap_slot = Some 1,
     r_result_artifact_id = None, r_result_context = None,
     r_result_hash_algorithm = None, r_result_hash = None, r_error_kind = None,
     r_error_message = None, r_updated_at = 6, r_counter_limit_recorded = False\<rparr>"

definition empty_store :: store where
  "empty_store = \<lparr>st_runs = [], st_attempts = [], st_evidence = [], st_totals = \<lambda>_. Some 0,
     st_epoch = None, st_permits = []\<rparr>"

definition pending_store :: store where
  "pending_store = empty_store \<lparr>st_runs := [sample_run],
     st_totals := materialized_metrics 0 (\<lambda>_. Some 0)\<rparr>"

definition leased_store :: store where
  "leased_store = snd (claim_next_scheduled_run run_ext ''w'' 10 100 pending_store)"

definition leased_run_row :: run_row where
  "leased_run_row = sample_run \<lparr>r_state := Leased, r_attempt := 1, r_fence := 1,
     r_lease_owner := Some ''w'', r_lease_expires_at := Some 100, r_updated_at := 10\<rparr>"

definition first_binding :: run_lease_binding where
  "first_binding = \<lparr>binding_run_id = ''run'', binding_job_id = ''job'', binding_attempt = 1,
     binding_fence = 1, binding_lease_owner = ''w''\<rparr>"

lemma materialize_sample: "insert_run run_ext sample_run 0 empty_store = Inr (pending_store, 1)"
  by (simp add: insert_run_def store_defs sample_run_def empty_store_def pending_store_def)

lemma pending_reachable: "reachable run_ext pending_store"
proof -
  have "run_step run_ext empty_store pending_store"
    by (rule step_materialize [OF _ materialize_sample]) (simp add: fresh_run_def sample_run_def)
  moreover have "initial_store empty_store" by (simp add: initial_store_def empty_store_def)
  ultimately show ?thesis unfolding reachable_def by blast
qed

lemma leased_reachable: "reachable run_ext leased_store"
  unfolding leased_store_def claim_next_scheduled_run_def
  by (rule reachable_step [OF pending_reachable step_claim])

lemma sample_claim_result:
  "\<exists>c. claim_next_scheduled_run run_ext ''w'' 10 100 pending_store = (Inr (Some c), leased_store)"
  and leased_store_rows: "st_runs leased_store = [leased_run_row]"
    "st_attempts leased_store = [lease_attempt leased_run_row ''w'' 10 100]"
    "st_evidence leased_store = []" "st_permits leased_store = []" "st_epoch leased_store = None"
  by (simp_all add: leased_store_def claim_next_scheduled_run_def
      claim_next_scheduled_run_inner_def clock_at_def acquire_and_validate_executor_admission_def
      ensure_executor_admission_not_cancelled_def pending_store_def empty_store_def claimable_def
      due_def sample_run_def i64_max_def i64_min_def in_i64_def claim_selected_def store_defs
      claim_row_def sample_policy claimed_from_row_def lease_attempt_def positive_u32_def
      u32_max_def revalidate_executor_admission_def leased_run_row_def)

section \<open>Executing\<close>

definition run_profile :: attested_profile where
  "run_profile = \<lparr>attested_schema_version = 1, attested_canonical_json = ''[1]'',
     attested_hash_algorithm = ''kind'', attested_digest = ''kind''\<rparr>"

definition executing_store :: store where
  "executing_store =
     snd (mark_scheduled_run_executing run_ext first_binding run_profile 20 leased_store)"

definition executing_run_row :: run_row where
  "executing_run_row = leased_run_row \<lparr>r_state := Executing, r_updated_at := 20\<rparr>"

definition executing_attempt :: attempt_row where
  "executing_attempt = (lease_attempt leased_run_row ''w'' 10 100) \<lparr>a_state := AExecuting,
     a_preflight_completed_at := Some 20, a_executing_at := Some 20,
     a_profile_schema_version := Some 1, a_profile_json := Some ''[1]'',
     a_profile_hash_algorithm := Some ''kind'', a_profile_digest := Some ''kind''\<rparr>"

lemma executing_reachable: "reachable run_ext executing_store"
  unfolding executing_store_def by (rule reachable_step [OF leased_reachable step_start])

lemma first_binding_simps [simp]:
  "binding_run_id first_binding = ''run''" "binding_job_id first_binding = ''job''"
  "binding_attempt first_binding = 1" "binding_fence first_binding = 1"
  "binding_lease_owner first_binding = ''w''"
  by (simp_all add: first_binding_def)

lemmas row_defs = leased_run_row_def sample_run_def lease_attempt_def
  run_matches_def attempt_matches_def run_lease_after_def live_state_def live_attempt_def

lemma sample_binding_valid: "validate_lease_binding first_binding = Inr ()"
  by (simp add: validate_lease_binding_def check_all.simps)

lemma sample_start_result:
  "fst (mark_scheduled_run_executing run_ext first_binding run_profile 20 leased_store) = Inr ()"
  and executing_store_rows: "st_runs executing_store = [executing_run_row]"
    "st_attempts executing_store = [executing_attempt]" "st_evidence executing_store = []"
  by (simp_all add: executing_store_def mark_scheduled_run_executing_def sample_binding_valid
      attested_profile_validate_def run_profile_def validate_canonical_snapshot_def
      canonicalize_snapshot_def MAX_SNAPSHOT_BYTES_def store_defs row_defs leased_store_rows
      executing_run_row_def executing_attempt_def)

section \<open>Sent back and claimed again\<close>

definition retry_store :: store where
  "retry_store = snd (record_scheduled_run_preflight_failure run_ext first_binding
     (PreflightRetryAt 50) ''kind'' [] 20 leased_store)"

definition retry_run_row :: run_row where
  "retry_run_row = sample_run \<lparr>r_attempt := 1, r_fence := 1, r_next_attempt_at := Some 50,
     r_updated_at := 20\<rparr>"

definition retry_attempt :: attempt_row where
  "retry_attempt = (lease_attempt leased_run_row ''w'' 10 100) \<lparr>a_state := ARetryScheduled,
     a_preflight_completed_at := Some 20, a_completed_at := Some 20, a_error_kind := Some ''kind'',
     a_error_message := Some []\<rparr>"

lemma retry_reachable: "reachable run_ext retry_store"
  unfolding retry_store_def record_scheduled_run_preflight_failure_def
  by (rule reachable_step [OF leased_reachable step_preflight])

lemma retry_store_rows: "st_runs retry_store = [retry_run_row]"
    "st_attempts retry_store = [retry_attempt]" "st_evidence retry_store = []"
  by (simp_all add: retry_store_def record_scheduled_run_preflight_failure_def
      record_scheduled_run_preflight_failure_inner_def sample_binding_valid MAX_CONTEXT_BYTES_def
      preflight_disposition_of_def preflight_run_def preflight_attempt_def preflight_states_def
      store_defs row_defs leased_store_rows retry_run_row_def retry_attempt_def)

definition second_store :: store where
  "second_store = snd (claim_next_scheduled_run run_ext ''v'' 60 200 retry_store)"

definition second_run_row :: run_row where
  "second_run_row = retry_run_row \<lparr>r_state := Leased, r_attempt := 2, r_fence := 2,
     r_next_attempt_at := None, r_lease_owner := Some ''v'', r_lease_expires_at := Some 200,
     r_updated_at := 60\<rparr>"

lemma second_reachable: "reachable run_ext second_store"
  unfolding second_store_def claim_next_scheduled_run_def
  by (rule reachable_step [OF retry_reachable step_claim])

lemma second_store_rows: "st_runs second_store = [second_run_row]"
    "st_attempts second_store = [retry_attempt, lease_attempt second_run_row ''v'' 60 200]"
    "st_evidence second_store = []"
  by (simp_all add: second_store_def claim_next_scheduled_run_def
      claim_next_scheduled_run_inner_def clock_at_def acquire_and_validate_executor_admission_def
      ensure_executor_admission_not_cancelled_def retry_store_rows claimable_def
      due_def sample_run_def i64_max_def i64_min_def in_i64_def claim_selected_def store_defs
      claim_row_def sample_policy claimed_from_row_def lease_attempt_def positive_u32_def
      u32_max_def revalidate_executor_admission_def retry_run_row_def retry_attempt_def
      leased_run_row_def second_run_row_def)

section \<open>Failed\<close>

definition failed_store :: store where
  "failed_store = snd (record_scheduled_run_preflight_failure run_ext first_binding
     PreflightFail ''kind'' [] 20 leased_store)"

definition failed_run_row :: run_row where
  "failed_run_row = sample_run \<lparr>r_state := Failed, r_attempt := 1, r_fence := 1,
     r_overlap_slot := None, r_error_kind := Some ''kind'', r_error_message := Some [],
     r_updated_at := 20\<rparr>"

lemma failed_reachable: "reachable run_ext failed_store"
  unfolding failed_store_def record_scheduled_run_preflight_failure_def
  by (rule reachable_step [OF leased_reachable step_preflight])

lemma failed_store_rows: "st_runs failed_store = [failed_run_row]"
  by (simp add: failed_store_def record_scheduled_run_preflight_failure_def
      record_scheduled_run_preflight_failure_inner_def sample_binding_valid MAX_CONTEXT_BYTES_def
      preflight_disposition_of_def preflight_run_def preflight_attempt_def preflight_states_def
      store_defs row_defs leased_store_rows failed_run_row_def)

lemma failed_not_claimable:
  "claim_next_scheduled_run run_ext ''v'' 60 200 failed_store = (Inr None, failed_store)"
  by (simp add: claim_next_scheduled_run_def claim_next_scheduled_run_inner_def clock_at_def
      acquire_and_validate_executor_admission_def ensure_executor_admission_not_cancelled_def
      failed_store_rows failed_run_row_def claimable_def due_def claim_exhausted_def
      counter_exhausted_def revalidate_executor_admission_def store_defs)

end
