(* ===== verification/Run_Properties.thy ===== *)
theory Run_Properties
  imports Run_Sample
begin

text \<open>
  The properties of the run store, over every store its operations can reach, each with an
  application to the stores of \<open>Run_Sample\<close>.
\<close>

section \<open>Invariant and refinement\<close>

text \<open>
  The authority invariant. In every reachable store both authority tables satisfy their
  constraints, every leased or executing run has an attempt row with the same fence, owner, state
  and lease expiry, every live attempt is the current attempt of its run, no attempt is ahead of its
  run's counters, and no attempt has more late evidence than the quota.
\<close>

lemma reachable_store_invariant:
  assumes "reachable x db"
  shows "store_inv x db"
  using assms by (rule reachable_inv)

text \<open>
  C27: the store refines the abstract lifecycle. Over any sequence of operations from a reachable
  store no run row disappears, its snapshot columns never change, and its state and counters move
  only along the lifecycle: a claim is the one step that increments attempt and fence (together),
  only a leased run starts executing, and terminal states have no successor.
\<close>

theorem runs_follow_lifecycle:
  assumes "reachable x db" and "(run_step x)\<^sup>*\<^sup>* db db'" and "r \<in> set (st_runs db)"
  shows "\<exists>r' \<in> set (st_runs db'). run_snapshot r' = run_snapshot r \<and>
    life_step\<^sup>*\<^sup>* (r_state r, r_attempt r, r_fence r) (r_state r', r_attempt r', r_fence r')"
  using run_steps_preserve [OF assms(2)] reachable_inv [OF assms(1)] assms(3)
  by (auto simp: preserves_def advances_def evolves_def life_def)

lemma pending_to_second: "(run_step run_ext)\<^sup>*\<^sup>* pending_store second_store"
proof -
  have a: "run_step run_ext pending_store leased_store"
    unfolding leased_store_def claim_next_scheduled_run_def by (rule step_claim)
  have b: "run_step run_ext leased_store retry_store"
    unfolding retry_store_def record_scheduled_run_preflight_failure_def by (rule step_preflight)
  have c: "run_step run_ext retry_store second_store"
    unfolding second_store_def claim_next_scheduled_run_def by (rule step_claim)
  from a b c show ?thesis
    by (blast intro: converse_rtranclp_into_rtranclp r_into_rtranclp)
qed

theorem runs_follow_lifecycle_witness:
  "\<exists>r' \<in> set (st_runs second_store). run_snapshot r' = run_snapshot sample_run \<and>
    life_step\<^sup>*\<^sup>* (r_state sample_run, r_attempt sample_run, r_fence sample_run)
      (r_state r', r_attempt r', r_fence r')"
  by (rule runs_follow_lifecycle [OF pending_reachable pending_to_second])
    (simp add: pending_store_def)

text \<open>
  Once a run has succeeded or become \<open>outcome_unknown\<close>, no sequence of operations changes its state,
  attempt or fence; every other end can still be reopened by an operator.
\<close>

lemma terminal_runs_are_final:
  assumes "reachable x db" and "(run_step x)\<^sup>*\<^sup>* db db'" and "r \<in> set (st_runs db)"
    and "r_state r \<in> set terminal_states"
    and "r' \<in> set (st_runs db')" and "r_run_id r' = r_run_id r"
  shows "r_state r' = r_state r \<and> r_attempt r' = r_attempt r \<and> r_fence r' = r_fence r"
  using life_steps_final [OF _ assms(4)]
    run_later [OF reachable_inv [OF assms(1)] assms(2,3,5,6)]
  by (fastforce simp: evolves_def life_def)

section \<open>Fencing\<close>

lemma superseded_unmatched:
  assumes "store_inv x db" and "(run_step x)\<^sup>*\<^sup>* db db'" and "r \<in> set (st_runs db)"
    and "binding_run_id b = r_run_id r" and "binding_fence b < r_fence r"
  shows "\<forall>s \<in> set (st_runs db'). \<not> run_matches b s"
proof (intro ballI notI)
  fix s assume s: "s \<in> set (st_runs db')" "run_matches b s"
  then have "evolves r s"
    using run_later [OF assms(1-3) s(1)] assms(4) by (simp add: run_matches_def)
  then have "r_fence r \<le> r_fence s"
    using life_steps_counters [of "r_state r" "r_attempt r" "r_fence r" "r_state s" "r_attempt s"]
    by (simp add: evolves_def life_def)
  then show False using s(2) assms(5) by (simp add: run_matches_def)
qed

lemma steps_inv: "store_inv x db \<Longrightarrow> (run_step x)\<^sup>*\<^sup>* db db' \<Longrightarrow> store_inv x db'"
  using run_steps_preserve [of x db db'] by (simp add: preserves_def)

lemma transact_not_ok: "(\<And>db' u. m \<noteq> Inr (db', Inr u)) \<Longrightarrow> \<not> is_ok (fst (transact db m))"
  by (metis is_ok_iff prod.collapse transact_Inr)

lemma append_evidence_tables:
  assumes "append_late_evidence_in_transaction b kind digest at db = Inr (db', outcome)"
  shows "st_runs db' = st_runs db" and "st_attempts db' = st_attempts db"
  using assms insert_evidence_InrD(2,3)
  by (auto simp: append_late_evidence_in_transaction_def split: if_splits)

text \<open>A transaction that may only commit late evidence leaves the authority tables alone.\<close>

lemma stale_outcome_tables:
  assumes "\<forall>s \<in> set (st_runs db). \<not> run_matches b s"
  shows "st_runs (snd (record_scheduled_run_execution_outcome x b d kind message now db)) = st_runs db
    \<and> st_attempts (snd (record_scheduled_run_execution_outcome x b d kind message now db))
      = st_attempts db"
proof -
  have none: "executing_pair b now db = None"
    using assms by (auto simp: executing_pair_def find_None_iff)
  obtain v db' where eq: "record_scheduled_run_execution_outcome x b d kind message now db = (v, db')"
    by fastforce
  from eq have "st_runs db' = st_runs db \<and> st_attempts db' = st_attempts db"
    unfolding record_scheduled_run_execution_outcome_def
  proof (cases rule: transact_cases)
    case committed
    with none obtain db1 outcome where
      "append_late_evidence_in_transaction b CompletionAfterLeaseLoss
         (outcome_evidence x b kind message) now db = Inr (db1, outcome)"
      "increment_scheduler_transition_total StaleFenceRejected 1 db1 = Inr db'"
      by (auto split: if_splits)
    then show ?thesis
      using append_evidence_tables increment_same_tables by (simp add: same_tables_def)
  qed (auto simp: same_tables_def)
  with eq show ?thesis by simp
qed

text \<open>
  C9: a superseded worker is fenced out for good. Once a run carries a larger fence than a binding,
  then in every later store that binding can neither extend the lease nor start execution nor record
  a preflight failure (each call fails), and reporting an execution outcome leaves runs and attempts
  exactly as they are.
\<close>

theorem superseded_binding_is_fenced:
  assumes "reachable x db" and "(run_step x)\<^sup>*\<^sup>* db db'" and "r \<in> set (st_runs db)"
    and "binding_run_id b = r_run_id r" and "binding_fence b < r_fence r"
  shows "\<not> is_ok (fst (heartbeat_scheduled_run x b now expires db'))
    \<and> \<not> is_ok (fst (mark_scheduled_run_executing x b profile now db'))
    \<and> \<not> is_ok (fst (record_scheduled_run_preflight_failure_inner x b d snapshot kind message now db'))
    \<and> st_runs (snd (record_scheduled_run_execution_outcome x b disposition kind message now db'))
      = st_runs db'
    \<and> st_attempts (snd (record_scheduled_run_execution_outcome x b disposition kind message now db'))
      = st_attempts db'"
proof -
  have inv: "store_inv x db'" using steps_inv reachable_inv assms(1,2) by blast
  have stale: "\<forall>s \<in> set (st_runs db'). \<not> run_matches b s"
    by (rule superseded_unmatched [OF reachable_inv [OF assms(1)] assms(2-5)])
  note fenced = heartbeat.stale_update [OF inv stale] start.stale_update [OF inv stale]
    preflight.stale_update [OF inv stale]
  have "\<not> is_ok (fst (heartbeat_scheduled_run x b now expires db'))"
    unfolding heartbeat_scheduled_run_def
    by (rule transact_not_ok) (auto simp: fenced split: if_splits)
  moreover have "\<not> is_ok (fst (mark_scheduled_run_executing x b profile now db'))"
    unfolding mark_scheduled_run_executing_def by (rule transact_not_ok) (auto simp: fenced)
  moreover have
    "\<not> is_ok (fst (record_scheduled_run_preflight_failure_inner x b d snapshot kind message now db'))"
    unfolding record_scheduled_run_preflight_failure_inner_def
    by (rule transact_not_ok) (auto simp: fenced split: if_splits)
  ultimately show ?thesis using stale_outcome_tables [OF stale] by blast
qed

theorem superseded_binding_is_fenced_witness:
  "\<not> is_ok (fst (heartbeat_scheduled_run run_ext first_binding 70 150 second_store))
    \<and> \<not> is_ok (fst (mark_scheduled_run_executing run_ext first_binding run_profile 70 second_store))
    \<and> \<not> is_ok (fst (record_scheduled_run_preflight_failure_inner run_ext first_binding PreflightFail
        None ''kind'' [] 70 second_store))
    \<and> st_runs (snd (record_scheduled_run_execution_outcome run_ext first_binding
        (ExecutionTerminal TFailed) ''kind'' [] 70 second_store)) = st_runs second_store
    \<and> st_attempts (snd (record_scheduled_run_execution_outcome run_ext first_binding
        (ExecutionTerminal TFailed) ''kind'' [] 70 second_store)) = st_attempts second_store"
  by (rule superseded_binding_is_fenced [OF second_reachable rtranclp.rtrancl_refl,
        where r = second_run_row])
    (simp_all add: second_store_rows second_run_row_def retry_run_row_def sample_run_def)

end
