(* ===== verification/Run_Claims.thy ===== *)
theory Run_Claims
  imports Run_Properties
begin

text \<open>
  Leases: who may hold one, how one is granted, and what a claim leaves behind. Overlap, exclusive
  leases, the claim contract and admission control.
\<close>

section \<open>Exclusive leases\<close>

lemma slot_holder_unique:
  assumes "store_inv x db" and "r \<in> set (st_runs db)" and "s \<in> set (st_runs db)"
    and "r_job_id r = r_job_id s"
    and "r_state r \<in> set slot_states" and "r_state s \<in> set slot_states"
  shows "r = s"
proof -
  have inv: "table_ok (run_check x) run_unique (st_runs db)"
    using assms(1) by (simp add: store_inv_def)
  have slots: "r_overlap_slot r = Some 1" "r_overlap_slot s = Some 1"
    using inv assms(2,3,5,6) by (auto simp: table_ok_def list_all_iff run_check_def)
  have "inj_on (\<lambda>r. (r_job_id r, r_overlap_slot r))
      (set (filter (\<lambda>r. r_overlap_slot r \<noteq> None) (st_runs db)))"
    using inv by (simp add: table_ok_def run_unique_def distinct_map)
  then show ?thesis by (rule inj_onD) (use assms slots in auto)
qed

text \<open>
  One run at a time per job. In a reachable store two runs of the same job that are both
  pending, leased, executing or of unknown outcome are the same run, so a job never overlaps itself.
\<close>

lemma job_runs_never_overlap:
  assumes "reachable x db" and "r \<in> set (st_runs db)" and "s \<in> set (st_runs db)"
    and "r_job_id r = r_job_id s"
    and "r_state r \<in> set slot_states" and "r_state s \<in> set slot_states"
  shows "r = s"
  by (rule slot_holder_unique [OF reachable_inv [OF assms(1)] assms(2-6)])

lemma live_attempt_current:
  assumes "store_inv x db" and "a \<in> set (st_attempts db)" and "live_attempt a"
  obtains r where "r \<in> set (st_runs db)" "current r a"
  using assms by (auto simp: store_inv_def coherent_def)

text \<open>
  The live attempt holds the newest fence. In a reachable store a live attempt is the only live
  attempt of its run, and no attempt of that run, past or present, has a larger fence or number.
\<close>

lemma live_attempt_has_newest_fence:
  assumes "reachable x db" and "a \<in> set (st_attempts db)" and "live_attempt a"
    and "a' \<in> set (st_attempts db)" and "a_run_id a' = a_run_id a"
  shows "a_fence a' \<le> a_fence a \<and> a_attempt a' \<le> a_attempt a \<and> (live_attempt a' \<longrightarrow> a' = a)"
proof -
  have inv: "store_inv x db" by (rule reachable_inv [OF assms(1)])
  obtain r where r: "r \<in> set (st_runs db)" "current r a"
    by (rule live_attempt_current [OF inv assms(2,3)])
  obtain r' where r': "r' \<in> set (st_runs db)" "r_run_id r' = a_run_id a'"
      "a_attempt a' \<le> r_attempt r'" "a_fence a' \<le> r_fence r'" "live_attempt a' \<longrightarrow> current r' a'"
    using inv assms(4) unfolding store_inv_def coherent_def by metis
  have j: "joined r a" by (rule current_joined [OF r(2)])
  then have "r' = r"
    using runs.key_inj [of x "st_runs db" r' r] r r' inv assms(5)
    by (simp add: store_inv_def joined_def)
  moreover have "a' = a" if "joined r a'"
    using attempts.key_inj [of x "st_attempts db" a' a] assms(2,4,5) that j inv
    by (simp add: store_inv_def joined_def)
  ultimately show ?thesis using r' j current_joined by (auto simp: joined_def)
qed

lemma heartbeat_ok:
  assumes "is_ok (fst (heartbeat_scheduled_run x b now expires db))"
  obtains r where "r \<in> set (st_runs db)" "run_matches b r" "live_state r" "run_lease_after now r"
proof -
  obtain db' where "heartbeat_scheduled_run x b now expires db = (Inr (), db')"
    using assms by (cases "heartbeat_scheduled_run x b now expires db") (auto simp: is_ok_iff)
  then obtain db1 where "update_runs x
      (\<lambda>r. run_matches b r \<and> live_state r
         \<and> (case r_lease_expires_at r of None \<Rightarrow> False | Some t \<Rightarrow> t > now \<and> expires > t))
      (\<lambda>r. r \<lparr>r_lease_expires_at := Some expires, r_updated_at := now\<rparr>) db = Inr (db1, 1)"
    unfolding heartbeat_scheduled_run_def transact_Inr
    by (auto simp: fenced_update_eq_Inr split: if_splits)
  then obtain r where "r \<in> set (st_runs db)" "run_matches b r" "live_state r"
      "case r_lease_expires_at r of None \<Rightarrow> False | Some t \<Rightarrow> t > now \<and> expires > t"
    using update_oneD [OF update_runs_InrD(1)] by blast
  then show ?thesis using that [of r] by (auto simp: run_lease_after_def split: option.splits)
qed

text \<open>
  A lease has one holder. If in a reachable store two bindings for the same run can both extend
  the lease, they are the same binding: same job, attempt, fence and owner.
\<close>

lemma lease_has_one_holder:
  assumes "reachable x db"
    and "is_ok (fst (heartbeat_scheduled_run x b now expires db))"
    and "is_ok (fst (heartbeat_scheduled_run x c now' expires' db))"
    and "binding_run_id b = binding_run_id c"
  shows "b = c"
proof -
  obtain r where r: "r \<in> set (st_runs db)" "run_matches b r" by (rule heartbeat_ok [OF assms(2)])
  obtain s where s: "s \<in> set (st_runs db)" "run_matches c s" by (rule heartbeat_ok [OF assms(3)])
  have "r = s"
    using runs.key_inj [of x "st_runs db" r s] reachable_inv [OF assms(1)] r s assms(4)
    by (simp add: store_inv_def run_matches_def)
  then show ?thesis using r(2) s(2) by (simp add: run_matches_def)
qed

lemma sample_heartbeat: "is_ok (fst (heartbeat_scheduled_run run_ext first_binding 20 150 leased_store))"
  by (simp add: heartbeat_scheduled_run_def sample_binding_valid store_defs row_defs
      leased_store_rows)

end
