(* ===== verification/Run_Admission.thy ===== *)
theory Run_Admission
  imports Run_Claims
begin

text \<open>
  The contract of a claim and of executor admission: which run is taken, under which binding, and
  under which authority.
\<close>

section \<open>Claims\<close>

text \<open>What a successful claim with an explicit lease did.\<close>

lemma claimE:
  assumes "claim_next_scheduled_run x owner now expires db = (Inr (Some c), db')"
  obtains m db1 n baseline where
    "m \<in> set (st_runs db)" "claimable now m"
    "\<forall>r \<in> set (st_runs db). claimable now r \<longrightarrow>
       (r_scheduled_for m, r_run_id m) \<le> (r_scheduled_for r, r_run_id r)"
    "expires > now"
    "update_runs x (\<lambda>r. r_run_id r = r_run_id m \<and> claimable now r)
       (claim_row x owner expires now) db = Inr (db1, n)"
    "insert_attempt x (lease_attempt (claim_row x owner expires now m) owner now expires) db1 = Inr db'"
    "claimed_from_row x (row_binding (claim_row x owner expires now m) owner) baseline
       (claim_row x owner expires now m) = Inr c"
proof -
  have gt: "expires > now" and body: "(case select_min (\<lambda>r. (r_scheduled_for r, r_run_id r))
      (claimable now) (st_runs db) of
        None \<Rightarrow> claim_exhausted x None (clock_at now) db
      | Some m \<Rightarrow> claim_selected x owner expires None (clock_at now) m db) = Inr (db', Inr (Some c))"
    using assms
    unfolding claim_next_scheduled_run_def claim_next_scheduled_run_inner_def transact_Inr
    by (auto simp: clock_at_def Let_def split: if_splits)
  show ?thesis
  proof (cases "select_min (\<lambda>r. (r_scheduled_for r, r_run_id r)) (claimable now) (st_runs db)")
    case None
    then show ?thesis using body
      by (auto simp: claim_exhausted_def Let_def split: if_splits)
  next
    case (Some m)
    have sel: "claim_selected x owner expires None (clock_at now) m db = Inr (db', Inr (Some c))"
      using body Some by simp
    have lease: "r_lease_expires_at (claim_row x owner expires now m) = Some expires"
      using gt by (simp add: claim_row_def)
    from sel obtain db1 n baseline where
      "update_runs x (\<lambda>r. r_run_id r = r_run_id m \<and> claimable now r)
         (claim_row x owner expires now) db = Inr (db1, n)"
      "insert_attempt x (lease_attempt (claim_row x owner expires now m) owner now expires) db1 = Inr db'"
      "claimed_from_row x (row_binding (claim_row x owner expires now m) owner) baseline
         (claim_row x owner expires now m) = Inr c"
      unfolding claim_selected_def
      by (auto simp: Let_def clock_at_def lease row_binding_def split: if_splits)
    with that gt select_min_SomeD [OF Some] show ?thesis by blast
  qed
qed

lemma claimed_binding_of:
  "claimed_from_row x b baseline r = Inr c \<Longrightarrow> claimed_binding c = b"
  by (auto simp: claimed_from_row_def)

text \<open>
  The claim contract. A successful claim takes the due pending run with the smallest scheduled
  time and run id, hands out a binding whose attempt and fence are one above the run's, and commits
  a leased attempt with exactly that binding and the requested lease; every other run row is
  untouched.
\<close>

lemma claim_takes_oldest_due_run:
  assumes "reachable x db"
    and "claim_next_scheduled_run x owner now expires db = (Inr (Some c), db')"
  shows "\<exists>m \<in> set (st_runs db). claimable now m
    \<and> (\<forall>r \<in> set (st_runs db). claimable now r \<longrightarrow>
         (r_scheduled_for m, r_run_id m) \<le> (r_scheduled_for r, r_run_id r))
    \<and> claimed_binding c = \<lparr>binding_run_id = r_run_id m, binding_job_id = r_job_id m,
         binding_attempt = r_attempt m + 1, binding_fence = r_fence m + 1,
         binding_lease_owner = owner\<rparr>
    \<and> (\<exists>a \<in> set (st_attempts db'). attempt_matches (claimed_binding c) a \<and> a_state a = ALeased
         \<and> a_lease_expires_at a = expires \<and> now < expires)
    \<and> (\<forall>r \<in> set (st_runs db). r \<noteq> m \<longrightarrow> r \<in> set (st_runs db'))"
  using assms(2)
proof (cases rule: claimE)
  case (1 m db1 n baseline)
  note R = update_runs_InrD [OF 1(5)] and A = insert_attempt_InrD [OF 1(6)]
  have b: "claimed_binding c = \<lparr>binding_run_id = r_run_id m, binding_job_id = r_job_id m,
      binding_attempt = r_attempt m + 1, binding_fence = r_fence m + 1, binding_lease_owner = owner\<rparr>"
    using claimed_binding_of [OF 1(7)] by (simp add: row_binding_def claim_row_keys)
  have "r \<in> set (st_runs db')" if "r \<in> set (st_runs db)" "r \<noteq> m" for r
  proof -
    have "r_run_id r \<noteq> r_run_id m"
      using runs.key_inj [of x "st_runs db" r m] reachable_inv [OF assms(1)] that 1(1)
      by (auto simp: store_inv_def)
    then show ?thesis using update_unselected [OF R(1) that(1)] A(2) by simp
  qed
  moreover have "lease_attempt (claim_row x owner expires now m) owner now expires
      \<in> set (st_attempts db')"
    using sql_insert_InrD(1) [OF A(1)] by simp
  ultimately show ?thesis
    using 1(1-4) b
    by (intro bexI [of _ m] conjI bexI [of _ "lease_attempt (claim_row x owner expires now m)
          owner now expires"])
      (auto simp: attempt_matches_def lease_attempt_def claim_row_keys)
qed

section \<open>Admission\<close>

lemma rbind_lift_lost [simp]:
  "rbind (lift m) k = Inl LostLease \<longleftrightarrow> (\<exists>v. m = Inr v \<and> k v = Inl LostLease)"
  by (cases m) simp_all

lemma lift_no_lost [simp]: "lift m \<noteq> Inl LostLease"
  by (cases m) simp_all

lemma claim_no_lost:
  "claim_exhausted x admission env db \<noteq> Inl LostLease"
  "claim_selected x owner requested admission env m db \<noteq> Inl LostLease"
  by (auto simp: claim_exhausted_def claim_selected_def Let_def split: if_splits)

text \<open>The error a claim commits anyway: the counters of a due run are exhausted.\<close>

lemma claim_committed_error:
  "claim_exhausted x admission env db = Inr (db', Inl e) \<Longrightarrow> e = ScheduledRunCounterExhausted"
  "claim_selected x owner requested admission env m db \<noteq> Inr (db', Inl e)"
  by (auto simp: claim_exhausted_def claim_selected_def Let_def split: if_splits)

text \<open>
  A refused claim leaves nothing behind. Whenever a claim, with or without admission, returns an
  error other than counter exhaustion, the store is exactly as before: no attempt, no fence, no
  counter and no failed run survives an admission that expires, rotates or is cancelled.
\<close>

lemma refused_claim_changes_nothing:
  assumes "claim_next_scheduled_run_inner x owner now expires admission env db = (Inl e, db')"
    and "e \<noteq> ScheduledRunCounterExhausted"
  shows "db' = db"
  using assms(1) unfolding claim_next_scheduled_run_inner_def
proof (cases rule: transact_cases)
  case lost
  then show ?thesis
    by (auto simp: Let_def claim_no_lost rbind_eq_Inl split: option.splits if_splits)
next
  case committed
  then show ?thesis
    using assms(2) claim_committed_error
    by (auto simp: Let_def split: if_splits option.splits)
qed

definition late_admission :: executor_admission where
  "late_admission = \<lparr>admission_schema_version = 1, admission_deployment_epoch = 1,
     admission_attestation_id = zero_digest, admission_profile_digest = zero_digest,
     admission_signed_not_after = 50, admission_operation_deadline = 40\<rparr>"

definition admitted_store :: store where
  "admitted_store = pending_store \<lparr>st_epoch := Some \<lparr>ep_authority =
     \<lparr>epoch_schema_version = 1, epoch_deployment_epoch = 1, epoch_attestation_id = zero_digest,
      epoch_attestation_digest = zero_digest, epoch_profile_digest = zero_digest,
      epoch_issued_at = 1, epoch_expires_at = 50\<rparr>, ep_registered_at = 2\<rparr>\<rparr>"

lemma late_admission_valid: "admission_validate late_admission = Inr ()"
  using zero_digest_hex
  by (simp add: admission_validate_def late_admission_def check_all_eq_Inr
      validate_lowercase_sha256_def is_lowercase_hex_def)

text \<open>The admission is current when the claim starts and past its deadline at commit.\<close>

lemma late_claim:
  "fst (claim_next_scheduled_run_with_admission run_ext ''w'' 10 100 late_admission
     ((clock_at 10) \<lparr>clock_commit := 40\<rparr>) admitted_store) = Inl ScheduledExecutorAdmissionUnavailable"
  by (simp add: claim_next_scheduled_run_with_admission_def claim_next_scheduled_run_inner_def
      clock_at_def acquire_and_validate_executor_admission_def
      late_admission_valid [unfolded late_admission_def]
      revalidate_executor_admission_def ensure_executor_admission_not_cancelled_def
      late_admission_def admitted_store_def pending_store_def empty_store_def claimable_def due_def
      sample_run_def i64_max_def i64_min_def in_i64_def claim_selected_def store_defs claim_row_def
      sample_policy claimed_from_row_def lease_attempt_def positive_u32_def u32_max_def)

section \<open>Epochs and permits\<close>

text \<open>
  Deployment epochs never go back. A registration that succeeds leaves exactly the registered
  authority current; it activates it when its epoch is larger than the current one and resumes it
  when it is the same authority; otherwise registration fails and the store is unchanged. The
  current epoch therefore never decreases and one epoch never changes its authority.
\<close>

lemma epoch_registration_is_monotone:
  assumes "epoch_authority_validate authority now = Inr ()"
  shows "register_scheduled_executor_epoch authority now db =
    (case st_epoch db of
       None \<Rightarrow> (Inr Activated,
         db \<lparr>st_epoch := Some \<lparr>ep_authority = authority, ep_registered_at = now\<rparr>\<rparr>)
     | Some old \<Rightarrow>
         if epoch_deployment_epoch (ep_authority old) < epoch_deployment_epoch authority
         then (Inr Activated,
           db \<lparr>st_epoch := Some \<lparr>ep_authority = authority, ep_registered_at = now\<rparr>\<rparr>)
         else if ep_authority old = authority then (Inr Resumed, db)
         else (Inl (InvalidSchedulerState
           ''scheduled executor epoch rollback or same-epoch authority conflict''), db))"
  using assms
  by (auto simp: register_scheduled_executor_epoch_def transact_def Let_def
      split: option.splits)

definition sample_epoch :: epoch_authority where
  "sample_epoch = \<lparr>epoch_schema_version = 1, epoch_deployment_epoch = 1,
     epoch_attestation_id = zero_digest, epoch_attestation_digest = zero_digest,
     epoch_profile_digest = zero_digest, epoch_issued_at = 1, epoch_expires_at = 50\<rparr>"

lemma sample_epoch_valid: "epoch_authority_validate sample_epoch 10 = Inr ()"
  using zero_digest_hex
  by (simp add: epoch_authority_validate_def sample_epoch_def check_all_eq_Inr
      validate_lowercase_sha256_def is_lowercase_hex_def)

text \<open>Only epoch registration and permit consumption touch the executor tables.\<close>

definition keeps_executor :: "store \<Rightarrow> store \<Rightarrow> bool" where
  "keeps_executor db db' \<longleftrightarrow> st_permits db' = st_permits db \<and> st_epoch db' = st_epoch db"

named_theorems executor_intros "statements that leave the executor tables alone"

lemma keeps_executor_refl [executor_intros]: "keeps_executor db db"
  by (simp add: keeps_executor_def)

lemma keeps_executor_trans: "keeps_executor a b \<Longrightarrow> keeps_executor b c \<Longrightarrow> keeps_executor a c"
  by (simp add: keeps_executor_def)

lemma keeps_executor_statements [executor_intros]:
  "same_tables db db' \<Longrightarrow> keeps_executor db db'"
  "update_runs x w f db = Inr (db', n) \<Longrightarrow> keeps_executor db db'"
  "update_attempts x wa fa db = Inr (db', n) \<Longrightarrow> keeps_executor db db'"
  "insert_attempt x a db = Inr db' \<Longrightarrow> keeps_executor db db'"
  "insert_evidence e db = Inr db' \<Longrightarrow> keeps_executor db db'"
  "insert_run x r skipped db = Inr (db', n) \<Longrightarrow> keeps_executor db db'"
  using update_runs_InrD(4,5) [of x w f db db' n] update_attempts_InrD(4,5) [of x wa fa db db' n]
    insert_attempt_InrD(5,6) [of x a db db'] insert_evidence_InrD(4,5) [of e db db']
  by (auto simp: keeps_executor_def same_tables_def insert_run_def split: if_splits)

lemma keeps_executor_fenced [executor_intros]:
  assumes "fenced_update x wr fr wa fa db = Inr db'"
  shows "keeps_executor db db'"
  using assms keeps_executor_trans [OF keeps_executor_statements(2) keeps_executor_statements(3)]
  by (auto simp: fenced_update_eq_Inr)

lemma keeps_executor_counted [executor_intros]:
  "increment_scheduler_transition_total kind n db = Inr db' \<Longrightarrow> keeps_executor db db'"
  "count_reclaim s safe db = Inr db' \<Longrightarrow> keeps_executor db db'"
  by (auto intro: keeps_executor_statements(1) increment_same_tables count_reclaim_same_tables)

lemma transact_keeps_executor:
  assumes "\<And>db' v. m = Inr (db', v) \<Longrightarrow> keeps_executor db db'"
  shows "keeps_executor db (snd (transact db m))"
proof (cases "transact db m")
  case (Pair v db')
  from Pair have "keeps_executor db db'"
    by (cases rule: transact_cases) (auto intro: executor_intros assms)
  with Pair show ?thesis by simp
qed

lemma keeps_executor_evidence [executor_intros]:
  "append_late_evidence_in_transaction b kind digest at db = Inr (db', outcome)
     \<Longrightarrow> keeps_executor db db'"
  by (auto simp: append_late_evidence_in_transaction_def split: if_splits intro: executor_intros)

lemma keeps_executor_claim [executor_intros]:
  "claim_exhausted x admission env db = Inr (db', v) \<Longrightarrow> keeps_executor db db'"
  "claim_selected x owner requested admission env m db = Inr (db', v) \<Longrightarrow> keeps_executor db db'"
  "fail_exhausted_runs x now db = Inr (db', n) \<Longrightarrow> keeps_executor db db'"
  by (auto simp: claim_exhausted_def claim_selected_def fail_exhausted_runs_def Let_def
      split: if_splits intro: executor_intros
      keeps_executor_trans [OF keeps_executor_statements(2) keeps_executor_counted(1)]
      keeps_executor_trans [OF keeps_executor_statements(2) keeps_executor_statements(4)])

lemma keeps_executor_operations:
  "keeps_executor db (snd (heartbeat_scheduled_run x b now at db))"
  "keeps_executor db (snd (mark_scheduled_run_executing x b profile now db))"
  "keeps_executor db
     (snd (record_scheduled_run_preflight_failure_inner x b d snapshot kind message now db))"
  "keeps_executor db (snd (append_scheduled_run_late_evidence b ev digest now db))"
  unfolding heartbeat_scheduled_run_def mark_scheduled_run_executing_def
    record_scheduled_run_preflight_failure_inner_def append_scheduled_run_late_evidence_def
  by (rule transact_keeps_executor; auto split: if_splits intro: executor_intros)+

lemma keeps_executor_claiming:
  "keeps_executor db (snd (claim_next_scheduled_run_inner x owner now expires admission env db))"
  unfolding claim_next_scheduled_run_inner_def
proof (rule transact_keeps_executor, goal_cases)
  case (1 db' v)
  then show ?case
    by (auto simp: Let_def split: if_splits option.splits intro: executor_intros)
      (blast intro: executor_intros keeps_executor_trans [OF keeps_executor_claim(3)])+
qed

lemma keeps_executor_outcome:
  "keeps_executor db (snd (record_scheduled_run_execution_outcome x b d kind message now db))"
  unfolding record_scheduled_run_execution_outcome_def
  by (rule transact_keeps_executor)
    (auto split: if_splits option.splits simp: keeps_executor_def 
      dest!: keeps_executor_fenced keeps_executor_evidence keeps_executor_counted(1))

lemma keeps_executor_reclaim:
  "keeps_executor db (snd (reclaim_next_expired_scheduled_run_inner x now override db))"
  unfolding reclaim_next_expired_scheduled_run_inner_def
  by (rule transact_keeps_executor)
    (auto simp: Let_def keeps_executor_def split: option.splits prod.splits
      dest!: keeps_executor_fenced keeps_executor_counted(2))

lemma keeps_executor_stale [executor_intros]:
  "reconcile_stale db = Inr (db', v) \<Longrightarrow> keeps_executor db db'"
  by (auto simp: reconcile_stale_def intro: keeps_executor_counted)

lemma keeps_executor_confirmed [executor_intros]:
  assumes "reconcile_confirmed x r owner expires expected now db = Inr (db', v)"
  shows "keeps_executor db db'"
  using assms unfolding reconcile_confirmed_def Let_def
  by (auto split: if_splits simp: keeps_executor_def dest!: keeps_executor_stale
      keeps_executor_statements(2,3) keeps_executor_counted(2))

lemma keeps_executor_reconcile:
  "keeps_executor db (snd (reconcile_expired_scheduled_run x run_id state attempt fence owner expires
     expected now db))"
  unfolding reconcile_expired_scheduled_run_def
  by (rule transact_keeps_executor)
    (auto split: if_splits option.splits intro: keeps_executor_refl keeps_executor_stale
      keeps_executor_confirmed)

lemma keeps_executor_cancel:
  assumes "cancel_pre_execution_runs x job_id generation now db = Inr db'"
  shows "keeps_executor db db'"
  using assms
  by (cases rule: cancelE)
    (auto simp: keeps_executor_def dest!: keeps_executor_statements(2,3))

lemma register_permits: "st_permits (snd (register_scheduled_executor_epoch authority now db)) = st_permits db"
proof (cases "register_scheduled_executor_epoch authority now db")
  case (Pair v db')
  from Pair have "st_permits db' = st_permits db"
    unfolding register_scheduled_executor_epoch_def
    by (cases rule: transact_cases) (auto simp: Let_def same_tables_def split: prod.splits if_splits)
  with Pair show ?thesis by simp
qed

lemma consumeE:
  assumes "consume_scheduled_execution_permit p db = (v, db')"
  obtains (refused) e where "v = Inl e" "db' = db"
  | (consumed) row where "v = Inr ()" "pm_permit row = p" "st_permits db' = st_permits db @ [row]"
      "permit_unique (st_permits db')"
  using assms unfolding consume_scheduled_execution_permit_def
proof (cases rule: transact_cases)
  case lost
  then show ?thesis by (auto simp: Let_def split: option.splits if_splits)
next
  case committed
  then obtain e where "v = Inr ()" "st_epoch db = Some e"
      "db' = db \<lparr>st_permits := st_permits db @ [\<lparr>pm_permit = p,
         pm_authority_expires_at = epoch_expires_at (ep_authority e)\<rparr>]\<rparr>"
      "permit_unique (st_permits db')"
    by (auto simp: Let_def split: option.splits if_splits)
  then show ?thesis
    by (intro consumed [of "\<lparr>pm_permit = p,
          pm_authority_expires_at = epoch_expires_at (ep_authority e)\<rparr>"]) simp_all
qed (use refused in auto)

lemma step_permits: "run_step x db db' \<Longrightarrow> set (st_permits db) \<subseteq> set (st_permits db')"
proof (induction rule: run_step.induct)
  case (step_permit db permit)
  obtain v db' where eq: "consume_scheduled_execution_permit permit db = (v, db')" by fastforce
  from eq have "set (st_permits db) \<subseteq> set (st_permits db')" by (cases rule: consumeE) auto
  with eq show ?case by simp
next
  case (step_materialize r skipped db db' n)
  then show ?case using keeps_executor_statements(6) by (fastforce simp: keeps_executor_def)
next
  case (step_cancel job_id generation now db db')
  then show ?case using keeps_executor_cancel by (fastforce simp: keeps_executor_def)
next
  case (step_complete b artifacts artifact_id ctxt hash now db db')
  then show ?case
    by (cases rule: complete_rowsE)
      (simp add: update_attempts_InrD(5) update_runs_InrD(5))
next
  case (step_reopen state run_id attempt fence next_attempt_at now db db' n)
  then show ?case by (simp add: reopen_run_def update_runs_InrD(5))
next
  case (step_metric db db')
  then show ?case by (simp add: same_tables_def)
qed (use keeps_executor_operations keeps_executor_claiming keeps_executor_outcome
    keeps_executor_reclaim keeps_executor_reconcile register_permits
    in \<open>simp_all add: keeps_executor_def\<close>)

lemma steps_permits: "(run_step x)\<^sup>*\<^sup>* db db' \<Longrightarrow> set (st_permits db) \<subseteq> set (st_permits db')"
  by (induction rule: rtranclp_induct) (use step_permits in blast)+

text \<open>
  C24: an execution permit is consumed at most once. After a permit has been consumed, whatever of
  the modelled operations follow, consuming any permit with the same id, or for the same run, attempt and fence,
  or with the same nonce in the same deployment epoch, fails and changes nothing.
\<close>

theorem permit_is_single_use:
  assumes "consume_scheduled_execution_permit p db = (Inr (), db1)"
    and "(run_step x)\<^sup>*\<^sup>* db1 db2"
    and "permit_id q = permit_id p
      \<or> (permit_run_id q, permit_attempt q, permit_fence q) =
        (permit_run_id p, permit_attempt p, permit_fence p)
      \<or> (permit_deployment_epoch q, permit_nonce q) = (permit_deployment_epoch p, permit_nonce p)"
  shows "\<not> is_ok (fst (consume_scheduled_execution_permit q db2))
    \<and> snd (consume_scheduled_execution_permit q db2) = db2"
proof -
  obtain row where row: "pm_permit row = p" "row \<in> set (st_permits db2)"
    using assms(1) steps_permits [OF assms(2)] by (elim consumeE) auto
  obtain v db3 where eq: "consume_scheduled_execution_permit q db2 = (v, db3)" by fastforce
  from eq show ?thesis
  proof (cases rule: consumeE)
    case (consumed new)
    then show ?thesis using row assms(3) by (force simp: permit_unique_def)
  qed (use eq in simp)
qed

definition sample_permit :: execution_permit where
  "sample_permit = \<lparr>permit_deployment_epoch = 1, permit_attestation_id = zero_digest, permit_profile_digest = zero_digest,
     permit_run_id = ''run'', permit_job_id = ''job'', permit_attempt = 1, permit_fence = 1,
     permit_authority_digest = zero_digest, permit_nonce = zero_digest, permit_id = zero_digest,
     permit_consumed_at = 20\<rparr>"

lemma sample_permit_consumed:
  "fst (consume_scheduled_execution_permit sample_permit admitted_store) = Inr ()"
  using zero_digest_hex
  by (simp add: consume_scheduled_execution_permit_def permit_validate_def sample_permit_def
      check_all.simps guard_err_def validate_lowercase_sha256_def is_lowercase_hex_def admitted_store_def
      pending_store_def empty_store_def epoch_admits_def permit_unique_def transact_def Let_def)

theorem permit_is_single_use_witness:
  "\<not> is_ok (fst (consume_scheduled_execution_permit sample_permit
       (snd (consume_scheduled_execution_permit sample_permit admitted_store))))
    \<and> snd (consume_scheduled_execution_permit sample_permit
       (snd (consume_scheduled_execution_permit sample_permit admitted_store)))
      = snd (consume_scheduled_execution_permit sample_permit admitted_store)"
  by (rule permit_is_single_use [OF _ rtranclp.rtrancl_refl, where p = sample_permit
        and db = admitted_store])
    (simp_all add: sample_permit_consumed prod_eq_iff)

end
