(* ===== verification/Run_Recovery.thy ===== *)
theory Run_Recovery
  imports Run_Admission
begin

text \<open>
  Recovery: reclaiming and reconciling expired leases, the retry decision after an execution
  failure, and the two transitions the table constraints turn into errors.
\<close>

section \<open>Updates that respect the uniqueness constraints\<close>

text \<open>A statement that keeps a run's keys and never takes an overlap slot keeps uniqueness.\<close>

lemma run_unique_update:
  assumes "run_unique rows"
    and f: "\<And>r. r \<in> set rows \<Longrightarrow> r_run_id (f r) = r_run_id r \<and> r_job_id (f r) = r_job_id r
      \<and> r_scheduled_for (f r) = r_scheduled_for r
      \<and> (r_overlap_slot (f r) = None \<or> r_overlap_slot (f r) = r_overlap_slot r)"
  shows "run_unique (map f rows)"
proof -
  let ?slot = "\<lambda>r. r_overlap_slot r \<noteq> None"
  have maps: "map (\<lambda>r. r_run_id (f r)) rows = map r_run_id rows"
    "map (\<lambda>r. (r_job_id (f r), r_scheduled_for (f r))) rows =
      map (\<lambda>r. (r_job_id r, r_scheduled_for r)) rows"
    using f by simp_all
  have slot: "r_overlap_slot (f r) = r_overlap_slot r \<and> r_job_id (f r) = r_job_id r"
    if "r \<in> set rows" "?slot (f r)" for r
    using f [OF that(1)] that(2) by auto
  have "map (\<lambda>r. (r_job_id r, r_overlap_slot r)) (filter ?slot (map f rows)) =
      map (\<lambda>r. (r_job_id r, r_overlap_slot r)) (filter (\<lambda>r. ?slot (f r)) rows)"
    unfolding filter_map map_map by (rule map_cong) (use slot in \<open>auto simp: comp_def\<close>)
  moreover have "distinct \<dots>"
    by (rule distinct_map_filter_weaken [where P = ?slot])
      (use assms(1) slot in \<open>auto simp: run_unique_def\<close>)
  ultimately show ?thesis
    using assms(1) unfolding run_unique_def map_map comp_def maps by simp
qed

lemma attempt_unique_update:
  assumes "attempt_unique rows"
    and "\<And>a. a_run_id (f a) = a_run_id a \<and> a_attempt (f a) = a_attempt a \<and> a_fence (f a) = a_fence a"
  shows "attempt_unique (map f rows)"
  using assms by (simp add: attempt_unique_def comp_def)

lemma update_runs_one:
  assumes inv: "store_inv x db" and r: "r \<in> set (st_runs db)" "w r"
    and id: "\<And>s. w s \<Longrightarrow> r_run_id s = r_run_id r"
    and check: "run_check x (f r)"
    and keys: "\<And>s. run_snapshot (f s) = run_snapshot s"
      "r_overlap_slot (f r) = None \<or> r_overlap_slot (f r) = r_overlap_slot r"
  shows "\<exists>db'. update_runs x w f db = Inr (db', 1)"
proof -
  have tab: "table_ok (run_check x) run_unique (st_runs db)"
    using inv by (simp add: store_inv_def)
  have only: "s = r" if "s \<in> set (st_runs db)" "w s" for s
    using runs.key_inj [OF tab that(1) r(1)] id [OF that(2)] by simp
  have "run_unique (map (\<lambda>s. if w s then f s else s) (st_runs db))"
    by (rule run_unique_update)
      (use tab only keys run_snapshot_keys [OF keys(1)] in \<open>auto simp: table_ok_def\<close>)
  moreover have "filter w (st_runs db) = [r]"
    using runs.filter_key [OF tab r(1), of w] r(2) id by blast
  moreover have "\<not> list_ex (\<lambda>s. w s \<and> \<not> run_check x (f s)) (st_runs db)"
    using only check by (auto simp: list_ex_iff)
  ultimately show ?thesis by (simp add: update_runs_def sql_update_def Let_def)
qed

lemma update_attempts_one:
  assumes inv: "store_inv x db" and a: "a \<in> set (st_attempts db)" "w a"
    and id: "\<And>s. w s \<Longrightarrow> (a_run_id s, a_attempt s) = (a_run_id a, a_attempt a)"
    and check: "attempt_check x (f a)"
    and keys: "\<And>s. a_run_id (f s) = a_run_id s \<and> a_attempt (f s) = a_attempt s \<and> a_fence (f s) = a_fence s"
    and same: "st_attempts db1 = st_attempts db"
  shows "\<exists>db'. update_attempts x w f db1 = Inr (db', 1)"
proof -
  have tab: "table_ok (attempt_check x) attempt_unique (st_attempts db)"
    using inv by (simp add: store_inv_def)
  have only: "s = a" if "s \<in> set (st_attempts db)" "w s" for s
    using attempts.key_inj [OF tab that(1) a(1)] id [OF that(2)] by simp
  have "attempt_unique (map (\<lambda>s. if w s then f s else s) (st_attempts db))"
    by (rule attempt_unique_update) (use tab keys in \<open>auto simp: table_ok_def\<close>)
  moreover have "filter w (st_attempts db) = [a]"
    using attempts.filter_key [OF tab a(1), of w] a(2) id by blast
  moreover have "\<not> list_ex (\<lambda>s. w s \<and> \<not> attempt_check x (f s)) (st_attempts db)"
    using only check by (auto simp: list_ex_iff)
  ultimately show ?thesis by (simp add: update_attempts_def sql_update_def Let_def same)
qed

section \<open>Reclaiming expired leases\<close>

lemma allows_recoveryD:
  assumes "allows_recovery x b r (Some a) = Inr safe" and "safe"
  shows "\<exists>json digest authority. a_profile_schema_version a = Some 2
    \<and> a_profile_json a = Some json \<and> a_profile_digest a = Some digest
    \<and> persisted_authority x b r json = Inr (Some authority)
    \<and> recovery_attestation_matches x authority json digest"
  using assms
  by (auto simp: allows_recovery_def persisted_profile_allows_recovery_def persisted_profile_def
      bind_eq_Some_conv split: if_splits option.splits)

lemma expired_current:
  assumes "store_inv x db" and "expired_pair now db = Some (r, a)"
  shows "current r a"
proof -
  note E = expired_pairD [OF assms(2)]
  have "live_attempt a"
    using E(3,4) by (auto simp: joined_state_def live_attempt_def state_strings)
  from live_attempt_current [OF assms(1) E(2) this]
  obtain s where s: "s \<in> set (st_runs db)" "current s a" by blast
  have "a_run_id a = r_run_id s" "a_run_id a = r_run_id r"
    using current_joined [OF s(2)] E(3) by (simp_all add: joined_state_def joined_def)
  then have "s = r"
    using runs.key_inj [of x "st_runs db" s r] assms(1) E(1) s(1) by (simp add: store_inv_def)
  with s show ?thesis by simp
qed

text \<open>
  Reclamation never repeats an execution of unknown convergence. When a reclaim sends a run back
  for a retry, its lease had expired, and if it had started executing then the attempt carries a
  persisted version-two recovery attestation that still matches the authority rebuilt from the run's
  own snapshots; the retried run keeps its attempt number and fence and holds no lease.
\<close>

lemma reclaim_retries_only_recoverable_runs:
  assumes "reachable x db"
    and "reclaim_next_expired_scheduled_run_inner x now override db =
      (Inr (ReclaimRetried run_id attempt fence), db')"
  shows "\<exists>r \<in> set (st_runs db). \<exists>a \<in> set (st_attempts db).
    r_run_id r = run_id \<and> r_attempt r = attempt \<and> r_fence r = fence \<and> current r a
    \<and> run_lease_expired now r
    \<and> (r_state r = Executing \<longrightarrow> (\<exists>json digest authority.
         a_profile_schema_version a = Some 2 \<and> a_profile_json a = Some json
         \<and> a_profile_digest a = Some digest
         \<and> persisted_authority x (row_binding r (a_lease_owner a)) r json = Inr (Some authority)
         \<and> recovery_attestation_matches x authority json digest))
    \<and> (\<exists>r' \<in> set (st_runs db'). run_snapshot r' = run_snapshot r \<and> r_state r' = Pending
         \<and> r_attempt r' = attempt \<and> r_fence r' = fence \<and> r_lease_owner r' = None)"
  using assms(2)
proof (rule reclaim_committedE)
  fix r a owner m nxt safe t db1
  assume R: "expired_pair now db = Some (r, a)" "r_lease_owner r = Some owner"
    "allows_recovery x (row_binding r owner) r (Some a) = Inr safe"
    "t = expired_reclaim_transition (r_state r) (r_run_id r) (r_attempt r) (r_fence r) m safe"
    and upd: "fenced_update x
       (\<lambda>s. run_matches (row_binding r owner) s \<and> r_state s = r_state r \<and> run_lease_expired now s)
       (reclaim_run t (if rt_run_state t = Pending then Some nxt else None) now)
       (\<lambda>a. attempt_matches (row_binding r owner) a
          \<and> attempt_state_as_str (a_state a) = run_state_as_str (r_state r)
          \<and> a_lease_expires_at a \<le> now)
       (reclaim_attempt t now) db = Inr db1"
    and counted: "count_reclaim (r_state r) safe db1 = Inr db'"
    and outcome: "ReclaimRetried run_id attempt fence = rt_outcome t"
  note E = expired_pairD [OF R(1)]
  have cur: "current r a" by (rule expired_current [OF reachable_inv [OF assms(1)] R(1)])
  have owner: "a_lease_owner a = owner"
    using current_joined [OF cur] R(2) by (simp add: joined_def)
  have t: "run_id = r_run_id r" "attempt = r_attempt r" "fence = r_fence r" "rt_run_state t = Pending"
    "r_state r = Executing \<longrightarrow> safe"
    using outcome by (auto simp: R(4) expired_reclaim_transition_def split: if_splits)
  let ?r = "reclaim_run t (Some nxt) now r"
  have "?r \<in> set (st_runs db')"
  proof -
    obtain db0 where "update_runs x (\<lambda>s. run_matches (row_binding r owner) s
        \<and> r_state s = r_state r \<and> run_lease_expired now s) (reclaim_run t (Some nxt) now) db =
        Inr (db0, 1)" "st_runs db1 = st_runs db0"
      using upd t(4) update_attempts_InrD(2) by (auto simp: fenced_update_eq_Inr)
    then show ?thesis
      using update_selected [OF update_runs_InrD(1), of x _ _ db db0 1 r] E(1,5) R(2)
        same_tablesD(1) [OF count_reclaim_same_tables [OF counted]]
      by (simp add: run_matches_def row_binding_def)
  qed
  moreover have "run_snapshot ?r = run_snapshot r" "r_state ?r = Pending"
      "r_attempt ?r = attempt" "r_fence ?r = fence" "r_lease_owner ?r = None"
    using t by (simp_all add: reclaim_run_def Let_def run_snapshot_def)
  ultimately have retried: "\<exists>r' \<in> set (st_runs db'). run_snapshot r' = run_snapshot r
      \<and> r_state r' = Pending \<and> r_attempt r' = attempt \<and> r_fence r' = fence \<and> r_lease_owner r' = None"
    by blast
  have safe: "r_state r = Executing \<longrightarrow> (\<exists>json digest authority.
      a_profile_schema_version a = Some 2 \<and> a_profile_json a = Some json
      \<and> a_profile_digest a = Some digest
      \<and> persisted_authority x (row_binding r (a_lease_owner a)) r json = Inr (Some authority)
      \<and> recovery_attestation_matches x authority json digest)"
    using allows_recoveryD [OF R(3)] t(5) unfolding owner by blast
  show ?thesis
    by (rule bexI [OF _ E(1)], rule bexI [OF _ E(2)], intro conjI)
      (use E(5) cur t(1-3) retried safe in simp_all)
qed simp

section \<open>Progress of reclamation\<close>

lemma expired_pair_exists:
  assumes "store_inv x db" and "r \<in> set (st_runs db)" and "live_state r" and "run_lease_expired now r"
  shows "\<exists>p. expired_pair now db = Some p"
proof -
  obtain a where a: "a \<in> set (st_attempts db)" "current r a"
    using assms by (auto simp: store_inv_def coherent_def)
  have "a_lease_expires_at a \<le> now"
    using a(2) assms(4) by (auto simp: current_def run_lease_expired_def)
  then have "\<not> (\<forall>p \<in> set (List.product (st_runs db) (st_attempts db)).
      \<not> (\<lambda>(r, a). joined_state r a \<and> live_state r \<and> run_lease_expired now r
        \<and> a_lease_expires_at a \<le> now) p)"
    using a assms(2-4) by (auto simp: current_def)
  then have "expired_pair now db \<noteq> None" unfolding expired_pair_def select_min_None .
  then show ?thesis by simp
qed

lemma reclaim_run_check:
  assumes "run_check x r" and "r_state r = Leased \<or> r_state r = Executing"
    and "t = expired_reclaim_transition (r_state r) i n f m safe"
    and "rt_run_state t \<noteq> Pending \<longrightarrow> retry_at = None"
  shows "run_check x (reclaim_run t retry_at now r)"
    and "r_overlap_slot (reclaim_run t retry_at now r) = None
      \<or> r_overlap_slot (reclaim_run t retry_at now r) = r_overlap_slot r"
proof -
  have slot: "r_overlap_slot r = Some 1"
    using assms(1,2) by (auto simp: run_check_def slot_states_def)
  have results: "r_result_hash_algorithm r = None" "r_result_hash r = None" "r_result_context r = None"
    using assms(1,2) by (auto simp: run_check_def)
  note reclaim = reclaim_run_def Let_def expired_reclaim_transition_def
  show "run_check x (reclaim_run t retry_at now r)"
  proof (cases "r_state r = Executing \<and> \<not> safe")
    case True
    then show ?thesis
      using assms(1,4) unfolding assms(3)
      by (simp add: run_check_def reclaim lease_states_def slot_states_def results)
  next
    case False
    then show ?thesis
      using assms(1,4) unfolding assms(3)
      by (cases "n < m")
        (simp_all add: run_check_def reclaim lease_states_def slot_states_def results)
  qed
  show "r_overlap_slot (reclaim_run t retry_at now r) = None
      \<or> r_overlap_slot (reclaim_run t retry_at now r) = r_overlap_slot r"
    unfolding assms(3) by (simp add: reclaim slot)
qed

lemma reclaim_attempt_check:
  assumes "attempt_check x a"
    and "t = expired_reclaim_transition s i n f m safe"
    and "attempt_state_as_str (a_state a) = run_state_as_str s"
  shows "attempt_check x (reclaim_attempt t now a)"
  using assms
  by (auto simp: attempt_check_def reclaim_attempt_def expired_reclaim_transition_def state_strings
      split: if_splits)

lemma fenced_reclaim_succeeds:
  assumes inv: "store_inv x db" and pair: "expired_pair now db = Some (r, a)"
    and owner: "r_lease_owner r = Some owner"
    and t: "t = expired_reclaim_transition (r_state r) (r_run_id r) (r_attempt r) (r_fence r) m safe"
    and retry: "rt_run_state t \<noteq> Pending \<longrightarrow> retry_at = None"
  shows "\<exists>db'. fenced_update x
       (\<lambda>s. run_matches (row_binding r owner) s \<and> r_state s = r_state r \<and> run_lease_expired now s)
       (reclaim_run t retry_at now)
       (\<lambda>a. attempt_matches (row_binding r owner) a
          \<and> attempt_state_as_str (a_state a) = run_state_as_str (r_state r)
          \<and> a_lease_expires_at a \<le> now)
       (reclaim_attempt t now) db = Inr db'"
proof -
  note E = expired_pairD [OF pair]
  have checks: "run_check x r" "attempt_check x a"
    using inv E(1,2) by (auto simp: store_inv_def table_ok_def list_all_iff)
  have j: "joined r a" and st: "attempt_state_as_str (a_state a) = run_state_as_str (r_state r)"
    using E(3) by (simp_all add: joined_state_def)
  have "\<exists>db1. update_runs x
      (\<lambda>s. run_matches (row_binding r owner) s \<and> r_state s = r_state r \<and> run_lease_expired now s)
      (reclaim_run t retry_at now) db = Inr (db1, 1)"
    using E(5) owner reclaim_run_check [OF checks(1) E(4) t retry]
    by (intro update_runs_one [OF inv E(1)])
      (auto simp: run_matches_def row_binding_def reclaim_run_def Let_def run_snapshot_def)
  then obtain db1 where up: "update_runs x
      (\<lambda>s. run_matches (row_binding r owner) s \<and> r_state s = r_state r \<and> run_lease_expired now s)
      (reclaim_run t retry_at now) db = Inr (db1, 1)" by blast
  have "\<exists>db'. update_attempts x
      (\<lambda>a. attempt_matches (row_binding r owner) a
         \<and> attempt_state_as_str (a_state a) = run_state_as_str (r_state r)
         \<and> a_lease_expires_at a \<le> now)
      (reclaim_attempt t now) db1 = Inr (db', 1)"
    using E(6) owner j st reclaim_attempt_check [OF checks(2) t st] update_runs_InrD(2) [OF up]
    by (intro update_attempts_one [OF inv E(2)])
      (auto simp: attempt_matches_def row_binding_def reclaim_attempt_def joined_def)
  with up show ?thesis by (auto simp: fenced_update_eq_Inr)
qed

definition expired_leases :: "i64 \<Rightarrow> store \<Rightarrow> run_row list" where
  "expired_leases now db = filter (\<lambda>r. live_state r \<and> run_lease_expired now r) (st_runs db)"

lemma filter_length_less:
  assumes "r \<in> set rows" and "P r" and "w r" and "\<And>s. w s \<Longrightarrow> \<not> P (f s)"
  shows "length (filter P (map (\<lambda>s. if w s then f s else s) rows)) < length (filter P rows)"
proof -
  have "length (filter P (map (\<lambda>s. if w s then f s else s) rows)) =
      length (filter (\<lambda>s. P s \<and> \<not> w s) rows)"
    using assms(4) by (induction rows) auto
  also have "\<dots> < length (filter P rows)"
  proof -
    have "filter (\<lambda>s. P s \<and> w s) rows \<noteq> []" using assms(1-3) by (auto simp: filter_empty_conv)
    then have "0 < length (filter (\<lambda>s. P s \<and> w s) rows)" by blast
    then show ?thesis
      using sum_length_filter_compl [of w "filter P rows", unfolded filter_filter] by linarith
  qed
  finally show ?thesis .
qed

lemma bump_dom [simp]: "bump k totals j = None \<longleftrightarrow> totals j = None"
  by (auto simp: bump_def split: option.splits)

lemma metrics_dom [simp]:
  "run_metrics old new totals j = None \<longleftrightarrow> totals j = None"
  "attempt_metrics old' new' totals j = None \<longleftrightarrow> totals j = None"
  by (auto simp: run_metrics_def attempt_metrics_def Let_def split: run_state.splits)

lemma fold_metrics_dom:
  assumes "\<And>r totals. g r totals j = None \<longleftrightarrow> totals j = None"
  shows "fold g rows totals j = None \<longleftrightarrow> totals j = None"
  using assms by (induction rows arbitrary: totals) auto

lemma update_totals_dom:
  "update_runs x w f db = Inr (db', n) \<Longrightarrow> st_totals db' j = None \<longleftrightarrow> st_totals db j = None"
  "update_attempts x wa fa db = Inr (db', n) \<Longrightarrow> st_totals db' j = None \<longleftrightarrow> st_totals db j = None"
  by (auto simp: update_runs_def update_attempts_def fold_metrics_dom)

lemma increment_ok:
  assumes "st_totals db kind \<noteq> None"
  obtains db' where "increment_scheduler_transition_total kind n db = Inr db'"
    "\<And>j. st_totals db' j = None \<longleftrightarrow> st_totals db j = None"
  using assms by (auto simp: increment_scheduler_transition_total_def)

lemma count_reclaim_ok:
  assumes "st_totals db RunLeaseReclaimed \<noteq> None" and "st_totals db RunObserveOnlyReexecution \<noteq> None"
  shows "\<exists>db'. count_reclaim state safe db = Inr db'"
proof -
  obtain db1 where db1: "increment_scheduler_transition_total RunLeaseReclaimed 1 db = Inr db1"
      "\<And>j. st_totals db1 j = None \<longleftrightarrow> st_totals db j = None"
    by (rule increment_ok [OF assms(1)]) blast
  have some: "st_totals db1 RunObserveOnlyReexecution \<noteq> None" using db1(2) assms(2) by simp
  obtain db2 where "increment_scheduler_transition_total RunObserveOnlyReexecution 1 db1 = Inr db2"
    by (rule increment_ok [OF some])
  with db1(1) show ?thesis by (auto simp: count_reclaim_def)
qed

text \<open>
  Reclamation makes progress. In a reachable store with an expired live lease, with the metric
  rows present and readable attempt profiles, a reclaim under an explicit policy succeeds, is not
  idle, and strictly decreases the number of expired leases; repeating it therefore ends with none.
\<close>

lemma reclaim_makes_progress:
  assumes "reachable x db" and "expired_leases now db \<noteq> []"
    and "0 < max_attempts" and "now < next_attempt_at"
    and "st_totals db RunLeaseReclaimed \<noteq> None \<and> st_totals db RunObserveOnlyReexecution \<noteq> None"
    and "\<forall>r \<in> set (expired_leases now db). \<forall>a \<in> set (st_attempts db).
      is_ok (allows_recovery x (row_binding r (a_lease_owner a)) r (Some a))"
  shows "\<exists>outcome db'. reclaim_next_expired_scheduled_run x now max_attempts next_attempt_at db =
      (Inr outcome, db') \<and> outcome \<noteq> ReclaimIdle
      \<and> length (expired_leases now db') < length (expired_leases now db)"
proof -
  have inv: "store_inv x db" by (rule reachable_inv [OF assms(1)])
  obtain e where e: "e \<in> set (st_runs db)" "live_state e" "run_lease_expired now e"
    using assms(2) by (auto simp: expired_leases_def filter_empty_conv)
  obtain r a where pair: "expired_pair now db = Some (r, a)"
    using expired_pair_exists [OF inv e] by auto
  note E = expired_pairD [OF pair]
  have owner: "r_lease_owner r = Some (a_lease_owner a)"
    using E(3) by (simp add: joined_state_def joined_def)
  have P: "r \<in> set (expired_leases now db)"
    using E(1,4,5) by (auto simp: expired_leases_def live_state_def)
  then obtain safe where safe: "allows_recovery x (row_binding r (a_lease_owner a)) r (Some a) = Inr safe"
    using assms(6) E(2) by (auto simp: is_ok_iff)
  define t where "t = expired_reclaim_transition (r_state r) (r_run_id r) (r_attempt r) (r_fence r)
    max_attempts safe"
  define retry_at where "retry_at = (if rt_run_state t = Pending then Some next_attempt_at else None)"
  let ?wr = "\<lambda>s. run_matches (row_binding r (a_lease_owner a)) s \<and> r_state s = r_state r
    \<and> run_lease_expired now s"
  obtain db1 where db1: "fenced_update x ?wr (reclaim_run t retry_at now)
      (\<lambda>b. attempt_matches (row_binding r (a_lease_owner a)) b
         \<and> attempt_state_as_str (a_state b) = run_state_as_str (r_state r)
         \<and> a_lease_expires_at b \<le> now)
      (reclaim_attempt t now) db = Inr db1"
    using fenced_reclaim_succeeds [OF inv pair owner t_def, of retry_at] by (auto simp: retry_at_def)
  then obtain db0 where db0: "update_runs x ?wr (reclaim_run t retry_at now) db = Inr (db0, 1)"
      "st_runs db1 = st_runs db0" "\<And>j. st_totals db1 j = None \<longleftrightarrow> st_totals db j = None"
    using update_totals_dom update_attempts_InrD(2) by (auto simp: fenced_update_eq_Inr)
  have "\<exists>db2. count_reclaim (r_state r) safe db1 = Inr db2"
    by (rule count_reclaim_ok) (use assms(5) db0(3) in simp_all)
  then obtain db2 where db2: "count_reclaim (r_state r) safe db1 = Inr db2" by (elim exE)
  have result: "reclaim_next_expired_scheduled_run x now max_attempts next_attempt_at db =
      (Inr (rt_outcome t), db2)"
    using assms(3,4) pair owner safe db1 db2
    by (simp add: reclaim_next_expired_scheduled_run_def reclaim_policy_def transact_def Let_def
        reclaim_next_expired_scheduled_run_inner_def t_def [symmetric] retry_at_def [symmetric])
  have dead: "\<not> live_state (reclaim_run t retry_at now s)" for s
    using reclaim_states(1) [OF E(4), of "r_run_id r" "r_attempt r" "r_fence r" max_attempts safe]
    by (auto simp: t_def reclaim_run_def Let_def live_state_def)
  have "st_runs db2 = map (\<lambda>s. if ?wr s then reclaim_run t retry_at now s else s) (st_runs db)"
    using sql_update_InrD(1) [OF update_runs_InrD(1) [OF db0(1)]] db0(2)
      same_tablesD(1) [OF count_reclaim_same_tables [OF db2]] by simp
  then have "length (expired_leases now db2) < length (expired_leases now db)"
    unfolding expired_leases_def
    using E(1,4,5) owner dead
    by (simp only:) (rule filter_length_less [of r],
        auto simp: live_state_def run_matches_def row_binding_def)
  moreover have "rt_outcome t \<noteq> ReclaimIdle" by (simp add: t_def expired_reclaim_transition_def)
  ultimately show ?thesis using result by blast
qed

lemma leased_totals: "st_totals leased_store k \<noteq> None"
  by (simp add: leased_store_def claim_next_scheduled_run_def
      claim_next_scheduled_run_inner_def clock_at_def acquire_and_validate_executor_admission_def
      ensure_executor_admission_not_cancelled_def pending_store_def empty_store_def claimable_def
      due_def sample_run_def i64_max_def i64_min_def in_i64_def claim_selected_def store_defs
      claim_row_def sample_policy claimed_from_row_def lease_attempt_def positive_u32_def
      u32_max_def revalidate_executor_admission_def materialized_metrics_def bump_def)

lemma leased_expired: "expired_leases 150 leased_store = [leased_run_row]"
  by (simp add: expired_leases_def leased_store_rows row_defs run_lease_expired_def)

lemma sample_retried:
  "fst (reclaim_next_expired_scheduled_run_inner run_ext 150 (Some (3, 200)) leased_store) =
     Inr (ReclaimRetried ''run'' 1 1)"
  using leased_totals [of RunLeaseReclaimed]
  by (auto simp: reclaim_next_expired_scheduled_run_inner_def expired_pair_def leased_store_rows
      joined_state_def joined_def attempt_state_as_str_def run_lease_expired_def store_defs row_defs
      reclaim_policy_def row_binding_def allows_recovery_def expired_reclaim_transition_def
      reclaim_run_def reclaim_attempt_def count_reclaim_def
      increment_scheduler_transition_total_def run_metrics_def attempt_metrics_def)

end
