(* ===== verification/Run_Outcomes.thy ===== *)
theory Run_Outcomes
  imports Run_Recovery
begin

text \<open>
  What happens after an execution: the retry decision, reconciliation against observed authority,
  and the two transitions whose statements the run table refuses.
\<close>

section \<open>The retry decision\<close>

lemma outcome_committedE:
  assumes "record_scheduled_run_execution_outcome x b d kind message now db = (Inr outcome, db')"
    and "\<nexists>e. outcome = OutcomeLateEvidence e"
  obtains r a t where "executing_pair b now db = Some (r, a)"
    "execution_outcome_transition x b d r a now = Inr t"
    "case d of ExecutionRetryAt retry_at _ max_attempts _ _ \<Rightarrow> now < retry_at \<and> 0 < max_attempts
     | ExecutionTerminal _ \<Rightarrow> True"
    "fenced_update x
       (\<lambda>r. run_matches b r \<and> r_state r = Executing \<and> run_lease_after now r)
       (outcome_run t kind message now)
       (\<lambda>a. attempt_matches b a \<and> a_state a = AExecuting \<and> a_lease_expires_at a > now)
       (outcome_attempt t kind message now) db = Inr db'"
    "outcome = ot_outcome t"
  using assms unfolding record_scheduled_run_execution_outcome_def transact_Inr
  by (auto split: option.splits if_splits execution_disposition.splits)

lemma allows_retryD:
  assumes "persisted_profile_allows_retry x b r (Some a) = Inr True"
  shows "\<exists>json digest authority. a_profile_schema_version a = Some 1
    \<and> a_profile_json a = Some json \<and> a_profile_digest a = Some digest
    \<and> persisted_authority x b r json = Inr (Some authority)
    \<and> attestation_matches x authority json digest True"
  using assms
  by (auto simp: persisted_profile_allows_retry_def persisted_profile_def bind_eq_Some_conv
      split: if_splits option.splits)

text \<open>
  C26: an execution is retried only when that is provably safe and still worthwhile. If an execution
  outcome sends the run back for a retry, then the binding held the live execution lease, the
  persisted version-one attestation matches the run's rebuilt authority and says the execution was
  free of side effects, and under the run's own policy snapshot the attempt is below the maximum and
  the retry, later than now, is before the deadline.
\<close>

theorem execution_retry_is_justified:
  assumes "record_scheduled_run_execution_outcome x b d kind message now db =
      (Inr OutcomeRetried, db')"
  shows "\<exists>r a retry_at p deadline json digest authority.
    r \<in> set (st_runs db) \<and> a \<in> set (st_attempts db) \<and> joined r a \<and> run_matches b r
    \<and> r_state r = Executing \<and> run_lease_after now r
    \<and> a_profile_json a = Some json \<and> a_profile_digest a = Some digest
    \<and> persisted_authority x b r json = Inr (Some authority)
    \<and> attestation_matches x authority json digest True
    \<and> scheduler_policy_from_snapshot x (r_policy_version r) (r_policy_json r) = Inr p
    \<and> binding_attempt b < uint (run_max_attempts p)
    \<and> run_deadline_at p (r_scheduled_for r) = Some deadline
    \<and> now < retry_at \<and> retry_at < deadline
    \<and> (\<exists>r' \<in> set (st_runs db'). r_run_id r' = r_run_id r \<and> r_state r' = Pending
         \<and> r_next_attempt_at r' = Some retry_at \<and> r_fence r' = r_fence r)"
  using assms
proof (rule outcome_committedE)
  fix r a t
  assume pair: "executing_pair b now db = Some (r, a)"
    and tr: "execution_outcome_transition x b d r a now = Inr t"
    and d: "case d of ExecutionRetryAt retry_at _ max_attempts _ _ \<Rightarrow> now < retry_at \<and> 0 < max_attempts
      | ExecutionTerminal _ \<Rightarrow> True"
    and upd: "fenced_update x
       (\<lambda>r. run_matches b r \<and> r_state r = Executing \<and> run_lease_after now r)
       (outcome_run t kind message now)
       (\<lambda>a. attempt_matches b a \<and> a_state a = AExecuting \<and> a_lease_expires_at a > now)
       (outcome_attempt t kind message now) db = Inr db'"
    and out: "OutcomeRetried = ot_outcome t"
  note E = executing_pairD [OF pair]
  from tr out obtain retry_at da ma tc ex p deadline where
    R: "d = ExecutionRetryAt retry_at da ma tc ex"
      "scheduler_policy_from_snapshot x (r_policy_version r) (r_policy_json r) = Inr p"
      "persisted_profile_allows_retry x b r (Some a) = Inr True"
      "binding_attempt b < uint (run_max_attempts p)"
      "run_deadline_at p (r_scheduled_for r) = Some deadline" "retry_at < deadline"
      "t = retry_transition retry_at"
    by (auto simp: execution_outcome_transition_def terminal_transition_def Let_def
        retry_transition_def split: execution_disposition.splits if_splits option.splits
        execution_terminal.splits)
  have "outcome_run t kind message now r \<in> set (st_runs db')"
  proof -
    obtain db1 where "update_runs x (\<lambda>r. run_matches b r \<and> r_state r = Executing
        \<and> run_lease_after now r) (outcome_run t kind message now) db = Inr (db1, 1)"
        "st_runs db' = st_runs db1"
      using upd update_attempts_InrD(2) by (auto simp: fenced_update_eq_Inr)
    then show ?thesis
      using update_selected [OF update_runs_InrD(1), of x _ "outcome_run t kind message now" db db1 1 r]
        E(1,4,5,7) by simp
  qed
  then have "\<exists>r' \<in> set (st_runs db'). r_run_id r' = r_run_id r \<and> r_state r' = Pending
      \<and> r_next_attempt_at r' = Some retry_at \<and> r_fence r' = r_fence r"
    by (rule rev_bexI) (simp add: R(7) outcome_run_def retry_transition_def)
  moreover have "now < retry_at" using d R(1) by simp
  ultimately show ?thesis
    using allows_retryD [OF R(3)] E(1-5,7) R(2,4-6) by blast
qed simp

section \<open>A retried execution\<close>

definition envelope :: json where
  "envelope = attestation_value (sample_authority claim_ext) sample_authority_value True"

definition retry_ext :: ext where
  "retry_ext = claim_ext \<lparr>
     json_print := \<lambda>v. if v = envelope then ''E'' else json_print claim_ext v,
     json_parse := \<lambda>t. if t = ''E'' then Inr envelope else json_parse claim_ext t,
     sql_json_valid := \<lambda>_. True\<rparr>"

definition attested_run :: run_row where
  "attested_run = \<lparr>r_run_id = ''run-1'', r_job_id = ''job-1'', r_schedule_id = ''s'',
     r_job_generation = 0, r_schedule_generation = 0, r_scheduled_for = 100,
     r_coalesced_through = 100, r_definition_version = 1, r_definition_json = ''D'',
     r_capability_schema_version = 1, r_capability_digest = ''c'', r_capability_json = ''null'',
     r_targets_json = ''null'', r_execution_baseline_json = Some ''null'', r_policy_version = 1,
     r_policy_json = ''{}'', r_state = Executing, r_attempt = 2, r_next_attempt_at = None,
     r_lease_owner = Some ''worker'', r_lease_expires_at = Some 200, r_fence = 3,
     r_overlap_slot = Some 1, r_result_artifact_id = None, r_result_context = None,
     r_result_hash_algorithm = None, r_result_hash = None, r_error_kind = None, r_error_message = None, r_updated_at = 120,
     r_counter_limit_recorded = False\<rparr>"

definition attested_attempt :: attempt_row where
  "attested_attempt = (lease_attempt attested_run ''worker'' 110 200) \<lparr>a_state := AExecuting,
     a_preflight_completed_at := Some 120, a_executing_at := Some 120,
     a_profile_schema_version := Some 1, a_profile_json := Some ''E'',
     a_profile_hash_algorithm := Some ''sha256-v1'', a_profile_digest := Some (sha256_hex retry_ext ''E'')\<rparr>"

definition attested_store :: store where
  "attested_store = empty_store \<lparr>st_runs := [attested_run], st_attempts := [attested_attempt]\<rparr>"

lemma envelope_distinct:
  "envelope \<noteq> sample_definition" "envelope \<noteq> JNull" "envelope \<noteq> sample_authority_value"
proof -
  have "value_get envelope ''authority'' \<noteq> value_get sample_definition ''authority''"
    "value_get envelope ''authority'' \<noteq> value_get sample_authority_value ''authority''"
    by (simp_all add: envelope_def attestation_value_def sample_definition_def
        sample_authority_value_def value_get_json_obj authority_entries_def)
  then show "envelope \<noteq> sample_definition" "envelope \<noteq> sample_authority_value" by auto
qed (simp add: envelope_def attestation_value_def json_obj_def)

lemma retry_ext_knows: "knows_sample retry_ext"
  using claim_ext_knows envelope_distinct by (auto simp: knows_sample_def retry_ext_def)

lemma retry_authority: "sample_authority retry_ext = sample_authority claim_ext"
  by (simp add: sample_authority_def framed_sha256_def retry_ext_def)

lemma attested_claim:
  "claimed_from_row retry_ext sample_binding ''null'' attested_run = Inr sample_claim"
  and attested_policy: "scheduler_policy_from_snapshot retry_ext (r_policy_version attested_run)
      (r_policy_json attested_run) = Inr default_policy"
  using default_policies_valid(1)
  by (simp_all add: claimed_from_row_def attested_run_def scheduler_policy_from_snapshot_def
      scheduler_policy_json_def SCHEDULER_OPERATIONAL_POLICY_VERSION_def retry_ext_def claim_ext_def
      tiny_ext_def positive_u32_def u32_max_def sample_claim_def)

lemma attested_allows:
  "persisted_profile_allows_retry retry_ext sample_binding attested_run (Some attested_attempt) =
     Inr True"
proof -
  have parse: "json_parse retry_ext ''E'' = Inr envelope" "json_print retry_ext envelope = ''E''"
    by (simp_all add: retry_ext_def)
  have fields: "pointer_str envelope [''authority'', ''nonce''] = Some zero_digest"
    "get_u64 envelope ''schema_version'' = Some 1"
    "get_str envelope ''authority_digest'' = Some (authority_digest (sample_authority claim_ext))"
    "value_get envelope ''authority'' = Some sample_authority_value"
    "value_get envelope ''side_effect_free'' = Some (JBool True)"
    by (simp_all add: envelope_def attestation_value_def value_get_json_obj pointer_str_def
        get_u64_def get_str_def sample_authority_value_def authority_entries_def)
  have "persisted_authority retry_ext sample_binding attested_run ''E'' =
      Inr (Some (sample_authority claim_ext))"
    unfolding persisted_authority_def
    using known_claim_authority [OF retry_ext_knows] attested_claim
    by (simp add: parse fields retry_authority)
      (simp add: attested_run_def positive_u32_def u32_max_def)
  moreover have "attestation_matches retry_ext (sample_authority claim_ext) ''E''
      (sha256_hex retry_ext ''E'') True"
    using retry_ext_knows
    by (simp add: attestation_matches_def parse fields parse_ok_def ok_option_def knows_sample_def
        sample_authority_def)
  ultimately show ?thesis
    by (simp add: persisted_profile_allows_retry_def persisted_profile_def attested_attempt_def)
qed

definition retried_store :: store where
  "retried_store = snd (record_scheduled_run_execution_outcome retry_ext sample_binding
     (ExecutionRetryAt 170 1000 5 Converged TFailed) ''kind'' [] 150 attested_store)"

lemma attested_retry:
  "record_scheduled_run_execution_outcome retry_ext sample_binding
     (ExecutionRetryAt 170 1000 5 Converged TFailed) ''kind'' [] 150 attested_store =
   (Inr OutcomeRetried, retried_store)"
proof -
  have valid: "validate_lease_binding sample_binding = Inr ()"
    by (simp add: validate_lease_binding_def check_all.simps sample_binding_def validate_graphic
        is_graphic_def byte_val_def MAX_CONTEXT_BYTES_def)
  have pair: "executing_pair sample_binding 150 attested_store = Some (attested_run, attested_attempt)"
    by (simp add: executing_pair_def attested_store_def empty_store_def attested_run_def
        attested_attempt_def row_defs sample_binding_def joined_def)
  have transition: "execution_outcome_transition retry_ext sample_binding
      (ExecutionRetryAt 170 1000 5 Converged TFailed) attested_run attested_attempt 150 =
      Inr (retry_transition 170)"
    using attested_allows attested_policy
    by (simp add: execution_outcome_transition_def retry_transition_def)
      (simp add: sample_binding_def attested_run_def run_deadline_at_def default_policy_def
        checked_add_def in_i64_def i64_max_def i64_min_def)
  have "\<exists>db. fenced_update retry_ext
      (\<lambda>r. run_matches sample_binding r \<and> r_state r = Executing \<and> run_lease_after 150 r)
      (outcome_run (retry_transition 170) ''kind'' [] 150)
      (\<lambda>a. attempt_matches sample_binding a \<and> a_state a = AExecuting \<and> a_lease_expires_at a > 150)
      (outcome_attempt (retry_transition 170) ''kind'' [] 150) attested_store = Inr db"
    by (simp add: store_defs row_defs attested_store_def empty_store_def attested_run_def
        attested_attempt_def sample_binding_def outcome_run_def outcome_attempt_def
        retry_transition_def retry_ext_def sha256_hex_def encode_sha256_def claim_ext_def tiny_ext_def)
  then show ?thesis
    by (auto simp: retried_store_def record_scheduled_run_execution_outcome_def valid pair transition
        transact_def retry_transition_def)
qed

theorem execution_retry_is_justified_witness:
  "\<exists>r a retry_at p deadline json digest authority.
    r \<in> set (st_runs attested_store) \<and> a \<in> set (st_attempts attested_store) \<and> joined r a
    \<and> run_matches sample_binding r
    \<and> r_state r = Executing \<and> run_lease_after 150 r
    \<and> a_profile_json a = Some json \<and> a_profile_digest a = Some digest
    \<and> persisted_authority retry_ext sample_binding r json = Inr (Some authority)
    \<and> attestation_matches retry_ext authority json digest True
    \<and> scheduler_policy_from_snapshot retry_ext (r_policy_version r) (r_policy_json r) = Inr p
    \<and> binding_attempt sample_binding < uint (run_max_attempts p)
    \<and> run_deadline_at p (r_scheduled_for r) = Some deadline
    \<and> 150 < retry_at \<and> retry_at < deadline
    \<and> (\<exists>r' \<in> set (st_runs retried_store). r_run_id r' = r_run_id r \<and> r_state r' = Pending
         \<and> r_next_attempt_at r' = Some retry_at \<and> r_fence r' = r_fence r)"
  by (rule execution_retry_is_justified [OF attested_retry])

section \<open>Transitions the run table refuses\<close>

lemma update_runs_refused:
  assumes "r \<in> set (st_runs db)" and "w r" and "\<not> run_check x (f r)"
  shows "update_runs x w f db = Inl (scheduler_error SQLITE_CONSTRAINT_CHECK)"
  using assms by (auto simp: update_runs_def sql_update_def Let_def list_ex_iff)

text \<open>
  C36: a cancelled execution outcome is never stored. The run table allows an error kind only on
  failed, timed-out and unknown runs, but the outcome statement writes one on every terminal run: a
  live execution that reports \<open>Cancelled\<close> gets a constraint error and nothing changes.
\<close>

theorem cancelled_outcome_is_refused:
  assumes "executing_pair b now db = Some (r, a)" and "validate_lease_binding b = Inr ()"
    and "validate_text ''scheduled execution error kind'' kind = Inr ()"
    and "length message \<le> MAX_CONTEXT_BYTES"
  shows "record_scheduled_run_execution_outcome x b (ExecutionTerminal TCancelled) kind message now db
    = (Inl (scheduler_error SQLITE_CONSTRAINT_CHECK), db)"
proof -
  note E = executing_pairD [OF assms(1)]
  let ?t = "terminal_transition TCancelled"
  have "\<not> run_check x (outcome_run ?t kind message now r)"
    by (simp add: run_check_def outcome_run_def terminal_transition_def)
  then have "update_runs x (\<lambda>r. run_matches b r \<and> r_state r = Executing \<and> run_lease_after now r)
      (outcome_run ?t kind message now) db = Inl (scheduler_error SQLITE_CONSTRAINT_CHECK)"
    by (rule update_runs_refused [OF E(1), rotated]) (use E(4,5,7) in simp)
  then show ?thesis
    using assms
    by (simp add: record_scheduled_run_execution_outcome_def execution_outcome_transition_def
        fenced_update_def transact_def)
qed

theorem cancelled_outcome_is_refused_witness:
  "record_scheduled_run_execution_outcome run_ext first_binding (ExecutionTerminal TCancelled)
     ''kind'' [] 30 executing_store
   = (Inl (scheduler_error SQLITE_CONSTRAINT_CHECK), executing_store)"
  by (rule cancelled_outcome_is_refused [where r = executing_run_row and a = executing_attempt])
    (simp_all add: executing_pair_def executing_store_rows executing_run_row_def
      executing_attempt_def row_defs joined_def sample_binding_valid)

lemma update_attempts_none:
  assumes "store_inv x db" and "\<And>a. a \<in> set (st_attempts db) \<Longrightarrow> \<not> w a"
  shows "\<exists>db1. update_attempts x w f db = Inr (db1, 0) \<and> st_runs db1 = st_runs db"
proof -
  have "map (\<lambda>a. if w a then f a else a) (st_attempts db) = st_attempts db"
    "filter w (st_attempts db) = []"
    using assms(2) by (simp_all add: map_idI filter_empty_conv)
  then show ?thesis
    using assms by (auto simp: update_attempts_def sql_update_def Let_def list_ex_iff store_inv_def
        table_ok_def)
qed

text \<open>
  C37: a job cannot be withdrawn while its run waits for a retry. Cancelling the pre-execution work of
  a job leaves \<open>next_attempt_at\<close> set, which the run table allows only on pending runs, so in every
  reachable store with a pending run that has a retry time the cancellation fails.
\<close>

theorem retrying_run_blocks_cancellation:
  assumes "reachable x db" and "r \<in> set (st_runs db)" and "r_state r = Pending"
    and "r_next_attempt_at r \<noteq> None"
  shows "cancel_pre_execution_runs x (r_job_id r) (r_job_generation r) now db
    = Inl (scheduler_error SQLITE_CONSTRAINT_CHECK)"
proof -
  have inv: "store_inv x db" by (rule reachable_inv [OF assms(1)])
  have alone: "r_state s \<noteq> Leased" if "s \<in> set (st_runs db)" "r_job_id s = r_job_id r" for s
    using slot_holder_unique [OF inv assms(2) that(1)] that(2) assms(3)
    by (auto simp: slot_states_def)
  have leased: "filter (\<lambda>s. r_job_id s = r_job_id r \<and> r_job_generation s = r_job_generation r
      \<and> r_state s = Leased) (st_runs db) = []"
    using alone by (auto simp: filter_empty_conv)
  have "\<not> cancellable_attempt (r_job_id r) (r_job_generation r) db a" for a
    using alone by (auto simp: cancellable_attempt_def list_ex_iff)
  from update_attempts_none [OF inv, of "cancellable_attempt (r_job_id r) (r_job_generation r) db"] this
  obtain db1 where
    db1: "update_attempts x (cancellable_attempt (r_job_id r) (r_job_generation r) db)
        (\<lambda>a. a \<lparr>a_state := ACancelled, a_completed_at := Some now\<rparr>) db = Inr (db1, 0)"
      "st_runs db1 = st_runs db" by blast
  have "\<not> run_check x (cancel_run now r)"
    using assms(4) by (simp add: run_check_def cancel_run_def)
  then have "update_runs x (cancellable_run (r_job_id r) (r_job_generation r)) (cancel_run now) db1
      = Inl (scheduler_error SQLITE_CONSTRAINT_CHECK)"
    by (rule update_runs_refused [rotated 2]) (use assms db1(2) in \<open>simp_all add: cancellable_run_def\<close>)
  then show ?thesis by (simp add: cancel_pre_execution_runs_def Let_def leased db1(1))
qed

theorem retrying_run_blocks_cancellation_witness:
  "cancel_pre_execution_runs run_ext ''job'' 0 30 retry_store
    = Inl (scheduler_error SQLITE_CONSTRAINT_CHECK)"
  using retrying_run_blocks_cancellation [OF retry_reachable, of retry_run_row 30]
  by (simp add: retry_store_rows retry_run_row_def sample_run_def)

section \<open>Reconciliation\<close>

lemma reconcile_confirmed_other:
  assumes "store_inv x db" and "reconcile_confirmed x r owner expires expected now db = Inr (db', v)"
    and "\<nexists>outcome. v = Inr (Applied outcome)"
  shows "same_tables db db'"
proof -
  have stale: "same_tables d d'" if "reconcile_stale d = Inr (d', w)" for d d' w
    using that increment_same_tables by (auto simp: reconcile_stale_def)
  consider "reconcile_stale db = Inr (db', v)"
    | t retry_at db1 n where
      "update_runs x (\<lambda>s. run_matches (row_binding r owner) s \<and> r_state s = r_state r
          \<and> r_lease_expires_at s = Some expires \<and> expires \<le> now \<and> r_updated_at s \<le> now)
        (reclaim_run t retry_at now) db = Inr (db1, n)" "n \<noteq> 1" "reconcile_stale db1 = Inr (db', v)"
    using assms(2,3) by (auto simp: reconcile_confirmed_def Let_def split: if_splits)
  then show ?thesis
  proof cases
    case 1
    then show ?thesis by (rule stale)
  next
    case (2 t retry_at db1 n)
    have "same_tables db db1"
      by (rule update_zero_same_tables [OF assms(1) 2(1,2)]) (simp add: run_matches_def)
    then show ?thesis using stale [OF 2(3)] by (simp add: same_tables_def)
  qed
qed

text \<open>
  Reconciliation is a compare-and-swap. It applies only to the run whose state, attempt, fence,
  owner and lease expiry are the observed ones and whose lease has expired, with the next attempt
  the operator expected; every other answer leaves the run and attempt tables as they were.
\<close>

lemma reconcile_is_compare_and_swap:
  assumes "reachable x db"
    and "reconcile_expired_scheduled_run x run_id state attempt fence owner expires expected now db
      = (Inr outcome, db')"
  shows "case outcome of
      Applied result \<Rightarrow>
        (\<exists>r \<in> set (st_runs db). r_run_id r = run_id \<and> r_state r = state \<and> r_attempt r = attempt
          \<and> r_fence r = fence \<and> r_lease_owner r = Some owner \<and> r_lease_expires_at r = Some expires
          \<and> expires \<le> now
          \<and> (\<exists>p. scheduler_policy_from_snapshot x (r_policy_version r) (r_policy_json r) = Inr p
              \<and> run_retry_at p run_id attempt (r_scheduled_for r) now = expected))
        \<and> result \<in> {ReclaimRetried run_id attempt fence, ReclaimFailed run_id attempt fence,
            ReclaimOutcomeUnknown run_id attempt fence}
    | _ \<Rightarrow> same_tables db db'"
proof (cases "\<exists>result. outcome = Applied result")
  case True
  then obtain result where result: "outcome = Applied result" by blast
  obtain r where r: "List.find (\<lambda>r. r_run_id r = run_id) (st_runs db) = Some r"
      "r_state r = state" "r_attempt r = attempt" "r_fence r = fence" "r_lease_owner r = Some owner"
      "r_lease_expires_at r = Some expires" "expires \<le> now"
      "reconcile_confirmed x r owner expires expected now db = Inr (db', Inr (Applied result))"
    using assms(2) unfolding result reconcile_expired_scheduled_run_def transact_Inr
    by (auto simp: reconcile_stale_def split: if_splits option.splits)
  note row = find_SomeD [OF r(1)]
  from r(8) show ?thesis
  proof (cases rule: reconcile_confirmedE)
    case (1 safe p m t db1 db2)
    have "result \<in> {ReclaimRetried run_id attempt fence, ReclaimFailed run_id attempt fence,
            ReclaimOutcomeUnknown run_id attempt fence}"
      using 1(5,9) row r(2-4) by (simp add: expired_reclaim_transition_def split: if_splits)
    moreover have "run_retry_at p run_id attempt (r_scheduled_for r) now = expected"
      using 1(3) row r(3) by simp
    ultimately show ?thesis using row r(2-7) 1(2) by (auto simp: result)
  qed
next
  case False
  have "same_tables db db'"
    using assms(2) False reconcile_confirmed_other [OF reachable_inv [OF assms(1)]]
    unfolding reconcile_expired_scheduled_run_def transact_Inr
    by (auto simp: reconcile_stale_def split: if_splits option.splits dest: increment_same_tables)
  then show ?thesis using False by (cases outcome) simp_all
qed

lemma late_retry_denied:
  assumes "uint (run_deadline_seconds p) + due_at \<le> now"
  shows "run_retry_at p run_id attempt due_at now = None"
  using assms
  by (auto simp: run_retry_at_def run_deadline_at_def can_retry_def checked_add_def bind_eq_None_conv;
      use uint_ge_0 [of "run_retry_delay_seconds p run_id attempt"] in linarith)

lemma sample_reconciled:
  "fst (reconcile_expired_scheduled_run run_ext ''run'' Leased 1 1 ''w'' 100 None 10000 leased_store) =
     Inr (Applied (ReclaimFailed ''run'' 1 1))"
proof -
  have late: "run_retry_at default_policy ''run'' 1 5 10000 = None"
    by (rule late_retry_denied) (simp add: default_policy_def)
  show ?thesis
    using leased_totals [of RunLeaseReclaimed] leased_totals [of RunFailed]
    by (auto simp: reconcile_expired_scheduled_run_def check_all.simps leased_store_rows
        joined_state_def joined_def attempt_state_as_str_def store_defs row_defs sample_policy late
        reconcile_confirmed_def row_binding_def allows_recovery_def expired_reclaim_transition_def
        reclaim_run_def reclaim_attempt_def count_reclaim_def
        increment_scheduler_transition_total_def run_metrics_def attempt_metrics_def bump_def)
qed

end
