(* ===== verification/Delivery_Target.thy ===== *)
theory Delivery_Target
  imports Prepare_Authority
begin

text \<open>
  Resolved delivery targets and their routes (\<^verbatim>\<open>crates/state/src/scheduler.rs\<close>): the durable target
  snapshot with its validator, and the strict reader that turns one canonical target envelope into
  routing coordinates. serde's parser and printer and SHA-256 are fields of \<open>ext\<close>; a serde object is
  the association list of its entries.
\<close>

section \<open>Routes\<close>

record delivery_target_route =
  route_provider :: string
  route_tenant :: string
  route_kind :: string
  route_conversation_id :: string
  route_thread_id :: "string option"
  route_requested_identity_digest :: string

abbreviation route_invalid :: state_value_error where
  "route_invalid \<equiv> InvalidJson ''delivery target route''"

definition has_exactly :: "string list \<Rightarrow> (string \<times> json) list \<Rightarrow> bool" where
  "has_exactly keys object \<longleftrightarrow>
     length object = length keys \<and> list_all (\<lambda>k. map_of object k \<noteq> None) keys"

definition required_delivery_route_text ::
  "(string \<times> json) list \<Rightarrow> string \<Rightarrow> state_value_error + string" where
  "required_delivery_route_text object key =
     ok_or route_invalid (Option.bind (map_of object key) as_str)"

definition validate_delivery_route_authority ::
  "json \<Rightarrow> string \<Rightarrow> state_value_error + json" where
  "validate_delivery_route_authority authority tenant =
     (let err = InvalidJson ''delivery target route authority'' in
      rbind (ok_or err (as_object authority)) (\<lambda>object.
      if \<not> has_exactly [''context_team_id'', ''conversation_host_id'', ''enterprise_id'', ''team_id'']
             object
         \<or> Option.bind (map_of object ''team_id'') as_str \<noteq> Some tenant
         \<or> Option.bind (map_of object ''context_team_id'') as_str \<noteq> Some tenant
      then Inl err
      else rbind (required_delivery_route_text object ''conversation_host_id'') (\<lambda>host.
      rbind (validate_text ''delivery target conversation host'' host) (\<lambda>_.
      rbind (case Option.bind (map_of object ''enterprise_id'') as_str of
               Some enterprise_id \<Rightarrow> validate_text ''delivery target enterprise'' enterprise_id
             | None \<Rightarrow> if map_of object ''enterprise_id'' = Some JNull then Inr () else Inl err) (\<lambda>_.
      Inr (JObj object))))))"

definition validate_delivery_route_evidence :: "json \<Rightarrow> state_value_error + unit" where
  "validate_delivery_route_evidence evidence =
     (let err = InvalidJson ''delivery target route evidence'' in
      rbind (ok_or err (as_object evidence)) (\<lambda>object.
      if \<not> has_exactly [''digest'', ''version''] object
         \<or> (case Option.bind (map_of object ''version'') as_u64 of
              None \<Rightarrow> True | Some version \<Rightarrow> version = 0)
      then Inl err
      else rbind (ok_or err (Option.bind (map_of object ''digest'') as_str)) (\<lambda>digest.
      validate_lowercase_sha256 ''delivery target authorization evidence digest'' digest)))"

definition identity_address_value :: "(string \<times> json) list \<Rightarrow> json \<Rightarrow> string \<Rightarrow> json" where
  "identity_address_value coordinates routing_authority tenant = json_obj [
     (''coordinates'', JObj coordinates),
     (''routing_authority'', routing_authority),
     (''workspace_id'', JStr tenant)]"

definition parse_delivery_target_route_address ::
  "json \<Rightarrow> string \<Rightarrow> string
     \<Rightarrow> state_value_error + (string \<times> string option \<times> string \<times> json)" where
  "parse_delivery_target_route_address address tenant kind =
     rbind (ok_or route_invalid (as_object address)) (\<lambda>object.
     if \<not> has_exactly [''authorization_evidence'', ''coordinates'', ''created_at'',
            ''requested_identity_digest'', ''routing_authority'', ''schema_version'',
            ''workspace_id''] object
        \<or> Option.bind (map_of object ''schema_version'') as_u64 \<noteq> Some 1
        \<or> Option.bind (map_of object ''workspace_id'') as_str \<noteq> Some tenant
        \<or> (case Option.bind (map_of object ''created_at'') as_i64 of
             None \<Rightarrow> True | Some created_at \<Rightarrow> created_at < 0)
     then Inl route_invalid
     else rbind (required_delivery_route_text object ''requested_identity_digest'') (\<lambda>requested.
     rbind (validate_lowercase_sha256 ''delivery target requested identity digest'' requested) (\<lambda>_.
     rbind (ok_or route_invalid (map_of object ''routing_authority'')) (\<lambda>authority.
     rbind (validate_delivery_route_authority authority tenant) (\<lambda>routing_authority.
     rbind (ok_or route_invalid (map_of object ''authorization_evidence'')) (\<lambda>evidence.
     rbind (validate_delivery_route_evidence evidence) (\<lambda>_.
     rbind (ok_or route_invalid (Option.bind (map_of object ''coordinates'') as_object)) (\<lambda>coordinates.
     if length coordinates \<noteq> (if kind = ''thread'' then 1 else 0) + 1
        \<or> map_of coordinates ''channel_id'' = None
        \<or> (kind = ''thread'') \<noteq> (map_of coordinates ''thread_ts'' \<noteq> None)
     then Inl route_invalid
     else rbind (required_delivery_route_text coordinates ''channel_id'') (\<lambda>conversation_id.
     rbind (validate_text ''delivery target route conversation'' conversation_id) (\<lambda>_.
     rbind (case map_of coordinates ''thread_ts'' of
              None \<Rightarrow> Inr None
            | Some value \<Rightarrow> rbind (ok_or route_invalid (as_str value)) (\<lambda>t. Inr (Some t)))
       (\<lambda>thread_id.
     rbind (case thread_id of
              None \<Rightarrow> Inr () | Some t \<Rightarrow> validate_text ''delivery target route thread'' t) (\<lambda>_.
     Inr (conversation_id, thread_id, requested,
          identity_address_value coordinates routing_authority tenant)))))))))))))"

definition route_identity_value ::
  "json \<Rightarrow> string \<Rightarrow> string \<Rightarrow> string \<Rightarrow> string \<Rightarrow> json" where
  "route_identity_value identity_address connector kind provider tenant = json_obj [
     (''address'', identity_address),
     (''connector'', JStr connector),
     (''kind'', JStr kind),
     (''provider'', JStr provider),
     (''tenant'', JStr tenant)]"

definition from_canonical_target_json ::
  "ext \<Rightarrow> string \<Rightarrow> state_value_error + delivery_target_route" where
  "from_canonical_target_json x target_json =
     rbind (map_err (\<lambda>_. route_invalid) (json_parse x target_json)) (\<lambda>target.
     if json_print x target \<noteq> target_json
     then Inl (NonCanonicalJson ''delivery target route'')
     else rbind (ok_or route_invalid (as_object target)) (\<lambda>object.
     if \<not> has_exactly [''address'', ''connector'', ''identity_digest'', ''kind'', ''provider'',
            ''resolver_digest'', ''resolver_version'', ''tenant''] object
        \<or> (case Option.bind (map_of object ''resolver_version'') as_u64 of
             None \<Rightarrow> True | Some version \<Rightarrow> version = 0 \<or> version > u32_max)
     then Inl route_invalid
     else rbind (required_delivery_route_text object ''provider'') (\<lambda>provider.
     rbind (required_delivery_route_text object ''connector'') (\<lambda>connector.
     rbind (required_delivery_route_text object ''tenant'') (\<lambda>tenant.
     rbind (required_delivery_route_text object ''kind'') (\<lambda>kind.
     rbind (required_delivery_route_text object ''resolver_digest'') (\<lambda>resolver_digest.
     rbind (check_all (map (validate_text ''delivery target route identity'')
       [provider, connector, tenant, kind, resolver_digest])) (\<lambda>_.
     rbind (required_delivery_route_text object ''identity_digest'') (\<lambda>identity_digest.
     rbind (validate_lowercase_sha256 ''delivery target identity digest'' identity_digest) (\<lambda>_.
     if kind \<notin> set [''channel'', ''direct_message'', ''thread''] then Inl route_invalid
     else rbind (ok_or route_invalid (map_of object ''address'')) (\<lambda>address.
     rbind (parse_delivery_target_route_address address tenant kind)
       (\<lambda>(conversation_id, thread_id, requested, identity_address).
     if sha256_hex x (json_print x
          (route_identity_value identity_address connector kind provider tenant)) \<noteq> identity_digest
     then Inl (InvalidSha256 ''delivery target identity digest'')
     else Inr \<lparr>route_provider = provider, route_tenant = tenant, route_kind = kind,
               route_conversation_id = conversation_id, route_thread_id = thread_id,
               route_requested_identity_digest = requested\<rparr>))))))))))))"

section \<open>Snapshots\<close>

record delivery_target =
  target_id :: string
  target_provider :: string
  target_connector :: string
  target_tenant :: string
  target_kind :: string
  target_address_json :: string
  target_resolver_version :: u32
  target_resolver_digest :: string
  target_identity_digest :: string

definition delivery_target_validate :: "ext \<Rightarrow> delivery_target \<Rightarrow> state_value_error + unit" where
  "delivery_target_validate x t = check_all [
     validate_text ''target id'' (target_id t),
     validate_text ''target provider'' (target_provider t),
     validate_text ''target connector'' (target_connector t),
     validate_text ''target tenant'' (target_tenant t),
     validate_text ''target kind'' (target_kind t),
     validate_text ''resolver digest'' (target_resolver_digest t),
     validate_lowercase_sha256 ''target identity digest'' (target_identity_digest t),
     validate_canonical_snapshot x (target_resolver_version t) ''target address''
       (target_address_json t)]"

definition delivery_target_new :: "ext \<Rightarrow> delivery_target \<Rightarrow> state_value_error + delivery_target" where
  "delivery_target_new x given =
     rbind (canonicalize_snapshot x (target_resolver_version given) ''target address''
       (target_address_json given)) (\<lambda>canonical.
     let value = given \<lparr>target_address_json := canonical\<rparr> in
     rbind (delivery_target_validate x value) (\<lambda>_. Inr value))"

definition target_value :: "json \<Rightarrow> delivery_target \<Rightarrow> json" where
  "target_value address t = json_obj [
     (''address'', address),
     (''connector'', JStr (target_connector t)),
     (''identity_digest'', JStr (target_identity_digest t)),
     (''kind'', JStr (target_kind t)),
     (''provider'', JStr (target_provider t)),
     (''resolver_digest'', JStr (target_resolver_digest t)),
     (''resolver_version'', JInt (uint (target_resolver_version t))),
     (''tenant'', JStr (target_tenant t))]"

definition delivery_route :: "ext \<Rightarrow> delivery_target \<Rightarrow> state_value_error + delivery_target_route" where
  "delivery_route x t =
     rbind (map_err (\<lambda>_. route_invalid) (json_parse x (target_address_json t))) (\<lambda>address.
     from_canonical_target_json x (json_print x (target_value address t)))"

definition with_target_id :: "ext \<Rightarrow> delivery_target \<Rightarrow> string \<Rightarrow> state_value_error + delivery_target" where
  "with_target_id x t new_id =
     (let value = t \<lparr>target_id := new_id\<rparr> in
      rbind (delivery_target_validate x value) (\<lambda>_. Inr value))"

section \<open>The identity digest\<close>

text \<open>The document whose digest a target envelope must carry: coordinates, routing authority and
  tenant of its address, with connector, kind and provider.\<close>

definition identity_document :: "json \<Rightarrow> json" where
  "identity_document target =
     (let text = (\<lambda>k. case get_str target k of None \<Rightarrow> [] | Some s \<Rightarrow> s) in
      route_identity_value
        (identity_address_value
           (case pointer target [''address'', ''coordinates''] of Some (JObj m) \<Rightarrow> m | _ \<Rightarrow> [])
           (case pointer target [''address'', ''routing_authority''] of Some v \<Rightarrow> v | None \<Rightarrow> JNull)
           (text ''tenant''))
        (text ''connector'') (text ''kind'') (text ''provider'') (text ''tenant''))"

lemma as_object_SomeD: "as_object v = Some m \<Longrightarrow> v = JObj m"
  by (cases v) simp_all

lemma required_text_Inr [simp]:
  "required_delivery_route_text m k = Inr s \<longleftrightarrow> get_str (JObj m) k = Some s"
  by (simp add: required_delivery_route_text_def get_str_def)

lemma authority_unchanged: "validate_delivery_route_authority v tenant = Inr w \<Longrightarrow> w = v"
  by (auto simp: validate_delivery_route_authority_def Let_def dest: as_object_SomeD split: if_splits)

lemma parse_addressE:
  assumes "parse_delivery_target_route_address address tenant kind = Inr (conv, thread, req, ident)"
  obtains m coordinates authority where "address = JObj m"
    "map_of m ''coordinates'' = Some (JObj coordinates)"
    "map_of m ''routing_authority'' = Some authority"
    "ident = identity_address_value coordinates authority tenant"
    "get_str (JObj coordinates) ''channel_id'' = Some conv"
    "thread = get_str (JObj coordinates) ''thread_ts''"
    "kind = ''thread'' \<longleftrightarrow> thread \<noteq> None"
  using assms
  by (auto simp: parse_delivery_target_route_address_def bind_eq_Some_conv get_str_def
      dest!: as_object_SomeD authority_unchanged split: if_splits option.splits)

lemma accepted_routeE:
  assumes "from_canonical_target_json x text = Inr r"
  obtains v coordinates where "json_parse x text = Inr v" "json_print x v = text"
    "get_str v ''identity_digest'' = Some (sha256_hex x (json_print x (identity_document v)))"
    "identity_document v = route_identity_value
       (identity_address_value coordinates
          (case pointer v [''address'', ''routing_authority''] of Some a \<Rightarrow> a | None \<Rightarrow> JNull)
          (route_tenant r))
       (case get_str v ''connector'' of None \<Rightarrow> [] | Some s \<Rightarrow> s)
       (route_kind r) (route_provider r) (route_tenant r)"
    "get_str (JObj coordinates) ''channel_id'' = Some (route_conversation_id r)"
    "route_thread_id r = get_str (JObj coordinates) ''thread_ts''"
  using assms
proof -
  obtain m address provider connector tenant kind conv thread req ident where
    v: "json_parse x text = Inr (JObj m)" "json_print x (JObj m) = text"
      "get_str (JObj m) ''provider'' = Some provider"
      "get_str (JObj m) ''connector'' = Some connector" "get_str (JObj m) ''tenant'' = Some tenant"
      "get_str (JObj m) ''kind'' = Some kind" "map_of m ''address'' = Some address"
      "parse_delivery_target_route_address address tenant kind = Inr (conv, thread, req, ident)"
      "get_str (JObj m) ''identity_digest'' =
         Some (sha256_hex x (json_print x (route_identity_value ident connector kind provider tenant)))"
      "r = \<lparr>route_provider = provider, route_tenant = tenant, route_kind = kind,
         route_conversation_id = conv, route_thread_id = thread,
         route_requested_identity_digest = req\<rparr>"
    using assms unfolding from_canonical_target_json_def
    by (auto dest!: as_object_SomeD split: if_splits)
  from v(8) show thesis
  proof (rule parse_addressE)
    fix m' coordinates authority
    assume a: "address = JObj m'" "map_of m' ''coordinates'' = Some (JObj coordinates)"
      "map_of m' ''routing_authority'' = Some authority"
      "ident = identity_address_value coordinates authority tenant"
      "get_str (JObj coordinates) ''channel_id'' = Some conv"
      "thread = get_str (JObj coordinates) ''thread_ts''"
    have "identity_document (JObj m) = route_identity_value ident connector kind provider tenant"
      "pointer (JObj m) [''address'', ''routing_authority''] = Some authority"
      using v(3-7) a(1-4) by (simp_all add: identity_document_def)
    then show thesis
      using v a by (intro that [of "JObj m" coordinates]) simp_all
  qed
qed

lemma route_identity_inject:
  "route_identity_value (identity_address_value c a t) n k p t =
     route_identity_value (identity_address_value c' a' t') n' k' p' t'
   \<longleftrightarrow> c = c' \<and> a = a' \<and> t = t' \<and> n = n' \<and> k = k' \<and> p = p'"
  by (auto simp: route_identity_value_def identity_address_value_def json_obj_def)

text \<open>
  C29: the identity digest of an accepted target fixes its destination. If two accepted envelopes
  carry the same identity digest, they route to the same provider, tenant, kind, conversation and
  thread, unless SHA-256 or serde's printer confuses their two identity documents.
\<close>

theorem identity_digest_fixes_destination:
  assumes "from_canonical_target_json x text = Inr r" and "from_canonical_target_json x text' = Inr r'"
    and "json_parse x text = Inr v" and "json_parse x text' = Inr v'"
    and "get_str v ''identity_digest'' = get_str v' ''identity_digest''"
    and "sha256_hex x (json_print x (identity_document v)) =
        sha256_hex x (json_print x (identity_document v')) \<longrightarrow>
      identity_document v = identity_document v'"
  shows "route_provider r = route_provider r' \<and> route_tenant r = route_tenant r'
    \<and> route_kind r = route_kind r' \<and> route_conversation_id r = route_conversation_id r'
    \<and> route_thread_id r = route_thread_id r'"
proof -
  obtain c where c: "get_str v ''identity_digest'' =
        Some (sha256_hex x (json_print x (identity_document v)))"
      "identity_document v = route_identity_value
       (identity_address_value c
          (case pointer v [''address'', ''routing_authority''] of Some a \<Rightarrow> a | None \<Rightarrow> JNull)
          (route_tenant r))
       (case get_str v ''connector'' of None \<Rightarrow> [] | Some s \<Rightarrow> s)
       (route_kind r) (route_provider r) (route_tenant r)"
      "get_str (JObj c) ''channel_id'' = Some (route_conversation_id r)"
      "route_thread_id r = get_str (JObj c) ''thread_ts''"
    by (rule accepted_routeE [OF assms(1)]) (use assms(3) in simp)
  obtain c' where c': "get_str v' ''identity_digest'' =
        Some (sha256_hex x (json_print x (identity_document v')))"
      "identity_document v' = route_identity_value
       (identity_address_value c'
          (case pointer v' [''address'', ''routing_authority''] of Some a \<Rightarrow> a | None \<Rightarrow> JNull)
          (route_tenant r'))
       (case get_str v' ''connector'' of None \<Rightarrow> [] | Some s \<Rightarrow> s)
       (route_kind r') (route_provider r') (route_tenant r')"
      "get_str (JObj c') ''channel_id'' = Some (route_conversation_id r')"
      "route_thread_id r' = get_str (JObj c') ''thread_ts''"
    by (rule accepted_routeE [OF assms(2)]) (use assms(4) in simp)
  have "identity_document v = identity_document v'" using assms(5,6) c(1) c'(1) by simp
  then show ?thesis using c c' by (simp add: route_identity_inject)
qed

definition sample_target :: delivery_target where
  "sample_target = \<lparr>target_id = ''t'', target_provider = ''slack'', target_connector = ''c'',
     target_tenant = ''w'', target_kind = ''channel'', target_address_json = ''{}'',
     target_resolver_version = 1, target_resolver_digest = ''r'', target_identity_digest = zero_digest\<rparr>"

definition sample_address :: "string \<Rightarrow> json" where
  "sample_address requested = JObj [
     (''authorization_evidence'', JObj [(''digest'', JStr zero_digest), (''version'', JInt 1)]),
     (''coordinates'', JObj [(''channel_id'', JStr ''C1'')]),
     (''created_at'', JInt 5),
     (''requested_identity_digest'', JStr requested),
     (''routing_authority'', JObj [(''context_team_id'', JStr ''w''),
        (''conversation_host_id'', JStr ''h''), (''enterprise_id'', JNull), (''team_id'', JStr ''w'')]),
     (''schema_version'', JInt 1),
     (''workspace_id'', JStr ''w'')]"

definition sample_envelope :: "string \<Rightarrow> json" where
  "sample_envelope requested = target_value (sample_address requested) sample_target"

definition one_digest :: string where
  "one_digest = replicate 64 CHR ''1''"

definition route_ext :: ext where
  "route_ext = tiny_ext \<lparr>
     json_parse := \<lambda>t. if t = ''a'' then Inr (sample_envelope zero_digest) else Inr (sample_envelope one_digest),
     json_print := \<lambda>v. if v = sample_envelope zero_digest then ''a'' else ''b''\<rparr>"

definition sample_route :: "string \<Rightarrow> delivery_target_route" where
  "sample_route requested = \<lparr>route_provider = ''slack'', route_tenant = ''w'', route_kind = ''channel'',
     route_conversation_id = ''C1'', route_thread_id = None,
     route_requested_identity_digest = requested\<rparr>"

lemma sample_accepted:
  "from_canonical_target_json route_ext ''a'' = Inr (sample_route zero_digest)"
  "from_canonical_target_json route_ext ''b'' = Inr (sample_route one_digest)"
proof -
  have digest: "validate_lowercase_sha256 f zero_digest = Inr ()" for f
    using zero_digest_hex by (simp add: validate_lowercase_sha256_def is_lowercase_hex_def)
  have one: "validate_lowercase_sha256 f one_digest = Inr ()" for f
    by (simp add: validate_lowercase_sha256_def one_digest_def is_hex_lower_def
        is_ascii_digit_def byte_val_def list_all_iff)
  have distinct: "sample_envelope zero_digest \<noteq> sample_envelope one_digest"
    by (simp add: sample_envelope_def target_value_def json_obj_def sample_address_def zero_digest_def one_digest_def)
  have hash: "sha256_hex route_ext t = zero_digest" for t
  proof -
    have "encode_sha256 (replicate 32 CHR 0x00) = replicate 64 CHR ''0''" by code_simp
    then show ?thesis by (simp add: route_ext_def sha256_hex_def tiny_ext_def zero_digest_def)
  qed
  have field: "validate_text f ''slack'' = Inr ()" "validate_text f ''c'' = Inr ()"
    "validate_text f ''w'' = Inr ()" "validate_text f ''channel'' = Inr ()"
    "validate_text f ''r'' = Inr ()" "validate_text f ''h'' = Inr ()" "validate_text f ''C1'' = Inr ()" for f
    by (simp_all add: validate_text_def MAX_CONTEXT_BYTES_def)
  note eval = from_canonical_target_json_def sample_envelope_def target_value_def json_obj_def
    sample_target_def sample_address_def parse_delivery_target_route_address_def has_exactly_def
    required_delivery_route_text_def validate_delivery_route_authority_def Let_def
    validate_delivery_route_evidence_def check_all.simps u32_max_def sample_route_def digest one hash field
  have "json_parse route_ext ''a'' = Inr (sample_envelope zero_digest)"
    "json_print route_ext (sample_envelope zero_digest) = ''a''"
    "json_parse route_ext ''b'' = Inr (sample_envelope one_digest)"
    "json_print route_ext (sample_envelope one_digest) = ''b''"
    using distinct by (simp_all add: route_ext_def)
  then show "from_canonical_target_json route_ext ''a'' = Inr (sample_route zero_digest)"
    "from_canonical_target_json route_ext ''b'' = Inr (sample_route one_digest)"
    by (simp_all add: eval)
qed

theorem identity_digest_fixes_destination_witness:
  "from_canonical_target_json route_ext ''a'' = Inr (sample_route zero_digest)
   \<and> from_canonical_target_json route_ext ''b'' = Inr (sample_route one_digest)
   \<and> sample_route zero_digest \<noteq> sample_route one_digest
   \<and> route_conversation_id (sample_route zero_digest) = route_conversation_id (sample_route one_digest)"
  using sample_accepted
    identity_digest_fixes_destination [OF sample_accepted,
      where v = "sample_envelope zero_digest" and v' = "sample_envelope one_digest"]
  by (simp add: route_ext_def sample_envelope_def identity_document_def target_value_def
      value_get_json_obj get_str_def sample_address_def sample_route_def zero_digest_def one_digest_def)

end
