(* ===== verification/Job_Tables.thy ===== *)
theory Job_Tables
  imports Run_Safety Delivery_Target
begin

text \<open>
  The tables behind scheduled jobs, as the migrations under
  \<^verbatim>\<open>crates/state/migrations\<close> declare them: jobs, schedules, delivery targets, execution baselines,
  overlap cursors, idempotency keys, the mutation audit and the policy lock, beside the run tables.
  Every statement checks the row constraints first, then uniqueness.

  The text timestamps of an idempotency key are not modelled, nor is the floating-point result SQLite
  gives when a generation counter passes the largest 64-bit integer.
\<close>

section \<open>Rows\<close>

record job_row =
  j_job_id :: string
  j_definition_version :: i64
  j_definition_json :: string
  j_creator :: principal_key
  j_owner :: principal_key
  j_status :: job_status
  j_generation :: i64
  j_capability_schema_version :: i64
  j_capability_digest :: string
  j_capability_json :: string
  j_policy_version :: i64
  j_policy_json :: string
  j_created_at :: i64
  j_updated_at :: i64
  j_deleted_at :: "i64 option"

record schedule_row =
  s_schedule_id :: string
  s_job_id :: string
  s_parts :: schedule_parts
  s_generation :: i64
  s_next_run_at :: "i64 option"
  s_proof_version :: i64
  s_proof_json :: string
  s_updated_at :: i64

record target_row =
  t_job_id :: string
  t_ordinal :: nat
  t_target :: delivery_target

record baseline_row =
  b_job_id :: string
  b_version :: i64
  b_hash_algorithm :: "string option"
  b_result_hash :: "string option"
  b_previous_success_context :: "string option"
  b_source_run_id :: "string option"
  b_completed_at :: "i64 option"

record cursor_row =
  c_job_id :: string
  c_generation :: i64
  c_value :: i64
  c_created_at :: i64
  c_updated_at :: i64

datatype idempotency_status = KeyClaimed | KeyCompleted | KeyFailed

record idempotency_row =
  k_scope :: string
  k_key :: string
  k_status :: idempotency_status
  k_request_digest :: "string option"
  k_digest_algorithm :: "string option"
  k_response_json :: "string option"

record mutation_audit =
  audit_id :: string
  audit_principal :: "principal_key option"
  audit_operation :: string
  audit_job_id :: "string option"
  audit_request_id :: string
  audit_outcome :: string
  audit_decision :: string
  audit_reason :: "string option"
  audit_error_code :: "string option"
  audit_old_generation :: "i64 option"
  audit_new_generation :: "i64 option"
  audit_resolver_provider :: "string option"
  audit_target_kind :: "string option"
  audit_resolver_version :: "i64 option"
  audit_resolver_digest :: "string option"
  audit_capability_version :: "i64 option"
  audit_capability_digest :: "string option"
  audit_idempotency_outcome :: "string option"
  audit_latency_ms :: i64
  audit_correlation_id :: string
  audit_occurred_at :: i64

record sched_db =
  db_runs :: store
  db_jobs :: "job_row list"
  db_schedules :: "schedule_row list"
  db_targets :: "target_row list"
  db_baselines :: "baseline_row list"
  db_cursors :: "cursor_row list"
  db_keys :: "idempotency_row list"
  db_audits :: "mutation_audit list"
  db_lock :: "i64 option"

section \<open>Constraints\<close>

text \<open>SQLite's \<open>length\<close> of a text: its characters before the first NUL.\<close>

definition sql_length :: "string \<Rightarrow> nat" where
  "sql_length s = length (filter is_char_start (takeWhile (\<lambda>c. byte_val c \<noteq> 0) s))"

definition key_length_ok :: "string \<Rightarrow> bool" where
  "key_length_ok s \<longleftrightarrow> 1 \<le> sql_length s \<and> sql_length s \<le> 255"

definition principal_check :: "principal_key \<Rightarrow> bool" where
  "principal_check p \<longleftrightarrow> sql_length (principal_kind p) > 0 \<and> sql_length (principal_provider p) > 0
     \<and> sql_length (principal_tenant p) > 0 \<and> sql_length (principal_subject p) > 0"

definition job_check :: "ext \<Rightarrow> job_row \<Rightarrow> bool" where
  "job_check x j \<longleftrightarrow>
     key_length_ok (j_job_id j)
     \<and> j_definition_version j > 0 \<and> sql_json_valid x (j_definition_json j)
     \<and> principal_check (j_creator j) \<and> principal_check (j_owner j)
     \<and> j_generation j \<ge> 0
     \<and> j_capability_schema_version j > 0 \<and> sql_length (j_capability_digest j) > 0
     \<and> sql_json_valid x (j_capability_json j)
     \<and> j_policy_version j = 1 \<and> sql_json_valid x (j_policy_json j)
     \<and> (if j_status j = JobDeleted then j_deleted_at j \<noteq> None else j_deleted_at j = None)"

definition job_unique :: "job_row list \<Rightarrow> bool" where
  "job_unique rows \<longleftrightarrow> distinct (map j_job_id rows)"

definition parts_check :: "schedule_parts \<Rightarrow> bool" where
  "parts_check p \<longleftrightarrow>
     (part_kind p = ''once'' \<and> part_once_at p \<noteq> None \<and> part_anchor_at p = None
        \<and> part_interval_seconds p = None \<and> part_timezone p = None)
     \<or> (part_kind p = ''fixed_interval'' \<and> part_once_at p = None \<and> part_anchor_at p \<noteq> None
        \<and> (case part_interval_seconds p of None \<Rightarrow> False | Some every \<Rightarrow> every > 0)
        \<and> part_timezone p = None)
     \<or> (part_kind p = ''cron'' \<and> part_once_at p = None \<and> part_anchor_at p = None
        \<and> part_interval_seconds p = None \<and> part_timezone p \<noteq> None)"

definition schedule_check :: "ext \<Rightarrow> schedule_row \<Rightarrow> bool" where
  "schedule_check x s \<longleftrightarrow>
     key_length_ok (s_schedule_id s) \<and> s_generation s \<ge> 0 \<and> parts_check (s_parts s)
     \<and> s_proof_version s = 1 \<and> sql_json_valid x (s_proof_json s)"

definition schedule_unique :: "schedule_row list \<Rightarrow> bool" where
  "schedule_unique rows \<longleftrightarrow> distinct (map s_schedule_id rows) \<and> distinct (map s_job_id rows)"

definition target_check :: "ext \<Rightarrow> target_row \<Rightarrow> bool" where
  "target_check x r \<longleftrightarrow>
     (let t = t_target r in
      sql_length (target_provider t) > 0 \<and> sql_length (target_connector t) > 0
      \<and> sql_length (target_tenant t) > 0 \<and> sql_length (target_kind t) > 0
      \<and> sql_json_valid x (target_address_json t) \<and> target_resolver_version t > 0
      \<and> sql_length (target_resolver_digest t) > 0 \<and> sql_length (target_identity_digest t) > 0)"

definition target_unique :: "target_row list \<Rightarrow> bool" where
  "target_unique rows \<longleftrightarrow>
     distinct (map (\<lambda>r. target_id (t_target r)) rows)
     \<and> distinct (map (\<lambda>r. (t_job_id r, t_ordinal r)) rows)
     \<and> distinct (map (\<lambda>r. (t_job_id r, target_identity_digest (t_target r))) rows)"

definition identity_digest_ok :: "string \<Rightarrow> bool" where
  "identity_digest_ok d \<longleftrightarrow> length d = 64 \<and> list_all is_hex_lower d"

definition baseline_check :: "baseline_row \<Rightarrow> bool" where
  "baseline_check b \<longleftrightarrow>
     b_version b \<ge> 0
     \<and> ((b_result_hash b = None \<and> b_hash_algorithm b = None \<and> b_source_run_id b = None
          \<and> b_completed_at b = None)
        \<or> (b_result_hash b \<noteq> None \<and> b_hash_algorithm b \<noteq> None \<and> b_source_run_id b \<noteq> None
          \<and> b_completed_at b \<noteq> None))"

definition baseline_unique :: "baseline_row list \<Rightarrow> bool" where
  "baseline_unique rows \<longleftrightarrow> distinct (map b_job_id rows)"

definition cursor_check :: "cursor_row \<Rightarrow> bool" where
  "cursor_check c \<longleftrightarrow>
     key_length_ok (c_job_id c) \<and> c_generation c \<ge> 0 \<and> c_value c \<ge> 0
     \<and> c_created_at c \<ge> 0 \<and> c_updated_at c \<ge> c_created_at c"

definition key_check :: "idempotency_row \<Rightarrow> bool" where
  "key_check k \<longleftrightarrow> sql_length (k_scope k) > 0 \<and> sql_length (k_key k) > 0"

definition key_unique :: "idempotency_row list \<Rightarrow> bool" where
  "key_unique rows \<longleftrightarrow> distinct (map (\<lambda>k. (k_scope k, k_key k)) rows)"

definition audit_outcomes :: "string list" where
  "audit_outcomes =
     [''applied'', ''replay'', ''conflict'', ''in_progress'', ''denied'', ''not_visible'',
      ''validation'', ''resolver_unavailable'', ''resolver_not_allowed'', ''resolver_timeout'',
      ''capability_unavailable'', ''capability_invalid'', ''stale_generation'',
      ''expired_not_resumable'', ''storage_busy'', ''storage_internal'']"

definition audit_check :: "mutation_audit \<Rightarrow> bool" where
  "audit_check a \<longleftrightarrow>
     key_length_ok (audit_id a)
     \<and> (case audit_principal a of None \<Rightarrow> True | Some p \<Rightarrow> principal_check p)
     \<and> audit_operation a \<in> set [''create'', ''get'', ''list'', ''update'', ''pause'', ''resume'',
          ''delete'']
     \<and> key_length_ok (audit_request_id a)
     \<and> audit_outcome a \<in> set audit_outcomes
     \<and> audit_decision a \<in> set [''allow'', ''deny'', ''error'']
     \<and> audit_latency_ms a \<ge> 0 \<and> key_length_ok (audit_correlation_id a)"

definition audit_unique :: "mutation_audit list \<Rightarrow> bool" where
  "audit_unique rows \<longleftrightarrow> distinct (map audit_id rows)"

section \<open>Statements\<close>

definition update_jobs ::
  "ext \<Rightarrow> (job_row \<Rightarrow> bool) \<Rightarrow> (job_row \<Rightarrow> job_row) \<Rightarrow> sched_db \<Rightarrow> state_error + (sched_db \<times> nat)" where
  "update_jobs x w f db =
     rbind (map_err scheduler_error (sql_update (job_check x) job_unique w f (db_jobs db)))
       (\<lambda>(rows, n). Inr (db \<lparr>db_jobs := rows\<rparr>, n))"

definition update_schedules ::
  "ext \<Rightarrow> (schedule_row \<Rightarrow> bool) \<Rightarrow> (schedule_row \<Rightarrow> schedule_row) \<Rightarrow> sched_db
     \<Rightarrow> state_error + (sched_db \<times> nat)" where
  "update_schedules x w f db =
     rbind (map_err scheduler_error
       (sql_update (schedule_check x) schedule_unique w f (db_schedules db)))
       (\<lambda>(rows, n). Inr (db \<lparr>db_schedules := rows\<rparr>, n))"

definition insert_job :: "ext \<Rightarrow> job_row \<Rightarrow> sched_db \<Rightarrow> state_error + sched_db" where
  "insert_job x j db =
     rbind (map_err scheduler_error (sql_insert (job_check x) job_unique j (db_jobs db)))
       (\<lambda>rows. Inr (db \<lparr>db_jobs := rows\<rparr>))"

definition has_job :: "string \<Rightarrow> sched_db \<Rightarrow> bool" where
  "has_job job_id db \<longleftrightarrow> list_ex (\<lambda>j. j_job_id j = job_id) (db_jobs db)"

definition insert_schedule :: "ext \<Rightarrow> schedule_row \<Rightarrow> sched_db \<Rightarrow> state_error + sched_db" where
  "insert_schedule x s db =
     rbind (map_err scheduler_error
       (sql_insert (schedule_check x) schedule_unique s (db_schedules db))) (\<lambda>rows.
     if \<not> has_job (s_job_id s) db then Inl (scheduler_error SQLITE_CONSTRAINT_FOREIGNKEY)
     else Inr (db \<lparr>db_schedules := rows\<rparr>))"

definition insert_target :: "ext \<Rightarrow> target_row \<Rightarrow> sched_db \<Rightarrow> state_error + sched_db" where
  "insert_target x t db =
     (if \<not> identity_digest_ok (target_identity_digest (t_target t))
      then Inl (scheduler_error SQLITE_CONSTRAINT_TRIGGER)
      else rbind (map_err scheduler_error
        (sql_insert (target_check x) target_unique t (db_targets db))) (\<lambda>rows.
      if \<not> has_job (t_job_id t) db then Inl (scheduler_error SQLITE_CONSTRAINT_FOREIGNKEY)
      else Inr (db \<lparr>db_targets := rows\<rparr>)))"

definition insert_baseline :: "baseline_row \<Rightarrow> sched_db \<Rightarrow> state_error + sched_db" where
  "insert_baseline b db =
     rbind (map_err scheduler_error
       (sql_insert baseline_check baseline_unique b (db_baselines db))) (\<lambda>rows.
     if \<not> has_job (b_job_id b) db then Inl (scheduler_error SQLITE_CONSTRAINT_FOREIGNKEY)
     else Inr (db \<lparr>db_baselines := rows\<rparr>))"

text \<open>The metric triggers of an audit row: a refused principal or resolver, a failed validation and a
  policy limit each count once.\<close>

definition audit_metrics ::
  "mutation_audit \<Rightarrow> (transition_kind \<rightharpoonup> int) \<Rightarrow> (transition_kind \<rightharpoonup> int)" where
  "audit_metrics a totals =
     (let t1 = (if audit_outcome a \<in> set [''denied'', ''resolver_not_allowed'']
                then bump UnauthorizedSchedulerMutation totals else totals);
          t2 = (if audit_outcome a = ''capability_invalid'' then bump ToolListValidationFailed t1
                else if audit_outcome a = ''validation'' then bump ArtifactValidationFailed t1 else t1)
      in if audit_error_code a \<in> set [Some ''active_job_limit_exceeded'', Some ''policy_limit_rejected'']
         then bump PolicyLimitRejected t2 else t2)"

definition count_runs ::
  "((transition_kind \<rightharpoonup> int) \<Rightarrow> (transition_kind \<rightharpoonup> int)) \<Rightarrow> sched_db \<Rightarrow> sched_db" where
  "count_runs f db =
     db \<lparr>db_runs := (db_runs db) \<lparr>st_totals := f (st_totals (db_runs db))\<rparr>\<rparr>"

definition insert_mutation_audit :: "mutation_audit \<Rightarrow> sched_db \<Rightarrow> state_error + sched_db" where
  "insert_mutation_audit a db =
     rbind (map_err scheduler_error (sql_insert audit_check audit_unique a (db_audits db))) (\<lambda>rows.
     Inr (count_runs (audit_metrics a) (db \<lparr>db_audits := rows\<rparr>)))"

section \<open>Transactions\<close>

text \<open>A transaction commits its last store, or an error rolls it back; an early \<open>return Ok\<close> before
  the commit drops it too, so such a body returns the store it started from.\<close>

definition commit :: "sched_db \<Rightarrow> state_error + (sched_db \<times> 'a) \<Rightarrow> (state_error + 'a) \<times> sched_db" where
  "commit db m = (case m of Inl e \<Rightarrow> (Inl e, db) | Inr (db', v) \<Rightarrow> (Inr v, db'))"

definition on_runs ::
  "(store \<Rightarrow> state_error + store) \<Rightarrow> sched_db \<Rightarrow> state_error + sched_db" where
  "on_runs f db = rbind (f (db_runs db)) (\<lambda>s. Inr (db \<lparr>db_runs := s\<rparr>))"

lemma commit_simps [simp]:
  "commit db (Inl e) = (Inl e, db)" "commit db (Inr (db', v)) = (Inr v, db')"
  by (simp_all add: commit_def)

lemma commit_Inr: "commit db m = (Inr v, db') \<longleftrightarrow> m = Inr (db', v)"
  by (auto simp: commit_def split: sum.splits)

lemma commit_Inl: "commit db m = (Inl e, db') \<longleftrightarrow> m = Inl e \<and> db' = db"
  by (auto simp: commit_def split: sum.splits)

end
