(* ===== verification/Job_Store.thy ===== *)
theory Job_Store
  imports Job_Tables
begin

text \<open>
  The job operations of \<^verbatim>\<open>crates/state/src/scheduler/store.rs\<close>: requests and their validators,
  cadence proofs, the create, update, pause, resume and delete transactions, idempotent audited
  mutations, and the reads. The store's operational policy is the argument \<open>p\<close>, the calendar
  libraries are \<open>cal\<close>, serde, SHA-256 and SQLite's JSON functions are \<open>x\<close>.
\<close>

section \<open>Requests\<close>

record create_request =
  create_job_id :: string
  create_schedule_id :: string
  create_definition :: job_definition
  create_creator :: principal_key
  create_owner :: principal_key
  create_capability :: capability_snapshot
  create_targets :: "delivery_target list"
  create_schedule :: schedule_spec
  create_now :: i64

record update_request =
  update_job_id :: string
  update_expected_generation :: i64
  update_definition :: job_definition
  update_capability :: capability_snapshot
  update_targets :: "delivery_target list"
  update_schedule :: schedule_spec
  update_now :: i64

datatype scheduled_job_mutation =
    MCreate create_request
  | MUpdate update_request
  | MPause (mutation_job: string) (mutation_generation: i64) (mutation_time: i64)
  | MResume (mutation_job: string) (mutation_generation: i64) (mutation_time: i64)
  | MDelete (mutation_job: string) (mutation_generation: i64) (mutation_time: i64)

fun mutation_operation :: "scheduled_job_mutation \<Rightarrow> string" where
  "mutation_operation (MCreate _) = ''create''"
| "mutation_operation (MUpdate _) = ''update''"
| "mutation_operation (MPause _ _ _) = ''pause''"
| "mutation_operation (MResume _ _ _) = ''resume''"
| "mutation_operation (MDelete _ _ _) = ''delete''"

fun mutation_now :: "scheduled_job_mutation \<Rightarrow> i64" where
  "mutation_now (MCreate r) = create_now r"
| "mutation_now (MUpdate r) = update_now r"
| "mutation_now (MPause _ _ now) = now"
| "mutation_now (MResume _ _ now) = now"
| "mutation_now (MDelete _ _ now) = now"

record mutation_idempotency =
  idem_principal :: principal_key
  idem_request_id :: string
  idem_digest_algorithm :: string
  idem_request_digest :: string
  idem_response_json :: string

datatype idempotency_decision = DClaimed | DReplay string | DInProgress | DConflict

datatype mutation_outcome = MApplied string | MReplay string | MInProgress | MConflict

definition MAX_DELIVERY_TARGETS :: nat where "MAX_DELIVERY_TARGETS = 32"

section \<open>Cadence proofs\<close>

record cadence_proof_artifact =
  proof_canonical_json :: string
  proof_schedule_digest :: string
  proof_policy_digest :: string

definition schedule_value :: "schedule_spec \<Rightarrow> json \<times> string" where
  "schedule_value schedule =
     (case schedule of
        Once at_time \<Rightarrow>
          (json_obj [(''at'', JInt at_time), (''kind'', JStr ''once'')], ''once'')
      | FixedInterval anchor every \<Rightarrow>
          (json_obj [(''anchor'', JInt anchor), (''every_seconds'', JInt every),
             (''kind'', JStr ''fixed_interval'')], ''fixed_interval'')
      | Cron expression timezone \<Rightarrow>
          (json_obj [(''expression'', JStr expression), (''kind'', JStr ''cron''),
             (''timezone'', JStr timezone)], ''bounded_cron_cycle''))"

definition cadence_proof_identity ::
  "ext \<Rightarrow> schedule_spec \<Rightarrow> policy \<Rightarrow> state_error + (string \<times> string \<times> string)" where
  "cadence_proof_identity x schedule p =
     (let (schedule_json, kind) = schedule_value schedule in
      rbind (scheduler_policy_json x p) (\<lambda>policy_json.
      Inr (sha256_hex x (json_print x schedule_json), sha256_hex x policy_json, kind)))"

definition cadence_proof_verify ::
  "ext \<Rightarrow> cadence_proof_artifact \<Rightarrow> schedule_spec \<Rightarrow> policy \<Rightarrow> state_error + unit" where
  "cadence_proof_verify x pf schedule p =
     rbind (cadence_proof_identity x schedule p) (\<lambda>(schedule_digest, policy_digest, _).
     if proof_schedule_digest pf \<noteq> schedule_digest \<or> proof_policy_digest pf \<noteq> policy_digest
     then Inl (InvalidSchedulerState ''cadence proof authority does not match schedule and policy'')
     else Inr ())"

definition generate_cadence_proof ::
  "('tz, 'cron) calendar \<Rightarrow> ext \<Rightarrow> schedule_spec \<Rightarrow> i64 \<Rightarrow> policy
     \<Rightarrow> state_error + cadence_proof_artifact" where
  "generate_cadence_proof cal x schedule now p =
     rbind (map_err invalid_value (validate_minimum_cadence cal schedule now
       (minimum_schedule_cadence_seconds p) (occurrence_search_limit p))) (\<lambda>_.
     rbind (cadence_proof_identity x schedule p) (\<lambda>(schedule_digest, policy_digest, kind).
     Inr \<lparr>proof_canonical_json = json_print x (json_obj [
            (''kind'', JStr kind),
            (''minimum_seconds'', JInt (uint (minimum_schedule_cadence_seconds p))),
            (''occurrence_limit'', JInt (uint (occurrence_search_limit p))),
            (''policy_digest'', JStr policy_digest),
            (''result'', JStr ''valid''),
            (''schedule_digest'', JStr schedule_digest),
            (''schema_version'', JInt 1)]),
          proof_schedule_digest = schedule_digest,
          proof_policy_digest = policy_digest\<rparr>))"

section \<open>Validation\<close>

definition serialize_targets :: "ext \<Rightarrow> json list \<Rightarrow> state_error + string" where
  "serialize_targets x targets =
     (let serialized = json_print x (JArr targets) in
      if length serialized > MAX_SNAPSHOT_BYTES
      then Inl (InvalidSchedulerState
        ''serialized delivery targets exceed the durable snapshot bound'')
      else Inr serialized)"

definition target_count_error :: state_error where
  "target_count_error =
     InvalidSchedulerState ''resolved delivery targets must contain 1..=32 entries''"

definition validate_serialized_targets :: "ext \<Rightarrow> json list \<Rightarrow> state_error + unit" where
  "validate_serialized_targets x targets =
     (if targets = [] \<or> length targets > MAX_DELIVERY_TARGETS then Inl target_count_error
      else rbind (serialize_targets x targets) (\<lambda>_. Inr ()))"

definition target_snapshot_json :: "ext \<Rightarrow> delivery_target \<Rightarrow> state_error + json" where
  "target_snapshot_json x t =
     rbind (map_err invalid_json (json_parse x (target_address_json t))) (\<lambda>address.
     Inr (target_value address t))"

definition validate_delivery_targets :: "ext \<Rightarrow> delivery_target list \<Rightarrow> state_error + unit" where
  "validate_delivery_targets x targets =
     (if targets = [] \<or> length targets > MAX_DELIVERY_TARGETS then Inl target_count_error
      else rbind (collect_results (\<lambda>t.
          rbind (map_err invalid_value (delivery_target_validate x t)) (\<lambda>_.
          target_snapshot_json x t)) targets)
        (validate_serialized_targets x))"

definition validate_definition_policy ::
  "ext \<Rightarrow> job_definition \<Rightarrow> policy \<Rightarrow> state_error + unit" where
  "validate_definition_policy x d p =
     rbind (map_err invalid_json (json_parse x (definition_canonical_json d))) (\<lambda>value.
     case get_str value ''instruction'' of
       None \<Rightarrow> Inr ()
     | Some instruction \<Rightarrow>
         if int (length instruction) > uint (max_prompt_bytes p)
         then Inl (InvalidSchedulerState ''scheduled instruction exceeds max_prompt_bytes'')
         else Inr ())"

definition validate_create_request ::
  "('tz, 'cron) calendar \<Rightarrow> ext \<Rightarrow> create_request \<Rightarrow> policy \<Rightarrow> bool \<Rightarrow> state_error + i64" where
  "validate_create_request cal x r p validate_cadence =
     rbind (map_err invalid_value (check_all [
       validate_text ''job id'' (create_job_id r),
       validate_text ''schedule id'' (create_schedule_id r),
       principal_validate (create_creator r),
       principal_validate (create_owner r),
       job_definition_validate x (create_definition r),
       capability_snapshot_validate x (create_capability r),
       validate_for_create (create_schedule r) (create_now r)])) (\<lambda>_.
     rbind (if validate_cadence
            then rbind (generate_cadence_proof cal x (create_schedule r) (create_now r) p) (\<lambda>_. Inr ())
            else Inr ()) (\<lambda>_.
     rbind (validate_definition_policy x (create_definition r) p) (\<lambda>_.
     rbind (validate_delivery_targets x (create_targets r)) (\<lambda>_.
     map_err invalid_occurrence (first_after_create cal (create_schedule r) (create_now r))))))"

definition validate_update_request ::
  "('tz, 'cron) calendar \<Rightarrow> ext \<Rightarrow> update_request \<Rightarrow> policy \<Rightarrow> bool \<Rightarrow> state_error + unit" where
  "validate_update_request cal x r p validate_cadence =
     rbind (map_err invalid_value (check_all [
       validate_text ''job id'' (update_job_id r),
       validate_for_create (update_schedule r) (update_now r)])) (\<lambda>_.
     rbind (if validate_cadence
            then rbind (generate_cadence_proof cal x (update_schedule r) (update_now r) p) (\<lambda>_. Inr ())
            else Inr ()) (\<lambda>_.
     rbind (map_err invalid_value (job_definition_validate x (update_definition r))) (\<lambda>_.
     rbind (validate_definition_policy x (update_definition r) p) (\<lambda>_.
     rbind (map_err invalid_value (capability_snapshot_validate x (update_capability r))) (\<lambda>_.
     if update_expected_generation r < 0
     then Inl (InvalidSchedulerState ''invalid update generation'')
     else validate_delivery_targets x (update_targets r))))))"

definition validate_lifecycle_mutation :: "string \<Rightarrow> i64 \<Rightarrow> state_error + unit" where
  "validate_lifecycle_mutation job_id expected_generation =
     rbind (map_err invalid_value (validate_text ''job id'' job_id)) (\<lambda>_.
     if expected_generation < 0
     then Inl (InvalidSchedulerState ''expected generation must not be negative'')
     else Inr ())"

section \<open>Jobs and limits\<close>

definition acquire_scheduler_policy_lock :: "i64 \<Rightarrow> sched_db \<Rightarrow> state_error + sched_db" where
  "acquire_scheduler_policy_lock now db =
     (case db_lock db of
        None \<Rightarrow> Inl (InvalidSchedulerState ''scheduler operational policy lock is unavailable'')
      | Some _ \<Rightarrow> Inr (db \<lparr>db_lock := Some now\<rparr>))"

definition active_jobs :: "(job_row \<Rightarrow> bool) \<Rightarrow> string option \<Rightarrow> sched_db \<Rightarrow> int" where
  "active_jobs sel excluded db =
     int (length (filter (\<lambda>j. j_status j = JobActive \<and> sel j \<and> Some (j_job_id j) \<noteq> excluded)
       (db_jobs db)))"

definition enforce_active_job_limits ::
  "policy \<Rightarrow> principal_key \<Rightarrow> string option \<Rightarrow> sched_db \<Rightarrow> state_error + unit" where
  "enforce_active_job_limits p owner excluded db =
     (if active_jobs (\<lambda>_. True) excluded db \<ge> uint (max_active_jobs p)
      then Inl (ScheduledActiveJobLimitExceeded ''global'')
      else if active_jobs (\<lambda>j. j_owner j = owner) excluded db \<ge> uint (max_active_jobs_per_owner p)
      then Inl (ScheduledActiveJobLimitExceeded ''owner'')
      else Inr ())"

fun insert_targets ::
  "ext \<Rightarrow> string \<Rightarrow> nat \<Rightarrow> delivery_target list \<Rightarrow> sched_db \<Rightarrow> state_error + sched_db" where
  "insert_targets x job_id ordinal [] db = Inr db"
| "insert_targets x job_id ordinal (t # ts) db =
     rbind (insert_target x \<lparr>t_job_id = job_id, t_ordinal = ordinal, t_target = t\<rparr> db)
       (insert_targets x job_id (ordinal + 1) ts)"

definition replace_delivery_targets ::
  "ext \<Rightarrow> string \<Rightarrow> delivery_target list \<Rightarrow> sched_db \<Rightarrow> state_error + sched_db" where
  "replace_delivery_targets x job_id targets db =
     insert_targets x job_id 0 targets
       (db \<lparr>db_targets := filter (\<lambda>t. t_job_id t \<noteq> job_id) (db_targets db)\<rparr>)"

definition new_job :: "create_request \<Rightarrow> string \<Rightarrow> job_row" where
  "new_job r policy_json = \<lparr>
     j_job_id = create_job_id r,
     j_definition_version = uint (definition_snapshot_version (create_definition r)),
     j_definition_json = definition_canonical_json (create_definition r),
     j_creator = create_creator r, j_owner = create_owner r, j_status = JobActive, j_generation = 0,
     j_capability_schema_version = uint (capability_snapshot_version (create_capability r)),
     j_capability_digest = capability_snapshot_digest (create_capability r),
     j_capability_json = capability_canonical_json (create_capability r),
     j_policy_version = 1, j_policy_json = policy_json,
     j_created_at = create_now r, j_updated_at = create_now r, j_deleted_at = None\<rparr>"

definition new_schedule ::
  "create_request \<Rightarrow> i64 \<Rightarrow> cadence_proof_artifact \<Rightarrow> schedule_row" where
  "new_schedule r due_at pf = \<lparr>
     s_schedule_id = create_schedule_id r, s_job_id = create_job_id r,
     s_parts = storage_parts (create_schedule r), s_generation = 0, s_next_run_at = Some due_at,
     s_proof_version = 1, s_proof_json = proof_canonical_json pf, s_updated_at = create_now r\<rparr>"

definition empty_baseline :: "string \<Rightarrow> baseline_row" where
  "empty_baseline job_id = \<lparr>b_job_id = job_id, b_version = 0, b_hash_algorithm = None,
     b_result_hash = None, b_previous_success_context = None, b_source_run_id = None,
     b_completed_at = None\<rparr>"

definition insert_scheduled_job ::
  "ext \<Rightarrow> create_request \<Rightarrow> i64 \<Rightarrow> string \<Rightarrow> cadence_proof_artifact \<Rightarrow> sched_db
     \<Rightarrow> state_error + sched_db" where
  "insert_scheduled_job x r due_at policy_json pf db =
     rbind (scheduler_policy_from_snapshot x 1 policy_json) (\<lambda>policy.
     rbind (cadence_proof_verify x pf (create_schedule r) policy) (\<lambda>_.
     rbind (insert_job x (new_job r policy_json) db) (\<lambda>db1.
     rbind (insert_schedule x (new_schedule r due_at pf) db1) (\<lambda>db2.
     rbind (replace_delivery_targets x (create_job_id r) (create_targets r) db2) (\<lambda>db3.
     insert_baseline (empty_baseline (create_job_id r)) db3)))))"

definition create_job_in_transaction ::
  "ext \<Rightarrow> policy \<Rightarrow> create_request \<Rightarrow> i64 \<Rightarrow> string \<Rightarrow> cadence_proof_artifact \<Rightarrow> sched_db
     \<Rightarrow> state_error + sched_db" where
  "create_job_in_transaction x p r due_at policy_json pf db =
     rbind (acquire_scheduler_policy_lock (create_now r) db) (\<lambda>db1.
     rbind (enforce_active_job_limits p (create_owner r) None db1) (\<lambda>_.
     insert_scheduled_job x r due_at policy_json pf db1))"

definition create_scheduled_job ::
  "('tz, 'cron) calendar \<Rightarrow> ext \<Rightarrow> policy \<Rightarrow> create_request \<Rightarrow> sched_db
     \<Rightarrow> (state_error + unit) \<times> sched_db" where
  "create_scheduled_job cal x p r db =
     commit db
       (rbind (validate_create_request cal x r p False) (\<lambda>due_at.
        rbind (generate_cadence_proof cal x (create_schedule r) (create_now r) p) (\<lambda>pf.
        rbind (scheduler_policy_json x p) (\<lambda>policy_json.
        rbind (create_job_in_transaction x p r due_at policy_json pf db) (\<lambda>db'. Inr (db', ()))))))"

section \<open>Update\<close>

definition job_at ::
  "string \<Rightarrow> i64 \<Rightarrow> job_status list \<Rightarrow> sched_db \<Rightarrow> job_row option" where
  "job_at job_id generation statuses db =
     List.find (\<lambda>j. j_job_id j = job_id \<and> j_generation j = generation \<and> j_status j \<in> set statuses)
       (db_jobs db)"

definition owner_from_row :: "job_row \<Rightarrow> state_error + principal_key" where
  "owner_from_row j =
     map_err invalid_value (principal_new (principal_kind (j_owner j)) (principal_provider (j_owner j))
       (principal_tenant (j_owner j)) (principal_subject (j_owner j)))"

text \<open>The next occurrence of an updated job: none while it stays paused.\<close>

definition update_due ::
  "('tz, 'cron) calendar \<Rightarrow> policy \<Rightarrow> update_request \<Rightarrow> job_row \<Rightarrow> principal_key \<Rightarrow> sched_db
     \<Rightarrow> state_error + i64 option" where
  "update_due cal p r j owner db =
     (if j_status j = JobActive
      then rbind (enforce_active_job_limits p owner (Some (update_job_id r)) db) (\<lambda>_.
           rbind (map_err invalid_occurrence
             (first_after_create cal (update_schedule r) (update_now r))) (\<lambda>due_at.
           Inr (Some due_at)))
      else Inr None)"

definition apply_update ::
  "('tz, 'cron) calendar \<Rightarrow> ext \<Rightarrow> policy \<Rightarrow> update_request \<Rightarrow> string
     \<Rightarrow> cadence_proof_artifact \<Rightarrow> sched_db \<Rightarrow> state_error + sched_db" where
  "apply_update cal x p r policy_json pf db =
     rbind (cadence_proof_verify x pf (update_schedule r) p) (\<lambda>_.
     rbind (acquire_scheduler_policy_lock (update_now r) db) (\<lambda>db1.
     rbind (ok_or SchedulerGenerationConflict (job_at (update_job_id r)
       (update_expected_generation r) [JobActive, JobPaused] db1)) (\<lambda>j.
     rbind (owner_from_row j) (\<lambda>owner.
     rbind (update_due cal p r j owner db1) (\<lambda>due_at.
     rbind (update_jobs x
       (\<lambda>k. j_job_id k = update_job_id r \<and> j_generation k = update_expected_generation r
          \<and> j_status k = j_status j)
       (\<lambda>k. k \<lparr>j_definition_version := uint (definition_snapshot_version (update_definition r)),
          j_definition_json := definition_canonical_json (update_definition r),
          j_capability_schema_version := uint (capability_snapshot_version (update_capability r)),
          j_capability_digest := capability_snapshot_digest (update_capability r),
          j_capability_json := capability_canonical_json (update_capability r),
          j_policy_version := 1, j_policy_json := policy_json,
          j_generation := j_generation k + 1, j_updated_at := update_now r\<rparr>) db1) (\<lambda>(db2, n).
     if n \<noteq> 1 then Inl SchedulerGenerationConflict
     else rbind (on_runs (cancel_pre_execution_runs x (update_job_id r)
       (update_expected_generation r) (update_now r)) db2) (\<lambda>db3.
     let db4 = db3 \<lparr>db_cursors := filter (\<lambda>c. c_job_id c \<noteq> update_job_id r) (db_cursors db3)\<rparr> in
     rbind (update_schedules x (\<lambda>s. s_job_id s = update_job_id r)
       (\<lambda>s. s \<lparr>s_parts := storage_parts (update_schedule r), s_next_run_at := due_at,
          s_proof_version := 1, s_proof_json := proof_canonical_json pf,
          s_generation := s_generation s + 1, s_updated_at := update_now r\<rparr>) db4) (\<lambda>(db5, _).
     replace_delivery_targets x (update_job_id r) (update_targets r) db5))))))))"

definition update_scheduled_job ::
  "('tz, 'cron) calendar \<Rightarrow> ext \<Rightarrow> policy \<Rightarrow> update_request \<Rightarrow> sched_db
     \<Rightarrow> (state_error + i64) \<times> sched_db" where
  "update_scheduled_job cal x p r db =
     commit db
       (rbind (validate_update_request cal x r p False) (\<lambda>_.
        rbind (generate_cadence_proof cal x (update_schedule r) (update_now r) p) (\<lambda>pf.
        rbind (scheduler_policy_json x p) (\<lambda>policy_json.
        rbind (apply_update cal x p r policy_json pf db) (\<lambda>db'.
        Inr (db', update_expected_generation r + 1))))))"

section \<open>Pause, delete and resume\<close>

definition apply_inactive ::
  "ext \<Rightarrow> string \<Rightarrow> i64 \<Rightarrow> job_status \<Rightarrow> i64 \<Rightarrow> sched_db \<Rightarrow> state_error + sched_db" where
  "apply_inactive x job_id expected_generation status now db =
     rbind (update_jobs x
       (\<lambda>j. j_job_id j = job_id \<and> j_generation j = expected_generation
          \<and> (j_status j \<in> set [JobActive, JobPaused]
             \<or> (status = JobDeleted \<and> j_status j = JobCompleted)))
       (\<lambda>j. j \<lparr>j_status := status, j_generation := j_generation j + 1, j_updated_at := now,
          j_deleted_at := (if status = JobDeleted then Some now else None)\<rparr>) db) (\<lambda>(db1, n).
     if n \<noteq> 1 then Inl SchedulerGenerationConflict
     else rbind (on_runs (cancel_pre_execution_runs x job_id expected_generation now) db1) (\<lambda>db2.
     rbind (update_schedules x (\<lambda>s. s_job_id s = job_id)
       (\<lambda>s. s \<lparr>s_generation := s_generation s + 1, s_updated_at := now\<rparr>) db2) (\<lambda>(db3, _).
     Inr db3)))"

definition set_job_inactive ::
  "ext \<Rightarrow> string \<Rightarrow> i64 \<Rightarrow> job_status \<Rightarrow> i64 \<Rightarrow> sched_db \<Rightarrow> (state_error + i64) \<times> sched_db" where
  "set_job_inactive x job_id expected_generation status now db =
     commit db
       (rbind (apply_inactive x job_id expected_generation status now db) (\<lambda>db'.
        Inr (db', expected_generation + 1)))"

definition pause_scheduled_job ::
  "ext \<Rightarrow> string \<Rightarrow> i64 \<Rightarrow> i64 \<Rightarrow> sched_db \<Rightarrow> (state_error + i64) \<times> sched_db" where
  "pause_scheduled_job x job_id expected_generation now db =
     set_job_inactive x job_id expected_generation JobPaused now db"

definition delete_scheduled_job ::
  "ext \<Rightarrow> string \<Rightarrow> i64 \<Rightarrow> i64 \<Rightarrow> sched_db \<Rightarrow> (state_error + i64) \<times> sched_db" where
  "delete_scheduled_job x job_id expected_generation now db =
     set_job_inactive x job_id expected_generation JobDeleted now db"

definition schedule_of :: "string \<Rightarrow> sched_db \<Rightarrow> schedule_row option" where
  "schedule_of job_id db = List.find (\<lambda>s. s_job_id s = job_id) (db_schedules db)"

definition paused_schedule ::
  "string \<Rightarrow> i64 \<Rightarrow> sched_db \<Rightarrow> (job_row \<times> schedule_row) option" where
  "paused_schedule job_id generation db =
     Option.bind (job_at job_id generation [JobPaused] db) (\<lambda>j.
     map_option (\<lambda>s. (j, s)) (schedule_of job_id db))"

definition validate_resume_cadence ::
  "('tz, 'cron) calendar \<Rightarrow> ext \<Rightarrow> policy \<Rightarrow> string \<Rightarrow> i64 \<Rightarrow> i64 \<Rightarrow> sched_db
     \<Rightarrow> state_error + cadence_proof_artifact" where
  "validate_resume_cadence cal x p job_id expected_generation now db =
     rbind (ok_or SchedulerGenerationConflict (paused_schedule job_id expected_generation db))
       (\<lambda>(_, s).
     rbind (from_storage cal (s_parts s)) (\<lambda>schedule.
     generate_cadence_proof cal x schedule now p))"

definition apply_resume ::
  "('tz, 'cron) calendar \<Rightarrow> ext \<Rightarrow> policy \<Rightarrow> string \<Rightarrow> i64 \<Rightarrow> i64 \<Rightarrow> string
     \<Rightarrow> cadence_proof_artifact \<Rightarrow> sched_db \<Rightarrow> state_error + sched_db" where
  "apply_resume cal x p job_id expected_generation now policy_json pf db =
     rbind (acquire_scheduler_policy_lock now db) (\<lambda>db1.
     rbind (ok_or SchedulerGenerationConflict (paused_schedule job_id expected_generation db1))
       (\<lambda>(j, s).
     rbind (from_storage cal (s_parts s)) (\<lambda>schedule.
     rbind (cadence_proof_verify x pf schedule p) (\<lambda>_.
     rbind (owner_from_row j) (\<lambda>owner.
     rbind (enforce_active_job_limits p owner None db1) (\<lambda>_.
     rbind (map_err (\<lambda>e. case schedule of Once _ \<Rightarrow> ScheduledOnceExpired | _ \<Rightarrow> invalid_occurrence e)
       (next_after cal schedule now)) (\<lambda>due_at.
     rbind (update_jobs x
       (\<lambda>k. j_job_id k = job_id \<and> j_generation k = expected_generation \<and> j_status k = JobPaused)
       (\<lambda>k. k \<lparr>j_status := JobActive, j_policy_version := 1, j_policy_json := policy_json,
          j_generation := j_generation k + 1, j_updated_at := now\<rparr>) db1) (\<lambda>(db2, _).
     rbind (update_schedules x (\<lambda>r. s_job_id r = job_id)
       (\<lambda>r. r \<lparr>s_next_run_at := Some due_at, s_proof_version := 1,
          s_proof_json := proof_canonical_json pf, s_generation := s_generation r + 1,
          s_updated_at := now\<rparr>) db2) (\<lambda>(db3, _).
     Inr db3)))))))))"

text \<open>The cadence is validated on a read before the transaction: \<open>before\<close> is the store of that read.\<close>

definition resume_scheduled_job ::
  "('tz, 'cron) calendar \<Rightarrow> ext \<Rightarrow> policy \<Rightarrow> string \<Rightarrow> i64 \<Rightarrow> i64 \<Rightarrow> sched_db \<Rightarrow> sched_db
     \<Rightarrow> (state_error + i64) \<times> sched_db" where
  "resume_scheduled_job cal x p job_id expected_generation now before db =
     commit db
       (rbind (validate_resume_cadence cal x p job_id expected_generation now before) (\<lambda>pf.
        rbind (scheduler_policy_json x p) (\<lambda>policy_json.
        rbind (apply_resume cal x p job_id expected_generation now policy_json pf db) (\<lambda>db'.
        Inr (db', expected_generation + 1)))))"

end
