(* ===== verification/Job_Mutations.thy ===== *)
theory Job_Mutations
  imports Job_Store
begin

text \<open>
  Idempotent, audited schedule mutations, the mutation audit, the execution baseline and the reads of
  \<^verbatim>\<open>crates/state/src/scheduler/store.rs\<close>.
\<close>

section \<open>Requests\<close>

definition validate_idempotency_request ::
  "string \<Rightarrow> string \<Rightarrow> string \<Rightarrow> string \<Rightarrow> state_error + unit" where
  "validate_idempotency_request operation request_id digest_algorithm request_digest =
     map_err invalid_value (check_all [
       validate_text ''schedule operation'' operation,
       validate_text ''schedule request id'' request_id,
       validate_text ''request digest algorithm'' digest_algorithm,
       validate_text ''request digest'' request_digest])"

definition validate_mutation_idempotency ::
  "ext \<Rightarrow> scheduled_job_mutation \<Rightarrow> mutation_idempotency \<Rightarrow> state_error + unit" where
  "validate_mutation_idempotency x m idem =
     rbind (validate_idempotency_request (mutation_operation m) (idem_request_id idem)
       (idem_digest_algorithm idem) (idem_request_digest idem)) (\<lambda>_.
     if length (idem_response_json idem) > MAX_SNAPSHOT_BYTES
        \<or> \<not> is_ok (json_parse x (idem_response_json idem))
     then Inl (InvalidSchedulerState ''idempotency response must be bounded valid JSON'')
     else Inr ())"

definition optional_text :: "string \<Rightarrow> string option \<Rightarrow> state_value_error + unit" where
  "optional_text field value = (case value of None \<Rightarrow> Inr () | Some v \<Rightarrow> validate_text field v)"

definition validate_schedule_audit :: "mutation_audit \<Rightarrow> state_error + unit" where
  "validate_schedule_audit a =
     rbind (map_err invalid_value (check_all [
       validate_text ''audit id'' (audit_id a),
       validate_text ''audit operation'' (audit_operation a),
       validate_text ''audit request id'' (audit_request_id a),
       validate_text ''audit outcome'' (audit_outcome a),
       validate_text ''audit decision'' (audit_decision a),
       validate_text ''audit correlation id'' (audit_correlation_id a),
       optional_text ''audit job id'' (audit_job_id a),
       optional_text ''audit reason'' (audit_reason a),
       optional_text ''audit error code'' (audit_error_code a),
       (case audit_principal a of None \<Rightarrow> Inr () | Some p \<Rightarrow> principal_validate p)])) (\<lambda>_.
     if audit_latency_ms a < 0 \<or> audit_decision a \<notin> set [''allow'', ''deny'', ''error'']
        \<or> audit_outcome a \<notin> set audit_outcomes
     then Inl (InvalidSchedulerState ''invalid schedule audit outcome'')
     else Inr ())"

fun mutation_job_id :: "scheduled_job_mutation \<Rightarrow> string" where
  "mutation_job_id (MCreate r) = create_job_id r"
| "mutation_job_id (MUpdate r) = update_job_id r"
| "mutation_job_id (MPause job_id _ _) = job_id"
| "mutation_job_id (MResume job_id _ _) = job_id"
| "mutation_job_id (MDelete job_id _ _) = job_id"

definition validate_mutation_audit ::
  "scheduled_job_mutation \<Rightarrow> mutation_idempotency \<Rightarrow> mutation_audit \<Rightarrow> state_error + unit" where
  "validate_mutation_audit m idem a =
     rbind (validate_schedule_audit a) (\<lambda>_.
     if audit_principal a \<noteq> Some (idem_principal idem)
        \<or> audit_operation a \<noteq> mutation_operation m
        \<or> audit_job_id a \<noteq> Some (mutation_job_id m)
        \<or> audit_request_id a \<noteq> idem_request_id idem
        \<or> audit_outcome a \<noteq> ''applied'' \<or> audit_decision a \<noteq> ''allow''
        \<or> audit_occurred_at a \<noteq> mutation_now m
     then Inl (InvalidSchedulerState
       ''schedule mutation audit does not match the authorized mutation'')
     else Inr ())"

section \<open>Idempotency keys\<close>

definition canonical_idempotency_scope :: "ext \<Rightarrow> principal_key \<Rightarrow> string \<Rightarrow> string" where
  "canonical_idempotency_scope x who operation = json_print x (json_obj [
     (''kind'', JStr (principal_kind who)),
     (''operation'', JStr operation),
     (''provider'', JStr (principal_provider who)),
     (''subject'', JStr (principal_subject who)),
     (''tenant'', JStr (principal_tenant who))])"

definition key_row :: "string \<Rightarrow> string \<Rightarrow> sched_db \<Rightarrow> idempotency_row option" where
  "key_row scope key db = List.find (\<lambda>k. k_scope k = scope \<and> k_key k = key) (db_keys db)"

definition read_idempotency_decision ::
  "string \<Rightarrow> string \<Rightarrow> string \<Rightarrow> string \<Rightarrow> sched_db \<Rightarrow> state_error + idempotency_decision" where
  "read_idempotency_decision scope request_id digest_algorithm request_digest db =
     rbind (ok_or (scheduler_error SqlxOther) (key_row scope request_id db)) (\<lambda>k.
     if k_request_digest k \<noteq> Some request_digest \<or> k_digest_algorithm k \<noteq> Some digest_algorithm
     then Inr DConflict
     else if k_status k \<noteq> KeyCompleted then Inr DInProgress
     else rbind (ok_or (InvalidSchedulerState ''completed idempotency record has no response'')
       (k_response_json k)) (\<lambda>response. Inr (DReplay response)))"

definition claim_idempotency_in_transaction ::
  "ext \<Rightarrow> principal_key \<Rightarrow> string \<Rightarrow> string \<Rightarrow> string \<Rightarrow> string \<Rightarrow> sched_db
     \<Rightarrow> state_error + (sched_db \<times> idempotency_decision)" where
  "claim_idempotency_in_transaction x who operation request_id digest_algorithm request_digest db =
     (let scope = canonical_idempotency_scope x who operation;
          row = \<lparr>k_scope = scope, k_key = request_id, k_status = KeyClaimed,
                 k_request_digest = Some request_digest, k_digest_algorithm = Some digest_algorithm,
                 k_response_json = None\<rparr>
      in if \<not> key_check row then Inl (scheduler_error SQLITE_CONSTRAINT_CHECK)
         else if key_row scope request_id db = None
         then Inr (db \<lparr>db_keys := db_keys db @ [row]\<rparr>, DClaimed)
         else rbind (read_idempotency_decision scope request_id digest_algorithm request_digest db)
           (\<lambda>decision. Inr (db, decision)))"

definition complete_idempotency_in_transaction ::
  "ext \<Rightarrow> principal_key \<Rightarrow> string \<Rightarrow> mutation_idempotency \<Rightarrow> sched_db \<Rightarrow> state_error + sched_db" where
  "complete_idempotency_in_transaction x who operation idem db =
     (let scope = canonical_idempotency_scope x who operation in
      rbind (map_err scheduler_error (sql_update key_check key_unique
        (\<lambda>k. k_scope k = scope \<and> k_key k = idem_request_id idem \<and> k_status k = KeyClaimed
           \<and> k_digest_algorithm k = Some (idem_digest_algorithm idem)
           \<and> k_request_digest k = Some (idem_request_digest idem))
        (\<lambda>k. k \<lparr>k_status := KeyCompleted, k_response_json := Some (idem_response_json idem)\<rparr>)
        (db_keys db))) (\<lambda>(rows, n).
      if n \<noteq> 1
      then Inl (InvalidSchedulerState ''idempotency claim changed before completion'')
      else Inr (db \<lparr>db_keys := rows\<rparr>)))"

section \<open>Mutations\<close>

definition prevalidate_schedule_mutation ::
  "('tz, 'cron) calendar \<Rightarrow> ext \<Rightarrow> policy \<Rightarrow> scheduled_job_mutation \<Rightarrow> sched_db
     \<Rightarrow> state_error + cadence_proof_artifact option" where
  "prevalidate_schedule_mutation cal x p m db =
     (case m of
        MCreate r \<Rightarrow>
          rbind (validate_create_request cal x r p False) (\<lambda>_.
          rbind (generate_cadence_proof cal x (create_schedule r) (create_now r) p) (\<lambda>pf.
          Inr (Some pf)))
      | MUpdate r \<Rightarrow>
          rbind (validate_update_request cal x r p False) (\<lambda>_.
          rbind (generate_cadence_proof cal x (update_schedule r) (update_now r) p) (\<lambda>pf.
          Inr (Some pf)))
      | MResume job_id expected_generation now \<Rightarrow>
          rbind (validate_lifecycle_mutation job_id expected_generation) (\<lambda>_.
          rbind (validate_resume_cadence cal x p job_id expected_generation now db) (\<lambda>pf.
          Inr (Some pf)))
      | MPause job_id expected_generation _ \<Rightarrow>
          rbind (validate_lifecycle_mutation job_id expected_generation) (\<lambda>_. Inr None)
      | MDelete job_id expected_generation _ \<Rightarrow>
          rbind (validate_lifecycle_mutation job_id expected_generation) (\<lambda>_. Inr None))"

definition apply_typed_mutation ::
  "('tz, 'cron) calendar \<Rightarrow> ext \<Rightarrow> policy \<Rightarrow> scheduled_job_mutation
     \<Rightarrow> cadence_proof_artifact option \<Rightarrow> sched_db \<Rightarrow> state_error + sched_db" where
  "apply_typed_mutation cal x p m cadence_proof db =
     rbind (scheduler_policy_json x p) (\<lambda>policy_json.
     case m of
       MCreate r \<Rightarrow>
         rbind (validate_create_request cal x r p False) (\<lambda>due_at.
         rbind (ok_or (InvalidSchedulerState ''create mutation is missing cadence proof authority'')
           cadence_proof) (\<lambda>pf.
         create_job_in_transaction x p r due_at policy_json pf db))
     | MUpdate r \<Rightarrow>
         rbind (validate_update_request cal x r p False) (\<lambda>_.
         rbind (ok_or (InvalidSchedulerState ''update mutation is missing cadence proof authority'')
           cadence_proof) (\<lambda>pf.
         apply_update cal x p r policy_json pf db))
     | MPause job_id expected_generation now \<Rightarrow>
         rbind (validate_lifecycle_mutation job_id expected_generation) (\<lambda>_.
         apply_inactive x job_id expected_generation JobPaused now db)
     | MResume job_id expected_generation now \<Rightarrow>
         rbind (validate_lifecycle_mutation job_id expected_generation) (\<lambda>_.
         rbind (ok_or (InvalidSchedulerState ''resume mutation is missing cadence proof authority'')
           cadence_proof) (\<lambda>pf.
         apply_resume cal x p job_id expected_generation now policy_json pf db))
     | MDelete job_id expected_generation now \<Rightarrow>
         rbind (validate_lifecycle_mutation job_id expected_generation) (\<lambda>_.
         apply_inactive x job_id expected_generation JobDeleted now db))"

text \<open>The prevalidation reads before the transaction: \<open>before\<close> is the store of that read.\<close>

definition apply_idempotent_schedule_mutation_with_audit ::
  "('tz, 'cron) calendar \<Rightarrow> ext \<Rightarrow> policy \<Rightarrow> scheduled_job_mutation \<Rightarrow> mutation_idempotency
     \<Rightarrow> mutation_audit option \<Rightarrow> sched_db \<Rightarrow> sched_db \<Rightarrow> (state_error + mutation_outcome) \<times> sched_db" where
  "apply_idempotent_schedule_mutation_with_audit cal x p m idem audit before db =
     commit db
       (rbind (validate_mutation_idempotency x m idem) (\<lambda>_.
        rbind (case audit of None \<Rightarrow> Inr () | Some a \<Rightarrow> validate_mutation_audit m idem a) (\<lambda>_.
        rbind (prevalidate_schedule_mutation cal x p m before) (\<lambda>cadence_proof.
        rbind (claim_idempotency_in_transaction x (idem_principal idem) (mutation_operation m)
          (idem_request_id idem) (idem_digest_algorithm idem) (idem_request_digest idem) db)
          (\<lambda>(db1, decision).
        case decision of
          DClaimed \<Rightarrow>
            rbind (apply_typed_mutation cal x p m cadence_proof db1) (\<lambda>db2.
            rbind (case audit of None \<Rightarrow> Inr db2 | Some a \<Rightarrow> insert_mutation_audit a db2) (\<lambda>db3.
            rbind (complete_idempotency_in_transaction x (idem_principal idem)
              (mutation_operation m) idem db3) (\<lambda>db4.
            Inr (db4, MApplied (idem_response_json idem)))))
        | DReplay response \<Rightarrow> Inr (db1, MReplay response)
        | DInProgress \<Rightarrow> Inr (db1, MInProgress)
        | DConflict \<Rightarrow> Inr (db1, MConflict))))))"

definition apply_idempotent_schedule_mutation ::
  "('tz, 'cron) calendar \<Rightarrow> ext \<Rightarrow> policy \<Rightarrow> scheduled_job_mutation \<Rightarrow> mutation_idempotency
     \<Rightarrow> sched_db \<Rightarrow> sched_db \<Rightarrow> (state_error + mutation_outcome) \<times> sched_db" where
  "apply_idempotent_schedule_mutation cal x p m idem before db =
     apply_idempotent_schedule_mutation_with_audit cal x p m idem None before db"

definition append_schedule_audit :: "mutation_audit \<Rightarrow> sched_db \<Rightarrow> (state_error + unit) \<times> sched_db" where
  "append_schedule_audit a db =
     commit db
       (rbind (validate_schedule_audit a) (\<lambda>_.
        rbind (insert_mutation_audit a db) (\<lambda>db'. Inr (db', ()))))"

record audit_summary =
  summary_audit_id :: string
  summary_operation :: string
  summary_outcome :: string
  summary_decision :: string
  summary_reason :: "string option"
  summary_error_code :: "string option"
  summary_idempotency_outcome :: "string option"

definition audit_summary_of :: "mutation_audit \<Rightarrow> audit_summary" where
  "audit_summary_of a = \<lparr>summary_audit_id = audit_id a, summary_operation = audit_operation a,
     summary_outcome = audit_outcome a, summary_decision = audit_decision a,
     summary_reason = audit_reason a, summary_error_code = audit_error_code a,
     summary_idempotency_outcome = audit_idempotency_outcome a\<rparr>"

definition list_schedule_audit_summaries ::
  "string \<Rightarrow> sched_db \<Rightarrow> state_error + audit_summary list" where
  "list_schedule_audit_summaries correlation_id db =
     rbind (map_err invalid_value (validate_text ''audit correlation id'' correlation_id)) (\<lambda>_.
     Inr (map audit_summary_of (sort_key audit_id
       (filter (\<lambda>a. audit_correlation_id a = correlation_id) (db_audits db)))))"

section \<open>Execution baselines\<close>

record execution_baseline_update =
  eb_job_id :: string
  eb_expected_version :: i64
  eb_hash_algorithm :: string
  eb_result_hash :: string
  eb_previous_success_context :: string
  eb_source_run_id :: string
  eb_completed_at :: i64

definition compare_and_swap_execution_baseline_in_transaction ::
  "execution_baseline_update \<Rightarrow> sched_db \<Rightarrow> state_error + (sched_db \<times> bool)" where
  "compare_and_swap_execution_baseline_in_transaction u db =
     rbind (map_err invalid_value (check_all [
       validate_text ''execution hash algorithm'' (eb_hash_algorithm u),
       validate_text ''execution result hash'' (eb_result_hash u),
       validate_text ''source run id'' (eb_source_run_id u)])) (\<lambda>_.
     if length (eb_previous_success_context u) > MAX_CONTEXT_BYTES \<or> eb_expected_version u < 0
     then Inl (InvalidSchedulerState ''invalid execution baseline CAS'')
     else rbind (map_err scheduler_error (sql_update baseline_check baseline_unique
       (\<lambda>b. b_job_id b = eb_job_id u \<and> b_version b = eb_expected_version u \<and> b_version b < i64_max)
       (\<lambda>b. b \<lparr>b_version := b_version b + 1, b_hash_algorithm := Some (eb_hash_algorithm u),
          b_result_hash := Some (eb_result_hash u),
          b_previous_success_context := Some (eb_previous_success_context u),
          b_source_run_id := Some (eb_source_run_id u), b_completed_at := Some (eb_completed_at u)\<rparr>)
       (db_baselines db))) (\<lambda>(rows, n).
     if n \<noteq> 0 \<and> \<not> list_ex (\<lambda>r. r_run_id r = eb_source_run_id u \<and> r_job_id r = eb_job_id u)
           (st_runs (db_runs db))
     then Inl (scheduler_error SQLITE_CONSTRAINT_FOREIGNKEY)
     else Inr ((if n = 0 then db
                else count_runs (bump ExecutionBaselineAdvanced) (db \<lparr>db_baselines := rows\<rparr>)), n = 1)))"

definition compare_and_swap_execution_baseline ::
  "execution_baseline_update \<Rightarrow> sched_db \<Rightarrow> (state_error + bool) \<times> sched_db" where
  "compare_and_swap_execution_baseline u db =
     commit db (compare_and_swap_execution_baseline_in_transaction u db)"

section \<open>Reads\<close>

record scheduled_job =
  sj_job_id :: string
  sj_definition :: job_definition
  sj_creator :: principal_key
  sj_owner :: principal_key
  sj_capability :: capability_snapshot
  sj_status :: job_status
  sj_generation :: i64
  sj_schedule_id :: string
  sj_schedule_generation :: i64
  sj_schedule :: schedule_spec
  sj_next_run_at :: "i64 option"

definition scheduled_job_from_row ::
  "('tz, 'cron) calendar \<Rightarrow> ext \<Rightarrow> job_row \<Rightarrow> schedule_row \<Rightarrow> state_error + scheduled_job" where
  "scheduled_job_from_row cal x j s =
     rbind (positive_u32 (j_definition_version j)) (\<lambda>definition_version.
     rbind (positive_u32 (j_capability_schema_version j)) (\<lambda>capability_version.
     rbind (map_err invalid_value (job_definition_new x definition_version (j_definition_json j)))
       (\<lambda>defn.
     rbind (map_err invalid_value (principal_new (principal_kind (j_creator j))
       (principal_provider (j_creator j)) (principal_tenant (j_creator j))
       (principal_subject (j_creator j)))) (\<lambda>creator.
     rbind (owner_from_row j) (\<lambda>owner.
     rbind (map_err invalid_value (capability_snapshot_new x capability_version
       (j_capability_digest j) (j_capability_json j))) (\<lambda>capability.
     rbind (from_storage cal (s_parts s)) (\<lambda>schedule.
     Inr \<lparr>sj_job_id = j_job_id j, sj_definition = defn, sj_creator = creator,
          sj_owner = owner, sj_capability = capability, sj_status = j_status j,
          sj_generation = j_generation j, sj_schedule_id = s_schedule_id s,
          sj_schedule_generation = s_generation s, sj_schedule = schedule,
          sj_next_run_at = s_next_run_at s\<rparr>)))))))"

definition joined_job :: "(job_row \<Rightarrow> bool) \<Rightarrow> string \<Rightarrow> sched_db \<Rightarrow> (job_row \<times> schedule_row) option" where
  "joined_job sel job_id db =
     Option.bind (List.find (\<lambda>j. j_job_id j = job_id \<and> sel j) (db_jobs db)) (\<lambda>j.
     map_option (\<lambda>s. (j, s)) (schedule_of job_id db))"

definition read_job ::
  "('tz, 'cron) calendar \<Rightarrow> ext \<Rightarrow> (job_row \<times> schedule_row) option
     \<Rightarrow> state_error + scheduled_job option" where
  "read_job cal x row =
     (case row of
        None \<Rightarrow> Inr None
      | Some (j, s) \<Rightarrow> rbind (scheduled_job_from_row cal x j s) (\<lambda>job. Inr (Some job)))"

definition get_scheduled_job ::
  "('tz, 'cron) calendar \<Rightarrow> ext \<Rightarrow> string \<Rightarrow> sched_db \<Rightarrow> state_error + scheduled_job option" where
  "get_scheduled_job cal x job_id db = read_job cal x (joined_job (\<lambda>_. True) job_id db)"

definition get_scheduled_job_by_owner ::
  "('tz, 'cron) calendar \<Rightarrow> ext \<Rightarrow> principal_key \<Rightarrow> string \<Rightarrow> sched_db
     \<Rightarrow> state_error + scheduled_job option" where
  "get_scheduled_job_by_owner cal x owner job_id db =
     rbind (map_err invalid_value (check_all [
       principal_validate owner, validate_text ''job id'' job_id])) (\<lambda>_.
     read_job cal x (joined_job (\<lambda>j. j_owner j = owner) job_id db))"

definition job_targets :: "string \<Rightarrow> sched_db \<Rightarrow> delivery_target list" where
  "job_targets job_id db =
     map t_target (sort_key t_ordinal (filter (\<lambda>t. t_job_id t = job_id) (db_targets db)))"

definition get_scheduled_job_delivery_targets ::
  "ext \<Rightarrow> string \<Rightarrow> sched_db \<Rightarrow> state_error + delivery_target list" where
  "get_scheduled_job_delivery_targets x job_id db =
     rbind (map_err invalid_value (validate_text ''job id'' job_id)) (\<lambda>_.
     collect_results (\<lambda>t.
       rbind (positive_u32 (uint (target_resolver_version t))) (\<lambda>version.
       map_err invalid_value (delivery_target_new x (t \<lparr>target_resolver_version := version\<rparr>))))
       (job_targets job_id db))"

record job_list_page =
  page_job_ids :: "string list"
  page_next_cursor :: "string option"

definition list_scheduled_jobs_by_owner ::
  "principal_key \<Rightarrow> job_status \<Rightarrow> string option \<Rightarrow> nat \<Rightarrow> sched_db \<Rightarrow> state_error + job_list_page" where
  "list_scheduled_jobs_by_owner owner status after_job_id limit db =
     rbind (map_err invalid_value (principal_validate owner)) (\<lambda>_.
     if limit = 0 \<or> limit > 100
     then Inl (InvalidSchedulerState ''owner list limit must be between 1 and 100'')
     else rbind (map_err invalid_value (optional_text ''owner list cursor'' after_job_id)) (\<lambda>_.
     let fetched = take (limit + 1) (sort (map j_job_id (filter (\<lambda>j. j_owner j = owner
           \<and> j_status j = status
           \<and> (case after_job_id of None \<Rightarrow> j_job_id j > [] | Some c \<Rightarrow> j_job_id j > c))
           (db_jobs db))));
         has_more = length fetched > limit;
         job_ids = (if has_more then butlast fetched else fetched)
     in Inr \<lparr>page_job_ids = job_ids,
             page_next_cursor = (if has_more then (if job_ids = [] then None else Some (last job_ids))
                                 else None)\<rparr>))"

end
