(* ===== verification/Materialization.thy ===== *)
theory Materialization
  imports Job_Mutations
begin

text \<open>
  Materialization (\<open>materialize_due_schedule\<close> and its relatives in
  \<^verbatim>\<open>crates/state/src/scheduler/store.rs\<close>): one due, coalesced occurrence of an active job becomes a
  pending run that carries a snapshot of the job, and the schedule moves past it, in one transaction.
  The clock readings and the cancellation flag inside the transaction are the record \<open>claim_env\<close>.
\<close>

record scheduled_run =
  run_id_of :: string
  run_job_id :: string
  run_scheduled_for :: i64
  run_coalesced_through :: i64
  run_skipped_count :: u32
  run_skipped_count_saturated :: bool
  run_state_of :: run_state

datatype materialization_outcome =
    Created scheduled_run
  | NotDue
  | Blocked
  | AlreadyMaterialized

definition materialized_run :: "string \<Rightarrow> string \<Rightarrow> occurrence_window \<Rightarrow> materialization_outcome" where
  "materialized_run run_id job_id w = Created \<lparr>
     run_id_of = run_id, run_job_id = job_id, run_scheduled_for = scheduled_for w,
     run_coalesced_through = coalesced_through w, run_skipped_count = skipped_count w,
     run_skipped_count_saturated = skipped_count_saturated w, run_state_of = Pending\<rparr>"

definition baseline_value :: "baseline_row \<Rightarrow> json" where
  "baseline_value b = json_obj [
     (''baseline_version'', JInt (b_version b)),
     (''hash_algorithm'', option_json JStr (b_hash_algorithm b)),
     (''result_hash'', option_json JStr (b_result_hash b)),
     (''previous_success_context'', option_json JStr (b_previous_success_context b)),
     (''source_run_id'', option_json JStr (b_source_run_id b)),
     (''completed_at'', option_json JInt (b_completed_at b))]"

definition load_materialization_snapshots ::
  "ext \<Rightarrow> string \<Rightarrow> sched_db \<Rightarrow> state_error + (string \<times> string)" where
  "load_materialization_snapshots x job_id db =
     rbind (collect_results (target_snapshot_json x) (job_targets job_id db)) (\<lambda>targets.
     rbind (validate_serialized_targets x targets) (\<lambda>_.
     rbind (ok_or (scheduler_error SqlxOther)
       (List.find (\<lambda>b. b_job_id b = job_id) (db_baselines db))) (\<lambda>b.
     rbind (serialize_targets x targets) (\<lambda>targets_json.
     Inr (targets_json, json_print x (baseline_value b))))))"

text \<open>The trigger on inserted runs: SQLite reads the target list as serde wrote it.\<close>

definition run_targets_ok :: "ext \<Rightarrow> string \<Rightarrow> bool" where
  "run_targets_ok x targets_json =
     (case json_parse x targets_json of
        Inr (JArr targets) \<Rightarrow>
          targets \<noteq> [] \<and> list_all (\<lambda>t. case t of
            JObj m \<Rightarrow> (case map_of m ''identity_digest'' of
                Some (JStr d) \<Rightarrow> identity_digest_ok d | _ \<Rightarrow> False)
          | _ \<Rightarrow> False) targets
      | _ \<Rightarrow> False)"

definition new_run ::
  "string \<Rightarrow> job_row \<Rightarrow> schedule_row \<Rightarrow> occurrence_window \<Rightarrow> string \<Rightarrow> string \<Rightarrow> i64 \<Rightarrow> run_row" where
  "new_run run_id j s w targets_json baseline_json now = \<lparr>
     r_run_id = run_id, r_job_id = j_job_id j, r_schedule_id = s_schedule_id s,
     r_job_generation = j_generation j, r_schedule_generation = s_generation s,
     r_scheduled_for = scheduled_for w, r_coalesced_through = coalesced_through w,
     r_definition_version = j_definition_version j, r_definition_json = j_definition_json j,
     r_capability_schema_version = j_capability_schema_version j,
     r_capability_digest = j_capability_digest j, r_capability_json = j_capability_json j,
     r_targets_json = targets_json, r_execution_baseline_json = Some baseline_json,
     r_policy_version = j_policy_version j, r_policy_json = j_policy_json j,
     r_state = Pending, r_attempt = 0, r_next_attempt_at = None, r_lease_owner = None,
     r_lease_expires_at = None, r_fence = 0, r_overlap_slot = Some 1,
     r_result_artifact_id = None, r_result_context = None,
     r_result_hash_algorithm = None, r_result_hash = None, r_error_kind = None,
     r_error_message = None, r_updated_at = now, r_counter_limit_recorded = False\<rparr>"

definition scheduled_run_id :: "string \<Rightarrow> i64 \<Rightarrow> string" where
  "scheduled_run_id job_id at_time = ''scheduled:'' @ job_id @ '':'' @ int_to_string at_time"

text \<open>The upsert of the overlap cursor: it moves forward only, in generation and then in value.\<close>

definition record_overlap ::
  "string \<Rightarrow> i64 \<Rightarrow> i64 \<Rightarrow> i64 \<Rightarrow> cursor_row list \<Rightarrow> sqlx_error + (cursor_row list \<times> nat)" where
  "record_overlap job_id generation value now rows =
     (let new_row = \<lparr>c_job_id = job_id, c_generation = generation, c_value = value,
            c_created_at = now, c_updated_at = now\<rparr>
      in if \<not> cursor_check new_row then Inl SQLITE_CONSTRAINT_CHECK
         else if \<not> list_ex (\<lambda>c. c_job_id c = job_id) rows then Inr (rows @ [new_row], 1)
         else sql_update cursor_check (\<lambda>_. True)
           (\<lambda>c. c_job_id c = job_id \<and> (generation > c_generation c
              \<or> (generation = c_generation c \<and> value > c_value c)))
           (\<lambda>c. c \<lparr>c_generation := generation, c_value := value,
              c_created_at := (if generation \<noteq> c_generation c then now else c_created_at c),
              c_updated_at := now\<rparr>) rows)"

definition materialize_blocked ::
  "string \<Rightarrow> i64 \<Rightarrow> i64 \<Rightarrow> i64 \<Rightarrow> sched_db \<Rightarrow> state_error + (sched_db \<times> materialization_outcome)" where
  "materialize_blocked job_id generation due_at now db =
     rbind (map_err scheduler_error (record_overlap job_id generation due_at now (db_cursors db)))
       (\<lambda>(rows, n).
     let db1 = db \<lparr>db_cursors := rows\<rparr> in
     rbind (if n = 1
            then on_runs (increment_scheduler_transition_total OverlapSuppressed 1) db1
            else Inr db1) (\<lambda>db2.
     Inr (db2, Blocked)))"

definition advance_schedule ::
  "ext \<Rightarrow> string \<Rightarrow> i64 \<Rightarrow> occurrence_window \<Rightarrow> i64 \<Rightarrow> sched_db \<Rightarrow> state_error + sched_db" where
  "advance_schedule x job_id generation w now db =
     (case next_run_at w of
        Some following \<Rightarrow>
          rbind (update_schedules x
            (\<lambda>s. s_job_id s = job_id \<and> s_next_run_at s = Some (scheduled_for w)
               \<and> list_ex (\<lambda>j. j_job_id j = job_id \<and> j_status j = JobActive
                    \<and> j_generation j = generation) (db_jobs db))
            (\<lambda>s. s \<lparr>s_next_run_at := Some following, s_updated_at := now\<rparr>) db) (\<lambda>(db1, n).
          if n \<noteq> 1 then Inl SchedulerGenerationConflict else Inr db1)
      | None \<Rightarrow>
          rbind (update_schedules x (\<lambda>s. s_job_id s = job_id)
            (\<lambda>s. s \<lparr>s_next_run_at := None, s_updated_at := now\<rparr>) db) (\<lambda>(db1, _).
          rbind (update_jobs x
            (\<lambda>j. j_job_id j = job_id \<and> j_generation j = generation \<and> j_status j = JobActive)
            (\<lambda>j. j \<lparr>j_status := JobCompleted, j_updated_at := now\<rparr>) db1) (\<lambda>(db2, _).
          Inr db2)))"

text \<open>The end of a materialization, after the run insert: nothing was inserted, or the schedule
  advances and the admission is checked once more before the commit.\<close>

definition finish_materialization ::
  "ext \<Rightarrow> job_row \<Rightarrow> occurrence_window \<Rightarrow> string \<Rightarrow> i64 \<Rightarrow> executor_admission option \<Rightarrow> claim_env
     \<Rightarrow> store \<Rightarrow> nat \<Rightarrow> sched_db \<Rightarrow> state_error + (sched_db \<times> materialization_outcome)" where
  "finish_materialization x j w run_id now admission env runs inserted db =
     (if inserted = 0 then Inr (db, AlreadyMaterialized)
      else rbind (advance_schedule x (j_job_id j) (j_generation j) w now (db \<lparr>db_runs := runs\<rparr>)) (\<lambda>db1.
      rbind (ensure_executor_admission_not_cancelled admission (cancelled_after env)) (\<lambda>_.
      rbind (revalidate_executor_admission admission (clock_commit env) (db_runs db1)) (\<lambda>_.
      Inr (db1, materialized_run run_id (j_job_id j) w)))))"

text \<open>The part after the overlap check, for the row pair of a due job.\<close>

definition materialize_occurrence ::
  "('tz, 'cron) calendar \<Rightarrow> ext \<Rightarrow> job_row \<Rightarrow> schedule_row \<Rightarrow> i64 \<Rightarrow> i64
     \<Rightarrow> executor_admission option \<Rightarrow> claim_env \<Rightarrow> sched_db
     \<Rightarrow> state_error + (sched_db \<times> materialization_outcome)" where
  "materialize_occurrence cal x j s due_at now admission env db =
     rbind (from_storage cal (s_parts s)) (\<lambda>schedule.
     rbind (scheduler_policy_from_snapshot x (j_policy_version j) (j_policy_json j)) (\<lambda>policy.
     rbind (map_err invalid_occurrence
       (coalesce cal schedule due_at now (occurrence_search_limit policy))) (\<lambda>w.
     rbind (load_materialization_snapshots x (j_job_id j) db) (\<lambda>(targets_json, baseline_json).
     let run_id = scheduled_run_id (j_job_id j) (scheduled_for w) in
     if \<not> run_targets_ok x targets_json then Inl (scheduler_error SQLITE_CONSTRAINT_TRIGGER)
     else rbind (insert_run x (new_run run_id j s w targets_json baseline_json now)
       (uint (skipped_count w)) (db_runs db)) (\<lambda>(runs, inserted).
     finish_materialization x j w run_id now admission env runs inserted db)))))"

definition due_job ::
  "string \<Rightarrow> i64 \<Rightarrow> i64 \<Rightarrow> sched_db \<Rightarrow> (job_row \<times> schedule_row \<times> i64) option" where
  "due_job job_id expected_generation now db =
     Option.bind (joined_job (\<lambda>_. True) job_id db) (\<lambda>(j, s).
     Option.bind (s_next_run_at s) (\<lambda>due_at.
     if j_status j \<noteq> JobActive \<or> j_generation j \<noteq> expected_generation \<or> due_at > now then None
     else Some (j, s, due_at)))"

definition overlap_blocked :: "string \<Rightarrow> sched_db \<Rightarrow> bool" where
  "overlap_blocked job_id db \<longleftrightarrow>
     list_ex (\<lambda>r. r_job_id r = job_id \<and> r_overlap_slot r = Some 1) (st_runs (db_runs db))"

definition materialize_due_schedule_inner ::
  "('tz, 'cron) calendar \<Rightarrow> ext \<Rightarrow> string \<Rightarrow> i64 \<Rightarrow> i64 \<Rightarrow> executor_admission option \<Rightarrow> claim_env
     \<Rightarrow> sched_db \<Rightarrow> (state_error + materialization_outcome) \<times> sched_db" where
  "materialize_due_schedule_inner cal x job_id expected_generation now admission env db =
     commit db
       (rbind (acquire_and_validate_executor_admission admission (clock_admission env) (db_runs db))
         (\<lambda>_.
        rbind (ensure_executor_admission_not_cancelled admission (cancelled_before env)) (\<lambda>_.
        case due_job job_id expected_generation now db of
          None \<Rightarrow> Inr (db, NotDue)
        | Some (j, s, due_at) \<Rightarrow>
            if overlap_blocked job_id db
            then materialize_blocked job_id (j_generation j) due_at now db
            else materialize_occurrence cal x j s due_at now admission env db)))"

definition materialize_due_schedule ::
  "('tz, 'cron) calendar \<Rightarrow> ext \<Rightarrow> string \<Rightarrow> i64 \<Rightarrow> i64 \<Rightarrow> sched_db
     \<Rightarrow> (state_error + materialization_outcome) \<times> sched_db" where
  "materialize_due_schedule cal x job_id expected_generation now db =
     materialize_due_schedule_inner cal x job_id expected_generation now None (clock_at now) db"

definition materialize_due_schedule_with_admission ::
  "('tz, 'cron) calendar \<Rightarrow> ext \<Rightarrow> string \<Rightarrow> i64 \<Rightarrow> i64 \<Rightarrow> executor_admission \<Rightarrow> claim_env
     \<Rightarrow> sched_db \<Rightarrow> (state_error + materialization_outcome) \<times> sched_db" where
  "materialize_due_schedule_with_admission cal x job_id expected_generation now admission env db =
     materialize_due_schedule_inner cal x job_id expected_generation now (Some admission) env db"

definition list_due_scheduled_jobs :: "i64 \<Rightarrow> nat \<Rightarrow> sched_db \<Rightarrow> string list" where
  "list_due_scheduled_jobs now limit db =
     map s_job_id (take limit (sort_key (\<lambda>s. (case s_next_run_at s of None \<Rightarrow> 0 | Some t \<Rightarrow> t, s_job_id s))
       (filter (\<lambda>s. (case s_next_run_at s of None \<Rightarrow> False | Some t \<Rightarrow> t \<le> now)
          \<and> list_ex (\<lambda>j. j_job_id j = s_job_id s \<and> j_status j = JobActive) (db_jobs db)
          \<and> \<not> overlap_blocked (s_job_id s) db)
         (db_schedules db))))"

end
