(* ===== verification/Job_Safety.thy ===== *)
theory Job_Safety
  imports Materialization
begin

text \<open>
  Effects of the job operations: each elimination rule says which rows a committed operation selected
  and what became of every table. On them rest the step relation of the whole scheduler store, its
  invariant and the refinement into the run store.
\<close>

named_theorems job_effects

section \<open>Statements\<close>

lemma update_jobs_Inr [simp]:
  "update_jobs x w f db = Inr (db', n) \<longleftrightarrow>
     (\<exists>rows. sql_update (job_check x) job_unique w f (db_jobs db) = Inr (rows, n)
        \<and> db' = db \<lparr>db_jobs := rows\<rparr>)"
  by (auto simp: update_jobs_def)

lemma update_schedules_Inr [simp]:
  "update_schedules x w f db = Inr (db', n) \<longleftrightarrow>
     (\<exists>rows. sql_update (schedule_check x) schedule_unique w f (db_schedules db) = Inr (rows, n)
        \<and> db' = db \<lparr>db_schedules := rows\<rparr>)"
  by (auto simp: update_schedules_def)

lemma lock_Inr [simp]:
  "acquire_scheduler_policy_lock now db = Inr db' \<longleftrightarrow>
     db_lock db \<noteq> None \<and> db' = db \<lparr>db_lock := Some now\<rparr>"
  by (auto simp: acquire_scheduler_policy_lock_def split: option.splits)

lemma on_runs_Inr [simp]:
  "on_runs f db = Inr db' \<longleftrightarrow> (\<exists>s. f (db_runs db) = Inr s \<and> db' = db \<lparr>db_runs := s\<rparr>)"
  by (auto simp: on_runs_def)

lemma lock_frame [simp]:
  "job_at job_id g ss (db \<lparr>db_lock := l\<rparr>) = job_at job_id g ss db"
  "schedule_of job_id (db \<lparr>db_lock := l\<rparr>) = schedule_of job_id db"
  "paused_schedule job_id g (db \<lparr>db_lock := l\<rparr>) = paused_schedule job_id g db"
  "enforce_active_job_limits p owner ex (db \<lparr>db_lock := l\<rparr>) = enforce_active_job_limits p owner ex db"
  "update_due cal p r j owner (db \<lparr>db_lock := l\<rparr>) = update_due cal p r j owner db"
  by (simp_all add: update_due_def job_at_def schedule_of_def paused_schedule_def enforce_active_job_limits_def
      active_jobs_def)

lemma insert_targets_frame:
  "insert_targets x job_id n ts db = Inr db' \<Longrightarrow> \<exists>rows. db' = db \<lparr>db_targets := rows\<rparr>"
proof (induction ts arbitrary: n db)
  case Nil
  then show ?case by (auto intro: exI [of _ "db_targets db"])
next
  case (Cons t ts)
  then obtain db1 where "insert_target x \<lparr>t_job_id = job_id, t_ordinal = n, t_target = t\<rparr> db = Inr db1"
    and rest: "insert_targets x job_id (n + 1) ts db1 = Inr db'" by auto
  then obtain rows where "db1 = db \<lparr>db_targets := rows\<rparr>"
    by (auto simp: insert_target_def split: if_splits)
  with Cons.IH [OF rest] show ?case by auto
qed

lemma replace_targets_frame:
  assumes "replace_delivery_targets x job_id ts db = Inr db'"
  shows "db_runs db' = db_runs db" and "db_jobs db' = db_jobs db"
    and "db_schedules db' = db_schedules db" and "db_baselines db' = db_baselines db"
    and "db_cursors db' = db_cursors db" and "db_keys db' = db_keys db"
    and "db_audits db' = db_audits db" and "db_lock db' = db_lock db"
  using insert_targets_frame [OF assms [unfolded replace_delivery_targets_def]] by auto

section \<open>Effects\<close>

lemma job_atD:
  "job_at job_id g ss db = Some j \<Longrightarrow>
     j \<in> set (db_jobs db) \<and> j_job_id j = job_id \<and> j_generation j = g \<and> j_status j \<in> set ss"
  unfolding job_at_def by (drule find_SomeD) simp

lemma insert_scheduled_jobE:
  assumes "insert_scheduled_job x r due_at policy_json pf db = Inr db'"
  obtains policy where "scheduler_policy_from_snapshot x 1 policy_json = Inr policy"
    "cadence_proof_verify x pf (create_schedule r) policy = Inr ()"
    "sql_insert (job_check x) job_unique (new_job r policy_json) (db_jobs db) = Inr (db_jobs db')"
    "sql_insert (schedule_check x) schedule_unique (new_schedule r due_at pf) (db_schedules db) =
       Inr (db_schedules db')"
    "sql_insert baseline_check baseline_unique (empty_baseline (create_job_id r)) (db_baselines db) =
       Inr (db_baselines db')"
    "db_runs db' = db_runs db" "db_keys db' = db_keys db" "db_audits db' = db_audits db"
    "db_cursors db' = db_cursors db"
  using assms
  by (auto simp: insert_scheduled_job_def insert_job_def insert_schedule_def insert_baseline_def
      replace_targets_frame split: if_splits)

lemma create_job_in_transactionE:
  assumes "create_job_in_transaction x p r due_at policy_json pf db = Inr db'"
  obtains policy where "enforce_active_job_limits p (create_owner r) None db = Inr ()"
    "scheduler_policy_from_snapshot x 1 policy_json = Inr policy"
    "cadence_proof_verify x pf (create_schedule r) policy = Inr ()"
    "sql_insert (job_check x) job_unique (new_job r policy_json) (db_jobs db) = Inr (db_jobs db')"
    "sql_insert (schedule_check x) schedule_unique (new_schedule r due_at pf) (db_schedules db) =
       Inr (db_schedules db')"
    "sql_insert baseline_check baseline_unique (empty_baseline (create_job_id r)) (db_baselines db) =
       Inr (db_baselines db')"
    "db_runs db' = db_runs db" "db_keys db' = db_keys db" "db_audits db' = db_audits db"
    "db_cursors db' = db_cursors db"
proof -
  obtain db1 where l: "db1 = db \<lparr>db_lock := Some (create_now r)\<rparr>"
    "enforce_active_job_limits p (create_owner r) None db = Inr ()"
    "insert_scheduled_job x r due_at policy_json pf db1 = Inr db'"
    using assms by (auto simp: create_job_in_transaction_def)
  from l(3) show thesis
    by (rule insert_scheduled_jobE) (rule that, use l in simp_all)
qed

definition updated_job :: "update_request \<Rightarrow> string \<Rightarrow> job_row \<Rightarrow> job_row" where
  "updated_job r policy_json k = k \<lparr>
     j_definition_version := uint (definition_snapshot_version (update_definition r)),
     j_definition_json := definition_canonical_json (update_definition r),
     j_capability_schema_version := uint (capability_snapshot_version (update_capability r)),
     j_capability_digest := capability_snapshot_digest (update_capability r),
     j_capability_json := capability_canonical_json (update_capability r),
     j_policy_version := 1, j_policy_json := policy_json,
     j_generation := j_generation k + 1, j_updated_at := update_now r\<rparr>"

lemma apply_updateE:
  assumes "apply_update cal x p r policy_json pf db = Inr db'"
  obtains j owner due_at n where
    "cadence_proof_verify x pf (update_schedule r) p = Inr ()"
    "job_at (update_job_id r) (update_expected_generation r) [JobActive, JobPaused] db = Some j"
    "owner_from_row j = Inr owner"
    "update_due cal p r j owner db = Inr due_at"
    "sql_update (job_check x) job_unique
       (\<lambda>k. j_job_id k = update_job_id r \<and> j_generation k = update_expected_generation r
          \<and> j_status k = j_status j) (updated_job r policy_json) (db_jobs db) = Inr (db_jobs db', 1)"
    "cancel_pre_execution_runs x (update_job_id r) (update_expected_generation r) (update_now r)
       (db_runs db) = Inr (db_runs db')"
    "sql_update (schedule_check x) schedule_unique (\<lambda>s. s_job_id s = update_job_id r)
       (\<lambda>s. s \<lparr>s_parts := storage_parts (update_schedule r), s_next_run_at := due_at,
          s_proof_version := 1, s_proof_json := proof_canonical_json pf,
          s_generation := s_generation s + 1, s_updated_at := update_now r\<rparr>) (db_schedules db) =
       Inr (db_schedules db', n)"
    "db_keys db' = db_keys db" "db_audits db' = db_audits db" "db_baselines db' = db_baselines db"
  using assms
  by (auto simp: apply_update_def Let_def updated_job_def [abs_def] replace_targets_frame
      split: if_splits)

lemma apply_inactiveE:
  assumes "apply_inactive x job_id g status now db = Inr db'"
  obtains n where
    "sql_update (job_check x) job_unique
       (\<lambda>j. j_job_id j = job_id \<and> j_generation j = g \<and> (j_status j \<in> set [JobActive, JobPaused]
          \<or> (status = JobDeleted \<and> j_status j = JobCompleted)))
       (\<lambda>j. j \<lparr>j_status := status, j_generation := j_generation j + 1, j_updated_at := now,
          j_deleted_at := (if status = JobDeleted then Some now else None)\<rparr>) (db_jobs db) =
       Inr (db_jobs db', 1)"
    "cancel_pre_execution_runs x job_id g now (db_runs db) = Inr (db_runs db')"
    "sql_update (schedule_check x) schedule_unique (\<lambda>s. s_job_id s = job_id)
       (\<lambda>s. s \<lparr>s_generation := s_generation s + 1, s_updated_at := now\<rparr>) (db_schedules db) =
       Inr (db_schedules db', n)"
    "db_keys db' = db_keys db" "db_audits db' = db_audits db" "db_baselines db' = db_baselines db"
    "db_targets db' = db_targets db" "db_cursors db' = db_cursors db"
  using assms by (auto simp: apply_inactive_def split: if_splits)

lemma apply_resumeE:
  assumes "apply_resume cal x p job_id g now policy_json pf db = Inr db'"
  obtains j s schedule owner due_at m n where
    "paused_schedule job_id g db = Some (j, s)" "from_storage cal (s_parts s) = Inr schedule"
    "cadence_proof_verify x pf schedule p = Inr ()" "owner_from_row j = Inr owner"
    "enforce_active_job_limits p owner None db = Inr ()" "next_after cal schedule now = Inr due_at"
    "sql_update (job_check x) job_unique
       (\<lambda>k. j_job_id k = job_id \<and> j_generation k = g \<and> j_status k = JobPaused)
       (\<lambda>k. k \<lparr>j_status := JobActive, j_policy_version := 1, j_policy_json := policy_json,
          j_generation := j_generation k + 1, j_updated_at := now\<rparr>) (db_jobs db) =
       Inr (db_jobs db', m)"
    "sql_update (schedule_check x) schedule_unique (\<lambda>r. s_job_id r = job_id)
       (\<lambda>r. r \<lparr>s_next_run_at := Some due_at, s_proof_version := 1,
          s_proof_json := proof_canonical_json pf, s_generation := s_generation r + 1,
          s_updated_at := now\<rparr>) (db_schedules db) = Inr (db_schedules db', n)"
    "db_runs db' = db_runs db" "db_keys db' = db_keys db" "db_audits db' = db_audits db"
    "db_baselines db' = db_baselines db" "db_targets db' = db_targets db"
    "db_cursors db' = db_cursors db"
  using assms by (auto simp: apply_resume_def)

lemma advance_scheduleE:
  assumes "advance_schedule x job_id g w now db = Inr db'"
  obtains (moves) t where "next_run_at w = Some t" "db_jobs db' = db_jobs db"
    "sql_update (schedule_check x) schedule_unique
       (\<lambda>s. s_job_id s = job_id \<and> s_next_run_at s = Some (scheduled_for w)
          \<and> list_ex (\<lambda>j. j_job_id j = job_id \<and> j_status j = JobActive \<and> j_generation j = g) (db_jobs db))
       (\<lambda>s. s \<lparr>s_next_run_at := Some t, s_updated_at := now\<rparr>) (db_schedules db) =
       Inr (db_schedules db', 1)"
    "db_runs db' = db_runs db" "db_keys db' = db_keys db"
  | (complete) n m where "next_run_at w = None"
    "sql_update (schedule_check x) schedule_unique (\<lambda>s. s_job_id s = job_id)
       (\<lambda>s. s \<lparr>s_next_run_at := None, s_updated_at := now\<rparr>) (db_schedules db) =
       Inr (db_schedules db', n)"
    "sql_update (job_check x) job_unique
       (\<lambda>j. j_job_id j = job_id \<and> j_generation j = g \<and> j_status j = JobActive)
       (\<lambda>j. j \<lparr>j_status := JobCompleted, j_updated_at := now\<rparr>) (db_jobs db) = Inr (db_jobs db', m)"
    "db_runs db' = db_runs db" "db_keys db' = db_keys db"
  using assms by (auto simp: advance_schedule_def split: option.splits if_splits)

lemma joined_jobD:
  assumes "joined_job sel job_id db = Some (j, s)"
  shows "j \<in> set (db_jobs db)" and "j_job_id j = job_id" and "sel j"
    and "s \<in> set (db_schedules db)" and "s_job_id s = job_id"
  using assms by (auto simp: joined_job_def schedule_of_def bind_eq_Some_conv dest!: find_SomeD)

lemma materialize_blockedE:
  assumes "materialize_blocked job_id g due_at now db = Inr (db', v)"
  obtains rows s where "v = Blocked" "db' = db \<lparr>db_cursors := rows, db_runs := s\<rparr>"
    "same_tables (db_runs db) s"
proof -
  obtain rows n where n: "record_overlap job_id g due_at now (db_cursors db) = Inr (rows, n)" "v = Blocked"
    "if n = 1 then on_runs (increment_scheduler_transition_total OverlapSuppressed 1)
       (db \<lparr>db_cursors := rows\<rparr>) = Inr db' else db' = db \<lparr>db_cursors := rows\<rparr>"
    using assms by (auto simp: materialize_blocked_def Let_def split: if_splits)
  show thesis
  proof (cases "n = 1")
    case True
    then obtain s where "increment_scheduler_transition_total OverlapSuppressed 1 (db_runs db) = Inr s"
      "db' = db \<lparr>db_cursors := rows, db_runs := s\<rparr>"
      using n(3) by auto
    then show thesis using that [OF n(2)] increment_same_tables by blast
  next
    case False
    then show thesis using that [OF n(2), of "db_runs db" rows] n(3) by simp
  qed
qed

definition created_run ::
  "('tz, 'cron) calendar \<Rightarrow> ext \<Rightarrow> i64 \<Rightarrow> sched_db \<Rightarrow> job_row \<Rightarrow> schedule_row \<Rightarrow> i64
     \<Rightarrow> occurrence_window \<Rightarrow> run_row \<Rightarrow> store \<Rightarrow> bool" where
  "created_run cal x now db j s due_at w run runs \<longleftrightarrow>
     (\<exists>schedule policy targets_json baseline_json.
        from_storage cal (s_parts s) = Inr schedule
        \<and> scheduler_policy_from_snapshot x (j_policy_version j) (j_policy_json j) = Inr policy
        \<and> coalesce cal schedule due_at now (occurrence_search_limit policy) = Inr w
        \<and> load_materialization_snapshots x (j_job_id j) db = Inr (targets_json, baseline_json)
        \<and> run = new_run (scheduled_run_id (j_job_id j) (scheduled_for w)) j s w targets_json
             baseline_json now
        \<and> insert_run x run (uint (skipped_count w)) (db_runs db) = Inr (runs, 1))"

lemma insert_run_count: "insert_run x r skipped s = Inr (s', n) \<Longrightarrow> n = 0 \<and> s' = s \<or> n = 1"
  by (auto simp: insert_run_def split: if_splits)

lemma materialize_occurrenceE:
  assumes "materialize_occurrence cal x j s due_at now admission env db = Inr (db', v)"
  obtains (skipped) "v = AlreadyMaterialized" "db' = db"
  | (inserted) w run runs where "created_run cal x now db j s due_at w run runs"
    "advance_schedule x (j_job_id j) (j_generation j) w now (db \<lparr>db_runs := runs\<rparr>) = Inr db'"
    "v = materialized_run (r_run_id run) (j_job_id j) w"
proof -
  obtain schedule policy w targets_json baseline_json runs n where
    m: "from_storage cal (s_parts s) = Inr schedule"
      "scheduler_policy_from_snapshot x (j_policy_version j) (j_policy_json j) = Inr policy"
      "coalesce cal schedule due_at now (occurrence_search_limit policy) = Inr w"
      "load_materialization_snapshots x (j_job_id j) db = Inr (targets_json, baseline_json)"
      "insert_run x (new_run (scheduled_run_id (j_job_id j) (scheduled_for w)) j s w targets_json
         baseline_json now) (uint (skipped_count w)) (db_runs db) = Inr (runs, n)"
    and rest: "finish_materialization x j w (scheduled_run_id (j_job_id j) (scheduled_for w)) now
      admission env runs n db = Inr (db', v)"
    using assms unfolding materialize_occurrence_def Let_def by (auto split: if_splits)
  show thesis
  proof (cases "n = 0")
    case True
    then show thesis using rest skipped by (simp add: finish_materialization_def)
  next
    case False
    then have "n = 1" using insert_run_count [OF m(5)] by simp
    with m have "created_run cal x now db j s due_at w
        (new_run (scheduled_run_id (j_job_id j) (scheduled_for w)) j s w targets_json baseline_json now)
        runs"
      unfolding created_run_def by blast
    then show thesis
      using rest False by (intro inserted) (auto simp: finish_materialization_def new_run_def)
  qed
qed

lemma due_jobD:
  assumes "due_job job_id g now db = Some (j, s, due_at)"
  shows "joined_job (\<lambda>_. True) job_id db = Some (j, s)" and "s_next_run_at s = Some due_at"
    and "j_status j = JobActive" and "j_generation j = g" and "due_at \<le> now"
  using assms by (auto simp: due_job_def bind_eq_Some_conv split: if_splits)

lemma materializeE:
  assumes "materialize_due_schedule_inner cal x job_id g now admission env db = (v, db')"
  obtains (unchanged) "db' = db" "\<nexists>r. v = Inr (Created r)"
  | (blocked) rows s where "v = Inr Blocked" "db' = db \<lparr>db_cursors := rows, db_runs := s\<rparr>"
    "same_tables (db_runs db) s"
  | (created) j s due_at w run runs where
    "due_job job_id g now db = Some (j, s, due_at)" "\<not> overlap_blocked job_id db"
    "created_run cal x now db j s due_at w run runs"
    "advance_schedule x job_id g w now (db \<lparr>db_runs := runs\<rparr>) = Inr db'"
    "v = Inr (materialized_run (r_run_id run) job_id w)"
proof (cases v)
  case (Inl e)
  then show thesis using assms unchanged by (auto simp: materialize_due_schedule_inner_def commit_Inl)
next
  case (Inr outcome)
  then have body: "(case due_job job_id g now db of
      None \<Rightarrow> Inr (db, NotDue)
    | Some (j, s, due_at) \<Rightarrow>
        if overlap_blocked job_id db
        then materialize_blocked job_id (j_generation j) due_at now db
        else materialize_occurrence cal x j s due_at now admission env db) = Inr (db', outcome)"
    using assms unfolding materialize_due_schedule_inner_def by (auto simp: commit_Inr)
  show thesis
  proof (cases "due_job job_id g now db")
    case None
    then show thesis using body unchanged Inr by auto
  next
    case (Some p)
    then obtain j s due_at where p: "due_job job_id g now db = Some (j, s, due_at)"
      by (cases p) auto
    show thesis
    proof (cases "overlap_blocked job_id db")
      case True
      then have "materialize_blocked job_id (j_generation j) due_at now db = Inr (db', outcome)"
        using body p by simp
      then show thesis by (rule materialize_blockedE) (use blocked Inr in simp)
    next
      case False
      have id: "j_job_id j = job_id" by (rule joined_jobD(2) [OF due_jobD(1) [OF p]])
      have "materialize_occurrence cal x j s due_at now admission env db = Inr (db', outcome)"
        using body p False by simp
      then show thesis
      proof (cases rule: materialize_occurrenceE)
        case skipped
        then show thesis using unchanged Inr by simp
      next
        case (inserted w run runs)
        then show thesis using created [OF p False inserted(1)] due_jobD(4) [OF p] id Inr by simp
      qed
    qed
  qed
qed

section \<open>Mutations\<close>

lemma typed_keys:
  assumes "apply_typed_mutation cal x p m pf db = Inr db'"
  shows "db_keys db' = db_keys db"
  using assms unfolding apply_typed_mutation_def
  by (cases m)
    (auto elim: create_job_in_transactionE apply_updateE apply_inactiveE apply_resumeE)

definition claimed_key :: "ext \<Rightarrow> scheduled_job_mutation \<Rightarrow> mutation_idempotency \<Rightarrow> idempotency_row" where
  "claimed_key x m idem = \<lparr>
     k_scope = canonical_idempotency_scope x (idem_principal idem) (mutation_operation m),
     k_key = idem_request_id idem, k_status = KeyClaimed,
     k_request_digest = Some (idem_request_digest idem),
     k_digest_algorithm = Some (idem_digest_algorithm idem), k_response_json = None\<rparr>"

definition completed_key :: "ext \<Rightarrow> scheduled_job_mutation \<Rightarrow> mutation_idempotency \<Rightarrow> idempotency_row" where
  "completed_key x m idem = (claimed_key x m idem) \<lparr>k_status := KeyCompleted,
     k_response_json := Some (idem_response_json idem)\<rparr>"

definition completes :: "idempotency_row \<Rightarrow> idempotency_row \<Rightarrow> bool" where
  "completes key k \<longleftrightarrow> k_scope k = k_scope key \<and> k_key k = k_key key \<and> k_status k = KeyClaimed
     \<and> k_digest_algorithm k = k_digest_algorithm key \<and> k_request_digest k = k_request_digest key"

lemma claim_idempotency_Inr:
  "claim_idempotency_in_transaction x (idem_principal idem) (mutation_operation m)
     (idem_request_id idem) (idem_digest_algorithm idem) (idem_request_digest idem) db = Inr (db1, d) \<longleftrightarrow>
   key_check (claimed_key x m idem) \<and>
   (let key = claimed_key x m idem in
    if key_row (k_scope key) (k_key key) db = None
    then db1 = db \<lparr>db_keys := db_keys db @ [key]\<rparr> \<and> d = DClaimed
    else db1 = db \<and> read_idempotency_decision (k_scope key) (k_key key)
      (idem_digest_algorithm idem) (idem_request_digest idem) db = Inr d)"
  by (auto simp: claim_idempotency_in_transaction_def claimed_key_def Let_def)

lemma read_not_claimed:
  "read_idempotency_decision scope key alg dig db \<noteq> Inr DClaimed"
  by (auto simp: read_idempotency_decision_def split: if_splits)

lemma completed_keys:
  assumes "complete_idempotency_in_transaction x (idem_principal idem) (mutation_operation m) idem db
    = Inr db'"
  shows "db' = db \<lparr>db_keys := map (\<lambda>k. if completes (claimed_key x m idem) k
      then k \<lparr>k_status := KeyCompleted, k_response_json := Some (idem_response_json idem)\<rparr> else k)
      (db_keys db)\<rparr>"
  using assms
  by (auto simp: complete_idempotency_in_transaction_def Let_def completes_def claimed_key_def
      dest!: sql_update_InrD(1) split: if_splits)

lemma audit_frame:
  assumes "(case audit of None \<Rightarrow> Inr db | Some a \<Rightarrow> insert_mutation_audit a db) = Inr db'"
  shows "db_jobs db' = db_jobs db" and "db_schedules db' = db_schedules db"
    and "db_keys db' = db_keys db" and "db_baselines db' = db_baselines db"
    and "db_targets db' = db_targets db" and "same_tables (db_runs db) (db_runs db')"
  using assms
  by (auto simp: insert_mutation_audit_def count_runs_def same_tables_def split: option.splits)

lemma idempotentE:
  assumes "apply_idempotent_schedule_mutation_with_audit cal x p m idem audit before db = (v, db')"
  obtains (unchanged) "db' = db" "\<nexists>response. v = Inr (MApplied response)"
  | (applied) pf db2 db3 where
    "validate_mutation_idempotency x m idem = Inr ()"
    "prevalidate_schedule_mutation cal x p m before = Inr pf"
    "key_check (claimed_key x m idem)"
    "key_row (k_scope (claimed_key x m idem)) (k_key (claimed_key x m idem)) db = None"
    "apply_typed_mutation cal x p m pf
       (db \<lparr>db_keys := db_keys db @ [claimed_key x m idem]\<rparr>) = Inr db2"
    "(case audit of None \<Rightarrow> Inr db2 | Some a \<Rightarrow> insert_mutation_audit a db2) = Inr db3"
    "complete_idempotency_in_transaction x (idem_principal idem) (mutation_operation m) idem db3
       = Inr db'"
    "v = Inr (MApplied (idem_response_json idem))"
proof (cases v)
  case (Inl e)
  then show thesis
    using assms unchanged by (auto simp: apply_idempotent_schedule_mutation_with_audit_def commit_Inl)
next
  case (Inr outcome)
  then obtain pf db1 d where
    c: "validate_mutation_idempotency x m idem = Inr ()"
      "prevalidate_schedule_mutation cal x p m before = Inr pf"
      "claim_idempotency_in_transaction x (idem_principal idem) (mutation_operation m)
        (idem_request_id idem) (idem_digest_algorithm idem) (idem_request_digest idem) db = Inr (db1, d)"
    and body: "(case d of
          DClaimed \<Rightarrow>
            rbind (apply_typed_mutation cal x p m pf db1) (\<lambda>db2.
            rbind (case audit of None \<Rightarrow> Inr db2 | Some a \<Rightarrow> insert_mutation_audit a db2) (\<lambda>db3.
            rbind (complete_idempotency_in_transaction x (idem_principal idem)
              (mutation_operation m) idem db3) (\<lambda>db4.
            Inr (db4, MApplied (idem_response_json idem)))))
        | DReplay response \<Rightarrow> Inr (db1, MReplay response)
        | DInProgress \<Rightarrow> Inr (db1, MInProgress)
        | DConflict \<Rightarrow> Inr (db1, MConflict)) = Inr (db', outcome)"
    using assms unfolding apply_idempotent_schedule_mutation_with_audit_def commit_def
    by (auto split: sum.splits prod.splits)
  show thesis
  proof (cases "d = DClaimed")
    case True
    then have k: "key_check (claimed_key x m idem)"
        "key_row (k_scope (claimed_key x m idem)) (k_key (claimed_key x m idem)) db = None"
        "db1 = db \<lparr>db_keys := db_keys db @ [claimed_key x m idem]\<rparr>"
      using c(3) read_not_claimed unfolding claim_idempotency_Inr Let_def
      by (auto split: if_splits)
    from body True obtain db2 db3 where
      "apply_typed_mutation cal x p m pf db1 = Inr db2"
      "(case audit of None \<Rightarrow> Inr db2 | Some a \<Rightarrow> insert_mutation_audit a db2) = Inr db3"
      "complete_idempotency_in_transaction x (idem_principal idem) (mutation_operation m) idem db3
         = Inr db'" "outcome = MApplied (idem_response_json idem)"
      by auto
    then show thesis using applied [OF c(1,2) k(1,2)] k(3) Inr by simp
  next
    case False
    then have "db1 = db"
      using c(3) unfolding claim_idempotency_Inr Let_def by (auto split: if_splits)
    then show thesis
      using body False unchanged Inr by (cases d) auto
  qed
qed

section \<open>Steps of the scheduler store\<close>

text \<open>
  One operation of the scheduler at clock \<open>now\<close>, under whatever policy the store was opened with. A run
  operation is any step of the run store that inserts no run.
\<close>

inductive job_step :: "('tz, 'cron) calendar \<Rightarrow> ext \<Rightarrow> i64 \<Rightarrow> sched_db \<Rightarrow> sched_db \<Rightarrow> bool"
  for cal x now where
  js_create: "create_now r = now \<Longrightarrow> job_step cal x now db (snd (create_scheduled_job cal x p r db))"
| js_update: "update_now r = now \<Longrightarrow> job_step cal x now db (snd (update_scheduled_job cal x p r db))"
| js_pause: "job_step cal x now db (snd (pause_scheduled_job x job_id g now db))"
| js_delete: "job_step cal x now db (snd (delete_scheduled_job x job_id g now db))"
| js_resume: "job_step cal x now db (snd (resume_scheduled_job cal x p job_id g now before db))"
| js_mutation: "mutation_now m = now \<Longrightarrow> job_step cal x now db
    (snd (apply_idempotent_schedule_mutation_with_audit cal x p m idem audit before db))"
| js_audit: "job_step cal x now db (snd (append_schedule_audit a db))"
| js_baseline: "job_step cal x now db (snd (compare_and_swap_execution_baseline u db))"
| js_materialize: "job_step cal x now db
    (snd (materialize_due_schedule_inner cal x job_id g now admission env db))"
| js_run: "run_step x (db_runs db) s \<Longrightarrow> length (st_runs s) = length (st_runs (db_runs db)) \<Longrightarrow>
    job_step cal x now db (db \<lparr>db_runs := s\<rparr>)"

text \<open>What a job operation may do besides inserting a run: it runs one of the mutations on a store that
  differs only in its lock and idempotency keys, or leaves jobs and schedules alone.\<close>

inductive job_effect :: "('tz, 'cron) calendar \<Rightarrow> ext \<Rightarrow> i64 \<Rightarrow> sched_db \<Rightarrow> sched_db \<Rightarrow> bool"
  for cal x now db where
  eff_create: "create_now r = now \<Longrightarrow> validate_create_request cal x r p False = Inr due_at \<Longrightarrow>
    create_job_in_transaction x p r due_at policy_json pf db = Inr db' \<Longrightarrow> job_effect cal x now db db'"
| eff_update: "update_now r = now \<Longrightarrow> validate_update_request cal x r p False = Inr () \<Longrightarrow>
    apply_update cal x p r policy_json pf db = Inr db' \<Longrightarrow> job_effect cal x now db db'"
| eff_inactive: "status = JobPaused \<or> status = JobDeleted \<Longrightarrow>
    apply_inactive x job_id g status now db = Inr db' \<Longrightarrow> job_effect cal x now db db'"
| eff_resume: "apply_resume cal x p job_id g now policy_json pf db = Inr db' \<Longrightarrow>
    job_effect cal x now db db'"

lemma typed_effect:
  assumes "apply_typed_mutation cal x p m pf db = Inr db'"
  shows "job_effect cal x (mutation_now m) db db'"
  using assms unfolding apply_typed_mutation_def
  by (cases m) (auto intro: job_effect.intros)

text \<open>The tables the jobs and schedules live in, and the run tables up to metrics.\<close>

definition same_jobs :: "sched_db \<Rightarrow> sched_db \<Rightarrow> bool" where
  "same_jobs db db' \<longleftrightarrow> db_jobs db' = db_jobs db \<and> db_schedules db' = db_schedules db
     \<and> same_tables (db_runs db) (db_runs db')"

lemma same_jobs_refl [simp]: "same_jobs db db"
  by (simp add: same_jobs_def)

lemma job_step_cases:
  assumes "job_step cal x now db db'"
  obtains (same) "same_jobs db db'"
  | (effect) db1 db2 where "same_jobs db db1" "job_effect cal x now db1 db2" "same_jobs db2 db'"
  | (materialized) job_id g j s due_at w run runs where
    "due_job job_id g now db = Some (j, s, due_at)" "\<not> overlap_blocked job_id db"
    "created_run cal x now db j s due_at w run runs"
    "advance_schedule x job_id g w now (db \<lparr>db_runs := runs\<rparr>) = Inr db'"
  | (run) s where "run_step x (db_runs db) s" "length (st_runs s) = length (st_runs (db_runs db))"
    "db' = db \<lparr>db_runs := s\<rparr>"
  using assms
proof (cases rule: job_step.cases)
  case (js_create r p)
  then show thesis
    using same effect [OF same_jobs_refl eff_create same_jobs_refl]
    by (auto simp: create_scheduled_job_def commit_def split: sum.splits)
next
  case (js_update r p)
  then show thesis
    using same effect [OF same_jobs_refl eff_update same_jobs_refl]
    by (auto simp: update_scheduled_job_def commit_def split: sum.splits)
next
  case (js_pause job_id g)
  then show thesis
    using same effect [OF same_jobs_refl eff_inactive [OF disjI1 [OF refl]] same_jobs_refl]
    by (auto simp: pause_scheduled_job_def set_job_inactive_def commit_def split: sum.splits)
next
  case (js_delete job_id g)
  then show thesis
    using same effect [OF same_jobs_refl eff_inactive [OF disjI2 [OF refl]] same_jobs_refl]
    by (auto simp: delete_scheduled_job_def set_job_inactive_def commit_def split: sum.splits)
next
  case (js_resume p job_id g before)
  then show thesis
    using same effect [OF same_jobs_refl eff_resume same_jobs_refl]
    by (auto simp: resume_scheduled_job_def commit_def split: sum.splits)
next
  case (js_mutation m p idem audit before)
  obtain v where "apply_idempotent_schedule_mutation_with_audit cal x p m idem audit before db = (v, db')"
    using js_mutation(1) by (metis prod.collapse)
  then show thesis
  proof (cases rule: idempotentE)
    case unchanged
    then show thesis using same by simp
  next
    case (applied pf db2 db3)
    have "same_jobs db (db \<lparr>db_keys := db_keys db @ [claimed_key x m idem]\<rparr>)"
      by (simp add: same_jobs_def)
    moreover have "same_jobs db2 db'"
      using audit_frame [OF applied(6)] completed_keys [OF applied(7)] by (simp add: same_jobs_def)
    ultimately show thesis
      using effect typed_effect [OF applied(5)] js_mutation(2) by blast
  qed
next
  case (js_audit a)
  then show thesis
    using same by (auto simp: append_schedule_audit_def commit_def insert_mutation_audit_def
        count_runs_def same_jobs_def same_tables_def split: sum.splits)
next
  case (js_baseline u)
  then show thesis
    using same
    by (auto simp: compare_and_swap_execution_baseline_def commit_def same_jobs_def same_tables_def
        compare_and_swap_execution_baseline_in_transaction_def count_runs_def
        split: sum.splits if_splits)
next
  case (js_materialize job_id g admission env)
  obtain v where "materialize_due_schedule_inner cal x job_id g now admission env db = (v, db')"
    using js_materialize by (metis prod.collapse)
  then show thesis
  proof (cases rule: materializeE)
    case (blocked rows s)
    then show thesis using same by (simp add: same_jobs_def)
  qed (use same materialized in simp_all)
next
  case (js_run s)
  then show thesis using run by simp
qed

end
