(* ===== verification/Job_History.thy ===== *)
theory Job_History
  imports Job_Safety
begin

text \<open>
  Histories of the scheduler store under a clock that never goes back: the invariant of jobs,
  schedules and runs, the refinement of every step into steps of the run store, and the life of an
  idempotency key.
\<close>

section \<open>Occurrences lie ahead\<close>

lemma next_fixed_interval_later:
  assumes "0 < every" and "next_fixed_interval anchor every reference = Inr t"
  shows "reference < t"
proof (cases "reference < anchor")
  case True
  then show ?thesis using assms(2) by (simp add: next_fixed_interval_def)
next
  case False
  then have "t = anchor + ((reference - anchor) div every + 1) * every"
    using next_fixed_interval_cases [OF assms(1), of anchor reference] assms(2)
    by (auto split: if_splits)
  moreover have "reference - anchor < ((reference - anchor) div every + 1) * every"
    using assms(1) div_bounds_int [OF assms(1), of "reference - anchor"] by simp
  ultimately show ?thesis by simp
qed

lemma next_after_later:
  assumes "spec_ok spec" and "next_after cal spec reference = Inr t"
  shows "reference < t"
proof (cases spec)
  case (FixedInterval anchor every)
  then show ?thesis using assms next_fixed_interval_later by (simp add: next_after_def spec_ok_def)
next
  case (Cron e tz)
  then show ?thesis
    using assms(2) cron_next.progress by (simp add: next_after_def)
qed (use assms in \<open>auto simp: next_after_def split: if_splits\<close>)

lemma first_after_create_later:
  assumes "spec_ok spec" and "validate_for_create spec now = Inr ()"
    and "first_after_create cal spec now = Inr t"
  shows "now < t"
  using assms next_after_later [OF assms(1), of cal now t]
  by (auto simp: first_after_create_def validate_for_create_def split: schedule_spec.splits if_splits)

lemma parts_spec_ok: "parts_check (storage_parts spec) \<Longrightarrow> spec_ok spec"
  by (cases spec) (simp_all add: parts_check_def storage_parts_def spec_ok_def)

lemma from_storage_spec_ok: "from_storage cal parts = Inr spec \<Longrightarrow> spec_ok spec"
  by (auto simp: from_storage_def spec_ok_def ok_option_def once_def fixed_interval_def cron_def Let_def
      bind_eq_Some_conv split: if_splits option.splits sum.splits)

section \<open>Refinement into the run store\<close>

lemma fresh_new_run: "fresh_run (new_run run_id j s w targets_json baseline_json now)"
  by (simp add: fresh_run_def new_run_def)

lemma effect_runs: "job_effect cal x now db db' \<Longrightarrow> (run_step x)\<^sup>*\<^sup>* (db_runs db) (db_runs db')"
proof (induction rule: job_effect.induct)
  case (eff_create r p due_at policy_json pf db')
  from eff_create(3) show ?case by (rule create_job_in_transactionE) simp
next
  case (eff_update r p policy_json pf db')
  from eff_update(3) show ?case by (rule apply_updateE) (blast intro: step_cancel)
next
  case (eff_inactive status job_id g db')
  from eff_inactive(2) show ?case by (rule apply_inactiveE) (blast intro: step_cancel)
next
  case (eff_resume p job_id g policy_json pf db')
  from eff_resume show ?case by (rule apply_resumeE) simp
qed

lemma same_jobs_runs: "same_jobs db db' \<Longrightarrow> (run_step x)\<^sup>*\<^sup>* (db_runs db) (db_runs db')"
  by (auto simp: same_jobs_def intro: step_metric)

lemma job_step_runs:
  assumes "job_step cal x now db db'"
  shows "(run_step x)\<^sup>*\<^sup>* (db_runs db) (db_runs db')"
  using assms
proof (cases rule: job_step_cases)
  case same
  then show ?thesis by (rule same_jobs_runs)
next
  case (effect db1 db2)
  then show ?thesis
    using same_jobs_runs [OF effect(1)] effect_runs [OF effect(2)] same_jobs_runs [OF effect(3)]
    by (meson rtranclp_trans)
next
  case (materialized job_id g j s due_at w run runs)
  then have "run_step x (db_runs db) runs"
    by (auto simp: created_run_def intro: step_materialize fresh_new_run)
  moreover from materialized(4) have "db_runs db' = runs" by (cases rule: advance_scheduleE) simp_all
  ultimately show ?thesis by auto
next
  case (run s)
  then show ?thesis by auto
qed

section \<open>The invariant of jobs, schedules and runs\<close>

definition timely :: "i64 \<Rightarrow> sched_db \<Rightarrow> bool" where
  "timely now db \<longleftrightarrow>
     (\<forall>r \<in> set (st_runs (db_runs db)). r_scheduled_for r \<le> now
        \<and> (\<forall>s \<in> set (db_schedules db). s_job_id s = r_job_id r \<longrightarrow>
             (case s_next_run_at s of None \<Rightarrow> True | Some t \<Rightarrow> r_scheduled_for r < t)))"

definition sched_inv :: "ext \<Rightarrow> i64 \<Rightarrow> sched_db \<Rightarrow> bool" where
  "sched_inv x now db \<longleftrightarrow>
     store_inv x (db_runs db)
     \<and> table_ok (job_check x) job_unique (db_jobs db)
     \<and> table_ok (schedule_check x) schedule_unique (db_schedules db)
     \<and> timely now db"

interpretation jobs: checked_table "job_check x" job_unique j_job_id for x
  by unfold_locales (simp add: job_unique_def)

interpretation schedules: checked_table "schedule_check x" schedule_unique s_job_id for x
  by unfold_locales (simp add: schedule_unique_def)

lemma sched_inv_later: "sched_inv x now db \<Longrightarrow> now \<le> now' \<Longrightarrow> sched_inv x now' db"
  by (force simp: sched_inv_def timely_def)

lemma sched_inv_same:
  assumes "same_jobs db db'"
  shows "sched_inv x now db' = sched_inv x now db"
proof -
  have "same_tables (db_runs db) (db_runs db')" "db_jobs db' = db_jobs db"
    "db_schedules db' = db_schedules db"
    using assms by (simp_all add: same_jobs_def)
  then show ?thesis
    using store_inv_same_tables [of "db_runs db" "db_runs db'" x]
    by (simp add: sched_inv_def timely_def same_tablesD(1))
qed

text \<open>Run operations that insert nothing keep the identity of every run.\<close>

definition run_keys :: "store \<Rightarrow> (string \<times> string \<times> i64) set" where
  "run_keys s = (\<lambda>r. (r_run_id r, r_job_id r, r_scheduled_for r)) ` set (st_runs s)"

lemma card_run_keys: "store_inv x s \<Longrightarrow> card (run_keys s) = length (st_runs s)"
proof -
  assume "store_inv x s"
  then have d: "distinct (map r_run_id (st_runs s))"
    by (simp add: store_inv_def table_ok_def run_unique_def)
  then have "inj_on (\<lambda>r. (r_run_id r, r_job_id r, r_scheduled_for r)) (set (st_runs s))"
    by (auto simp: distinct_map inj_on_def)
  then show ?thesis
    unfolding run_keys_def using d by (simp add: card_image distinct_map distinct_card)
qed

lemma advances_run_keys: "advances s s' \<Longrightarrow> run_keys s \<subseteq> run_keys s'"
proof
  fix k assume a: "advances s s'" and k: "k \<in> run_keys s"
  then obtain r where r: "r \<in> set (st_runs s)" "k = (r_run_id r, r_job_id r, r_scheduled_for r)"
    by (auto simp: run_keys_def)
  with a obtain q where q: "q \<in> set (st_runs s')" "run_snapshot q = run_snapshot r"
    by (auto simp: advances_def evolves_def)
  then show "k \<in> run_keys s'"
    using run_snapshot_keys [OF q(2)] r(2) by (auto simp: run_keys_def image_iff intro!: bexI [of _ q])
qed

lemma run_keys_kept:
  assumes "preserves x s s'" and "store_inv x s" and "length (st_runs s') = length (st_runs s)"
  shows "run_keys s' = run_keys s"
proof -
  have "store_inv x s'" "run_keys s \<subseteq> run_keys s'"
    using assms(1,2) advances_run_keys by (auto simp: preserves_def)
  then show ?thesis
    using card_subset_eq [of "run_keys s'" "run_keys s"] card_run_keys assms(2,3)
    by (simp add: run_keys_def)
qed

lemma timely_keys:
  "timely now db \<longleftrightarrow>
     (\<forall>(i, j, t) \<in> run_keys (db_runs db). t \<le> now
        \<and> (\<forall>s \<in> set (db_schedules db). s_job_id s = j \<longrightarrow>
             (case s_next_run_at s of None \<Rightarrow> True | Some u \<Rightarrow> t < u)))"
  by (simp add: timely_def run_keys_def)

lemma timely_schedules:
  assumes "timely now db" and "run_keys (db_runs db') = run_keys (db_runs db)"
    and "\<And>s'. s' \<in> set (db_schedules db') \<Longrightarrow>
      (\<exists>s \<in> set (db_schedules db). s_job_id s' = s_job_id s \<and> s_next_run_at s' = s_next_run_at s)
      \<or> (case s_next_run_at s' of None \<Rightarrow> True | Some t \<Rightarrow> now < t)"
  shows "timely now db'"
  unfolding timely_keys assms(2)
proof (clarify, intro conjI ballI impI)
  fix i j t assume k: "(i, j, t) \<in> run_keys (db_runs db)"
  then show t: "t \<le> now" using assms(1) by (auto simp: timely_keys)
  fix s' assume s': "s' \<in> set (db_schedules db')" "s_job_id s' = j"
  from assms(3) [OF s'(1)] show "case s_next_run_at s' of None \<Rightarrow> True | Some u \<Rightarrow> t < u"
  proof
    assume "\<exists>s \<in> set (db_schedules db). s_job_id s' = s_job_id s \<and> s_next_run_at s' = s_next_run_at s"
    then obtain s where "s \<in> set (db_schedules db)" "s_job_id s' = s_job_id s"
      "s_next_run_at s' = s_next_run_at s" by blast
    then show ?thesis using assms(1) k s'(2) by (fastforce simp: timely_keys)
  qed (use t in \<open>auto split: option.splits\<close>)
qed

lemma cancel_length:
  assumes "cancel_pre_execution_runs x job_id g now s = Inr s'"
  shows "length (st_runs s') = length (st_runs s)"
  using assms
proof (cases rule: cancelE)
  case (1 db1 n k)
  then show ?thesis
    using sql_update_InrD(1) [OF update_runs_InrD(1) [OF 1(2)]] update_attempts_InrD(2) [OF 1(1)]
    by simp
qed

lemma cancel_keys:
  assumes "cancel_pre_execution_runs x job_id g now s = Inr s'" and "store_inv x s"
  shows "store_inv x s'" and "run_keys s' = run_keys s"
  using run_keys_kept [OF cancel_preserves [OF assms(1)] assms(2) cancel_length [OF assms(1)]]
    cancel_preserves [OF assms(1)] assms(2)
  by (auto simp: preserves_def)

lemma validated_for_create:
  "validate_create_request cal x r p c = Inr due_at \<Longrightarrow>
     validate_for_create (create_schedule r) (create_now r) = Inr ()
     \<and> first_after_create cal (create_schedule r) (create_now r) = Inr due_at"
  "validate_update_request cal x u p c = Inr () \<Longrightarrow>
     validate_for_create (update_schedule u) (update_now u) = Inr ()"
  by (auto simp: validate_create_request_def validate_update_request_def check_all_eq_Inr
      is_ok_iff split: if_splits)

lemma create_timely:
  assumes "timely now db" and "validate_create_request cal x r p False = Inr due_at"
    and "create_now r = now" and "create_job_in_transaction x p r due_at policy_json pf db = Inr db'"
  shows "timely now db'"
  using assms(4)
proof (cases rule: create_job_in_transactionE)
  case (1 policy)
  note I = sql_insert_InrD [OF 1(5)]
  have "spec_ok (create_schedule r)"
    using I(2) parts_spec_ok by (simp add: schedule_check_def new_schedule_def)
  then have "now < due_at"
    using first_after_create_later validated_for_create(1) [OF assms(2)] assms(3) by blast
  then show ?thesis
    using I(1) 1(7)
    by (intro timely_schedules [OF assms(1)]) (auto simp: new_schedule_def)
qed

lemma update_timely:
  assumes "timely now db" and "store_inv x (db_runs db)"
    and "validate_update_request cal x r p False = Inr ()" and "update_now r = now"
    and "apply_update cal x p r policy_json pf db = Inr db'"
  shows "timely now db'"
  using assms(5)
proof (cases rule: apply_updateE)
  case (1 j owner due_at n)
  note U = sql_update_InrD [OF 1(7)]
  have later: "case due_at of None \<Rightarrow> True | Some t \<Rightarrow> now < t" if "spec_ok (update_schedule r)"
    using first_after_create_later [OF that] validated_for_create(2) [OF assms(3)] 1(4) assms(4)
    by (auto simp: update_due_def split: if_splits)
  show ?thesis
  proof (rule timely_schedules [OF assms(1)])
    show "run_keys (db_runs db') = run_keys (db_runs db)" by (rule cancel_keys(2) [OF 1(6) assms(2)])
    fix s' assume "s' \<in> set (db_schedules db')"
    then obtain s where s: "s \<in> set (db_schedules db)" "s' = (if s_job_id s = update_job_id r then
        s \<lparr>s_parts := storage_parts (update_schedule r), s_next_run_at := due_at, s_proof_version := 1,
          s_proof_json := proof_canonical_json pf, s_generation := s_generation s + 1,
          s_updated_at := update_now r\<rparr> else s)"
      unfolding U(1) by auto
    show "(\<exists>s \<in> set (db_schedules db). s_job_id s' = s_job_id s \<and> s_next_run_at s' = s_next_run_at s)
      \<or> (case s_next_run_at s' of None \<Rightarrow> True | Some t \<Rightarrow> now < t)"
    proof (cases "s_job_id s = update_job_id r")
      case True
      then have "spec_ok (update_schedule r)"
        using U(3) [OF s(1)] parts_spec_ok by (simp add: schedule_check_def)
      then show ?thesis using later s(2) True by simp
    qed (use s in auto)
  qed
qed

lemma inactive_timely:
  assumes "timely now db" and "store_inv x (db_runs db)"
    and "apply_inactive x job_id g status now db = Inr db'"
  shows "timely now db'"
  using assms(3)
proof (cases rule: apply_inactiveE)
  case (1 n)
  show ?thesis
    using sql_update_InrD(1) [OF 1(3)]
    by (intro timely_schedules [OF assms(1) cancel_keys(2) [OF 1(2) assms(2)]]) auto
qed

lemma resume_timely:
  assumes "timely now db" and "apply_resume cal x p job_id g now policy_json pf db = Inr db'"
  shows "timely now db'"
  using assms(2)
proof (cases rule: apply_resumeE)
  case (1 j s schedule owner due_at m n)
  have "now < due_at" by (rule next_after_later [OF from_storage_spec_ok [OF 1(2)] 1(6)])
  then show ?thesis
    using sql_update_InrD(1) [OF 1(8)] 1(9) by (intro timely_schedules [OF assms(1)]) auto
qed

lemma effect_inv:
  assumes "job_effect cal x now db db'" and "sched_inv x now db"
  shows "sched_inv x now db'"
proof -
  have inv: "store_inv x (db_runs db)" "table_ok (job_check x) job_unique (db_jobs db)"
    "table_ok (schedule_check x) schedule_unique (db_schedules db)" "timely now db"
    using assms(2) by (simp_all add: sched_inv_def)
  have "store_inv x (db_runs db')"
    using run_steps_preserve [OF effect_runs [OF assms(1)]] inv(1) by (simp add: preserves_def)
  moreover from assms(1) have "timely now db'
      \<and> table_ok (job_check x) job_unique (db_jobs db')
      \<and> table_ok (schedule_check x) schedule_unique (db_schedules db')"
  proof cases
    case (eff_create r p due_at policy_json pf)
    from eff_create(3) show ?thesis
      by (rule create_job_in_transactionE)
        (use create_timely [OF inv(4) eff_create(2,1,3)] jobs.insert_ok [OF inv(2)]
          schedules.insert_ok [OF inv(3)] in blast)
  next
    case (eff_update r p policy_json pf)
    from eff_update(3) show ?thesis
      by (rule apply_updateE)
        (use update_timely [OF inv(4,1) eff_update(2,1,3)] jobs.update_ok [OF inv(2)]
          schedules.update_ok [OF inv(3)] in blast)
  next
    case (eff_inactive status job_id g)
    from eff_inactive(2) show ?thesis
      by (rule apply_inactiveE)
        (use inactive_timely [OF inv(4,1) eff_inactive(2)] jobs.update_ok [OF inv(2)]
          schedules.update_ok [OF inv(3)] in blast)
  next
    case (eff_resume p job_id g policy_json pf)
    from eff_resume show ?thesis
      by (rule apply_resumeE)
        (use resume_timely [OF inv(4) eff_resume] jobs.update_ok [OF inv(2)]
          schedules.update_ok [OF inv(3)] in blast)
  qed
  ultimately show ?thesis by (simp add: sched_inv_def)
qed

text \<open>A materialized run: it is due now, its window follows, and it is the job's only new run.\<close>

lemma created_runD:
  assumes "created_run cal x now db j s due_at w run runs" and "due_at \<le> now"
  shows "window_ok due_at now w" and "st_runs runs = st_runs (db_runs db) @ [run]"
    and "r_job_id run = j_job_id j" and "r_scheduled_for run = due_at"
    and "r_run_id run = scheduled_run_id (j_job_id j) due_at"
    and "\<And>q. q \<in> set (st_runs (db_runs db)) \<Longrightarrow> r_job_id q = j_job_id j \<Longrightarrow> r_scheduled_for q \<noteq> due_at"
proof -
  obtain schedule policy tj bj where c: "from_storage cal (s_parts s) = Inr schedule"
    "coalesce cal schedule due_at now (occurrence_search_limit policy) = Inr w"
    "run = new_run (scheduled_run_id (j_job_id j) (scheduled_for w)) j s w tj bj now"
    "insert_run x run (uint (skipped_count w)) (db_runs db) = Inr (runs, 1)"
    "scheduler_policy_from_snapshot x (j_policy_version j) (j_policy_json j) = Inr policy"
    using assms(1) unfolding created_run_def by blast
  show w: "window_ok due_at now w"
    by (rule coalesce_window_ok [OF from_storage_spec_ok [OF c(1)] assms(2) c(2)])
  then show "r_job_id run = j_job_id j" "r_scheduled_for run = due_at"
    "r_run_id run = scheduled_run_id (j_job_id j) due_at"
    by (simp_all add: c(3) new_run_def window_ok_def)
  then show "\<And>q. q \<in> set (st_runs (db_runs db)) \<Longrightarrow> r_job_id q = j_job_id j \<Longrightarrow> r_scheduled_for q \<noteq> due_at"
    using c(4) by (auto simp: insert_run_def list_ex_iff split: if_splits)
  show "st_runs runs = st_runs (db_runs db) @ [run]"
    using c(4) by (auto simp: insert_run_def split: if_splits dest: sql_insert_InrD(1))
qed

lemma advanced_schedules:
  assumes "advance_schedule x job_id g w now db = Inr db'" and "s' \<in> set (db_schedules db')"
    and "window_ok due_at now w"
    and "table_ok (schedule_check x) schedule_unique (db_schedules db)"
  shows "(\<exists>s \<in> set (db_schedules db). s_job_id s' = s_job_id s \<and> s_next_run_at s' = s_next_run_at s
      \<and> s_job_id s \<noteq> job_id)
    \<or> (case s_next_run_at s' of None \<Rightarrow> True | Some t \<Rightarrow> now < t)"
  using assms(1)
proof (cases rule: advance_scheduleE)
  case (moves t)
  obtain s0 where s0: "s0 \<in> set (db_schedules db)" "s_job_id s0 = job_id"
    "s_next_run_at s0 = Some (scheduled_for w)"
    "list_ex (\<lambda>j. j_job_id j = job_id \<and> j_status j = JobActive \<and> j_generation j = g) (db_jobs db)"
    using update_oneD [OF moves(3)] by blast
  obtain s where s: "s \<in> set (db_schedules db)" "s' = (if s_job_id s = job_id
      \<and> s_next_run_at s = Some (scheduled_for w)
      \<and> list_ex (\<lambda>j. j_job_id j = job_id \<and> j_status j = JobActive \<and> j_generation j = g) (db_jobs db)
      then s \<lparr>s_next_run_at := Some t, s_updated_at := now\<rparr> else s)"
    using sql_update_InrD(1) [OF moves(3)] assms(2) by auto
  show ?thesis
  proof (cases "s_job_id s = job_id")
    case True
    then have "s = s0" using schedules.key_inj [OF assms(4) s(1) s0(1)] s0(2) by simp
    then show ?thesis using s(2) s0 moves(1) assms(3) by (simp add: window_ok_def)
  qed (use s in auto)
next
  case (complete n m)
  then show ?thesis using sql_update_InrD(1) [OF complete(2)] assms(2) by auto
qed

lemma materialized_inv:
  assumes "sched_inv x now db" and "due_job job_id g now db = Some (j, s, due_at)"
    and "created_run cal x now db j s due_at w run runs"
    and "advance_schedule x job_id g w now (db \<lparr>db_runs := runs\<rparr>) = Inr db'"
    and "store_inv x (db_runs db')"
  shows "sched_inv x now db'"
proof -
  have tabs: "table_ok (job_check x) job_unique (db_jobs db)"
    "table_ok (schedule_check x) schedule_unique (db_schedules db)" "timely now db"
    using assms(1) by (simp_all add: sched_inv_def)
  note D = due_jobD [OF assms(2)] and C = created_runD [OF assms(3) due_jobD(5) [OF assms(2)]]
  have id: "j_job_id j = job_id" by (rule joined_jobD(2) [OF D(1)])
  have runs': "db_runs db' = runs"
    using assms(4) by (cases rule: advance_scheduleE) simp_all
  have "timely now db'"
    unfolding timely_def runs' C(2)
  proof (intro ballI conjI impI)
    fix r assume "r \<in> set (st_runs (db_runs db) @ [run])"
    then consider "r \<in> set (st_runs (db_runs db))" | "r = run" by auto
    note r = this
    then show sf: "r_scheduled_for r \<le> now"
      using tabs(3) C(4) D(5) by cases (auto simp: timely_def)
    fix s' assume s': "s' \<in> set (db_schedules db')" "s_job_id s' = r_job_id r"
    have "(\<exists>q \<in> set (db_schedules db). s_job_id s' = s_job_id q \<and> s_next_run_at s' = s_next_run_at q
        \<and> s_job_id q \<noteq> job_id) \<or> (case s_next_run_at s' of None \<Rightarrow> True | Some t \<Rightarrow> now < t)"
      using advanced_schedules [OF assms(4) s'(1) C(1)] tabs(2) by simp
    then show "case s_next_run_at s' of None \<Rightarrow> True | Some t \<Rightarrow> r_scheduled_for r < t"
    proof
      assume "\<exists>q \<in> set (db_schedules db). s_job_id s' = s_job_id q
        \<and> s_next_run_at s' = s_next_run_at q \<and> s_job_id q \<noteq> job_id"
      then obtain q where q: "q \<in> set (db_schedules db)" "s_job_id s' = s_job_id q"
        "s_next_run_at s' = s_next_run_at q" "s_job_id q \<noteq> job_id" by blast
      have "r \<noteq> run"
      proof
        assume "r = run"
        then have "s_job_id q = job_id" using s'(2) q(2) C(3) id by simp
        with q(4) show False ..
      qed
      then have "r \<in> set (st_runs (db_runs db))" using r by cases simp_all
      then have "case s_next_run_at q of None \<Rightarrow> True | Some t \<Rightarrow> r_scheduled_for r < t"
        using tabs(3) q(1) q(2) s'(2) unfolding timely_def by metis
      then show ?thesis by (simp only: q(3))
    qed (use sf in \<open>auto split: option.splits\<close>)
  qed
  moreover have "table_ok (job_check x) job_unique (db_jobs db')
      \<and> table_ok (schedule_check x) schedule_unique (db_schedules db')"
    using assms(4)
  proof (cases rule: advance_scheduleE)
    case (moves t)
    show ?thesis using schedules.update_ok [OF _ moves(3)] moves(2) tabs(1,2) by simp
  next
    case (complete n m)
    show ?thesis
      using schedules.update_ok [OF _ complete(2)] jobs.update_ok [OF _ complete(3)] tabs(1,2) by simp
  qed
  ultimately show ?thesis using assms(5) by (simp add: sched_inv_def)
qed

lemma job_step_inv:
  assumes "job_step cal x now db db'" and "sched_inv x now db"
  shows "sched_inv x now db'"
proof -
  have pres: "preserves x (db_runs db) (db_runs db')"
    by (rule run_steps_preserve [OF job_step_runs [OF assms(1)]])
  then have st: "store_inv x (db_runs db')" using assms(2) by (simp add: preserves_def sched_inv_def)
  from assms(1) show ?thesis
  proof (cases rule: job_step_cases)
    case same
    then show ?thesis using sched_inv_same assms(2) by blast
  next
    case (effect db1 db2)
    then show ?thesis using sched_inv_same effect_inv assms(2) by blast
  next
    case (materialized job_id g j s due_at w run runs)
    then show ?thesis using materialized_inv [OF assms(2) _ _ _ st] by blast
  next
    case (run s)
    then have "run_keys s = run_keys (db_runs db)"
      using run_keys_kept pres assms(2) by (simp add: sched_inv_def)
    then show ?thesis using run st assms(2) by (simp add: sched_inv_def timely_keys)
  qed
qed

section \<open>Histories\<close>

definition initial_db :: "sched_db \<Rightarrow> bool" where
  "initial_db db \<longleftrightarrow> initial_store (db_runs db) \<and> db_jobs db = [] \<and> db_schedules db = []"

inductive history :: "('tz, 'cron) calendar \<Rightarrow> ext \<Rightarrow> i64 \<Rightarrow> sched_db \<Rightarrow> bool" for cal x where
  h_start: "initial_db db \<Longrightarrow> history cal x now db"
| h_step: "history cal x now db \<Longrightarrow> now \<le> later \<Longrightarrow> job_step cal x later db db' \<Longrightarrow>
    history cal x later db'"

lemma history_inv: "history cal x now db \<Longrightarrow> sched_inv x now db"
proof (induction rule: history.induct)
  case (h_start db now)
  then show ?case
    using initial_inv [of "db_runs db" x]
    by (simp add: initial_db_def sched_inv_def timely_def initial_store_def table_ok_def job_unique_def
        schedule_unique_def)
next
  case (h_step now db later db')
  then show ?case using job_step_inv sched_inv_later by blast
qed

lemma history_reachable: "history cal x now db \<Longrightarrow> reachable x (db_runs db)"
proof (induction rule: history.induct)
  case (h_start db now)
  then show ?case by (auto simp: initial_db_def reachable_def)
next
  case (h_step now db later db')
  then show ?case using reachable_steps job_step_runs by blast
qed

end
