(* ===== verification/Job_Sample.thy ===== *)
theory Job_Sample
  imports Job_History Run_Sample
begin

text \<open>
  A concrete history of the scheduler store, evaluated step by step: a job with a fixed interval is
  created by an idempotent mutation, paused and resumed; or its first occurrence is materialized. The
  properties of jobs and mutations are applied to its stores.
\<close>

definition job_target :: delivery_target where
  "job_target = \<lparr>target_id = ''t'', target_provider = ''w'', target_connector = ''v'',
     target_tenant = ''run'', target_kind = ''kind'', target_address_json = ''[1]'',
     target_resolver_version = 1, target_resolver_digest = ''job'',
     target_identity_digest = zero_digest\<rparr>"

definition target_list :: json where
  "target_list = JArr [target_value (JArr [JInt 1]) job_target]"

definition job_ext :: ext where
  "job_ext = tiny_ext \<lparr>
     json_parse := \<lambda>t. if t = ''[1]'' then Inr (JArr [JInt 1])
       else if t = ''T'' then Inr target_list else Inl ''expected value'',
     json_print := \<lambda>v. if v = JArr [JInt 1] then ''[1]''
       else if v = target_list then ''T'' else ''null'',
     policy_print := \<lambda>_. ''[1]'', sql_json_valid := \<lambda>_. True\<rparr>"

lemma job_ext_simps [simp]:
  "sql_json_valid job_ext t" "sql_json_int job_ext t f = None"
  "json_parse job_ext ''[1]'' = Inr (JArr [JInt 1])" "json_print job_ext (JArr [JInt 1]) = ''[1]''"
  "json_parse job_ext ''T'' = Inr target_list" "json_print job_ext target_list = ''T''"
  "json_print job_ext (JObj m) = ''null''"
  "policy_print job_ext p = ''[1]''"
  by (simp_all add: job_ext_def tiny_ext_def target_list_def target_value_def json_obj_def)

lemma job_digest [simp]: "sha256_hex job_ext t = zero_digest"
proof -
  have "encode_sha256 (replicate 32 CHR 0x00) = replicate 64 CHR ''0''" by code_simp
  then show ?thesis by (simp add: job_ext_def sha256_hex_def tiny_ext_def zero_digest_def)
qed

lemma job_policy [simp]:
  "scheduler_policy_from_snapshot job_ext 1 ''[1]'' = Inr default_policy"
  "scheduler_policy_json job_ext default_policy = Inr ''[1]''"
  using default_policies_valid(1)
  by (simp_all add: scheduler_policy_from_snapshot_def scheduler_policy_json_def
      SCHEDULER_OPERATIONAL_POLICY_VERSION_def job_ext_def tiny_ext_def)

lemma job_texts [simp]:
  "validate_text field ''t'' = Inr ()" "validate_text field ''s'' = Inr ()"
  "validate_text field ''c'' = Inr ()" "validate_text field ''r1'' = Inr ()"
  "validate_text field ''create'' = Inr ()" "validate_text field ''pause'' = Inr ()"
  "validate_text field ''resume'' = Inr ()"
  by (rule validate_graphic; simp add: is_graphic_def byte_val_def MAX_CONTEXT_BYTES_def)+

lemma zero_digest_valid [simp]: "validate_lowercase_sha256 f zero_digest = Inr ()"
  using zero_digest_hex by (simp add: validate_lowercase_sha256_def is_lowercase_hex_def)

lemma zero_digest_stored [simp]: "identity_digest_ok zero_digest" "sql_length zero_digest = 64"
  by code_simp+

section \<open>Creation\<close>

definition job_principal :: principal_key where
  "job_principal = \<lparr>principal_kind = ''kind'', principal_provider = ''w'', principal_tenant = ''v'',
     principal_subject = ''job''\<rparr>"

definition job_request :: create_request where
  "job_request = \<lparr>create_job_id = ''job'', create_schedule_id = ''s'',
     create_definition = \<lparr>definition_snapshot_version = 1, definition_canonical_json = ''[1]''\<rparr>,
     create_creator = job_principal, create_owner = job_principal,
     create_capability = \<lparr>capability_snapshot_version = 1, capability_snapshot_digest = ''c'',
       capability_canonical_json = ''[1]''\<rparr>,
     create_targets = [job_target], create_schedule = FixedInterval 0 3600, create_now = 10\<rparr>"

definition job_idem :: "string \<Rightarrow> mutation_idempotency" where
  "job_idem request_id = \<lparr>idem_principal = job_principal, idem_request_id = request_id,
     idem_digest_algorithm = ''kind'', idem_request_digest = ''c'', idem_response_json = ''[1]''\<rparr>"

definition empty_db :: sched_db where
  "empty_db = \<lparr>db_runs = empty_store, db_jobs = [], db_schedules = [], db_targets = [],
     db_baselines = [], db_cursors = [], db_keys = [], db_audits = [], db_lock = Some 0\<rparr>"

definition job_proof :: cadence_proof_artifact where
  "job_proof = \<lparr>proof_canonical_json = ''null'', proof_schedule_digest = zero_digest,
     proof_policy_digest = zero_digest\<rparr>"

definition created_db :: sched_db where
  "created_db = empty_db \<lparr>db_jobs := [new_job job_request ''[1]''],
     db_schedules := [new_schedule job_request 3600 job_proof],
     db_targets := [\<lparr>t_job_id = ''job'', t_ordinal = 0, t_target = job_target\<rparr>],
     db_baselines := [empty_baseline ''job''],
     db_keys := [completed_key job_ext (MCreate job_request) (job_idem ''r1'')], db_lock := Some 10\<rparr>"

lemma default_limits [simp]:
  "minimum_schedule_cadence_seconds default_policy = 60" "max_prompt_bytes default_policy = 65536"
  "max_active_jobs default_policy = 1000" "max_active_jobs_per_owner default_policy = 100"
  "occurrence_search_limit default_policy = 100000"
  by (simp_all add: default_policy_def)

lemma job_request_simps [simp]:
  "create_schedule job_request = FixedInterval 0 3600" "create_now job_request = 10"
  "create_job_id job_request = ''job''" "create_owner job_request = job_principal"
  by (simp_all add: job_request_def)

lemma cadence_sample [simp]:
  "cadence_proof_identity job_ext (FixedInterval 0 3600) default_policy =
     Inr (zero_digest, zero_digest, ''fixed_interval'')"
  "cadence_proof_verify job_ext job_proof (FixedInterval 0 3600) default_policy = Inr ()"
  "generate_cadence_proof cal job_ext (FixedInterval 0 3600) now default_policy = Inr job_proof"
  by (simp_all add: cadence_proof_identity_def cadence_proof_verify_def generate_cadence_proof_def
      schedule_value_def validate_minimum_cadence_def job_proof_def json_obj_def)

lemma sample_targets_valid [simp]:
  "target_snapshot_json job_ext job_target = Inr (target_value (JArr [JInt 1]) job_target)"
  "validate_serialized_targets job_ext [target_value (JArr [JInt 1]) job_target] = Inr ()"
  "serialize_targets job_ext [target_value (JArr [JInt 1]) job_target] = Inr ''T''"
  "validate_delivery_targets job_ext [job_target] = Inr ()"
proof -
  have "delivery_target_validate job_ext job_target = Inr ()"
    by (simp add: delivery_target_validate_def job_target_def check_all.simps
        validate_canonical_snapshot_def canonicalize_snapshot_def MAX_SNAPSHOT_BYTES_def)
  moreover show "target_snapshot_json job_ext job_target = Inr (target_value (JArr [JInt 1]) job_target)"
    by (simp add: target_snapshot_json_def job_target_def)
  moreover show "serialize_targets job_ext [target_value (JArr [JInt 1]) job_target] = Inr ''T''"
    by (simp add: serialize_targets_def target_list_def [symmetric] MAX_SNAPSHOT_BYTES_def)
  moreover from this show "validate_serialized_targets job_ext
      [target_value (JArr [JInt 1]) job_target] = Inr ()"
    by (simp add: validate_serialized_targets_def MAX_DELIVERY_TARGETS_def)
  ultimately show "validate_delivery_targets job_ext [job_target] = Inr ()"
    by (simp add: validate_delivery_targets_def MAX_DELIVERY_TARGETS_def)
qed

lemma sample_interval [simp]:
  "next_after cal (FixedInterval 0 3600) 10 = Inr 3600"
  "next_after cal (FixedInterval 0 3600) 30 = Inr 3600"
  by (simp_all add: next_after_def next_fixed_interval_def checked_sub_def checked_div_def trunc_div_def
      checked_add_def checked_mul_def in_i64_def i64_max_def i64_min_def)

lemma sample_create_valid [simp]:
  "validate_create_request cal job_ext job_request default_policy False = Inr 3600"
  by (simp add: validate_create_request_def job_request_def check_all.simps principal_validate_def
      job_principal_def job_definition_validate_def capability_snapshot_validate_def
      validate_canonical_snapshot_def canonicalize_snapshot_def MAX_SNAPSHOT_BYTES_def
      validate_for_create_def validate_definition_policy_def get_str_def first_after_create_def)

lemma sample_sql_length [simp]:
  "sql_length ''job'' = 3" "sql_length ''s'' = 1" "sql_length ''c'' = 1" "sql_length ''kind'' = 4"
  "sql_length ''w'' = 1" "sql_length ''v'' = 1" "sql_length ''run'' = 3" "sql_length ''r1'' = 2"
  "sql_length ''null'' = 4"
  by code_simp+

lemma sample_idempotency [simp]:
  "mutation_operation m \<in> {''create'', ''pause'', ''resume''} \<Longrightarrow>
     request_id \<in> {''r1'', ''w'', ''v''} \<Longrightarrow>
     validate_mutation_idempotency job_ext m (job_idem request_id) = Inr ()"
  "canonical_idempotency_scope job_ext who operation = ''null''"
  by (auto simp: validate_mutation_idempotency_def validate_idempotency_request_def job_idem_def
      check_all.simps MAX_SNAPSHOT_BYTES_def canonical_idempotency_scope_def json_obj_def)

text \<open>A mutation under a fresh request id, from its typed application.\<close>

lemma sample_mutation:
  assumes "mutation_operation m \<in> {''create'', ''pause'', ''resume''}"
    and "request_id \<in> {''r1'', ''w'', ''v''}"
    and "prevalidate_schedule_mutation cal job_ext p m before = Inr pf"
    and "\<forall>k \<in> set (db_keys db). k_key k \<noteq> request_id \<and> key_check k" and "key_unique (db_keys db)"
    and "apply_typed_mutation cal job_ext p m pf
      (db \<lparr>db_keys := db_keys db @ [claimed_key job_ext m (job_idem request_id)]\<rparr>) =
      Inr (db' \<lparr>db_keys := db_keys db @ [claimed_key job_ext m (job_idem request_id)]\<rparr>)"
  shows "apply_idempotent_schedule_mutation_with_audit cal job_ext p m (job_idem request_id) None before db =
    (Inr (MApplied ''[1]''),
     db' \<lparr>db_keys := db_keys db @ [completed_key job_ext m (job_idem request_id)]\<rparr>)"
proof -
  let ?c = "claimed_key job_ext m (job_idem request_id)"
  let ?i = "job_idem request_id"
  have c: "k_scope ?c = ''null''" "k_key ?c = request_id" "key_check ?c"
    using assms(2) by (auto simp: claimed_key_def job_idem_def key_check_def)
  have "claim_idempotency_in_transaction job_ext (idem_principal ?i) (mutation_operation m)
      (idem_request_id ?i) (idem_digest_algorithm ?i) (idem_request_digest ?i) db =
    Inr (db \<lparr>db_keys := db_keys db @ [?c]\<rparr>, DClaimed)"
    unfolding claim_idempotency_Inr Let_def
    using assms(4) c by (auto simp: key_row_def find_None_iff)
  moreover have "complete_idempotency_in_transaction job_ext (idem_principal ?i) (mutation_operation m) ?i
      (db' \<lparr>db_keys := db_keys db @ [?c]\<rparr>) =
    Inr (db' \<lparr>db_keys := db_keys db @ [completed_key job_ext m ?i]\<rparr>)"
  proof -
    let ?w = "\<lambda>k. k_scope k = ''null'' \<and> k_key k = idem_request_id ?i \<and> k_status k = KeyClaimed
      \<and> k_digest_algorithm k = Some (idem_digest_algorithm ?i)
      \<and> k_request_digest k = Some (idem_request_digest ?i)"
    let ?f = "\<lambda>k. k \<lparr>k_status := KeyCompleted, k_response_json := Some (idem_response_json ?i)\<rparr>"
    have none: "\<not> ?w k" if "k \<in> set (db_keys db)" for k
      using assms(4) that by (auto simp: job_idem_def)
    have "map (\<lambda>k. if ?w k then ?f k else k) (db_keys db) = db_keys db"
      using none by (intro map_idI) auto
    moreover have "filter ?w (db_keys db) = []" using none by (auto simp: filter_empty_conv)
    moreover have "\<not> list_ex (\<lambda>r. ?w r \<and> \<not> key_check (?f r)) (db_keys db)"
      using none by (auto simp: list_ex_iff)
    moreover have "?w ?c" "?f ?c = completed_key job_ext m ?i"
      by (simp_all add: claimed_key_def completed_key_def)
    moreover have "key_unique (db_keys db @ [completed_key job_ext m ?i])"
      using assms(4,5) by (auto simp: key_unique_def completed_key_def claimed_key_def job_idem_def)
    moreover have "key_check (completed_key job_ext m ?i)"
      using c(3) by (simp add: completed_key_def key_check_def)
    ultimately show ?thesis
      by (simp add: complete_idempotency_in_transaction_def Let_def sql_update_def list_all_iff)
  qed
  ultimately show ?thesis
    using assms(3,6) sample_idempotency(1) [OF assms(1,2)]
    by (simp add: apply_idempotent_schedule_mutation_with_audit_def job_idem_def [THEN arg_cong, of idem_response_json])
qed

lemma sample_create_job:
  "create_job_in_transaction job_ext default_policy job_request 3600 ''[1]'' job_proof
     (empty_db \<lparr>db_keys := keys\<rparr>) =
   Inr (created_db \<lparr>db_keys := keys\<rparr>)"
  by (simp add: create_job_in_transaction_def acquire_scheduler_policy_lock_def empty_db_def
      enforce_active_job_limits_def active_jobs_def insert_scheduled_job_def insert_job_def
      insert_schedule_def insert_baseline_def sql_insert_def job_check_def schedule_check_def
      job_unique_def schedule_unique_def baseline_unique_def baseline_check_def new_job_def
      new_schedule_def job_request_def created_db_def empty_baseline_def has_job_def
      replace_delivery_targets_def insert_target_def target_check_def target_unique_def key_length_ok_def
      principal_check_def job_principal_def storage_parts_def parts_check_def job_target_def)

lemma sample_create:
  "apply_idempotent_schedule_mutation_with_audit cal job_ext default_policy (MCreate job_request)
     (job_idem ''r1'') None before empty_db = (Inr (MApplied ''[1]''), created_db)"
proof -
  have eq: "created_db = created_db \<lparr>db_keys := db_keys empty_db
      @ [completed_key job_ext (MCreate job_request) (job_idem ''r1'')]\<rparr>"
    by (simp add: created_db_def empty_db_def)
  show ?thesis
    by (subst eq, rule sample_mutation [where pf = "Some job_proof"])
      (simp_all add: prevalidate_schedule_mutation_def apply_typed_mutation_def key_unique_def
        sample_create_job empty_db_def [THEN arg_cong, of db_keys])
qed

lemma created_history: "history cal job_ext 10 created_db"
proof -
  have "job_step cal job_ext 10 empty_db created_db"
    using js_mutation [of "MCreate job_request" 10 cal job_ext empty_db default_policy "job_idem ''r1''"
        None empty_db] sample_create [of cal empty_db] by simp
  moreover have "history cal job_ext 10 empty_db"
    by (rule h_start) (simp add: initial_db_def empty_db_def initial_store_def empty_store_def)
  ultimately show ?thesis using h_step by blast
qed

section \<open>Pause and resume\<close>

definition paused_job :: job_row where
  "paused_job = (new_job job_request ''[1]'') \<lparr>j_status := JobPaused, j_generation := 1,
     j_updated_at := 20\<rparr>"

definition paused_db :: sched_db where
  "paused_db = created_db \<lparr>db_jobs := [paused_job],
     db_schedules := [(new_schedule job_request 3600 job_proof) \<lparr>s_generation := 1, s_updated_at := 20\<rparr>],
     db_keys := db_keys created_db @ [completed_key job_ext (MPause ''job'' 0 20) (job_idem ''w'')]\<rparr>"

lemma created_keys:
  "db_keys created_db = [completed_key job_ext (MCreate job_request) (job_idem ''r1'')]"
  by (simp add: created_db_def)

lemma sample_lifecycle [simp]: "0 \<le> g \<Longrightarrow> validate_lifecycle_mutation ''job'' g = Inr ()"
  by (simp add: validate_lifecycle_mutation_def)

lemma sample_key_simps [simp]:
  "k_key (completed_key job_ext m (job_idem r)) = r"
  "key_check (completed_key job_ext m (job_idem r)) \<longleftrightarrow> sql_length r > 0"
  "k_scope (completed_key job_ext m (job_idem r)) = ''null''"
  by (simp_all add: completed_key_def claimed_key_def job_idem_def key_check_def)

lemmas job_row_checks = job_check_def schedule_check_def job_unique_def schedule_unique_def
  new_job_def new_schedule_def job_request_def key_length_ok_def principal_check_def job_principal_def
  storage_parts_def parts_check_def

lemma sample_inactive:
  "apply_inactive job_ext ''job'' 0 JobPaused 20 (created_db \<lparr>db_keys := keys\<rparr>) =
     Inr (paused_db \<lparr>db_keys := keys\<rparr>)"
  by (simp add: apply_inactive_def update_jobs_def update_schedules_def sql_update_def created_db_def
      paused_db_def paused_job_def empty_db_def job_row_checks on_runs_def cancel_pre_execution_runs_def
      empty_store_def store_defs)

lemma sample_pause:
  "apply_idempotent_schedule_mutation_with_audit cal job_ext default_policy (MPause ''job'' 0 20)
     (job_idem ''w'') None before created_db = (Inr (MApplied ''[1]''), paused_db)"
proof -
  have eq: "paused_db = paused_db \<lparr>db_keys := db_keys created_db
      @ [completed_key job_ext (MPause ''job'' 0 20) (job_idem ''w'')]\<rparr>"
    by (simp add: paused_db_def)
  show ?thesis
    by (subst eq, rule sample_mutation [where pf = None])
      (simp_all add: prevalidate_schedule_mutation_def apply_typed_mutation_def key_unique_def
        created_keys sample_inactive)
qed

lemma paused_history: "history cal job_ext 20 paused_db"
proof -
  have "job_step cal job_ext 20 created_db paused_db"
    using js_mutation [of "MPause ''job'' 0 20" 20 cal job_ext created_db default_policy "job_idem ''w''"
        None created_db] sample_pause [of cal created_db] by simp
  then show ?thesis by (rule h_step [OF created_history, rotated]) simp
qed

definition resumed_db :: sched_db where
  "resumed_db = paused_db \<lparr>
     db_jobs := [paused_job \<lparr>j_status := JobActive, j_generation := 2, j_updated_at := 30\<rparr>],
     db_schedules := [(new_schedule job_request 3600 job_proof) \<lparr>s_generation := 2, s_updated_at := 30\<rparr>],
     db_keys := db_keys paused_db @ [completed_key job_ext (MResume ''job'' 1 30) (job_idem ''v'')],
     db_lock := Some 30\<rparr>"

lemma sample_paused_schedule:
  "paused_schedule ''job'' 1 (paused_db \<lparr>db_keys := keys\<rparr>) =
     Some (paused_job, (new_schedule job_request 3600 job_proof) \<lparr>s_generation := 1, s_updated_at := 20\<rparr>)"
  by (simp add: paused_schedule_def job_at_def schedule_of_def paused_db_def paused_job_def new_job_def
      new_schedule_def)

lemma sample_spec [simp]:
  "from_storage cal (s_parts (new_schedule job_request 3600 job_proof)) = Inr (FixedInterval 0 3600)"
  by (simp add: new_schedule_def storage_parts_def from_storage_def ok_option_def fixed_interval_def)

lemma sample_apply_resume:
  "apply_resume cal job_ext default_policy ''job'' 1 30 ''[1]'' job_proof
     (paused_db \<lparr>db_keys := keys\<rparr>) = Inr (resumed_db \<lparr>db_keys := keys\<rparr>)"
proof -
  have "owner_from_row paused_job = Inr job_principal"
    by (simp add: owner_from_row_def paused_job_def new_job_def principal_new_def job_principal_def
        check_all.simps)
  moreover have "enforce_active_job_limits default_policy job_principal None
      (paused_db \<lparr>db_keys := keys\<rparr>) = Inr ()"
    by (simp add: enforce_active_job_limits_def active_jobs_def paused_db_def paused_job_def)
  moreover have "db_lock paused_db = Some 10" by (simp add: paused_db_def created_db_def)
  ultimately show ?thesis
    by (simp add: apply_resume_def acquire_scheduler_policy_lock_def sample_paused_schedule,
        simp add: update_jobs_def update_schedules_def sql_update_def paused_db_def paused_job_def
        resumed_db_def job_row_checks job_proof_def)
qed

lemma sample_resume:
  "apply_idempotent_schedule_mutation_with_audit cal job_ext default_policy (MResume ''job'' 1 30)
     (job_idem ''v'') None paused_db paused_db = (Inr (MApplied ''[1]''), resumed_db)"
proof -
  have eq: "resumed_db = resumed_db \<lparr>db_keys := db_keys paused_db
      @ [completed_key job_ext (MResume ''job'' 1 30) (job_idem ''v'')]\<rparr>"
    by (simp add: resumed_db_def)
  have "validate_resume_cadence cal job_ext default_policy ''job'' 1 30 paused_db = Inr job_proof"
    using sample_paused_schedule [of "db_keys paused_db"] by (simp add: validate_resume_cadence_def)
  then show ?thesis
    by (subst eq, intro sample_mutation [where pf = "Some job_proof"])
      (simp_all add: prevalidate_schedule_mutation_def apply_typed_mutation_def key_unique_def
        created_keys sample_apply_resume, simp_all add: paused_db_def created_keys)
qed

section \<open>Materialization\<close>

definition materialized_db :: sched_db where
  "materialized_db = snd (materialize_due_schedule_inner no_calendar job_ext ''job'' 0 3700 None
     (clock_at 3700) created_db)"

definition sample_window :: occurrence_window where
  "sample_window = \<lparr>scheduled_for = 3600, coalesced_through = 3600, skipped_count = 0,
     skipped_count_saturated = False, next_run_at = Some 7200\<rparr>"

lemma sample_coalesce:
  "coalesce cal (FixedInterval 0 3600) 3600 3700 limit = Inr sample_window"
  by (simp add: coalesce_def coalesce_fixed_interval_def checked_sub_def checked_div_def trunc_div_def
      checked_add_def checked_mul_def in_i64_def i64_max_def i64_min_def sample_window_def
      u32_of_i64_or_max_def next_fixed_interval_def u32_max_def)

lemma sample_due:
  "due_job ''job'' 0 3700 created_db =
     Some (new_job job_request ''[1]'', new_schedule job_request 3600 job_proof, 3600)"
  "overlap_blocked ''job'' created_db = False"
  "load_materialization_snapshots job_ext ''job'' created_db = Inr (''T'', ''null'')"
  by (simp_all add: due_job_def joined_job_def created_db_def schedule_of_def new_job_def new_schedule_def
      overlap_blocked_def empty_db_def empty_store_def load_materialization_snapshots_def job_targets_def
      baseline_value_def json_obj_def empty_baseline_def run_targets_ok_def)

lemma sample_run_targets: "run_targets_ok job_ext ''T''"
  by (simp add: run_targets_ok_def target_list_def target_value_def json_obj_def job_target_def)

lemma new_job_simps [simp]:
  "j_job_id (new_job job_request p) = ''job''" "j_policy_version (new_job job_request p) = 1"
  "j_policy_json (new_job job_request p) = p" "j_generation (new_job job_request p) = 0"
  by (simp_all add: new_job_def)

definition first_run :: run_row where
  "first_run = new_run (scheduled_run_id ''job'' 3600) (new_job job_request ''[1]'')
     (new_schedule job_request 3600 job_proof) sample_window ''T'' ''null'' 3700"

definition first_runs :: store where
  "first_runs = empty_store \<lparr>st_runs := [first_run], st_totals := materialized_metrics 0 (\<lambda>_. Some 0)\<rparr>"

lemma sample_insert_run: "insert_run job_ext first_run 0 empty_store = Inr (first_runs, 1)"
  by (simp add: insert_run_def store_defs first_run_def new_run_def sample_window_def empty_store_def
      first_runs_def new_job_def new_schedule_def job_request_def)

lemma sample_advance:
  "\<exists>db. advance_schedule job_ext ''job'' 0 sample_window 3700 (created_db \<lparr>db_runs := first_runs\<rparr>) = Inr db"
  by (simp add: advance_schedule_def sample_window_def update_schedules_def sql_update_def created_db_def
      job_row_checks job_proof_def)

lemma sample_materialize:
  "\<exists>c. materialize_due_schedule_inner no_calendar job_ext ''job'' 0 3700 None (clock_at 3700) created_db =
     (Inr (Created c), materialized_db)"
proof -
  obtain db where "advance_schedule job_ext ''job'' 0 sample_window 3700
      (created_db \<lparr>db_runs := first_runs\<rparr>) = Inr db"
    using sample_advance by blast
  moreover have "scheduled_for sample_window = 3600" "uint (skipped_count sample_window) = 0"
    by (simp_all add: sample_window_def)
  moreover have "db_runs created_db = empty_store" by (simp add: created_db_def empty_db_def)
  ultimately show ?thesis
    by (simp add: materialized_db_def materialize_due_schedule_inner_def clock_at_def
        acquire_and_validate_executor_admission_def ensure_executor_admission_not_cancelled_def
        sample_due materialize_occurrence_def sample_coalesce sample_run_targets Let_def
        first_run_def [symmetric] sample_insert_run finish_materialization_def
        revalidate_executor_admission_def materialized_run_def)
qed

end
