(* ===== verification/Job_Properties.thy ===== *)
theory Job_Properties
  imports Job_Sample
begin

text \<open>Properties of the job operations and of materialization.\<close>

section \<open>Materialization\<close>

lemma already_materializedE:
  assumes "materialize_due_schedule_inner cal x job_id g now admission env db =
      (Inr AlreadyMaterialized, db')"
  obtains j s due_at schedule policy w where "due_job job_id g now db = Some (j, s, due_at)"
    "from_storage cal (s_parts s) = Inr schedule"
    "scheduler_policy_from_snapshot x (j_policy_version j) (j_policy_json j) = Inr policy"
    "coalesce cal schedule due_at now (occurrence_search_limit policy) = Inr w"
    "\<exists>r \<in> set (st_runs (db_runs db)). r_job_id r = j_job_id j \<and> r_scheduled_for r = scheduled_for w"
proof -
  obtain j s due_at where p: "due_job job_id g now db = Some (j, s, due_at)"
    and body: "(if overlap_blocked job_id db
        then materialize_blocked job_id (j_generation j) due_at now db
        else materialize_occurrence cal x j s due_at now admission env db)
      = Inr (db', AlreadyMaterialized)"
    using assms unfolding materialize_due_schedule_inner_def
    by (auto simp: commit_Inr split: option.splits)
  have "materialize_blocked job_id (j_generation j) due_at now db \<noteq> Inr (db', AlreadyMaterialized)"
    by (auto elim: materialize_blockedE)
  then have occ: "materialize_occurrence cal x j s due_at now admission env db
      = Inr (db', AlreadyMaterialized)"
    using body by (auto split: if_splits)
  then obtain schedule policy w tj bj runs n where
    m: "from_storage cal (s_parts s) = Inr schedule"
      "scheduler_policy_from_snapshot x (j_policy_version j) (j_policy_json j) = Inr policy"
      "coalesce cal schedule due_at now (occurrence_search_limit policy) = Inr w"
      "insert_run x (new_run (scheduled_run_id (j_job_id j) (scheduled_for w)) j s w tj
         bj now) (uint (skipped_count w)) (db_runs db) = Inr (runs, n)"
    and rest: "finish_materialization x j w (scheduled_run_id (j_job_id j) (scheduled_for w)) now
      admission env runs n db = Inr (db', AlreadyMaterialized)"
    unfolding materialize_occurrence_def Let_def by (auto split: if_splits)
  have "n = 0"
    using rest by (auto simp: finish_materialization_def materialized_run_def split: if_splits)
  then have "\<exists>r \<in> set (st_runs (db_runs db)). r_job_id r = j_job_id j
      \<and> r_scheduled_for r = scheduled_for w"
    using m(4) by (auto simp: insert_run_def new_run_def list_ex_iff split: if_splits)
  then show thesis using that [OF p m(1-3)] by blast
qed

text \<open>
  C15: an occurrence is materialized once and the schedule never sticks on it. In every history whose
  clock does not go back, a materialization never finds its occurrence already materialized, whatever
  updates, pauses, resumes and run operations came before.
\<close>

theorem occurrences_materialize_once:
  assumes "history cal x now db" and "now \<le> later"
  shows "fst (materialize_due_schedule_inner cal x job_id g later admission env db)
    \<noteq> Inr AlreadyMaterialized"
proof
  assume "fst (materialize_due_schedule_inner cal x job_id g later admission env db)
    = Inr AlreadyMaterialized"
  then obtain db' where "materialize_due_schedule_inner cal x job_id g later admission env db
      = (Inr AlreadyMaterialized, db')"
    by (metis prod.collapse)
  then show False
  proof (rule already_materializedE)
    fix j s due_at schedule policy w
    assume p: "due_job job_id g later db = Some (j, s, due_at)"
      and spec: "from_storage cal (s_parts s) = Inr schedule"
      and w: "coalesce cal schedule due_at later (occurrence_search_limit policy) = Inr w"
      and r: "\<exists>r \<in> set (st_runs (db_runs db)). r_job_id r = j_job_id j
        \<and> r_scheduled_for r = scheduled_for w"
    note D = due_jobD [OF p] and J = joined_jobD [OF due_jobD(1) [OF p]]
    have "window_ok due_at later w"
      by (rule coalesce_window_ok [OF from_storage_spec_ok [OF spec] D(5) w])
    then have "scheduled_for w = due_at" by (simp add: window_ok_def)
    then obtain r where r: "r \<in> set (st_runs (db_runs db))" "r_job_id r = s_job_id s"
        "r_scheduled_for r = due_at"
      using r J(2,5) by auto
    have "timely now db" using history_inv [OF assms(1)] by (simp add: sched_inv_def)
    then have "case s_next_run_at s of None \<Rightarrow> True | Some t \<Rightarrow> r_scheduled_for r < t"
      using r(1,2) J(4) unfolding timely_def by metis
    then show False using D(2) r(3) by simp
  qed
qed

theorem occurrences_materialize_once_witness:
  "fst (materialize_due_schedule_inner no_calendar job_ext ''job'' 0 3700 None (clock_at 3700) created_db)
     \<noteq> Inr AlreadyMaterialized"
  by (rule occurrences_materialize_once [OF created_history]) simp

lemma completed_when_done:
  assumes "advance_schedule x job_id g w now db = Inr db'" and "next_run_at w = None"
    and "table_ok (job_check x) job_unique (db_jobs db)"
    and "j \<in> set (db_jobs db)" and "j_job_id j = job_id" and "j_generation j = g"
    and "j_status j = JobActive" and "j' \<in> set (db_jobs db')" and "j_job_id j' = job_id"
  shows "j_status j' = JobCompleted"
  using assms(1)
proof (cases rule: advance_scheduleE)
  case (complete n m)
  obtain k where k: "k \<in> set (db_jobs db)" "j' = (if j_job_id k = job_id \<and> j_generation k = g
      \<and> j_status k = JobActive then k \<lparr>j_status := JobCompleted, j_updated_at := now\<rparr> else k)"
    using sql_update_InrD(1) [OF complete(3)] assms(8) by auto
  have "j_job_id k = job_id" using k(2) assms(9) by (simp split: if_splits)
  then have "k = j" using jobs.key_inj [OF assms(3) k(1) assms(4)] assms(5) by simp
  then show ?thesis using k(2) assms(5-7) by simp
qed (use assms(2) in simp)

text \<open>
  C20: a materialized run is a faithful, exclusive snapshot. A successful materialization appends
  exactly one pending run for the due occurrence of the active job at the expected generation, with
  the job's own definition, capability and policy, while no other run of the job holds its overlap
  slot; afterwards the schedule lies strictly after the clock, or it has ended and the job is
  completed.
\<close>

theorem materialization_commits_snapshot:
  assumes "history cal x past db"
    and "materialize_due_schedule_inner cal x job_id g now admission env db = (Inr (Created c), db')"
  shows "\<exists>j \<in> set (db_jobs db). \<exists>s \<in> set (db_schedules db). \<exists>run due_at.
    j_job_id j = job_id \<and> j_status j = JobActive \<and> j_generation j = g
    \<and> s_job_id s = job_id \<and> s_next_run_at s = Some due_at \<and> due_at \<le> now
    \<and> \<not> overlap_blocked job_id db
    \<and> st_runs (db_runs db') = st_runs (db_runs db) @ [run]
    \<and> r_run_id run = scheduled_run_id job_id due_at \<and> run_id_of c = r_run_id run
    \<and> r_job_id run = job_id \<and> r_job_generation run = g \<and> r_state run = Pending
    \<and> r_scheduled_for run = due_at \<and> due_at \<le> r_coalesced_through run \<and> r_coalesced_through run \<le> now
    \<and> r_definition_json run = j_definition_json j \<and> r_capability_json run = j_capability_json j
    \<and> r_policy_json run = j_policy_json j
    \<and> (\<forall>s' \<in> set (db_schedules db'). s_job_id s' = job_id \<longrightarrow>
         (case s_next_run_at s' of Some t \<Rightarrow> now < t
          | None \<Rightarrow> \<forall>j' \<in> set (db_jobs db'). j_job_id j' = job_id \<longrightarrow> j_status j' = JobCompleted))"
  using assms(2)
proof (cases rule: materializeE)
  case (created j s due_at w run runs)
  note D = due_jobD [OF created(1)] and J = joined_jobD [OF due_jobD(1) [OF created(1)]]
  note C = created_runD [OF created(3) D(5)]
  have tabs: "table_ok (job_check x) job_unique (db_jobs db)"
    "table_ok (schedule_check x) schedule_unique (db_schedules db)"
    using history_inv [OF assms(1)] by (simp_all add: sched_inv_def)
  have runs': "db_runs db' = runs" using created(4) by (cases rule: advance_scheduleE) simp_all
  obtain id tj bj where run: "run = new_run id j s w tj bj now"
    using created(3) unfolding created_run_def by blast
  have next_ok: "case s_next_run_at s' of Some t \<Rightarrow> now < t
      | None \<Rightarrow> \<forall>j' \<in> set (db_jobs db'). j_job_id j' = job_id \<longrightarrow> j_status j' = JobCompleted"
    if s': "s' \<in> set (db_schedules db')" "s_job_id s' = job_id" for s'
  proof (cases "next_run_at w")
    case None
    have "j_status j' = JobCompleted" if "j' \<in> set (db_jobs db')" "j_job_id j' = job_id" for j'
      using completed_when_done [OF created(4) None, of j j'] tabs(1) J(1,2) D(3,4) that by simp
    moreover have "case s_next_run_at s' of None \<Rightarrow> True | Some t \<Rightarrow> now < t"
      using advanced_schedules [OF created(4) s'(1) C(1)] tabs(2) s'(2) by auto
    ultimately show ?thesis by (auto split: option.splits)
  next
    case (Some t)
    from created(4) show ?thesis
    proof (cases rule: advance_scheduleE)
      case (moves u)
      then obtain q where q: "q \<in> set (db_schedules db)" "s_job_id q = job_id"
          "s_next_run_at q = Some (scheduled_for w)"
          "q \<lparr>s_next_run_at := Some u, s_updated_at := now\<rparr> \<in> set (db_schedules db')"
        using update_oneD [OF moves(3)] update_selected [OF moves(3)] by (auto simp: moves(2))
      have "table_ok (schedule_check x) schedule_unique (db_schedules db')"
        using schedules.update_ok [OF _ moves(3)] tabs(2) by simp
      from schedules.key_inj [OF this q(4) s'(1)] have "s' = q \<lparr>s_next_run_at := Some u, s_updated_at := now\<rparr>"
        using q(2) s'(2) by simp
      then show ?thesis using moves(1) C(1) by (simp add: window_ok_def)
    qed (use Some in simp)
  qed
  have c: "run_id_of c = r_run_id run" using created(5) by (simp add: materialized_run_def)
  show ?thesis
    by (rule bexI [OF _ J(1)], rule bexI [OF _ J(4)], rule exI [of _ run], rule exI [of _ due_at])
      (use D J(2,5) C created(2) next_ok c in
        \<open>simp add: runs' run new_run_def window_ok_def\<close>)
qed (use assms(2) in simp_all)

theorem materialization_commits_snapshot_witness:
  "\<exists>j \<in> set (db_jobs created_db). \<exists>s \<in> set (db_schedules created_db). \<exists>run due_at.
    j_job_id j = ''job'' \<and> s_next_run_at s = Some due_at \<and> r_state run = Pending
    \<and> st_runs (db_runs materialized_db) = [run]
    \<and> r_run_id run = scheduled_run_id ''job'' due_at"
proof -
  obtain c where "materialize_due_schedule_inner no_calendar job_ext ''job'' 0 3700 None (clock_at 3700)
      created_db = (Inr (Created c), materialized_db)"
    using sample_materialize by blast
  from materialization_commits_snapshot [OF created_history this] show ?thesis
    by (force simp: created_db_def empty_db_def empty_store_def)
qed

end
