(* ===== verification/Mutation_Properties.thy ===== *)
theory Mutation_Properties
  imports Job_Properties
begin

text \<open>Properties of the audited, idempotent mutations: generation compare-and-swap, active-job limits,
  replay, and reading back what was created.\<close>

section \<open>Compare and swap\<close>

fun expected_generation :: "scheduled_job_mutation \<Rightarrow> i64" where
  "expected_generation (MCreate _) = 0"
| "expected_generation (MUpdate r) = update_expected_generation r"
| "expected_generation (MPause _ g _) = g"
| "expected_generation (MResume _ g _) = g"
| "expected_generation (MDelete _ g _) = g"

text \<open>The status a mutation leads to from a status it accepts.\<close>

fun status_after :: "scheduled_job_mutation \<Rightarrow> job_status \<Rightarrow> job_status option" where
  "status_after (MCreate _) _ = None"
| "status_after (MUpdate _) s = (if s = JobActive \<or> s = JobPaused then Some s else None)"
| "status_after (MPause _ _ _) s = (if s = JobActive \<or> s = JobPaused then Some JobPaused else None)"
| "status_after (MResume _ _ _) s = (if s = JobPaused then Some JobActive else None)"
| "status_after (MDelete _ _ _) s = (if s = JobDeleted then None else Some JobDeleted)"

lemma cas_update:
  assumes "table_ok (job_check x) job_unique rows"
    and "sql_update (job_check x) job_unique w f rows = Inr (rows', n)"
    and "j \<in> set rows" and "w j" and "\<And>k. w k \<Longrightarrow> j_job_id k = job_id"
    and "\<And>k. j_job_id (f k) = j_job_id k"
  shows "f j \<in> set rows'"
    and "\<And>k. j_job_id k \<noteq> job_id \<Longrightarrow> k \<in> set rows' \<longleftrightarrow> k \<in> set rows"
  using sql_update_InrD(1) [OF assms(2)] assms(3-6) by (force, force)

definition swapped :: "scheduled_job_mutation \<Rightarrow> job_row list \<Rightarrow> job_row list \<Rightarrow> bool" where
  "swapped m rows rows' \<longleftrightarrow>
     (\<exists>j \<in> set rows. \<exists>j' \<in> set rows'.
        j_job_id j = mutation_job_id m \<and> j_generation j = expected_generation m
        \<and> status_after m (j_status j) = Some (j_status j')
        \<and> j_job_id j' = j_job_id j \<and> j_generation j' = j_generation j + 1
        \<and> j_owner j' = j_owner j \<and> j_creator j' = j_creator j)
     \<and> (\<forall>k. j_job_id k \<noteq> mutation_job_id m \<longrightarrow> (k \<in> set rows' \<longleftrightarrow> k \<in> set rows))"

lemma swappedI:
  assumes "table_ok (job_check x) job_unique rows"
    and "sql_update (job_check x) job_unique w f rows = Inr (rows', n)"
    and "j \<in> set rows" and "w j" and "\<And>k. w k \<Longrightarrow> j_job_id k = mutation_job_id m"
    and "\<And>k. w k \<Longrightarrow> j_generation k = expected_generation m"
    and "\<And>k. w k \<Longrightarrow> status_after m (j_status k) = Some (j_status (f k))"
    and "\<And>k. j_job_id (f k) = j_job_id k" and "\<And>k. j_generation (f k) = j_generation k + 1"
    and "\<And>k. j_owner (f k) = j_owner k" and "\<And>k. j_creator (f k) = j_creator k"
  shows "swapped m rows rows'"
proof -
  note U = cas_update [OF assms(1-5,8)]
  have "\<exists>j' \<in> set rows'. j_job_id j = mutation_job_id m \<and> j_generation j = expected_generation m
        \<and> status_after m (j_status j) = Some (j_status j')
        \<and> j_job_id j' = j_job_id j \<and> j_generation j' = j_generation j + 1
        \<and> j_owner j' = j_owner j \<and> j_creator j' = j_creator j"
    by (rule bexI [OF _ U(1)]) (simp add: assms(4-11))
  then show ?thesis unfolding swapped_def using assms(3) U(2) by blast
qed

lemma typed_swapped:
  assumes "apply_typed_mutation cal x p m pf db = Inr db'" and "mutation_operation m \<noteq> ''create''"
    and tab: "table_ok (job_check x) job_unique (db_jobs db)"
  shows "swapped m (db_jobs db) (db_jobs db')"
proof (cases m)
  case (MUpdate r)
  then obtain policy_json pf' where "apply_update cal x p r policy_json pf' db = Inr db'"
    using assms(1) by (auto simp: apply_typed_mutation_def)
  then show ?thesis
  proof (cases rule: apply_updateE)
    case (1 j owner due_at n)
    note J = job_atD [OF 1(2)]
    show ?thesis
      by (rule swappedI [OF tab 1(5), of j]) (use J MUpdate in \<open>auto simp: updated_job_def\<close>)
  qed
next
  case (MPause job_id g t)
  then have "apply_inactive x job_id g JobPaused t db = Inr db'"
    using assms(1) by (auto simp: apply_typed_mutation_def)
  then show ?thesis
  proof (cases rule: apply_inactiveE)
    case (1 n)
    obtain j where "j \<in> set (db_jobs db)" "j_job_id j = job_id \<and> j_generation j = g
        \<and> (j_status j \<in> set [JobActive, JobPaused] \<or> (JobPaused = JobDeleted \<and> j_status j = JobCompleted))"
      by (rule update_oneD [OF 1(1)])
    then show ?thesis by (rule swappedI [OF tab 1(1)]) (use MPause in auto)
  qed
next
  case (MResume job_id g t)
  then obtain policy_json pf' where "apply_resume cal x p job_id g t policy_json pf' db = Inr db'"
    using assms(1) by (auto simp: apply_typed_mutation_def)
  then show ?thesis
  proof (cases rule: apply_resumeE)
    case (1 j s schedule owner due_at m n)
    have J: "j \<in> set (db_jobs db)" "j_job_id j = job_id \<and> j_generation j = g \<and> j_status j = JobPaused"
      using 1(1) by (auto simp: paused_schedule_def bind_eq_Some_conv dest!: job_atD)
    then show ?thesis by (rule swappedI [OF tab 1(7)]) (use MResume in auto)
  qed
next
  case (MDelete job_id g t)
  then have "apply_inactive x job_id g JobDeleted t db = Inr db'"
    using assms(1) by (auto simp: apply_typed_mutation_def)
  then show ?thesis
  proof (cases rule: apply_inactiveE)
    case (1 n)
    obtain j where "j \<in> set (db_jobs db)" "j_job_id j = job_id \<and> j_generation j = g
        \<and> (j_status j \<in> set [JobActive, JobPaused] \<or> (JobDeleted = JobDeleted \<and> j_status j = JobCompleted))"
      by (rule update_oneD [OF 1(1)])
    then show ?thesis by (rule swappedI [OF tab 1(1)]) (use MDelete in auto)
  qed
qed (use assms(2) in simp)

text \<open>
  C16: every mutation of an existing job is a compare-and-swap on its generation. When an update,
  pause, resume or delete is applied, the job was at the expected generation in a status the
  mutation accepts; it moves to the mutation's status with the next generation, keeps its owner and
  creator, and no other job changes.
\<close>

theorem mutation_is_generation_cas:
  assumes "history cal x now db"
    and "apply_idempotent_schedule_mutation_with_audit cal x p m idem audit before db =
      (Inr (MApplied response), db')"
    and "mutation_operation m \<noteq> ''create''"
  shows "swapped m (db_jobs db) (db_jobs db')"
  using assms(2)
proof (cases rule: idempotentE)
  case (applied pf db2 db3)
  have "table_ok (job_check x) job_unique (db_jobs db)"
    using history_inv [OF assms(1)] by (simp add: sched_inv_def)
  then have "swapped m (db_jobs db) (db_jobs db2)"
    using typed_swapped [OF applied(5) assms(3)] by simp
  then show ?thesis
    using audit_frame(1) [OF applied(6)] completed_keys [OF applied(7)] by simp
qed simp

theorem mutation_is_generation_cas_witness:
  "swapped (MPause ''job'' 0 20) (db_jobs created_db) (db_jobs paused_db)"
  by (rule mutation_is_generation_cas [OF created_history sample_pause]) simp

section \<open>Active-job limits\<close>

lemma key_at_most_once:
  "distinct (map k xs) \<Longrightarrow> length (filter (\<lambda>y. Q y \<and> k y = i) xs) \<le> 1"
proof (induction xs)
  case (Cons y ys)
  have "filter (\<lambda>z. Q z \<and> k z = i) ys = []" if "k y = i"
    using Cons.prems that by (auto simp: filter_empty_conv) (metis image_eqI)
  then show ?case using Cons by auto
qed simp

lemma filter_split_key:
  "length (filter Q xs) =
     length (filter (\<lambda>y. Q y \<and> k y \<noteq> i) xs) + length (filter (\<lambda>y. Q y \<and> k y = i) xs)"
  by (induction xs) auto

lemma active_jobs_excluding:
  assumes "table_ok (job_check x) job_unique (db_jobs db)"
  shows "active_jobs sel None db \<le> active_jobs sel (Some job_id) db + 1"
    and "active_jobs sel (Some job_id) db \<le> active_jobs sel None db"
proof -
  let ?P = "\<lambda>j. j_status j = JobActive \<and> sel j"
  have "distinct (map j_job_id (db_jobs db))" using assms by (simp add: table_ok_def job_unique_def)
  note key_at_most_once [OF this, of ?P job_id] filter_split_key [of ?P "db_jobs db" j_job_id job_id]
  then show "active_jobs sel None db \<le> active_jobs sel (Some job_id) db + 1"
    "active_jobs sel (Some job_id) db \<le> active_jobs sel None db"
    by (simp_all add: active_jobs_def conj_assoc)
qed

lemma active_jobs_others_append:
  assumes "db_jobs db' = db_jobs db @ [j]" and "j_job_id j = job_id"
  shows "active_jobs sel (Some job_id) db' = active_jobs sel (Some job_id) db"
  using assms by (simp add: active_jobs_def)

lemma active_jobs_others_update:
  assumes "sql_update (job_check x) job_unique w f (db_jobs db) = Inr (db_jobs db', n)"
    and "\<And>k. w k \<Longrightarrow> j_job_id k = job_id" and "\<And>k. j_job_id (f k) = j_job_id k"
  shows "active_jobs sel (Some job_id) db' = active_jobs sel (Some job_id) db"
proof -
  have "filter (\<lambda>j. j_status j = JobActive \<and> sel j \<and> j_job_id j \<noteq> job_id)
      (map (\<lambda>r. if w r then f r else r) xs) =
    filter (\<lambda>j. j_status j = JobActive \<and> sel j \<and> j_job_id j \<noteq> job_id) xs" for xs
    using assms(2,3) by (induction xs) auto
  then show ?thesis by (simp add: active_jobs_def sql_update_InrD(1) [OF assms(1)])
qed

lemma limits_after:
  assumes "enforce_active_job_limits p owner excluded db = Inr ()"
    and "excluded = None \<or> excluded = Some job_id"
    and "table_ok (job_check x) job_unique (db_jobs db)"
    and "table_ok (job_check x) job_unique (db_jobs db')"
    and "\<And>sel. active_jobs sel (Some job_id) db' = active_jobs sel (Some job_id) db"
  shows "active_jobs (\<lambda>_. True) None db' \<le> uint (max_active_jobs p)"
    and "active_jobs (\<lambda>j. j_owner j = owner) None db' \<le> uint (max_active_jobs_per_owner p)"
proof -
  have le: "active_jobs sel (Some job_id) db \<le> active_jobs sel excluded db" for sel
    using assms(2) active_jobs_excluding(2) [OF assms(3)] by auto
  have "active_jobs sel None db' \<le> active_jobs sel excluded db + 1" for sel
    using active_jobs_excluding(1) [OF assms(4), of sel job_id] le [of sel] assms(5) [of sel] by simp
  note this [of "\<lambda>_. True"] this [of "\<lambda>j. j_owner j = owner"]
  then show "active_jobs (\<lambda>_. True) None db' \<le> uint (max_active_jobs p)"
    "active_jobs (\<lambda>j. j_owner j = owner) None db' \<le> uint (max_active_jobs_per_owner p)"
    using assms(1) by (simp_all add: enforce_active_job_limits_def split: if_splits)
qed

lemma owner_from_row_owner: "owner_from_row j = Inr owner \<Longrightarrow> owner = j_owner j"
  by (auto simp: owner_from_row_def principal_new_def Let_def)

lemma job_id_unique:
  "table_ok (job_check x) job_unique rows \<Longrightarrow> j \<in> set rows \<Longrightarrow> k \<in> set rows \<Longrightarrow>
     j_job_id j = j_job_id k \<Longrightarrow> j = k"
  using jobs.key_inj by blast

lemma typed_jobs_ok:
  assumes "apply_typed_mutation cal x p m pf db = Inr db'"
    and tab: "table_ok (job_check x) job_unique (db_jobs db)"
  shows "table_ok (job_check x) job_unique (db_jobs db')"
proof (cases m)
  case (MCreate r)
  then obtain due_at policy_json pf' where
    "create_job_in_transaction x p r due_at policy_json pf' db = Inr db'"
    using assms(1) by (auto simp: apply_typed_mutation_def)
  then show ?thesis by (rule create_job_in_transactionE) (rule jobs.insert_ok [OF tab])
next
  case (MUpdate r)
  then obtain policy_json pf' where "apply_update cal x p r policy_json pf' db = Inr db'"
    using assms(1) by (auto simp: apply_typed_mutation_def)
  then show ?thesis by (rule apply_updateE) (rule jobs.update_ok [OF tab])
next
  case (MPause job_id g t)
  then have "apply_inactive x job_id g JobPaused t db = Inr db'"
    using assms(1) by (auto simp: apply_typed_mutation_def)
  then show ?thesis by (rule apply_inactiveE) (rule jobs.update_ok [OF tab])
next
  case (MResume job_id g t)
  then obtain policy_json pf' where "apply_resume cal x p job_id g t policy_json pf' db = Inr db'"
    using assms(1) by (auto simp: apply_typed_mutation_def)
  then show ?thesis by (rule apply_resumeE) (rule jobs.update_ok [OF tab])
next
  case (MDelete job_id g t)
  then have "apply_inactive x job_id g JobDeleted t db = Inr db'"
    using assms(1) by (auto simp: apply_typed_mutation_def)
  then show ?thesis by (rule apply_inactiveE) (rule jobs.update_ok [OF tab])
qed

lemma typed_limits:
  assumes m: "apply_typed_mutation cal x p m pf db = Inr db'"
    and tab: "table_ok (job_check x) job_unique (db_jobs db)"
    and tab': "table_ok (job_check x) job_unique (db_jobs db')"
    and j': "j' \<in> set (db_jobs db')" "j_job_id j' = mutation_job_id m" "j_status j' = JobActive"
  shows "active_jobs (\<lambda>_. True) None db' \<le> uint (max_active_jobs p)
    \<and> active_jobs (\<lambda>k. j_owner k = j_owner j') None db' \<le> uint (max_active_jobs_per_owner p)"
proof (cases "mutation_operation m = ''create''")
  case True
  then obtain r where r: "m = MCreate r" by (cases m) simp_all
  then obtain due_at policy_json pf' where
    "create_job_in_transaction x p r due_at policy_json pf' db = Inr db'"
    using m by (auto simp: apply_typed_mutation_def)
  then show ?thesis
  proof (cases rule: create_job_in_transactionE)
    case (1 policy)
    have rows: "db_jobs db' = db_jobs db @ [new_job r policy_json]" by (rule sql_insert_InrD(1) [OF 1(4)])
    have "j' = new_job r policy_json"
      using job_id_unique [OF tab' j'(1)] j'(2) r rows by (simp add: new_job_def)
    then show ?thesis
      using limits_after [OF 1(1) _ tab tab', of "create_job_id r"]
        active_jobs_others_append [OF rows, of "create_job_id r"]
      by (simp add: new_job_def)
  qed
next
  case False
  obtain j where j: "j \<in> set (db_jobs db)" "j_job_id j = mutation_job_id m"
      "status_after m (j_status j) = Some JobActive" "j_owner j' = j_owner j"
    using typed_swapped [OF m False tab] j' job_id_unique [OF tab'] unfolding swapped_def by metis
  show ?thesis
  proof (cases m)
    case (MUpdate r)
    then obtain policy_json pf' where "apply_update cal x p r policy_json pf' db = Inr db'"
      using m by (auto simp: apply_typed_mutation_def)
    then show ?thesis
    proof (cases rule: apply_updateE)
      case (1 k owner due_at n)
      note K = job_atD [OF 1(2)]
      have kj: "k = j" using job_id_unique [OF tab] K j MUpdate by simp
      then have "enforce_active_job_limits p (j_owner j) (Some (update_job_id r)) db = Inr ()"
        using 1(4) j(3) owner_from_row_owner [OF 1(3)] MUpdate
        by (auto simp: update_due_def split: if_splits)
      from limits_after [OF this _ tab tab', of "update_job_id r"] show ?thesis
        using active_jobs_others_update [OF 1(5), of "update_job_id r"] j(4)
        by (simp add: updated_job_def)
    qed
  next
    case (MResume job_id g t)
    then obtain policy_json pf' where "apply_resume cal x p job_id g t policy_json pf' db = Inr db'"
      using m by (auto simp: apply_typed_mutation_def)
    then show ?thesis
    proof (cases rule: apply_resumeE)
      case (1 k s schedule owner due_at i n)
      have "k \<in> set (db_jobs db)" "j_job_id k = job_id"
        using 1(1) by (auto simp: paused_schedule_def bind_eq_Some_conv dest!: job_atD)
      then have "k = j" using job_id_unique [OF tab] j MResume by simp
      then have "enforce_active_job_limits p (j_owner j) None db = Inr ()"
        using 1(5) owner_from_row_owner [OF 1(4)] by simp
      from limits_after [OF this _ tab tab', of job_id] show ?thesis
        using active_jobs_others_update [OF 1(7), of job_id] j(4) by simp
    qed
  qed (use j(3) False in \<open>auto split: if_splits\<close>)
qed

text \<open>
  C23: active jobs stay within their limits. Whenever a mutation under a policy leaves its job active,
  the store holds at most \<open>max_active_jobs\<close> active jobs, and at most \<open>max_active_jobs_per_owner\<close> of
  that job's owner.
\<close>

theorem activation_respects_limits:
  assumes "history cal x now db"
    and "apply_idempotent_schedule_mutation_with_audit cal x p m idem audit before db =
      (Inr (MApplied response), db')"
    and "j' \<in> set (db_jobs db')" and "j_job_id j' = mutation_job_id m" and "j_status j' = JobActive"
  shows "active_jobs (\<lambda>_. True) None db' \<le> uint (max_active_jobs p)
    \<and> active_jobs (\<lambda>k. j_owner k = j_owner j') None db' \<le> uint (max_active_jobs_per_owner p)"
  using assms(2)
proof (cases rule: idempotentE)
  case (applied pf db2 db3)
  have tab: "table_ok (job_check x) job_unique (db_jobs db)"
    using history_inv [OF assms(1)] by (simp add: sched_inv_def)
  have jobs': "db_jobs db' = db_jobs db2"
    using audit_frame(1) [OF applied(6)] completed_keys [OF applied(7)] by simp
  have "active_jobs sel e db' = active_jobs sel e db2" for sel e by (simp add: active_jobs_def jobs')
  moreover have "table_ok (job_check x) job_unique (db_jobs db2)"
    using typed_jobs_ok [OF applied(5)] tab by simp
  ultimately show ?thesis
    using typed_limits [OF applied(5)] tab assms(3-5) jobs' by simp
qed simp

theorem activation_respects_limits_witness:
  "active_jobs (\<lambda>_. True) None created_db \<le> uint (max_active_jobs default_policy)
    \<and> active_jobs (\<lambda>k. j_owner k = j_owner (new_job job_request ''[1]'')) None created_db
      \<le> uint (max_active_jobs_per_owner default_policy)"
proof (rule activation_respects_limits)
  show "history no_calendar job_ext 10 empty_db"
    by (rule h_start) (simp add: initial_db_def empty_db_def initial_store_def empty_store_def)
  show "apply_idempotent_schedule_mutation_with_audit no_calendar job_ext default_policy
      (MCreate job_request) (job_idem ''r1'') None empty_db empty_db =
    (Inr (MApplied ''[1]''), created_db)"
    by (rule sample_create)
qed (simp_all add: created_db_def new_job_def)

section \<open>Replay\<close>

lemma find_append_Some: "List.find P xs = Some y \<Longrightarrow> List.find P (xs @ ys) = Some y"
  by (induction xs) (auto split: if_splits)

lemma find_map_key: "(\<And>y. P (f y) = P y) \<Longrightarrow> List.find P (map f xs) = map_option f (List.find P xs)"
  by (induction xs) auto

definition done_key :: "string \<Rightarrow> string \<Rightarrow> idempotency_row \<Rightarrow> sched_db \<Rightarrow> bool" where
  "done_key scope key k db \<longleftrightarrow> key_row scope key db = Some k \<and> k_status k = KeyCompleted"

lemma done_key_same: "db_keys db' = db_keys db \<Longrightarrow> done_key scope key k db' = done_key scope key k db"
  by (simp add: done_key_def key_row_def)

lemma idempotent_keys:
  assumes "apply_idempotent_schedule_mutation_with_audit cal x p m idem audit before db =
      (Inr (MApplied response), db')"
  shows "done_key (canonical_idempotency_scope x (idem_principal idem) (mutation_operation m))
      (idem_request_id idem) (completed_key x m idem) db'"
    and "response = idem_response_json idem"
    and "done_key scope key k db \<Longrightarrow> done_key scope key k db'"
proof -
  let ?c = "claimed_key x m idem"
  let ?f = "\<lambda>k. if completes ?c k then k \<lparr>k_status := KeyCompleted,
      k_response_json := Some (idem_response_json idem)\<rparr> else k"
  have "db_keys db' = map ?f (db_keys db @ [?c])
      \<and> key_row (k_scope ?c) (k_key ?c) db = None \<and> response = idem_response_json idem"
    using assms
  proof (cases rule: idempotentE)
    case (applied pf db2 db3)
    then show ?thesis
      using completed_keys [OF applied(7)] audit_frame(3) [OF applied(6)] typed_keys [OF applied(5)]
      by simp
  qed simp
  then have keys: "db_keys db' = map ?f (db_keys db @ [?c])"
    and fresh: "key_row (k_scope ?c) (k_key ?c) db = None"
    and "response = idem_response_json idem" by blast+
  then show "response = idem_response_json idem" by simp
  have row: "key_row scope key db' = map_option ?f (List.find (\<lambda>k. k_scope k = scope \<and> k_key k = key)
      (db_keys db @ [?c]))" for scope key
    unfolding key_row_def keys by (rule find_map_key) simp
  show "done_key (canonical_idempotency_scope x (idem_principal idem) (mutation_operation m))
      (idem_request_id idem) (completed_key x m idem) db'"
    using fresh unfolding done_key_def row
    by (simp add: key_row_def find_append_None completed_key_def claimed_key_def completes_def)
  show "done_key scope key k db'" if "done_key scope key k db"
    using that unfolding done_key_def row
    by (auto simp: key_row_def find_append_Some completes_def)
qed

lemma effect_keys: "job_effect cal x now db db' \<Longrightarrow> db_keys db' = db_keys db"
  by (erule job_effect.cases)
    (auto elim: create_job_in_transactionE apply_updateE apply_inactiveE apply_resumeE)

lemma job_step_keys:
  assumes "job_step cal x now db db'" and "done_key scope key k db"
  shows "done_key scope key k db'"
  using assms(1)
proof (cases rule: job_step.cases)
  case (js_create r p)
  then have "db_keys db' = db_keys db"
    by (auto simp: create_scheduled_job_def commit_def dest!: effect_keys [OF eff_create [OF refl]]
        split: sum.splits)
  then show ?thesis using assms(2) done_key_same by blast
next
  case (js_update r p)
  then have "db_keys db' = db_keys db"
    by (auto simp: update_scheduled_job_def commit_def dest!: effect_keys [OF eff_update [OF refl]]
        split: sum.splits)
  then show ?thesis using assms(2) done_key_same by blast
next
  case (js_pause job_id g)
  then have "db_keys db' = db_keys db"
    by (auto simp: pause_scheduled_job_def set_job_inactive_def commit_def elim: apply_inactiveE
        split: sum.splits)
  then show ?thesis using assms(2) done_key_same by blast
next
  case (js_delete job_id g)
  then have "db_keys db' = db_keys db"
    by (auto simp: delete_scheduled_job_def set_job_inactive_def commit_def elim: apply_inactiveE
        split: sum.splits)
  then show ?thesis using assms(2) done_key_same by blast
next
  case (js_resume p job_id g before)
  then have "db_keys db' = db_keys db"
    by (auto simp: resume_scheduled_job_def commit_def elim: apply_resumeE split: sum.splits)
  then show ?thesis using assms(2) done_key_same by blast
next
  case (js_mutation m p idem audit before)
  obtain v where v: "apply_idempotent_schedule_mutation_with_audit cal x p m idem audit before db = (v, db')"
    using js_mutation(1) by (metis prod.collapse)
  then show ?thesis
  proof (cases rule: idempotentE)
    case unchanged
    then show ?thesis using assms(2) by simp
  next
    case (applied pf db2 db3)
    then show ?thesis using idempotent_keys(3) assms(2) v by blast
  qed
next
  case (js_audit a)
  then have "db_keys db' = db_keys db"
    by (auto simp: append_schedule_audit_def commit_def insert_mutation_audit_def count_runs_def
        split: sum.splits)
  then show ?thesis using assms(2) done_key_same by blast
next
  case (js_baseline u)
  then have "db_keys db' = db_keys db"
    by (auto simp: compare_and_swap_execution_baseline_def commit_def count_runs_def
        compare_and_swap_execution_baseline_in_transaction_def split: sum.splits if_splits)
  then show ?thesis using assms(2) done_key_same by blast
next
  case (js_materialize job_id g admission env)
  obtain v where "materialize_due_schedule_inner cal x job_id g now admission env db = (v, db')"
    using js_materialize by (metis prod.collapse)
  then have "db_keys db' = db_keys db"
  proof (cases rule: materializeE)
    case (created j s due_at w run runs)
    from created(4) show ?thesis by (cases rule: advance_scheduleE) simp_all
  qed simp_all
  then show ?thesis using assms(2) done_key_same by blast
next
  case (js_run s)
  then show ?thesis using assms(2) by (simp add: done_key_def key_row_def)
qed

definition later_db :: "('tz, 'cron) calendar \<Rightarrow> ext \<Rightarrow> sched_db \<Rightarrow> sched_db \<Rightarrow> bool" where
  "later_db cal x = (\<lambda>db db'. \<exists>now. job_step cal x now db db')\<^sup>*\<^sup>*"

lemma later_keys: "later_db cal x db db' \<Longrightarrow> done_key scope key k db \<Longrightarrow> done_key scope key k db'"
  unfolding later_db_def by (induction rule: rtranclp_induct) (auto intro: job_step_keys)

text \<open>
  C17: an applied mutation is applied once. After it, and after any further operations on the store, the
  same principal repeating the request id for the same operation gets the recorded response when
  algorithm and digest of the request agree and a conflict when they do not, provided the repeated
  request still passes its validation; the store does not change.
\<close>

theorem applied_mutation_replays:
  assumes "apply_idempotent_schedule_mutation_with_audit cal x p m idem audit before db =
      (Inr (MApplied response), db1)"
    and "later_db cal x db1 db2"
    and "idem_principal idem2 = idem_principal idem" and "mutation_operation m2 = mutation_operation m"
    and "idem_request_id idem2 = idem_request_id idem"
    and "validate_mutation_idempotency x m2 idem2 = Inr ()"
    and "case audit2 of None \<Rightarrow> True | Some a \<Rightarrow> validate_mutation_audit m2 idem2 a = Inr ()"
    and "prevalidate_schedule_mutation cal x p2 m2 before2 = Inr pf"
  shows "apply_idempotent_schedule_mutation_with_audit cal x p2 m2 idem2 audit2 before2 db2 =
    (Inr (if idem_request_digest idem2 = idem_request_digest idem
            \<and> idem_digest_algorithm idem2 = idem_digest_algorithm idem
          then MReplay response else MConflict), db2)"
proof -
  let ?scope = "canonical_idempotency_scope x (idem_principal idem) (mutation_operation m)"
  note D = later_keys [OF assms(2) idempotent_keys(1) [OF assms(1)], unfolded done_key_def]
  have check: "key_check (claimed_key x m2 idem2)"
    using assms(1)
  proof (cases rule: idempotentE)
    case (applied pf db2 db3)
    then show ?thesis using assms(3-5) by (simp add: key_check_def claimed_key_def)
  qed simp
  have "read_idempotency_decision ?scope (idem_request_id idem) (idem_digest_algorithm idem2)
      (idem_request_digest idem2) db2 =
    Inr (if idem_request_digest idem2 = idem_request_digest idem
            \<and> idem_digest_algorithm idem2 = idem_digest_algorithm idem
          then DReplay response else DConflict)"
    using D idempotent_keys(2) [OF assms(1)]
    by (auto simp: read_idempotency_decision_def completed_key_def claimed_key_def)
  then have "claim_idempotency_in_transaction x (idem_principal idem2) (mutation_operation m2)
      (idem_request_id idem2) (idem_digest_algorithm idem2) (idem_request_digest idem2) db2 =
    Inr (db2, if idem_request_digest idem2 = idem_request_digest idem
            \<and> idem_digest_algorithm idem2 = idem_digest_algorithm idem
          then DReplay response else DConflict)"
    using D check assms(3-5) unfolding claim_idempotency_Inr Let_def by (simp add: claimed_key_def)
  then show ?thesis
    using assms(6-8) unfolding apply_idempotent_schedule_mutation_with_audit_def
    by (simp split: option.splits)
qed

theorem applied_mutation_replays_witness:
  "apply_idempotent_schedule_mutation_with_audit no_calendar job_ext default_policy (MCreate job_request)
     (job_idem ''r1'') None empty_db paused_db = (Inr (MReplay ''[1]''), paused_db)"
proof -
  have "job_step no_calendar job_ext 20 created_db paused_db"
    using js_mutation [of "MPause ''job'' 0 20" 20 no_calendar job_ext created_db default_policy
        "job_idem ''w''" None created_db] sample_pause [of no_calendar created_db] by simp
  then have "later_db no_calendar job_ext created_db paused_db"
    unfolding later_db_def by blast
  from applied_mutation_replays [OF sample_create this, of "job_idem ''r1''" "MCreate job_request" None
      default_policy empty_db "Some job_proof"]
  show ?thesis by (simp add: prevalidate_schedule_mutation_def)
qed

text \<open>
  C38: a repeated resume is refused instead of replayed. The prevalidation of a resume looks for the
  paused job at the expected generation before the idempotency key is read; the applied resume has
  moved the generation, so the same request, repeated at once, ends in a generation conflict.
\<close>

theorem resume_replay_is_refused:
  assumes "history cal x past db"
    and "apply_idempotent_schedule_mutation_with_audit cal x p (MResume job_id g now) idem audit before db =
      (Inr (MApplied response), db1)"
  shows "apply_idempotent_schedule_mutation_with_audit cal x p (MResume job_id g now) idem audit db1 db1 =
    (Inl SchedulerGenerationConflict, db1)"
proof -
  let ?m = "MResume job_id g now"
  have tab: "table_ok (job_check x) job_unique (db_jobs db)"
    using history_inv [OF assms(1)] by (simp add: sched_inv_def)
  have "swapped ?m (db_jobs db) (db_jobs db1) \<and> table_ok (job_check x) job_unique (db_jobs db1)"
    using assms(2)
  proof (cases rule: idempotentE)
    case (applied pf db2 db3)
    have eq: "db_jobs db1 = db_jobs db2"
      using audit_frame(1) [OF applied(6)] completed_keys [OF applied(7)] by simp
    show ?thesis
      using typed_swapped [OF applied(5)] typed_jobs_ok [OF applied(5)] tab by (simp add: eq)
  qed simp
  then obtain j' where j': "j' \<in> set (db_jobs db1)" "j_job_id j' = job_id" "j_generation j' = g + 1"
    and tab1: "table_ok (job_check x) job_unique (db_jobs db1)"
    by (auto simp: swapped_def)
  have "paused_schedule job_id g db1 = None"
  proof (cases "job_at job_id g [JobPaused] db1")
    case (Some k)
    from job_atD [OF this] show ?thesis using job_id_unique [OF tab1 j'(1), of k] j' by auto
  qed (simp add: paused_schedule_def)
  then have "validate_resume_cadence cal x p job_id g now db1 = Inl SchedulerGenerationConflict"
    by (simp add: validate_resume_cadence_def)
  moreover have "validate_mutation_idempotency x ?m idem = Inr ()"
    "(case audit of None \<Rightarrow> Inr () | Some a \<Rightarrow> validate_mutation_audit ?m idem a) = Inr ()"
    "validate_lifecycle_mutation job_id g = Inr ()"
    using assms(2) unfolding apply_idempotent_schedule_mutation_with_audit_def commit_Inr
    by (auto simp: prevalidate_schedule_mutation_def)
  ultimately show ?thesis
    unfolding apply_idempotent_schedule_mutation_with_audit_def
    by (simp add: prevalidate_schedule_mutation_def)
qed

theorem resume_replay_is_refused_witness:
  "apply_idempotent_schedule_mutation_with_audit no_calendar job_ext default_policy (MResume ''job'' 1 30)
     (job_idem ''v'') None resumed_db resumed_db = (Inl SchedulerGenerationConflict, resumed_db)"
  by (rule resume_replay_is_refused [OF paused_history sample_resume])

section \<open>Reading back\<close>

definition job_of_request :: "create_request \<Rightarrow> i64 \<Rightarrow> scheduled_job" where
  "job_of_request r due_at = \<lparr>sj_job_id = create_job_id r, sj_definition = create_definition r,
     sj_creator = create_creator r, sj_owner = create_owner r, sj_capability = create_capability r,
     sj_status = JobActive, sj_generation = 0, sj_schedule_id = create_schedule_id r,
     sj_schedule_generation = 0, sj_schedule = create_schedule r, sj_next_run_at = Some due_at\<rparr>"

lemma positive_u32_uint: "v \<noteq> 0 \<Longrightarrow> positive_u32 (uint (v :: u32)) = Inr v"
  using uint_bounded [of v] uint_nonnegative [of v]
  by (auto simp: positive_u32_def u32_max_def order.strict_iff_order uint_0_iff)

lemma principal_rebuilt:
  "principal_validate p = Inr u \<Longrightarrow> principal_new (principal_kind p) (principal_provider p)
     (principal_tenant p) (principal_subject p) = Inr p"
  by (simp add: principal_validate_def principal_new_def Let_def)

lemma validated_snapshot:
  "validate_canonical_snapshot x v f t = Inr u \<longleftrightarrow> canonicalize_snapshot x v f t = Inr t"
  "canonicalize_snapshot x v f t = Inr t' \<Longrightarrow> v \<noteq> 0"
  by (auto simp: validate_canonical_snapshot_def canonicalize_snapshot_def split: if_splits)

lemma is_ok_unit: "is_ok c \<longleftrightarrow> c = Inr ()"
  by (cases c) simp_all

lemma create_validated:
  assumes "validate_create_request cal x r p c = Inr due_at"
  shows "first_after_create cal (create_schedule r) (create_now r) = Inr due_at"
    and "validate_text ''job id'' (create_job_id r) = Inr ()"
    and "principal_validate (create_creator r) = Inr ()" and "principal_validate (create_owner r) = Inr ()"
    and "job_definition_validate x (create_definition r) = Inr ()"
    and "capability_snapshot_validate x (create_capability r) = Inr ()"
  using assms by (simp_all add: validate_create_request_def check_all_eq_Inr is_ok_unit)

lemma created_row_reads:
  assumes "validate_create_request cal x r p False = Inr due_at"
    and "from_storage cal (storage_parts (create_schedule r)) = Inr (create_schedule r)"
  shows "scheduled_job_from_row cal x (new_job r policy_json) (new_schedule r due_at pf) =
    Inr (job_of_request r due_at)"
proof -
  note V = create_validated [OF assms(1)]
  from V(3-6) show ?thesis
    using assms(2) validated_snapshot(2)
    by (auto simp: scheduled_job_from_row_def new_job_def new_schedule_def job_of_request_def
        job_definition_validate_def capability_snapshot_validate_def validated_snapshot(1)
        positive_u32_uint job_definition_new_def capability_snapshot_new_def owner_from_row_def
        principal_rebuilt)
qed

lemma find_appended:
  "distinct (map k (xs @ [y])) \<Longrightarrow> List.find (\<lambda>z. k z = k y \<and> Q z) (xs @ [y]) = (if Q y then Some y else None)"
  by (induction xs) auto

text \<open>
  C28: a created job reads back as requested, to its owner only. After a create mutation the job read by
  its id is the request itself, active at generation zero with the first occurrence due; read by owner,
  the request's owner sees that job and every other valid principal sees nothing.
\<close>

theorem created_job_is_readable:
  assumes "apply_idempotent_schedule_mutation_with_audit cal x p (MCreate r) idem audit before db =
      (Inr (MApplied response), db')"
    and "constructed cal (create_schedule r)" and "canonical_names_resolve cal"
  shows "\<exists>due_at. first_after_create cal (create_schedule r) (create_now r) = Inr due_at
    \<and> get_scheduled_job cal x (create_job_id r) db' = Inr (Some (job_of_request r due_at))
    \<and> (\<forall>owner. principal_validate owner = Inr () \<longrightarrow>
         get_scheduled_job_by_owner cal x owner (create_job_id r) db' =
           Inr (if owner = create_owner r then Some (job_of_request r due_at) else None))"
  using assms(1)
proof (cases rule: idempotentE)
  case (applied pf db2 db3)
  then obtain due_at policy_json pf' where
    v: "validate_create_request cal x r p False = Inr due_at"
    and c: "create_job_in_transaction x p r due_at policy_json pf'
      (db \<lparr>db_keys := db_keys db @ [claimed_key x (MCreate r) idem]\<rparr>) = Inr db2"
    by (auto simp: apply_typed_mutation_def)
  note V = create_validated [OF v]
  note reads = created_row_reads [OF v schedule_storage_roundtrip [OF assms(2,3)]]
  have tabs: "db_jobs db' = db_jobs db2" "db_schedules db' = db_schedules db2"
    using audit_frame(1,2) [OF applied(6)] completed_keys [OF applied(7)] by simp_all
  from c have "joined_job sel (create_job_id r) db' =
      (if sel (new_job r policy_json) then Some (new_job r policy_json, new_schedule r due_at pf') else None)" for sel
  proof (cases rule: create_job_in_transactionE)
    case (1 policy)
    note J = sql_insert_InrD [OF 1(4)] and S = sql_insert_InrD [OF 1(5)]
    show ?thesis
      using find_appended [of j_job_id "db_jobs db" "new_job r policy_json" sel]
        find_appended [of s_job_id "db_schedules db" "new_schedule r due_at pf'" "\<lambda>_. True"] J S
      by (simp add: joined_job_def schedule_of_def tabs job_unique_def schedule_unique_def new_job_def
          new_schedule_def)
  qed
  then show ?thesis
    using reads V(1,2)
    by (auto simp: get_scheduled_job_def get_scheduled_job_by_owner_def read_job_def check_all.simps
        new_job_def)
qed simp

theorem created_job_is_readable_witness:
  "get_scheduled_job no_calendar job_ext ''job'' created_db = Inr (Some (job_of_request job_request 3600))"
proof -
  have "constructed no_calendar (create_schedule job_request)"
    by (rule constructed_interval [of 0 3600]) (simp add: fixed_interval_def)
  moreover have "canonical_names_resolve no_calendar"
    by (simp add: canonical_names_resolve_def no_calendar_def)
  ultimately show ?thesis
    using created_job_is_readable [OF sample_create, of no_calendar] by (simp add: first_after_create_def)
qed

end
