(* ===== verification/Delivery_Value.thy ===== *)
theory Delivery_Value
  imports Materialization
begin

text \<open>
  The values of \<^verbatim>\<open>crates/state/src/scheduler/delivery.rs\<close> and the pure helpers the delivery
  operations of \<^verbatim>\<open>crates/state/src/scheduler/store.rs\<close> share: delivery states, frozen payloads,
  fenced bindings, readiness authorities, failure classifications, the identity of an accepted
  baseline, and the natural key of a delivery intent, which separates runs and destinations.
\<close>

definition DELIVERY_PAYLOAD_SCHEMA_VERSION :: u32 where "DELIVERY_PAYLOAD_SCHEMA_VERSION = 1"
definition DELIVERY_PAYLOAD_HASH_ALGORITHM :: string where
  "DELIVERY_PAYLOAD_HASH_ALGORITHM = ''sha256-utf8-exact-v1''"
definition DELIVERY_POLICY_VERSION_V1 :: i64 where "DELIVERY_POLICY_VERSION_V1 = 1"
definition MAX_DELIVERY_INTENT_RUN_ID_BYTES :: nat where "MAX_DELIVERY_INTENT_RUN_ID_BYTES = 1050"
definition MAX_DELIVERY_INTENT_KEY_BYTES :: nat where
  "MAX_DELIVERY_INTENT_KEY_BYTES = 70 + MAX_DELIVERY_INTENT_RUN_ID_BYTES * 2"
definition MAX_DELIVERY_INTENT_ID_BYTES :: nat where
  "MAX_DELIVERY_INTENT_ID_BYTES = length ''intent:'' + MAX_DELIVERY_INTENT_KEY_BYTES"
definition MAX_DELIVERY_ERROR_MESSAGE_BYTES :: nat where
  "MAX_DELIVERY_ERROR_MESSAGE_BYTES = 4 * 1024"
definition READINESS_REJECTION_MESSAGE :: string where
  "READINESS_REJECTION_MESSAGE = ''provider rejected exact delivery target during readiness''"

section \<open>Delivery states\<close>

datatype delivery_state =
    DPending | DSending | DDelivered | DFailedRetryable | DFailedTerminal | DDeliveryUnknown
  | DSkippedNone | DSkippedUnchanged

fun delivery_state_as_str :: "delivery_state \<Rightarrow> string" where
  "delivery_state_as_str DPending = ''pending''"
| "delivery_state_as_str DSending = ''sending''"
| "delivery_state_as_str DDelivered = ''delivered''"
| "delivery_state_as_str DFailedRetryable = ''failed_retryable''"
| "delivery_state_as_str DFailedTerminal = ''failed_terminal''"
| "delivery_state_as_str DDeliveryUnknown = ''delivery_unknown''"
| "delivery_state_as_str DSkippedNone = ''skipped_none''"
| "delivery_state_as_str DSkippedUnchanged = ''skipped_unchanged''"

definition delivery_state_from_str :: "string \<Rightarrow> state_error + delivery_state" where
  "delivery_state_from_str value =
     (if value = ''pending'' then Inr DPending
      else if value = ''sending'' then Inr DSending
      else if value = ''delivered'' then Inr DDelivered
      else if value = ''failed_retryable'' then Inr DFailedRetryable
      else if value = ''failed_terminal'' then Inr DFailedTerminal
      else if value = ''delivery_unknown'' then Inr DDeliveryUnknown
      else if value = ''skipped_none'' then Inr DSkippedNone
      else if value = ''skipped_unchanged'' then Inr DSkippedUnchanged
      else Inl (InvalidSchedulerState (''invalid delivery state '' @ value)))"

interpretation delivery_state_enum: string_enum delivery_state_as_str delivery_state_from_str
proof
  show "delivery_state_from_str (delivery_state_as_str x) = Inr x" for x
    by (cases x) (simp_all add: delivery_state_from_str_def)
  show "delivery_state_from_str s = Inr x \<Longrightarrow> delivery_state_as_str x = s" for s x
    by (auto simp: delivery_state_from_str_def split: if_splits)
qed

datatype delivery_reconcile_outcome =
    DeliveryApplied string i64 i64
  | DeliveryStale
  | DeliveryNotEligible

section \<open>Payloads\<close>

record payload_snapshot =
  ps_schema_version :: u32
  ps_delivery_id :: string
  ps_run_id :: string
  ps_result_id :: string
  ps_content_type :: string
  ps_body :: string
  ps_digest :: string
  ps_target_identity_digest :: string
  ps_target_snapshot_digest :: string
  ps_target_snapshot_version :: u32
  ps_delivery_policy_version :: u32
  ps_render_version :: u32
  ps_created_at :: i64

definition payload_snapshot_validate :: "payload_snapshot \<Rightarrow> state_value_error + unit" where
  "payload_snapshot_validate p =
     rbind (check_all [
       validate_text ''delivery id'' (ps_delivery_id p),
       validate_text ''delivery run id'' (ps_run_id p),
       validate_text ''delivery result id'' (ps_result_id p),
       validate_text ''delivery content type'' (ps_content_type p),
       validate_lowercase_sha256 ''delivery payload digest'' (ps_digest p),
       validate_lowercase_sha256 ''delivery target identity digest'' (ps_target_identity_digest p),
       validate_lowercase_sha256 ''delivery target snapshot digest'' (ps_target_snapshot_digest p)])
       (\<lambda>_.
     if ps_schema_version p = 0 \<or> ps_target_snapshot_version p = 0
        \<or> ps_delivery_policy_version p = 0 \<or> ps_render_version p = 0 \<or> ps_created_at p < 0
     then Inl InvalidVersion else Inr ())"

definition payload_from_durable_parts ::
  "string \<Rightarrow> string \<Rightarrow> string \<Rightarrow> string \<Rightarrow> string \<Rightarrow> string \<Rightarrow> string \<Rightarrow> string \<Rightarrow> u32 \<Rightarrow> u32 \<Rightarrow> u32 \<Rightarrow> i64
     \<Rightarrow> state_value_error + payload_snapshot" where
  "payload_from_durable_parts delivery_id run_id result_id content_type body digest identity_digest
     snapshot_digest snapshot_version policy_version render_version created_at =
     (let value = \<lparr>ps_schema_version = DELIVERY_PAYLOAD_SCHEMA_VERSION,
            ps_delivery_id = delivery_id, ps_run_id = run_id, ps_result_id = result_id,
            ps_content_type = content_type, ps_body = body, ps_digest = digest,
            ps_target_identity_digest = identity_digest,
            ps_target_snapshot_digest = snapshot_digest,
            ps_target_snapshot_version = snapshot_version,
            ps_delivery_policy_version = policy_version, ps_render_version = render_version,
            ps_created_at = created_at\<rparr>
      in rbind (payload_snapshot_validate value) (\<lambda>_. Inr value))"

record delivery_binding =
  dlb_delivery_id :: string
  dlb_attempt :: i64
  dlb_fence :: i64
  dlb_lease_owner :: string
  dlb_idempotency_key :: string

record claimed_delivery =
  cd_binding :: delivery_binding
  cd_payload :: payload_snapshot
  cd_target_json :: string
  cd_scheduler_policy :: policy

record delivery_authority =
  da_delivery_id :: string
  da_source_state :: delivery_state
  da_target_json :: string
  da_target_digest :: string
  da_payload_digest :: string
  da_binding_digest :: string
  da_intent_key :: string
  da_payload_created_at :: i64
  da_scheduler_policy :: policy

datatype delivery_work =
    WorkIdle
  | WorkSkipUnchanged delivery_authority
  | WorkProviderRequired delivery_authority

datatype skipped_none_policy = DoNotAdvance | AcceptBaseline

datatype prepared_delivery =
    PreparedPending payload_snapshot
  | PreparedSkippedNone payload_snapshot
  | PreparedSkippedUnchanged payload_snapshot

datatype delivery_failure =
    ConfirmedNoWriteRetryable string "string option" i64
  | ConfirmedNoWriteTerminal string "string option"
  | AmbiguousPostWrite string "string option"

record accepted_baseline_identity =
  bi_job_id :: string
  bi_target_identity_digest :: string
  bi_target_snapshot_digest_algorithm :: string
  bi_target_snapshot_digest :: string
  bi_delivery_policy_version :: i64
  bi_render_version :: i64
  bi_hash_algorithm :: string

definition baseline_identity_validate :: "accepted_baseline_identity \<Rightarrow> state_value_error + unit" where
  "baseline_identity_validate i =
     rbind (check_all [
       validate_text ''job id'' (bi_job_id i),
       validate_lowercase_sha256 ''delivery target identity digest'' (bi_target_identity_digest i),
       validate_lowercase_sha256 ''delivery target snapshot digest''
         (bi_target_snapshot_digest i)]) (\<lambda>_.
     if bi_target_snapshot_digest_algorithm i \<noteq> ''sha256-v1''
     then Inl (InvalidSha256 ''delivery target snapshot digest algorithm'')
     else if bi_delivery_policy_version i \<le> 0 \<or> bi_render_version i \<le> 0 then Inl InvalidVersion
     else if bi_hash_algorithm i \<noteq> DELIVERY_PAYLOAD_HASH_ALGORITHM
     then Inl (InvalidSha256 ''delivery hash algorithm'')
     else Inr ())"

record accepted_baseline =
  ab_accepted_payload_digest :: string
  ab_source_delivery_id :: string
  ab_source_run_id :: string
  ab_source_result_id :: "string option"
  ab_source_result_hash :: string
  ab_accepted_at :: i64
  ab_baseline_version :: i64

section \<open>Intents\<close>

definition delivery_intent_key :: "string \<Rightarrow> string \<Rightarrow> state_error + string" where
  "delivery_intent_key run_id identity_digest =
     (if run_id = [] \<or> length run_id > MAX_DELIVERY_INTENT_RUN_ID_BYTES
      then Inl (InvalidSchedulerState
        ''scheduled delivery intent run id exceeds its dedicated bound'')
      else if length identity_digest \<noteq> 64 \<or> \<not> list_all is_hex_lower identity_digest
      then Inl (InvalidSchedulerState
        ''scheduled delivery intent target identity must be lowercase sha256'')
      else Inr (''v1:'' @ encode_sha256 run_id @ '':'' @ identity_digest @ '':1''))"

record delivery_intent_target =
  dit_identity_digest :: string
  dit_canonical_json :: string
  dit_snapshot_digest :: string

definition required_target_fields :: "string list" where
  "required_target_fields =
     [''provider'', ''connector'', ''tenant'', ''kind'', ''resolver_digest'', ''identity_digest'']"

definition intent_target :: "ext \<Rightarrow> string list \<Rightarrow> json \<Rightarrow> state_error + delivery_intent_target" where
  "intent_target x identities target =
     rbind (ok_or (InvalidSchedulerState ''materialized delivery target must be an object'')
       (as_object target)) (\<lambda>m.
     rbind (check_all (map (\<lambda>field.
         rbind (ok_or (InvalidSchedulerState (''materialized delivery target has no '' @ field))
           (Option.bind (map_of m field) as_str)) (\<lambda>value.
         map_err invalid_value (validate_text ''materialized delivery target field'' value)))
       required_target_fields)) (\<lambda>_.
     if (case Option.bind (map_of m ''resolver_version'') as_u64 of
           None \<Rightarrow> True | Some v \<Rightarrow> v = 0 \<or> v > u32_max)
        \<or> map_of m ''address'' = None
     then Inl (InvalidSchedulerState
       ''materialized delivery target has an invalid resolver snapshot'')
     else rbind (ok_or (InvalidSchedulerState ''materialized delivery target has no identity_digest'')
         (Option.bind (map_of m ''identity_digest'') as_str)) (\<lambda>identity_digest.
     if identity_digest \<in> set identities
     then Inl (InvalidSchedulerState ''materialized delivery target identities must be unique'')
     else Inr \<lparr>dit_identity_digest = identity_digest, dit_canonical_json = json_print x target,
            dit_snapshot_digest = sha256_hex x (json_print x target)\<rparr>)))"

fun intent_targets ::
  "ext \<Rightarrow> string list \<Rightarrow> json list \<Rightarrow> state_error + delivery_intent_target list" where
  "intent_targets x identities [] = Inr []"
| "intent_targets x identities (t # ts) =
     rbind (intent_target x identities t) (\<lambda>p.
     rbind (intent_targets x (dit_identity_digest p # identities) ts) (\<lambda>ps. Inr (p # ps)))"

text \<open>The wording of serde's error for a snapshot that is not an array is not modelled.\<close>

definition delivery_intent_targets ::
  "ext \<Rightarrow> string \<Rightarrow> state_error + delivery_intent_target list" where
  "delivery_intent_targets x targets_json =
     rbind (map_err invalid_json (rbind (json_parse x targets_json) (\<lambda>v.
       ok_or ''expected a sequence'' (as_array v)))) (\<lambda>targets.
     if targets = [] \<or> length targets > MAX_DELIVERY_TARGETS
     then Inl (InvalidSchedulerState
       ''materialized delivery targets must contain 1..=32 entries'')
     else if json_print x (JArr targets) \<noteq> targets_json
     then Inl (InvalidSchedulerState
       ''materialized delivery targets must use canonical JSON encoding'')
     else intent_targets x [] targets)"

definition validate_delivery_intent_target_snapshot ::
  "ext \<Rightarrow> string \<Rightarrow> string \<Rightarrow> string \<Rightarrow> string \<Rightarrow> state_error + unit" where
  "validate_delivery_intent_target_snapshot x target_json identity_digest digest_algorithm
     snapshot_digest =
     (if digest_algorithm \<noteq> ''sha256-v1''
      then Inl (InvalidSchedulerState
        ''scheduled delivery intent has an unsupported target snapshot digest algorithm'')
      else rbind (map_err invalid_json (json_parse x target_json)) (\<lambda>target.
      if json_print x target \<noteq> target_json
         \<or> Option.bind (Option.bind (as_object target) (\<lambda>m. map_of m ''identity_digest'')) as_str
           \<noteq> Some identity_digest
      then Inl (InvalidSchedulerState
        ''scheduled delivery intent target snapshot identity is invalid'')
      else if sha256_hex x target_json \<noteq> snapshot_digest
      then Inl (InvalidSchedulerState
        ''scheduled delivery intent target snapshot digest mismatch'')
      else Inr ()))"

section \<open>Guards of the operations\<close>

definition validate_delivery_preparation ::
  "string \<Rightarrow> string \<Rightarrow> string \<Rightarrow> u32 \<Rightarrow> i64 \<Rightarrow> state_error + unit" where
  "validate_delivery_preparation delivery_id content_type body render_version now =
     rbind (map_err invalid_value (check_all [
       validate_text ''scheduled delivery id'' delivery_id,
       validate_text ''scheduled delivery content type'' content_type])) (\<lambda>_.
     if body = [] \<or> length body > MAX_SNAPSHOT_BYTES \<or> render_version = 0 \<or> now < 0
     then Inl (InvalidSchedulerState ''invalid scheduled delivery payload preparation'')
     else Inr ())"

definition delivery_target_metadata :: "ext \<Rightarrow> string \<Rightarrow> state_error + (bool \<times> u32)" where
  "delivery_target_metadata x target_json =
     rbind (map_err invalid_json (json_parse x target_json)) (\<lambda>target.
     rbind (ok_or (InvalidSchedulerState ''scheduled delivery target has no kind'')
       (Option.bind (value_get target ''kind'') as_str)) (\<lambda>kind.
     rbind (case Option.bind (value_get target ''resolver_version'') as_i64 of
              None \<Rightarrow> Inl (InvalidSchedulerState
                ''scheduled delivery target has no resolver version'')
            | Some v \<Rightarrow> positive_u32 v) (\<lambda>version.
     Inr (kind = ''none'', version))))"

definition delivery_body_from_result_json :: "ext \<Rightarrow> string \<Rightarrow> state_error + string" where
  "delivery_body_from_result_json x result_json =
     rbind (map_err invalid_json (json_parse x result_json)) (\<lambda>result.
     case result of
       JObj m \<Rightarrow>
         if length m \<noteq> 2 \<or> Option.bind (map_of m ''schema_version'') as_u64 \<noteq> Some 1
         then Inl (InvalidSchedulerState
           ''scheduled result artifact has an unsupported schema'')
         else (case map_of m ''summary'' of
                 Some (JStr body) \<Rightarrow>
                   rbind (map_err invalid_value (validate_text ''scheduled result summary'' body))
                     (\<lambda>_. Inr body)
               | _ \<Rightarrow> Inl (InvalidSchedulerState ''scheduled result artifact has no summary''))
     | _ \<Rightarrow> Inl (InvalidSchedulerState ''scheduled result artifact is not an object''))"

definition validate_delivery_binding :: "delivery_binding \<Rightarrow> state_error + unit" where
  "validate_delivery_binding b =
     rbind (map_err invalid_value (check_all [
       validate_text ''scheduled delivery id'' (dlb_delivery_id b),
       validate_text ''scheduled delivery lease owner'' (dlb_lease_owner b),
       validate_text ''scheduled delivery idempotency key'' (dlb_idempotency_key b)])) (\<lambda>_.
     if dlb_attempt b \<le> 0 \<or> dlb_fence b \<le> 0
     then Inl (InvalidSchedulerState ''invalid scheduled delivery binding counters'')
     else Inr ())"

definition validate_delivery_error :: "string \<Rightarrow> string option \<Rightarrow> state_error + unit" where
  "validate_delivery_error error_kind message =
     rbind (map_err invalid_value (validate_text ''scheduled delivery error kind'' error_kind)) (\<lambda>_.
     if (case message of None \<Rightarrow> False | Some m \<Rightarrow> length m > MAX_DELIVERY_ERROR_MESSAGE_BYTES)
     then Inl (InvalidSchedulerState
       ''scheduled delivery error message exceeds its storage bound'')
     else Inr ())"

definition validate_scheduled_delivery_authority ::
  "ext \<Rightarrow> delivery_authority \<Rightarrow> state_error + unit" where
  "validate_scheduled_delivery_authority x a =
     rbind (map_err invalid_value
       (validate_text ''scheduled delivery authority id'' (da_delivery_id a))) (\<lambda>_.
     if da_source_state a \<notin> set [DPending, DFailedRetryable]
        \<or> sha256_hex x (da_intent_key a) \<noteq> da_binding_digest a
     then Inl (InvalidSchedulerState ''scheduled delivery readiness authority is invalid'')
     else if da_payload_created_at a < 0 \<or> \<not> is_ok (validate_policy (da_scheduler_policy a))
     then Inl (InvalidSchedulerState ''scheduled delivery readiness policy authority is invalid'')
     else map_err invalid_value (check_all [
       validate_lowercase_sha256 ''scheduled delivery readiness target digest''
         (da_target_digest a),
       validate_lowercase_sha256 ''scheduled delivery readiness payload digest''
         (da_payload_digest a)]))"

definition execution_baseline_version :: "ext \<Rightarrow> string \<Rightarrow> state_error + i64" where
  "execution_baseline_version x snapshot_json =
     rbind (map_err invalid_json (json_parse x snapshot_json)) (\<lambda>snapshot.
     if json_print x snapshot \<noteq> snapshot_json
     then Inl (InvalidSchedulerState
       ''materialized execution baseline must use canonical JSON encoding'')
     else ok_or (InvalidSchedulerState ''materialized execution baseline has no valid version'')
       (Option.bind (Option.bind (value_get snapshot ''baseline_version'') as_i64)
         (\<lambda>v. if v \<ge> 0 then Some v else None)))"

definition digest_identity :: "ext \<Rightarrow> string list \<Rightarrow> string" where
  "digest_identity x parts = encode_sha256 (sha256 x (concat (map frame parts)))"

end
