(* ===== verification/Operator_Value.thy ===== *)
theory Operator_Value
  imports Delivery_Value
begin

text \<open>
  The values of trusted-operator actions (\<^verbatim>\<open>crates/state/src/scheduler.rs\<close> and
  \<^verbatim>\<open>crates/state/src/scheduler/store.rs\<close>): requests bound to one exact action by a digest, the four
  ways to act on a delivery whose outcome is unknown with the evidence each of them needs, and the
  sanitized projections operators read.
\<close>

section \<open>Requests\<close>

record operator_request =
  or_principal :: principal_key
  or_request_id :: string
  or_request_digest :: string
  or_occurred_at :: i64

record operator_replay_timing =
  rt_effective_at :: i64
  rt_occurred_at :: i64

datatype operator_outcome = OperatorApplied | OperatorReplay | OperatorConflict

datatype unknown_action =
    ConfirmDelivered string string string
  | ConfirmNoWriteTerminal string string
  | ForceResend string string string string bool
  | AcknowledgeUnknown string string

text \<open>The exact action a request authorizes.\<close>

record operator_action =
  oa_action :: string
  oa_target_kind :: string
  oa_target_id :: string
  oa_expected_attempt :: i64
  oa_expected_fence :: i64
  oa_before_state :: string
  oa_after_state :: string
  oa_evidence_json :: "string option"
  oa_evidence_digest :: "string option"
  oa_reason_json :: "string option"
  oa_reason_digest :: "string option"
  oa_provider_receipt :: "string option"
  oa_duplicate_risk_acknowledged :: bool
  oa_effective_at :: i64

definition operator_action_request_digest :: "ext \<Rightarrow> operator_action \<Rightarrow> string" where
  "operator_action_request_digest x a = sha256_hex x (json_print x (json_obj [
     (''action'', JStr (oa_action a)),
     (''after_state'', JStr (oa_after_state a)),
     (''before_state'', JStr (oa_before_state a)),
     (''duplicate_risk_acknowledged'', JBool (oa_duplicate_risk_acknowledged a)),
     (''effective_at'', JInt (oa_effective_at a)),
     (''evidence_json'', option_json JStr (oa_evidence_json a)),
     (''evidence_digest'', option_json JStr (oa_evidence_digest a)),
     (''expected_attempt'', JInt (oa_expected_attempt a)),
     (''expected_fence'', JInt (oa_expected_fence a)),
     (''provider_receipt'', option_json JStr (oa_provider_receipt a)),
     (''reason_digest'', option_json JStr (oa_reason_digest a)),
     (''reason_json'', option_json JStr (oa_reason_json a)),
     (''target_id'', JStr (oa_target_id a)),
     (''target_kind'', JStr (oa_target_kind a))]))"

definition retry_run_action ::
  "string \<Rightarrow> i64 \<Rightarrow> i64 \<Rightarrow> run_state \<Rightarrow> string \<Rightarrow> string \<Rightarrow> i64 \<Rightarrow> operator_action" where
  "retry_run_action run_id attempt fence state reason_json reason_digest next_attempt_at = \<lparr>
     oa_action = ''retry_run'', oa_target_kind = ''run'', oa_target_id = run_id,
     oa_expected_attempt = attempt, oa_expected_fence = fence,
     oa_before_state = run_state_as_str state, oa_after_state = ''pending'',
     oa_evidence_json = None, oa_evidence_digest = None, oa_reason_json = Some reason_json,
     oa_reason_digest = Some reason_digest, oa_provider_receipt = None,
     oa_duplicate_risk_acknowledged = False, oa_effective_at = next_attempt_at\<rparr>"

definition retry_delivery_action ::
  "string \<Rightarrow> i64 \<Rightarrow> i64 \<Rightarrow> string \<Rightarrow> string \<Rightarrow> i64 \<Rightarrow> operator_action" where
  "retry_delivery_action delivery_id attempt fence reason_json reason_digest effective_at = \<lparr>
     oa_action = ''retry_delivery'', oa_target_kind = ''delivery'', oa_target_id = delivery_id,
     oa_expected_attempt = attempt, oa_expected_fence = fence,
     oa_before_state = ''failed_retryable'', oa_after_state = ''pending'',
     oa_evidence_json = Some reason_json, oa_evidence_digest = Some reason_digest,
     oa_reason_json = None, oa_reason_digest = None, oa_provider_receipt = None,
     oa_duplicate_risk_acknowledged = False, oa_effective_at = effective_at\<rparr>"

definition operator_request_for_run_retry ::
  "ext \<Rightarrow> principal_key \<Rightarrow> string \<Rightarrow> string \<Rightarrow> i64 \<Rightarrow> i64 \<Rightarrow> run_state \<Rightarrow> string \<Rightarrow> string \<Rightarrow> i64 \<Rightarrow> i64
     \<Rightarrow> state_value_error + operator_request" where
  "operator_request_for_run_retry x who request_id run_id attempt fence state reason_json
     reason_digest next_attempt_at occurred_at =
     rbind (principal_validate who) (\<lambda>_.
     rbind (validate_text ''operator request id'' request_id) (\<lambda>_.
     rbind (validate_text ''operator run id'' run_id) (\<lambda>_.
     rbind (validate_operator_reason x reason_json reason_digest) (\<lambda>_.
     if attempt \<le> 0 \<or> fence \<le> 0 \<or> next_attempt_at < occurred_at
        \<or> state \<notin> set [Failed, TimedOut, Cancelled]
     then Inl InvalidVersion
     else Inr \<lparr>or_principal = who, or_request_id = request_id,
       or_request_digest = operator_action_request_digest x
         (retry_run_action run_id attempt fence state reason_json reason_digest next_attempt_at),
       or_occurred_at = occurred_at\<rparr>))))"

definition operator_request_for_delivery_retry ::
  "ext \<Rightarrow> principal_key \<Rightarrow> string \<Rightarrow> string \<Rightarrow> i64 \<Rightarrow> i64 \<Rightarrow> string \<Rightarrow> string \<Rightarrow> i64 \<Rightarrow> i64
     \<Rightarrow> state_value_error + operator_request" where
  "operator_request_for_delivery_retry x who request_id delivery_id attempt fence reason_json
     reason_digest effective_at occurred_at =
     rbind (principal_validate who) (\<lambda>_.
     rbind (validate_text ''operator request id'' request_id) (\<lambda>_.
     rbind (validate_text ''operator delivery id'' delivery_id) (\<lambda>_.
     rbind (validate_operator_reason x reason_json reason_digest) (\<lambda>_.
     if attempt \<le> 0 \<or> fence \<le> 0 \<or> occurred_at < 0 \<or> effective_at < occurred_at
     then Inl InvalidVersion
     else Inr \<lparr>or_principal = who, or_request_id = request_id,
       or_request_digest = operator_action_request_digest x
         (retry_delivery_action delivery_id attempt fence reason_json reason_digest effective_at),
       or_occurred_at = occurred_at\<rparr>))))"

section \<open>Evidence for an unknown delivery\<close>

abbreviation receipt_invalid :: state_value_error where
  "receipt_invalid \<equiv> InvalidJson ''operator provider receipt''"

abbreviation evidence_invalid :: state_value_error where
  "evidence_invalid \<equiv> InvalidJson ''operator delivery evidence''"

text \<open>The loop over the identity fields of an object: the first missing or invalid one is reported.\<close>

definition validate_identity_fields ::
  "state_value_error \<Rightarrow> string \<Rightarrow> string list \<Rightarrow> (string \<times> json) list \<Rightarrow> state_value_error + unit" where
  "validate_identity_fields missing field keys object =
     check_all (map (\<lambda>key. rbind (ok_or missing (get_str (JObj object) key)) (validate_text field)) keys)"

definition validate_operator_provider_receipt :: "ext \<Rightarrow> string \<Rightarrow> state_value_error + unit" where
  "validate_operator_provider_receipt x provider_receipt =
     rbind (map_err (\<lambda>_. receipt_invalid) (json_parse x provider_receipt)) (\<lambda>receipt.
     rbind (ok_or receipt_invalid (as_object receipt)) (\<lambda>object.
     if \<not> has_exactly [''conversation_id'', ''message_id'', ''provider'', ''receipt_version'',
          ''target_kind'', ''tenant'', ''thread_id''] object
     then Inl receipt_invalid
     else if get_u64 (JObj object) ''receipt_version'' \<noteq> Some 1 then Inl InvalidVersion
     else rbind (validate_identity_fields receipt_invalid ''operator provider receipt identity''
       [''provider'', ''tenant'', ''target_kind'', ''conversation_id'', ''message_id''] object) (\<lambda>_.
     rbind (case get_str (JObj object) ''thread_id'' of
         Some thread_id \<Rightarrow> validate_text ''operator provider receipt thread id'' thread_id
       | None \<Rightarrow> if map_of object ''thread_id'' \<noteq> Some JNull then Inl receipt_invalid else Inr ()) (\<lambda>_.
     if json_print x receipt \<noteq> provider_receipt
     then Inl (NonCanonicalJson ''operator provider receipt'') else Inr ()))))"

definition expected_query_result :: "string \<Rightarrow> state_value_error + string option" where
  "expected_query_result expected_kind =
     (if expected_kind = ''provider_confirmed_delivered'' then Inr (Some ''write_confirmed'')
      else if expected_kind = ''provider_confirmed_no_write'' then Inr (Some ''no_write_confirmed'')
      else if expected_kind = ''operator_force_resend'' then Inr (Some ''no_matching_write_found'')
      else if expected_kind = ''operator_acknowledged_unknown'' then Inr None
      else Inl InvalidVersion)"

definition evidence_keys :: "bool \<Rightarrow> bool \<Rightarrow> string list" where
  "evidence_keys query receipt =
     [''evidence_id'', ''evidence_version'', ''kind'', ''provider'', ''target_kind'', ''tenant'']
     @ (if query
        then [''provider_query_completed_at'', ''provider_query_result'', ''provider_query_scope'',
              ''provider_query_started_at'', ''provider_query_summary_digest'',
              ''provider_query_window_end'', ''provider_query_window_start'']
        else [])
     @ (if receipt then [''receipt_digest''] else [])"

definition get_i64 :: "json \<Rightarrow> string \<Rightarrow> int option" where
  "get_i64 v k = Option.bind (value_get v k) as_i64"

definition validate_evidence_query ::
  "(string \<times> json) list \<Rightarrow> string \<Rightarrow> state_value_error + unit" where
  "validate_evidence_query object result =
     (let int_field = (\<lambda>k. ok_or evidence_invalid (get_i64 (JObj object) k)) in
      rbind (int_field ''provider_query_started_at'') (\<lambda>started_at.
      rbind (int_field ''provider_query_completed_at'') (\<lambda>completed_at.
      rbind (int_field ''provider_query_window_start'') (\<lambda>window_start.
      rbind (int_field ''provider_query_window_end'') (\<lambda>window_end.
      if started_at < 0 \<or> completed_at < started_at \<or> window_start < 0 \<or> window_end < window_start
         \<or> window_end > completed_at \<or> window_end - window_start > 31 * 24 * 60 * 60
         \<or> get_str (JObj object) ''provider_query_scope'' \<noteq> Some ''canonical_delivery_target''
         \<or> get_str (JObj object) ''provider_query_result'' \<noteq> Some result
      then Inl evidence_invalid
      else rbind (ok_or evidence_invalid (get_str (JObj object) ''provider_query_summary_digest''))
        (validate_lowercase_sha256 ''operator query summary digest''))))))"

definition validate_operator_delivery_evidence ::
  "ext \<Rightarrow> string \<Rightarrow> string \<Rightarrow> string \<Rightarrow> string option \<Rightarrow> state_value_error + unit" where
  "validate_operator_delivery_evidence x evidence_json evidence_digest expected_kind provider_receipt =
     rbind (validate_lowercase_sha256 ''operator evidence digest'' evidence_digest) (\<lambda>_.
     rbind (map_err (\<lambda>_. evidence_invalid) (json_parse x evidence_json)) (\<lambda>evidence.
     rbind (ok_or evidence_invalid (as_object evidence)) (\<lambda>object.
     rbind (expected_query_result expected_kind) (\<lambda>query.
     if \<not> has_exactly (evidence_keys (query \<noteq> None) (provider_receipt \<noteq> None)) object
     then Inl evidence_invalid
     else if get_u64 (JObj object) ''evidence_version'' \<noteq> Some 1
          \<or> get_str (JObj object) ''kind'' \<noteq> Some expected_kind
     then Inl InvalidVersion
     else rbind (validate_identity_fields evidence_invalid ''operator delivery evidence identity''
       [''evidence_id'', ''provider'', ''tenant'', ''target_kind''] object) (\<lambda>_.
     rbind (case query of None \<Rightarrow> Inr () | Some r \<Rightarrow> validate_evidence_query object r) (\<lambda>_.
     rbind (case provider_receipt of
         None \<Rightarrow> Inr ()
       | Some receipt \<Rightarrow>
           rbind (ok_or evidence_invalid (get_str (JObj object) ''receipt_digest'')) (\<lambda>digest.
           rbind (validate_lowercase_sha256 ''operator receipt digest'' digest) (\<lambda>_.
           if sha256_hex x receipt \<noteq> digest then Inl (InvalidSha256 ''operator receipt digest'')
           else Inr ()))) (\<lambda>_.
     if json_print x evidence \<noteq> evidence_json
     then Inl (NonCanonicalJson ''operator delivery evidence'')
     else if sha256_hex x evidence_json \<noteq> evidence_digest
     then Inl (InvalidSha256 ''operator evidence digest'')
     else Inr ())))))))"

text \<open>What an action on an unknown delivery stands for, as the stored action without its target.\<close>

definition authority_parts ::
  "ext \<Rightarrow> unknown_action \<Rightarrow> string \<Rightarrow> i64 \<Rightarrow> i64 \<Rightarrow> i64 \<Rightarrow> state_value_error + operator_action" where
  "authority_parts x action delivery_id attempt fence effective_at =
     (let part = (\<lambda>name after_state evidence digest receipt reason reason_digest ack. \<lparr>
          oa_action = name, oa_target_kind = ''delivery'', oa_target_id = delivery_id,
          oa_expected_attempt = attempt, oa_expected_fence = fence,
          oa_before_state = ''delivery_unknown'', oa_after_state = after_state,
          oa_evidence_json = Some evidence, oa_evidence_digest = Some digest,
          oa_reason_json = reason, oa_reason_digest = reason_digest,
          oa_provider_receipt = receipt, oa_duplicate_risk_acknowledged = ack,
          oa_effective_at = effective_at\<rparr>) in
      case action of
        ConfirmDelivered receipt evidence digest \<Rightarrow>
          rbind (validate_operator_provider_receipt x receipt) (\<lambda>_.
          rbind (validate_operator_delivery_evidence x evidence digest ''provider_confirmed_delivered''
            (Some receipt)) (\<lambda>_.
          Inr (part ''confirm_delivery_delivered'' ''delivered'' evidence digest (Some receipt) None None
            False)))
      | ConfirmNoWriteTerminal evidence digest \<Rightarrow>
          rbind (validate_operator_delivery_evidence x evidence digest ''provider_confirmed_no_write''
            None) (\<lambda>_.
          Inr (part ''confirm_delivery_no_write'' ''failed_terminal'' evidence digest None None None
            False))
      | ForceResend evidence digest reason reason_digest ack \<Rightarrow>
          if \<not> ack then Inl InvalidVersion
          else rbind (validate_operator_reason x reason reason_digest) (\<lambda>_.
          rbind (validate_operator_delivery_evidence x evidence digest ''operator_force_resend''
            None) (\<lambda>_.
          Inr (part ''force_delivery_resend'' ''pending'' evidence digest None (Some reason)
            (Some reason_digest) True)))
      | AcknowledgeUnknown evidence digest \<Rightarrow>
          rbind (validate_operator_delivery_evidence x evidence digest ''operator_acknowledged_unknown''
            None) (\<lambda>_.
          Inr (part ''acknowledge_delivery_unknown'' ''delivery_unknown'' evidence digest None None None
            False)))"

definition operator_request_for_delivery_action ::
  "ext \<Rightarrow> principal_key \<Rightarrow> string \<Rightarrow> string \<Rightarrow> i64 \<Rightarrow> i64 \<Rightarrow> unknown_action \<Rightarrow> i64
     \<Rightarrow> state_value_error + operator_request" where
  "operator_request_for_delivery_action x who request_id delivery_id attempt fence action
     occurred_at =
     rbind (principal_validate who) (\<lambda>_.
     rbind (validate_text ''operator request id'' request_id) (\<lambda>_.
     rbind (validate_text ''operator delivery id'' delivery_id) (\<lambda>_.
     if attempt \<le> 0 \<or> fence \<le> 0 then Inl InvalidVersion
     else rbind (authority_parts x action delivery_id attempt fence occurred_at) (\<lambda>a.
     Inr \<lparr>or_principal = who, or_request_id = request_id,
       or_request_digest = operator_action_request_digest x a, or_occurred_at = occurred_at\<rparr>))))"

definition operator_delivery_evidence_binding ::
  "ext \<Rightarrow> unknown_action \<Rightarrow> state_value_error + (string \<times> string \<times> string)" where
  "operator_delivery_evidence_binding x action =
     rbind (authority_parts x action [] 0 0 0) (\<lambda>a.
     rbind (ok_or evidence_invalid (oa_evidence_json a)) (\<lambda>evidence_json.
     rbind (map_err (\<lambda>_. evidence_invalid) (json_parse x evidence_json)) (\<lambda>evidence.
     rbind (ok_or evidence_invalid (as_object evidence)) (\<lambda>object.
     rbind (ok_or evidence_invalid (get_str (JObj object) ''provider'')) (\<lambda>provider.
     rbind (ok_or evidence_invalid (get_str (JObj object) ''tenant'')) (\<lambda>tenant.
     rbind (ok_or evidence_invalid (get_str (JObj object) ''target_kind'')) (\<lambda>kind.
     Inr (provider, tenant, kind))))))))"

section \<open>Validation\<close>

definition validate_operator_request :: "operator_request \<Rightarrow> state_error + unit" where
  "validate_operator_request r =
     rbind (map_err invalid_value (principal_validate (or_principal r))) (\<lambda>_.
     rbind (map_err invalid_value (validate_text ''operator request id'' (or_request_id r))) (\<lambda>_.
     rbind (map_err invalid_value
       (validate_lowercase_sha256 ''operator request digest'' (or_request_digest r))) (\<lambda>_.
     if or_occurred_at r < 0
     then Inl (InvalidSchedulerState ''operator request timestamp must be nonnegative'')
     else Inr ())))"

definition validate_operator_page :: "string option \<Rightarrow> u16 \<Rightarrow> state_error + unit" where
  "validate_operator_page cursor limit =
     (if limit = 0 \<or> limit > 100
      then Inl (InvalidSchedulerState ''operator projection limit must be between 1 and 100'')
      else case cursor of
        None \<Rightarrow> Inr ()
      | Some c \<Rightarrow> map_err invalid_value (validate_text ''operator projection cursor'' c))"

definition validate_operator_action_request ::
  "ext \<Rightarrow> operator_request \<Rightarrow> operator_action \<Rightarrow> state_error + unit" where
  "validate_operator_action_request x r a =
     (if or_request_digest r \<noteq> operator_action_request_digest x a
      then Inl (InvalidSchedulerState ''operator request digest does not bind the exact action'')
      else Inr ())"

definition validate_receipt_binding ::
  "ext \<Rightarrow> string \<Rightarrow> delivery_target_route \<Rightarrow> state_error + unit" where
  "validate_receipt_binding x provider_receipt route =
     rbind (map_err invalid_json (json_parse x provider_receipt)) (\<lambda>receipt.
     rbind (ok_or (InvalidSchedulerState ''operator provider receipt must be an object'')
       (as_object receipt)) (\<lambda>object.
     let text = get_str (JObj object) in
     if text ''provider'' \<noteq> Some (route_provider route) \<or> text ''tenant'' \<noteq> Some (route_tenant route)
        \<or> text ''target_kind'' \<noteq> Some (route_kind route)
     then Inl (InvalidSchedulerState
       ''operator provider receipt does not bind the immutable target snapshot'')
     else if text ''conversation_id'' \<noteq> Some (route_conversation_id route)
     then Inl (InvalidSchedulerState
       ''operator provider receipt conversation does not bind the target address'')
     else if text ''thread_id'' \<noteq> route_thread_id route
     then Inl (InvalidSchedulerState
       ''operator provider receipt thread does not bind the target address'')
     else Inr ()))"

definition validate_operator_delivery_target_binding ::
  "ext \<Rightarrow> string \<Rightarrow> unknown_action \<Rightarrow> state_error + unit" where
  "validate_operator_delivery_target_binding x target_json action =
     rbind (map_err invalid_value (from_canonical_target_json x target_json)) (\<lambda>route.
     rbind (map_err invalid_value (operator_delivery_evidence_binding x action))
       (\<lambda>(provider, tenant, kind).
     if provider \<noteq> route_provider route \<or> tenant \<noteq> route_tenant route \<or> kind \<noteq> route_kind route
     then Inl (InvalidSchedulerState
       ''operator delivery evidence does not bind the immutable target snapshot'')
     else case action of
       ConfirmDelivered provider_receipt _ _ \<Rightarrow> validate_receipt_binding x provider_receipt route
     | _ \<Rightarrow> Inr ()))"

section \<open>Projections\<close>

record run_projection =
  rp_run_id :: string
  rp_job_id :: string
  rp_state :: run_state
  rp_attempt :: i64
  rp_fence :: i64
  rp_next_attempt_at :: "i64 option"
  rp_lease_expires_at :: "i64 option"
  rp_error_kind :: "string option"
  rp_updated_at :: i64

record delivery_projection =
  dp_delivery_id :: string
  dp_run_id :: string
  dp_job_id :: string
  dp_state :: delivery_state
  dp_attempt :: i64
  dp_fence :: i64
  dp_next_attempt_at :: "i64 option"
  dp_lease_expires_at :: "i64 option"
  dp_provider_outcome :: "string option"
  dp_error_kind :: "string option"
  dp_updated_at :: i64

record operator_action_summary =
  os_action_id :: string
  os_action :: string
  os_target_kind :: string
  os_target_id :: string
  os_before_state :: string
  os_after_state :: string
  os_occurred_at :: i64
  os_consumed :: bool

record reconcile_candidate =
  rc_run_id :: string
  rc_state :: run_state
  rc_attempt :: i64
  rc_fence :: i64
  rc_lease_owner :: string
  rc_lease_expires_at :: i64
  rc_next_attempt_at :: "i64 option"

text \<open>The snapshot of a candidate that reconcile plans bind: the lease owner only as a digest.\<close>

definition canonical_plan_snapshot :: "ext \<Rightarrow> reconcile_candidate \<Rightarrow> string" where
  "canonical_plan_snapshot x c = json_print x (json_obj [
     (''attempt'', JInt (rc_attempt c)),
     (''fence'', JInt (rc_fence c)),
     (''lease_expires_at'', JInt (rc_lease_expires_at c)),
     (''lease_owner_digest'', JStr (sha256_hex x (rc_lease_owner c))),
     (''next_attempt_at'', option_json JInt (rc_next_attempt_at c)),
     (''retry_eligible'', JBool (rc_next_attempt_at c \<noteq> None)),
     (''run_id'', JStr (rc_run_id c)),
     (''state'', JStr (run_state_as_str (rc_state c)))])"

end
