(* ===== verification/Operator_Tables.thy ===== *)
theory Operator_Tables
  imports Operator_Value
begin

text \<open>
  The append-only audit of operator actions and of their consumption, as the migrations
  \<^verbatim>\<open>20260722020000\<close> to \<^verbatim>\<open>20260722060000\<close> and \<^verbatim>\<open>20260722140000\<close> leave them. The hash-algorithm and
  schema-version columns are written from the digests beside them and carry no information of their
  own. The triggers read the JSON of a reason or of evidence; every such text was validated as
  canonical JSON before it was stored.
\<close>

section \<open>Rows\<close>

record operator_row =
  op_action_id :: string
  op_principal :: principal_key
  op_request_id :: string
  op_request_digest :: string
  op_authority :: operator_action
  op_occurred_at :: i64

record consumption_row =
  oc_action_id :: string
  oc_target_kind :: string
  oc_target_id :: string
  oc_consumed_at :: i64

section \<open>Constraints\<close>

definition hex_digest :: "string \<Rightarrow> bool" where
  "hex_digest s \<longleftrightarrow> length s = 64 \<and> list_all is_hex_lower s"

definition target_id_check :: "string \<Rightarrow> string \<Rightarrow> bool" where
  "target_id_check kind i \<longleftrightarrow>
     (kind = ''run'' \<and> 1 \<le> sql_length i \<and> sql_length i \<le> 1050)
     \<or> (kind = ''delivery'' \<and> 1 \<le> sql_length i \<and> sql_length i \<le> 2177)"

definition action_check :: "ext \<Rightarrow> operator_action \<Rightarrow> bool" where
  "action_check x a \<longleftrightarrow>
     oa_action a \<in> set [''retry_run'', ''retry_delivery'', ''confirm_delivery_delivered'',
       ''confirm_delivery_no_write'', ''force_delivery_resend'', ''acknowledge_delivery_unknown'']
     \<and> oa_target_kind a \<in> set [''run'', ''delivery'']
     \<and> target_id_check (oa_target_kind a) (oa_target_id a)
     \<and> oa_expected_attempt a > 0 \<and> oa_expected_fence a > 0
     \<and> (case (oa_evidence_json a, oa_evidence_digest a) of
          (None, None) \<Rightarrow> True
        | (Some evidence, Some digest) \<Rightarrow> 1 \<le> length evidence \<and> length evidence \<le> 65536
            \<and> sql_json_valid x evidence \<and> hex_digest digest
        | _ \<Rightarrow> False)
     \<and> (case oa_provider_receipt a of
          None \<Rightarrow> True | Some receipt \<Rightarrow> 1 \<le> length receipt \<and> length receipt \<le> 65536)
     \<and> (if oa_target_kind a = ''run''
        then oa_evidence_json a = None \<and> oa_provider_receipt a = None
        else oa_evidence_json a \<noteq> None)
     \<and> (oa_action a = ''retry_run'' \<longleftrightarrow> oa_target_kind a = ''run'')
     \<and> (case oa_provider_receipt a of
          None \<Rightarrow> oa_action a \<noteq> ''confirm_delivery_delivered''
        | Some receipt \<Rightarrow> oa_action a = ''confirm_delivery_delivered'' \<and> sql_json_valid x receipt)
     \<and> (oa_action a = ''force_delivery_resend'' \<longleftrightarrow> oa_duplicate_risk_acknowledged a)
     \<and> oa_effective_at a \<ge> 0"

definition operator_check :: "ext \<Rightarrow> operator_row \<Rightarrow> bool" where
  "operator_check x r \<longleftrightarrow>
     1 \<le> sql_length (op_action_id r) \<and> sql_length (op_action_id r) \<le> 128
     \<and> 1 \<le> sql_length (op_request_id r) \<and> sql_length (op_request_id r) \<le> 256
     \<and> hex_digest (op_request_digest r) \<and> action_check x (op_authority r) \<and> op_occurred_at r \<ge> 0"

definition operator_unique :: "operator_row list \<Rightarrow> bool" where
  "operator_unique rows \<longleftrightarrow>
     distinct (map op_action_id rows) \<and> distinct (map (\<lambda>r. (op_principal r, op_request_id r)) rows)"

definition consumption_check :: "consumption_row \<Rightarrow> bool" where
  "consumption_check c \<longleftrightarrow>
     target_id_check (oc_target_kind c) (oc_target_id c) \<and> oc_consumed_at c \<ge> 0"

section \<open>Triggers\<close>

text \<open>The trigger on inserted reasons; SQL's \<open>trim\<close> removes spaces only.\<close>

definition sql_trimmed :: "string \<Rightarrow> bool" where
  "sql_trimmed s \<longleftrightarrow> s = [] \<or> (hd s \<noteq> CHR '' '' \<and> last s \<noteq> CHR '' '')"

definition reason_text_ok :: "ext \<Rightarrow> string \<Rightarrow> bool" where
  "reason_text_ok x reason_json \<longleftrightarrow>
     1 \<le> length reason_json \<and> length reason_json \<le> 65536 \<and> sql_json_valid x reason_json
     \<and> (case json_parse x reason_json of
          Inr (JObj object) \<Rightarrow> length object = 3
            \<and> map_of object ''schema_version'' = Some (JInt 1)
            \<and> (case map_of object ''reason_code'' of
                 Some (JStr code) \<Rightarrow> 1 \<le> length code \<and> length code \<le> 64
                   \<and> list_all operator_reason_code_byte code
               | _ \<Rightarrow> False)
            \<and> (case map_of object ''reason'' of
                 Some (JStr reason) \<Rightarrow> 1 \<le> length reason \<and> length reason \<le> 4096 \<and> sql_trimmed reason
               | _ \<Rightarrow> False)
        | _ \<Rightarrow> False)"

definition reason_authority_ok :: "ext \<Rightarrow> operator_action \<Rightarrow> bool" where
  "reason_authority_ok x a \<longleftrightarrow>
     (if oa_action a \<in> set [''retry_run'', ''force_delivery_resend'']
      then (case (oa_reason_json a, oa_reason_digest a) of
              (Some reason, Some digest) \<Rightarrow> reason_text_ok x reason \<and> hex_digest digest
            | _ \<Rightarrow> False)
      else oa_reason_json a = None \<and> oa_reason_digest a = None)"

text \<open>The conditions on stored evidence under which an unknown delivery may be resolved.\<close>

definition evidence_field :: "ext \<Rightarrow> string \<Rightarrow> string \<Rightarrow> json option" where
  "evidence_field x evidence field =
     (case json_parse x evidence of Inr v \<Rightarrow> value_get v field | Inl _ \<Rightarrow> None)"

definition query_bound :: "ext \<Rightarrow> string \<Rightarrow> bool" where
  "query_bound x evidence \<longleftrightarrow>
     sql_json_valid x evidence
     \<and> evidence_field x evidence ''provider_query_scope'' = Some (JStr ''canonical_delivery_target'')
     \<and> (case (evidence_field x evidence ''provider_query_started_at'',
              evidence_field x evidence ''provider_query_completed_at'',
              evidence_field x evidence ''provider_query_window_start'',
              evidence_field x evidence ''provider_query_window_end'') of
          (Some (JInt started), Some (JInt completed), Some (JInt start), Some (JInt stop)) \<Rightarrow>
            0 \<le> started \<and> started \<le> completed \<and> 0 \<le> start \<and> start \<le> stop \<and> stop \<le> completed
            \<and> stop - start \<le> 2678400
        | _ \<Rightarrow> False)
     \<and> (case evidence_field x evidence ''provider_query_summary_digest'' of
          Some (JStr digest) \<Rightarrow> hex_digest digest | _ \<Rightarrow> False)"

text \<open>Which action may move an unknown delivery to the given state.\<close>

definition resolution_ok ::
  "ext \<Rightarrow> operator_action \<Rightarrow> delivery_state \<Rightarrow> string option \<Rightarrow> bool" where
  "resolution_ok x a new_state receipt \<longleftrightarrow>
     (case (oa_evidence_json a, oa_evidence_digest a) of
        (Some evidence, Some _) \<Rightarrow> query_bound x evidence
          \<and> ((oa_action a = ''confirm_delivery_delivered'' \<and> new_state = DDelivered
               \<and> oa_provider_receipt a \<noteq> None \<and> oa_provider_receipt a = receipt
               \<and> evidence_field x evidence ''provider_query_result'' = Some (JStr ''write_confirmed''))
            \<or> (oa_action a = ''confirm_delivery_no_write'' \<and> new_state = DFailedTerminal
               \<and> evidence_field x evidence ''provider_query_result'' = Some (JStr ''no_write_confirmed''))
            \<or> (oa_action a = ''force_delivery_resend'' \<and> new_state = DPending
               \<and> oa_duplicate_risk_acknowledged a \<and> oa_reason_json a \<noteq> None \<and> oa_reason_digest a \<noteq> None
               \<and> evidence_field x evidence ''provider_query_result''
                   = Some (JStr ''no_matching_write_found'')))
      | _ \<Rightarrow> False)"

interpretation operators: checked_table "operator_check x" operator_unique op_action_id for x
  by unfold_locales (simp add: operator_unique_def)

end
