(* ===== verification/Delivery_Tables.thy ===== *)
theory Delivery_Tables
  imports Operator_Tables
begin

text \<open>
  The tables behind scheduled deliveries, as the migrations under
  \<^verbatim>\<open>crates/state/migrations\<close> leave them: deliveries, their attempts, the accepted baselines and the
  result artifacts, beside the tables of jobs and runs. A delivery row is one of native authority
  (\<open>intent_v1\<close>): rows migrated from before it are terminal and no operation selects them. The payload
  columns of a delivery are null together or set together, by a check clause, so they are one optional
  record. A transition that only an operator may make consumes the action that authorizes it.
\<close>

section \<open>Rows\<close>

record payload_columns =
  pc_render_version :: i64
  pc_schema_version :: i64
  pc_content_type :: string
  pc_hash_algorithm :: string
  pc_digest :: string
  pc_snapshot :: string
  pc_created_at :: i64
  pc_expected_baseline_version :: i64
  pc_target_snapshot_version :: i64

record delivery_row =
  d_delivery_id :: string
  d_run_id :: string
  d_job_id :: string
  d_target_identity_digest :: string
  d_target_json :: string
  d_state :: delivery_state
  d_attempt :: i64
  d_next_attempt_at :: "i64 option"
  d_lease_owner :: "string option"
  d_lease_expires_at :: "i64 option"
  d_fence :: i64
  d_idempotency_key :: "string option"
  d_provider_receipt :: "string option"
  d_provider_outcome :: "string option"
  d_error_kind :: "string option"
  d_error_message :: "string option"
  d_delivery_policy_version :: i64
  d_payload :: "payload_columns option"
  d_claimed_baseline_version :: "i64 option"
  d_result_artifact_id :: string
  d_result_attempt :: i64
  d_result_fence :: i64
  d_target_snapshot_digest_algorithm :: string
  d_target_snapshot_digest :: string
  d_intent_key :: string
  d_policy_version :: i64
  d_policy_json :: string
  d_created_at :: i64
  d_updated_at :: i64
  d_counter_limit_recorded :: bool

record delivery_attempt_row =
  da_row_delivery_id :: string
  da_attempt :: i64
  da_fence :: i64
  da_lease_owner :: string
  da_lease_expires_at :: i64
  da_idempotency_key :: string
  da_claimed_baseline_version :: i64
  da_state :: delivery_state
  da_provider_receipt :: "string option"
  da_provider_outcome :: "string option"
  da_error_kind :: "string option"
  da_error_message :: "string option"
  da_started_at :: i64
  da_completed_at :: "i64 option"

record accepted_row =
  acc_identity :: accepted_baseline_identity
  acc_baseline :: accepted_baseline

record delivery_db =
  dl_db :: sched_db
  dl_artifacts :: "artifact_row list"
  dl_deliveries :: "delivery_row list"
  dl_attempts :: "delivery_attempt_row list"
  dl_accepted :: "accepted_row list"
  dl_actions :: "operator_row list"
  dl_consumptions :: "consumption_row list"

section \<open>Constraints\<close>

definition payload_check :: "i64 \<Rightarrow> payload_columns \<Rightarrow> bool" where
  "payload_check created_at p \<longleftrightarrow>
     pc_snapshot p \<noteq> [] \<and> pc_render_version p > 0 \<and> pc_schema_version p = 1
     \<and> sql_length (pc_content_type p) > 0
     \<and> pc_hash_algorithm p = ''sha256-utf8-exact-v1''
     \<and> length (pc_digest p) = 64 \<and> list_all is_hex_lower (pc_digest p)
     \<and> pc_created_at p \<ge> created_at \<and> pc_expected_baseline_version p \<ge> 0
     \<and> pc_target_snapshot_version p > 0"

definition target_object :: "ext \<Rightarrow> string \<Rightarrow> bool" where
  "target_object x target_json \<longleftrightarrow> sql_json_valid x target_json
     \<and> (case json_parse x target_json of Inr (JObj _) \<Rightarrow> True | _ \<Rightarrow> False)"

definition claimed_states :: "delivery_state list" where
  "claimed_states = [DSending, DDelivered, DFailedRetryable, DDeliveryUnknown, DSkippedUnchanged]"

definition error_states :: "delivery_state list" where
  "error_states = [DFailedRetryable, DFailedTerminal, DDeliveryUnknown]"

definition state_outcome :: "delivery_state \<Rightarrow> string option" where
  "state_outcome s =
     (case s of
        DPending \<Rightarrow> None
      | DSending \<Rightarrow> None
      | DDelivered \<Rightarrow> Some ''confirmed_success''
      | DFailedRetryable \<Rightarrow> Some ''confirmed_no_write_retryable''
      | DFailedTerminal \<Rightarrow> Some ''confirmed_no_write_terminal''
      | DDeliveryUnknown \<Rightarrow> Some ''ambiguous_post_write''
      | DSkippedNone \<Rightarrow> Some ''skipped_none''
      | DSkippedUnchanged \<Rightarrow> Some ''skipped_unchanged'')"

definition intent_check :: "delivery_row \<Rightarrow> bool" where
  "intent_check d \<longleftrightarrow>
     sql_length (d_result_artifact_id d) > 0 \<and> d_result_attempt d > 0 \<and> d_result_fence d > 0
     \<and> d_delivery_policy_version d = 1
     \<and> d_target_snapshot_digest_algorithm d = ''sha256-v1''
     \<and> length (d_target_snapshot_digest d) = 64 \<and> list_all is_hex_lower (d_target_snapshot_digest d)
     \<and> length (d_target_identity_digest d) = 64 \<and> list_all is_hex_lower (d_target_identity_digest d)
     \<and> 72 \<le> length (d_intent_key d) \<and> length (d_intent_key d) \<le> 2170
     \<and> d_intent_key d = ''v1:'' @ encode_sha256 (d_run_id d) @ '':'' @ d_target_identity_digest d @ '':1''
     \<and> d_delivery_id d = ''intent:'' @ d_intent_key d
     \<and> (d_payload d = None \<longrightarrow> d_state d \<in> set [DPending, DFailedTerminal])"

definition delivery_check :: "ext \<Rightarrow> delivery_row \<Rightarrow> bool" where
  "delivery_check x d \<longleftrightarrow>
     target_object x (d_target_json d)
     \<and> d_attempt d \<ge> 0 \<and> d_fence d \<ge> 0 \<and> d_updated_at d \<ge> d_created_at d
     \<and> (case d_payload d of None \<Rightarrow> True | Some p \<Rightarrow> payload_check (d_created_at d) p)
     \<and> intent_check d
     \<and> (if d_state d = DSending
        then (case d_lease_owner d of None \<Rightarrow> False | Some w \<Rightarrow> sql_length w > 0)
          \<and> d_lease_expires_at d \<noteq> None
          \<and> (case d_idempotency_key d of None \<Rightarrow> False | Some k \<Rightarrow> sql_length k > 0)
        else d_lease_owner d = None \<and> d_lease_expires_at d = None)
     \<and> (d_next_attempt_at d = None \<or> d_state d = DFailedRetryable)
     \<and> (case d_claimed_baseline_version d of
          None \<Rightarrow> d_state d \<notin> set claimed_states | Some v \<Rightarrow> v \<ge> 0)
     \<and> (d_provider_receipt d = None \<or> d_state d = DDelivered)
     \<and> d_provider_outcome d = state_outcome (d_state d)
     \<and> (if d_state d \<in> set error_states
        then (case d_error_kind d of None \<Rightarrow> False | Some k \<Rightarrow> sql_length k > 0)
        else d_error_kind d = None \<and> d_error_message d = None)
     \<and> d_policy_version d = 1 \<and> sql_json_valid x (d_policy_json d)"

text \<open>The key of the baseline a delivery belongs to, once its payload is frozen.\<close>

definition baseline_key_at :: "delivery_row \<Rightarrow> i64 \<Rightarrow> string \<Rightarrow> accepted_baseline_identity" where
  "baseline_key_at d render_version hash_algorithm = \<lparr>
     bi_job_id = d_job_id d, bi_target_identity_digest = d_target_identity_digest d,
     bi_target_snapshot_digest_algorithm = d_target_snapshot_digest_algorithm d,
     bi_target_snapshot_digest = d_target_snapshot_digest d,
     bi_delivery_policy_version = d_delivery_policy_version d,
     bi_render_version = render_version, bi_hash_algorithm = hash_algorithm\<rparr>"

definition baseline_key :: "delivery_row \<Rightarrow> accepted_baseline_identity option" where
  "baseline_key d =
     map_option (\<lambda>p. baseline_key_at d (pc_render_version p) (pc_hash_algorithm p)) (d_payload d)"

text \<open>The columns of the unique index on sends in flight: the baseline key without its digest
  algorithm.\<close>

definition active_key ::
  "delivery_row \<Rightarrow> (string \<times> string \<times> string \<times> i64 \<times> i64 \<times> string) option" where
  "active_key d = map_option (\<lambda>p. (d_job_id d, d_target_identity_digest d,
     d_target_snapshot_digest d, d_delivery_policy_version d, pc_render_version p,
     pc_hash_algorithm p)) (d_payload d)"

definition delivery_unique :: "delivery_row list \<Rightarrow> bool" where
  "delivery_unique rows \<longleftrightarrow>
     distinct (map d_delivery_id rows)
     \<and> distinct (map (\<lambda>d. (d_run_id d, d_target_identity_digest d, d_delivery_policy_version d)) rows)
     \<and> distinct (map d_intent_key rows)
     \<and> distinct (map active_key
         (filter (\<lambda>d. d_state d = DSending \<and> active_key d \<noteq> None) rows))"

definition delivery_attempt_check :: "delivery_attempt_row \<Rightarrow> bool" where
  "delivery_attempt_check a \<longleftrightarrow>
     da_attempt a > 0 \<and> da_fence a > 0 \<and> da_claimed_baseline_version a \<ge> 0
     \<and> sql_length (da_lease_owner a) > 0 \<and> da_lease_expires_at a > da_started_at a
     \<and> sql_length (da_idempotency_key a) > 0
     \<and> da_state a \<in> set [DSending, DDelivered, DFailedRetryable, DFailedTerminal, DDeliveryUnknown]
     \<and> (if da_state a = DSending then da_completed_at a = None else da_completed_at a \<noteq> None)
     \<and> (case da_completed_at a of None \<Rightarrow> True | Some t \<Rightarrow> t \<ge> da_started_at a)
     \<and> (da_provider_receipt a = None \<or> da_state a = DDelivered)
     \<and> da_provider_outcome a = state_outcome (da_state a)"

definition delivery_attempt_unique :: "delivery_attempt_row list \<Rightarrow> bool" where
  "delivery_attempt_unique rows \<longleftrightarrow>
     distinct (map (\<lambda>a. (da_row_delivery_id a, da_attempt a)) rows)
     \<and> distinct (map (\<lambda>a. (da_row_delivery_id a, da_fence a)) rows)"

definition accepted_check :: "accepted_row \<Rightarrow> bool" where
  "accepted_check r \<longleftrightarrow>
     (let i = acc_identity r; b = acc_baseline r in
      bi_delivery_policy_version i > 0 \<and> bi_render_version i > 0
      \<and> 1 \<le> ab_baseline_version b \<and> ab_baseline_version b \<le> i64_max \<and> ab_accepted_at b \<ge> 0
      \<and> sql_length (bi_target_identity_digest i) > 0
      \<and> sql_length (bi_target_snapshot_digest_algorithm i) > 0
      \<and> sql_length (bi_target_snapshot_digest i) > 0 \<and> sql_length (bi_hash_algorithm i) > 0
      \<and> sql_length (ab_accepted_payload_digest b) > 0 \<and> sql_length (ab_source_delivery_id b) > 0
      \<and> sql_length (ab_source_run_id b) > 0 \<and> sql_length (ab_source_result_hash b) > 0)"

definition accepted_unique :: "accepted_row list \<Rightarrow> bool" where
  "accepted_unique rows \<longleftrightarrow> distinct (map acc_identity rows)"

definition artifact_check :: "ext \<Rightarrow> artifact_row \<Rightarrow> bool" where
  "artifact_check x a \<longleftrightarrow>
     sql_length (ar_artifact_id a) > 0 \<and> ar_accepted_attempt a > 0 \<and> ar_accepted_fence a > 0
     \<and> sql_json_valid x (ar_result_json a) \<and> sql_length (ar_result_hash a) > 0"

definition artifact_unique :: "artifact_row list \<Rightarrow> bool" where
  "artifact_unique rows \<longleftrightarrow> distinct (map ar_artifact_id rows) \<and> distinct (map ar_run_id rows)"

section \<open>Triggers\<close>

text \<open>The columns a delivery keeps from its insertion on.\<close>

definition delivery_identity :: "delivery_row \<Rightarrow> delivery_row" where
  "delivery_identity d = d \<lparr>d_state := DPending, d_attempt := 0, d_next_attempt_at := None,
     d_lease_owner := None, d_lease_expires_at := None, d_fence := 0, d_idempotency_key := None,
     d_provider_receipt := None, d_provider_outcome := None, d_error_kind := None,
     d_error_message := None, d_payload := None, d_claimed_baseline_version := None,
     d_policy_version := 0, d_policy_json := [], d_updated_at := 0,
     d_counter_limit_recorded := False\<rparr>"

definition state_transition_ok :: "delivery_state \<Rightarrow> delivery_state \<Rightarrow> bool" where
  "state_transition_ok old new \<longleftrightarrow> old = new
     \<or> (old = DPending \<and> new \<in> set [DSending, DFailedTerminal, DSkippedNone, DSkippedUnchanged])
     \<or> (old = DSending \<and> new \<in> set [DDelivered, DFailedRetryable, DFailedTerminal, DDeliveryUnknown])
     \<or> (old = DFailedRetryable \<and> new \<in> set [DPending, DFailedTerminal])
     \<or> (old = DDeliveryUnknown \<and> new \<in> set [DDelivered, DFailedTerminal, DPending])"

text \<open>The trigger fires only when its condition is true: a comparison with a missing version is unknown and
  lets the update pass, to the check clause that requires the version.\<close>

definition claimed_baseline_ok :: "delivery_row \<Rightarrow> delivery_row \<Rightarrow> bool" where
  "claimed_baseline_ok old new \<longleftrightarrow>
     (d_state old = DPending \<and> d_state new \<in> set [DSending, DSkippedUnchanged]
        \<and> d_claimed_baseline_version old = None
        \<and> (case d_claimed_baseline_version new of None \<Rightarrow> True | Some v \<Rightarrow> v \<ge> 0))
     \<or> (d_state old = DFailedRetryable \<and> d_state new = DPending
        \<and> d_claimed_baseline_version old \<noteq> None \<and> d_claimed_baseline_version new = None)
     \<or> (d_state old = DDeliveryUnknown \<and> d_state new \<in> set [DDelivered, DFailedTerminal]
        \<and> d_claimed_baseline_version new = d_claimed_baseline_version old)
     \<or> (d_state old = DDeliveryUnknown \<and> d_state new = DPending
        \<and> d_claimed_baseline_version old \<noteq> None \<and> d_claimed_baseline_version new = None)"

definition target_kind_none :: "ext \<Rightarrow> string \<Rightarrow> bool" where
  "target_kind_none x target_json =
     (case json_parse x target_json of
        Inr v \<Rightarrow> value_get v ''kind'' = Some (JStr ''none'') | _ \<Rightarrow> False)"

definition skipped_none_ok :: "ext \<Rightarrow> delivery_row \<Rightarrow> delivery_row \<Rightarrow> bool" where
  "skipped_none_ok x old new \<longleftrightarrow>
     d_state old = DPending \<and> target_kind_none x (d_target_json new)
     \<and> d_delivery_policy_version new = 1 \<and> d_payload new \<noteq> None
     \<and> d_provider_outcome new = Some ''skipped_none'' \<and> d_provider_receipt new = None
     \<and> d_error_kind new = None \<and> d_error_message new = None \<and> d_next_attempt_at new = None
     \<and> d_lease_owner new = None \<and> d_lease_expires_at new = None
     \<and> d_claimed_baseline_version new = None
     \<and> d_attempt new = d_attempt old \<and> d_fence new = d_fence old"

definition skipped_unchanged_ok :: "accepted_row list \<Rightarrow> delivery_row \<Rightarrow> delivery_row \<Rightarrow> bool" where
  "skipped_unchanged_ok accepted old new \<longleftrightarrow>
     list_ex (\<lambda>b. d_state old = DPending \<and> d_payload old \<noteq> None
       \<and> d_provider_outcome new = Some ''skipped_unchanged''
       \<and> (case d_payload new of None \<Rightarrow> False | Some p \<Rightarrow>
            pc_hash_algorithm p = ''sha256-utf8-exact-v1''
            \<and> ab_accepted_payload_digest (acc_baseline b) = pc_digest p)
       \<and> baseline_key new = Some (acc_identity b)
       \<and> d_claimed_baseline_version new = Some (ab_baseline_version (acc_baseline b))) accepted"

definition readiness_rejection_ok :: "delivery_row \<Rightarrow> delivery_row \<Rightarrow> bool" where
  "readiness_rejection_ok old new \<longleftrightarrow>
     d_payload new \<noteq> None
     \<and> d_provider_outcome new = Some ''confirmed_no_write_terminal''
     \<and> (case d_error_kind new of None \<Rightarrow> False | Some k \<Rightarrow> sql_length k > 0)
     \<and> d_error_message new = Some ''provider rejected exact delivery target during readiness''
     \<and> d_provider_receipt new = None \<and> d_next_attempt_at new = None
     \<and> d_lease_owner new = None \<and> d_lease_expires_at new = None
     \<and> d_attempt new = d_attempt old \<and> d_fence new = d_fence old
     \<and> d_updated_at new \<ge> d_updated_at old
     \<and> (d_state old = DPending
        \<or> (case d_next_attempt_at old of None \<Rightarrow> False | Some t \<Rightarrow> t \<le> d_updated_at new))"

text \<open>All triggers that run before a row is updated. The claimed baseline is only guarded in a statement
  that assigns its column.\<close>

definition delivery_triggers ::
  "ext \<Rightarrow> bool \<Rightarrow> accepted_row list \<Rightarrow> delivery_row \<Rightarrow> delivery_row \<Rightarrow> bool" where
  "delivery_triggers x assigns_claim accepted old new \<longleftrightarrow>
     delivery_identity new = delivery_identity old
     \<and> (d_payload old \<noteq> None \<longrightarrow> d_payload new = d_payload old)
     \<and> state_transition_ok (d_state old) (d_state new)
     \<and> (assigns_claim \<longrightarrow> claimed_baseline_ok old new)
     \<and> (d_state new = DSkippedNone \<longrightarrow> skipped_none_ok x old new)
     \<and> (d_state new = DSkippedUnchanged \<longrightarrow> skipped_unchanged_ok accepted old new)
     \<and> (d_state new = DFailedTerminal \<and> d_state old \<in> set [DPending, DFailedRetryable]
        \<longrightarrow> readiness_rejection_ok old new)"

text \<open>The triggers that run afterwards: leaving an unknown delivery needs exactly one unconsumed action
  of an operator, and so does a retry at another time than the one that was planned.\<close>

definition authorizes :: "ext \<Rightarrow> delivery_row \<Rightarrow> delivery_row \<Rightarrow> operator_row \<Rightarrow> bool" where
  "authorizes x old new act \<longleftrightarrow>
     (let a = op_authority act in
      oa_target_kind a = ''delivery'' \<and> oa_target_id a = d_delivery_id new
      \<and> oa_expected_attempt a = d_attempt old \<and> oa_expected_fence a = d_fence old
      \<and> oa_before_state a = delivery_state_as_str (d_state old)
      \<and> oa_after_state a = delivery_state_as_str (d_state new)
      \<and> oa_effective_at a = d_updated_at new
      \<and> ((d_state old = DFailedRetryable \<and> d_state new = DPending \<and> oa_action a = ''retry_delivery''
           \<and> oa_evidence_digest a \<noteq> None \<and> op_occurred_at act \<le> oa_effective_at a)
        \<or> (d_state old = DDeliveryUnknown \<and> op_occurred_at act = d_updated_at new
           \<and> resolution_ok x a (d_state new) (d_provider_receipt new))))"

definition unconsumed :: "delivery_db \<Rightarrow> operator_row \<Rightarrow> bool" where
  "unconsumed db act \<longleftrightarrow> \<not> list_ex (\<lambda>c. oc_action_id c = op_action_id act) (dl_consumptions db)"

definition authorizing ::
  "ext \<Rightarrow> delivery_db \<Rightarrow> delivery_row \<Rightarrow> delivery_row \<Rightarrow> operator_row list" where
  "authorizing x db old new = filter (\<lambda>act. authorizes x old new act \<and> unconsumed db act) (dl_actions db)"

definition operator_trigger_ok ::
  "ext \<Rightarrow> delivery_db \<Rightarrow> delivery_row \<Rightarrow> delivery_row \<Rightarrow> bool" where
  "operator_trigger_ok x db old new \<longleftrightarrow>
     (d_state old = DFailedRetryable \<and> d_state new = DPending
        \<and> d_next_attempt_at old \<notin> {None, Some (d_updated_at new)}
        \<longrightarrow> length (authorizing x db old new) = 1)
     \<and> (d_state old = DDeliveryUnknown \<and> d_state new \<in> set [DDelivered, DFailedTerminal, DPending]
        \<longrightarrow> length (authorizing x db old new) = 1)"

definition consumption_of :: "delivery_row \<Rightarrow> operator_row \<Rightarrow> consumption_row" where
  "consumption_of d act = \<lparr>oc_action_id = op_action_id act, oc_target_kind = ''delivery'',
     oc_target_id = d_delivery_id d, oc_consumed_at = d_updated_at d\<rparr>"

text \<open>What a statement spends: the authorizing actions of every row it changes, with that row.\<close>

definition spends ::
  "ext \<Rightarrow> (delivery_row \<Rightarrow> bool) \<Rightarrow> (delivery_row \<Rightarrow> delivery_row) \<Rightarrow> delivery_db
     \<Rightarrow> (delivery_row \<times> operator_row) list" where
  "spends x w f db = concat (map (\<lambda>d. map (Pair (f d)) (authorizing x db d (f d)))
     (filter w (dl_deliveries db)))"

definition forced_resend :: "operator_row \<Rightarrow> bool" where
  "forced_resend act \<longleftrightarrow> oa_action (op_authority act) = ''force_delivery_resend''"

definition delivery_metrics ::
  "delivery_row \<Rightarrow> delivery_row \<Rightarrow> (transition_kind \<rightharpoonup> int) \<Rightarrow> (transition_kind \<rightharpoonup> int)" where
  "delivery_metrics old new totals =
     (if d_state old = d_state new then totals
      else let totals' =
          (case d_state new of
             DSending \<Rightarrow> bump DeliveryClaimed totals
           | DDelivered \<Rightarrow> bump DeliveryDelivered totals
           | DFailedRetryable \<Rightarrow> bump DeliveryRetry totals
           | DFailedTerminal \<Rightarrow> bump DeliveryFailure totals
           | DDeliveryUnknown \<Rightarrow> bump DeliveryUnknown totals
           | DSkippedNone \<Rightarrow> bump DeliverySkipped totals
           | DSkippedUnchanged \<Rightarrow> bump DeliverySkipped totals
           | DPending \<Rightarrow> totals)
        in if d_state new = DFailedTerminal \<and> d_error_kind new
              \<in> set [Some ''delivery_deadline_exceeded'', Some ''delivery_retry_exhausted'']
           then bump PolicyLimitRejected totals' else totals')"

section \<open>Statements\<close>

definition count_db ::
  "((transition_kind \<rightharpoonup> int) \<Rightarrow> (transition_kind \<rightharpoonup> int)) \<Rightarrow> delivery_db \<Rightarrow> delivery_db" where
  "count_db f db = db \<lparr>dl_db := count_runs f (dl_db db)\<rparr>"

definition update_deliveries ::
  "ext \<Rightarrow> bool \<Rightarrow> (delivery_row \<Rightarrow> bool) \<Rightarrow> (delivery_row \<Rightarrow> delivery_row) \<Rightarrow> delivery_db
     \<Rightarrow> state_error + (delivery_db \<times> nat)" where
  "update_deliveries x assigns_claim w f db =
     (if list_ex (\<lambda>d. w d \<and> \<not> delivery_triggers x assigns_claim (dl_accepted db) d (f d))
           (dl_deliveries db)
      then Inl (scheduler_error SQLITE_CONSTRAINT_TRIGGER)
      else rbind (map_err scheduler_error
          (sql_update (delivery_check x) delivery_unique w f (dl_deliveries db))) (\<lambda>(rows, n).
        let consumed = map (\<lambda>(d, act). consumption_of d act) (spends x w f db);
            forced = filter forced_resend (map snd (spends x w f db)) in
        if list_ex (\<lambda>d. w d \<and> \<not> operator_trigger_ok x db d (f d)) (dl_deliveries db)
        then Inl (scheduler_error SQLITE_CONSTRAINT_TRIGGER)
        else if \<not> list_all consumption_check consumed
        then Inl (scheduler_error SQLITE_CONSTRAINT_CHECK)
        else Inr (count_db (\<lambda>t. fold (\<lambda>_. bump DeliveryForcedUnknownResend) forced
            (fold (\<lambda>d t. if w d then delivery_metrics d (f d) t else t) (dl_deliveries db) t))
          (db \<lparr>dl_deliveries := rows, dl_consumptions := dl_consumptions db @ consumed\<rparr>), n)))"

definition update_delivery_attempts ::
  "(delivery_attempt_row \<Rightarrow> bool) \<Rightarrow> (delivery_attempt_row \<Rightarrow> delivery_attempt_row) \<Rightarrow> delivery_db
     \<Rightarrow> state_error + (delivery_db \<times> nat)" where
  "update_delivery_attempts w f db =
     rbind (map_err scheduler_error
       (sql_update delivery_attempt_check delivery_attempt_unique w f (dl_attempts db)))
       (\<lambda>(rows, n). Inr (db \<lparr>dl_attempts := rows\<rparr>, n))"

definition insert_delivery_attempt ::
  "delivery_attempt_row \<Rightarrow> delivery_db \<Rightarrow> state_error + delivery_db" where
  "insert_delivery_attempt a db =
     rbind (map_err scheduler_error
       (sql_insert delivery_attempt_check delivery_attempt_unique a (dl_attempts db))) (\<lambda>rows.
     if \<not> list_ex (\<lambda>d. d_delivery_id d = da_row_delivery_id a) (dl_deliveries db)
     then Inl (scheduler_error SQLITE_CONSTRAINT_FOREIGNKEY)
     else Inr (db \<lparr>dl_attempts := rows\<rparr>))"

definition on_db :: "(sched_db \<Rightarrow> state_error + sched_db) \<Rightarrow> delivery_db \<Rightarrow> state_error + delivery_db" where
  "on_db f db = rbind (f (dl_db db)) (\<lambda>s. Inr (db \<lparr>dl_db := s\<rparr>))"

definition count_transition ::
  "transition_kind \<Rightarrow> nat \<Rightarrow> delivery_db \<Rightarrow> state_error + delivery_db" where
  "count_transition kind amount db =
     on_db (on_runs (increment_scheduler_transition_total kind amount)) db"

section \<open>Transactions\<close>

text \<open>As for runs: a body commits, drops its transaction with an error, or takes the lost-lease exit,
  whose counter is committed after the rollback.\<close>

definition lost_delivery_lease :: "delivery_db \<Rightarrow> (state_error + 'a) \<times> delivery_db" where
  "lost_delivery_lease db =
     (case count_transition StaleFenceRejected 1 db of
        Inl e \<Rightarrow> (Inl e, db)
      | Inr db' \<Rightarrow> (Inl ScheduledDeliveryLostLease, db'))"

definition transact_delivery ::
  "delivery_db \<Rightarrow> txn_exit + (delivery_db \<times> (state_error + 'a)) \<Rightarrow> (state_error + 'a) \<times> delivery_db" where
  "transact_delivery db m =
     (case m of
        Inl (Abort e) \<Rightarrow> (Inl e, db)
      | Inl LostLease \<Rightarrow> lost_delivery_lease db
      | Inr (db', v) \<Rightarrow> (v, db'))"

definition one_delivery :: "delivery_db \<times> nat \<Rightarrow> txn_exit + delivery_db" where
  "one_delivery dn = (case dn of (db, n) \<Rightarrow> if n \<noteq> 1 then Inl LostLease else Inr db)"

lemma one_delivery_eq_Inr [simp]: "one_delivery (db, n) = Inr db' \<longleftrightarrow> n = 1 \<and> db' = db"
  by (auto simp: one_delivery_def)

text \<open>Without a recorded action the triggers of operators admit no more than due retries.\<close>

lemma spends_no_actions [simp]: "dl_actions db = [] \<Longrightarrow> spends x w f db = []"
  by (simp add: spends_def authorizing_def)

text \<open>Actions are only spent on a retry or on an unknown delivery.\<close>

lemma idle_authority:
  assumes "d_state d \<notin> {DFailedRetryable, DDeliveryUnknown}"
  shows "authorizing x db d e = []" and "operator_trigger_ok x db d e"
  using assms by (auto simp: authorizing_def authorizes_def Let_def operator_trigger_ok_def filter_empty_conv)

lemma spends_idle:
  assumes "\<And>d. d \<in> set (dl_deliveries db) \<Longrightarrow> w d \<Longrightarrow> d_state d \<notin> {DFailedRetryable, DDeliveryUnknown}"
  shows "spends x w f db = []"
  using assms idle_authority(1) by (auto simp: spends_def)

lemma spends_unselected: "\<forall>d \<in> set (dl_deliveries db). \<not> w d \<Longrightarrow> spends x w f db = []"
  by (simp add: spends_def)

interpretation deliveries: checked_table "delivery_check x" delivery_unique d_delivery_id for x
  by unfold_locales (simp add: delivery_unique_def)

interpretation delivery_attempts: checked_table delivery_attempt_check delivery_attempt_unique
  "\<lambda>a. (da_row_delivery_id a, da_attempt a)"
  by unfold_locales (simp add: delivery_attempt_unique_def)

interpretation accepted: checked_table accepted_check accepted_unique acc_identity
  by unfold_locales (simp add: accepted_unique_def)

interpretation artifacts: checked_table "artifact_check x" artifact_unique ar_run_id for x
  by unfold_locales (simp add: artifact_unique_def)

end
