(* ===== verification/Delivery_Store.thy ===== *)
theory Delivery_Store
  imports Delivery_Tables
begin

text \<open>
  The delivery operations of \<^verbatim>\<open>crates/state/src/scheduler/store.rs\<close>: reading and freezing an
  intent, peeking at due work, skipping an unchanged payload, readiness rejection, fenced claims,
  heartbeats, reconciliation and reclamation of expired sends, provider outcomes with the accepted
  baseline, and requeueing. Each operation maps a database to its result and the database it leaves.

  The payload column is only written from a Rust string, so the UTF-8 check on reading it back is not
  modelled. The clock readings inside an exact claim are arguments.
\<close>

section \<open>Selections the statements share\<close>

definition find_delivery :: "string \<Rightarrow> delivery_db \<Rightarrow> delivery_row option" where
  "find_delivery delivery_id db = List.find (\<lambda>d. d_delivery_id d = delivery_id) (dl_deliveries db)"

definition artifact_of :: "delivery_db \<Rightarrow> delivery_row \<Rightarrow> artifact_row option" where
  "artifact_of db d =
     List.find (\<lambda>a. ar_artifact_id a = d_result_artifact_id d \<and> ar_run_id a = d_run_id d
       \<and> ar_job_id a = d_job_id d) (dl_artifacts db)"

definition baseline_at ::
  "accepted_baseline_identity \<Rightarrow> delivery_db \<Rightarrow> accepted_baseline option" where
  "baseline_at i db = map_option acc_baseline (List.find (\<lambda>b. acc_identity b = i) (dl_accepted db))"

definition baseline_of :: "delivery_db \<Rightarrow> delivery_row \<Rightarrow> accepted_baseline option" where
  "baseline_of db d = Option.bind (baseline_key d) (\<lambda>i. baseline_at i db)"

definition payload_digest_of :: "delivery_row \<Rightarrow> string option" where
  "payload_digest_of d = map_option pc_digest (d_payload d)"

text \<open>The \<open>exists\<close> clause for an accepted baseline with the payload's digest.\<close>

definition unchanged :: "delivery_db \<Rightarrow> delivery_row \<Rightarrow> bool" where
  "unchanged db d =
     (case baseline_of db d of
        None \<Rightarrow> False | Some b \<Rightarrow> payload_digest_of d = Some (ab_accepted_payload_digest b))"

text \<open>The \<open>exists\<close> clause for another send in flight under the same key.\<close>

definition send_blocked :: "delivery_db \<Rightarrow> delivery_row \<Rightarrow> bool" where
  "send_blocked db d \<longleftrightarrow>
     list_ex (\<lambda>a. d_state a = DSending \<and> d_delivery_id a \<noteq> d_delivery_id d
       \<and> active_key d \<noteq> None \<and> active_key a = active_key d) (dl_deliveries db)"

definition delivery_policy_int :: "ext \<Rightarrow> delivery_row \<Rightarrow> string \<Rightarrow> int option" where
  "delivery_policy_int x d field = sql_json_int x (d_policy_json d) field"

definition attempts_left :: "ext \<Rightarrow> delivery_row \<Rightarrow> bool" where
  "attempts_left x d =
     (case delivery_policy_int x d ''delivery_max_attempts'' of
        None \<Rightarrow> False | Some m \<Rightarrow> d_attempt d < m)"

definition attempts_exhausted :: "ext \<Rightarrow> delivery_row \<Rightarrow> bool" where
  "attempts_exhausted x d =
     (case delivery_policy_int x d ''delivery_max_attempts'' of
        None \<Rightarrow> False | Some m \<Rightarrow> d_attempt d \<ge> m)"

definition before_deadline :: "ext \<Rightarrow> i64 \<Rightarrow> delivery_row \<Rightarrow> bool" where
  "before_deadline x now d =
     (case (d_payload d, delivery_policy_int x d ''delivery_deadline_seconds'') of
        (Some p, Some s) \<Rightarrow> pc_created_at p \<le> i64_max - s \<and> now < pc_created_at p + s
      | _ \<Rightarrow> False)"

definition past_deadline :: "ext \<Rightarrow> i64 \<Rightarrow> delivery_row \<Rightarrow> bool" where
  "past_deadline x now d =
     (case (d_payload d, delivery_policy_int x d ''delivery_deadline_seconds'') of
        (Some p, Some s) \<Rightarrow> pc_created_at p > i64_max - s \<or> now \<ge> pc_created_at p + s
      | _ \<Rightarrow> False)"

definition counters_left :: "delivery_row \<Rightarrow> bool" where
  "counters_left d \<longleftrightarrow> d_attempt d < i64_max \<and> d_fence d < i64_max"

definition counters_spent :: "delivery_row \<Rightarrow> bool" where
  "counters_spent d \<longleftrightarrow> d_attempt d = i64_max \<or> d_fence d = i64_max"

definition retry_due :: "i64 \<Rightarrow> delivery_row \<Rightarrow> bool" where
  "retry_due now d = (case d_next_attempt_at d of None \<Rightarrow> False | Some t \<Rightarrow> t \<le> now)"

section \<open>Reading intents\<close>

definition load_scheduled_delivery_intent_target_snapshot ::
  "ext \<Rightarrow> string \<Rightarrow> delivery_db \<Rightarrow> state_error + string" where
  "load_scheduled_delivery_intent_target_snapshot x delivery_id db =
     (if delivery_id = [] \<or> length delivery_id > MAX_DELIVERY_INTENT_ID_BYTES
      then Inl (InvalidSchedulerState ''scheduled delivery intent id exceeds its dedicated bound'')
      else rbind (ok_or (InvalidSchedulerState ''scheduled delivery intent does not exist'')
        (find_delivery delivery_id db)) (\<lambda>d.
      if d_delivery_policy_version d \<noteq> DELIVERY_POLICY_VERSION_V1
      then Inl (InvalidSchedulerState
        ''scheduled delivery intent has an unsupported policy version'')
      else rbind (delivery_intent_key (d_run_id d) (d_target_identity_digest d)) (\<lambda>expected_key.
      if d_intent_key d \<noteq> expected_key \<or> delivery_id \<noteq> ''intent:'' @ expected_key
      then Inl (InvalidSchedulerState ''scheduled delivery intent natural identity mismatch'')
      else rbind (validate_delivery_intent_target_snapshot x (d_target_json d)
        (d_target_identity_digest d) (d_target_snapshot_digest_algorithm d)
        (d_target_snapshot_digest d)) (\<lambda>_.
      Inr (d_target_json d)))))"

definition needs_render :: "delivery_db \<Rightarrow> delivery_row \<times> artifact_row \<Rightarrow> bool" where
  "needs_render db = (\<lambda>(d, a).
     d_state d = DPending \<and> d_payload d = None
     \<and> ar_artifact_id a = d_result_artifact_id d \<and> ar_run_id a = d_run_id d
     \<and> ar_job_id a = d_job_id d \<and> ar_accepted_attempt a = d_result_attempt d
     \<and> ar_accepted_fence a = d_result_fence d
     \<and> list_ex (\<lambda>r. r_run_id r = d_run_id d \<and> r_job_id r = d_job_id d \<and> r_state r = Succeeded
         \<and> r_result_artifact_id r = Some (d_result_artifact_id d)) (st_runs (db_runs (dl_db db))))"

definition next_scheduled_delivery_render_input ::
  "ext \<Rightarrow> delivery_db \<Rightarrow> state_error + (string \<times> string) option" where
  "next_scheduled_delivery_render_input x db =
     (case select_min (\<lambda>(d, a). (d_created_at d, d_delivery_id d)) (needs_render db)
         (List.product (dl_deliveries db) (dl_artifacts db)) of
        None \<Rightarrow> Inr None
      | Some (d, a) \<Rightarrow>
          rbind (delivery_body_from_result_json x (ar_result_json a)) (\<lambda>body.
          Inr (Some (d_delivery_id d, body))))"

definition get_accepted_delivery_baseline ::
  "accepted_baseline_identity \<Rightarrow> delivery_db \<Rightarrow> state_error + accepted_baseline option" where
  "get_accepted_delivery_baseline i db =
     rbind (map_err invalid_value (baseline_identity_validate i)) (\<lambda>_. Inr (baseline_at i db))"

section \<open>The accepted baseline\<close>

definition expected_baseline :: "ext \<Rightarrow> string \<Rightarrow> delivery_db \<Rightarrow> i64 option" where
  "expected_baseline x delivery_id db =
     Option.bind (find_delivery delivery_id db) (\<lambda>d.
     Option.bind (d_payload d) (\<lambda>p.
     if d_state d = DSkippedNone then
       (if target_kind_none x (d_target_json d) \<and> d_claimed_baseline_version d = None
        then Some (pc_expected_baseline_version p) else None)
     else if d_state d = DDelivered then
       Option.bind (List.find (\<lambda>a. da_row_delivery_id a = d_delivery_id d
           \<and> da_attempt a = d_attempt d \<and> da_fence a = d_fence d) (dl_attempts db)) (\<lambda>a.
       if d_claimed_baseline_version d = Some (da_claimed_baseline_version a)
          \<and> da_state a = DDelivered
       then Some (da_claimed_baseline_version a) else None)
     else None))"

definition accepted_from ::
  "delivery_row \<Rightarrow> payload_columns \<Rightarrow> artifact_row \<Rightarrow> i64 \<Rightarrow> i64 \<Rightarrow> accepted_baseline" where
  "accepted_from d p a accepted_at version = \<lparr>
     ab_accepted_payload_digest = pc_digest p, ab_source_delivery_id = d_delivery_id d,
     ab_source_run_id = d_run_id d, ab_source_result_id = Some (d_result_artifact_id d),
     ab_source_result_hash = ar_result_hash a, ab_accepted_at = accepted_at,
     ab_baseline_version = version\<rparr>"

text \<open>\<open>insert ... select ... on conflict do update\<close>: the baseline starts at version one, or moves from
  the expected version to the next.\<close>

definition upsert_accepted ::
  "i64 \<Rightarrow> i64 \<Rightarrow> delivery_row \<Rightarrow> payload_columns \<Rightarrow> artifact_row \<Rightarrow> delivery_db
     \<Rightarrow> state_error + (delivery_db \<times> nat)" where
  "upsert_accepted expected accepted_at d p a db =
     (let key = baseline_key_at d (pc_render_version p) (pc_hash_algorithm p);
          new_row = \<lparr>acc_identity = key, acc_baseline = accepted_from d p a accepted_at 1\<rparr>;
          moved = (\<lambda>r. r \<lparr>acc_baseline := accepted_from d p a accepted_at
            (ab_baseline_version (acc_baseline r) + 1)\<rparr>)
      in if \<not> accepted_check new_row then Inl (scheduler_error SQLITE_CONSTRAINT_CHECK)
         else if \<not> list_ex (\<lambda>r. acc_identity r = key) (dl_accepted db)
         then (if \<not> has_job (d_job_id d) (dl_db db)
               then Inl (scheduler_error SQLITE_CONSTRAINT_FOREIGNKEY)
               else Inr (count_db (bump AcceptedDeliveryBaselineAdvanced)
                 (db \<lparr>dl_accepted := dl_accepted db @ [new_row]\<rparr>), 1))
         else rbind (map_err scheduler_error (sql_update accepted_check accepted_unique
             (\<lambda>r. acc_identity r = key \<and> expected < i64_max
                \<and> ab_baseline_version (acc_baseline r) = expected) moved (dl_accepted db)))
           (\<lambda>(rows, n). Inr ((if n = 0 then db
               else count_db (bump AcceptedDeliveryBaselineAdvanced)
                 (db \<lparr>dl_accepted := rows\<rparr>)), n)))"

definition advance_accepted_delivery_baseline_in_transaction ::
  "ext \<Rightarrow> string \<Rightarrow> i64 \<Rightarrow> delivery_db \<Rightarrow> state_error + (delivery_db \<times> bool)" where
  "advance_accepted_delivery_baseline_in_transaction x delivery_id accepted_at db =
     rbind (ok_or (InvalidSchedulerState
         ''scheduled delivery is not accepted terminal authority'')
       (expected_baseline x delivery_id db)) (\<lambda>expected.
     case find_delivery delivery_id db of
       None \<Rightarrow> Inr (db, False)
     | Some d \<Rightarrow>
         (case (d_payload d, artifact_of db d) of
            (Some p, Some a) \<Rightarrow>
              if expected = 0 \<or> (expected < i64_max
                 \<and> (case baseline_of db d of None \<Rightarrow> False
                    | Some b \<Rightarrow> ab_baseline_version b = expected))
              then rbind (upsert_accepted expected accepted_at d p a db) (\<lambda>(db', n). Inr (db', n = 1))
              else Inr (db, False)
          | _ \<Rightarrow> Inr (db, False)))"

section \<open>Preparation\<close>

definition delivery_payload_from_row :: "ext \<Rightarrow> delivery_row \<Rightarrow> state_error + payload_snapshot" where
  "delivery_payload_from_row x d =
     rbind (ok_or (scheduler_error SqlxOther) (d_payload d)) (\<lambda>p.
     if sha256_hex x (pc_snapshot p) \<noteq> pc_digest p
     then Inl (InvalidSchedulerState ''scheduled delivery payload digest mismatch'')
     else rbind (positive_u32 (pc_schema_version p)) (\<lambda>schema_version.
     if schema_version \<noteq> DELIVERY_PAYLOAD_SCHEMA_VERSION
     then Inl (InvalidSchedulerState ''unsupported scheduled delivery payload schema'')
     else if pc_hash_algorithm p \<noteq> DELIVERY_PAYLOAD_HASH_ALGORITHM
     then Inl (InvalidSchedulerState ''unsupported scheduled delivery payload hash algorithm'')
     else rbind (positive_u32 (pc_target_snapshot_version p)) (\<lambda>target_version.
     rbind (positive_u32 (d_delivery_policy_version d)) (\<lambda>policy_version.
     rbind (positive_u32 (pc_render_version p)) (\<lambda>render_version.
     map_err invalid_value (payload_from_durable_parts (d_delivery_id d) (d_run_id d)
       (d_result_artifact_id d) (pc_content_type p) (pc_snapshot p) (pc_digest p)
       (d_target_identity_digest d) (d_target_snapshot_digest d) target_version policy_version
       render_version (pc_created_at p)))))))"

definition existing_prepared_delivery ::
  "ext \<Rightarrow> delivery_row \<Rightarrow> string \<Rightarrow> string \<Rightarrow> u32 \<Rightarrow> state_error + prepared_delivery option" where
  "existing_prepared_delivery x d body content_type render_version =
     (if d_payload d = None then Inr None
      else rbind (delivery_payload_from_row x d) (\<lambda>snapshot.
      if ps_body snapshot \<noteq> body \<or> ps_content_type snapshot \<noteq> content_type
         \<or> ps_render_version snapshot \<noteq> render_version
      then Inl ScheduledDeliveryPayloadConflict
      else (case d_state d of
              DPending \<Rightarrow> Inr (Some (PreparedPending snapshot))
            | DSkippedNone \<Rightarrow> Inr (Some (PreparedSkippedNone snapshot))
            | DSkippedUnchanged \<Rightarrow> Inr (Some (PreparedSkippedUnchanged snapshot))
            | _ \<Rightarrow> Inl ScheduledDeliveryPayloadConflict)))"

text \<open>The advisory baseline read: the version, and whether the payload is already accepted.\<close>

definition delivery_baseline_decision ::
  "delivery_row \<Rightarrow> u32 \<Rightarrow> string \<Rightarrow> bool \<Rightarrow> delivery_db \<Rightarrow> i64 \<times> bool" where
  "delivery_baseline_decision d render_version payload_digest skipped_none db =
     (case baseline_at (baseline_key_at d (uint render_version) DELIVERY_PAYLOAD_HASH_ALGORITHM) db of
        None \<Rightarrow> (0, False)
      | Some b \<Rightarrow> (ab_baseline_version b,
          \<not> skipped_none \<and> ab_accepted_payload_digest b = payload_digest))"

definition freeze_payload ::
  "bool \<Rightarrow> payload_columns \<Rightarrow> i64 \<Rightarrow> delivery_row \<Rightarrow> delivery_row" where
  "freeze_payload skipped_none p now d = d \<lparr>
     d_state := (if skipped_none then DSkippedNone else DPending), d_payload := Some p,
     d_provider_outcome := (if skipped_none then Some ''skipped_none'' else None),
     d_updated_at := now\<rparr>"

definition prepare_new_delivery ::
  "ext \<Rightarrow> delivery_row \<Rightarrow> bool \<Rightarrow> u32 \<Rightarrow> string \<Rightarrow> string \<Rightarrow> u32 \<Rightarrow> i64 \<Rightarrow> skipped_none_policy
     \<Rightarrow> delivery_db \<Rightarrow> state_error + (delivery_db \<times> prepared_delivery)" where
  "prepare_new_delivery x d skipped_none target_version content_type body render_version now policy
     db =
     (if d_state d \<noteq> DPending then Inl ScheduledDeliveryPayloadConflict
      else let payload_digest = sha256_hex x body;
        expected = fst (delivery_baseline_decision d render_version payload_digest skipped_none db);
        p = \<lparr>pc_render_version = uint render_version,
             pc_schema_version = uint DELIVERY_PAYLOAD_SCHEMA_VERSION,
             pc_content_type = content_type,
             pc_hash_algorithm = DELIVERY_PAYLOAD_HASH_ALGORITHM, pc_digest = payload_digest,
             pc_snapshot = body, pc_created_at = now, pc_expected_baseline_version = expected,
             pc_target_snapshot_version = uint target_version\<rparr>
      in rbind (update_deliveries x False
          (\<lambda>e. d_delivery_id e = d_delivery_id d \<and> d_state e = DPending \<and> d_payload e = None)
          (freeze_payload skipped_none p now) db) (\<lambda>(db1, n).
      if n \<noteq> 1 then Inl ScheduledDeliveryPayloadConflict
      else rbind (if skipped_none \<and> policy = AcceptBaseline
            then rbind (advance_accepted_delivery_baseline_in_transaction x (d_delivery_id d) now db1)
              (\<lambda>(db2, advanced). if \<not> advanced then Inl ScheduledDeliveryBaselineConflict
                 else Inr db2)
            else Inr db1) (\<lambda>db2.
      rbind (positive_u32 (d_delivery_policy_version d)) (\<lambda>policy_version.
      rbind (map_err invalid_value (payload_from_durable_parts (d_delivery_id d) (d_run_id d)
        (d_result_artifact_id d) content_type body payload_digest (d_target_identity_digest d)
        (d_target_snapshot_digest d) target_version policy_version render_version now)) (\<lambda>snapshot.
      Inr (db2, if skipped_none then PreparedSkippedNone snapshot
                else PreparedPending snapshot))))))"

definition prepare_scheduled_delivery ::
  "ext \<Rightarrow> string \<Rightarrow> string \<Rightarrow> string \<Rightarrow> u32 \<Rightarrow> i64 \<Rightarrow> skipped_none_policy \<Rightarrow> delivery_db
     \<Rightarrow> (state_error + prepared_delivery) \<times> delivery_db" where
  "prepare_scheduled_delivery x delivery_id content_type body render_version now policy db =
     transact_delivery db
       (lift (rbind (validate_delivery_preparation delivery_id content_type body render_version now)
         (\<lambda>_.
        rbind (ok_or (InvalidSchedulerState ''scheduled delivery intent does not exist'')
          (Option.bind (find_delivery delivery_id db) (\<lambda>d.
             if artifact_of db d = None then None else Some d))) (\<lambda>d.
        rbind (delivery_target_metadata x (d_target_json d)) (\<lambda>(skipped_none, target_version).
        rbind (existing_prepared_delivery x d body content_type render_version) (\<lambda>existing.
        case existing of
          Some prepared \<Rightarrow> Inr (db, Inr prepared)
        | None \<Rightarrow>
            rbind (prepare_new_delivery x d skipped_none target_version content_type body
              render_version now policy db) (\<lambda>(db', prepared). Inr (db', Inr prepared))))))))"

section \<open>Due work\<close>

definition scheduled_delivery_authority_from_row ::
  "ext \<Rightarrow> delivery_row \<Rightarrow> state_error + delivery_authority" where
  "scheduled_delivery_authority_from_row x d =
     (if d_state d \<notin> set [DPending, DFailedRetryable]
      then Inl (InvalidSchedulerState
        ''scheduled delivery readiness selected a non-dispatchable state'')
      else rbind (validate_delivery_intent_target_snapshot x (d_target_json d)
        (d_target_identity_digest d) (d_target_snapshot_digest_algorithm d)
        (d_target_snapshot_digest d)) (\<lambda>_.
      rbind (ok_or (scheduler_error SqlxOther) (d_payload d)) (\<lambda>p.
      rbind (map_err invalid_value (validate_lowercase_sha256
        ''scheduled delivery readiness payload digest'' (pc_digest p))) (\<lambda>_.
      rbind (scheduler_policy_from_snapshot x (d_policy_version d) (d_policy_json d)) (\<lambda>policy.
      Inr \<lparr>da_delivery_id = d_delivery_id d, da_source_state = d_state d,
           da_target_json = d_target_json d, da_target_digest = d_target_snapshot_digest d,
           da_payload_digest = pc_digest p,
           da_binding_digest = sha256_hex x (d_intent_key d), da_intent_key = d_intent_key d,
           da_payload_created_at = pc_created_at p, da_scheduler_policy = policy\<rparr>)))))"

definition due_work :: "delivery_db \<Rightarrow> i64 \<Rightarrow> delivery_row \<Rightarrow> bool" where
  "due_work db now d \<longleftrightarrow>
     ((d_state d = DFailedRetryable \<and> retry_due now d) \<or> (d_state d = DPending \<and> d_updated_at d \<le> now))
     \<and> d_payload d \<noteq> None \<and> \<not> send_blocked db d"

definition work_order :: "delivery_row \<Rightarrow> int \<times> i64 \<times> string" where
  "work_order d =
     (if d_state d = DFailedRetryable
      then (0, case d_next_attempt_at d of None \<Rightarrow> 0 | Some t \<Rightarrow> t, d_delivery_id d)
      else (1, d_created_at d, d_delivery_id d))"

definition deadline_reached :: "policy \<Rightarrow> i64 \<Rightarrow> i64 \<Rightarrow> bool" where
  "deadline_reached policy payload_created_at now =
     (case delivery_deadline_at policy payload_created_at of
        None \<Rightarrow> True | Some deadline \<Rightarrow> now \<ge> deadline)"

definition expire_overdue :: "i64 \<Rightarrow> delivery_row \<Rightarrow> delivery_row" where
  "expire_overdue now d = d \<lparr>d_state := DFailedTerminal, d_next_attempt_at := None,
     d_provider_outcome := Some ''confirmed_no_write_terminal'',
     d_error_kind := Some ''delivery_deadline_exceeded'', d_error_message := None,
     d_updated_at := now\<rparr>"

definition peek_scheduled_delivery_work ::
  "ext \<Rightarrow> i64 \<Rightarrow> delivery_db \<Rightarrow> (state_error + delivery_work) \<times> delivery_db" where
  "peek_scheduled_delivery_work x now db =
     (if now < 0
      then (Inl (InvalidSchedulerState
        ''scheduled delivery readiness time must be nonnegative''), db)
      else case select_min work_order (due_work db now) (dl_deliveries db) of
        None \<Rightarrow> (Inr WorkIdle, db)
      | Some d \<Rightarrow>
          (case scheduled_delivery_authority_from_row x d of
             Inl e \<Rightarrow> (Inl e, db)
           | Inr authority \<Rightarrow>
               if deadline_reached (da_scheduler_policy authority) (da_payload_created_at authority) now
               then (case update_deliveries x False
                   (\<lambda>e. d_delivery_id e = da_delivery_id authority
                      \<and> d_state e = da_source_state authority) (expire_overdue now) db of
                   Inl e \<Rightarrow> (Inl e, db) | Inr (db', _) \<Rightarrow> (Inr WorkIdle, db'))
               else if da_source_state authority = DPending \<and> unchanged db d
               then (Inr (WorkSkipUnchanged authority), db)
               else (Inr (WorkProviderRequired authority), db)))"

text \<open>A row still is the one an authority was read from.\<close>

definition authority_matches :: "delivery_authority \<Rightarrow> delivery_row \<Rightarrow> bool" where
  "authority_matches a d \<longleftrightarrow>
     d_delivery_id d = da_delivery_id a \<and> d_payload d \<noteq> None \<and> d_target_json d = da_target_json a
     \<and> d_target_snapshot_digest d = da_target_digest a
     \<and> payload_digest_of d = Some (da_payload_digest a) \<and> d_intent_key d = da_intent_key a"

definition skip_row :: "delivery_db \<Rightarrow> i64 \<Rightarrow> delivery_row \<Rightarrow> delivery_row" where
  "skip_row db now d = d \<lparr>d_state := DSkippedUnchanged,
     d_claimed_baseline_version := map_option ab_baseline_version
       (if unchanged db d then baseline_of db d else None),
     d_provider_outcome := Some ''skipped_unchanged'', d_updated_at := now\<rparr>"

definition skip_exact_row :: "delivery_db \<Rightarrow> i64 \<Rightarrow> delivery_row \<Rightarrow> delivery_row" where
  "skip_exact_row db now d = skip_row db now d \<lparr>d_next_attempt_at := None, d_lease_owner := None,
     d_lease_expires_at := None\<rparr>"

definition skip_scheduled_delivery_unchanged ::
  "ext \<Rightarrow> delivery_authority \<Rightarrow> i64 \<Rightarrow> delivery_db \<Rightarrow> (state_error + bool) \<times> delivery_db" where
  "skip_scheduled_delivery_unchanged x authority now db =
     transact_delivery db
       (lift (rbind (validate_scheduled_delivery_authority x authority) (\<lambda>_.
        if now < 0
        then Inl (InvalidSchedulerState ''scheduled delivery skip time must be nonnegative'')
        else rbind (update_deliveries x True
          (\<lambda>d. authority_matches authority d \<and> d_state d = DPending
             \<and> da_source_state authority = DPending \<and> d_updated_at d \<le> now
             \<and> \<not> send_blocked db d \<and> unchanged db d)
          (skip_exact_row db now) db) (\<lambda>(db', n). Inr (db', Inr (n \<noteq> 0))))))"

definition reject_row :: "string \<Rightarrow> i64 \<Rightarrow> delivery_row \<Rightarrow> delivery_row" where
  "reject_row error_kind now d = d \<lparr>d_state := DFailedTerminal, d_next_attempt_at := None,
     d_lease_owner := None, d_lease_expires_at := None, d_provider_receipt := None,
     d_provider_outcome := Some ''confirmed_no_write_terminal'', d_error_kind := Some error_kind,
     d_error_message := Some READINESS_REJECTION_MESSAGE, d_updated_at := now\<rparr>"

definition reject_scheduled_delivery_readiness ::
  "ext \<Rightarrow> delivery_authority \<Rightarrow> string \<Rightarrow> i64 \<Rightarrow> delivery_db \<Rightarrow> (state_error + bool) \<times> delivery_db" where
  "reject_scheduled_delivery_readiness x authority error_kind now db =
     transact_delivery db
       (lift (rbind (validate_scheduled_delivery_authority x authority) (\<lambda>_.
        rbind (validate_delivery_error error_kind (Some READINESS_REJECTION_MESSAGE)) (\<lambda>_.
        if now < 0
        then Inl (InvalidSchedulerState
          ''scheduled delivery readiness rejection time must be nonnegative'')
        else rbind (update_deliveries x False
          (\<lambda>d. authority_matches authority d \<and> d_state d = da_source_state authority
             \<and> d_updated_at d \<le> now
             \<and> (da_source_state authority = DPending
                \<or> (da_source_state authority = DFailedRetryable \<and> retry_due now d)))
          (reject_row error_kind now) db) (\<lambda>(db', n). Inr (db', Inr (n \<noteq> 0)))))))"

section \<open>Claims\<close>

definition delivery_idempotency_key :: "delivery_row \<Rightarrow> string option" where
  "delivery_idempotency_key d =
     (case d_idempotency_key d of
        Some k \<Rightarrow> Some k
      | None \<Rightarrow> map_option (\<lambda>digest. ''delivery-v1:'' @ encode_sha256 (d_delivery_id d) @ '':'' @ digest)
          (payload_digest_of d))"

definition claim_delivery_row ::
  "delivery_db \<Rightarrow> string \<Rightarrow> i64 \<Rightarrow> i64 \<Rightarrow> delivery_row \<Rightarrow> delivery_row" where
  "claim_delivery_row db owner expires now d = d \<lparr>
     d_state := DSending, d_attempt := d_attempt d + 1, d_fence := d_fence d + 1,
     d_lease_owner := Some owner, d_lease_expires_at := Some expires,
     d_idempotency_key := delivery_idempotency_key d,
     d_claimed_baseline_version := Some (case baseline_of db d of
       None \<Rightarrow> 0 | Some b \<Rightarrow> ab_baseline_version b),
     d_updated_at := now\<rparr>"

definition delivery_attempt_of ::
  "delivery_row \<Rightarrow> string \<Rightarrow> i64 \<Rightarrow> i64 \<Rightarrow> string \<Rightarrow> i64 \<Rightarrow> delivery_attempt_row" where
  "delivery_attempt_of d owner expires now key claimed = \<lparr>
     da_row_delivery_id = d_delivery_id d, da_attempt = d_attempt d, da_fence = d_fence d,
     da_lease_owner = owner, da_lease_expires_at = expires, da_idempotency_key = key,
     da_claimed_baseline_version = claimed, da_state = DSending, da_provider_receipt = None,
     da_provider_outcome = None, da_error_kind = None, da_error_message = None,
     da_started_at = now, da_completed_at = None\<rparr>"

definition binding_of_claim :: "delivery_row \<Rightarrow> string \<Rightarrow> string \<Rightarrow> delivery_binding" where
  "binding_of_claim d owner key = \<lparr>dlb_delivery_id = d_delivery_id d, dlb_attempt = d_attempt d,
     dlb_fence = d_fence d, dlb_lease_owner = owner, dlb_idempotency_key = key\<rparr>"

text \<open>The part of a claim after its update returned the row: the attempt, then the payload and target
  checks.\<close>

definition record_delivery_claim ::
  "ext \<Rightarrow> delivery_row \<Rightarrow> string \<Rightarrow> i64 \<Rightarrow> i64 \<Rightarrow> delivery_db
     \<Rightarrow> state_error + (delivery_db \<times> delivery_binding \<times> payload_snapshot)" where
  "record_delivery_claim x d owner expires now db =
     rbind (ok_or (scheduler_error SqlxOther) (d_idempotency_key d)) (\<lambda>key.
     rbind (ok_or (scheduler_error SqlxOther) (d_claimed_baseline_version d)) (\<lambda>claimed.
     rbind (insert_delivery_attempt (delivery_attempt_of d owner expires now key claimed) db) (\<lambda>db1.
     rbind (delivery_payload_from_row x d) (\<lambda>payload.
     rbind (validate_delivery_intent_target_snapshot x (d_target_json d)
       (d_target_identity_digest d) (d_target_snapshot_digest_algorithm d)
       (d_target_snapshot_digest d)) (\<lambda>_.
     Inr (db1, binding_of_claim d owner key, payload))))))"

definition unblocked_pending :: "delivery_db \<Rightarrow> i64 \<Rightarrow> delivery_row \<Rightarrow> bool" where
  "unblocked_pending db now d \<longleftrightarrow> d_state d = DPending \<and> d_payload d \<noteq> None \<and> d_updated_at d \<le> now
     \<and> \<not> send_blocked db d"

definition oldest_delivery ::
  "(delivery_row \<Rightarrow> bool) \<Rightarrow> delivery_db \<Rightarrow> delivery_row option" where
  "oldest_delivery w db = select_min (\<lambda>d. (d_created_at d, d_delivery_id d)) w (dl_deliveries db)"

text \<open>No row was claimed: a pending payload whose counters are spent is counted once and refused.\<close>

definition refuse_spent ::
  "ext \<Rightarrow> (delivery_row \<Rightarrow> bool) \<Rightarrow> delivery_db
     \<Rightarrow> txn_exit + (delivery_db \<times> (state_error + claimed_delivery option))" where
  "refuse_spent x w db =
     (if list_ex w (dl_deliveries db) then
        rbind (lift (update_deliveries x False (\<lambda>d. w d \<and> \<not> d_counter_limit_recorded d)
          (\<lambda>d. d \<lparr>d_counter_limit_recorded := True\<rparr>) db)) (\<lambda>(db1, n).
        rbind (lift (count_transition PolicyLimitRejected n db1)) (\<lambda>db2.
        Inr (db2, Inl ScheduledDeliveryCounterExhausted)))
      else Inr (db, Inr None))"

definition claim_next_scheduled_delivery ::
  "ext \<Rightarrow> string \<Rightarrow> i64 \<Rightarrow> i64 \<Rightarrow> delivery_db
     \<Rightarrow> (state_error + claimed_delivery option) \<times> delivery_db" where
  "claim_next_scheduled_delivery x owner now expires db =
     transact_delivery db
       (rbind (lift (map_err invalid_value
          (validate_text ''scheduled delivery lease owner'' owner))) (\<lambda>_.
        if now < 0 \<or> expires \<le> now
        then Inl (Abort (InvalidSchedulerState
          ''scheduled delivery lease must expire after claim time''))
        else case oldest_delivery (\<lambda>d. unblocked_pending db now d) db of
          Some c \<Rightarrow>
            if unchanged db c
            then rbind (lift (update_deliveries x True (\<lambda>d. d_delivery_id d = d_delivery_id c
                \<and> d_state d = DPending \<and> d_updated_at d \<le> now \<and> unchanged db d)
                (skip_row db now) db)) (\<lambda>(db', n). Inr (db', Inr None))
            else (case oldest_delivery (\<lambda>d. unblocked_pending db now d \<and> counters_left d) db of
                None \<Rightarrow> refuse_spent x (\<lambda>d. d_state d = DPending \<and> d_payload d \<noteq> None
                  \<and> counters_spent d) db
              | Some m \<Rightarrow>
                  if unchanged db m
                  then refuse_spent x (\<lambda>d. d_state d = DPending \<and> d_payload d \<noteq> None
                    \<and> counters_spent d) db
                  else rbind (lift (update_deliveries x True (\<lambda>d. d_delivery_id d = d_delivery_id m
                      \<and> d_state d = DPending \<and> d_updated_at d \<le> now \<and> \<not> unchanged db d)
                      (claim_delivery_row db owner expires now) db)) (\<lambda>(db1, _).
                    let d = claim_delivery_row db owner expires now m in
                    rbind (lift (record_delivery_claim x d owner expires now db1))
                      (\<lambda>(db2, binding, payload).
                    Inr (db2, rbind (scheduler_policy_from_snapshot x (d_policy_version d)
                        (d_policy_json d)) (\<lambda>policy.
                      Inr (Some \<lparr>cd_binding = binding, cd_payload = payload,
                        cd_target_json = d_target_json d, cd_scheduler_policy = policy\<rparr>))))))
        | None \<Rightarrow> refuse_spent x (\<lambda>d. d_state d = DPending \<and> d_payload d \<noteq> None
            \<and> counters_spent d) db))"

section \<open>Claiming one exact authority\<close>

definition terminalize_row :: "ext \<Rightarrow> i64 \<Rightarrow> delivery_row \<Rightarrow> delivery_row" where
  "terminalize_row x now d = d \<lparr>d_state := DFailedTerminal, d_next_attempt_at := None,
     d_lease_owner := None, d_lease_expires_at := None, d_provider_receipt := None,
     d_provider_outcome := Some ''confirmed_no_write_terminal'',
     d_error_kind := Some (if past_deadline x now d then ''delivery_deadline_exceeded''
       else ''delivery_retry_exhausted''),
     d_error_message := Some ''provider rejected exact delivery target during readiness'',
     d_updated_at := now\<rparr>"

definition terminalize_exact_delivery_if_exhausted ::
  "ext \<Rightarrow> delivery_authority \<Rightarrow> delivery_state \<Rightarrow> i64 \<Rightarrow> delivery_db
     \<Rightarrow> state_error + (delivery_db \<times> bool)" where
  "terminalize_exact_delivery_if_exhausted x authority source_state now db =
     rbind (update_deliveries x False
       (\<lambda>d. authority_matches authority d \<and> d_state d = source_state
          \<and> (source_state = DPending \<or> retry_due now d)
          \<and> (attempts_exhausted x d \<or> past_deadline x now d))
       (terminalize_row x now) db) (\<lambda>(db', n). Inr (db', n = 1))"

text \<open>\<open>updated_at = next_attempt_at\<close>: the statement only selects rows with a next attempt.\<close>

definition requeue_row :: "delivery_row \<Rightarrow> delivery_row" where
  "requeue_row d = d \<lparr>d_state := DPending,
     d_updated_at := (case d_next_attempt_at d of None \<Rightarrow> d_updated_at d | Some t \<Rightarrow> t),
     d_next_attempt_at := None, d_claimed_baseline_version := None, d_provider_outcome := None,
     d_error_kind := None, d_error_message := None\<rparr>"

definition requeue_exact_retryable_delivery ::
  "ext \<Rightarrow> delivery_authority \<Rightarrow> i64 \<Rightarrow> delivery_db \<Rightarrow> state_error + (delivery_db \<times> bool)" where
  "requeue_exact_retryable_delivery x authority now db =
     rbind (terminalize_exact_delivery_if_exhausted x authority DFailedRetryable now db)
       (\<lambda>(db1, terminal).
     if terminal then Inr (db1, False)
     else rbind (update_deliveries x True
       (\<lambda>d. authority_matches authority d \<and> d_state d = DFailedRetryable \<and> retry_due now d
          \<and> attempts_left x d \<and> counters_left d \<and> \<not> send_blocked db1 d \<and> \<not> unchanged db1 d)
       requeue_row db1) (\<lambda>(db2, n).
     if n = 1 then Inr (db2, True)
     else if list_ex (\<lambda>d. authority_matches authority d \<and> d_state d = DFailedRetryable
          \<and> retry_due now d \<and> counters_spent d) (dl_deliveries db2)
     then Inl ScheduledDeliveryCounterExhausted
     else Inr (db2, False)))"

record delivery_clock =
  clock_observed :: i64
  clock_claim :: i64
  clock_finish :: i64

text \<open>How the transaction of an exact claim ends: a commit with its result, or a rollback because the
  commit came too late, for the lease alone or for the delivery deadline.\<close>

datatype claim_end =
    ClaimCommit delivery_db "state_error + claimed_delivery option"
  | ClaimTooLate bool i64

definition exact_claimable :: "ext \<Rightarrow> delivery_authority \<Rightarrow> i64 \<Rightarrow> delivery_db \<Rightarrow> delivery_row \<Rightarrow> bool" where
  "exact_claimable x authority now db d \<longleftrightarrow>
     authority_matches authority d \<and> d_state d = DPending \<and> attempts_left x d \<and> counters_left d
     \<and> before_deadline x now d \<and> d_updated_at d \<le> now \<and> \<not> send_blocked db d \<and> \<not> unchanged db d"

definition exact_claim_row ::
  "delivery_db \<Rightarrow> string \<Rightarrow> i64 \<Rightarrow> i64 \<Rightarrow> delivery_row \<Rightarrow> delivery_row" where
  "exact_claim_row db owner expires now d = claim_delivery_row db owner expires now d \<lparr>
     d_next_attempt_at := None, d_provider_outcome := None, d_error_kind := None,
     d_error_message := None\<rparr>"

definition refuse_exact ::
  "ext \<Rightarrow> delivery_authority \<Rightarrow> i64 \<Rightarrow> delivery_db \<Rightarrow> txn_exit + claim_end" where
  "refuse_exact x authority now db =
     rbind (lift (terminalize_exact_delivery_if_exhausted x authority DPending now db))
       (\<lambda>(db1, terminal).
     if terminal then Inr (ClaimCommit db1 (Inr None))
     else rbind (refuse_spent x (\<lambda>d. d_delivery_id d = da_delivery_id authority \<and> d_state d = DPending
         \<and> counters_spent d) db1) (\<lambda>(db2, v). Inr (ClaimCommit db2 v)))"

definition finish_exact_claim ::
  "ext \<Rightarrow> delivery_row \<Rightarrow> string \<Rightarrow> i64 \<Rightarrow> i64 \<Rightarrow> i64 \<Rightarrow> delivery_db \<Rightarrow> txn_exit + claim_end" where
  "finish_exact_claim x d owner expires claim_now commit_now db =
     rbind (lift (record_delivery_claim x d owner expires claim_now db)) (\<lambda>(db1, binding, payload).
     rbind (lift (scheduler_policy_from_snapshot x (d_policy_version d) (d_policy_json d))) (\<lambda>policy.
     let late = deadline_reached policy (ps_created_at payload) commit_now in
     if expires \<le> commit_now \<or> late then Inr (ClaimTooLate late commit_now)
     else Inr (ClaimCommit db1 (Inr (Some \<lparr>cd_binding = binding, cd_payload = payload,
       cd_target_json = d_target_json d, cd_scheduler_policy = policy\<rparr>)))))"

definition claim_exact_body ::
  "ext \<Rightarrow> delivery_authority \<Rightarrow> string \<Rightarrow> i64 \<Rightarrow> delivery_clock \<Rightarrow> delivery_db
     \<Rightarrow> txn_exit + claim_end" where
  "claim_exact_body x authority owner now clock db =
     (let observed_now = max (clock_observed clock) now;
          claim_now = max (clock_claim clock) observed_now;
          commit_now = max (clock_finish clock) claim_now in
      rbind (lift (terminalize_exact_delivery_if_exhausted x authority (da_source_state authority)
        observed_now db)) (\<lambda>(db1, terminal).
      if terminal then Inr (ClaimCommit db1 (Inr None))
      else rbind (if da_source_state authority = DFailedRetryable
          then lift (requeue_exact_retryable_delivery x authority observed_now db1)
          else Inr (db1, True)) (\<lambda>(db2, ready).
      if \<not> ready then Inr (ClaimCommit db2 (Inr None))
      else rbind (lift (ok_or (InvalidSchedulerState ''scheduled delivery lease overflows'')
          (checked_add claim_now
            (uint (delivery_lease_seconds (da_scheduler_policy authority)))))) (\<lambda>expires.
      case List.find (exact_claimable x authority claim_now db2) (dl_deliveries db2) of
        None \<Rightarrow> refuse_exact x authority claim_now db2
      | Some m \<Rightarrow>
          rbind (lift (update_deliveries x True (exact_claimable x authority claim_now db2)
            (exact_claim_row db2 owner expires claim_now) db2)) (\<lambda>(db3, _).
          finish_exact_claim x (exact_claim_row db2 owner expires claim_now m) owner expires
            claim_now commit_now db3)))))"

definition claim_scheduled_delivery_inner ::
  "ext \<Rightarrow> delivery_authority \<Rightarrow> string \<Rightarrow> i64 \<Rightarrow> delivery_clock \<Rightarrow> delivery_db
     \<Rightarrow> (state_error + claimed_delivery option) \<times> delivery_db" where
  "claim_scheduled_delivery_inner x authority owner now clock db =
     (case rbind (lift (map_err invalid_value
            (validate_text ''scheduled delivery lease owner'' owner))) (\<lambda>_.
          rbind (lift (validate_scheduled_delivery_authority x authority)) (\<lambda>_.
          if now < 0
          then Inl (Abort (InvalidSchedulerState
            ''scheduled delivery claim time must be nonnegative''))
          else claim_exact_body x authority owner now clock db)) of
        Inl e \<Rightarrow> transact_delivery db (Inl e)
      | Inr (ClaimCommit db' v) \<Rightarrow> (v, db')
      | Inr (ClaimTooLate late commit_now) \<Rightarrow>
          if \<not> late then (Inr None, db)
          else transact_delivery db
            (rbind (lift (terminalize_exact_delivery_if_exhausted x authority
               (da_source_state authority) commit_now db)) (\<lambda>(db', _). Inr (db', Inr None))))"

definition claim_scheduled_delivery_from_snapshot_with_clock ::
  "ext \<Rightarrow> delivery_authority \<Rightarrow> string \<Rightarrow> i64 \<Rightarrow> delivery_clock \<Rightarrow> delivery_db
     \<Rightarrow> (state_error + claimed_delivery option) \<times> delivery_db" where
  "claim_scheduled_delivery_from_snapshot_with_clock x authority owner now clock db =
     claim_scheduled_delivery_inner x authority owner now clock db"

section \<open>Sends in flight\<close>

definition delivery_matches :: "delivery_binding \<Rightarrow> delivery_row \<Rightarrow> bool" where
  "delivery_matches b d \<longleftrightarrow>
     d_delivery_id d = dlb_delivery_id b \<and> d_state d = DSending \<and> d_attempt d = dlb_attempt b
     \<and> d_fence d = dlb_fence b \<and> d_lease_owner d = Some (dlb_lease_owner b)
     \<and> d_idempotency_key d = Some (dlb_idempotency_key b)"

definition delivery_attempt_matches :: "delivery_binding \<Rightarrow> delivery_attempt_row \<Rightarrow> bool" where
  "delivery_attempt_matches b a \<longleftrightarrow>
     da_row_delivery_id a = dlb_delivery_id b \<and> da_attempt a = dlb_attempt b
     \<and> da_fence a = dlb_fence b \<and> da_lease_owner a = dlb_lease_owner b
     \<and> da_idempotency_key a = dlb_idempotency_key b \<and> da_state a = DSending"

definition delivery_lease :: "(i64 \<Rightarrow> bool) \<Rightarrow> delivery_row \<Rightarrow> bool" where
  "delivery_lease P d = (case d_lease_expires_at d of None \<Rightarrow> False | Some t \<Rightarrow> P t)"

text \<open>The pair of guarded statements of a fenced transition; both run before the counts are
  compared.\<close>

definition fenced_delivery_update ::
  "ext \<Rightarrow> (delivery_row \<Rightarrow> bool) \<Rightarrow> (delivery_row \<Rightarrow> delivery_row) \<Rightarrow> (delivery_attempt_row \<Rightarrow> bool)
     \<Rightarrow> (delivery_attempt_row \<Rightarrow> delivery_attempt_row) \<Rightarrow> delivery_db \<Rightarrow> txn_exit + delivery_db" where
  "fenced_delivery_update x wd fd wa fa db =
     rbind (lift (update_deliveries x False wd fd db)) (\<lambda>(db1, n).
     rbind (lift (update_delivery_attempts wa fa db1)) (\<lambda>(db2, k).
     if n \<noteq> 1 \<or> k \<noteq> 1 then Inl LostLease else Inr db2))"

definition heartbeat_scheduled_delivery ::
  "ext \<Rightarrow> delivery_binding \<Rightarrow> i64 \<Rightarrow> i64 \<Rightarrow> delivery_db \<Rightarrow> (state_error + unit) \<times> delivery_db" where
  "heartbeat_scheduled_delivery x b now expires db =
     transact_delivery db
       (rbind (lift (validate_delivery_binding b)) (\<lambda>_.
        if expires \<le> now
        then Inl (Abort (InvalidSchedulerState
          ''scheduled delivery heartbeat must extend its lease''))
        else rbind (fenced_delivery_update x
          (\<lambda>d. delivery_matches b d \<and> delivery_lease (\<lambda>t. t > now \<and> t < expires) d
             \<and> d_updated_at d \<le> now)
          (\<lambda>d. d \<lparr>d_lease_expires_at := Some expires, d_updated_at := now\<rparr>)
          (\<lambda>a. delivery_attempt_matches b a \<and> da_lease_expires_at a > now
             \<and> da_lease_expires_at a < expires)
          (\<lambda>a. a \<lparr>da_lease_expires_at := expires\<rparr>) db) (\<lambda>db'. Inr (db', Inr ()))))"

definition lease_expired_message :: string where
  "lease_expired_message = ''provider write outcome is unknown after delivery lease expiry''"

definition unknown_row :: "i64 \<Rightarrow> delivery_row \<Rightarrow> delivery_row" where
  "unknown_row now d = d \<lparr>d_state := DDeliveryUnknown, d_lease_owner := None,
     d_lease_expires_at := None, d_provider_outcome := Some ''ambiguous_post_write'',
     d_error_kind := Some ''delivery_lease_expired'', d_error_message := Some lease_expired_message,
     d_updated_at := now\<rparr>"

definition unknown_attempt :: "i64 \<Rightarrow> delivery_attempt_row \<Rightarrow> delivery_attempt_row" where
  "unknown_attempt now a = a \<lparr>da_state := DDeliveryUnknown,
     da_provider_outcome := Some ''ambiguous_post_write'',
     da_error_kind := Some ''delivery_lease_expired'',
     da_error_message := Some lease_expired_message, da_completed_at := Some now\<rparr>"

text \<open>The authority an expired row still carries.\<close>

definition row_delivery_binding :: "delivery_row \<Rightarrow> string \<Rightarrow> string \<Rightarrow> delivery_binding" where
  "row_delivery_binding d owner key = \<lparr>dlb_delivery_id = d_delivery_id d, dlb_attempt = d_attempt d,
     dlb_fence = d_fence d, dlb_lease_owner = owner, dlb_idempotency_key = key\<rparr>"

definition expired_delivery :: "delivery_binding \<Rightarrow> i64 \<Rightarrow> i64 \<Rightarrow> delivery_row \<Rightarrow> bool" where
  "expired_delivery b expires now d \<longleftrightarrow>
     delivery_matches b d \<and> d_lease_expires_at d = Some expires \<and> expires \<le> now
     \<and> d_updated_at d \<le> now"

definition expired_delivery_attempt :: "delivery_binding \<Rightarrow> i64 \<Rightarrow> i64 \<Rightarrow> delivery_attempt_row \<Rightarrow> bool" where
  "expired_delivery_attempt b expires now a \<longleftrightarrow>
     delivery_attempt_matches b a \<and> da_lease_expires_at a = expires \<and> expires \<le> now
     \<and> da_started_at a \<le> now"

definition reconcile_stale_delivery ::
  "delivery_db \<Rightarrow> txn_exit + (delivery_db \<times> (state_error + delivery_reconcile_outcome))" where
  "reconcile_stale_delivery db =
     rbind (lift (count_transition StaleFenceRejected 1 db)) (\<lambda>db'. Inr (db', Inr DeliveryStale))"

definition reconcile_eligible ::
  "ext \<Rightarrow> delivery_row \<Rightarrow> i64 \<Rightarrow> i64 \<Rightarrow> i64 \<Rightarrow> i64 \<Rightarrow> delivery_db
     \<Rightarrow> txn_exit + (delivery_db \<times> (state_error + delivery_reconcile_outcome))" where
  "reconcile_eligible x d attempt fence expires now db =
     rbind (lift (ok_or (scheduler_error SqlxOther) (d_lease_owner d))) (\<lambda>owner.
     rbind (lift (ok_or (scheduler_error SqlxOther) (d_idempotency_key d))) (\<lambda>key.
     let b = row_delivery_binding d owner key in
     rbind (lift (update_deliveries x False
       (\<lambda>e. expired_delivery b expires now e \<and> d_payload e \<noteq> None)
       (unknown_row now) db)) (\<lambda>(db1, n).
     if n \<noteq> 1 then reconcile_stale_delivery db1
     else rbind (lift (update_delivery_attempts (expired_delivery_attempt b expires now)
         (unknown_attempt now) db1)) (\<lambda>(db2, k).
       if k \<noteq> 1
       then Inl (Abort (InvalidSchedulerState
         ''exact delivery reconciliation found inconsistent attempt authority''))
       else Inr (db2, Inr (DeliveryApplied (d_delivery_id d) attempt fence))))))"

definition reconcile_expired_scheduled_delivery ::
  "ext \<Rightarrow> string \<Rightarrow> delivery_state \<Rightarrow> i64 \<Rightarrow> i64 \<Rightarrow> i64 \<Rightarrow> i64 \<Rightarrow> delivery_db
     \<Rightarrow> (state_error + delivery_reconcile_outcome) \<times> delivery_db" where
  "reconcile_expired_scheduled_delivery x delivery_id expected_state attempt fence expires now db =
     transact_delivery db
       (rbind (lift (map_err invalid_value
          (validate_text ''scheduled delivery reconciliation id'' delivery_id))) (\<lambda>_.
        if expected_state \<noteq> DSending \<or> attempt \<le> 0 \<or> fence \<le> 0 \<or> expires < 0 \<or> now < 0
        then Inl (Abort (InvalidSchedulerState
          ''invalid exact scheduled delivery reconciliation authority''))
        else case Option.bind (find_delivery delivery_id db)
            (\<lambda>d. if d_payload d = None then None else Some d) of
          None \<Rightarrow> reconcile_stale_delivery db
        | Some d \<Rightarrow>
            if d_state d \<noteq> DSending \<or> d_attempt d \<noteq> attempt \<or> d_fence d \<noteq> fence
               \<or> d_lease_expires_at d \<noteq> Some expires
            then reconcile_stale_delivery db
            else if expires > now \<or> d_updated_at d > now then Inr (db, Inr DeliveryNotEligible)
            else reconcile_eligible x d attempt fence expires now db))"

fun reclaim_deliveries :: "ext \<Rightarrow> i64 \<Rightarrow> nat \<Rightarrow> delivery_db \<Rightarrow> txn_exit + (delivery_db \<times> nat)" where
  "reclaim_deliveries x now 0 db = Inr (db, 0)"
| "reclaim_deliveries x now (Suc limit) db =
     (case select_min (\<lambda>d. (case d_lease_expires_at d of None \<Rightarrow> 0 | Some t \<Rightarrow> t, d_delivery_id d))
         (\<lambda>d. d_state d = DSending \<and> delivery_lease (\<lambda>t. t \<le> now) d \<and> d_updated_at d \<le> now)
         (dl_deliveries db) of
        None \<Rightarrow> Inr (db, 0)
      | Some d \<Rightarrow>
          rbind (lift (ok_or (scheduler_error SqlxOther) (d_lease_owner d))) (\<lambda>owner.
          rbind (lift (ok_or (scheduler_error SqlxOther) (d_idempotency_key d))) (\<lambda>key.
          rbind (lift (ok_or (scheduler_error SqlxOther) (d_lease_expires_at d))) (\<lambda>expires.
          let b = row_delivery_binding d owner key in
          rbind (fenced_delivery_update x (expired_delivery b expires now) (unknown_row now)
            (expired_delivery_attempt b expires now) (unknown_attempt now) db) (\<lambda>db1.
          rbind (reclaim_deliveries x now limit db1) (\<lambda>(db2, n). Inr (db2, Suc n)))))))"

definition reclaim_expired_scheduled_deliveries ::
  "ext \<Rightarrow> i64 \<Rightarrow> u32 \<Rightarrow> delivery_db \<Rightarrow> (state_error + nat) \<times> delivery_db" where
  "reclaim_expired_scheduled_deliveries x now limit db =
     transact_delivery db
       (if now < 0 \<or> limit = 0
        then Inl (Abort (InvalidSchedulerState
          ''scheduled delivery reclaim requires nonnegative time and positive limit''))
        else rbind (reclaim_deliveries x now (unat limit) db) (\<lambda>(db', n). Inr (db', Inr n)))"

section \<open>Provider outcomes\<close>

record delivery_transition =
  dt_state :: delivery_state
  dt_outcome :: string
  dt_receipt :: "string option"
  dt_error_kind :: "string option"
  dt_error_message :: "string option"
  dt_next_attempt_at :: "i64 option"

definition finish_delivery_row :: "delivery_transition \<Rightarrow> i64 \<Rightarrow> delivery_row \<Rightarrow> delivery_row" where
  "finish_delivery_row t now d = d \<lparr>d_state := dt_state t, d_next_attempt_at := dt_next_attempt_at t,
     d_lease_owner := None, d_lease_expires_at := None, d_provider_receipt := dt_receipt t,
     d_provider_outcome := Some (dt_outcome t), d_error_kind := dt_error_kind t,
     d_error_message := dt_error_message t, d_updated_at := now\<rparr>"

definition finish_delivery_attempt ::
  "delivery_transition \<Rightarrow> i64 \<Rightarrow> delivery_attempt_row \<Rightarrow> delivery_attempt_row" where
  "finish_delivery_attempt t now a = a \<lparr>da_state := dt_state t, da_provider_receipt := dt_receipt t,
     da_provider_outcome := Some (dt_outcome t), da_error_kind := dt_error_kind t,
     da_error_message := dt_error_message t, da_completed_at := Some now\<rparr>"

definition transition_delivery_terminal ::
  "ext \<Rightarrow> delivery_binding \<Rightarrow> delivery_transition \<Rightarrow> i64 \<Rightarrow> delivery_db \<Rightarrow> txn_exit + delivery_db" where
  "transition_delivery_terminal x b t completed_at db =
     (if completed_at < 0
      then Inl (Abort (InvalidSchedulerState
        ''scheduled delivery completion timestamp must be nonnegative''))
      else fenced_delivery_update x
        (\<lambda>d. delivery_matches b d \<and> delivery_lease (\<lambda>e. e > completed_at) d
           \<and> d_updated_at d \<le> completed_at)
        (finish_delivery_row t completed_at)
        (\<lambda>a. delivery_attempt_matches b a \<and> da_lease_expires_at a > completed_at
           \<and> da_started_at a \<le> completed_at)
        (finish_delivery_attempt t completed_at) db)"

definition delivered_transition :: "string \<Rightarrow> delivery_transition" where
  "delivered_transition receipt = \<lparr>dt_state = DDelivered, dt_outcome = ''confirmed_success'',
     dt_receipt = Some receipt, dt_error_kind = None, dt_error_message = None,
     dt_next_attempt_at = None\<rparr>"

definition complete_scheduled_delivery_delivered ::
  "ext \<Rightarrow> delivery_binding \<Rightarrow> string \<Rightarrow> i64 \<Rightarrow> delivery_db \<Rightarrow> (state_error + unit) \<times> delivery_db" where
  "complete_scheduled_delivery_delivered x b receipt completed_at db =
     transact_delivery db
       (rbind (lift (validate_delivery_binding b)) (\<lambda>_.
        rbind (lift (map_err invalid_value
          (validate_text ''scheduled delivery provider receipt'' receipt))) (\<lambda>_.
        rbind (transition_delivery_terminal x b (delivered_transition receipt) completed_at db) (\<lambda>db1.
        rbind (lift (advance_accepted_delivery_baseline_in_transaction x (dlb_delivery_id b)
          completed_at db1)) (\<lambda>(db2, advanced).
        if \<not> advanced then Inl (Abort ScheduledDeliveryBaselineConflict)
        else Inr (db2, Inr ()))))))"

definition failure_transition :: "delivery_failure \<Rightarrow> delivery_transition" where
  "failure_transition failure =
     (case failure of
        ConfirmedNoWriteRetryable kind message at_time \<Rightarrow>
          \<lparr>dt_state = DFailedRetryable, dt_outcome = ''confirmed_no_write_retryable'',
           dt_receipt = None, dt_error_kind = Some kind, dt_error_message = message,
           dt_next_attempt_at = Some at_time\<rparr>
      | ConfirmedNoWriteTerminal kind message \<Rightarrow>
          \<lparr>dt_state = DFailedTerminal, dt_outcome = ''confirmed_no_write_terminal'',
           dt_receipt = None, dt_error_kind = Some kind, dt_error_message = message,
           dt_next_attempt_at = None\<rparr>
      | AmbiguousPostWrite kind message \<Rightarrow>
          \<lparr>dt_state = DDeliveryUnknown, dt_outcome = ''ambiguous_post_write'',
           dt_receipt = None, dt_error_kind = Some kind, dt_error_message = message,
           dt_next_attempt_at = None\<rparr>)"

definition exhausted_transition :: "delivery_transition \<Rightarrow> delivery_transition" where
  "exhausted_transition t = t \<lparr>dt_state := DFailedTerminal, dt_outcome := ''confirmed_no_write_terminal'',
     dt_error_kind := Some ''delivery_retry_exhausted'', dt_next_attempt_at := None\<rparr>"

definition retry_within_policy ::
  "ext \<Rightarrow> delivery_binding \<Rightarrow> delivery_transition \<Rightarrow> i64 \<Rightarrow> delivery_db \<Rightarrow> txn_exit + delivery_transition" where
  "retry_within_policy x b t completed_at db =
     (case dt_next_attempt_at t of
        None \<Rightarrow> Inr t
      | Some retry_at \<Rightarrow>
          (case List.find (\<lambda>d. d_delivery_id d = dlb_delivery_id b \<and> d_attempt d = dlb_attempt b
               \<and> d_fence d = dlb_fence b \<and> d_lease_owner d = Some (dlb_lease_owner b)
               \<and> d_state d = DSending \<and> delivery_lease (\<lambda>e. e > completed_at) d)
               (dl_deliveries db) of
             None \<Rightarrow> Inl LostLease
           | Some d \<Rightarrow>
               rbind (lift (scheduler_policy_from_snapshot x (d_policy_version d) (d_policy_json d)))
                 (\<lambda>policy.
               rbind (lift (ok_or (scheduler_error SqlxOther) (d_payload d))) (\<lambda>p.
               Inr (if delivery_can_retry_at policy (dlb_attempt b) (pc_created_at p) retry_at
                    then t else exhausted_transition t)))))"

definition complete_scheduled_delivery_failure ::
  "ext \<Rightarrow> delivery_binding \<Rightarrow> delivery_failure \<Rightarrow> i64 \<Rightarrow> delivery_db
     \<Rightarrow> (state_error + unit) \<times> delivery_db" where
  "complete_scheduled_delivery_failure x b failure completed_at db =
     transact_delivery db
       (rbind (lift (validate_delivery_binding b)) (\<lambda>_.
        if (case failure of
              ConfirmedNoWriteRetryable _ _ at_time \<Rightarrow> at_time \<le> completed_at | _ \<Rightarrow> False)
        then Inl (Abort (InvalidSchedulerState ''scheduled delivery retry must be deferred''))
        else let t = failure_transition failure in
        rbind (lift (rbind (ok_or (scheduler_error SqlxOther) (dt_error_kind t)) (\<lambda>kind.
          validate_delivery_error kind (dt_error_message t)))) (\<lambda>_.
        rbind (retry_within_policy x b t completed_at db) (\<lambda>t'.
        rbind (transition_delivery_terminal x b t' completed_at db) (\<lambda>db'.
        Inr (db', Inr ()))))))"

section \<open>Requeueing\<close>

definition retry_exhausted :: "ext \<Rightarrow> delivery_row \<Rightarrow> bool" where
  "retry_exhausted x d \<longleftrightarrow>
     attempts_exhausted x d
     \<or> (case (d_payload d, delivery_policy_int x d ''delivery_deadline_seconds'') of
          (Some p, Some s) \<Rightarrow> pc_created_at p > i64_max - s
            \<or> (case d_next_attempt_at d of None \<Rightarrow> False | Some t \<Rightarrow> t \<ge> pc_created_at p + s)
        | _ \<Rightarrow> False)"

definition exhaust_row :: "i64 \<Rightarrow> delivery_row \<Rightarrow> delivery_row" where
  "exhaust_row now d = d \<lparr>d_state := DFailedTerminal, d_next_attempt_at := None,
     d_provider_outcome := Some ''confirmed_no_write_terminal'',
     d_error_kind := Some ''delivery_retry_exhausted'', d_error_message := None,
     d_updated_at := now\<rparr>"

definition requeue_batch :: "i64 \<Rightarrow> nat \<Rightarrow> delivery_db \<Rightarrow> string list" where
  "requeue_batch now limit db =
     map d_delivery_id (take limit (sort_key
       (\<lambda>d. (case d_next_attempt_at d of None \<Rightarrow> 0 | Some t \<Rightarrow> t, d_delivery_id d))
       (filter (\<lambda>d. d_state d = DFailedRetryable \<and> retry_due now d) (dl_deliveries db))))"

definition requeue_due_scheduled_deliveries ::
  "ext \<Rightarrow> i64 \<Rightarrow> u32 \<Rightarrow> delivery_db \<Rightarrow> (state_error + nat) \<times> delivery_db" where
  "requeue_due_scheduled_deliveries x now limit db =
     transact_delivery db
       (if limit = 0
        then Inl (Abort (InvalidSchedulerState
          ''scheduled delivery requeue limit must be positive''))
        else rbind (lift (update_deliveries x False
          (\<lambda>d. d_state d = DFailedRetryable \<and> retry_due now d \<and> retry_exhausted x d)
          (exhaust_row now) db)) (\<lambda>(db1, _).
        rbind (lift (update_deliveries x True
          (\<lambda>d. d_delivery_id d \<in> set (requeue_batch now (unat limit) db1)) requeue_row db1))
          (\<lambda>(db2, n). Inr (db2, Inr n))))"

end
