(* ===== verification/Run_Completion.thy ===== *)
theory Run_Completion
  imports Delivery_Store
begin

text \<open>
  The completion of a successful run (\<open>complete_scheduled_run_success\<close> in
  \<^verbatim>\<open>crates/state/src/scheduler/store.rs\<close>): in one transaction the result artifact is accepted, the
  execution baseline of the job moves by compare-and-swap, one pending delivery intent is written per
  target of the run's snapshot, and the run and its attempt become succeeded. A lost lease leaves late
  evidence instead; a conflict rolls everything back and is resolved in a transaction of its own.
\<close>

record run_result =
  result_summary :: string
  result_previous_success_context :: string

definition run_result_new :: "string \<Rightarrow> string \<Rightarrow> state_value_error + run_result" where
  "run_result_new summary ctxt =
     rbind (validate_text ''scheduled result summary'' summary) (\<lambda>_.
     if length ctxt > MAX_CONTEXT_BYTES
     then Inl (TooLarge ''scheduled result previous success context'')
     else Inr \<lparr>result_summary = summary, result_previous_success_context = ctxt\<rparr>)"

datatype run_success_outcome = CompletionCommitted | CompletionLateEvidence late_evidence_outcome

section \<open>Statements\<close>

definition artifact_accepted :: "artifact_row \<Rightarrow> store \<Rightarrow> bool" where
  "artifact_accepted a db \<longleftrightarrow>
     list_ex (\<lambda>(r, t). a_run_id t = r_run_id r \<and> a_attempt t = r_attempt r \<and> a_fence t = r_fence r
       \<and> r_run_id r = ar_run_id a \<and> r_job_id r = ar_job_id a
       \<and> r_attempt r = ar_accepted_attempt a \<and> r_fence r = ar_accepted_fence a
       \<and> r_state r = Executing \<and> a_state t = AExecuting)
       (List.product (st_runs db) (st_attempts db))"

definition insert_artifact :: "ext \<Rightarrow> artifact_row \<Rightarrow> delivery_db \<Rightarrow> state_error + delivery_db" where
  "insert_artifact x a db =
     (if \<not> artifact_accepted a (db_runs (dl_db db))
         \<or> list_ex (\<lambda>e. ar_artifact_id e = ar_artifact_id a \<or> ar_run_id e = ar_run_id a)
             (dl_artifacts db)
      then Inl (scheduler_error SQLITE_CONSTRAINT_TRIGGER)
      else rbind (map_err scheduler_error
          (sql_insert (artifact_check x) artifact_unique a (dl_artifacts db))) (\<lambda>rows.
        Inr (db \<lparr>dl_artifacts := rows\<rparr>)))"

text \<open>The intent trigger reads JSON the way serde wrote it: the target is canonical, carries the
  identity and is an element of the run's target snapshot.\<close>

definition intent_accepted :: "ext \<Rightarrow> delivery_row \<Rightarrow> delivery_db \<Rightarrow> bool" where
  "intent_accepted x d db \<longleftrightarrow>
     list_ex (\<lambda>(a, r). ar_artifact_id a = d_result_artifact_id d \<and> ar_run_id a = d_run_id d
       \<and> ar_job_id a = d_job_id d \<and> ar_accepted_attempt a = d_result_attempt d
       \<and> ar_accepted_fence a = d_result_fence d
       \<and> r_run_id r = ar_run_id a \<and> r_job_id r = ar_job_id a
       \<and> (case json_parse x (d_target_json d) of
            Inr v \<Rightarrow> json_print x v = d_target_json d
              \<and> value_get v ''identity_digest'' = Some (JStr (d_target_identity_digest d))
          | _ \<Rightarrow> False)
       \<and> (case json_parse x (r_targets_json r) of
            Inr (JArr targets) \<Rightarrow> list_ex (\<lambda>t. json_print x t = d_target_json d) targets
          | _ \<Rightarrow> False))
       (List.product (dl_artifacts db) (st_runs (db_runs (dl_db db))))"

definition intent_collides :: "delivery_row \<Rightarrow> delivery_row \<Rightarrow> bool" where
  "intent_collides d e \<longleftrightarrow>
     d_delivery_id e = d_delivery_id d \<or> d_intent_key e = d_intent_key d
     \<or> (d_run_id e = d_run_id d \<and> d_target_identity_digest e = d_target_identity_digest d
        \<and> d_delivery_policy_version e = d_delivery_policy_version d)"

definition insert_intent :: "ext \<Rightarrow> delivery_row \<Rightarrow> delivery_db \<Rightarrow> state_error + delivery_db" where
  "insert_intent x d db =
     (if \<not> (d_state d = DPending \<and> d_attempt d = 0 \<and> d_fence d = 0 \<and> d_payload d = None
           \<and> d_idempotency_key d = None)
         \<or> \<not> intent_accepted x d db \<or> list_ex (intent_collides d) (dl_deliveries db)
      then Inl (scheduler_error SQLITE_CONSTRAINT_TRIGGER)
      else rbind (map_err scheduler_error
          (sql_insert (delivery_check x) delivery_unique d (dl_deliveries db))) (\<lambda>rows.
        Inr (db \<lparr>dl_deliveries := rows\<rparr>)))"

section \<open>Completion\<close>

definition new_intent ::
  "run_lease_binding \<Rightarrow> string \<Rightarrow> i64 \<Rightarrow> string \<Rightarrow> i64 \<Rightarrow> delivery_intent_target \<Rightarrow> string
     \<Rightarrow> delivery_row" where
  "new_intent b artifact_id policy_version policy_json completed_at t key = \<lparr>
     d_delivery_id = ''intent:'' @ key, d_run_id = binding_run_id b, d_job_id = binding_job_id b,
     d_target_identity_digest = dit_identity_digest t, d_target_json = dit_canonical_json t,
     d_state = DPending, d_attempt = 0, d_next_attempt_at = None, d_lease_owner = None,
     d_lease_expires_at = None, d_fence = 0, d_idempotency_key = None, d_provider_receipt = None,
     d_provider_outcome = None, d_error_kind = None, d_error_message = None,
     d_delivery_policy_version = DELIVERY_POLICY_VERSION_V1, d_payload = None,
     d_claimed_baseline_version = None, d_result_artifact_id = artifact_id,
     d_result_attempt = binding_attempt b, d_result_fence = binding_fence b,
     d_target_snapshot_digest_algorithm = ''sha256-v1'',
     d_target_snapshot_digest = dit_snapshot_digest t, d_intent_key = key,
     d_policy_version = policy_version, d_policy_json = policy_json, d_created_at = completed_at,
     d_updated_at = completed_at, d_counter_limit_recorded = False\<rparr>"

fun insert_intents ::
  "ext \<Rightarrow> run_lease_binding \<Rightarrow> string \<Rightarrow> i64 \<Rightarrow> string \<Rightarrow> i64 \<Rightarrow> delivery_intent_target list
     \<Rightarrow> delivery_db \<Rightarrow> completion_exit + delivery_db" where
  "insert_intents x b artifact_id policy_version policy_json now [] db = Inr db"
| "insert_intents x b artifact_id policy_version policy_json now (t # ts) db =
     rbind (map_err CompletionAbort (delivery_intent_key (binding_run_id b) (dit_identity_digest t)))
       (\<lambda>key.
     let d = new_intent b artifact_id policy_version policy_json now t key in
     rbind (completion_result (insert_intent x d db)) (\<lambda>db1.
     rbind (map_err CompletionAbort (validate_delivery_intent_target_snapshot x (d_target_json d)
       (d_target_identity_digest d) (d_target_snapshot_digest_algorithm d)
       (d_target_snapshot_digest d))) (\<lambda>_.
     insert_intents x b artifact_id policy_version policy_json now ts db1)))"

definition result_artifact_id :: "ext \<Rightarrow> run_lease_binding \<Rightarrow> string" where
  "result_artifact_id x b = ''result:'' @ digest_identity x
     [''scheduled-result-artifact-v1'', binding_run_id b, int_to_string (binding_attempt b),
      int_to_string (binding_fence b)]"

definition result_json_of :: "ext \<Rightarrow> run_result \<Rightarrow> string" where
  "result_json_of x result = json_print x (json_obj [
     (''schema_version'', JInt 1), (''summary'', JStr (result_summary result))])"

definition new_artifact :: "ext \<Rightarrow> run_lease_binding \<Rightarrow> run_result \<Rightarrow> i64 \<Rightarrow> artifact_row" where
  "new_artifact x b result now = \<lparr>
     ar_artifact_id = result_artifact_id x b, ar_run_id = binding_run_id b,
     ar_job_id = binding_job_id b, ar_accepted_attempt = binding_attempt b,
     ar_accepted_fence = binding_fence b, ar_result_json = result_json_of x result,
     ar_result_hash = sha256_hex x (result_json_of x result),
     ar_previous_success_context = result_previous_success_context result,
     ar_completed_at = now\<rparr>"

text \<open>The checks between finding the executing pair and the first write: the frozen policy's bounds,
  the order of timestamps, the target snapshot and the baseline version the run started from.\<close>

definition completion_plan ::
  "ext \<Rightarrow> run_result \<Rightarrow> i64 \<Rightarrow> run_row \<Rightarrow> attempt_row
     \<Rightarrow> state_error + (delivery_intent_target list \<times> i64)" where
  "completion_plan x result now r a =
     rbind (scheduler_policy_from_snapshot x (r_policy_version r) (r_policy_json r)) (\<lambda>policy.
     if length (result_summary result) > unat (max_summary_bytes policy)
     then Inl (InvalidSchedulerState ''scheduled result summary exceeds max_summary_bytes'')
     else if length (result_json_of x result) > unat (max_result_bytes policy)
     then Inl (InvalidSchedulerState ''scheduled result exceeds max_result_bytes'')
     else rbind (ok_or (InvalidSchedulerState
         ''executing scheduled attempt has no execution timestamp'') (a_executing_at a))
       (\<lambda>executing_at.
     if now < a_claimed_at a \<or> now < executing_at
     then Inl (InvalidSchedulerState ''scheduled completion precedes its accepted execution'')
     else rbind (delivery_intent_targets x (r_targets_json r)) (\<lambda>targets.
     rbind (ok_or (InvalidSchedulerState ''materialized run has no execution baseline snapshot'')
       (r_execution_baseline_json r)) (\<lambda>baseline.
     rbind (execution_baseline_version x baseline) (\<lambda>version. Inr (targets, version))))))"

definition completion_writes ::
  "ext \<Rightarrow> run_lease_binding \<Rightarrow> run_result \<Rightarrow> i64 \<Rightarrow> run_row \<Rightarrow> delivery_intent_target list \<Rightarrow> i64
     \<Rightarrow> delivery_db \<Rightarrow> completion_exit + delivery_db" where
  "completion_writes x b result now r targets version db =
     (let artifact = new_artifact x b result now in
      rbind (completion_result (insert_artifact x artifact db)) (\<lambda>db1.
      rbind (map_err CompletionAbort (compare_and_swap_execution_baseline_in_transaction
        \<lparr>eb_job_id = binding_job_id b, eb_expected_version = version,
         eb_hash_algorithm = ''sha256-v1'', eb_result_hash = ar_result_hash artifact,
         eb_previous_success_context = result_previous_success_context result,
         eb_source_run_id = binding_run_id b, eb_completed_at = now\<rparr> (dl_db db1)))
        (\<lambda>(s, swapped).
      if \<not> swapped then Inl CompletionConflict
      else rbind (insert_intents x b (ar_artifact_id artifact) (r_policy_version r)
          (r_policy_json r) now targets (db1 \<lparr>dl_db := s\<rparr>)) (\<lambda>db2.
      rbind (complete_run_rows x b (dl_artifacts db2) (ar_artifact_id artifact)
        (result_previous_success_context result) (ar_result_hash artifact) now
        (db_runs (dl_db db2))) (\<lambda>runs.
      Inr (db2 \<lparr>dl_db := (dl_db db2) \<lparr>db_runs := runs\<rparr>\<rparr>))))))"

definition completion_late_evidence ::
  "run_lease_binding \<Rightarrow> string \<Rightarrow> i64 \<Rightarrow> delivery_db
     \<Rightarrow> state_error + (delivery_db \<times> run_success_outcome)" where
  "completion_late_evidence b digest now db =
     rbind (append_late_evidence_in_transaction b CompletionAfterLeaseLoss digest now
       (db_runs (dl_db db))) (\<lambda>(s1, evidence).
     rbind (increment_scheduler_transition_total StaleFenceRejected 1 s1) (\<lambda>s2.
     Inr (db \<lparr>dl_db := (dl_db db) \<lparr>db_runs := s2\<rparr>\<rparr>, CompletionLateEvidence evidence)))"

definition resolve_scheduled_run_completion_conflict ::
  "run_lease_binding \<Rightarrow> string \<Rightarrow> i64 \<Rightarrow> delivery_db
     \<Rightarrow> (state_error + run_success_outcome) \<times> delivery_db" where
  "resolve_scheduled_run_completion_conflict b digest now db =
     (if executing_pair b now (db_runs (dl_db db)) \<noteq> None
      then (Inl ScheduledRunCompletionConflict, db)
      else case completion_late_evidence b digest now db of
        Inl e \<Rightarrow> (Inl e, db) | Inr (db', outcome) \<Rightarrow> (Inr outcome, db'))"

text \<open>The resolution of a conflict is a transaction of its own; here it sees the rolled-back database,
  and a writer in between is a step of its own.\<close>

definition complete_scheduled_run_success ::
  "ext \<Rightarrow> run_lease_binding \<Rightarrow> run_result \<Rightarrow> i64 \<Rightarrow> delivery_db
     \<Rightarrow> (state_error + run_success_outcome) \<times> delivery_db" where
  "complete_scheduled_run_success x b result now db =
     (case rbind (validate_lease_binding b) (\<lambda>_.
          if now < 0
          then Inl (InvalidSchedulerState
            ''scheduled completion timestamp must be nonnegative'')
          else rbind (map_err invalid_value
            (validate_text ''scheduled result summary'' (result_summary result))) (\<lambda>_.
          if length (result_previous_success_context result) > MAX_CONTEXT_BYTES
          then Inl (InvalidSchedulerState
            ''scheduled result previous success context exceeds its storage bound'')
          else Inr ())) of
        Inl e \<Rightarrow> (Inl e, db)
      | Inr _ \<Rightarrow>
          let digest = sha256_hex x (result_json_of x result) in
          (case executing_pair b now (db_runs (dl_db db)) of
             None \<Rightarrow>
               (case completion_late_evidence b digest now db of
                  Inl e \<Rightarrow> (Inl e, db) | Inr (db', outcome) \<Rightarrow> (Inr outcome, db'))
           | Some (r, a) \<Rightarrow>
               (case completion_plan x result now r a of
                  Inl e \<Rightarrow> (Inl e, db)
                | Inr (targets, version) \<Rightarrow>
                    (case completion_writes x b result now r targets version db of
                       Inl (CompletionAbort e) \<Rightarrow> (Inl e, db)
                     | Inl CompletionConflict \<Rightarrow>
                         resolve_scheduled_run_completion_conflict b digest now db
                     | Inr db' \<Rightarrow> (Inr CompletionCommitted, db')))))"

end
