(* ===== verification/Delivery_Lifecycle.thy ===== *)
theory Delivery_Lifecycle
  imports Run_Completion Job_History
begin

text \<open>
  What the delivery store promises. The abstract lifecycle of one delivery is a state machine on its
  state and its two counters. The invariant ties every send in flight to exactly one attempt, says that
  every attempt but the newest was confirmed not to have written anything, and that an accepted
  baseline names a delivered payload. The interface \<open>fenced_send\<close> says what a pair of guarded statements
  on a send and its attempt must satisfy to keep all that; the operations discharge it in
  \<open>Delivery_Safety\<close>.
\<close>

section \<open>The abstract lifecycle\<close>

type_synonym dlife = "delivery_state \<times> int \<times> int"

inductive dstep :: "dlife \<Rightarrow> dlife \<Rightarrow> bool" where
  send: "dstep (DPending, n, f) (DSending, n + 1, f + 1)"
| give_up: "s \<in> {DPending, DFailedRetryable} \<Longrightarrow> dstep (s, n, f) (DFailedTerminal, n, f)"
| skip: "t \<in> {DSkippedNone, DSkippedUnchanged} \<Longrightarrow> dstep (DPending, n, f) (t, n, f)"
| resolve: "t \<in> {DDelivered, DFailedRetryable, DFailedTerminal, DDeliveryUnknown} \<Longrightarrow>
    dstep (DSending, n, f) (t, n, f)"
| requeue: "dstep (DFailedRetryable, n, f) (DPending, n, f)"
| operate: "t \<in> {DDelivered, DFailedTerminal, DPending} \<Longrightarrow> dstep (DDeliveryUnknown, n, f) (t, n, f)"

inductive_cases dstepE [elim!]: "dstep (s, n, f) v"

definition settled_states :: "delivery_state list" where
  "settled_states = [DDelivered, DFailedTerminal, DSkippedNone, DSkippedUnchanged]"

lemma dstep_final: "dstep (s, n, f) v \<Longrightarrow> s \<notin> set settled_states"
  by (auto simp: settled_states_def)

lemma dsteps_final:
  assumes "dstep\<^sup>*\<^sup>* (s, n, f) v" and "s \<in> set settled_states"
  shows "v = (s, n, f)"
  using assms(1) by (rule converse_rtranclpE) (use assms(2) dstep_final in auto)

lemma dstep_counters:
  "dstep (s, n, f) (t, m, g) \<Longrightarrow> (m = n \<and> g = f) \<or> (s = DPending \<and> t = DSending \<and> m = n + 1 \<and> g = f + 1)"
  by auto

lemma dsteps_counters: "dstep\<^sup>*\<^sup>* (s, n, f) (t, m, g) \<Longrightarrow> f \<le> g \<and> m - n = g - f"
proof (induction "(t, m, g)" arbitrary: t m g rule: rtranclp_induct)
  case (step y)
  obtain t' m' g' where y: "y = (t', m', g')" by (cases y) auto
  then show ?case
    using step.hyps(3) [OF y] dstep_counters [of t' m' g' t m g] step.hyps(2) by auto
qed simp

text \<open>A delivery that is not being sent can only be sent again under a larger fence.\<close>

lemma dsteps_release:
  "dstep\<^sup>*\<^sup>* (s, n, f) (t, m, g) \<Longrightarrow> s \<noteq> DSending \<Longrightarrow> t = DSending \<Longrightarrow> f < g"
proof (induction "(t, m, g)" arbitrary: t m g rule: rtranclp_induct)
  case (step y)
  obtain t' m' g' where y: "y = (t', m', g')" by (cases y) auto
  have "g = g' + 1" using step.hyps(2) step.prems y by auto
  then show ?case using dsteps_counters [of s n f t' m' g'] step.hyps(1) y by simp
qed simp

section \<open>Deliveries evolve along it\<close>

definition dlife :: "delivery_row \<Rightarrow> dlife" where
  "dlife d = (d_state d, d_attempt d, d_fence d)"

text \<open>The columns no operation may change, with the mutable ones and the payload masked.\<close>

definition delivery_snapshot :: "delivery_row \<Rightarrow> delivery_row" where
  "delivery_snapshot d = d \<lparr>d_state := DPending, d_attempt := 0, d_next_attempt_at := None,
     d_lease_owner := None, d_lease_expires_at := None, d_fence := 0, d_idempotency_key := None,
     d_provider_receipt := None, d_provider_outcome := None, d_error_kind := None,
     d_error_message := None, d_payload := None, d_claimed_baseline_version := None,
     d_updated_at := 0, d_counter_limit_recorded := False\<rparr>"

definition keeps_payload :: "delivery_row \<Rightarrow> delivery_row \<Rightarrow> bool" where
  "keeps_payload d d' \<longleftrightarrow> (d_payload d \<noteq> None \<longrightarrow> d_payload d' = d_payload d)"

definition devolves :: "delivery_row \<Rightarrow> delivery_row \<Rightarrow> bool" where
  "devolves d d' \<longleftrightarrow> delivery_snapshot d' = delivery_snapshot d \<and> keeps_payload d d'
     \<and> dstep\<^sup>*\<^sup>* (dlife d) (dlife d')"

definition dadvances :: "delivery_db \<Rightarrow> delivery_db \<Rightarrow> bool" where
  "dadvances db db' \<longleftrightarrow> (\<forall>d \<in> set (dl_deliveries db). \<exists>d' \<in> set (dl_deliveries db'). devolves d d')"

lemma delivery_snapshot_keys:
  assumes "delivery_snapshot d' = delivery_snapshot d"
  shows "d_delivery_id d' = d_delivery_id d" and "d_run_id d' = d_run_id d"
    and "d_job_id d' = d_job_id d"
    and "d_target_identity_digest d' = d_target_identity_digest d"
    and "d_target_snapshot_digest_algorithm d' = d_target_snapshot_digest_algorithm d"
    and "d_target_snapshot_digest d' = d_target_snapshot_digest d"
    and "d_delivery_policy_version d' = d_delivery_policy_version d"
  using arg_cong [OF assms, of d_delivery_id] arg_cong [OF assms, of d_run_id]
    arg_cong [OF assms, of d_job_id] arg_cong [OF assms, of d_target_identity_digest]
    arg_cong [OF assms, of d_target_snapshot_digest_algorithm]
    arg_cong [OF assms, of d_target_snapshot_digest]
    arg_cong [OF assms, of d_delivery_policy_version]
  by (simp_all add: delivery_snapshot_def)

lemma devolves_refl [simp]: "devolves d d"
  by (simp add: devolves_def keeps_payload_def)

lemma devolves_trans: "devolves a b \<Longrightarrow> devolves b c \<Longrightarrow> devolves a c"
  unfolding devolves_def keeps_payload_def by (metis rtranclp_trans)

lemma dadvances_same: "dl_deliveries db' = dl_deliveries db \<Longrightarrow> dadvances db db'"
  by (auto simp: dadvances_def intro: devolves_refl)

lemma dadvances_trans: "dadvances a b \<Longrightarrow> dadvances b c \<Longrightarrow> dadvances a c"
  unfolding dadvances_def by (meson devolves_trans)

lemma baseline_key_kept:
  assumes "delivery_snapshot d' = delivery_snapshot d" and "keeps_payload d d'"
    and "baseline_key d = Some k"
  shows "baseline_key d' = Some k" and "d_payload d' = d_payload d"
  using assms delivery_snapshot_keys [OF assms(1)]
  by (auto simp: baseline_key_def keeps_payload_def baseline_key_at_def)

text \<open>The triggers alone keep a row on its lifecycle, once the statement leaves the counters.\<close>

lemma trigger_step:
  assumes "delivery_triggers x c acc d d'"
    and "d_attempt d' = d_attempt d" and "d_fence d' = d_fence d"
    and "d_state d = DSending \<or> d_state d' \<noteq> DSending"
  shows "dstep\<^sup>*\<^sup>* (dlife d) (dlife d')" and "keeps_payload d d'"
proof -
  have t: "state_transition_ok (d_state d) (d_state d')"
    using assms(1) by (simp add: delivery_triggers_def)
  have "d_state d' = d_state d \<or> dstep (dlife d) (d_state d', d_attempt d, d_fence d)"
    using t assms(4) by (auto simp: state_transition_ok_def dlife_def intro: dstep.intros)
  then have "dlife d' = dlife d \<or> dstep (dlife d) (dlife d')" using assms(2,3) by (simp add: dlife_def)
  then show "dstep\<^sup>*\<^sup>* (dlife d) (dlife d')" by (rule disjE) simp_all
  show "keeps_payload d d'" using assms(1) by (simp add: delivery_triggers_def keeps_payload_def)
qed

section \<open>The delivery invariant\<close>

text \<open>The attempt that carries the authority of a send in flight.\<close>

definition carries :: "delivery_row \<Rightarrow> delivery_attempt_row \<Rightarrow> bool" where
  "carries d a \<longleftrightarrow>
     da_row_delivery_id a = d_delivery_id d \<and> da_attempt a = d_attempt d \<and> da_fence a = d_fence d
     \<and> d_state d = DSending \<and> da_state a = DSending
     \<and> d_lease_owner d = Some (da_lease_owner a)
     \<and> d_lease_expires_at d = Some (da_lease_expires_at a)
     \<and> d_idempotency_key d = Some (da_idempotency_key a)
     \<and> d_claimed_baseline_version d = Some (da_claimed_baseline_version a)"

text \<open>An operator took the risk of a duplicate for this attempt, under a recorded action that has been
  spent on it.\<close>

definition forced :: "delivery_db \<Rightarrow> delivery_attempt_row \<Rightarrow> bool" where
  "forced db a \<longleftrightarrow> (\<exists>act \<in> set (dl_actions db). forced_resend act \<and> \<not> unconsumed db act
     \<and> oa_duplicate_risk_acknowledged (op_authority act)
     \<and> oa_target_id (op_authority act) = da_row_delivery_id a
     \<and> oa_expected_attempt (op_authority act) = da_attempt a
     \<and> oa_expected_fence (op_authority act) = da_fence a)"

text \<open>How an attempt that another may follow ended: the provider confirmed that it wrote nothing, or
  an operator forced a resend.\<close>

definition resendable :: "bool \<Rightarrow> delivery_state \<Rightarrow> bool" where
  "resendable risk t \<longleftrightarrow> t = DFailedRetryable \<or> (risk \<and> t = DDeliveryUnknown)"

text \<open>How the newest attempt of a delivery ended, from the state the delivery is in now.\<close>

definition follows :: "bool \<Rightarrow> delivery_state \<Rightarrow> delivery_state \<Rightarrow> bool" where
  "follows risk s t \<longleftrightarrow>
     (if s \<in> set [DSending, DDelivered, DDeliveryUnknown, DFailedRetryable] then t = s
      else if s = DFailedTerminal then t = DFailedTerminal \<or> resendable risk t
      else resendable risk t)"

definition settled :: "bool \<Rightarrow> delivery_row \<Rightarrow> delivery_attempt_row \<Rightarrow> bool" where
  "settled risk d a \<longleftrightarrow>
     (if da_attempt a < d_attempt d then resendable risk (da_state a)
      else follows risk (d_state d) (da_state a))"

definition attempt_ok :: "delivery_db \<Rightarrow> delivery_row \<Rightarrow> delivery_attempt_row \<Rightarrow> bool" where
  "attempt_ok db d a \<longleftrightarrow>
     da_row_delivery_id a = d_delivery_id d \<and> da_attempt a \<le> d_attempt d \<and> da_fence a \<le> d_fence d
     \<and> (da_attempt a = d_attempt d \<longrightarrow> da_fence a = d_fence d)
     \<and> (da_state a = DSending \<longrightarrow> carries d a) \<and> settled (forced db a) d a"

definition sends_coherent :: "delivery_db \<Rightarrow> bool" where
  "sends_coherent db \<longleftrightarrow>
     (\<forall>d \<in> set (dl_deliveries db). d_state d = DSending \<longrightarrow> (\<exists>a \<in> set (dl_attempts db). carries d a))
     \<and> (\<forall>a \<in> set (dl_attempts db). \<exists>d \<in> set (dl_deliveries db). attempt_ok db d a)"

definition baseline_source :: "delivery_row \<Rightarrow> accepted_row \<Rightarrow> bool" where
  "baseline_source d r \<longleftrightarrow>
     d_delivery_id d = ab_source_delivery_id (acc_baseline r)
     \<and> d_state d \<in> {DDelivered, DSkippedNone}
     \<and> baseline_key d = Some (acc_identity r)
     \<and> payload_digest_of d = Some (ab_accepted_payload_digest (acc_baseline r))"

definition baselines_truthful :: "delivery_db \<Rightarrow> bool" where
  "baselines_truthful db \<longleftrightarrow>
     (\<forall>r \<in> set (dl_accepted db). \<exists>d \<in> set (dl_deliveries db). baseline_source d r)"

text \<open>Every consumption spends a recorded action on the target of that action, and no action is spent
  twice.\<close>

definition spent_on :: "operator_row \<Rightarrow> consumption_row \<Rightarrow> bool" where
  "spent_on act c \<longleftrightarrow> oc_action_id c = op_action_id act
     \<and> oc_target_kind c = oa_target_kind (op_authority act)
     \<and> oc_target_id c = oa_target_id (op_authority act)"

definition audit_ok :: "delivery_db \<Rightarrow> bool" where
  "audit_ok db \<longleftrightarrow> distinct (map oc_action_id (dl_consumptions db))
     \<and> (\<forall>c \<in> set (dl_consumptions db). \<exists>act \<in> set (dl_actions db). spent_on act c)"

definition delivery_inv :: "ext \<Rightarrow> delivery_db \<Rightarrow> bool" where
  "delivery_inv x db \<longleftrightarrow>
     table_ok (delivery_check x) delivery_unique (dl_deliveries db)
     \<and> table_ok delivery_attempt_check delivery_attempt_unique (dl_attempts db)
     \<and> table_ok accepted_check accepted_unique (dl_accepted db)
     \<and> sends_coherent db \<and> baselines_truthful db
     \<and> table_ok (operator_check x) operator_unique (dl_actions db) \<and> audit_ok db"

lemma delivery_invD:
  assumes "delivery_inv x db"
  shows "table_ok (delivery_check x) delivery_unique (dl_deliveries db)"
    and "table_ok delivery_attempt_check delivery_attempt_unique (dl_attempts db)"
    and "table_ok accepted_check accepted_unique (dl_accepted db)"
    and "sends_coherent db" and "baselines_truthful db"
    and "table_ok (operator_check x) operator_unique (dl_actions db)" and "audit_ok db"
  using assms by (simp_all add: delivery_inv_def)

lemma sends_coherentE:
  assumes "sends_coherent db" and "a \<in> set (dl_attempts db)"
  obtains d where "d \<in> set (dl_deliveries db)" "attempt_ok db d a"
  using assms by (auto simp: sends_coherent_def)

text \<open>The action that moved a delivery out of the unknown state, recorded and spent on exactly this send.\<close>

definition resolved_by_operator :: "delivery_db \<Rightarrow> delivery_row \<Rightarrow> bool" where
  "resolved_by_operator db d \<longleftrightarrow> (\<exists>act \<in> set (dl_actions db). \<not> unconsumed db act
     \<and> oa_target_kind (op_authority act) = ''delivery''
     \<and> oa_target_id (op_authority act) = d_delivery_id d
     \<and> oa_expected_attempt (op_authority act) = d_attempt d
     \<and> oa_expected_fence (op_authority act) = d_fence d
     \<and> oa_before_state (op_authority act) = ''delivery_unknown'')"

definition unknown_kept :: "delivery_db \<Rightarrow> delivery_db \<Rightarrow> bool" where
  "unknown_kept db db' \<longleftrightarrow> (\<forall>d \<in> set (dl_deliveries db). d_state d = DDeliveryUnknown \<longrightarrow>
     d \<in> set (dl_deliveries db') \<or> resolved_by_operator db' d)"

text \<open>The audit only grows, so an attempt stays accounted for.\<close>

definition audit_grows :: "delivery_db \<Rightarrow> delivery_db \<Rightarrow> bool" where
  "audit_grows db db' \<longleftrightarrow> set (dl_actions db) \<subseteq> set (dl_actions db')
     \<and> set (dl_consumptions db) \<subseteq> set (dl_consumptions db')"

lemma audit_grows_refl [simp]: "audit_grows db db"
  by (simp add: audit_grows_def)

lemma audit_grows_trans: "audit_grows a b \<Longrightarrow> audit_grows b c \<Longrightarrow> audit_grows a c"
  by (auto simp: audit_grows_def)

lemma forced_grows: "audit_grows db db' \<Longrightarrow> forced db a \<Longrightarrow> forced db' a"
  by (fastforce simp: audit_grows_def forced_def unconsumed_def list_ex_iff)

lemma resolved_by_operator_grows:
  "audit_grows db db' \<Longrightarrow> resolved_by_operator db d \<Longrightarrow> resolved_by_operator db' d"
  unfolding audit_grows_def resolved_by_operator_def unconsumed_def list_ex_iff by blast

lemma unknown_kept_same: "dl_deliveries db' = dl_deliveries db \<Longrightarrow> unknown_kept db db'"
  by (simp add: unknown_kept_def)

lemma unknown_kept_trans:
  "unknown_kept a b \<Longrightarrow> unknown_kept b c \<Longrightarrow> audit_grows b c \<Longrightarrow> unknown_kept a c"
  using resolved_by_operator_grows unfolding unknown_kept_def by blast

lemma follows_grows: "follows p s t \<Longrightarrow> (p \<Longrightarrow> q) \<Longrightarrow> follows q s t"
  by (auto simp: follows_def resendable_def)

lemma settled_grows: "settled p d a \<Longrightarrow> (p \<Longrightarrow> q) \<Longrightarrow> settled q d a"
  by (auto simp: settled_def resendable_def follows_grows split: if_splits)

lemma attempt_ok_grows:
  assumes "audit_grows db db'" and "attempt_ok db d a"
  shows "attempt_ok db' d a"
  using settled_grows [of "forced db a" d a "forced db' a"] forced_grows [OF assms(1)] assms(2)
  unfolding attempt_ok_def by blast

lemma sends_coherent_grows:
  assumes "sends_coherent db" and "audit_grows db db'"
    and "dl_deliveries db' = dl_deliveries db" and "dl_attempts db' = dl_attempts db"
  shows "sends_coherent db'"
  using assms attempt_ok_grows unfolding sends_coherent_def by metis

lemma delivery_key:
  assumes "delivery_inv x db" and "d \<in> set (dl_deliveries db)" and "e \<in> set (dl_deliveries db)"
    and "d_delivery_id d = d_delivery_id e"
  shows "d = e"
  using deliveries.key_inj [OF delivery_invD(1) [OF assms(1)] assms(2,3,4)] .

lemma baseline_source_later:
  assumes "baseline_source d r" and "devolves d d'"
  shows "baseline_source d' r"
proof -
  have "dlife d' = dlife d"
    using dsteps_final [of "d_state d" "d_attempt d" "d_fence d" "dlife d'"] assms
    by (auto simp: baseline_source_def devolves_def settled_states_def dlife_def)
  moreover have "baseline_key d' = Some (acc_identity r)" "d_payload d' = d_payload d"
    using baseline_key_kept [of d' d] assms by (auto simp: baseline_source_def devolves_def)
  ultimately show ?thesis
    using assms delivery_snapshot_keys(1) [of d' d]
    by (auto simp: baseline_source_def devolves_def payload_digest_of_def dlife_def)
qed

lemma baselines_truthful_later:
  assumes "baselines_truthful db" and "dadvances db db'" and "dl_accepted db' = dl_accepted db"
  shows "baselines_truthful db'"
  using assms baseline_source_later unfolding baselines_truthful_def dadvances_def by metis

section \<open>Effects of the statements\<close>

lemma count_db_simps [simp]:
  "dl_deliveries (count_db f db) = dl_deliveries db" "dl_attempts (count_db f db) = dl_attempts db"
  "dl_accepted (count_db f db) = dl_accepted db" "dl_artifacts (count_db f db) = dl_artifacts db"
  "dl_actions (count_db f db) = dl_actions db"
  "dl_consumptions (count_db f db) = dl_consumptions db"
  "same_jobs s (dl_db (count_db f db)) = same_jobs s (dl_db db)"
  by (simp_all add: count_db_def count_runs_def same_jobs_def same_tables_def)

lemma same_jobs_trans: "same_jobs a b \<Longrightarrow> same_jobs b c \<Longrightarrow> same_jobs a c"
  using same_tables_trans by (auto simp: same_jobs_def)

lemma update_deliveries_InrD:
  assumes "update_deliveries x c w f db = Inr (db', n)"
  shows "sql_update (delivery_check x) delivery_unique w f (dl_deliveries db) =
      Inr (dl_deliveries db', n)"
    and "\<And>d. d \<in> set (dl_deliveries db) \<Longrightarrow> w d \<Longrightarrow> delivery_triggers x c (dl_accepted db) d (f d)"
    and "dl_attempts db' = dl_attempts db" and "dl_accepted db' = dl_accepted db"
    and "dl_artifacts db' = dl_artifacts db"
    and "same_jobs (dl_db db) (dl_db db')"
    and "dl_actions db' = dl_actions db"
    and "dl_consumptions db' = dl_consumptions db @ map (\<lambda>(d, act). consumption_of d act) (spends x w f db)"
    and "\<And>d. d \<in> set (dl_deliveries db) \<Longrightarrow> w d \<Longrightarrow> operator_trigger_ok x db d (f d)"
  using assms by (auto simp: update_deliveries_def list_ex_iff Let_def split: if_splits)

lemma update_deliveries_audit: "update_deliveries x c w f db = Inr (db', n) \<Longrightarrow> audit_grows db db'"
  using update_deliveries_InrD(7,8) by (simp add: audit_grows_def)

text \<open>A statement that spends, for each row it changes, the unspent actions that name this row.\<close>

lemma audit_ok_spend:
  assumes ok: "table_ok (operator_check x) operator_unique (dl_actions db)" "audit_ok db"
    and rows: "distinct (map key rows)"
    and grown: "dl_actions db' = dl_actions db"
      "dl_consumptions db' = dl_consumptions db
         @ concat (map (\<lambda>r. map (con r) (filter (P r) (dl_actions db))) rows)"
    and spent: "\<And>r act. r \<in> set rows \<Longrightarrow> P r act \<Longrightarrow>
      unconsumed db act \<and> oa_target_id (op_authority act) = key r \<and> spent_on act (con r act)"
  shows "audit_ok db'"
proof -
  let ?new = "concat (map (\<lambda>r. map (con r) (filter (P r) (dl_actions db))) rows)"
  have id: "oc_action_id (con r act) = op_action_id act" if "r \<in> set rows" "P r act" for r act
    using spent [OF that] by (simp add: spent_on_def)
  have "distinct (concat (map (\<lambda>r. map op_action_id (filter (P r) (dl_actions db))) rows))"
  proof (rule distinct_concat_map)
    show "distinct rows" using rows by (simp add: distinct_map)
    show "distinct (map op_action_id (filter (P r) (dl_actions db)))" for r
      using ok(1) by (simp add: table_ok_def operator_unique_def distinct_map_filter)
    fix r s assume rs: "r \<in> set rows" "s \<in> set rows" "r \<noteq> s"
    have False if "a \<in> set (dl_actions db)" "P r a" "b \<in> set (dl_actions db)" "P s b"
        "op_action_id a = op_action_id b" for a b
    proof -
      have "a = b" by (rule operators.key_inj [OF ok(1) that(1,3,5)])
      then have "key r = key s" using spent [OF rs(1) that(2)] spent [OF rs(2) that(4)] by simp
      then show False using rs rows by (simp add: distinct_map inj_on_def)
    qed
    then show "set (map op_action_id (filter (P r) (dl_actions db)))
        \<inter> set (map op_action_id (filter (P s) (dl_actions db))) = {}"
      by auto
  qed
  moreover have "map oc_action_id ?new =
      concat (map (\<lambda>r. map op_action_id (filter (P r) (dl_actions db))) rows)"
    using id by (induction rows) simp_all
  moreover have "set (map oc_action_id ?new) \<inter> set (map oc_action_id (dl_consumptions db)) = {}"
    using spent id by (fastforce simp: unconsumed_def list_ex_iff)
  ultimately have "distinct (map oc_action_id (dl_consumptions db'))"
    using ok(2) grown(2) by (auto simp: audit_ok_def)
  moreover have "\<exists>act \<in> set (dl_actions db). spent_on act c" if "c \<in> set (dl_consumptions db')" for c
    using that ok(2) grown(2) spent by (auto simp: audit_ok_def)
  ultimately show ?thesis using grown(1) by (simp add: audit_ok_def)
qed

lemma delivery_identity_key: "delivery_identity d = delivery_identity e \<Longrightarrow> d_delivery_id d = d_delivery_id e"
  by (drule arg_cong [of _ _ d_delivery_id]) (simp add: delivery_identity_def)

lemma update_deliveries_spent:
  assumes "update_deliveries x c w f db = Inr (db', n)"
    and "table_ok (delivery_check x) delivery_unique (dl_deliveries db)"
    and "table_ok (operator_check x) operator_unique (dl_actions db)" and "audit_ok db"
  shows "audit_ok db'"
proof -
  note U = update_deliveries_InrD [OF assms(1)]
  let ?P = "\<lambda>d act. authorizes x d (f d) act \<and> unconsumed db act"
  let ?rows = "filter w (dl_deliveries db)"
  have same: "d_delivery_id (f d) = d_delivery_id d" if "d \<in> set ?rows" for d
    using U(2) [of d] that by (auto simp: delivery_triggers_def dest: delivery_identity_key)
  show ?thesis
  proof (rule audit_ok_spend [OF assms(3,4) _ U(7),
        where key = d_delivery_id and con = "\<lambda>d. consumption_of (f d)" and P = ?P and rows = ?rows])
    show "distinct (map d_delivery_id ?rows)"
      using assms(2) by (simp add: table_ok_def delivery_unique_def distinct_map_filter)
    show "dl_consumptions db' = dl_consumptions db
        @ concat (map (\<lambda>d. map (consumption_of (f d)) (filter (?P d) (dl_actions db))) ?rows)"
      using U(8) by (simp add: spends_def authorizing_def map_concat o_def)
    show "unconsumed db act \<and> oa_target_id (op_authority act) = d_delivery_id d
        \<and> spent_on act (consumption_of (f d) act)" if "d \<in> set ?rows" "?P d act" for d act
      using that same [OF that(1)]
      by (simp add: authorizes_def Let_def spent_on_def consumption_of_def)
  qed
qed

lemma update_deliveries_audit_ok:
  assumes "update_deliveries x c w f db = Inr (db', n)" and "delivery_inv x db"
  shows "audit_ok db'"
  by (rule update_deliveries_spent [OF assms(1) delivery_invD(1,6,7) [OF assms(2)]])

lemma update_delivery_attempts_InrD:
  assumes "update_delivery_attempts w f db = Inr (db', n)"
  shows "sql_update delivery_attempt_check delivery_attempt_unique w f (dl_attempts db) =
      Inr (dl_attempts db', n)"
    and "dl_deliveries db' = dl_deliveries db" and "dl_accepted db' = dl_accepted db"
    and "dl_artifacts db' = dl_artifacts db" and "dl_db db' = dl_db db"
    and "dl_actions db' = dl_actions db" and "dl_consumptions db' = dl_consumptions db"
  using assms by (auto simp: update_delivery_attempts_def)

lemma insert_delivery_attempt_InrD:
  assumes "insert_delivery_attempt a db = Inr db'"
  shows "sql_insert delivery_attempt_check delivery_attempt_unique a (dl_attempts db) =
      Inr (dl_attempts db')"
    and "dl_deliveries db' = dl_deliveries db" and "dl_accepted db' = dl_accepted db"
    and "dl_artifacts db' = dl_artifacts db" and "dl_db db' = dl_db db"
    and "dl_actions db' = dl_actions db" and "dl_consumptions db' = dl_consumptions db"
  using assms by (auto simp: insert_delivery_attempt_def split: if_splits)

text \<open>Only counters, artifacts and baselines of jobs may differ.\<close>

definition same_deliveries :: "delivery_db \<Rightarrow> delivery_db \<Rightarrow> bool" where
  "same_deliveries db db' \<longleftrightarrow>
     dl_deliveries db' = dl_deliveries db \<and> dl_attempts db' = dl_attempts db
     \<and> dl_accepted db' = dl_accepted db \<and> same_jobs (dl_db db) (dl_db db')
     \<and> dl_actions db' = dl_actions db \<and> dl_consumptions db' = dl_consumptions db"

lemma same_deliveries_refl [simp]: "same_deliveries db db"
  by (simp add: same_deliveries_def)

lemma count_transition_same: "count_transition kind n db = Inr db' \<Longrightarrow> same_deliveries db db'"
  by (auto simp: count_transition_def on_db_def on_runs_def same_deliveries_def same_jobs_def
      dest: increment_same_tables)

lemma transact_delivery_cases:
  assumes "transact_delivery db m = (v, db')"
  obtains (rolled_back) "db' = db" "\<exists>e. v = Inl e"
  | (lost) "m = Inl LostLease" "same_deliveries db db'" "\<exists>e. v = Inl e"
  | (committed) "m = Inr (db', v)"
proof (cases m)
  case (Inl e)
  show ?thesis
  proof (cases e)
    case (Abort s)
    then show ?thesis using assms Inl rolled_back by (auto simp: transact_delivery_def)
  next
    case LostLease
    then show ?thesis
      using assms Inl lost [OF _ count_transition_same] rolled_back
      by (auto simp: transact_delivery_def lost_delivery_lease_def split: sum.splits)
  qed
next
  case (Inr dv)
  then show ?thesis using assms committed by (cases dv) (simp add: transact_delivery_def)
qed

section \<open>Preservation\<close>

text \<open>What an operation does to the delivery tables, and, for all but a completion, that it leaves jobs,
  schedules and runs alone.\<close>

definition dkeeps :: "ext \<Rightarrow> delivery_db \<Rightarrow> delivery_db \<Rightarrow> bool" where
  "dkeeps x db db' \<longleftrightarrow> audit_grows db db'
     \<and> (delivery_inv x db \<longrightarrow> delivery_inv x db' \<and> dadvances db db' \<and> unknown_kept db db')"

definition dpreserves :: "ext \<Rightarrow> delivery_db \<Rightarrow> delivery_db \<Rightarrow> bool" where
  "dpreserves x db db' \<longleftrightarrow> dkeeps x db db' \<and> same_jobs (dl_db db) (dl_db db')"

lemma dkeeps_trans: "dkeeps x a b \<Longrightarrow> dkeeps x b c \<Longrightarrow> dkeeps x a c"
  using audit_grows_trans unknown_kept_trans by (auto simp: dkeeps_def intro: dadvances_trans)

lemma dpreserves_trans: "dpreserves x a b \<Longrightarrow> dpreserves x b c \<Longrightarrow> dpreserves x a c"
  using dkeeps_trans same_jobs_trans by (auto simp: dpreserves_def)

lemma dkeeps_spent:
  assumes "dl_deliveries db' = dl_deliveries db" and "dl_attempts db' = dl_attempts db"
    and "dl_accepted db' = dl_accepted db" and "dl_actions db' = dl_actions db"
    and "set (dl_consumptions db) \<subseteq> set (dl_consumptions db')"
    and "delivery_inv x db \<Longrightarrow> audit_ok db'"
  shows "dkeeps x db db'"
  using assms sends_coherent_grows [of db db']
  by (auto simp: dkeeps_def delivery_inv_def baselines_truthful_def audit_grows_def
      intro: dadvances_same unknown_kept_same)

lemma dkeeps_same:
  assumes "dl_deliveries db' = dl_deliveries db" and "dl_attempts db' = dl_attempts db"
    and "dl_accepted db' = dl_accepted db" and "dl_actions db' = dl_actions db"
    and "dl_consumptions db' = dl_consumptions db"
  shows "dkeeps x db db'"
  by (rule dkeeps_spent [OF assms(1-4)])
    (use assms delivery_invD(7) in \<open>auto simp: audit_ok_def\<close>)

lemma dpreserves_same: "same_deliveries db db' \<Longrightarrow> dpreserves x db db'"
  by (simp add: dpreserves_def same_deliveries_def dkeeps_same)

lemma dpreserves_refl [simp]: "dpreserves x db db"
  by (rule dpreserves_same) simp

lemma transact_delivery_preserves:
  assumes "\<And>db' v. m = Inr (db', v) \<Longrightarrow> dpreserves x db db'"
  shows "dpreserves x db (snd (transact_delivery db m))"
proof (cases "transact_delivery db m")
  case (Pair v db')
  from Pair have "dpreserves x db db'"
    by (cases rule: transact_delivery_cases) (auto intro: dpreserves_same assms)
  with Pair show ?thesis by simp
qed

lemma dadvances_update:
  assumes "update_deliveries x c w f db = Inr (db', n)"
    and "\<And>d. d \<in> set (dl_deliveries db) \<Longrightarrow> w d \<Longrightarrow> devolves d (f d)"
  shows "dadvances db db'"
  unfolding dadvances_def
proof
  fix d assume "d \<in> set (dl_deliveries db)"
  then show "\<exists>d' \<in> set (dl_deliveries db'). devolves d d'"
    using sql_update_InrD(1) [OF update_deliveries_InrD(1) [OF assms(1)]] assms(2) [of d]
    by (intro bexI [of _ "if w d then f d else d"]) auto
qed

lemma unknown_kept_update:
  assumes "update_deliveries x c w f db = Inr (db', n)"
    and "\<And>d. d \<in> set (dl_deliveries db) \<Longrightarrow> w d \<Longrightarrow> d_state d \<noteq> DDeliveryUnknown"
  shows "unknown_kept db db'"
  using assms(2) update_unselected [OF update_deliveries_InrD(1) [OF assms(1)]]
  by (auto simp: unknown_kept_def)

section \<open>Operations on the whole store\<close>

lemma sched_inv_runs:
  assumes "sched_inv x now db" and "(run_step x)\<^sup>*\<^sup>* (db_runs db) s"
    and "length (st_runs s) = length (st_runs (db_runs db))"
    and "db_jobs db' = db_jobs db" "db_schedules db' = db_schedules db" "db_runs db' = s"
  shows "sched_inv x now db'"
proof -
  have pres: "preserves x (db_runs db) s" by (rule run_steps_preserve [OF assms(2)])
  then have "store_inv x s" using assms(1) by (simp add: preserves_def sched_inv_def)
  moreover have "run_keys s = run_keys (db_runs db)"
    using run_keys_kept [OF pres _ assms(3)] assms(1) by (simp add: sched_inv_def)
  ultimately show ?thesis using assms by (simp add: sched_inv_def timely_keys)
qed

text \<open>What any operation but those of jobs keeps: the delivery invariant, that runs make steps of the run
  store, and the invariant of jobs.\<close>

definition skeeps :: "ext \<Rightarrow> delivery_db \<Rightarrow> delivery_db \<Rightarrow> bool" where
  "skeeps x db db' \<longleftrightarrow> dkeeps x db db'
     \<and> (run_step x)\<^sup>*\<^sup>* (db_runs (dl_db db)) (db_runs (dl_db db'))
     \<and> (\<forall>t. sched_inv x t (dl_db db) \<longrightarrow> sched_inv x t (dl_db db'))"

lemma skeepsD:
  assumes "skeeps x db db'"
  shows "dkeeps x db db'" and "(run_step x)\<^sup>*\<^sup>* (db_runs (dl_db db)) (db_runs (dl_db db'))"
    and "sched_inv x t (dl_db db) \<Longrightarrow> sched_inv x t (dl_db db')"
  using assms by (simp_all add: skeeps_def)

lemma skeeps_trans: "skeeps x a b \<Longrightarrow> skeeps x b c \<Longrightarrow> skeeps x a c"
  unfolding skeeps_def using dkeeps_trans rtranclp_trans by metis

lemma skeeps_deliveries: "dpreserves x db db' \<Longrightarrow> skeeps x db db'"
  using same_jobs_runs sched_inv_same unfolding skeeps_def dpreserves_def by metis

lemma skeeps_runs:
  assumes "dkeeps x db (db \<lparr>dl_db := (dl_db db) \<lparr>db_runs := runs\<rparr>, dl_consumptions := cs\<rparr>)"
    and "(run_step x)\<^sup>*\<^sup>* (db_runs (dl_db db)) runs"
    and "length (st_runs runs) = length (st_runs (db_runs (dl_db db)))"
  shows "skeeps x db (db \<lparr>dl_db := (dl_db db) \<lparr>db_runs := runs\<rparr>, dl_consumptions := cs\<rparr>)"
  using assms sched_inv_runs [OF _ assms(2,3)] by (simp add: skeeps_def)

lemma transact_delivery_skeeps:
  assumes "\<And>db' v. m = Inr (db', v) \<Longrightarrow> skeeps x db db'"
  shows "skeeps x db (snd (transact_delivery db m))"
proof (cases "transact_delivery db m")
  case (Pair v db')
  from Pair have "skeeps x db db'"
    by (cases rule: transact_delivery_cases) (auto intro: skeeps_deliveries dpreserves_same assms)
  with Pair show ?thesis by simp
qed

end
