(* ===== verification/Delivery_Safety.thy ===== *)
theory Delivery_Safety
  imports Delivery_Lifecycle
begin

text \<open>
  Every operation of the delivery store keeps the delivery invariant and moves each delivery along its
  lifecycle, so both hold of every reachable database.
\<close>

section \<open>Statements outside a send\<close>

lemma follows_transition:
  assumes "state_transition_ok s s'" and "s \<notin> {DSending, DDeliveryUnknown}" and "s' \<noteq> DSending"
    and "follows risk s t"
  shows "follows risk s' t"
  using assms by (auto simp: state_transition_ok_def follows_def resendable_def)

lemma update_idle_rows_preserves:
  assumes upd: "update_deliveries x c w f db = Inr (db', n)"
    and w: "\<And>d. delivery_inv x db \<Longrightarrow> d \<in> set (dl_deliveries db) \<Longrightarrow> w d \<Longrightarrow>
      d_state d \<notin> {DSending, DDeliveryUnknown} \<and> d_state (f d) \<noteq> DSending
      \<and> d_attempt (f d) = d_attempt d \<and> d_fence (f d) = d_fence d
      \<and> delivery_snapshot (f d) = delivery_snapshot d"
  shows "dpreserves x db db'"
proof -
  note U = update_deliveries_InrD [OF upd] and grows = update_deliveries_audit [OF upd]
  have advance: "dadvances db db'" if inv: "delivery_inv x db"
  proof (rule dadvances_update [OF upd])
    fix d assume "d \<in> set (dl_deliveries db)" "w d"
    then show "devolves d (f d)"
      using trigger_step [OF U(2), of d] w [OF inv, of d] by (simp add: devolves_def)
  qed
  have "sends_coherent db'" if inv: "delivery_inv x db"
    unfolding sends_coherent_def
  proof (intro conjI ballI impI)
    fix d' assume "d' \<in> set (dl_deliveries db')" and sending: "d_state d' = DSending"
    with U(1) obtain d where "d \<in> set (dl_deliveries db)" "d' = d"
      by (cases rule: update_origin) (use w [OF inv] in blast)+
    then show "\<exists>a \<in> set (dl_attempts db'). carries d' a"
      using delivery_invD(4) [OF inv] sending U(3) by (auto simp: sends_coherent_def)
  next
    fix a assume "a \<in> set (dl_attempts db')"
    then obtain d where d: "d \<in> set (dl_deliveries db)" "attempt_ok db' d a"
      using sends_coherentE [OF delivery_invD(4) [OF inv]] U(3) attempt_ok_grows [OF grows] by metis
    show "\<exists>d \<in> set (dl_deliveries db'). attempt_ok db' d a"
    proof (cases "w d")
      case True
      note t = U(2) [OF d(1) True, unfolded delivery_triggers_def]
      have "da_state a \<noteq> DSending"
        using d(2) w [OF inv d(1) True] by (auto simp: attempt_ok_def carries_def)
      moreover have "settled (forced db' a) (f d) a"
        using d(2) w [OF inv d(1) True] t
          follows_transition [of "d_state d" "d_state (f d)" "forced db' a" "da_state a"]
        by (auto simp: attempt_ok_def settled_def)
      ultimately have "attempt_ok db' (f d) a"
        using d(2) w [OF inv d(1) True] delivery_snapshot_keys(1) [of "f d" d] by (simp add: attempt_ok_def)
      then show ?thesis using update_selected [OF U(1) d(1) True] by blast
    next
      case False
      then show ?thesis using update_unselected [OF U(1) d(1)] d(2) by blast
    qed
  qed
  moreover have "table_ok (delivery_check x) delivery_unique (dl_deliveries db')"
    if "delivery_inv x db"
    using deliveries.update_ok [OF delivery_invD(1) [OF that] U(1)] .
  moreover have "unknown_kept db db'" if "delivery_inv x db"
    by (rule unknown_kept_update [OF upd]) (use w [OF that] in blast)
  ultimately show ?thesis
    using advance U(3,4,6,7) grows baselines_truthful_later [OF _ _ U(4)]
      update_deliveries_audit_ok [OF upd]
    by (simp add: dpreserves_def dkeeps_def delivery_inv_def)
qed

lemma update_idle_preserves:
  assumes "update_deliveries x c w f db = Inr (db', n)"
    and "\<And>d. w d \<Longrightarrow> d_state d \<notin> {DSending, DDeliveryUnknown} \<and> d_state (f d) \<noteq> DSending
      \<and> d_attempt (f d) = d_attempt d \<and> d_fence (f d) = d_fence d
      \<and> delivery_snapshot (f d) = delivery_snapshot d"
  shows "dpreserves x db db'"
  using update_idle_rows_preserves [OF assms(1)] assms(2) by blast

section \<open>Fenced sends\<close>

locale fenced_send =
  fixes b :: delivery_binding
    and wd :: "delivery_row \<Rightarrow> bool" and fd :: "delivery_row \<Rightarrow> delivery_row"
    and wa :: "delivery_attempt_row \<Rightarrow> bool"
    and fa :: "delivery_attempt_row \<Rightarrow> delivery_attempt_row"
  assumes send_guard: "wd d \<Longrightarrow> delivery_matches b d"
    and attempt_guard: "wa a \<Longrightarrow> delivery_attempt_matches b a"
    and send_keys: "delivery_snapshot (fd d) = delivery_snapshot d"
      "d_attempt (fd d) = d_attempt d" "d_fence (fd d) = d_fence d"
    and attempt_keys: "da_row_delivery_id (fa a) = da_row_delivery_id a"
      "da_attempt (fa a) = da_attempt a" "da_fence (fa a) = da_fence a"
    and agreement: "wd d \<Longrightarrow> wa a \<Longrightarrow> carries d a \<Longrightarrow>
      d_state (fd d) = DSending \<or> da_state (fa a) = DSending \<Longrightarrow> carries (fd d) (fa a)"
    and ending: "wd d \<Longrightarrow> wa a \<Longrightarrow> follows False (d_state (fd d)) (da_state (fa a))"
begin

text \<open>The two statements select a send and the attempt that carries its authority.\<close>

lemma selected:
  assumes inv: "delivery_inv x db"
    and sends: "update_deliveries x c wd fd db = Inr (db1, 1)"
    and attempts: "update_delivery_attempts wa fa db1 = Inr (db2, 1)"
  obtains d a where "d \<in> set (dl_deliveries db)" "wd d" "a \<in> set (dl_attempts db)" "wa a"
    "carries d a" "\<forall>e \<in> set (dl_deliveries db). wd e \<longrightarrow> e = d"
    "\<forall>e \<in> set (dl_attempts db). wa e \<longrightarrow> e = a"
proof -
  note D = update_deliveries_InrD [OF sends] and A = update_delivery_attempts_InrD [OF attempts]
  obtain d where d: "d \<in> set (dl_deliveries db)" "wd d" by (rule update_oneD [OF D(1)])
  obtain a where a: "a \<in> set (dl_attempts db)" "wa a" using update_oneD [OF A(1)] D(3) by auto
  obtain d' where d': "d' \<in> set (dl_deliveries db)" "attempt_ok db d' a"
    by (rule sends_coherentE [OF delivery_invD(4) [OF inv] a(1)])
  have "d' = d"
    using delivery_key [OF inv d'(1) d(1)] d'(2) send_guard [OF d(2)] attempt_guard [OF a(2)]
    by (simp add: attempt_ok_def delivery_matches_def delivery_attempt_matches_def)
  moreover have "carries d' a"
    using d'(2) attempt_guard [OF a(2)] by (simp add: attempt_ok_def delivery_attempt_matches_def)
  moreover have "e = d" if "e \<in> set (dl_deliveries db)" "wd e" for e
    using that delivery_key [OF inv _ d(1)] send_guard [of e] send_guard [OF d(2)]
    by (simp add: delivery_matches_def)
  moreover have "e = a" if "e \<in> set (dl_attempts db)" "wa e" for e
    using that attempt_guard [of e] attempt_guard [OF a(2)]
      delivery_attempts.key_inj [OF delivery_invD(2) [OF inv], of e a] a(1)
    by (simp add: delivery_attempt_matches_def)
  ultimately show ?thesis using that d a by blast
qed

lemma coherent_pair:
  assumes inv: "delivery_inv x db"
    and sends: "update_deliveries x c wd fd db = Inr (db1, 1)"
    and attempts: "update_delivery_attempts wa fa db1 = Inr (db2, 1)"
  shows "sends_coherent db2"
proof -
  note D = update_deliveries_InrD [OF sends] and A = update_delivery_attempts_InrD [OF attempts]
  have grows: "audit_grows db db2"
    using update_deliveries_audit [OF sends] A(6,7) by (simp add: audit_grows_def)
  have upd_d: "sql_update (delivery_check x) delivery_unique wd fd (dl_deliveries db) =
      Inr (dl_deliveries db2, 1)" using D(1) A(2) by simp
  have upd_a: "sql_update delivery_attempt_check delivery_attempt_unique wa fa (dl_attempts db) =
      Inr (dl_attempts db2, 1)" using A(1) D(3) by simp
  obtain d0 a0 where sel: "d0 \<in> set (dl_deliveries db)" "wd d0" "a0 \<in> set (dl_attempts db)" "wa a0"
      "carries d0 a0" "\<forall>e \<in> set (dl_deliveries db). wd e \<longrightarrow> e = d0"
      "\<forall>e \<in> set (dl_attempts db). wa e \<longrightarrow> e = a0"
    by (rule selected [OF inv sends attempts])
  have new: "fd d0 \<in> set (dl_deliveries db2)" "fa a0 \<in> set (dl_attempts db2)"
    using update_selected [OF upd_d sel(1,2)] update_selected [OF upd_a sel(3,4)] .
  have key: "d_delivery_id (fd d) = d_delivery_id d" for d
    using delivery_snapshot_keys(1) [OF send_keys(1)] .
  show ?thesis
    unfolding sends_coherent_def
  proof (intro conjI ballI impI)
    fix d' assume d': "d' \<in> set (dl_deliveries db2)" and sending: "d_state d' = DSending"
    from upd_d d' show "\<exists>a \<in> set (dl_attempts db2). carries d' a"
    proof (cases rule: update_origin)
      case (1 d)
      then obtain a where a: "a \<in> set (dl_attempts db)" "carries d a"
        using delivery_invD(4) [OF inv] sending by (auto simp: sends_coherent_def)
      have "\<not> wa a"
      proof
        assume "wa a"
        then have "a = a0" using sel(7) a(1) by blast
        then have "d = d0"
          using delivery_key [OF inv 1(1) sel(1)] a(2) sel(5) by (simp add: carries_def)
        then show False using 1 sel(2) by simp
      qed
      then show ?thesis using update_unselected [OF upd_a a(1)] a(2) 1 by auto
    next
      case (2 d)
      then show ?thesis using agreement [OF sel(2,4,5)] sending sel(6) new(2) by auto
    qed
  next
    fix a' assume "a' \<in> set (dl_attempts db2)"
    from upd_a this show "\<exists>d \<in> set (dl_deliveries db2). attempt_ok db2 d a'"
    proof (cases rule: update_origin)
      case (1 a)
      obtain d where d: "d \<in> set (dl_deliveries db)" "attempt_ok db2 d a"
        by (rule sends_coherentE [OF delivery_invD(4) [OF inv] 1(1)])
          (use attempt_ok_grows [OF grows] in blast)
      show ?thesis
      proof (cases "wd d")
        case True
        then have d0: "d = d0" using sel(6) d(1) by blast
        have older: "da_attempt a \<noteq> d_attempt d0"
        proof
          assume "da_attempt a = d_attempt d0"
          then have "a = a0"
            using delivery_attempts.key_inj [OF delivery_invD(2) [OF inv] 1(1) sel(3)] d(2) d0 sel(5)
            by (simp add: attempt_ok_def carries_def)
          then show False using 1(2) sel(4) by simp
        qed
        then have "da_attempt a < d_attempt d0" using d(2) d0 by (simp add: attempt_ok_def)
        moreover from this have "resendable (forced db2 a) (da_state a)"
          using d(2) d0 by (simp add: attempt_ok_def settled_def)
        ultimately have "attempt_ok db2 (fd d0) a"
          using d(2) d0 by (auto simp: attempt_ok_def settled_def resendable_def key send_keys)
        then show ?thesis using new(1) 1(3) by blast
      next
        case False
        then show ?thesis using update_unselected [OF upd_d d(1)] d(2) 1(3) by blast
      qed
    next
      case (2 a)
      then have a: "a = a0" using sel(7) by blast
      have keys: "da_row_delivery_id a0 = d_delivery_id d0" "da_attempt a0 = d_attempt d0"
          "da_fence a0 = d_fence d0"
        using sel(5) by (simp_all add: carries_def)
      have "da_state (fa a0) = DSending \<longrightarrow> carries (fd d0) (fa a0)"
        using agreement [OF sel(2,4,5)] by blast
      then have "attempt_ok db2 (fd d0) (fa a0)"
        using follows_grows [OF ending [OF sel(2,4)]]
        by (simp add: attempt_ok_def settled_def key send_keys attempt_keys keys)
      then show ?thesis using new(1) 2(3) a by blast
    qed
  qed
qed

lemma pair_preserves:
  assumes sends: "update_deliveries x c wd fd db = Inr (db1, 1)"
    and attempts: "update_delivery_attempts wa fa db1 = Inr (db2, 1)"
  shows "dpreserves x db db2"
proof -
  note D = update_deliveries_InrD [OF sends] and A = update_delivery_attempts_InrD [OF attempts]
  have "dadvances db db1"
  proof (rule dadvances_update [OF sends])
    fix d assume d: "d \<in> set (dl_deliveries db)" "wd d"
    then show "devolves d (fd d)"
      using trigger_step [OF D(2) [OF d] send_keys(2,3)] send_guard [OF d(2)] send_keys(1)
      by (simp add: devolves_def delivery_matches_def)
  qed
  then have advance: "dadvances db db2" using A(2) by (simp add: dadvances_def)
  have "unknown_kept db db1"
    by (rule unknown_kept_update [OF sends]) (use send_guard in \<open>auto simp: delivery_matches_def\<close>)
  then have unknown: "unknown_kept db db2"
    using unknown_kept_trans [OF _ unknown_kept_same [OF A(2)]] A(6,7) by (simp add: audit_grows_def)
  show ?thesis
    using advance unknown coherent_pair [OF _ sends attempts] deliveries.update_ok [OF _ D(1)]
      delivery_attempts.update_ok [OF _ A(1)] D(3,4,6,7) A(2,3,5,6,7)
      baselines_truthful_later [OF _ advance] update_deliveries_audit [OF sends]
      update_deliveries_audit_ok [OF sends]
    by (simp add: dpreserves_def dkeeps_def delivery_inv_def audit_grows_def audit_ok_def)
qed

lemma update_preserves:
  assumes "fenced_delivery_update x wd fd wa fa db = Inr db2"
  shows "dpreserves x db db2"
  using assms pair_preserves by (auto simp: fenced_delivery_update_def split: if_splits)

text \<open>A binding no send carries changes nothing.\<close>

lemma stale_send:
  assumes "delivery_inv x db" and "\<forall>d \<in> set (dl_deliveries db). \<not> delivery_matches b d"
  shows "fenced_delivery_update x wd fd wa fa db = Inl LostLease"
proof -
  have no: "\<forall>d \<in> set (dl_deliveries db). \<not> wd d" using assms(2) send_guard by blast
  have none: "\<not> wa a" if a: "a \<in> set (dl_attempts db)" for a
  proof
    assume "wa a"
    then have m: "delivery_attempt_matches b a" by (rule attempt_guard)
    obtain d where "d \<in> set (dl_deliveries db)" "attempt_ok db d a"
      by (rule sends_coherentE [OF delivery_invD(4) [OF assms(1)] a])
    moreover from this m have "delivery_matches b d"
      by (simp add: attempt_ok_def carries_def delivery_attempt_matches_def delivery_matches_def)
    ultimately show False using assms(2) by blast
  qed
  have "sql_update (delivery_check x) delivery_unique wd fd (dl_deliveries db) =
      Inr (dl_deliveries db, 0)"
    by (rule update_none [OF delivery_invD(1) [OF assms(1)] no])
  moreover have "sql_update delivery_attempt_check delivery_attempt_unique wa fa (dl_attempts db) =
      Inr (dl_attempts db, 0)"
    by (rule update_none [OF delivery_invD(2) [OF assms(1)]]) (use none in blast)
  ultimately show ?thesis
    using no by (simp add: fenced_delivery_update_def update_deliveries_def update_delivery_attempts_def
        list_ex_iff spends_unselected)
qed

end

lemmas send_simps = delivery_matches_def delivery_attempt_matches_def carries_def follows_def
  resendable_def delivery_snapshot_def

interpretation dheartbeat: fenced_send b
  "\<lambda>d. delivery_matches b d \<and> delivery_lease (\<lambda>t. t > now \<and> t < expires) d \<and> d_updated_at d \<le> now"
  "\<lambda>d. d \<lparr>d_lease_expires_at := Some expires, d_updated_at := now\<rparr>"
  "\<lambda>a. delivery_attempt_matches b a \<and> da_lease_expires_at a > now \<and> da_lease_expires_at a < expires"
  "\<lambda>a. a \<lparr>da_lease_expires_at := expires\<rparr>"
  for b now expires
  by unfold_locales (auto simp: send_simps)

interpretation dunknown: fenced_send b
  "\<lambda>d. expired_delivery b expires now d \<and> P d" "unknown_row now"
  "expired_delivery_attempt b expires now" "unknown_attempt now"
  for b expires now P
  by unfold_locales (auto simp: send_simps expired_delivery_def expired_delivery_attempt_def
      unknown_row_def unknown_attempt_def)

definition provider_states :: "delivery_state list" where
  "provider_states = [DDelivered, DFailedRetryable, DFailedTerminal, DDeliveryUnknown]"

lemma finish_fenced:
  assumes "dt_state t \<in> set provider_states"
  shows "fenced_send b
    (\<lambda>d. delivery_matches b d \<and> delivery_lease (\<lambda>e. e > now) d \<and> d_updated_at d \<le> now)
    (finish_delivery_row t now)
    (\<lambda>a. delivery_attempt_matches b a \<and> da_lease_expires_at a > now \<and> da_started_at a \<le> now)
    (finish_delivery_attempt t now)"
  using assms
  by unfold_locales (auto simp: send_simps finish_delivery_row_def finish_delivery_attempt_def
      provider_states_def)

section \<open>Claims\<close>

lemma claim_statement_preserves:
  assumes upd: "update_deliveries x c w f db = Inr (db1, n)"
    and ins: "insert_delivery_attempt (delivery_attempt_of (f m) owner expires now key claimed) db1 =
      Inr db2"
    and m: "m \<in> set (dl_deliveries db)" "w m" "d_state m = DPending"
    and only: "\<And>d. w d \<Longrightarrow> d_delivery_id d = d_delivery_id m"
    and sending: "\<And>d. d_state (f d) = DSending \<and> d_attempt (f d) = d_attempt d + 1
      \<and> d_fence (f d) = d_fence d + 1 \<and> d_lease_owner (f d) = Some owner
      \<and> d_lease_expires_at (f d) = Some expires \<and> delivery_snapshot (f d) = delivery_snapshot d"
    and key: "d_idempotency_key (f m) = Some key"
    and claimed: "d_claimed_baseline_version (f m) = Some claimed"
  shows "dpreserves x db db2"
proof -
  let ?a = "delivery_attempt_of (f m) owner expires now key claimed"
  note D = update_deliveries_InrD [OF upd] and A = insert_delivery_attempt_InrD [OF ins]
  have upd_d: "sql_update (delivery_check x) delivery_unique w f (dl_deliveries db) =
      Inr (dl_deliveries db2, n)" using D(1) A(2) by simp
  have rows: "dl_attempts db2 = dl_attempts db @ [?a]"
    using sql_insert_InrD(1) [OF A(1)] D(3) by simp
  have grows: "audit_grows db db2"
    using update_deliveries_audit [OF upd] A(6,7) by (simp add: audit_grows_def)
  have new: "f m \<in> set (dl_deliveries db2)" by (rule update_selected [OF upd_d m(1,2)])
  have carry: "carries (f m) ?a"
    using sending [of m] key claimed by (simp add: carries_def delivery_attempt_of_def)
  have step: "devolves m (f m)"
    using D(2) [OF m(1,2)] sending [of m] dstep.send [of "d_attempt m" "d_fence m"] m(3)
    by (simp add: devolves_def keeps_payload_def delivery_triggers_def dlife_def r_into_rtranclp)
  have here: "d = m" if "delivery_inv x db" "d \<in> set (dl_deliveries db)" "w d" for d
    using delivery_key [OF that(1,2) m(1)] only [OF that(3)] .
  have "dadvances db db2" if inv: "delivery_inv x db"
  proof -
    have "dadvances db db1"
      by (rule dadvances_update [OF upd]) (use step here [OF inv] in blast)
    then show ?thesis using A(2) by (simp add: dadvances_def)
  qed
  moreover have "sends_coherent db2" if inv: "delivery_inv x db"
    unfolding sends_coherent_def
  proof (intro conjI ballI impI)
    fix d' assume d': "d' \<in> set (dl_deliveries db2)" and send: "d_state d' = DSending"
    from upd_d d' show "\<exists>a \<in> set (dl_attempts db2). carries d' a"
    proof (cases rule: update_origin)
      case (1 d)
      then show ?thesis
        using delivery_invD(4) [OF inv] send rows by (auto simp: sends_coherent_def)
    next
      case (2 d)
      then have "d' = f m" using here [OF inv] by blast
      then show ?thesis using carry rows by auto
    qed
  next
    fix a assume "a \<in> set (dl_attempts db2)"
    then consider "a \<in> set (dl_attempts db)" | "a = ?a" using rows by auto
    then show "\<exists>d \<in> set (dl_deliveries db2). attempt_ok db2 d a"
    proof cases
      case 1
      obtain d where d: "d \<in> set (dl_deliveries db)" "attempt_ok db2 d a"
        by (rule sends_coherentE [OF delivery_invD(4) [OF inv] 1])
          (use attempt_ok_grows [OF grows] in blast)
      show ?thesis
      proof (cases "w d")
        case True
        then have dm: "d = m" using here [OF inv d(1)] by blast
        have "resendable (forced db2 a) (da_state a)"
          using d(2) dm m(3) by (auto simp: attempt_ok_def settled_def follows_def split: if_splits)
        then have "attempt_ok db2 (f m) a"
          using d(2) dm sending [of m] delivery_snapshot_keys(1) [of "f m" m]
          by (auto simp: attempt_ok_def settled_def resendable_def)
        then show ?thesis using new by blast
      next
        case False
        then show ?thesis using update_unselected [OF upd_d d(1)] d(2) by blast
      qed
    next
      case 2
      have "attempt_ok db2 (f m) ?a"
        using carry sending [of m]
        by (simp add: attempt_ok_def settled_def follows_def delivery_attempt_of_def)
      then show ?thesis using new 2 by blast
    qed
  qed
  moreover have "unknown_kept db db2" if inv: "delivery_inv x db"
  proof -
    have "unknown_kept db db1"
      by (rule unknown_kept_update [OF upd]) (use here [OF inv] m(3) in auto)
    then show ?thesis
      using unknown_kept_trans [OF _ unknown_kept_same [OF A(2)]] A(6,7) by (simp add: audit_grows_def)
  qed
  ultimately show ?thesis
    using deliveries.update_ok [OF _ upd_d] delivery_attempts.insert_ok [OF _ A(1)] D(3,4,6,7)
      A(2,3,5,6,7) grows baselines_truthful_later [of db db2] update_deliveries_audit_ok [OF upd]
    by (simp add: dpreserves_def dkeeps_def delivery_inv_def audit_ok_def)
qed

section \<open>The accepted baseline\<close>

lemma find_delivery_SomeD:
  "find_delivery i db = Some d \<Longrightarrow> d \<in> set (dl_deliveries db) \<and> d_delivery_id d = i"
  using find_SomeD by (fastforce simp: find_delivery_def)

lemma expected_baselineE:
  assumes "expected_baseline x i db = Some v"
  obtains d p where "find_delivery i db = Some d" "d_payload d = Some p"
    "d_state d \<in> {DDelivered, DSkippedNone}"
  using assms by (auto simp: expected_baseline_def bind_eq_Some_conv split: if_splits)

text \<open>An accepted row whose source is the delivery it was built from.\<close>

lemma baseline_source_from:
  assumes "d_payload d = Some p" and "d_state d \<in> {DDelivered, DSkippedNone}"
    and "acc_identity r = baseline_key_at d (pc_render_version p) (pc_hash_algorithm p)"
    and "acc_baseline r = accepted_from d p a at_time v"
  shows "baseline_source d r"
  using assms by (auto simp: baseline_source_def baseline_key_def payload_digest_of_def
      accepted_from_def)

lemma upsert_preserves:
  assumes ups: "upsert_accepted expected at_time d p a db = Inr (db', n)"
    and d: "d \<in> set (dl_deliveries db)" "d_payload d = Some p"
      "d_state d \<in> {DDelivered, DSkippedNone}"
  shows "dpreserves x db db'"
proof -
  let ?key = "baseline_key_at d (pc_render_version p) (pc_hash_algorithm p)"
  let ?new = "\<lparr>acc_identity = ?key, acc_baseline = accepted_from d p a at_time 1\<rparr>"
  have same: "dl_deliveries db' = dl_deliveries db" "dl_attempts db' = dl_attempts db"
      "same_jobs (dl_db db) (dl_db db')" "dl_actions db' = dl_actions db"
      "dl_consumptions db' = dl_consumptions db"
    using ups by (auto simp: upsert_accepted_def Let_def split: if_splits)
  have "table_ok accepted_check accepted_unique (dl_accepted db') \<and> baselines_truthful db'"
    if inv: "table_ok accepted_check accepted_unique (dl_accepted db)" "baselines_truthful db"
  proof (cases "list_ex (\<lambda>r. acc_identity r = ?key) (dl_accepted db)")
    case False
    then have acc: "accepted_check ?new" "dl_accepted db' = dl_accepted db @ [?new]"
      using ups by (auto simp: upsert_accepted_def Let_def split: if_splits)
    have "baseline_source d ?new" by (rule baseline_source_from [OF d(2,3)]) simp_all
    then show ?thesis
      using inv acc False d(1) same
      by (auto simp: table_ok_def accepted_unique_def baselines_truthful_def list_ex_iff)
  next
    case True
    define w where "w = (\<lambda>r :: accepted_row. acc_identity r = ?key \<and> expected < i64_max
      \<and> ab_baseline_version (acc_baseline r) = expected)"
    define f where "f = (\<lambda>r :: accepted_row. r \<lparr>acc_baseline := accepted_from d p a at_time
      (ab_baseline_version (acc_baseline r) + 1)\<rparr>)"
    obtain rows where upd: "sql_update accepted_check accepted_unique w f (dl_accepted db) = Inr (rows, n)"
        and rows: "dl_accepted db' = dl_accepted db \<or> dl_accepted db' = rows"
      using ups True by (auto simp: upsert_accepted_def Let_def w_def f_def split: if_splits)
    have "\<exists>e \<in> set (dl_deliveries db). baseline_source e r'" if r': "r' \<in> set rows" for r'
      using upd r'
    proof (cases rule: update_origin)
      case (1 r)
      then show ?thesis using inv(2) by (auto simp: baselines_truthful_def)
    next
      case (2 r)
      then have "baseline_source d r'" by (intro baseline_source_from [OF d(2,3)]) (simp_all add: w_def f_def)
      then show ?thesis using d(1) by blast
    qed
    then show ?thesis
      using inv rows accepted.update_ok [OF inv(1) upd] same by (auto simp: baselines_truthful_def)
  qed
  then show ?thesis
    using same sends_coherent_grows [of db db']
    by (auto simp: dpreserves_def dkeeps_def delivery_inv_def audit_grows_def audit_ok_def
        intro: dadvances_same unknown_kept_same)
qed

lemma advance_baseline_preserves:
  assumes "advance_accepted_delivery_baseline_in_transaction x i at_time db = Inr (db', v)"
  shows "dpreserves x db db'"
proof -
  obtain expected where "expected_baseline x i db = Some expected"
    using assms by (auto simp: advance_accepted_delivery_baseline_in_transaction_def)
  then obtain d p where d: "find_delivery i db = Some d" "d_payload d = Some p"
      "d_state d \<in> {DDelivered, DSkippedNone}"
    by (rule expected_baselineE)
  have "d \<in> set (dl_deliveries db)" using find_delivery_SomeD [OF d(1)] by blast
  then show ?thesis
    using assms d upsert_preserves
    by (auto simp: advance_accepted_delivery_baseline_in_transaction_def split: if_splits option.splits)
qed

section \<open>The operations\<close>

lemma prepare_new_preserves:
  assumes "prepare_new_delivery x d none version content body render now policy db = Inr (db', v)"
  shows "dpreserves x db db'"
proof -
  define w where "w = (\<lambda>e :: delivery_row. d_delivery_id e = d_delivery_id d \<and> d_state e = DPending \<and> d_payload e = None)"
  obtain p db1 n where upd: "update_deliveries x False w (freeze_payload none p now) db = Inr (db1, n)"
    and rest: "db' = db1 \<or> (\<exists>v. advance_accepted_delivery_baseline_in_transaction x
      (d_delivery_id d) now db1 = Inr (db', v))"
    using assms unfolding prepare_new_delivery_def Let_def w_def
    by (auto split: if_splits)
  have "dpreserves x db db1"
    by (rule update_idle_preserves [OF upd])
      (auto simp: w_def freeze_payload_def delivery_snapshot_def)
  moreover have "dpreserves x db1 db'" using rest advance_baseline_preserves by auto
  ultimately show ?thesis by (rule dpreserves_trans)
qed

lemma prepare_preserves:
  "dpreserves x db (snd (prepare_scheduled_delivery x i content body render now policy db))"
  unfolding prepare_scheduled_delivery_def
  by (rule transact_delivery_preserves)
    (auto split: option.splits intro: prepare_new_preserves)

lemma peek_preserves: "dpreserves x db (snd (peek_scheduled_delivery_work x now db))"
proof -
  have "dpreserves x db db'" if "scheduled_delivery_authority_from_row x d = Inr a"
    "update_deliveries x False (\<lambda>e. d_delivery_id e = da_delivery_id a \<and> d_state e = da_source_state a)
       (expire_overdue now) db = Inr (db', n)" for d a db' n
  proof (rule update_idle_preserves [OF that(2)])
    have "da_source_state a \<notin> {DSending, DDeliveryUnknown}"
      using that(1) by (auto simp: scheduled_delivery_authority_from_row_def split: if_splits)
    then show "d_state e \<notin> {DSending, DDeliveryUnknown} \<and> d_state (expire_overdue now e) \<noteq> DSending
        \<and> d_attempt (expire_overdue now e) = d_attempt e \<and> d_fence (expire_overdue now e) = d_fence e
        \<and> delivery_snapshot (expire_overdue now e) = delivery_snapshot e"
      if "d_delivery_id e = da_delivery_id a \<and> d_state e = da_source_state a" for e
      using that by (simp add: expire_overdue_def delivery_snapshot_def)
  qed
  then show ?thesis
    unfolding peek_scheduled_delivery_work_def by (auto split: option.splits sum.splits)
qed

lemma skip_preserves: "dpreserves x db (snd (skip_scheduled_delivery_unchanged x a now db))"
  unfolding skip_scheduled_delivery_unchanged_def
  by (rule transact_delivery_preserves)
    (auto split: if_splits simp: skip_exact_row_def skip_row_def delivery_snapshot_def
      intro!: update_idle_preserves)

lemma authority_not_sending:
  assumes "validate_scheduled_delivery_authority x a = Inr u"
  shows "da_source_state a = DPending \<or> da_source_state a = DFailedRetryable"
  using assms by (auto simp: validate_scheduled_delivery_authority_def split: if_splits)

lemma reject_preserves: "dpreserves x db (snd (reject_scheduled_delivery_readiness x a kind now db))"
  unfolding reject_scheduled_delivery_readiness_def
  by (rule transact_delivery_preserves)
    (auto split: if_splits simp: reject_row_def delivery_snapshot_def dest!: authority_not_sending
      intro!: update_idle_preserves)

lemma terminalize_preserves:
  assumes "terminalize_exact_delivery_if_exhausted x a s now db = Inr (db', v)"
    and "s \<notin> {DSending, DDeliveryUnknown}"
  shows "dpreserves x db db'"
  using assms unfolding terminalize_exact_delivery_if_exhausted_def
  by (auto simp: terminalize_row_def delivery_snapshot_def intro!: update_idle_preserves)

lemma requeue_update_preserves:
  assumes "update_deliveries x c w requeue_row db = Inr (db', n)"
    and "\<And>d. w d \<Longrightarrow> d_state d = DFailedRetryable"
  shows "dpreserves x db db'"
  by (rule update_idle_preserves [OF assms(1)])
    (use assms(2) in \<open>simp add: requeue_row_def delivery_snapshot_def\<close>)

lemma requeue_exact_preserves:
  assumes "requeue_exact_retryable_delivery x a now db = Inr (db', v)"
  shows "dpreserves x db db'"
proof -
  obtain db1 terminal where first:
      "terminalize_exact_delivery_if_exhausted x a DFailedRetryable now db = Inr (db1, terminal)"
    using assms by (auto simp: requeue_exact_retryable_delivery_def)
  have "dpreserves x db db1" by (rule terminalize_preserves [OF first]) simp
  moreover have "dpreserves x db1 db'"
    using assms first requeue_update_preserves [where db = db1]
    by (auto simp: requeue_exact_retryable_delivery_def split: if_splits)
  ultimately show ?thesis by (rule dpreserves_trans)
qed

lemma refuse_spent_preserves:
  assumes "refuse_spent x w db = Inr (db', v)" and "\<And>d. w d \<Longrightarrow> d_state d = DPending"
  shows "dpreserves x db db'"
proof (cases "list_ex w (dl_deliveries db)")
  case True
  then obtain db1 n where upd: "update_deliveries x False (\<lambda>d. w d \<and> \<not> d_counter_limit_recorded d)
        (\<lambda>d. d \<lparr>d_counter_limit_recorded := True\<rparr>) db = Inr (db1, n)"
      "count_transition PolicyLimitRejected n db1 = Inr db'"
    using assms(1) by (auto simp: refuse_spent_def)
  have "dpreserves x db db1"
    by (rule update_idle_preserves [OF upd(1)])
      (use assms(2) in \<open>simp add: delivery_snapshot_def\<close>)
  then show ?thesis
    using dpreserves_trans dpreserves_same count_transition_same [OF upd(2)] by blast
qed (use assms in \<open>simp add: refuse_spent_def\<close>)

lemma record_claimE:
  assumes "record_delivery_claim x d owner expires now db = Inr (db', b, p)"
  obtains key claimed where "d_idempotency_key d = Some key"
    "d_claimed_baseline_version d = Some claimed"
    "insert_delivery_attempt (delivery_attempt_of d owner expires now key claimed) db = Inr db'"
    "b = binding_of_claim d owner key" "delivery_payload_from_row x d = Inr p"
  using assms by (auto simp: record_delivery_claim_def)

lemma claim_row_sending:
  "d_state (claim_delivery_row db owner expires now d) = DSending
     \<and> d_attempt (claim_delivery_row db owner expires now d) = d_attempt d + 1
     \<and> d_fence (claim_delivery_row db owner expires now d) = d_fence d + 1
     \<and> d_lease_owner (claim_delivery_row db owner expires now d) = Some owner
     \<and> d_lease_expires_at (claim_delivery_row db owner expires now d) = Some expires
     \<and> delivery_snapshot (claim_delivery_row db owner expires now d) = delivery_snapshot d"
  by (simp add: claim_delivery_row_def delivery_snapshot_def)

lemma exact_row_sending:
  "d_state (exact_claim_row db owner expires now d) = DSending
     \<and> d_attempt (exact_claim_row db owner expires now d) = d_attempt d + 1
     \<and> d_fence (exact_claim_row db owner expires now d) = d_fence d + 1
     \<and> d_lease_owner (exact_claim_row db owner expires now d) = Some owner
     \<and> d_lease_expires_at (exact_claim_row db owner expires now d) = Some expires
     \<and> delivery_snapshot (exact_claim_row db owner expires now d) = delivery_snapshot d"
  by (simp add: exact_claim_row_def claim_delivery_row_def delivery_snapshot_def)

lemma recorded_claim_preserves:
  assumes "update_deliveries x c w f db = Inr (db1, n)"
    and "record_delivery_claim x (f m) owner expires now db1 = Inr (db2, b, p)"
    and "m \<in> set (dl_deliveries db)" "w m" "d_state m = DPending"
    and "\<And>d. w d \<Longrightarrow> d_delivery_id d = d_delivery_id m"
    and "\<And>d. d_state (f d) = DSending \<and> d_attempt (f d) = d_attempt d + 1
      \<and> d_fence (f d) = d_fence d + 1 \<and> d_lease_owner (f d) = Some owner
      \<and> d_lease_expires_at (f d) = Some expires \<and> delivery_snapshot (f d) = delivery_snapshot d"
  shows "dpreserves x db db2"
  using assms(2)
proof (cases rule: record_claimE)
  case (1 key claimed)
  show ?thesis
    by (rule claim_statement_preserves [OF assms(1) 1(3) assms(3-5) assms(6) assms(7) 1(1,2)])
qed

text \<open>The ways a claim of the next delivery can commit.\<close>

lemma claim_nextE:
  assumes "claim_next_scheduled_delivery x owner now expires db = (v, db')"
  obtains (unclaimed) "\<forall>c. v \<noteq> Inr (Some c)" "dpreserves x db db'"
  | (claimed) m db1 n b p where
      "oldest_delivery (\<lambda>d. unblocked_pending db now d \<and> counters_left d) db = Some m"
      "\<not> unchanged db m"
      "update_deliveries x True (\<lambda>d. d_delivery_id d = d_delivery_id m \<and> d_state d = DPending
         \<and> d_updated_at d \<le> now \<and> \<not> unchanged db d)
         (claim_delivery_row db owner expires now) db = Inr (db1, n)"
      "record_delivery_claim x (claim_delivery_row db owner expires now m) owner expires now db1 =
         Inr (db', b, p)"
      "v = rbind (scheduler_policy_from_snapshot x (d_policy_version m) (d_policy_json m)) (\<lambda>policy.
         Inr (Some \<lparr>cd_binding = b, cd_payload = p, cd_target_json = d_target_json m,
           cd_scheduler_policy = policy\<rparr>))"
proof -
  let ?spent = "\<lambda>d. d_state d = DPending \<and> d_payload d \<noteq> None \<and> counters_spent d"
  have refused: "(\<forall>c. v \<noteq> Inr (Some c)) \<and> dpreserves x db db'" if "refuse_spent x ?spent db = Inr (db', v)"
    using that refuse_spent_preserves [OF that]
    by (auto simp: refuse_spent_def split: if_splits)
  have skipped: "dpreserves x db db'" if "update_deliveries x True (\<lambda>d. d_delivery_id d = i
      \<and> d_state d = DPending \<and> d_updated_at d \<le> now \<and> unchanged db d) (skip_row db now) db =
      Inr (db', n)" for i n
    by (rule update_idle_preserves [OF that]) (auto simp: skip_row_def delivery_snapshot_def)
  show thesis
    using assms [unfolded claim_next_scheduled_delivery_def]
  proof (cases rule: transact_delivery_cases)
    case rolled_back
    then show thesis using unclaimed by auto
  next
    case lost
    then show thesis using unclaimed dpreserves_same by auto
  next
    case committed
    show thesis
    proof (cases "oldest_delivery (\<lambda>d. unblocked_pending db now d) db")
      case None
      then show thesis using committed refused unclaimed by (auto split: if_splits)
    next
      case (Some c)
      show thesis
      proof (cases "unchanged db c")
        case True
        then show thesis using committed Some skipped unclaimed by (auto split: if_splits)
      next
        case False
        show thesis
        proof (cases "oldest_delivery (\<lambda>d. unblocked_pending db now d \<and> counters_left d) db")
          case None
          then show thesis using committed Some False refused unclaimed by (auto split: if_splits)
        next
          case m: (Some m)
          then show thesis
            using committed Some False refused unclaimed claimed [of m]
            by (cases "unchanged db m") (auto simp: Let_def claim_delivery_row_def split: if_splits)
        qed
      qed
    qed
  qed
qed

lemma oldest_deliveryD:
  assumes "oldest_delivery w db = Some m"
  shows "m \<in> set (dl_deliveries db)" and "w m"
  using select_min_SomeD [OF assms [unfolded oldest_delivery_def]] by auto

lemma claim_next_preserves:
  "dpreserves x db (snd (claim_next_scheduled_delivery x owner now expires db))"
proof -
  obtain v db' where eq: "claim_next_scheduled_delivery x owner now expires db = (v, db')" by fastforce
  from eq have "dpreserves x db db'"
  proof (cases rule: claim_nextE)
    case unclaimed
    then show ?thesis by simp
  next
    case (claimed m db1 n b p)
    note m = oldest_deliveryD [OF claimed(1)]
    show ?thesis
      by (rule recorded_claim_preserves [OF claimed(3,4) m(1)])
        (use m(2) claimed(2) claim_row_sending in \<open>auto simp: unblocked_pending_def\<close>)
  qed
  with eq show ?thesis by simp
qed

lemma refuse_exactE:
  assumes "refuse_exact x a now db = Inr e"
  obtains db' v where "e = ClaimCommit db' v" "\<forall>c. v \<noteq> Inr (Some c)" "dpreserves x db db'"
proof -
  obtain db1 terminal where first:
      "terminalize_exact_delivery_if_exhausted x a DPending now db = Inr (db1, terminal)"
    using assms by (auto simp: refuse_exact_def)
  have keep: "dpreserves x db db1" by (rule terminalize_preserves [OF first]) simp
  let ?spent = "\<lambda>d. d_delivery_id d = da_delivery_id a \<and> d_state d = DPending \<and> counters_spent d"
  have spent: "dpreserves x db db' \<and> (\<forall>c. v \<noteq> Inr (Some c))" if "refuse_spent x ?spent db1 = Inr (db', v)"
    for db' v
    using dpreserves_trans [OF keep refuse_spent_preserves [OF that]] that
    by (auto simp: refuse_spent_def split: if_splits)
  show thesis
    using assms first keep that spent by (cases terminal) (auto simp: refuse_exact_def)
qed

lemma claim_row_columns [simp]:
  "d_policy_version (exact_claim_row db owner expires now d) = d_policy_version d"
  "d_policy_json (exact_claim_row db owner expires now d) = d_policy_json d"
  "d_target_json (exact_claim_row db owner expires now d) = d_target_json d"
  by (simp_all add: exact_claim_row_def claim_delivery_row_def)

lemma finish_claimE:
  assumes "finish_exact_claim x d owner expires now later db = Inr (ClaimCommit db' v)"
  obtains b p policy where "record_delivery_claim x d owner expires now db = Inr (db', b, p)"
    "scheduler_policy_from_snapshot x (d_policy_version d) (d_policy_json d) = Inr policy"
    "\<not> deadline_reached policy (ps_created_at p) later" "later < expires"
    "v = Inr (Some \<lparr>cd_binding = b, cd_payload = p, cd_target_json = d_target_json d,
       cd_scheduler_policy = policy\<rparr>)"
  using assms by (auto simp: finish_exact_claim_def Let_def split: if_splits)

text \<open>The ways the transaction of an exact claim can end: nothing claimed, or the one row the authority
  names sent within its policy.\<close>

lemma claim_exactE:
  assumes "claim_exact_body x a owner now clock db = Inr (ClaimCommit db' v)"
    and source: "da_source_state a = DPending \<or> da_source_state a = DFailedRetryable"
  obtains (unclaimed) "\<forall>c. v \<noteq> Inr (Some c)" "dpreserves x db db'"
  | (claimed) db1 db2 m n t expires b p policy where
      "dpreserves x db db1" "t = max (clock_claim clock) (max (clock_observed clock) now)"
      "expires = t + uint (delivery_lease_seconds (da_scheduler_policy a))"
      "m \<in> set (dl_deliveries db1)" "exact_claimable x a t db1 m"
      "update_deliveries x True (exact_claimable x a t db1) (exact_claim_row db1 owner expires t) db1 =
         Inr (db2, n)"
      "record_delivery_claim x (exact_claim_row db1 owner expires t m) owner expires t db2 =
         Inr (db', b, p)"
      "scheduler_policy_from_snapshot x (d_policy_version m) (d_policy_json m) = Inr policy"
      "\<not> deadline_reached policy (ps_created_at p) (max (clock_finish clock) t)"
      "max (clock_finish clock) t < expires"
      "v = Inr (Some \<lparr>cd_binding = b, cd_payload = p, cd_target_json = d_target_json m,
         cd_scheduler_policy = policy\<rparr>)"
proof -
  let ?observed = "max (clock_observed clock) now"
  let ?t = "max (clock_claim clock) ?observed"
  let ?expires = "?t + uint (delivery_lease_seconds (da_scheduler_policy a))"
  obtain db0 terminal where first:
      "terminalize_exact_delivery_if_exhausted x a (da_source_state a) ?observed db = Inr (db0, terminal)"
    using assms(1) by (auto simp: claim_exact_body_def Let_def)
  have keep0: "dpreserves x db db0"
    by (rule terminalize_preserves [OF first]) (use source in auto)
  show thesis
  proof (cases terminal)
    case True
    then show thesis using assms(1) first keep0 unclaimed by (auto simp: claim_exact_body_def Let_def)
  next
    case False
    obtain db1 ready where second: "(if da_source_state a = DFailedRetryable
        then lift (requeue_exact_retryable_delivery x a ?observed db0) else Inr (db0, True)) =
        Inr (db1, ready)"
      using assms(1) first False by (auto simp: claim_exact_body_def Let_def)
    have keep1: "dpreserves x db db1"
      using second keep0 dpreserves_trans requeue_exact_preserves by (auto split: if_splits)
    show thesis
    proof (cases ready)
      case False
      then show thesis
        using assms(1) first \<open>\<not> terminal\<close> second keep1 unclaimed
        by (auto simp: claim_exact_body_def Let_def)
    next
      case ready: True
      have expires: "checked_add ?t (uint (delivery_lease_seconds (da_scheduler_policy a))) = Some ?expires"
        using assms(1) first \<open>\<not> terminal\<close> second ready
        by (auto simp: claim_exact_body_def Let_def)
      show thesis
      proof (cases "List.find (exact_claimable x a ?t db1) (dl_deliveries db1)")
        case None
        then have "refuse_exact x a ?t db1 = Inr (ClaimCommit db' v)"
          using assms(1) first \<open>\<not> terminal\<close> second ready expires
          by (simp add: claim_exact_body_def Let_def)
        then show thesis
          by (rule refuse_exactE) (use unclaimed keep1 dpreserves_trans in auto)
      next
        case (Some m)
        then obtain db2 n where upd: "update_deliveries x True (exact_claimable x a ?t db1)
              (exact_claim_row db1 owner ?expires ?t) db1 = Inr (db2, n)"
            and fin: "finish_exact_claim x (exact_claim_row db1 owner ?expires ?t m) owner ?expires ?t
              (max (clock_finish clock) ?t) db2 = Inr (ClaimCommit db' v)"
          using assms(1) first \<open>\<not> terminal\<close> second ready expires
          by (auto simp: claim_exact_body_def Let_def)
        obtain b p policy where fin': "record_delivery_claim x
              (exact_claim_row db1 owner ?expires ?t m) owner ?expires ?t db2 = Inr (db', b, p)"
            "scheduler_policy_from_snapshot x (d_policy_version m) (d_policy_json m) = Inr policy"
            "\<not> deadline_reached policy (ps_created_at p) (max (clock_finish clock) ?t)"
            "max (clock_finish clock) ?t < ?expires"
            "v = Inr (Some \<lparr>cd_binding = b, cd_payload = p, cd_target_json = d_target_json m,
               cd_scheduler_policy = policy\<rparr>)"
          using fin by (rule finish_claimE) simp
        show thesis
          using claimed [OF keep1 refl refl _ _ upd fin'] find_SomeD [OF Some] by blast
      qed
    qed
  qed
qed

lemma claim_exact_preserves:
  assumes "claim_exact_body x a owner now clock db = Inr (ClaimCommit db' v)"
    and "da_source_state a = DPending \<or> da_source_state a = DFailedRetryable"
  shows "dpreserves x db db'"
  using assms
proof (cases rule: claim_exactE)
  case unclaimed
  then show ?thesis by simp
next
  case (claimed db1 db2 m n t expires b p policy)
  have "dpreserves x db1 db'"
    by (rule recorded_claim_preserves [OF claimed(6,7,4,5)])
      (use claimed(5) exact_row_sending in \<open>auto simp: exact_claimable_def authority_matches_def\<close>)
  then show ?thesis using claimed(1) dpreserves_trans by blast
qed

lemma claim_inner_preserves:
  "dpreserves x db (snd (claim_scheduled_delivery_inner x a owner now clock db))"
proof -
  have late: "dpreserves x db (snd (transact_delivery db (rbind (lift
      (terminalize_exact_delivery_if_exhausted x a (da_source_state a) t db)) (\<lambda>(db', _). Inr (db', Inr w)))))"
    if "da_source_state a = DPending \<or> da_source_state a = DFailedRetryable"
    for t and w :: "claimed_delivery option"
    by (rule transact_delivery_preserves) (use that in \<open>auto intro: terminalize_preserves\<close>)
  show ?thesis
    unfolding claim_scheduled_delivery_inner_def
    using late claim_exact_preserves transact_delivery_preserves [of "Inl _"]
    by (auto split: sum.splits claim_end.splits if_splits dest!: authority_not_sending)
qed

lemma heartbeat_delivery_preserves:
  "dpreserves x db (snd (heartbeat_scheduled_delivery x b now expires db))"
  unfolding heartbeat_scheduled_delivery_def
  by (rule transact_delivery_preserves) (auto split: if_splits intro: dheartbeat.update_preserves)

lemma reconcile_stale_delivery_preserves: "reconcile_stale_delivery db = Inr (db', v) \<Longrightarrow> dpreserves x db db'"
  by (auto simp: reconcile_stale_delivery_def intro: dpreserves_same count_transition_same)

text \<open>A stale answer comes before any row has changed.\<close>

lemma update_missed_same:
  assumes "update_deliveries x c w f db = Inr (db1, n)" and "n \<noteq> 1"
    and "\<And>d e. w d \<Longrightarrow> w e \<Longrightarrow> d_delivery_id d = d_delivery_id e"
  shows "dpreserves x db db1"
proof -
  note D = update_deliveries_InrD [OF assms(1)]
  have "dkeeps x db db1" if "delivery_inv x db"
    by (rule dkeeps_spent [OF deliveries.update_missed [OF delivery_invD(1) [OF that] D(1) assms(2,3)]
          D(3,4,7)])
      (use D(8) update_deliveries_audit_ok [OF assms(1)] in auto)
  then show ?thesis
    using D(6) update_deliveries_audit [OF assms(1)] by (auto simp: dpreserves_def dkeeps_def)
qed

lemma reconcile_eligible_preserves:
  assumes "reconcile_eligible x d attempt fence expires now db = Inr (db', v)"
  shows "dpreserves x db db'"
proof -
  obtain owner key db1 n where upd: "update_deliveries x False
        (\<lambda>e. expired_delivery (row_delivery_binding d owner key) expires now e \<and> d_payload e \<noteq> None)
        (unknown_row now) db = Inr (db1, n)"
      and rest: "if n \<noteq> 1 then reconcile_stale_delivery db1 = Inr (db', v)
        else update_delivery_attempts
          (expired_delivery_attempt (row_delivery_binding d owner key) expires now)
          (unknown_attempt now) db1 = Inr (db', 1)"
    using assms by (auto simp: reconcile_eligible_def Let_def split: if_splits)
  show ?thesis
  proof (cases "n = 1")
    case True
    then show ?thesis using dunknown.pair_preserves upd rest by simp
  next
    case False
    have "dpreserves x db db1"
      by (rule update_missed_same [OF upd False]) (simp add: expired_delivery_def delivery_matches_def)
    moreover have "dpreserves x db1 db'" using False rest reconcile_stale_delivery_preserves by auto
    ultimately show ?thesis by (rule dpreserves_trans)
  qed
qed

lemma reconcile_delivery_preserves:
  "dpreserves x db (snd (reconcile_expired_scheduled_delivery x i s attempt fence expires now db))"
  unfolding reconcile_expired_scheduled_delivery_def
  by (rule transact_delivery_preserves)
    (auto split: if_splits option.splits
      intro: reconcile_eligible_preserves reconcile_stale_delivery_preserves)

lemma reclaim_deliveries_preserves:
  "reclaim_deliveries x now limit db = Inr (db', n) \<Longrightarrow> dpreserves x db db'"
proof (induction limit arbitrary: db n)
  case (Suc limit)
  show ?case
  proof (cases "select_min (\<lambda>d. (case d_lease_expires_at d of None \<Rightarrow> 0 | Some t \<Rightarrow> t, d_delivery_id d))
      (\<lambda>d. d_state d = DSending \<and> delivery_lease (\<lambda>t. t \<le> now) d \<and> d_updated_at d \<le> now)
      (dl_deliveries db)")
    case None
    then show ?thesis using Suc.prems by simp
  next
    case (Some d)
    then obtain b expires db1 m where
        "fenced_delivery_update x (expired_delivery b expires now) (unknown_row now)
          (expired_delivery_attempt b expires now) (unknown_attempt now) db = Inr db1"
        "reclaim_deliveries x now limit db1 = Inr (db', m)"
      using Suc.prems by (auto simp: Let_def)
    then have "dpreserves x db db1" "dpreserves x db1 db'"
      using dunknown.update_preserves [where P = "\<lambda>_. True"] Suc.IH by simp_all
    then show ?thesis by (rule dpreserves_trans)
  qed
qed simp

lemma reclaim_expired_preserves:
  "dpreserves x db (snd (reclaim_expired_scheduled_deliveries x now limit db))"
  unfolding reclaim_expired_scheduled_deliveries_def
  by (rule transact_delivery_preserves) (auto split: if_splits intro: reclaim_deliveries_preserves)

lemma transition_preserves:
  assumes "transition_delivery_terminal x b t now db = Inr db'" and "dt_state t \<in> set provider_states"
  shows "dpreserves x db db'"
  using assms fenced_send.update_preserves [OF finish_fenced [OF assms(2)]]
  by (auto simp: transition_delivery_terminal_def split: if_splits)

lemma delivered_preserves:
  "dpreserves x db (snd (complete_scheduled_delivery_delivered x b receipt now db))"
  unfolding complete_scheduled_delivery_delivered_def
proof (rule transact_delivery_preserves, clarsimp split: if_splits)
  fix db1 db2
  assume "transition_delivery_terminal x b (delivered_transition receipt) now db = Inr db1"
    and "advance_accepted_delivery_baseline_in_transaction x (dlb_delivery_id b) now db1 = Inr (db2, True)"
  moreover have "dt_state (delivered_transition receipt) \<in> set provider_states"
    by (simp add: delivered_transition_def provider_states_def)
  ultimately have "dpreserves x db db1" "dpreserves x db1 db2"
    using transition_preserves advance_baseline_preserves by simp_all
  then show "dpreserves x db db2" by (rule dpreserves_trans)
qed

lemma failure_states:
  "dt_state (failure_transition failure) \<in> set provider_states"
  "dt_state (exhausted_transition t) \<in> set provider_states"
  by (cases failure; simp add: failure_transition_def provider_states_def)
    (simp add: exhausted_transition_def provider_states_def)

lemma retry_within_policyD:
  assumes "retry_within_policy x b t now db = Inr t'"
  shows "t' = t \<or> t' = exhausted_transition t"
  using assms by (auto simp: retry_within_policy_def split: option.splits if_splits)

lemma failure_preserves:
  "dpreserves x db (snd (complete_scheduled_delivery_failure x b failure now db))"
  unfolding complete_scheduled_delivery_failure_def
  by (rule transact_delivery_preserves)
    (auto simp: Let_def split: if_splits dest!: retry_within_policyD
      intro: transition_preserves failure_states)

lemma requeue_batchD:
  assumes "delivery_inv x db" and "d \<in> set (dl_deliveries db)"
    and "d_delivery_id d \<in> set (requeue_batch now limit db)"
  shows "d_state d = DFailedRetryable \<and> retry_due now d"
proof -
  obtain e where "e \<in> set (dl_deliveries db)" "d_state e = DFailedRetryable" "retry_due now e"
      "d_delivery_id e = d_delivery_id d"
    using assms(3) by (auto simp: requeue_batch_def dest!: in_set_takeD)
  then show ?thesis using delivery_key [OF assms(1,2)] by metis
qed

lemma requeue_due_preserves:
  "dpreserves x db (snd (requeue_due_scheduled_deliveries x now limit db))"
  unfolding requeue_due_scheduled_deliveries_def
proof (rule transact_delivery_preserves, clarsimp split: if_splits)
  fix db1 n db2 k
  assume spent: "update_deliveries x False (\<lambda>d. d_state d = DFailedRetryable \<and> retry_due now d
      \<and> retry_exhausted x d) (exhaust_row now) db = Inr (db1, n)"
    and due: "update_deliveries x True (\<lambda>d. d_delivery_id d \<in> set (requeue_batch now (unat limit) db1))
      requeue_row db1 = Inr (db2, k)"
  have "dpreserves x db db1"
    by (rule update_idle_preserves [OF spent]) (simp add: exhaust_row_def delivery_snapshot_def)
  moreover have "dpreserves x db1 db2"
  proof (rule update_idle_rows_preserves [OF due])
    fix d assume "delivery_inv x db1" "d \<in> set (dl_deliveries db1)"
      "d_delivery_id d \<in> set (requeue_batch now (unat limit) db1)"
    then have "d_state d = DFailedRetryable" using requeue_batchD by blast
    then show "d_state d \<notin> {DSending, DDeliveryUnknown} \<and> d_state (requeue_row d) \<noteq> DSending
        \<and> d_attempt (requeue_row d) = d_attempt d \<and> d_fence (requeue_row d) = d_fence d
        \<and> delivery_snapshot (requeue_row d) = delivery_snapshot d"
      by (simp add: requeue_row_def delivery_snapshot_def)
  qed
  ultimately show "dpreserves x db db2" by (rule dpreserves_trans)
qed

end
