(* ===== verification/Operator_Store.thy ===== *)
theory Operator_Store
  imports Delivery_Store
begin

text \<open>
  What a trusted operator may do (\<^verbatim>\<open>crates/state/src/scheduler/store.rs\<close>): reopen a conclusively ended
  run, retry a confirmed no-write early, settle or force a delivery whose outcome is unknown, and read
  sanitized projections and candidates. Every mutation records its action in the append-only audit
  first; the triggers on runs and deliveries then spend exactly that action on the transition. A request
  that was recorded before is answered from the audit.
\<close>

section \<open>The audit\<close>

definition find_request :: "operator_request \<Rightarrow> delivery_db \<Rightarrow> operator_row option" where
  "find_request request db = List.find (\<lambda>r. op_principal r = or_principal request
     \<and> op_request_id r = or_request_id request) (dl_actions db)"

definition existing_operator_request ::
  "operator_request \<Rightarrow> delivery_db \<Rightarrow> operator_outcome option" where
  "existing_operator_request request db = map_option (\<lambda>r.
     if op_request_digest r = or_request_digest request \<and> op_occurred_at r = or_occurred_at request
     then OperatorReplay else OperatorConflict) (find_request request db)"

datatype action_insert_outcome = ActionInserted | ActionReplay | ActionConflict

definition operator_action_id :: "ext \<Rightarrow> operator_request \<Rightarrow> string" where
  "operator_action_id x request =
     (let p = or_principal request in
      sha256_hex x (''scheduler-operator-action-v1'' @ [CHR 0x0A] @ principal_kind p @ [CHR 0x0A]
        @ principal_provider p @ [CHR 0x0A] @ principal_tenant p @ [CHR 0x0A] @ principal_subject p
        @ [CHR 0x0A] @ or_request_id request))"

definition new_operator_row :: "ext \<Rightarrow> operator_request \<Rightarrow> operator_action \<Rightarrow> operator_row" where
  "new_operator_row x request action = \<lparr>op_action_id = operator_action_id x request,
     op_principal = or_principal request, op_request_id = or_request_id request,
     op_request_digest = or_request_digest request, op_authority = action,
     op_occurred_at = or_occurred_at request\<rparr>"

text \<open>\<open>insert or ignore\<close>: a violated check or key leaves the row out, the trigger on reasons aborts.\<close>

definition insert_operator_action ::
  "ext \<Rightarrow> operator_request \<Rightarrow> operator_action \<Rightarrow> delivery_db
     \<Rightarrow> state_error + (delivery_db \<times> action_insert_outcome)" where
  "insert_operator_action x request action db =
     rbind (validate_operator_action_request x request action) (\<lambda>_.
     if \<not> reason_authority_ok x action then Inl (scheduler_error SQLITE_CONSTRAINT_TRIGGER)
     else case sql_insert (operator_check x) operator_unique (new_operator_row x request action)
         (dl_actions db) of
       Inr rows \<Rightarrow> Inr (db \<lparr>dl_actions := rows\<rparr>, ActionInserted)
     | Inl _ \<Rightarrow> Inr (db,
         if map_option op_request_digest (find_request request db) = Some (or_request_digest request)
         then ActionReplay else ActionConflict))"

text \<open>The three answers of an insertion: go on, replay, or a conflict that drops the transaction.\<close>

definition after_insert ::
  "delivery_db \<Rightarrow> (delivery_db \<Rightarrow> txn_exit + (delivery_db \<times> (state_error + operator_outcome)))
     \<Rightarrow> delivery_db \<times> action_insert_outcome
     \<Rightarrow> txn_exit + (delivery_db \<times> (state_error + operator_outcome))" where
  "after_insert db continue = (\<lambda>(db1, inserted). case inserted of
     ActionInserted \<Rightarrow> continue db1
   | ActionReplay \<Rightarrow> Inr (db1, Inr OperatorReplay)
   | ActionConflict \<Rightarrow> Inr (db, Inr OperatorConflict))"

section \<open>Retrying a run\<close>

definition run_authorizing :: "run_row \<Rightarrow> run_row \<Rightarrow> delivery_db \<Rightarrow> operator_row list" where
  "run_authorizing old new db = filter (\<lambda>act. let a = op_authority act in
     oa_target_kind a = ''run'' \<and> oa_target_id a = r_run_id new \<and> oa_action a = ''retry_run''
     \<and> oa_expected_attempt a = r_attempt old \<and> oa_expected_fence a = r_fence old
     \<and> oa_before_state a = run_state_as_str (r_state old) \<and> oa_after_state a = ''pending''
     \<and> r_next_attempt_at new = Some (oa_effective_at a) \<and> op_occurred_at act = r_updated_at new
     \<and> oa_reason_json a \<noteq> None \<and> oa_reason_digest a \<noteq> None \<and> unconsumed db act) (dl_actions db)"

definition run_consumption :: "run_row \<Rightarrow> operator_row \<Rightarrow> consumption_row" where
  "run_consumption r act = \<lparr>oc_action_id = op_action_id act, oc_target_kind = ''run'',
     oc_target_id = r_run_id r, oc_consumed_at = r_updated_at r\<rparr>"

definition reopen_audited ::
  "ext \<Rightarrow> string \<Rightarrow> i64 \<Rightarrow> i64 \<Rightarrow> run_state \<Rightarrow> i64 \<Rightarrow> i64 \<Rightarrow> delivery_db
     \<Rightarrow> state_error + (delivery_db \<times> nat)" where
  "reopen_audited x run_id attempt fence state next_attempt_at now db =
     rbind (reopen_run x run_id attempt fence state next_attempt_at now (db_runs (dl_db db)))
       (\<lambda>(runs, n).
     let changed = filter (reopen_selects run_id attempt fence state) (st_runs (db_runs (dl_db db)));
         new = reopen_row next_attempt_at now;
         consumed = concat (map (\<lambda>r. map (run_consumption (new r)) (run_authorizing r (new r) db))
           changed) in
     if list_ex (\<lambda>r. length (run_authorizing r (new r) db) \<noteq> 1) changed
     then Inl (scheduler_error SQLITE_CONSTRAINT_TRIGGER)
     else if \<not> list_all consumption_check consumed
     then Inl (scheduler_error SQLITE_CONSTRAINT_CHECK)
     else Inr (db \<lparr>dl_db := (dl_db db) \<lparr>db_runs := runs\<rparr>,
       dl_consumptions := dl_consumptions db @ consumed\<rparr>, n))"

definition find_run :: "string \<Rightarrow> i64 \<Rightarrow> i64 \<Rightarrow> delivery_db \<Rightarrow> run_row option" where
  "find_run run_id attempt fence db = List.find (\<lambda>r. r_run_id r = run_id \<and> r_attempt r = attempt
     \<and> r_fence r = fence) (st_runs (db_runs (dl_db db)))"

definition scheduled_run_operator_retry_at ::
  "ext \<Rightarrow> string \<Rightarrow> i64 \<Rightarrow> i64 \<Rightarrow> i64 \<Rightarrow> delivery_db \<Rightarrow> state_error + i64 option" where
  "scheduled_run_operator_retry_at x run_id attempt fence now db =
     (case find_run run_id attempt fence db of
        None \<Rightarrow> Inr None
      | Some r \<Rightarrow>
          if r_result_artifact_id r \<noteq> None \<or> r_state r \<notin> set reopenable_states then Inr None
          else rbind (scheduler_policy_from_snapshot x (r_policy_version r) (r_policy_json r)) (\<lambda>policy.
            Inr (run_retry_at policy run_id attempt (r_scheduled_for r) now)))"

text \<open>What remains once the run was found: the policy must plan the same time, the action is recorded
  and the run reopened.\<close>

definition retry_found_run ::
  "ext \<Rightarrow> operator_request \<Rightarrow> run_row \<Rightarrow> string \<Rightarrow> string \<Rightarrow> i64 \<Rightarrow> delivery_db
     \<Rightarrow> txn_exit + (delivery_db \<times> (state_error + operator_outcome))" where
  "retry_found_run x request r reason_json reason_digest next_attempt_at db =
     rbind (lift (scheduler_policy_from_snapshot x (r_policy_version r) (r_policy_json r))) (\<lambda>policy.
     if run_retry_at policy (r_run_id r) (r_attempt r) (r_scheduled_for r) (or_occurred_at request)
          \<noteq> Some next_attempt_at
     then Inr (db, Inr OperatorConflict)
     else rbind (lift (insert_operator_action x request (retry_run_action (r_run_id r) (r_attempt r)
         (r_fence r) (r_state r) reason_json reason_digest next_attempt_at) db))
       (after_insert db (\<lambda>db1.
         rbind (lift (reopen_audited x (r_run_id r) (r_attempt r) (r_fence r) (r_state r)
           next_attempt_at (or_occurred_at request) db1)) (\<lambda>(db2, n).
         if n \<noteq> 1 then Inr (db, Inr OperatorConflict) else Inr (db2, Inr OperatorApplied)))))"

definition operator_retry_scheduled_run ::
  "ext \<Rightarrow> operator_request \<Rightarrow> string \<Rightarrow> i64 \<Rightarrow> i64 \<Rightarrow> string \<Rightarrow> string \<Rightarrow> i64 \<Rightarrow> delivery_db
     \<Rightarrow> (state_error + operator_outcome) \<times> delivery_db" where
  "operator_retry_scheduled_run x request run_id attempt fence reason_json reason_digest
     next_attempt_at db =
     transact_delivery db
       (rbind (lift (validate_operator_request request)) (\<lambda>_.
        rbind (lift (map_err invalid_value (validate_text ''operator run id'' run_id))) (\<lambda>_.
        rbind (lift (map_err invalid_value (validate_operator_reason x reason_json reason_digest)))
          (\<lambda>_.
        if attempt \<le> 0 \<or> fence \<le> 0 \<or> next_attempt_at < or_occurred_at request
        then Inl (Abort (InvalidSchedulerState ''invalid operator run retry authority''))
        else if \<not> list_ex (\<lambda>state. or_request_digest request = operator_action_request_digest x
            (retry_run_action run_id attempt fence state reason_json reason_digest next_attempt_at))
            reopenable_states
        then Inl (Abort (InvalidSchedulerState
          ''operator request digest does not bind the exact run retry invocation''))
        else case existing_operator_request request db of
          Some outcome \<Rightarrow> Inr (db, Inr outcome)
        | None \<Rightarrow>
            (case find_run run_id attempt fence db of
               None \<Rightarrow> Inr (db, Inr OperatorConflict)
             | Some r \<Rightarrow>
                 if r_state r \<notin> set reopenable_states \<or> r_result_artifact_id r \<noteq> None
                 then Inr (db, Inr OperatorConflict)
                 else retry_found_run x request r reason_json reason_digest next_attempt_at db)))))"

section \<open>Retrying a delivery\<close>

definition find_retryable :: "string \<Rightarrow> i64 \<Rightarrow> i64 \<Rightarrow> delivery_db \<Rightarrow> delivery_row option" where
  "find_retryable delivery_id attempt fence db = List.find (\<lambda>d. d_delivery_id d = delivery_id
     \<and> d_attempt d = attempt \<and> d_fence d = fence \<and> d_state d = DFailedRetryable
     \<and> d_payload d \<noteq> None) (dl_deliveries db)"

text \<open>Without a provider's retry-after the planned time is computed without a panic.\<close>

definition planned_delivery_retry ::
  "ext \<Rightarrow> delivery_row \<Rightarrow> i64 \<Rightarrow> state_error + i64 option" where
  "planned_delivery_retry x d now =
     rbind (scheduler_policy_from_snapshot x (d_policy_version d) (d_policy_json d)) (\<lambda>policy.
     rbind (ok_or (scheduler_error SqlxOther) (d_payload d)) (\<lambda>p.
     Inr (case delivery_retry_at policy (d_delivery_id d) (d_attempt d) (pc_created_at p) now None of
            Inr t \<Rightarrow> t | Inl _ \<Rightarrow> None)))"

definition scheduled_delivery_operator_retry_at ::
  "ext \<Rightarrow> string \<Rightarrow> i64 \<Rightarrow> i64 \<Rightarrow> i64 \<Rightarrow> delivery_db \<Rightarrow> state_error + i64 option" where
  "scheduled_delivery_operator_retry_at x delivery_id attempt fence now db =
     (case find_retryable delivery_id attempt fence db of
        None \<Rightarrow> Inr None | Some d \<Rightarrow> planned_delivery_retry x d now)"

definition retry_delivery_row :: "i64 \<Rightarrow> delivery_row \<Rightarrow> delivery_row" where
  "retry_delivery_row next_attempt_at d = d \<lparr>d_state := DPending, d_next_attempt_at := None,
     d_claimed_baseline_version := None, d_provider_outcome := None, d_error_kind := None,
     d_error_message := None, d_updated_at := next_attempt_at\<rparr>"

definition retry_found_delivery ::
  "ext \<Rightarrow> operator_request \<Rightarrow> delivery_row \<Rightarrow> string \<Rightarrow> string \<Rightarrow> delivery_db
     \<Rightarrow> txn_exit + (delivery_db \<times> (state_error + operator_outcome))" where
  "retry_found_delivery x request d reason_json reason_digest db =
     rbind (lift (planned_delivery_retry x d (or_occurred_at request))) (\<lambda>planned. case planned of
       None \<Rightarrow> Inr (db, Inr OperatorConflict)
     | Some next_attempt_at \<Rightarrow>
         rbind (lift (insert_operator_action x request (retry_delivery_action (d_delivery_id d)
             (d_attempt d) (d_fence d) reason_json reason_digest next_attempt_at) db))
           (after_insert db (\<lambda>db1.
             rbind (lift (update_deliveries x True
               (\<lambda>e. d_delivery_id e = d_delivery_id d \<and> d_attempt e = d_attempt d
                  \<and> d_fence e = d_fence d \<and> d_state e = DFailedRetryable \<and> d_payload e \<noteq> None)
               (retry_delivery_row next_attempt_at) db1)) (\<lambda>(db2, n).
             if n \<noteq> 1 then Inr (db, Inr OperatorConflict) else Inr (db2, Inr OperatorApplied)))))"

definition operator_retry_scheduled_delivery ::
  "ext \<Rightarrow> operator_request \<Rightarrow> string \<Rightarrow> i64 \<Rightarrow> i64 \<Rightarrow> string \<Rightarrow> string \<Rightarrow> delivery_db
     \<Rightarrow> (state_error + operator_outcome) \<times> delivery_db" where
  "operator_retry_scheduled_delivery x request delivery_id attempt fence reason_json reason_digest db =
     transact_delivery db
       (rbind (lift (validate_operator_request request)) (\<lambda>_.
        rbind (lift (map_err invalid_value (validate_text ''operator delivery id'' delivery_id))) (\<lambda>_.
        if length reason_json > MAX_CONTEXT_BYTES
        then Inl (Abort (InvalidSchedulerState
          ''operator delivery retry reason exceeds its storage bound''))
        else rbind (lift (map_err invalid_value
          (validate_canonical_json x ''operator delivery retry reason'' reason_json))) (\<lambda>_.
        rbind (lift (map_err invalid_value (validate_lowercase_sha256
          ''operator delivery retry reason digest'' reason_digest))) (\<lambda>_.
        if sha256_hex x reason_json \<noteq> reason_digest
        then Inl (Abort (InvalidSchedulerState
          ''operator delivery retry reason digest does not match its canonical evidence''))
        else if attempt \<le> 0 \<or> fence \<le> 0
        then Inl (Abort (InvalidSchedulerState ''invalid operator delivery retry authority''))
        else case find_request request db of
          Some r \<Rightarrow>
            if op_request_digest r \<noteq> or_request_digest request
               \<or> op_occurred_at r \<noteq> or_occurred_at request
            then Inr (db, Inr OperatorConflict)
            else rbind (lift (validate_operator_action_request x request (retry_delivery_action
              delivery_id attempt fence reason_json reason_digest
              (oa_effective_at (op_authority r))))) (\<lambda>_.
            Inr (db, Inr OperatorReplay))
        | None \<Rightarrow>
            (case find_retryable delivery_id attempt fence db of
               None \<Rightarrow> Inr (db, Inr OperatorConflict)
             | Some d \<Rightarrow> retry_found_delivery x request d reason_json reason_digest db))))))"

section \<open>Acting on an unknown delivery\<close>

definition unknown_transition :: "unknown_action \<Rightarrow> delivery_transition" where
  "unknown_transition action =
     (case action of
        ConfirmDelivered receipt _ _ \<Rightarrow>
          \<lparr>dt_state = DDelivered, dt_outcome = ''confirmed_success'', dt_receipt = Some receipt,
           dt_error_kind = None, dt_error_message = None, dt_next_attempt_at = None\<rparr>
      | ConfirmNoWriteTerminal _ _ \<Rightarrow>
          \<lparr>dt_state = DFailedTerminal, dt_outcome = ''confirmed_no_write_terminal'', dt_receipt = None,
           dt_error_kind = Some ''operator_confirmed_no_write'',
           dt_error_message = Some ''operator confirmed provider did not write'',
           dt_next_attempt_at = None\<rparr>
      | _ \<Rightarrow>
          \<lparr>dt_state = DPending, dt_outcome = [], dt_receipt = None, dt_error_kind = None,
           dt_error_message = None, dt_next_attempt_at = None\<rparr>)"

definition resolve_attempt ::
  "delivery_transition \<Rightarrow> delivery_attempt_row \<Rightarrow> delivery_attempt_row" where
  "resolve_attempt t a = a \<lparr>da_state := dt_state t, da_provider_receipt := dt_receipt t,
     da_provider_outcome := Some (dt_outcome t), da_error_kind := dt_error_kind t,
     da_error_message := dt_error_message t\<rparr>"

definition resolve_delivery :: "delivery_transition \<Rightarrow> i64 \<Rightarrow> delivery_row \<Rightarrow> delivery_row" where
  "resolve_delivery t now d = d \<lparr>d_state := dt_state t, d_next_attempt_at := None,
     d_lease_owner := None, d_lease_expires_at := None,
     d_claimed_baseline_version :=
       (if dt_state t = DPending then None else d_claimed_baseline_version d),
     d_provider_receipt := dt_receipt t,
     d_provider_outcome := (if dt_state t = DPending then None else Some (dt_outcome t)),
     d_error_kind := dt_error_kind t, d_error_message := dt_error_message t, d_updated_at := now\<rparr>"

definition apply_unknown_delivery_operator_action ::
  "ext \<Rightarrow> string \<Rightarrow> i64 \<Rightarrow> i64 \<Rightarrow> unknown_action \<Rightarrow> i64 \<Rightarrow> delivery_db \<Rightarrow> txn_exit + delivery_db" where
  "apply_unknown_delivery_operator_action x delivery_id attempt fence action occurred_at db =
     (let t = unknown_transition action in
      rbind (if dt_state t = DPending then Inr db
          else rbind (lift (update_delivery_attempts (\<lambda>a. da_row_delivery_id a = delivery_id
            \<and> da_attempt a = attempt \<and> da_fence a = fence \<and> da_state a = DDeliveryUnknown)
            (resolve_attempt t) db)) one_delivery) (\<lambda>db1.
      rbind (lift (update_deliveries x True (\<lambda>d. d_delivery_id d = delivery_id
        \<and> d_attempt d = attempt \<and> d_fence d = fence \<and> d_state d = DDeliveryUnknown
        \<and> d_payload d \<noteq> None) (resolve_delivery t occurred_at) db1)) (\<lambda>u.
      rbind (one_delivery u) (\<lambda>db2.
      if dt_state t = DDelivered
      then rbind (lift (advance_accepted_delivery_baseline_in_transaction x delivery_id occurred_at
          db2)) (\<lambda>(db3, advanced).
        if \<not> advanced then Inl (Abort ScheduledDeliveryBaselineConflict) else Inr db3)
      else Inr db2))))"

text \<open>What remains once the unknown delivery was found: the action is recorded and carried out; an
  acknowledgement is only recorded.\<close>

definition act_on_found_delivery ::
  "ext \<Rightarrow> operator_request \<Rightarrow> string \<Rightarrow> i64 \<Rightarrow> i64 \<Rightarrow> operator_action \<Rightarrow> unknown_action \<Rightarrow> delivery_db
     \<Rightarrow> txn_exit + (delivery_db \<times> (state_error + operator_outcome))" where
  "act_on_found_delivery x request delivery_id attempt fence a action db =
     rbind (lift (insert_operator_action x request a db)) (after_insert db (\<lambda>db1.
       case action of
         AcknowledgeUnknown _ _ \<Rightarrow> Inr (db1, Inr OperatorApplied)
       | _ \<Rightarrow>
           rbind (apply_unknown_delivery_operator_action x delivery_id attempt fence action
             (or_occurred_at request) db1) (\<lambda>db2.
           Inr (db2, Inr OperatorApplied))))"

definition operator_act_on_unknown_delivery ::
  "ext \<Rightarrow> operator_request \<Rightarrow> string \<Rightarrow> i64 \<Rightarrow> i64 \<Rightarrow> unknown_action \<Rightarrow> delivery_db
     \<Rightarrow> (state_error + operator_outcome) \<times> delivery_db" where
  "operator_act_on_unknown_delivery x request delivery_id attempt fence action db =
     transact_delivery db
       (rbind (lift (validate_operator_request request)) (\<lambda>_.
        rbind (lift (map_err invalid_value (validate_text ''operator delivery id'' delivery_id))) (\<lambda>_.
        if attempt \<le> 0 \<or> fence \<le> 0
        then Inl (Abort (InvalidSchedulerState ''invalid operator delivery authority''))
        else rbind (lift (map_err invalid_value (authority_parts x action delivery_id attempt fence
          (or_occurred_at request)))) (\<lambda>a.
        rbind (lift (validate_operator_action_request x request a)) (\<lambda>_.
        case List.find (\<lambda>d. d_delivery_id d = delivery_id \<and> d_attempt d = attempt
            \<and> d_fence d = fence \<and> d_payload d \<noteq> None) (dl_deliveries db) of
          None \<Rightarrow> Inr (db, Inr OperatorConflict)
        | Some d \<Rightarrow>
            rbind (lift (validate_operator_delivery_target_binding x (d_target_json d) action)) (\<lambda>_.
            case existing_operator_request request db of
              Some outcome \<Rightarrow> Inr (db, Inr outcome)
            | None \<Rightarrow>
                if d_state d \<noteq> DDeliveryUnknown then Inr (db, Inr OperatorConflict)
                else act_on_found_delivery x request delivery_id attempt fence a action db))))))"

section \<open>Reads\<close>

definition operator_retry_replay_timing ::
  "string \<Rightarrow> string \<Rightarrow> string \<Rightarrow> string \<Rightarrow> i64 \<Rightarrow> i64 \<Rightarrow> delivery_db
     \<Rightarrow> state_error + operator_replay_timing option" where
  "operator_retry_replay_timing action kind request_id target attempt fence db =
     rbind (map_err invalid_value (check_all [
       validate_text ''operator replay request id'' request_id,
       validate_text ''operator replay target id'' target])) (\<lambda>_.
     if attempt \<le> 0 \<or> fence \<le> 0
     then Inl (InvalidSchedulerState ''invalid operator replay authority'')
     else Inr (case filter (\<lambda>r. let a = op_authority r in oa_action a = action
           \<and> oa_target_kind a = kind \<and> op_request_id r = request_id
           \<and> oa_target_id a = target \<and> oa_expected_attempt a = attempt
           \<and> oa_expected_fence a = fence) (dl_actions db) of
         [r] \<Rightarrow> Some \<lparr>rt_effective_at = oa_effective_at (op_authority r),
                  rt_occurred_at = op_occurred_at r\<rparr>
       | _ \<Rightarrow> None))"

definition scheduled_run_operator_retry_replay_timing ::
  "string \<Rightarrow> string \<Rightarrow> i64 \<Rightarrow> i64 \<Rightarrow> delivery_db \<Rightarrow> state_error + operator_replay_timing option" where
  "scheduled_run_operator_retry_replay_timing request_id run_id attempt fence db =
     operator_retry_replay_timing ''retry_run'' ''run'' request_id run_id attempt fence db"

definition scheduled_delivery_operator_retry_replay_timing ::
  "string \<Rightarrow> string \<Rightarrow> i64 \<Rightarrow> i64 \<Rightarrow> delivery_db \<Rightarrow> state_error + operator_replay_timing option" where
  "scheduled_delivery_operator_retry_replay_timing request_id delivery_id attempt fence db =
     operator_retry_replay_timing ''retry_delivery'' ''delivery'' request_id delivery_id attempt fence
       db"

definition scheduled_run_operator_projection :: "run_row \<Rightarrow> run_projection" where
  "scheduled_run_operator_projection r = \<lparr>rp_run_id = r_run_id r, rp_job_id = r_job_id r,
     rp_state = r_state r, rp_attempt = r_attempt r, rp_fence = r_fence r,
     rp_next_attempt_at = r_next_attempt_at r, rp_lease_expires_at = r_lease_expires_at r,
     rp_error_kind = r_error_kind r, rp_updated_at = r_updated_at r\<rparr>"

definition scheduled_delivery_operator_projection :: "delivery_row \<Rightarrow> delivery_projection" where
  "scheduled_delivery_operator_projection d = \<lparr>dp_delivery_id = d_delivery_id d,
     dp_run_id = d_run_id d, dp_job_id = d_job_id d, dp_state = d_state d, dp_attempt = d_attempt d,
     dp_fence = d_fence d, dp_next_attempt_at = d_next_attempt_at d,
     dp_lease_expires_at = d_lease_expires_at d, dp_provider_outcome = d_provider_outcome d,
     dp_error_kind = d_error_kind d, dp_updated_at = d_updated_at d\<rparr>"

text \<open>One page of rows: those after the cursor in the order of their key, at most \<open>limit\<close> of them.\<close>

definition page_after :: "('r \<Rightarrow> string) \<Rightarrow> string option \<Rightarrow> u16 \<Rightarrow> 'r list \<Rightarrow> 'r list" where
  "page_after key cursor limit rows = take (unat limit) (sort_key key (filter
     (\<lambda>r. (case cursor of None \<Rightarrow> [] | Some c \<Rightarrow> c) < key r) rows))"

definition list_scheduled_run_operator_projections_by_state ::
  "string option \<Rightarrow> run_state option \<Rightarrow> u16 \<Rightarrow> delivery_db \<Rightarrow> state_error + run_projection list" where
  "list_scheduled_run_operator_projections_by_state after_run_id state limit db =
     rbind (validate_operator_page after_run_id limit) (\<lambda>_.
     Inr (map scheduled_run_operator_projection (page_after r_run_id after_run_id limit
       (filter (\<lambda>r. state = None \<or> state = Some (r_state r)) (st_runs (db_runs (dl_db db)))))))"

definition list_scheduled_run_operator_projections ::
  "string option \<Rightarrow> u16 \<Rightarrow> delivery_db \<Rightarrow> state_error + run_projection list" where
  "list_scheduled_run_operator_projections after_run_id limit db =
     list_scheduled_run_operator_projections_by_state after_run_id None limit db"

definition get_scheduled_run_operator_projection ::
  "string \<Rightarrow> delivery_db \<Rightarrow> state_error + run_projection option" where
  "get_scheduled_run_operator_projection run_id db =
     rbind (map_err invalid_value (validate_text ''operator run projection id'' run_id)) (\<lambda>_.
     Inr (map_option scheduled_run_operator_projection
       (List.find (\<lambda>r. r_run_id r = run_id) (st_runs (db_runs (dl_db db))))))"

definition list_scheduled_delivery_operator_projections_by_state ::
  "string option \<Rightarrow> delivery_state option \<Rightarrow> u16 \<Rightarrow> delivery_db
     \<Rightarrow> state_error + delivery_projection list" where
  "list_scheduled_delivery_operator_projections_by_state after_delivery_id state limit db =
     rbind (validate_operator_page after_delivery_id limit) (\<lambda>_.
     Inr (map scheduled_delivery_operator_projection (page_after d_delivery_id after_delivery_id limit
       (filter (\<lambda>d. state = None \<or> state = Some (d_state d)) (dl_deliveries db)))))"

definition list_scheduled_delivery_operator_projections ::
  "string option \<Rightarrow> u16 \<Rightarrow> delivery_db \<Rightarrow> state_error + delivery_projection list" where
  "list_scheduled_delivery_operator_projections after_delivery_id limit db =
     list_scheduled_delivery_operator_projections_by_state after_delivery_id None limit db"

definition get_scheduled_delivery_operator_projection ::
  "string \<Rightarrow> delivery_db \<Rightarrow> state_error + delivery_projection option" where
  "get_scheduled_delivery_operator_projection delivery_id db =
     rbind (map_err invalid_value (validate_text ''operator delivery projection id'' delivery_id)) (\<lambda>_.
     Inr (map_option scheduled_delivery_operator_projection (find_delivery delivery_id db)))"

definition expired_by :: "i64 \<Rightarrow> i64 option \<Rightarrow> bool" where
  "expired_by now expires = (case expires of None \<Rightarrow> False | Some t \<Rightarrow> t \<le> now)"

definition list_scheduled_delivery_reconcile_candidates ::
  "i64 \<Rightarrow> u16 \<Rightarrow> delivery_db \<Rightarrow> state_error + delivery_projection list" where
  "list_scheduled_delivery_reconcile_candidates now limit db =
     (if now < 0
      then Inl (InvalidSchedulerState ''invalid delivery reconcile candidate time'')
      else rbind (validate_operator_page None limit) (\<lambda>_.
        Inr (map scheduled_delivery_operator_projection (take (unat limit)
          (sort_key (\<lambda>d. (case d_lease_expires_at d of None \<Rightarrow> 0 | Some t \<Rightarrow> t, d_delivery_id d))
            (filter (\<lambda>d. d_state d = DSending \<and> expired_by now (d_lease_expires_at d)
               \<and> d_updated_at d \<le> now) (dl_deliveries db)))))))"

definition run_reconcile_candidate :: "ext \<Rightarrow> i64 \<Rightarrow> run_row \<Rightarrow> state_error + reconcile_candidate" where
  "run_reconcile_candidate x now r =
     rbind (ok_or (scheduler_error SqlxOther) (r_lease_owner r)) (\<lambda>owner.
     rbind (scheduler_policy_from_snapshot x (r_policy_version r) (r_policy_json r)) (\<lambda>policy.
     rbind (map_err invalid_value (validate_text ''persisted run reconcile lease owner'' owner)) (\<lambda>_.
     rbind (ok_or (scheduler_error SqlxOther) (r_lease_expires_at r)) (\<lambda>expires.
     Inr \<lparr>rc_run_id = r_run_id r, rc_state = r_state r, rc_attempt = r_attempt r,
       rc_fence = r_fence r, rc_lease_owner = owner, rc_lease_expires_at = expires,
       rc_next_attempt_at =
         run_retry_at policy (r_run_id r) (r_attempt r) (r_scheduled_for r) now\<rparr>))))"

definition list_scheduled_run_reconcile_candidates ::
  "ext \<Rightarrow> i64 \<Rightarrow> u16 \<Rightarrow> delivery_db \<Rightarrow> state_error + reconcile_candidate list" where
  "list_scheduled_run_reconcile_candidates x now limit db =
     (if now < 0 \<or> limit = 0 \<or> limit > 100
      then Inl (InvalidSchedulerState ''invalid run reconcile candidate query'')
      else collect_results (run_reconcile_candidate x now) (take (unat limit)
        (sort_key (\<lambda>r. (case r_lease_expires_at r of None \<Rightarrow> 0 | Some t \<Rightarrow> t, r_run_id r))
          (filter (\<lambda>r. r_state r \<in> set lease_states \<and> expired_by now (r_lease_expires_at r)
             \<and> r_updated_at r \<le> now) (st_runs (db_runs (dl_db db)))))))"

definition reconcile_scheduled_run_candidate ::
  "ext \<Rightarrow> reconcile_candidate \<Rightarrow> i64 \<Rightarrow> store \<Rightarrow> (state_error + reconcile_outcome) \<times> store" where
  "reconcile_scheduled_run_candidate x c now db =
     reconcile_expired_scheduled_run x (rc_run_id c) (rc_state c) (rc_attempt c) (rc_fence c)
       (rc_lease_owner c) (rc_lease_expires_at c) (rc_next_attempt_at c) now db"

definition list_scheduler_operator_actions ::
  "string \<Rightarrow> string \<Rightarrow> u16 \<Rightarrow> delivery_db \<Rightarrow> state_error + operator_action_summary list" where
  "list_scheduler_operator_actions kind target limit db =
     (if kind \<notin> set [''run'', ''delivery''] \<or> limit = 0 \<or> limit > 100
      then Inl (InvalidSchedulerState ''invalid operator audit query'')
      else rbind (map_err invalid_value (validate_text ''operator audit target'' target)) (\<lambda>_.
        Inr (map (\<lambda>r. let a = op_authority r in \<lparr>os_action_id = op_action_id r,
            os_action = oa_action a, os_target_kind = oa_target_kind a, os_target_id = oa_target_id a,
            os_before_state = oa_before_state a, os_after_state = oa_after_state a,
            os_occurred_at = op_occurred_at r, os_consumed = (\<not> unconsumed db r)\<rparr>)
          (take (unat limit) (rev (sort_key (\<lambda>r. (op_occurred_at r, op_action_id r))
            (filter (\<lambda>r. oa_target_kind (op_authority r) = kind
               \<and> oa_target_id (op_authority r) = target) (dl_actions db))))))))"

end
