(* ===== verification/Operator_Safety.thy ===== *)
theory Operator_Safety
  imports Delivery_Safety Operator_Store
begin

text \<open>
  The operator's actions keep the invariants: an action is recorded before it is spent, a forced resend
  leaves behind the evidence that its risk was taken, and a reopened run makes a step of the run store.
\<close>

section \<open>Recording an action\<close>

lemma insert_operator_actionE:
  assumes "insert_operator_action x request action db = Inr (db', outcome)"
  obtains (inserted) "outcome = ActionInserted"
      "sql_insert (operator_check x) operator_unique (new_operator_row x request action) (dl_actions db) =
         Inr (dl_actions db')"
      "db' = db \<lparr>dl_actions := dl_actions db @ [new_operator_row x request action]\<rparr>"
      "or_request_digest request = operator_action_request_digest x action"
  | (recorded) "outcome \<noteq> ActionInserted" "db' = db"
  using assms
  by (auto simp: insert_operator_action_def validate_operator_action_request_def split: if_splits sum.splits
      dest: sql_insert_InrD(1))

lemma insert_action_preserves:
  assumes "insert_operator_action x request action db = Inr (db', outcome)"
  shows "dpreserves x db db'"
  using assms
proof (cases rule: insert_operator_actionE)
  case inserted
  have grows: "audit_grows db db'" using inserted(3) by (auto simp: audit_grows_def)
  have "audit_ok db'" if "audit_ok db" using that inserted(3) by (auto simp: audit_ok_def)
  then show ?thesis
    using grows inserted operators.insert_ok [OF _ inserted(2)] sends_coherent_grows [OF _ grows]
      dadvances_same [of db' db] unknown_kept_same [of db' db]
    by (simp add: dpreserves_def dkeeps_def delivery_inv_def baselines_truthful_def)
qed simp

text \<open>How an operation that records its action first goes on.\<close>

lemma recordedE:
  assumes "rbind (lift (insert_operator_action x request action db)) (after_insert db k) = Inr (db', v)"
  obtains (stop) "dpreserves x db db'" "v = Inr OperatorReplay \<or> v = Inr OperatorConflict"
      "v = Inr OperatorConflict \<Longrightarrow> db' = db"
  | (continue) db1 where "dpreserves x db db1" "k db1 = Inr (db', v)"
      "db1 = db \<lparr>dl_actions := dl_actions db @ [new_operator_row x request action]\<rparr>"
      "or_request_digest request = operator_action_request_digest x action"
proof -
  obtain db1 inserted where ins: "insert_operator_action x request action db = Inr (db1, inserted)"
    and rest: "after_insert db k (db1, inserted) = Inr (db', v)"
    using assms by auto
  note keep = insert_action_preserves [OF ins]
  show thesis
  proof (cases inserted)
    case ActionInserted
    with ins show thesis
      by (cases rule: insert_operator_actionE)
        (use continue keep rest ActionInserted in \<open>auto simp: after_insert_def\<close>)
  next
    case ActionReplay
    then have "db' = db1" "v = Inr OperatorReplay" using rest by (simp_all add: after_insert_def)
    then show thesis by (intro stop) (use keep in simp_all)
  next
    case ActionConflict
    then have "db' = db" "v = Inr OperatorConflict" using rest by (simp_all add: after_insert_def)
    then show thesis by (intro stop) simp_all
  qed
qed

section \<open>Retrying a run\<close>

lemma reopen_auditedE:
  assumes "reopen_audited x run_id attempt fence state next_attempt_at now db = Inr (db', n)"
  obtains runs where
    "reopen_run x run_id attempt fence state next_attempt_at now (db_runs (dl_db db)) = Inr (runs, n)"
    "\<And>r. r \<in> set (st_runs (db_runs (dl_db db))) \<Longrightarrow> reopen_selects run_id attempt fence state r \<Longrightarrow>
       length (run_authorizing r (reopen_row next_attempt_at now r) db) = 1"
    "db' = db \<lparr>dl_db := (dl_db db) \<lparr>db_runs := runs\<rparr>, dl_consumptions := dl_consumptions db
       @ concat (map (\<lambda>r. map (run_consumption (reopen_row next_attempt_at now r))
           (run_authorizing r (reopen_row next_attempt_at now r) db))
         (filter (reopen_selects run_id attempt fence state) (st_runs (db_runs (dl_db db)))))\<rparr>"
  using assms by (auto simp: reopen_audited_def Let_def list_ex_iff split: if_splits)

lemma reopen_audited_skeeps:
  assumes "reopen_audited x run_id attempt fence state next_attempt_at now db = Inr (db', n)"
    and "state \<in> set reopenable_states"
  shows "skeeps x db db'"
  using assms(1)
proof (cases rule: reopen_auditedE)
  case (1 runs)
  let ?new = "reopen_row next_attempt_at now"
  let ?rows = "filter (reopen_selects run_id attempt fence state) (st_runs (db_runs (dl_db db)))"
  note U = sql_update_InrD [OF update_runs_InrD(1) [OF 1(1) [unfolded reopen_run_def]]]
  have "map r_run_id (st_runs runs) = map r_run_id (st_runs (db_runs (dl_db db)))"
    by (simp add: U(1) reopen_row_def)
  then have ids: "distinct (map r_run_id (st_runs (db_runs (dl_db db))))"
    using U(4) by (simp add: run_unique_def)
  have "audit_ok db'" if inv: "delivery_inv x db"
  proof (rule audit_ok_spend [OF delivery_invD(6,7) [OF inv], where key = r_run_id and rows = ?rows
        and con = "\<lambda>r. run_consumption (?new r)"])
    show "distinct (map r_run_id ?rows)"
      using ids by (simp add: distinct_map_filter)
    show "dl_actions db' = dl_actions db" using 1(3) by simp
    show "dl_consumptions db' = dl_consumptions db @ concat (map (\<lambda>r. map (run_consumption (?new r))
        (filter (\<lambda>act. act \<in> set (run_authorizing r (?new r) db)) (dl_actions db))) ?rows)"
      using 1(3) by (simp add: run_authorizing_def cong: filter_cong)
    show "unconsumed db act \<and> oa_target_id (op_authority act) = r_run_id r
        \<and> spent_on act (run_consumption (?new r) act)" if "act \<in> set (run_authorizing r (?new r) db)" for r act
      using that by (simp add: run_authorizing_def Let_def spent_on_def run_consumption_def reopen_row_def)
  qed
  then have "dkeeps x db db'" using 1(3) by (intro dkeeps_spent) simp_all
  moreover have "length (st_runs runs) = length (st_runs (db_runs (dl_db db)))" by (simp add: U(1))
  ultimately show ?thesis
    using 1(3) step_reopen [OF assms(2) 1(1)] by (simp add: skeeps_runs r_into_rtranclp)
qed

lemma retry_found_run_skeeps:
  assumes "retry_found_run x request r reason digest next_attempt_at db = Inr (db', v)"
    and "r_state r \<in> set reopenable_states"
  shows "skeeps x db db'"
proof -
  let ?k = "\<lambda>db1. rbind (lift (reopen_audited x (r_run_id r) (r_attempt r) (r_fence r) (r_state r)
    next_attempt_at (or_occurred_at request) db1)) (\<lambda>(db2, n).
    if n \<noteq> 1 then Inr (db, Inr OperatorConflict) else Inr (db2, Inr OperatorApplied))"
  consider "db' = db"
  | "rbind (lift (insert_operator_action x request (retry_run_action (r_run_id r) (r_attempt r)
       (r_fence r) (r_state r) reason digest next_attempt_at) db)) (after_insert db ?k) = Inr (db', v)"
    using assms(1) unfolding retry_found_run_def
    by (cases "scheduler_policy_from_snapshot x (r_policy_version r) (r_policy_json r)")
      (auto split: if_splits)
  then show ?thesis
  proof cases
    case 1
    then show ?thesis by (simp add: skeeps_deliveries)
  next
    case 2
    then show ?thesis
    proof (cases rule: recordedE)
      case stop
      then show ?thesis by (simp add: skeeps_deliveries)
    next
      case (continue db1)
      then show ?thesis
        using skeeps_trans [OF skeeps_deliveries reopen_audited_skeeps [OF _ assms(2)]]
          skeeps_deliveries [of x db db]
        by (auto split: if_splits)
    qed
  qed
qed

lemma retry_run_skeeps:
  "skeeps x db (snd (operator_retry_scheduled_run x request i attempt fence reason digest
     next_attempt_at db))"
  unfolding operator_retry_scheduled_run_def
  by (rule transact_delivery_skeeps)
    (auto split: if_splits option.splits intro: retry_found_run_skeeps skeeps_deliveries)

section \<open>Retrying a delivery\<close>

definition retry_selects :: "delivery_row \<Rightarrow> delivery_row \<Rightarrow> bool" where
  "retry_selects d e \<longleftrightarrow> d_delivery_id e = d_delivery_id d \<and> d_attempt e = d_attempt d
     \<and> d_fence e = d_fence d \<and> d_state e = DFailedRetryable \<and> d_payload e \<noteq> None"

lemma retry_found_delivery_preserves:
  assumes "retry_found_delivery x request d reason digest db = Inr (db', v)"
  shows "dpreserves x db db'"
proof -
  let ?k = "\<lambda>t db1. rbind (lift (update_deliveries x True (retry_selects d) (retry_delivery_row t) db1))
    (\<lambda>(db2, n). if n \<noteq> 1 then Inr (db, Inr OperatorConflict) else Inr (db2, Inr OperatorApplied))"
  consider "db' = db"
  | t where "rbind (lift (insert_operator_action x request (retry_delivery_action (d_delivery_id d)
       (d_attempt d) (d_fence d) reason digest t) db)) (after_insert db (?k t)) = Inr (db', v)"
    using assms unfolding retry_found_delivery_def retry_selects_def [abs_def]
    by (cases "planned_delivery_retry x d (or_occurred_at request)") (auto split: option.splits)
  then show ?thesis
  proof cases
    case (2 t)
    have upd: "dpreserves x db1 db2"
      if "update_deliveries x True (retry_selects d) (retry_delivery_row t) db1 = Inr (db2, n)" for db1 db2 n
      by (rule update_idle_preserves [OF that])
        (simp add: retry_selects_def retry_delivery_row_def delivery_snapshot_def)
    from 2 show ?thesis
    proof (cases rule: recordedE)
      case (continue db1)
      then show ?thesis using dpreserves_trans [OF continue(1) upd] by (auto split: if_splits)
    qed
  qed simp
qed

lemma retry_delivery_preserves:
  "dpreserves x db (snd (operator_retry_scheduled_delivery x request i attempt fence reason digest db))"
  unfolding operator_retry_scheduled_delivery_def
  by (rule transact_delivery_preserves)
    (auto split: if_splits option.splits intro: retry_found_delivery_preserves)

section \<open>Acting on an unknown delivery\<close>

text \<open>The delivery and the attempt an action names.\<close>

definition unknown_selects :: "string \<Rightarrow> i64 \<Rightarrow> i64 \<Rightarrow> delivery_row \<Rightarrow> bool" where
  "unknown_selects i attempt fence d \<longleftrightarrow> d_delivery_id d = i \<and> d_attempt d = attempt
     \<and> d_fence d = fence \<and> d_state d = DDeliveryUnknown \<and> d_payload d \<noteq> None"

definition unknown_attempt_selects :: "string \<Rightarrow> i64 \<Rightarrow> i64 \<Rightarrow> delivery_attempt_row \<Rightarrow> bool" where
  "unknown_attempt_selects i attempt fence a \<longleftrightarrow> da_row_delivery_id a = i \<and> da_attempt a = attempt
     \<and> da_fence a = fence \<and> da_state a = DDeliveryUnknown"

lemma resolve_delivery_keys [simp]:
  "delivery_snapshot (resolve_delivery t now d) = delivery_snapshot d"
  "d_state (resolve_delivery t now d) = dt_state t"
  "d_attempt (resolve_delivery t now d) = d_attempt d" "d_fence (resolve_delivery t now d) = d_fence d"
  "d_delivery_id (resolve_delivery t now d) = d_delivery_id d"
  by (simp_all add: resolve_delivery_def delivery_snapshot_def)

lemma resolve_attempt_keys [simp]:
  "da_row_delivery_id (resolve_attempt t a) = da_row_delivery_id a"
  "da_attempt (resolve_attempt t a) = da_attempt a" "da_fence (resolve_attempt t a) = da_fence a"
  "da_state (resolve_attempt t a) = dt_state t"
  by (simp_all add: resolve_attempt_def)

text \<open>A delivery leaves the unknown state for another one only under an action that is then spent; if it
  becomes pending again, the risk of a duplicate was taken.\<close>

lemma resolution_spent:
  assumes upd: "update_deliveries x c w f db = Inr (db', n)"
    and d: "d \<in> set (dl_deliveries db)" "w d" "d_state d = DDeliveryUnknown"
    and left: "d_state (f d) \<in> {DDelivered, DFailedTerminal, DPending}"
  obtains act where "act \<in> set (dl_actions db')" "\<not> unconsumed db' act" "authorizes x d (f d) act"
proof -
  note U = update_deliveries_InrD [OF upd]
  have "length (authorizing x db d (f d)) = 1"
    using U(9) [OF d(1,2)] d(3) left by (auto simp: operator_trigger_ok_def)
  then obtain act where act: "act \<in> set (authorizing x db d (f d))"
    by (metis length_0_conv list.set_intros(1) neq_Nil_conv zero_neq_one)
  then have "(f d, act) \<in> set (spends x w f db)"
    using d(1,2) by (auto simp: spends_def)
  then have "consumption_of (f d) act \<in> set (dl_consumptions db')"
    using U(8) by (auto intro!: image_eqI [where x = "(f d, act)"])
  then have "\<exists>c \<in> set (dl_consumptions db'). oc_action_id c = op_action_id act"
    by (rule bexI [rotated]) (simp add: consumption_of_def)
  then have "\<not> unconsumed db' act" by (simp add: unconsumed_def list_ex_iff)
  moreover have "act \<in> set (dl_actions db')" "authorizes x d (f d) act"
    using act U(7) by (auto simp: authorizing_def)
  ultimately show thesis using that by blast
qed

lemma resolved_row:
  assumes "act \<in> set (dl_actions db)" and "\<not> unconsumed db act" and "authorizes x d e act"
    and "d_state d = DDeliveryUnknown" and "d_delivery_id e = d_delivery_id d"
  shows "resolved_by_operator db d"
  using assms
  by (auto simp: resolved_by_operator_def authorizes_def Let_def intro!: bexI [of _ act])

lemma forced_row:
  assumes "act \<in> set (dl_actions db)" and "\<not> unconsumed db act" and "authorizes x d e act"
    and "d_state d = DDeliveryUnknown" and "d_state e = DPending" "d_delivery_id e = d_delivery_id d"
    and "da_row_delivery_id a = d_delivery_id d" "da_attempt a = d_attempt d" "da_fence a = d_fence d"
  shows "forced db a"
  using assms
  by (auto simp: forced_def authorizes_def Let_def resolution_ok_def forced_resend_def
      split: option.splits intro!: bexI [of _ act])

text \<open>Both resolutions keep every attempt accounted for: a confirmed outcome is written to the attempt
  and to its delivery, a forced resend leaves the attempt unknown.\<close>

lemma force_coherent:
  assumes inv: "delivery_inv x db" and pend: "dt_state t = DPending"
    and upd: "update_deliveries x True (unknown_selects i attempt fence) (resolve_delivery t now) db =
      Inr (db', n)"
  shows "sends_coherent db'"
  unfolding sends_coherent_def
proof (intro conjI ballI impI)
  note U = update_deliveries_InrD [OF upd] and grows = update_deliveries_audit [OF upd]
  fix d' assume "d' \<in> set (dl_deliveries db')" and sending: "d_state d' = DSending"
  with U(1) obtain d where "d \<in> set (dl_deliveries db)" "d' = d"
    by (cases rule: update_origin) (use pend in auto)
  then show "\<exists>a \<in> set (dl_attempts db'). carries d' a"
    using delivery_invD(4) [OF inv] sending U(3) by (auto simp: sends_coherent_def)
next
  note U = update_deliveries_InrD [OF upd] and grows = update_deliveries_audit [OF upd]
  fix a assume "a \<in> set (dl_attempts db')"
  then obtain d where d: "d \<in> set (dl_deliveries db)" "attempt_ok db' d a"
    using sends_coherentE [OF delivery_invD(4) [OF inv]] U(3) attempt_ok_grows [OF grows] by metis
  show "\<exists>d \<in> set (dl_deliveries db'). attempt_ok db' d a"
  proof (cases "unknown_selects i attempt fence d")
    case True
    then have unknown: "d_state d = DDeliveryUnknown" by (simp add: unknown_selects_def)
    obtain act where act: "act \<in> set (dl_actions db')" "\<not> unconsumed db' act"
        "authorizes x d (resolve_delivery t now d) act"
      by (rule resolution_spent [OF upd d(1) True unknown]) (use pend in auto)
    have "forced db' a" if "da_attempt a = d_attempt d"
      by (rule forced_row [OF act unknown]) (use that d(2) pend in \<open>simp_all add: attempt_ok_def\<close>)
    then have "attempt_ok db' (resolve_delivery t now d) a"
      using d(2) unknown pend
      by (auto simp: attempt_ok_def settled_def follows_def resendable_def carries_def split: if_splits)
    then show ?thesis using update_selected [OF U(1) d(1) True] by blast
  next
    case False
    then show ?thesis using update_unselected [OF U(1) d(1)] d(2) by blast
  qed
qed

lemma confirm_coherent:
  assumes inv: "delivery_inv x db" and settled: "dt_state t \<in> {DDelivered, DFailedTerminal}"
    and att: "update_delivery_attempts (unknown_attempt_selects i attempt fence) (resolve_attempt t) db =
      Inr (db1, 1)"
    and upd: "update_deliveries x True (unknown_selects i attempt fence) (resolve_delivery t now) db1 =
      Inr (db2, 1)"
  shows "sends_coherent db2"
proof -
  note A = update_delivery_attempts_InrD [OF att] and D = update_deliveries_InrD [OF upd]
  have grows: "audit_grows db db2"
    using update_deliveries_audit [OF upd] A(6,7) by (simp add: audit_grows_def)
  have upd_d: "sql_update (delivery_check x) delivery_unique (unknown_selects i attempt fence)
      (resolve_delivery t now) (dl_deliveries db) = Inr (dl_deliveries db2, 1)" using D(1) A(2) by simp
  have upd_a: "sql_update delivery_attempt_check delivery_attempt_unique
      (unknown_attempt_selects i attempt fence) (resolve_attempt t) (dl_attempts db) =
      Inr (dl_attempts db2, 1)" using A(1) D(3) by simp
  obtain d0 where d0: "d0 \<in> set (dl_deliveries db)" "unknown_selects i attempt fence d0"
    by (rule update_oneD [OF upd_d])
  show ?thesis
    unfolding sends_coherent_def
  proof (intro conjI ballI impI)
    fix d' assume d': "d' \<in> set (dl_deliveries db2)" and sending: "d_state d' = DSending"
    from upd_d d' obtain d where d: "d \<in> set (dl_deliveries db)" "d' = d"
      by (cases rule: update_origin) (use sending settled in auto)
    then obtain a where a: "a \<in> set (dl_attempts db)" "carries d a"
      using delivery_invD(4) [OF inv] sending by (auto simp: sends_coherent_def)
    then have "a \<in> set (dl_attempts db2)"
      using update_unselected [OF upd_a a(1)] by (simp add: carries_def unknown_attempt_selects_def)
    then show "\<exists>a \<in> set (dl_attempts db2). carries d' a" using a(2) d(2) by blast
  next
    fix a' assume "a' \<in> set (dl_attempts db2)"
    from upd_a this show "\<exists>d \<in> set (dl_deliveries db2). attempt_ok db2 d a'"
    proof (cases rule: update_origin)
      case (1 a)
      obtain d where d: "d \<in> set (dl_deliveries db)" "attempt_ok db2 d a"
        by (rule sends_coherentE [OF delivery_invD(4) [OF inv] 1(1)])
          (use attempt_ok_grows [OF grows] in blast)
      show ?thesis
      proof (cases "unknown_selects i attempt fence d")
        case True
        then have older: "da_attempt a \<noteq> d_attempt d"
          using d(2) 1(2) by (auto simp: attempt_ok_def settled_def follows_def unknown_selects_def
              unknown_attempt_selects_def)
        then have "attempt_ok db2 (resolve_delivery t now d) a"
          using d(2) by (auto simp: attempt_ok_def settled_def resendable_def)
        then show ?thesis using update_selected [OF upd_d d(1) True] 1(3) by blast
      next
        case False
        then show ?thesis using update_unselected [OF upd_d d(1)] d(2) 1(3) by blast
      qed
    next
      case (2 a)
      obtain d where d: "d \<in> set (dl_deliveries db)" "attempt_ok db d a"
        by (rule sends_coherentE [OF delivery_invD(4) [OF inv] 2(1)])
      have "d = d0"
        using delivery_key [OF inv d(1) d0(1)] d(2) d0(2) 2(2)
        by (simp add: attempt_ok_def unknown_selects_def unknown_attempt_selects_def)
      then have "attempt_ok db2 (resolve_delivery t now d0) a'"
        using d(2) d0(2) 2(2,3) settled
        by (auto simp: attempt_ok_def settled_def follows_def unknown_selects_def
            unknown_attempt_selects_def)
      then show ?thesis using update_selected [OF upd_d d0] by blast
    qed
  qed
qed

lemma resolved_preserves:
  assumes upd: "update_deliveries x True (unknown_selects i attempt fence) (resolve_delivery t now) db1 =
      Inr (db2, n)"
    and t: "dt_state t \<in> {DDelivered, DFailedTerminal, DPending}"
    and same: "dl_deliveries db1 = dl_deliveries db" "dl_accepted db1 = dl_accepted db"
      "dl_db db1 = dl_db db" "dl_actions db1 = dl_actions db" "dl_consumptions db1 = dl_consumptions db"
    and attempts: "delivery_inv x db \<Longrightarrow>
      table_ok delivery_attempt_check delivery_attempt_unique (dl_attempts db1)"
    and coherent: "delivery_inv x db \<Longrightarrow> sends_coherent db2"
  shows "dpreserves x db db2"
proof -
  note D = update_deliveries_InrD [OF upd]
  have "dadvances db1 db2"
  proof (rule dadvances_update [OF upd])
    fix d assume d: "d \<in> set (dl_deliveries db1)" "unknown_selects i attempt fence d"
    show "devolves d (resolve_delivery t now d)"
      using trigger_step [OF D(2) [OF d]] t by (auto simp: devolves_def)
  qed
  then have advance: "dadvances db db2" using same(1) by (simp add: dadvances_def)
  have "audit_ok db2" if "delivery_inv x db"
    by (rule update_deliveries_spent [OF upd])
      (use delivery_invD [OF that] same in \<open>simp_all add: audit_ok_def\<close>)
  moreover have "unknown_kept db db2"
    unfolding unknown_kept_def
  proof (intro ballI impI)
    fix d assume d: "d \<in> set (dl_deliveries db)" and unknown: "d_state d = DDeliveryUnknown"
    have d1: "d \<in> set (dl_deliveries db1)" using d same(1) by simp
    show "d \<in> set (dl_deliveries db2) \<or> resolved_by_operator db2 d"
    proof (cases "unknown_selects i attempt fence d")
      case True
      obtain act where act: "act \<in> set (dl_actions db2)" "\<not> unconsumed db2 act"
          "authorizes x d (resolve_delivery t now d) act"
        by (rule resolution_spent [OF upd d1 True unknown]) (use t in auto)
      then show ?thesis using resolved_row [OF act unknown] by simp
    next
      case False
      then show ?thesis using update_unselected [OF D(1) d1] by blast
    qed
  qed
  ultimately show ?thesis
    using advance coherent attempts same D(3,4,6,7) deliveries.update_ok [OF _ D(1)]
      baselines_truthful_later [OF _ advance] update_deliveries_audit [OF upd]
    by (simp add: dpreserves_def dkeeps_def delivery_inv_def audit_grows_def)
qed

lemma unknown_transition_state:
  "dt_state (unknown_transition action) \<in> {DDelivered, DFailedTerminal, DPending}"
  by (cases action) (simp_all add: unknown_transition_def)

lemma apply_unknownE:
  assumes "apply_unknown_delivery_operator_action x i attempt fence action now db = Inr db'"
  obtains db1 db2 where
    "if dt_state (unknown_transition action) = DPending then db1 = db
     else update_delivery_attempts (unknown_attempt_selects i attempt fence)
       (resolve_attempt (unknown_transition action)) db = Inr (db1, 1)"
    "update_deliveries x True (unknown_selects i attempt fence)
       (resolve_delivery (unknown_transition action) now) db1 = Inr (db2, 1)"
    "if dt_state (unknown_transition action) = DDelivered
     then advance_accepted_delivery_baseline_in_transaction x i now db2 = Inr (db', True) else db' = db2"
  using assms
  unfolding apply_unknown_delivery_operator_action_def unknown_selects_def [abs_def]
    unknown_attempt_selects_def [abs_def] Let_def
  by (cases "dt_state (unknown_transition action) = DPending")
    (fastforce split: if_splits)+

lemma apply_unknown_preserves:
  assumes "apply_unknown_delivery_operator_action x i attempt fence action now db = Inr db'"
  shows "dpreserves x db db'"
  using assms
proof (cases rule: apply_unknownE)
  case (1 db1 db2)
  let ?t = "unknown_transition action"
  have "dpreserves x db db2"
  proof (cases "dt_state ?t = DPending")
    case True
    then show ?thesis
      by (intro resolved_preserves [OF 1(2)])
        (use 1(1) force_coherent [OF _ True] 1(2) in \<open>auto dest: delivery_invD(2)\<close>)
  next
    case False
    then have att: "update_delivery_attempts (unknown_attempt_selects i attempt fence)
        (resolve_attempt ?t) db = Inr (db1, 1)" using 1(1) by simp
    note A = update_delivery_attempts_InrD [OF att]
    have state: "dt_state ?t \<in> {DDelivered, DFailedTerminal}"
      using unknown_transition_state [of action] False by auto
    show ?thesis
    proof (rule resolved_preserves [OF 1(2) _ A(2,3,5,6,7)])
      show "dt_state ?t \<in> {DDelivered, DFailedTerminal, DPending}" using state by auto
      show "table_ok delivery_attempt_check delivery_attempt_unique (dl_attempts db1)"
        if "delivery_inv x db"
        by (rule delivery_attempts.update_ok [OF delivery_invD(2) [OF that] A(1)])
      show "sends_coherent db2" if "delivery_inv x db"
        by (rule confirm_coherent [OF that state att 1(2)])
    qed
  qed
  moreover have "dpreserves x db2 db'"
    using 1(3) advance_baseline_preserves by (simp split: if_splits)
  ultimately show ?thesis by (rule dpreserves_trans)
qed

lemma act_on_found_preserves:
  assumes "act_on_found_delivery x request i attempt fence a action db = Inr (db', v)"
  shows "dpreserves x db db'"
  using assms unfolding act_on_found_delivery_def
proof (cases rule: recordedE)
  case (continue db1)
  then have "db' = db1
      \<or> apply_unknown_delivery_operator_action x i attempt fence action (or_occurred_at request) db1 =
         Inr db'"
    by (auto split: unknown_action.splits)
  then show ?thesis
    using continue(1) dpreserves_trans [OF continue(1) apply_unknown_preserves] by auto
qed

lemma unknown_action_preserves:
  "dpreserves x db (snd (operator_act_on_unknown_delivery x request i attempt fence action db))"
  unfolding operator_act_on_unknown_delivery_def
  by (rule transact_delivery_preserves)
    (auto split: if_splits option.splits intro: act_on_found_preserves)

lemmas operator_operations = retry_run_skeeps retry_delivery_preserves [THEN skeeps_deliveries]
  unknown_action_preserves [THEN skeeps_deliveries]

end
