(* ===== verification/Delivery_History.thy ===== *)
theory Delivery_History
  imports Operator_Safety
begin

text \<open>
  Completion of a run, and histories of the whole store: jobs, runs, artifacts, deliveries and
  baselines under one clock that never goes back. Every database of a history satisfies the invariants
  of runs, jobs and deliveries, and its runs are a history of the run store alone.
\<close>

section \<open>Writing intents\<close>

lemma insert_intentE:
  assumes "insert_intent x d db = Inr db'"
  obtains rows where "sql_insert (delivery_check x) delivery_unique d (dl_deliveries db) = Inr rows"
    "db' = db \<lparr>dl_deliveries := rows\<rparr>" "d_state d = DPending" "d_attempt d = 0" "d_fence d = 0"
    "intent_accepted x d db"
  using assms by (auto simp: insert_intent_def split: if_splits)

lemma insert_intent_keeps:
  assumes "insert_intent x d db = Inr db'"
  shows "dkeeps x db db'"
  using assms
proof (cases rule: insert_intentE)
  case (1 rows)
  note I = sql_insert_InrD [OF 1(1)]
  have "dadvances db db'" using I(1) 1(2) by (auto simp: dadvances_def intro: devolves_refl)
  moreover have grows: "audit_grows db db'" using 1(2) by (simp add: audit_grows_def)
  moreover have "sends_coherent db'" if "sends_coherent db"
    using that I(1) 1(2,3) attempt_ok_grows [OF grows] by (fastforce simp: sends_coherent_def)
  moreover have "unknown_kept db db'" using I(1) 1(2) by (simp add: unknown_kept_def)
  ultimately show ?thesis
    using 1(2) deliveries.insert_ok [OF _ 1(1)] baselines_truthful_later [of db db']
    by (simp add: dkeeps_def delivery_inv_def audit_ok_def)
qed

text \<open>The intents of a completion: one new row per target, in the order of the targets, and nothing
  else.\<close>

lemma insert_intentsE:
  assumes "insert_intents x b artifact pv pj now ts db = Inr db'"
  obtains keys where "db' = db \<lparr>dl_deliveries := dl_deliveries db
      @ map2 (new_intent b artifact pv pj now) ts keys\<rparr>" "length keys = length ts"
    "\<forall>(t, k) \<in> set (zip ts keys). delivery_intent_key (binding_run_id b) (dit_identity_digest t) = Inr k"
    "dkeeps x db db'"
  using assms
proof (induction ts arbitrary: db thesis)
  case Nil
  then show ?case by (simp add: dkeeps_same)
next
  case (Cons t ts)
  from Cons.prems(2) obtain key db1 where
      key: "delivery_intent_key (binding_run_id b) (dit_identity_digest t) = Inr key"
      and ins: "insert_intent x (new_intent b artifact pv pj now t key) db = Inr db1"
      and rest: "insert_intents x b artifact pv pj now ts db1 = Inr db'"
    by (auto simp: Let_def)
  obtain keys where k: "db' = db1 \<lparr>dl_deliveries := dl_deliveries db1
        @ map2 (new_intent b artifact pv pj now) ts keys\<rparr>" "length keys = length ts"
      "\<forall>(t, k) \<in> set (zip ts keys). delivery_intent_key (binding_run_id b) (dit_identity_digest t) = Inr k"
      "dkeeps x db1 db'"
    by (rule Cons.IH [OF _ rest])
  have "db1 = db \<lparr>dl_deliveries := dl_deliveries db @ [new_intent b artifact pv pj now t key]\<rparr>"
    using ins by (rule insert_intentE) (drule sql_insert_InrD(1), simp)
  then have "db' = db \<lparr>dl_deliveries := dl_deliveries db
      @ map2 (new_intent b artifact pv pj now) (t # ts) (key # keys)\<rparr>"
    using k(1) by simp
  then show ?case
    by (rule Cons.prems(1)) (use k key dkeeps_trans [OF insert_intent_keeps [OF ins]] in auto)
qed

section \<open>Completion\<close>

lemma swap_baselineD:
  assumes "compare_and_swap_execution_baseline_in_transaction u db = Inr (db', v)"
  shows "same_jobs db db'"
  using assms
  by (auto simp: compare_and_swap_execution_baseline_in_transaction_def count_runs_def same_jobs_def
      same_tables_def split: if_splits)

text \<open>Everything a committed completion writes.\<close>

definition completion_cas :: "ext \<Rightarrow> run_lease_binding \<Rightarrow> run_result \<Rightarrow> i64 \<Rightarrow> i64
    \<Rightarrow> execution_baseline_update" where
  "completion_cas x b result now version =
     \<lparr>eb_job_id = binding_job_id b, eb_expected_version = version,
      eb_hash_algorithm = ''sha256-v1'', eb_result_hash = ar_result_hash (new_artifact x b result now),
      eb_previous_success_context = result_previous_success_context result,
      eb_source_run_id = binding_run_id b, eb_completed_at = now\<rparr>"

lemma completion_writesE:
  assumes "completion_writes x b result now r targets version db = Inr db'"
  obtains rows s keys runs where
    "sql_insert (artifact_check x) artifact_unique (new_artifact x b result now) (dl_artifacts db) =
       Inr rows"
    "compare_and_swap_execution_baseline_in_transaction (completion_cas x b result now version)
       (dl_db db) = Inr (s, True)"
    "length keys = length targets"
    "\<forall>(t, k) \<in> set (zip targets keys).
       delivery_intent_key (binding_run_id b) (dit_identity_digest t) = Inr k"
    "complete_run_rows x b rows (result_artifact_id x b) (result_previous_success_context result)
       (ar_result_hash (new_artifact x b result now)) now (db_runs s) = Inr runs"
    "db' = db \<lparr>dl_artifacts := rows,
       dl_deliveries := dl_deliveries db @ map2 (new_intent b (result_artifact_id x b)
         (r_policy_version r) (r_policy_json r) now) targets keys,
       dl_db := s \<lparr>db_runs := runs\<rparr>\<rparr>"
    "dkeeps x db db'"
proof -
  have id: "ar_artifact_id (new_artifact x b result now) = result_artifact_id x b"
    by (simp add: new_artifact_def)
  obtain db1 s db2 runs where
      art: "insert_artifact x (new_artifact x b result now) db = Inr db1"
      and cas: "compare_and_swap_execution_baseline_in_transaction (completion_cas x b result now version)
        (dl_db db1) = Inr (s, True)"
      and ints: "insert_intents x b (result_artifact_id x b) (r_policy_version r) (r_policy_json r) now
        targets (db1 \<lparr>dl_db := s\<rparr>) = Inr db2"
      and done': "complete_run_rows x b (dl_artifacts db2) (result_artifact_id x b)
        (result_previous_success_context result) (ar_result_hash (new_artifact x b result now)) now
        (db_runs (dl_db db2)) = Inr runs"
      and db': "db' = db2 \<lparr>dl_db := (dl_db db2) \<lparr>db_runs := runs\<rparr>\<rparr>"
    using assms by (auto simp: completion_writes_def Let_def completion_cas_def id split: if_splits)
  obtain rows where rows: "sql_insert (artifact_check x) artifact_unique
        (new_artifact x b result now) (dl_artifacts db) = Inr rows" "db1 = db \<lparr>dl_artifacts := rows\<rparr>"
    using art by (auto simp: insert_artifact_def split: if_splits)
  obtain keys where keys: "db2 = (db1 \<lparr>dl_db := s\<rparr>) \<lparr>dl_deliveries := dl_deliveries (db1 \<lparr>dl_db := s\<rparr>)
        @ map2 (new_intent b (result_artifact_id x b) (r_policy_version r) (r_policy_json r) now)
            targets keys\<rparr>" "length keys = length targets"
      "\<forall>(t, k) \<in> set (zip targets keys).
         delivery_intent_key (binding_run_id b) (dit_identity_digest t) = Inr k"
      "dkeeps x (db1 \<lparr>dl_db := s\<rparr>) db2"
    by (rule insert_intentsE [OF ints])
  have "dkeeps x db (db1 \<lparr>dl_db := s\<rparr>)" "dkeeps x db2 db'"
    using rows(2) db' by (simp_all add: dkeeps_same)
  then have "dkeeps x db db'" using keys(4) dkeeps_trans by blast
  then show thesis
    by (intro that [OF rows(1) _ keys(2,3)]) (use cas rows done' keys(1) db' in simp_all)
qed

text \<open>The ways a completion can end.\<close>

lemma completionE:
  assumes "complete_scheduled_run_success x b result now db = (v, db')"
  obtains (refused) e where "v = Inl e" "db' = db"
  | (committed) r a targets version where "v = Inr CompletionCommitted"
      "executing_pair b now (db_runs (dl_db db)) = Some (r, a)"
      "completion_plan x result now r a = Inr (targets, version)"
      "completion_writes x b result now r targets version db = Inr db'"
  | (late) evidence where "v = Inr (CompletionLateEvidence evidence)" "validate_lease_binding b = Inr ()"
      "completion_late_evidence b (sha256_hex x (result_json_of x result)) now db =
         Inr (db', CompletionLateEvidence evidence)"
      "executing_pair b now (db_runs (dl_db db)) = None"
proof -
  let ?digest = "sha256_hex x (result_json_of x result)"
  have lateE: thesis if "validate_lease_binding b = Inr ()"
      "executing_pair b now (db_runs (dl_db db)) = None"
      "(case completion_late_evidence b ?digest now db of Inl e \<Rightarrow> (Inl e, db)
        | Inr (db', outcome) \<Rightarrow> (Inr outcome, db')) = (v, db')"
    using that refused late by (auto simp: completion_late_evidence_def split: sum.splits)
  define guard where "guard = rbind (validate_lease_binding b) (\<lambda>_.
    if now < 0
    then Inl (InvalidSchedulerState ''scheduled completion timestamp must be nonnegative'')
    else rbind (map_err invalid_value
      (validate_text ''scheduled result summary'' (result_summary result))) (\<lambda>_.
    if length (result_previous_success_context result) > MAX_CONTEXT_BYTES
    then Inl (InvalidSchedulerState
      ''scheduled result previous success context exceeds its storage bound'')
    else Inr ()))"
  note op = assms [unfolded complete_scheduled_run_success_def, folded guard_def]
  show thesis
  proof (cases guard)
    case (Inl e)
    with op have "v = Inl e" "db' = db" by simp_all
    then show thesis by (rule refused)
  next
    case (Inr u)
    then have valid: "validate_lease_binding b = Inr ()"
      unfolding guard_def by (cases "validate_lease_binding b") simp_all
    show thesis
    proof (cases "executing_pair b now (db_runs (dl_db db))")
      case None
      show thesis by (rule lateE [OF valid None]) (use op Inr None in \<open>simp add: Let_def\<close>)
    next
      case (Some ra)
      obtain r a where ra: "ra = (r, a)" by fastforce
      show thesis
      proof (cases "completion_plan x result now r a")
        case (Inl e)
        with op Inr Some ra have "v = Inl e" "db' = db" by (simp_all add: Let_def)
        then show thesis by (rule refused)
      next
        case plan: (Inr p)
        obtain targets version where p: "p = (targets, version)" by fastforce
        show thesis
        proof (cases "completion_writes x b result now r targets version db")
          case (Inl e)
          then have "\<exists>e. v = Inl e \<and> db' = db"
            using op Inr Some ra plan p
            by (cases e) (auto simp: Let_def resolve_scheduled_run_completion_conflict_def)
          then show thesis using refused by blast
        next
          case (Inr d)
          with op \<open>guard = Inr u\<close> Some ra plan p have "v = Inr CompletionCommitted" "d = db'"
            by (simp_all add: Let_def)
          then show thesis using committed Some ra plan p Inr by blast
        qed
      qed
    qed
  qed
qed

section \<open>Completion keeps the invariants\<close>

lemma append_evidence_steps:
  assumes "validate_lease_binding b = Inr ()"
    and "append_late_evidence_in_transaction b kind digest at db = Inr (db', outcome)"
  shows "(run_step x)\<^sup>*\<^sup>* db db'"
proof (cases "outcome = Recorded")
  case True
  then have "length digest = 64 \<and> list_all is_hex_lower digest"
    using assms(2) by (auto simp: append_late_evidence_in_transaction_def insert_evidence_def
        sql_insert_def evidence_check_def split: if_splits)
  then have "snd (append_scheduled_run_late_evidence b kind digest at db) = db'"
    using assms by (simp add: append_scheduled_run_late_evidence_def transact_def)
  then show ?thesis using step_evidence [of x db b kind digest at] by auto
next
  case False
  then show ?thesis using assms(2) by (auto simp: append_late_evidence_in_transaction_def split: if_splits)
qed

lemma late_evidenceE:
  assumes "completion_late_evidence b digest now db = Inr (db', v)" and "validate_lease_binding b = Inr ()"
  obtains s where "db' = db \<lparr>dl_db := (dl_db db) \<lparr>db_runs := s\<rparr>\<rparr>"
    "(run_step x)\<^sup>*\<^sup>* (db_runs (dl_db db)) s" "st_runs s = st_runs (db_runs (dl_db db))"
    "st_attempts s = st_attempts (db_runs (dl_db db))"
proof -
  obtain s1 e s2 where e: "append_late_evidence_in_transaction b CompletionAfterLeaseLoss digest now
        (db_runs (dl_db db)) = Inr (s1, e)"
      and m: "increment_scheduler_transition_total StaleFenceRejected 1 s1 = Inr s2"
      and db': "db' = db \<lparr>dl_db := (dl_db db) \<lparr>db_runs := s2\<rparr>\<rparr>"
    using assms(1) by (auto simp: completion_late_evidence_def)
  have "st_runs s1 = st_runs (db_runs (dl_db db))" "st_attempts s1 = st_attempts (db_runs (dl_db db))"
    using e by (auto simp: append_late_evidence_in_transaction_def insert_evidence_def split: if_splits)
  moreover have "same_tables s1 s2" by (rule increment_same_tables [OF m])
  ultimately show thesis
    using that [OF db'] append_evidence_steps [OF assms(2) e, of x] step_metric [of s1 s2 x]
      same_tablesD(1,2) [of s1 s2] by (simp add: rtranclp.rtrancl_into_rtrancl)
qed

text \<open>The invariant of the whole store.\<close>

definition system_inv :: "ext \<Rightarrow> i64 \<Rightarrow> delivery_db \<Rightarrow> bool" where
  "system_inv x now db \<longleftrightarrow> sched_inv x now (dl_db db) \<and> delivery_inv x db"

lemma complete_rows_length:
  assumes "complete_run_rows x b artifacts artifact_id ctxt hash now db = Inr db'"
  shows "length (st_runs db') = length (st_runs db)"
  using assms
proof (cases rule: complete_rowsE)
  case (1 db1)
  then show ?thesis
    using sql_update_InrD(1) [OF update_runs_InrD(1) [OF 1(2)]] update_attempts_InrD(2) [OF 1(1)]
    by simp
qed

lemma completion_skeeps:
  assumes "complete_scheduled_run_success x b result now db = (v, db')"
  shows "skeeps x db db'"
  using assms
proof (cases rule: completionE)
  case (refused e)
  then show ?thesis by (simp add: skeeps_deliveries)
next
  case (committed r a targets version)
  from committed(4) show ?thesis
  proof (cases rule: completion_writesE)
    case (1 rows s keys runs)
    have same: "same_jobs (dl_db db) s" by (rule swap_baselineD [OF 1(2)])
    have step: "(run_step x)\<^sup>*\<^sup>* (db_runs s) runs" using step_complete [OF 1(5)] by blast
    have "sched_inv x t (s \<lparr>db_runs := runs\<rparr>)" if "sched_inv x t (dl_db db)" for t
      by (rule sched_inv_runs [OF _ step complete_rows_length [OF 1(5)]])
        (use that sched_inv_same [OF same] in simp_all)
    then show ?thesis
      using 1(6,7) rtranclp_trans [OF same_jobs_runs [OF same] step] by (simp add: skeeps_def)
  qed
next
  case (late evidence)
  from late(3,2) show ?thesis
  proof (rule late_evidenceE [where x = x])
    fix s assume "db' = db \<lparr>dl_db := (dl_db db) \<lparr>db_runs := s\<rparr>\<rparr>"
      "(run_step x)\<^sup>*\<^sup>* (db_runs (dl_db db)) s" "st_runs s = st_runs (db_runs (dl_db db))"
    then show ?thesis using sched_inv_runs [of x _ "dl_db db" s] by (simp add: skeeps_def dkeeps_same)
  qed
qed

section \<open>Histories\<close>

text \<open>One transaction of the store. A job operation also covers every operation of the run store but
  materialization and completion, which are listed.\<close>

inductive delivery_step ::
  "('tz, 'cron) calendar \<Rightarrow> ext \<Rightarrow> i64 \<Rightarrow> delivery_db \<Rightarrow> delivery_db \<Rightarrow> bool" for cal x now db where
  ds_job: "job_step cal x now (dl_db db) s \<Longrightarrow> delivery_step cal x now db (db \<lparr>dl_db := s\<rparr>)"
| ds_complete: "delivery_step cal x now db (snd (complete_scheduled_run_success x b result now db))"
| ds_prepare: "delivery_step cal x now db
    (snd (prepare_scheduled_delivery x i content body render now policy db))"
| ds_peek: "delivery_step cal x now db (snd (peek_scheduled_delivery_work x now db))"
| ds_skip: "delivery_step cal x now db (snd (skip_scheduled_delivery_unchanged x a now db))"
| ds_reject: "delivery_step cal x now db (snd (reject_scheduled_delivery_readiness x a kind now db))"
| ds_claim: "delivery_step cal x now db (snd (claim_next_scheduled_delivery x owner now expires db))"
| ds_claim_exact: "delivery_step cal x now db
    (snd (claim_scheduled_delivery_from_snapshot_with_clock x a owner now clock db))"
| ds_heartbeat: "delivery_step cal x now db (snd (heartbeat_scheduled_delivery x l now expires db))"
| ds_reconcile: "delivery_step cal x now db
    (snd (reconcile_expired_scheduled_delivery x i s attempt fence expires now db))"
| ds_reclaim: "delivery_step cal x now db (snd (reclaim_expired_scheduled_deliveries x now limit db))"
| ds_delivered: "delivery_step cal x now db
    (snd (complete_scheduled_delivery_delivered x l receipt now db))"
| ds_failure: "delivery_step cal x now db
    (snd (complete_scheduled_delivery_failure x l failure now db))"
| ds_requeue: "delivery_step cal x now db (snd (requeue_due_scheduled_deliveries x now limit db))"
| ds_retry_run: "delivery_step cal x now db (snd (operator_retry_scheduled_run x request i attempt fence
    reason reason_digest next_attempt_at db))"
| ds_retry_delivery: "delivery_step cal x now db (snd (operator_retry_scheduled_delivery x request i
    attempt fence reason reason_digest db))"
| ds_unknown: "delivery_step cal x now db (snd (operator_act_on_unknown_delivery x request i attempt
    fence action db))"

lemma claim_exact_clock_preserves:
  "dpreserves x db (snd (claim_scheduled_delivery_from_snapshot_with_clock x a owner now clock db))"
  by (simp add: claim_scheduled_delivery_from_snapshot_with_clock_def claim_inner_preserves)

lemmas delivery_operations = prepare_preserves peek_preserves skip_preserves reject_preserves
  claim_next_preserves claim_exact_clock_preserves heartbeat_delivery_preserves
  reconcile_delivery_preserves reclaim_expired_preserves delivered_preserves failure_preserves
  requeue_due_preserves

lemma delivery_step_cases:
  assumes "delivery_step cal x now db db'"
  obtains (job) s where "job_step cal x now (dl_db db) s" "db' = db \<lparr>dl_db := s\<rparr>"
  | (other) "skeeps x db db'"
  using assms
proof cases
  case (ds_job s)
  then show thesis by (rule job [rotated])
next
  case (ds_complete b result)
  then show thesis using other completion_skeeps [of x b result now db] by (metis prod.collapse)
qed (rule other, simp only: delivery_operations [THEN skeeps_deliveries] operator_operations)+

lemma delivery_step_runs:
  assumes "delivery_step cal x now db db'"
  shows "(run_step x)\<^sup>*\<^sup>* (db_runs (dl_db db)) (db_runs (dl_db db'))"
  using assms by (cases rule: delivery_step_cases) (simp_all add: job_step_runs skeepsD(2))

lemma delivery_step_keeps:
  assumes "delivery_step cal x now db db'"
  shows "dkeeps x db db'"
  using assms by (cases rule: delivery_step_cases) (simp_all add: dkeeps_same skeepsD(1))

lemma delivery_step_inv:
  assumes "delivery_step cal x now db db'" and "system_inv x now db"
  shows "system_inv x now db'"
proof -
  have "sched_inv x now (dl_db db')"
    using assms(1)
  proof (cases rule: delivery_step_cases)
    case (job s)
    then show ?thesis using job_step_inv [OF job(1)] assms(2) by (simp add: system_inv_def)
  next
    case other
    then show ?thesis using skeepsD(3) assms(2) by (simp add: system_inv_def)
  qed
  then show ?thesis
    using delivery_step_keeps [OF assms(1)] assms(2) by (simp add: system_inv_def dkeeps_def)
qed

definition initial_system :: "delivery_db \<Rightarrow> bool" where
  "initial_system db \<longleftrightarrow> initial_db (dl_db db) \<and> dl_artifacts db = [] \<and> dl_deliveries db = []
     \<and> dl_attempts db = [] \<and> dl_accepted db = [] \<and> dl_actions db = [] \<and> dl_consumptions db = []"

text \<open>A database that comes later, under a clock that does not go back.\<close>

inductive leads_to :: "('tz, 'cron) calendar \<Rightarrow> ext \<Rightarrow> i64 \<times> delivery_db \<Rightarrow> i64 \<times> delivery_db \<Rightarrow> bool"
  for cal x where
  lt_refl: "leads_to cal x s s"
| lt_step: "leads_to cal x s (now, db) \<Longrightarrow> now \<le> later \<Longrightarrow> delivery_step cal x later db db' \<Longrightarrow>
    leads_to cal x s (later, db')"

lemma initial_system_inv: "initial_system db \<Longrightarrow> system_inv x now db"
  using history_inv [OF h_start]
  by (auto simp: initial_system_def system_inv_def delivery_inv_def table_ok_def delivery_unique_def
      delivery_attempt_unique_def accepted_unique_def sends_coherent_def baselines_truthful_def
      operator_unique_def audit_ok_def)

lemma leads_to_inv:
  assumes "leads_to cal x s t" and "system_inv x (fst s) (snd s)"
  shows "system_inv x (fst t) (snd t) \<and> dadvances (snd s) (snd t) \<and> unknown_kept (snd s) (snd t)
    \<and> (run_step x)\<^sup>*\<^sup>* (db_runs (dl_db (snd s))) (db_runs (dl_db (snd t)))"
  using assms
proof (induction rule: leads_to.induct)
  case (lt_refl s)
  then show ?case by (simp add: dadvances_same unknown_kept_same)
next
  case (lt_step s now db later db')
  then have h: "system_inv x now db" "dadvances (snd s) db" "unknown_kept (snd s) db"
      "(run_step x)\<^sup>*\<^sup>* (db_runs (dl_db (snd s))) (db_runs (dl_db db))"
    by simp_all
  have later: "system_inv x later db"
    using h(1) sched_inv_later [OF _ lt_step.hyps(2)] by (simp add: system_inv_def)
  moreover have "dadvances db db'" "unknown_kept db db'" "audit_grows db db'"
    using delivery_step_keeps [OF lt_step.hyps(3)] h(1) by (simp_all add: dkeeps_def system_inv_def)
  ultimately show ?case
    using dadvances_trans [OF h(2)] rtranclp_trans [OF h(4) delivery_step_runs [OF lt_step.hyps(3)]]
      unknown_kept_trans [OF h(3)] delivery_step_inv [OF lt_step.hyps(3)] by simp
qed

lemma leads_to_audit:
  assumes "leads_to cal x s t"
  shows "audit_grows (snd s) (snd t)"
  using assms
proof (induction rule: leads_to.induct)
  case (lt_step s now db later db')
  then show ?case
    using delivery_step_keeps [OF lt_step.hyps(3)] audit_grows_trans by (auto simp: dkeeps_def)
qed simp

lemma leads_to_delivery_inv:
  assumes "system_inv x t db0" and "leads_to cal x (t, db0) (now, db)"
  shows "delivery_inv x db"
  using leads_to_inv [OF assms(2)] assms(1) by (simp add: system_inv_def)

text \<open>The row a delivery has become.\<close>

lemma delivery_later:
  assumes "system_inv x now db" and "leads_to cal x (now, db) (later, db')"
    and "d \<in> set (dl_deliveries db)" and "d' \<in> set (dl_deliveries db')"
    and "d_delivery_id d' = d_delivery_id d"
  shows "devolves d d'"
proof -
  have h: "delivery_inv x db'" "dadvances db db'"
    using leads_to_inv [OF assms(2)] assms(1) by (simp_all add: system_inv_def)
  then obtain e where e: "e \<in> set (dl_deliveries db')" "devolves d e"
    using assms(3) by (auto simp: dadvances_def)
  then have "d_delivery_id e = d_delivery_id d'"
    using delivery_snapshot_keys(1) [of e d] assms(5) by (simp add: devolves_def)
  then show ?thesis using delivery_key [OF h(1) e(1) assms(4)] e(2) by blast
qed

end
