(* ===== verification/Delivery_Sample.thy ===== *)
theory Delivery_Sample
  imports Delivery_History Job_Sample
begin

text \<open>
  A concrete delivery, evaluated step by step: a first attempt was confirmed not to have written, the
  delivery is claimed again, and then reported delivered or left until its lease expires. A second
  database completes the run of a job. The delivery properties are applied to them.
\<close>

section \<open>A target and its readers\<close>

definition post_address :: json where
  "post_address = JObj [
     (''authorization_evidence'', JObj [(''digest'', JStr zero_digest), (''version'', JInt 1)]),
     (''coordinates'', JObj [(''channel_id'', JStr ''c'')]), (''created_at'', JInt 1),
     (''requested_identity_digest'', JStr zero_digest),
     (''routing_authority'', JObj [(''context_team_id'', JStr ''t''), (''conversation_host_id'', JStr ''h''),
        (''enterprise_id'', JNull), (''team_id'', JStr ''t'')]),
     (''schema_version'', JInt 1), (''workspace_id'', JStr ''t'')]"

definition post_target :: json where
  "post_target = JObj [(''address'', post_address), (''connector'', JStr ''c''),
     (''identity_digest'', JStr zero_digest), (''kind'', JStr ''channel''), (''provider'', JStr ''w''),
     (''resolver_digest'', JStr ''c''), (''resolver_version'', JInt 1), (''tenant'', JStr ''t'')]"

text \<open>What an operator found at the provider about a lost send, and why it is sent again.\<close>

definition lost_evidence_fields :: "(string \<times> json) list" where
  "lost_evidence_fields = [(''evidence_id'', JStr ''e''), (''evidence_version'', JInt 1),
     (''kind'', JStr ''operator_force_resend''), (''provider'', JStr ''w''),
     (''provider_query_completed_at'', JInt 300), (''provider_query_result'', JStr ''no_matching_write_found''),
     (''provider_query_scope'', JStr ''canonical_delivery_target''), (''provider_query_started_at'', JInt 290),
     (''provider_query_summary_digest'', JStr zero_digest), (''provider_query_window_end'', JInt 280),
     (''provider_query_window_start'', JInt 60), (''target_kind'', JStr ''channel''), (''tenant'', JStr ''t'')]"

definition lost_evidence :: json where
  "lost_evidence = JObj lost_evidence_fields"

definition lost_reason_fields :: "(string \<times> json) list" where
  "lost_reason_fields = [(''reason'', JStr ''r''), (''reason_code'', JStr ''c''), (''schema_version'', JInt 1)]"

definition lost_reason :: json where
  "lost_reason = JObj lost_reason_fields"

definition post_baseline :: json where
  "post_baseline = JObj [(''baseline_version'', JInt 0)]"

definition post_ext :: ext where
  "post_ext = tiny_ext \<lparr>
     json_parse := \<lambda>t. if t = ''O'' then Inr post_target else if t = ''A'' then Inr (JArr [post_target])
       else if t = ''B'' then Inr post_baseline else if t = ''E'' then Inr lost_evidence
       else if t = ''Q'' then Inr lost_reason else Inl ''expected value'',
     json_print := \<lambda>v. if v = post_target then ''O'' else if v = JArr [post_target] then ''A''
       else if v = post_baseline then ''B'' else if v = lost_evidence then ''E''
       else if v = lost_reason then ''Q'' else ''R'',
     policy_print := \<lambda>_. ''[1]'', sql_json_valid := \<lambda>_. True,
     sql_json_int := \<lambda>_ f. if f = ''delivery_max_attempts'' then Some 5
       else if f = ''delivery_deadline_seconds'' then Some 3600 else None\<rparr>"

lemma post_ext_simps [simp]:
  "sql_json_valid post_ext t" "json_parse post_ext ''O'' = Inr post_target"
  "json_print post_ext post_target = ''O''" "json_parse post_ext ''A'' = Inr (JArr [post_target])"
  "json_print post_ext (JArr [post_target]) = ''A''" "json_parse post_ext ''B'' = Inr post_baseline"
  "json_print post_ext post_baseline = ''B''"
  "json_parse post_ext ''E'' = Inr lost_evidence" "json_print post_ext lost_evidence = ''E''"
  "json_parse post_ext ''Q'' = Inr lost_reason" "json_print post_ext lost_reason = ''Q''"
  "sql_json_int post_ext t ''delivery_max_attempts'' = Some 5"
  "sql_json_int post_ext t ''delivery_deadline_seconds'' = Some 3600"
  by (simp_all add: post_ext_def tiny_ext_def post_target_def post_baseline_def lost_evidence_def
      lost_reason_def lost_evidence_fields_def lost_reason_fields_def)

lemma post_digest [simp]: "sha256_hex post_ext t = zero_digest" "digest_identity post_ext parts = zero_digest"
proof -
  have "encode_sha256 (replicate 32 CHR 0x00) = replicate 64 CHR ''0''" by code_simp
  then show "sha256_hex post_ext t = zero_digest" "digest_identity post_ext parts = zero_digest"
    by (simp_all add: post_ext_def sha256_hex_def digest_identity_def tiny_ext_def zero_digest_def)
qed

lemma post_policy [simp]:
  "scheduler_policy_from_snapshot post_ext 1 ''[1]'' = Inr default_policy"
  using default_policies_valid(1)
  by (simp add: scheduler_policy_from_snapshot_def scheduler_policy_json_def
      SCHEDULER_OPERATIONAL_POLICY_VERSION_def post_ext_def tiny_ext_def)

section \<open>A delivery that was attempted once\<close>

definition post_key :: string where
  "post_key = ''v1:'' @ encode_sha256 ''run'' @ '':'' @ zero_digest @ '':1''"

definition post_id :: string where
  "post_id = ''intent:'' @ post_key"

definition send_key :: string where
  "send_key = ''delivery-v1:'' @ encode_sha256 post_id @ '':'' @ zero_digest"


definition post_payload :: payload_columns where
  "post_payload = \<lparr>pc_render_version = 1, pc_schema_version = 1, pc_content_type = ''t'',
     pc_hash_algorithm = ''sha256-utf8-exact-v1'', pc_digest = zero_digest, pc_snapshot = ''s'',
     pc_created_at = 40, pc_expected_baseline_version = 0, pc_target_snapshot_version = 1\<rparr>"

definition post_row :: delivery_row where
  "post_row = \<lparr>d_delivery_id = post_id, d_run_id = ''run'', d_job_id = ''job'',
     d_target_identity_digest = zero_digest, d_target_json = ''O'', d_state = DPending,
     d_attempt = 1, d_next_attempt_at = None, d_lease_owner = None, d_lease_expires_at = None,
     d_fence = 1, d_idempotency_key = Some send_key, d_provider_receipt = None,
     d_provider_outcome = None, d_error_kind = None, d_error_message = None,
     d_delivery_policy_version = 1, d_payload = Some post_payload, d_claimed_baseline_version = None,
     d_result_artifact_id = ''r1'', d_result_attempt = 1, d_result_fence = 1,
     d_target_snapshot_digest_algorithm = ''sha256-v1'', d_target_snapshot_digest = zero_digest,
     d_intent_key = post_key, d_policy_version = 1, d_policy_json = ''[1]'', d_created_at = 30,
     d_updated_at = 50, d_counter_limit_recorded = False\<rparr>"

definition first_send :: delivery_attempt_row where
  "first_send = \<lparr>da_row_delivery_id = post_id, da_attempt = 1, da_fence = 1, da_lease_owner = ''w'',
     da_lease_expires_at = 105, da_idempotency_key = send_key, da_claimed_baseline_version = 0,
     da_state = DFailedRetryable, da_provider_receipt = None,
     da_provider_outcome = Some ''confirmed_no_write_retryable'', da_error_kind = Some ''kind'',
     da_error_message = None, da_started_at = 45, da_completed_at = Some 46\<rparr>"

definition post_artifact :: artifact_row where
  "post_artifact = \<lparr>ar_artifact_id = ''r1'', ar_run_id = ''run'', ar_job_id = ''job'',
     ar_accepted_attempt = 1, ar_accepted_fence = 1, ar_result_json = ''R'',
     ar_result_hash = zero_digest, ar_previous_success_context = [], ar_completed_at = 30\<rparr>"

definition post_db :: delivery_db where
  "post_db = \<lparr>dl_db = created_db, dl_artifacts = [post_artifact], dl_deliveries = [post_row],
     dl_attempts = [first_send], dl_accepted = [], dl_actions = [], dl_consumptions = []\<rparr>"

lemma digest_columns [simp]: "length zero_digest = 64" "list_all is_hex_lower zero_digest"
  by code_simp+

lemma post_lengths [simp]:
  "length post_key = 76" "length post_id = 83" "length send_key = 243"
  by (simp_all add: post_key_def post_id_def send_key_def)

lemma post_sql_lengths [simp]:
  "sql_length ''sha256-v1'' = 9" "sql_length ''sha256-utf8-exact-v1'' = 20" "sql_length ''t'' = 1"
  "sql_length post_id > 0" "sql_length send_key > 0"
  by code_simp+

lemma hex_graphic: "list_all is_hex_lower s \<Longrightarrow> list_all is_graphic s"
  by (fastforce simp: list_all_iff is_hex_lower_def is_ascii_digit_def is_graphic_def)

lemma post_texts [simp]: "validate_text f post_id = Inr ()" "validate_text f send_key = Inr ()"
proof -
  have "list_all is_graphic (encode_sha256 bs)" for bs
    by (rule hex_graphic) (simp add: list_all_iff encode_sha256_hex)
  moreover have "list_all is_graphic zero_digest" by (rule hex_graphic) simp
  ultimately have "list_all is_graphic post_id" "list_all is_graphic send_key"
    by (simp_all add: post_id_def post_key_def send_key_def is_graphic_def byte_val_def)
  moreover have "post_id \<noteq> []" "send_key \<noteq> []" by (simp_all add: post_id_def send_key_def)
  ultimately show "validate_text f post_id = Inr ()" "validate_text f send_key = Inr ()"
    by (simp_all add: validate_graphic MAX_CONTEXT_BYTES_def)
qed

lemma post_intent_check:
  assumes "delivery_snapshot d = delivery_snapshot post_row" and "d_payload d \<noteq> None"
  shows "intent_check d"
proof -
  have col: "g d = g post_row" if "\<And>e. g (delivery_snapshot e) = g e" for g :: "delivery_row \<Rightarrow> 'z"
    using arg_cong [OF assms(1), of g] that by simp
  have "d_result_artifact_id d = d_result_artifact_id post_row" "d_result_attempt d = d_result_attempt post_row"
    "d_result_fence d = d_result_fence post_row" "d_run_id d = d_run_id post_row"
    "d_delivery_policy_version d = d_delivery_policy_version post_row"
    "d_target_snapshot_digest_algorithm d = d_target_snapshot_digest_algorithm post_row"
    "d_target_snapshot_digest d = d_target_snapshot_digest post_row"
    "d_target_identity_digest d = d_target_identity_digest post_row"
    "d_intent_key d = d_intent_key post_row" "d_delivery_id d = d_delivery_id post_row"
    by (rule col, simp add: delivery_snapshot_def)+
  then show ?thesis
    using assms(2)
    by (simp add: intent_check_def post_row_def) (auto simp: post_key_def post_id_def)
qed

lemmas post_check_defs = delivery_check_def target_object_def post_target_def payload_check_def
  post_payload_def claimed_states_def error_states_def state_outcome_def

lemma post_row_check: "delivery_check post_ext post_row"
proof -
  have "intent_check post_row" by (rule post_intent_check) (simp_all add: post_row_def)
  then show ?thesis by (simp add: post_check_defs post_row_def)
qed

lemma post_inv: "system_inv post_ext 50 post_db"
proof -
  have "sched_inv post_ext 50 created_db"
    by (simp add: sched_inv_def created_db_def empty_db_def empty_store_def store_inv_def table_ok_def
        run_unique_def attempt_unique_def evidence_unique_def coherent_def evidence_bounded_def
        timely_def job_row_checks job_proof_def)
  moreover have "delivery_attempt_check first_send"
    by (simp add: delivery_attempt_check_def first_send_def state_outcome_def)
  moreover have "attempt_ok db post_row first_send"
    for db by (simp add: attempt_ok_def post_row_def first_send_def settled_def follows_def resendable_def)
  ultimately show ?thesis
    using post_row_check
    by (simp add: system_inv_def delivery_inv_def post_db_def table_ok_def delivery_unique_def
        delivery_attempt_unique_def accepted_unique_def sends_coherent_def baselines_truthful_def
        operator_unique_def audit_ok_def post_row_def [THEN arg_cong, of d_state])
qed

section \<open>Claimed again\<close>

definition sending_row :: delivery_row where
  "sending_row = post_row \<lparr>d_state := DSending, d_attempt := 2, d_fence := 2, d_lease_owner := Some ''v'',
     d_lease_expires_at := Some 160, d_claimed_baseline_version := Some 0, d_updated_at := 60\<rparr>"

definition second_send :: delivery_attempt_row where
  "second_send = delivery_attempt_of sending_row ''v'' 160 60 send_key 0"

definition second_binding :: delivery_binding where
  "second_binding = \<lparr>dlb_delivery_id = post_id, dlb_attempt = 2, dlb_fence = 2, dlb_lease_owner = ''v'',
     dlb_idempotency_key = send_key\<rparr>"

definition sending_db :: delivery_db where
  "sending_db = snd (claim_next_scheduled_delivery post_ext ''v'' 60 160 post_db)"

lemma post_row_simps [simp]:
  "d_delivery_id post_row = post_id" "d_state post_row = DPending" "d_updated_at post_row = 50"
  "d_payload post_row = Some post_payload" "d_attempt post_row = 1" "d_fence post_row = 1"
  "pc_digest post_payload = zero_digest" "d_idempotency_key post_row = Some send_key"
  "d_policy_version post_row = 1" "d_policy_json post_row = ''[1]''"
  by (simp_all add: post_row_def post_payload_def)

lemma post_db_simps [simp]:
  "dl_deliveries post_db = [post_row]" "dl_accepted post_db = []" "dl_attempts post_db = [first_send]"
  "baseline_at i post_db = None" "unchanged post_db d = False" "baseline_of post_db d = None"
  by (simp_all add: post_db_def baseline_at_def unchanged_def baseline_of_def bind_eq_None_conv
      split: option.splits)

lemma sending_check: "delivery_check post_ext sending_row"
proof -
  have "intent_check sending_row"
    by (rule post_intent_check) (simp_all add: sending_row_def delivery_snapshot_def)
  then show ?thesis by (simp add: post_check_defs sending_row_def post_row_def)
qed

lemma update_only_row:
  assumes "dl_deliveries db = [d]" and "w d" and "delivery_check x (f d)"
    and "delivery_triggers x c (dl_accepted db) d (f d)"
    and "d_state d \<notin> {DFailedRetryable, DDeliveryUnknown}"
  shows "\<exists>db'. update_deliveries x c w f db = Inr (db', 1) \<and> dl_deliveries db' = [f d]"
proof -
  have "delivery_unique [f d]" by (simp add: delivery_unique_def)
  moreover have "spends x w f db = []" by (rule spends_idle) (use assms(1,5) in simp)
  ultimately show ?thesis
    using assms idle_authority(2) [OF assms(5)] by (simp add: update_deliveries_def sql_update_def Let_def)
qed

lemma sending_update:
  "\<exists>db. update_deliveries post_ext True (\<lambda>d. d_delivery_id d = post_id \<and> d_state d = DPending
     \<and> d_updated_at d \<le> 60 \<and> \<not> unchanged post_db d) (claim_delivery_row post_db ''v'' 160 60) post_db =
   Inr (db, 1) \<and> dl_deliveries db = [sending_row] \<and> dl_attempts db = [first_send] \<and> dl_accepted db = []"
proof -
  have row: "claim_delivery_row post_db ''v'' 160 60 post_row = sending_row"
    by (simp add: claim_delivery_row_def sending_row_def delivery_idempotency_key_def)
  moreover have "delivery_triggers post_ext True [] post_row sending_row"
    by (simp add: delivery_triggers_def sending_row_def delivery_identity_def state_transition_ok_def
        claimed_baseline_ok_def) (simp add: post_row_def)
  ultimately obtain db where db: "update_deliveries post_ext True (\<lambda>d. d_delivery_id d = post_id
      \<and> d_state d = DPending \<and> d_updated_at d \<le> 60 \<and> \<not> unchanged post_db d)
      (claim_delivery_row post_db ''v'' 160 60) post_db = Inr (db, 1)" "dl_deliveries db = [sending_row]"
    using update_only_row [of post_db post_row "\<lambda>d. d_delivery_id d = post_id \<and> d_state d = DPending
      \<and> d_updated_at d \<le> 60 \<and> \<not> unchanged post_db d" post_ext "claim_delivery_row post_db ''v'' 160 60" True]
      sending_check by auto
  then show ?thesis using update_deliveries_InrD(3,4) [OF db(1)] by simp
qed

lemma post_payload_read:
  "d_payload d = Some post_payload \<Longrightarrow> d_delivery_id d = post_id \<Longrightarrow> d_run_id d = ''run'' \<Longrightarrow>
   d_result_artifact_id d = ''r1'' \<Longrightarrow> d_delivery_policy_version d = 1 \<Longrightarrow>
   d_target_identity_digest d = zero_digest \<Longrightarrow> d_target_snapshot_digest d = zero_digest \<Longrightarrow>
   \<exists>p. delivery_payload_from_row post_ext d = Inr p \<and> ps_created_at p = 40"
  by (simp add: delivery_payload_from_row_def post_payload_def positive_u32_def
      DELIVERY_PAYLOAD_SCHEMA_VERSION_def DELIVERY_PAYLOAD_HASH_ALGORITHM_def u32_max_def
      payload_from_durable_parts_def Let_def payload_snapshot_validate_def check_all.simps)

lemma post_target_read:
  "validate_delivery_intent_target_snapshot post_ext ''O'' zero_digest ''sha256-v1'' zero_digest = Inr ()"
  by (simp add: validate_delivery_intent_target_snapshot_def) (simp add: post_target_def)

lemma second_check: "delivery_attempt_check second_send"
  by (simp add: delivery_attempt_check_def second_send_def delivery_attempt_of_def sending_row_def
      state_outcome_def)

lemma sending_row_simps [simp]:
  "d_delivery_id sending_row = post_id" "d_state sending_row = DSending"
  "d_idempotency_key sending_row = Some send_key" "d_claimed_baseline_version sending_row = Some 0"
  "d_attempt sending_row = 2" "d_fence sending_row = 2" "d_target_json sending_row = ''O''"
  "d_target_identity_digest sending_row = zero_digest" "d_policy_version sending_row = 1"
  "d_target_snapshot_digest_algorithm sending_row = ''sha256-v1''" "d_policy_json sending_row = ''[1]''"
  "d_target_snapshot_digest sending_row = zero_digest" "d_lease_expires_at sending_row = Some 160"
  "d_updated_at sending_row = 60" "d_lease_owner sending_row = Some ''v''"
  "d_payload sending_row = Some post_payload"
  by (simp_all add: sending_row_def) (simp_all add: post_row_def)

lemma sends_simps [simp]:
  "da_row_delivery_id first_send = post_id" "da_attempt first_send = 1" "da_fence first_send = 1"
  "da_state first_send = DFailedRetryable"
  "da_row_delivery_id second_send = post_id" "da_attempt second_send = 2" "da_fence second_send = 2"
  "da_state second_send = DSending" "da_lease_owner second_send = ''v''"
  "da_lease_expires_at second_send = 160" "da_idempotency_key second_send = send_key"
  "da_claimed_baseline_version second_send = 0" "da_started_at second_send = 60"
  by (simp_all add: first_send_def second_send_def delivery_attempt_of_def)

lemma sending_claim:
  "(\<exists>c. claim_next_scheduled_delivery post_ext ''v'' 60 160 post_db = (Inr (Some c), sending_db))
    \<and> dl_deliveries sending_db = [sending_row] \<and> dl_attempts sending_db = [first_send, second_send]
    \<and> dl_accepted sending_db = [] \<and> dl_artifacts sending_db = [post_artifact]
    \<and> has_job ''job'' (dl_db sending_db)"
proof -
  obtain db where db: "update_deliveries post_ext True (\<lambda>d. d_delivery_id d = post_id \<and> d_state d = DPending
     \<and> d_updated_at d \<le> 60 \<and> \<not> unchanged post_db d) (claim_delivery_row post_db ''v'' 160 60) post_db =
      Inr (db, 1)" "dl_deliveries db = [sending_row]" "dl_attempts db = [first_send]" "dl_accepted db = []"
    using sending_update by blast
  have kept: "dl_artifacts db = [post_artifact]" "same_jobs created_db (dl_db db)"
    using update_deliveries_InrD(5,6) [OF db(1)] by (simp_all add: post_db_def)
  have row: "claim_delivery_row post_db ''v'' 160 60 post_row = sending_row"
    by (simp add: claim_delivery_row_def sending_row_def delivery_idempotency_key_def)
  obtain p where p: "delivery_payload_from_row post_ext sending_row = Inr p"
    using post_payload_read [of sending_row] by (auto simp: sending_row_def post_row_def)
  have "insert_delivery_attempt second_send db = Inr (db \<lparr>dl_attempts := [first_send, second_send]\<rparr>)"
    using second_check db(2,3)
    by (simp add: insert_delivery_attempt_def sql_insert_def delivery_attempt_unique_def)
  then have rec: "record_delivery_claim post_ext sending_row ''v'' 160 60 db =
      Inr (db \<lparr>dl_attempts := [first_send, second_send]\<rparr>, second_binding, p)"
    using p post_target_read
    by (simp add: record_delivery_claim_def second_send_def [symmetric] binding_of_claim_def
        second_binding_def)
  have "unblocked_pending post_db 60 post_row" "counters_left post_row"
    by (simp_all add: unblocked_pending_def send_blocked_def counters_left_def i64_max_def)
  then have "claim_next_scheduled_delivery post_ext ''v'' 60 160 post_db =
      (Inr (Some \<lparr>cd_binding = second_binding, cd_payload = p, cd_target_json = ''O'',
         cd_scheduler_policy = default_policy\<rparr>), db \<lparr>dl_attempts := [first_send, second_send]\<rparr>)"
    using db(1) rec
    by (simp add: claim_next_scheduled_delivery_def oldest_delivery_def row Let_def
        transact_delivery_def)
  moreover have "has_job ''job'' (dl_db db)"
    using kept(2) by (simp add: same_jobs_def has_job_def created_db_def)
  ultimately show ?thesis using db(2,4) kept(1) by (simp add: sending_db_def)
qed

lemmas sending_rows [simp] =
  sending_claim [THEN conjunct2, THEN conjunct1]
  sending_claim [THEN conjunct2, THEN conjunct2, THEN conjunct1]
  sending_claim [THEN conjunct2, THEN conjunct2, THEN conjunct2, THEN conjunct1]

lemma sending_later: "leads_to cal post_ext (50, post_db) (60, sending_db)"
  unfolding sending_db_def by (rule lt_step [OF lt_refl _ ds_claim]) simp

section \<open>Delivered\<close>

definition delivered_row :: delivery_row where
  "delivered_row = finish_delivery_row (delivered_transition ''r1'') 100 sending_row"

definition delivered_db :: delivery_db where
  "delivered_db = snd (complete_scheduled_delivery_delivered post_ext second_binding ''r1'' 100 sending_db)"

lemma delivered_check: "delivery_check post_ext delivered_row"
proof -
  have "intent_check delivered_row"
    by (rule post_intent_check)
      (simp_all add: delivered_row_def finish_delivery_row_def sending_row_def delivery_snapshot_def)
  then show ?thesis
    by (simp add: post_check_defs delivered_row_def finish_delivery_row_def delivered_transition_def
        sending_row_def post_row_def)
qed

lemma second_binding_valid: "validate_delivery_binding second_binding = Inr ()"
  by (simp add: validate_delivery_binding_def second_binding_def check_all.simps)

lemma delivered_transition_sample:
  "\<exists>db. transition_delivery_terminal post_ext second_binding (delivered_transition ''r1'') 100 sending_db =
     Inr db \<and> dl_deliveries db = [delivered_row] \<and> dl_accepted db = []
     \<and> dl_artifacts db = [post_artifact] \<and> has_job ''job'' (dl_db db)
     \<and> dl_attempts db = [first_send, finish_delivery_attempt (delivered_transition ''r1'') 100 second_send]"
proof -
  let ?t = "delivered_transition ''r1''"
  define w where "w = (\<lambda>d. delivery_matches second_binding d \<and> delivery_lease (\<lambda>e. e > 100) d
    \<and> d_updated_at d \<le> 100)"
  have "w sending_row"
    by (simp add: w_def delivery_matches_def second_binding_def delivery_lease_def)
  moreover have "delivery_triggers post_ext False [] sending_row delivered_row"
    by (simp add: delivery_triggers_def delivered_row_def finish_delivery_row_def delivered_transition_def
        delivery_identity_def state_transition_ok_def)
  ultimately obtain db where upd: "update_deliveries post_ext False w (finish_delivery_row ?t 100) sending_db =
      Inr (db, 1)" "dl_deliveries db = [delivered_row]"
    using update_only_row [of sending_db sending_row w post_ext "finish_delivery_row ?t 100" False]
      delivered_check by (auto simp: delivered_row_def)
  note U = update_deliveries_InrD [OF upd(1)]
  have kept: "dl_attempts db = [first_send, second_send]" "dl_accepted db = []"
      "dl_artifacts db = [post_artifact]" "has_job ''job'' (dl_db db)"
    using U(3-6) sending_claim by (simp_all add: same_jobs_def has_job_def)
  have "delivery_attempt_check (finish_delivery_attempt ?t 100 second_send)"
    using second_check by (simp add: delivery_attempt_check_def finish_delivery_attempt_def
        delivered_transition_def state_outcome_def)
  then have "update_delivery_attempts (\<lambda>a. delivery_attempt_matches second_binding a
      \<and> da_lease_expires_at a > 100 \<and> da_started_at a \<le> 100) (finish_delivery_attempt ?t 100) db =
    Inr (db \<lparr>dl_attempts := [first_send, finish_delivery_attempt ?t 100 second_send]\<rparr>, 1)"
    using kept(1)
    by (simp add: update_delivery_attempts_def sql_update_def Let_def delivery_attempt_matches_def
        second_binding_def delivery_attempt_unique_def finish_delivery_attempt_def)
  then show ?thesis
    using upd kept
    by (simp add: transition_delivery_terminal_def fenced_delivery_update_def w_def)
qed

lemma delivered_tables:
  "complete_scheduled_delivery_delivered post_ext second_binding ''r1'' 100 sending_db =
     (Inr (), delivered_db)
    \<and> dl_deliveries delivered_db = [delivered_row] \<and> length (dl_attempts delivered_db) = 2
    \<and> length (dl_accepted delivered_db) = 1"
proof -
  let ?a = "finish_delivery_attempt (delivered_transition ''r1'') 100 second_send"
  obtain db where db: "transition_delivery_terminal post_ext second_binding (delivered_transition ''r1'')
        100 sending_db = Inr db" "dl_deliveries db = [delivered_row]" "dl_accepted db = []"
      "dl_artifacts db = [post_artifact]" "has_job ''job'' (dl_db db)"
      "dl_attempts db = [first_send, ?a]"
    using delivered_transition_sample by blast
  have row: "d_delivery_id delivered_row = post_id" "d_state delivered_row = DDelivered"
      "d_payload delivered_row = Some post_payload" "d_claimed_baseline_version delivered_row = Some 0"
      "d_attempt delivered_row = 2" "d_fence delivered_row = 2" "d_job_id delivered_row = ''job''"
      "artifact_of db delivered_row = Some post_artifact"
    by (simp_all add: delivered_row_def finish_delivery_row_def delivered_transition_def artifact_of_def
        db(4) post_artifact_def sending_row_def) (simp_all add: post_row_def)
  have find: "find_delivery post_id db = Some delivered_row"
    by (simp add: find_delivery_def db(2) row)
  have "expected_baseline post_ext post_id db = Some 0"
    by (simp add: expected_baseline_def find row db(6))
      (simp add: finish_delivery_attempt_def delivered_transition_def)
  moreover have "\<exists>db'. upsert_accepted 0 100 delivered_row post_payload post_artifact db = Inr (db', 1)
      \<and> dl_deliveries db' = [delivered_row] \<and> dl_attempts db' = [first_send, ?a]
      \<and> length (dl_accepted db') = 1"
    using db(2,3,5,6) row
    by (simp add: upsert_accepted_def Let_def accepted_check_def baseline_key_at_def accepted_from_def
        post_payload_def post_artifact_def)
      (simp add: delivered_row_def finish_delivery_row_def sending_row_def post_row_def i64_max_def)
  ultimately show ?thesis
    using db(1) find row second_binding_valid
    by (auto simp: delivered_db_def complete_scheduled_delivery_delivered_def transact_delivery_def
        advance_accepted_delivery_baseline_in_transaction_def second_binding_def)
qed

lemmas delivered_sample = delivered_tables [THEN conjunct1]

lemma delivered_later: "leads_to cal post_ext (50, post_db) (100, delivered_db)"
  unfolding delivered_db_def by (rule lt_step [OF sending_later _ ds_delivered]) simp

section \<open>Claimed exactly\<close>

definition post_authority :: delivery_authority where
  "post_authority = \<lparr>da_delivery_id = post_id, da_source_state = DPending, da_target_json = ''O'',
     da_target_digest = zero_digest, da_payload_digest = zero_digest, da_binding_digest = zero_digest,
     da_intent_key = post_key, da_payload_created_at = 40, da_scheduler_policy = default_policy\<rparr>"

definition sample_clock :: delivery_clock where
  "sample_clock = \<lparr>clock_observed = 60, clock_claim = 60, clock_finish = 61\<rparr>"

definition exact_row :: delivery_row where
  "exact_row = sending_row \<lparr>d_lease_expires_at := Some 120\<rparr>"

definition exact_send :: delivery_attempt_row where
  "exact_send = delivery_attempt_of exact_row ''v'' 120 60 send_key 0"

lemma count_nothing [simp]: "count_db (\<lambda>t. t) db = db" "count_db id db = db"
  by (simp_all add: count_db_def count_runs_def)

lemma fold_unselected: "\<forall>d \<in> set ds. \<not> w d \<Longrightarrow> fold (\<lambda>d t. if w d then g d t else t) ds = id"
  by (induction ds) auto

lemma update_no_row:
  assumes "table_ok (delivery_check x) delivery_unique (dl_deliveries db)"
    and none: "\<forall>d \<in> set (dl_deliveries db). \<not> w d"
  shows "update_deliveries x c w f db = Inr (db, 0)"
  using update_none [OF assms, of f] none
  by (auto simp: update_deliveries_def list_ex_iff spends_unselected Let_def
      fold_unselected [OF none, of "\<lambda>d. delivery_metrics d (f d)"])

lemma exact_check: "delivery_check post_ext exact_row" "delivery_attempt_check exact_send"
proof -
  have "intent_check exact_row"
    by (rule post_intent_check) (simp_all add: exact_row_def sending_row_def delivery_snapshot_def)
  then show "delivery_check post_ext exact_row"
    by (simp add: post_check_defs exact_row_def sending_row_def post_row_def)
  show "delivery_attempt_check exact_send"
    by (simp add: delivery_attempt_check_def exact_send_def delivery_attempt_of_def exact_row_def
        state_outcome_def)
qed

lemma exact_authority:
  "validate_scheduled_delivery_authority post_ext post_authority = Inr ()"
  "authority_matches post_authority post_row" "exact_claimable post_ext post_authority 60 post_db post_row"
  using default_policies_valid(1)
  by (simp_all add: validate_scheduled_delivery_authority_def post_authority_def check_all.simps is_ok_def
      authority_matches_def exact_claimable_def attempts_left_def delivery_policy_int_def counters_left_def
      before_deadline_def send_blocked_def payload_digest_of_def i64_max_def)
    (simp_all add: post_row_def post_payload_def)

lemma exact_claim_sample:
  "\<exists>c db. claim_scheduled_delivery_from_snapshot_with_clock post_ext post_authority ''v'' 60 sample_clock
     post_db = (Inr (Some c), db)"
proof -
  have tab: "table_ok (delivery_check post_ext) delivery_unique (dl_deliveries post_db)"
    using post_inv delivery_invD(1) [of post_ext post_db] unfolding system_inv_def by blast
  have none: "terminalize_exact_delivery_if_exhausted post_ext post_authority DPending 60 post_db =
      Inr (post_db, False)"
    unfolding terminalize_exact_delivery_if_exhausted_def
    by (subst update_no_row [OF tab])
      (simp_all add: attempts_exhausted_def delivery_policy_int_def past_deadline_def i64_max_def
        post_payload_def)
  have row: "exact_claim_row post_db ''v'' 120 60 post_row = exact_row"
    by (simp add: exact_claim_row_def claim_delivery_row_def exact_row_def sending_row_def
        delivery_idempotency_key_def) (simp add: post_row_def)
  have "delivery_triggers post_ext True [] post_row exact_row"
    by (simp add: delivery_triggers_def exact_row_def sending_row_def delivery_identity_def
        state_transition_ok_def claimed_baseline_ok_def) (simp add: post_row_def)
  then obtain db where upd: "update_deliveries post_ext True
      (exact_claimable post_ext post_authority 60 post_db) (exact_claim_row post_db ''v'' 120 60) post_db =
      Inr (db, 1)" "dl_deliveries db = [exact_row]"
    using update_only_row [of post_db post_row "exact_claimable post_ext post_authority 60 post_db" post_ext
        "exact_claim_row post_db ''v'' 120 60" True] exact_check(1) exact_authority(3) row by auto
  have cols: "d_idempotency_key exact_row = Some send_key" "d_claimed_baseline_version exact_row = Some 0"
      "d_delivery_id exact_row = post_id" "d_target_json exact_row = ''O''"
      "d_target_identity_digest exact_row = zero_digest" "d_target_snapshot_digest exact_row = zero_digest"
      "d_target_snapshot_digest_algorithm exact_row = ''sha256-v1''" "d_policy_version exact_row = 1"
      "d_policy_json exact_row = ''[1]''" "d_attempt exact_row = 2" "d_fence exact_row = 2"
    by (simp_all add: exact_row_def)
  obtain p where p: "delivery_payload_from_row post_ext exact_row = Inr p" "ps_created_at p = 40"
    using post_payload_read [of exact_row]
    by (auto simp: exact_row_def sending_row_def) (auto simp: post_row_def)
  have "insert_delivery_attempt exact_send db = Inr (db \<lparr>dl_attempts := [first_send, exact_send]\<rparr>)"
    using exact_check(2) upd(2) update_deliveries_InrD(3) [OF upd(1)] cols
    by (simp add: insert_delivery_attempt_def sql_insert_def delivery_attempt_unique_def exact_send_def
        delivery_attempt_of_def)
  then have "\<exists>b d. record_delivery_claim post_ext exact_row ''v'' 120 60 db = Inr (d, b, p)"
    using p(1) post_target_read cols
    by (simp add: record_delivery_claim_def exact_send_def [symmetric])
  then obtain b d where rec: "record_delivery_claim post_ext exact_row ''v'' 120 60 db = Inr (d, b, p)"
    by blast
  have "\<not> deadline_reached default_policy 40 61"
    by (simp add: deadline_reached_def delivery_deadline_at_def checked_add_def in_i64_def i64_max_def
        i64_min_def default_policy_def)
  moreover have "da_source_state post_authority = DPending"
      "uint (delivery_lease_seconds (da_scheduler_policy post_authority)) = 60"
    by (simp_all add: post_authority_def default_policy_def)
  ultimately have "\<exists>v. claim_exact_body post_ext post_authority ''v'' 60 sample_clock post_db =
      Inr (ClaimCommit d (Inr (Some v)))"
    using none exact_authority(3) upd(1) row rec p(2) cols
    by (simp add: claim_exact_body_def Let_def sample_clock_def checked_add_def in_i64_def i64_max_def
        i64_min_def finish_exact_claim_def)
  then show ?thesis
    using exact_authority(1)
    by (auto simp: claim_scheduled_delivery_from_snapshot_with_clock_def
        claim_scheduled_delivery_inner_def)
qed

section \<open>Completed\<close>

definition done_run :: run_row where
  "done_run = executing_run_row \<lparr>r_targets_json := ''A'', r_execution_baseline_json := Some ''B''\<rparr>"

definition done_result :: run_result where
  "done_result = \<lparr>result_summary = ''s'', result_previous_success_context = ''c''\<rparr>"

definition done_db :: delivery_db where
  "done_db = \<lparr>dl_db = created_db \<lparr>db_runs := empty_store \<lparr>st_runs := [done_run],
       st_attempts := [executing_attempt]\<rparr>\<rparr>,
     dl_artifacts = [], dl_deliveries = [], dl_attempts = [], dl_accepted = [], dl_actions = [], dl_consumptions = []\<rparr>"

definition done_artifact :: artifact_row where
  "done_artifact = new_artifact post_ext first_binding done_result 30"

definition done_intent :: delivery_row where
  "done_intent = new_intent first_binding (result_artifact_id post_ext first_binding) 1 ''[1]'' 30
     \<lparr>dit_identity_digest = zero_digest, dit_canonical_json = ''O'', dit_snapshot_digest = zero_digest\<rparr>
     post_key"

lemma done_simps [simp]:
  "dl_db done_db = created_db \<lparr>db_runs := empty_store \<lparr>st_runs := [done_run],
     st_attempts := [executing_attempt]\<rparr>\<rparr>"
  "dl_artifacts done_db = []" "dl_deliveries done_db = []"
  "result_summary done_result = ''s''" "result_previous_success_context done_result = ''c''"
  by (simp_all add: done_db_def done_result_def)

lemma done_pair:
  "executing_pair first_binding 30 (db_runs (dl_db done_db)) = Some (done_run, executing_attempt)"
  by (simp add: executing_pair_def done_run_def executing_run_row_def executing_attempt_def row_defs
      joined_def empty_store_def)

lemma digest_texts [simp]:
  "validate_text f zero_digest = Inr ()" "validate_text f ''sha256-v1'' = Inr ()"
  "validate_text f ''channel'' = Inr ()" "validate_text f ''h'' = Inr ()" "validate_text f ''e'' = Inr ()"
proof -
  show "validate_text f zero_digest = Inr ()"
    by (rule validate_graphic)
      (simp_all add: hex_graphic MAX_CONTEXT_BYTES_def, simp add: zero_digest_def)
  show "validate_text f ''sha256-v1'' = Inr ()" "validate_text f ''channel'' = Inr ()"
      "validate_text f ''h'' = Inr ()" "validate_text f ''e'' = Inr ()"
    by (rule validate_graphic; simp add: is_graphic_def byte_val_def MAX_CONTEXT_BYTES_def)+
qed

lemma done_targets:
  "delivery_intent_targets post_ext ''A'' = Inr [\<lparr>dit_identity_digest = zero_digest,
     dit_canonical_json = ''O'', dit_snapshot_digest = zero_digest\<rparr>]"
proof -
  obtain m where m: "post_target = JObj m" "map_of m ''provider'' = Some (JStr ''w'')"
      "map_of m ''connector'' = Some (JStr ''c'')" "map_of m ''tenant'' = Some (JStr ''t'')"
      "map_of m ''kind'' = Some (JStr ''channel'')" "map_of m ''resolver_digest'' = Some (JStr ''c'')"
      "map_of m ''identity_digest'' = Some (JStr zero_digest)"
      "map_of m ''resolver_version'' = Some (JInt 1)" "map_of m ''address'' = Some post_address"
    by (simp add: post_target_def)
  have "intent_target post_ext [] post_target = Inr \<lparr>dit_identity_digest = zero_digest,
      dit_canonical_json = json_print post_ext post_target,
      dit_snapshot_digest = sha256_hex post_ext (json_print post_ext post_target)\<rparr>"
    unfolding intent_target_def required_target_fields_def m(1)
    by (simp add: check_all.simps m(2-9) u32_max_def)
  then show ?thesis
    by (simp add: delivery_intent_targets_def MAX_DELIVERY_TARGETS_def)
qed

lemma done_plan:
  "completion_plan post_ext done_result 30 done_run executing_attempt =
     Inr ([\<lparr>dit_identity_digest = zero_digest, dit_canonical_json = ''O'',
       dit_snapshot_digest = zero_digest\<rparr>], 0)"
proof -
  have "json_print post_ext (json_obj [(''schema_version'', JInt 1), (''summary'', JStr ''s'')]) = ''R''"
    by (simp add: post_ext_def json_obj_def post_target_def post_baseline_def
        lost_evidence_def lost_reason_def lost_evidence_fields_def lost_reason_fields_def)
  then have "result_json_of post_ext done_result = ''R''" by (simp add: result_json_of_def)
  moreover have "execution_baseline_version post_ext ''B'' = Inr 0"
    by (simp add: execution_baseline_version_def) (simp add: post_baseline_def)
  moreover have "r_targets_json done_run = ''A''" "r_execution_baseline_json done_run = Some ''B''"
      "r_policy_version done_run = 1" "r_policy_json done_run = ''[1]''"
      "a_executing_at executing_attempt = Some 20" "a_claimed_at executing_attempt = 10"
    by (simp_all add: done_run_def executing_run_row_def executing_attempt_def leased_run_row_def
        sample_run_def lease_attempt_def)
  moreover have "unat (max_summary_bytes default_policy) = 32768" "unat (max_result_bytes default_policy) = 65536"
    by (simp_all add: default_policy_def)
  ultimately show ?thesis using done_targets by (simp add: completion_plan_def)
qed

lemma done_artifact_simps [simp]:
  "ar_artifact_id done_artifact = result_artifact_id post_ext first_binding"
  "ar_run_id done_artifact = ''run''" "ar_job_id done_artifact = ''job''"
  "ar_accepted_attempt done_artifact = 1" "ar_accepted_fence done_artifact = 1"
  "ar_result_hash done_artifact = zero_digest" "ar_previous_success_context done_artifact = ''c''"
  by (simp_all add: done_artifact_def new_artifact_def)

lemma done_id_length: "sql_length (result_artifact_id post_ext first_binding) > 0"
proof -
  have "sql_length (''result:'' @ zero_digest) > 0" by code_simp
  then show ?thesis by (simp add: result_artifact_id_def)
qed

lemmas done_run_defs = done_run_def executing_run_row_def leased_run_row_def sample_run_def

lemma done_insert_artifact:
  "insert_artifact post_ext done_artifact done_db = Inr (done_db \<lparr>dl_artifacts := [done_artifact]\<rparr>)"
proof -
  have "artifact_accepted done_artifact (db_runs (dl_db done_db))"
    by (simp add: artifact_accepted_def empty_store_def done_run_defs executing_attempt_def
        lease_attempt_def)
  then show ?thesis
    using done_id_length
    by (simp add: insert_artifact_def sql_insert_def artifact_check_def artifact_unique_def)
qed

lemma done_swap:
  "\<exists>s. compare_and_swap_execution_baseline_in_transaction
     (completion_cas post_ext first_binding done_result 30 0) (dl_db done_db) = Inr (s, True)"
  by (simp add: compare_and_swap_execution_baseline_in_transaction_def completion_cas_def check_all.simps
      done_artifact_def [symmetric] MAX_CONTEXT_BYTES_def created_db_def sql_update_def Let_def
      empty_baseline_def baseline_check_def baseline_unique_def i64_max_def done_run_defs empty_store_def
      empty_db_def)

lemma done_insert_intent:
  assumes "st_runs (db_runs s) = [done_run]"
  shows "\<exists>db. insert_intents post_ext first_binding (result_artifact_id post_ext first_binding) 1 ''[1]'' 30
     [\<lparr>dit_identity_digest = zero_digest, dit_canonical_json = ''O'',
       dit_snapshot_digest = zero_digest\<rparr>] (done_db \<lparr>dl_artifacts := [done_artifact], dl_db := s\<rparr>) = Inr db
     \<and> dl_artifacts db = [done_artifact] \<and> dl_db db = s"
proof -
  let ?db = "done_db \<lparr>dl_artifacts := [done_artifact], dl_db := s\<rparr>"
  have key: "delivery_intent_key ''run'' zero_digest = Inr post_key"
    by (simp add: delivery_intent_key_def MAX_DELIVERY_INTENT_RUN_ID_BYTES_def) (simp add: post_key_def)
  have "value_get post_target ''identity_digest'' = Some (JStr zero_digest)" by (simp add: post_target_def)
  then have "intent_accepted post_ext done_intent ?db"
    using assms by (simp add: intent_accepted_def done_intent_def new_intent_def done_run_defs)
  moreover have "delivery_check post_ext done_intent"
  proof -
    have "intent_check done_intent"
      using done_id_length by (simp add: intent_check_def done_intent_def new_intent_def
          DELIVERY_POLICY_VERSION_V1_def) (simp add: post_key_def)
    then show ?thesis
      by (simp add: post_check_defs done_intent_def new_intent_def)
  qed
  moreover have "delivery_unique [done_intent]" by (simp add: delivery_unique_def)
  ultimately have "insert_intent post_ext done_intent ?db = Inr (?db \<lparr>dl_deliveries := [done_intent]\<rparr>)"
    by (simp add: insert_intent_def sql_insert_def) (simp add: done_intent_def new_intent_def)
  then show ?thesis
    using key post_target_read
    by (simp add: Let_def done_intent_def [symmetric]) (simp add: done_intent_def new_intent_def)
qed

lemma done_complete_rows:
  assumes "same_tables (db_runs (dl_db done_db)) s"
  shows "\<exists>s'. complete_run_rows post_ext first_binding [done_artifact]
     (result_artifact_id post_ext first_binding) ''c'' zero_digest 30 s = Inr s'"
proof -
  have rows: "st_runs s = [done_run]" "st_attempts s = [executing_attempt]"
    using same_tablesD(1,2) [OF assms] by simp_all
  show ?thesis
    using rows done_id_length
    by (simp add: complete_run_rows_def store_defs attempt_matches_def run_matches_def run_lease_after_def
        done_run_defs executing_attempt_def lease_attempt_def succeed_attempt_def succeed_run_def
        succeed_runs_def success_authority_def one_completed_def completion_result_def)
qed

lemma done_sample:
  "\<exists>db. complete_scheduled_run_success post_ext first_binding done_result 30 done_db =
     (Inr CompletionCommitted, db)"
proof -
  obtain s where s: "compare_and_swap_execution_baseline_in_transaction
      (completion_cas post_ext first_binding done_result 30 0) (dl_db done_db) = Inr (s, True)"
    using done_swap by blast
  have same: "same_tables (db_runs (dl_db done_db)) (db_runs s)"
    using swap_baselineD [OF s] by (simp add: same_jobs_def)
  have runs: "st_runs (db_runs s) = [done_run]" using same_tablesD(1) [OF same] by simp
  obtain db where db: "insert_intents post_ext first_binding (result_artifact_id post_ext first_binding) 1
      ''[1]'' 30 [\<lparr>dit_identity_digest = zero_digest, dit_canonical_json = ''O'',
       dit_snapshot_digest = zero_digest\<rparr>] (done_db \<lparr>dl_artifacts := [done_artifact], dl_db := s\<rparr>) = Inr db"
      "dl_artifacts db = [done_artifact]" "dl_db db = s"
    using done_insert_intent [OF runs] by blast
  obtain s' where rows: "complete_run_rows post_ext first_binding [done_artifact]
      (result_artifact_id post_ext first_binding) ''c'' zero_digest 30 (db_runs s) = Inr s'"
    using done_complete_rows [OF same] by blast
  have "r_policy_version done_run = 1" "r_policy_json done_run = ''[1]''"
    by (simp_all add: done_run_defs)
  then have "\<exists>db'. completion_writes post_ext first_binding done_result 30 done_run
      [\<lparr>dit_identity_digest = zero_digest, dit_canonical_json = ''O'',
        dit_snapshot_digest = zero_digest\<rparr>] 0 done_db = Inr db'"
    using done_insert_artifact s db rows
    by (simp add: completion_writes_def Let_def completion_result_def done_artifact_def [symmetric]
        completion_cas_def del: insert_intents.simps)
  then show ?thesis
    using sample_binding_valid done_pair done_plan
    by (auto simp: complete_scheduled_run_success_def Let_def MAX_CONTEXT_BYTES_def)
qed

section \<open>A history from the empty store\<close>

definition created_system :: delivery_db where
  "created_system = \<lparr>dl_db = created_db, dl_artifacts = [], dl_deliveries = [], dl_attempts = [],
     dl_accepted = [], dl_actions = [], dl_consumptions = []\<rparr>"

definition empty_system :: delivery_db where
  "empty_system = created_system \<lparr>dl_db := empty_db\<rparr>"

lemma created_later: "leads_to cal job_ext (10, empty_system) (10, created_system)"
proof -
  have "job_step cal job_ext 10 empty_db created_db"
    using js_mutation [of "MCreate job_request" 10 cal job_ext empty_db default_policy "job_idem ''r1''"
        None empty_db] sample_create [of cal empty_db] by simp
  then have "delivery_step cal job_ext 10 empty_system created_system"
    using ds_job [of cal job_ext 10 empty_system created_db]
    by (simp add: created_system_def empty_system_def)
  then show ?thesis using lt_step [OF lt_refl [of _ _ "(10, empty_system)"]] by blast
qed

lemma empty_system_initial: "initial_system empty_system"
  by (simp add: initial_system_def empty_system_def created_system_def initial_db_def empty_db_def
      initial_store_def empty_store_def)

lemma created_runs: "reachable x (db_runs created_db)"
  unfolding reachable_def
  by (rule exI [of _ "db_runs created_db"]) (simp add: created_db_def empty_db_def initial_store_def empty_store_def)

end
