(* ===== verification/Delivery_Recovery.thy ===== *)
theory Delivery_Recovery
  imports Delivery_Sample
begin

text \<open>
  Reclaiming expired sends: every send whose lease ran out becomes a delivery of unknown outcome, oldest
  lease first, and the operation cannot fail on a database that satisfies the invariant.
\<close>

definition expired_send :: "i64 \<Rightarrow> delivery_row \<Rightarrow> bool" where
  "expired_send now d \<longleftrightarrow> d_state d = DSending \<and> delivery_lease (\<lambda>t. t \<le> now) d \<and> d_updated_at d \<le> now"

definition expired_sends :: "i64 \<Rightarrow> delivery_db \<Rightarrow> nat" where
  "expired_sends now db = length (filter (expired_send now) (dl_deliveries db))"

text \<open>What becomes of an expired send and of the attempt that carries it: nobody knows what the provider
  wrote, so both are ambiguous, and the lease is gone. The attempt number, fence and key stay.\<close>

definition lost_send :: "i64 \<Rightarrow> delivery_row \<Rightarrow> delivery_row \<Rightarrow> bool" where
  "lost_send now d d' \<longleftrightarrow> expired_send now d
     \<and> (\<exists>message. d' = d \<lparr>d_state := DDeliveryUnknown, d_lease_owner := None, d_lease_expires_at := None,
          d_provider_outcome := Some ''ambiguous_post_write'',
          d_error_kind := Some ''delivery_lease_expired'', d_error_message := Some message,
          d_updated_at := now\<rparr>)"

definition lost_attempt :: "i64 \<Rightarrow> delivery_attempt_row \<Rightarrow> delivery_attempt_row \<Rightarrow> bool" where
  "lost_attempt now a a' \<longleftrightarrow> da_state a = DSending \<and> da_lease_expires_at a \<le> now
     \<and> (\<exists>message. a' = a \<lparr>da_state := DDeliveryUnknown,
          da_provider_outcome := Some ''ambiguous_post_write'',
          da_error_kind := Some ''delivery_lease_expired'', da_error_message := Some message,
          da_completed_at := Some now\<rparr>)"

text \<open>Exactly \<open>n\<close> rows of a table change, each as \<open>R\<close> says; the others stay as they are.\<close>

inductive rows_change :: "('r \<Rightarrow> 'r \<Rightarrow> bool) \<Rightarrow> 'r list \<Rightarrow> 'r list \<Rightarrow> nat \<Rightarrow> bool"
  for R where
  rc_nil: "rows_change R [] [] 0"
| rc_same: "rows_change R rs rs' n \<Longrightarrow> rows_change R (r # rs) (r # rs') n"
| rc_change: "R r r' \<Longrightarrow> rows_change R rs rs' n \<Longrightarrow> rows_change R (r # rs) (r' # rs') (Suc n)"

inductive_simps rows_change_Cons: "rows_change R (r # rs) rs' n"

inductive_simps rows_change_Nil: "rows_change R [] rs' n"

lemma rows_change_refl: "rows_change R rs rs 0"
  by (induction rs) (auto intro: rows_change.intros)

lemma rows_change_one:
  assumes "distinct rs" and "r \<in> set rs" and "R r (f r)"
  shows "rows_change R rs (map (\<lambda>s. if s = r then f s else s) rs) 1"
  using assms
proof (induction rs)
  case (Cons s rs)
  show ?case
  proof (cases "s = r")
    case True
    then have "map (\<lambda>s. if s = r then f s else s) rs = rs" using Cons.prems(1) by (intro map_idI) auto
    then show ?thesis using True Cons.prems(3) rc_change [OF _ rows_change_refl, of R r "f r" rs] by simp
  next
    case False
    then show ?thesis using Cons by (auto intro: rows_change.intros)
  qed
qed simp

lemma rows_change_trans:
  assumes "rows_change R rs rs' m" and "rows_change R rs' rs'' n" and once: "\<And>r r' r''. R r r' \<Longrightarrow> \<not> R r' r''"
  shows "rows_change R rs rs'' (m + n)"
  using assms(1,2)
proof (induction arbitrary: rs'' n rule: rows_change.induct)
  case rc_nil
  then show ?case by (simp add: rows_change_Nil)
next
  case (rc_same rs rs' m r)
  consider (same) tl where "rs'' = r # tl" "rows_change R rs' tl n"
    | (changed) s tl k where "rs'' = s # tl" "n = Suc k" "R r s" "rows_change R rs' tl k"
    using rc_same.prems by (auto simp: rows_change_Cons)
  then show ?case
  proof cases
    case same
    then show ?thesis using rows_change.rc_same [OF rc_same.IH] by simp
  next
    case changed
    then show ?thesis using rows_change.rc_change [OF _ rc_same.IH] by simp
  qed
next
  case (rc_change r r' rs rs' m)
  then obtain tl where "rs'' = r' # tl" "rows_change R rs' tl n"
    using once by (auto simp: rows_change_Cons)
  then show ?case using rows_change.rc_change [OF rc_change.hyps(1) rc_change.IH] by simp
qed

section \<open>The statements succeed\<close>

lemma delivery_unique_update:
  assumes "delivery_unique rows"
    and keys: "\<And>d. delivery_snapshot (f d) = delivery_snapshot d" "\<And>d. d_payload (f d) = d_payload d"
    and states: "\<And>d. d_state (f d) = DSending \<Longrightarrow> d_state d = DSending"
  shows "delivery_unique (map f rows)"
proof -
  let ?sent = "\<lambda>d. d_state d = DSending \<and> active_key d \<noteq> None"
  have same: "d_delivery_id (f d) = d_delivery_id d" "d_run_id (f d) = d_run_id d"
    "d_target_identity_digest (f d) = d_target_identity_digest d" "d_intent_key (f d) = d_intent_key d"
    "d_delivery_policy_version (f d) = d_delivery_policy_version d" "active_key (f d) = active_key d" for d
    using delivery_snapshot_keys [OF keys(1) [of d]] keys(2) [of d]
      arg_cong [OF keys(1) [of d], of d_intent_key]
    by (simp_all add: active_key_def delivery_snapshot_def)
  have "map active_key (filter ?sent (map f rows)) = map active_key (filter (\<lambda>d. ?sent (f d)) rows)"
    by (simp add: filter_map comp_def same)
  moreover have "distinct \<dots>"
    by (rule distinct_map_filter_weaken [where P = ?sent])
      (use assms(1) states same in \<open>auto simp: delivery_unique_def\<close>)
  ultimately show ?thesis using assms(1) by (simp add: delivery_unique_def comp_def same)
qed

lemma update_deliveries_one:
  assumes inv: "delivery_inv x db" and d: "d \<in> set (dl_deliveries db)" "w d"
    and id: "\<And>e. w e \<Longrightarrow> d_delivery_id e = d_delivery_id d"
    and check: "delivery_check x (f d)" and triggers: "delivery_triggers x c (dl_accepted db) d (f d)"
    and keys: "\<And>d. delivery_snapshot (f d) = delivery_snapshot d" "\<And>d. d_payload (f d) = d_payload d"
    and states: "\<And>d. d_state (f d) = DSending \<Longrightarrow> d_state d = DSending"
    and idle: "d_state d \<notin> {DFailedRetryable, DDeliveryUnknown}"
  shows "\<exists>db'. update_deliveries x c w f db = Inr (db', 1)"
proof -
  note tab = delivery_invD(1) [OF inv]
  have only: "e = d" if "e \<in> set (dl_deliveries db)" "w e" for e
    using delivery_key [OF inv that(1) d(1)] id [OF that(2)] by simp
  have "delivery_unique (map (\<lambda>e. if w e then f e else e) (dl_deliveries db))"
    by (rule delivery_unique_update)
      (use tab keys states in \<open>auto simp: table_ok_def split: if_splits\<close>)
  moreover have "filter w (dl_deliveries db) = [d]"
    using deliveries.filter_key [OF tab d(1), of w] d(2) id by blast
  moreover have "\<not> list_ex (\<lambda>e. w e \<and> \<not> delivery_check x (f e)) (dl_deliveries db)"
    "\<not> list_ex (\<lambda>e. w e \<and> \<not> delivery_triggers x c (dl_accepted db) e (f e)) (dl_deliveries db)"
    "\<not> list_ex (\<lambda>e. w e \<and> \<not> operator_trigger_ok x db e (f e)) (dl_deliveries db)"
    using only check triggers idle_authority(2) [OF idle] by (auto simp: list_ex_iff)
  moreover have "spends x w f db = []" by (rule spends_idle) (use only idle in blast)
  ultimately show ?thesis by (simp add: update_deliveries_def sql_update_def Let_def)
qed

lemma update_delivery_attempts_one:
  assumes inv: "delivery_inv x db" and a: "a \<in> set (dl_attempts db)" "w a"
    and id: "\<And>e. w e \<Longrightarrow> (da_row_delivery_id e, da_attempt e) = (da_row_delivery_id a, da_attempt a)"
    and check: "delivery_attempt_check (f a)"
    and keys: "\<And>e. da_row_delivery_id (f e) = da_row_delivery_id e \<and> da_attempt (f e) = da_attempt e
      \<and> da_fence (f e) = da_fence e"
    and same: "dl_attempts db1 = dl_attempts db"
  shows "\<exists>db'. update_delivery_attempts w f db1 = Inr (db', 1)"
proof -
  note tab = delivery_invD(2) [OF inv]
  have only: "e = a" if "e \<in> set (dl_attempts db)" "w e" for e
    using delivery_attempts.key_inj [OF tab that(1) a(1)] id [OF that(2)] by simp
  have "delivery_attempt_unique (map (\<lambda>e. if w e then f e else e) (dl_attempts db))"
    using tab keys by (simp add: table_ok_def delivery_attempt_unique_def comp_def if_distrib
        [of da_row_delivery_id] if_distrib [of da_attempt] if_distrib [of da_fence] cong: if_cong)
  moreover have "filter w (dl_attempts db) = [a]"
    using delivery_attempts.filter_key [OF tab a(1), of w] a(2) id by blast
  moreover have "\<not> list_ex (\<lambda>e. w e \<and> \<not> delivery_attempt_check (f e)) (dl_attempts db)"
    using only check by (auto simp: list_ex_iff)
  ultimately show ?thesis by (simp add: update_delivery_attempts_def sql_update_def Let_def same)
qed

lemma unknown_row_ok:
  assumes "delivery_check x d" and "d_state d = DSending" and "d_updated_at d \<le> now"
  shows "delivery_check x (unknown_row now d)" and "delivery_triggers x False acc d (unknown_row now d)"
proof -
  have "sql_length ''delivery_lease_expired'' > 0" by code_simp
  then show "delivery_check x (unknown_row now d)"
    using assms by (auto simp: delivery_check_def unknown_row_def intent_check_def claimed_states_def
        error_states_def state_outcome_def split: option.splits)
  show "delivery_triggers x False acc d (unknown_row now d)"
    using assms(2) by (simp add: delivery_triggers_def unknown_row_def delivery_identity_def
        state_transition_ok_def)
qed

lemma reclaim_one:
  assumes inv: "delivery_inv x db" and d: "d \<in> set (dl_deliveries db)" "expired_send now d"
  obtains owner key expires db' where "d_lease_owner d = Some owner" "d_idempotency_key d = Some key"
    "d_lease_expires_at d = Some expires"
    "fenced_delivery_update x (expired_delivery (row_delivery_binding d owner key) expires now)
       (unknown_row now) (expired_delivery_attempt (row_delivery_binding d owner key) expires now)
       (unknown_attempt now) db = Inr db'"
    "rows_change (lost_send now) (dl_deliveries db) (dl_deliveries db') 1"
    "rows_change (lost_attempt now) (dl_attempts db) (dl_attempts db') 1"
proof -
  have check: "delivery_check x d"
    using delivery_invD(1) [OF inv] d(1) by (auto simp: table_ok_def list_all_iff)
  have live: "d_state d = DSending" "d_updated_at d \<le> now" using d(2) by (simp_all add: expired_send_def)
  obtain a where a: "a \<in> set (dl_attempts db)" "carries d a"
    using delivery_invD(4) [OF inv] d(1) live(1) by (auto simp: sends_coherent_def)
  let ?b = "row_delivery_binding d (da_lease_owner a) (da_idempotency_key a)"
  let ?t = "da_lease_expires_at a"
  have cols: "d_lease_owner d = Some (da_lease_owner a)" "d_idempotency_key d = Some (da_idempotency_key a)"
      "d_lease_expires_at d = Some ?t" "?t \<le> now"
    using a(2) d(2) by (auto simp: carries_def expired_send_def delivery_lease_def)
  have acheck: "delivery_attempt_check a"
    using delivery_invD(2) [OF inv] a(1) by (auto simp: table_ok_def list_all_iff)
  then have started: "da_started_at a \<le> now"
    using cols(4) by (simp add: delivery_attempt_check_def)
  have wd: "expired_delivery ?b ?t now d"
    using cols live by (simp add: expired_delivery_def delivery_matches_def row_delivery_binding_def)
  have wa: "expired_delivery_attempt ?b ?t now a"
    using a(2) cols(4) started
    by (simp add: expired_delivery_attempt_def delivery_attempt_matches_def carries_def
        row_delivery_binding_def)
  have only: "e = d" if "e \<in> set (dl_deliveries db)" "expired_delivery ?b ?t now e" for e
    using delivery_key [OF inv that(1) d(1)] that(2)
    by (simp add: expired_delivery_def delivery_matches_def row_delivery_binding_def)
  have "\<exists>db1. update_deliveries x False (expired_delivery ?b ?t now) (unknown_row now) db = Inr (db1, 1)"
  proof (rule update_deliveries_one [OF inv d(1)])
    show "expired_delivery ?b ?t now d" by (rule wd)
    show "delivery_check x (unknown_row now d)"
      "delivery_triggers x False (dl_accepted db) d (unknown_row now d)"
      by (rule unknown_row_ok [OF check live])+
    show "d_state d \<notin> {DFailedRetryable, DDeliveryUnknown}" using live(1) by simp
  qed (simp_all add: expired_delivery_def delivery_matches_def row_delivery_binding_def unknown_row_def
      delivery_snapshot_def)
  then obtain db1 where db1: "update_deliveries x False (expired_delivery ?b ?t now) (unknown_row now) db =
      Inr (db1, 1)" ..
  note U = update_deliveries_InrD [OF db1]
  have "\<exists>db2. update_delivery_attempts (expired_delivery_attempt ?b ?t now) (unknown_attempt now) db1 =
      Inr (db2, 1)"
  proof (rule update_delivery_attempts_one [OF inv a(1)])
    show "expired_delivery_attempt ?b ?t now a" by (rule wa)
    show "delivery_attempt_check (unknown_attempt now a)"
      using acheck a(2) started
      by (auto simp: delivery_attempt_check_def unknown_attempt_def carries_def state_outcome_def)
  qed (use a(2) in \<open>simp_all add: expired_delivery_attempt_def delivery_attempt_matches_def
      row_delivery_binding_def unknown_attempt_def carries_def U(3)\<close>)
  then obtain db2 where db2: "update_delivery_attempts (expired_delivery_attempt ?b ?t now)
      (unknown_attempt now) db1 = Inr (db2, 1)" ..
  have "dl_deliveries db2 = map (\<lambda>e. if e = d then unknown_row now e else e) (dl_deliveries db)"
    using sql_update_InrD(1) [OF U(1)] update_delivery_attempts_InrD(2) [OF db2] only wd by auto
  moreover have "distinct (dl_deliveries db)"
    using delivery_invD(1) [OF inv] by (auto simp: table_ok_def delivery_unique_def distinct_map)
  moreover have "lost_send now d (unknown_row now d)"
    using d(2) unfolding lost_send_def unknown_row_def by blast
  ultimately have rows: "rows_change (lost_send now) (dl_deliveries db) (dl_deliveries db2) 1"
    using rows_change_one [OF _ d(1)] by metis
  have "e = a" if "e \<in> set (dl_attempts db)" "expired_delivery_attempt ?b ?t now e" for e
    using delivery_attempts.key_inj [OF delivery_invD(2) [OF inv] that(1) a(1)] that(2) a(2)
    by (simp add: expired_delivery_attempt_def delivery_attempt_matches_def row_delivery_binding_def carries_def)
  then have "dl_attempts db2 = map (\<lambda>e. if e = a then unknown_attempt now e else e) (dl_attempts db)"
    using sql_update_InrD(1) [OF update_delivery_attempts_InrD(1) [OF db2]] wa U(3) by auto
  moreover have "distinct (dl_attempts db)"
    using delivery_invD(2) [OF inv] by (auto simp: table_ok_def delivery_attempt_unique_def distinct_map)
  moreover have "lost_attempt now a (unknown_attempt now a)"
    using a(2) cols(4) unfolding lost_attempt_def unknown_attempt_def carries_def by blast
  ultimately have "rows_change (lost_attempt now) (dl_attempts db) (dl_attempts db2) 1"
    using rows_change_one [OF _ a(1)] by metis
  then show thesis
    using that [OF cols(1,2,3)] db1 db2 rows by (simp add: fenced_delivery_update_def)
qed

section \<open>The whole batch\<close>

lemma rows_change_count:
  assumes "rows_change R rs rs' n" and "\<And>r r'. R r r' \<Longrightarrow> P r \<and> \<not> P r'"
  shows "length (filter P rs) = length (filter P rs') + n"
  using assms(1) by (induction rule: rows_change.induct) (auto dest: assms(2))

lemma lost_send_once: "lost_send now d d' \<Longrightarrow> expired_send now d \<and> \<not> expired_send now d'"
  by (auto simp: lost_send_def expired_send_def)

lemma lost_attempt_once: "lost_attempt now a a' \<Longrightarrow> \<not> lost_attempt now a' a''"
  by (auto simp: lost_attempt_def)

text \<open>A batch of \<open>limit\<close> rows on a database that satisfies the invariant.\<close>

lemma reclaim_deliveries_batch:
  assumes "delivery_inv x db"
  shows "\<exists>db' n. reclaim_deliveries x now limit db = Inr (db', n) \<and> n = min limit (expired_sends now db)
    \<and> delivery_inv x db' \<and> rows_change (lost_send now) (dl_deliveries db) (dl_deliveries db') n
    \<and> rows_change (lost_attempt now) (dl_attempts db) (dl_attempts db') n"
  using assms
proof (induction limit arbitrary: db)
  case 0
  then show ?case by (simp add: rows_change_refl)
next
  case (Suc limit)
  let ?order = "\<lambda>d. (case d_lease_expires_at d of None \<Rightarrow> 0 | Some t \<Rightarrow> t, d_delivery_id d)"
  have pick: "(\<lambda>d. d_state d = DSending \<and> delivery_lease (\<lambda>t. t \<le> now) d \<and> d_updated_at d \<le> now) =
      expired_send now"
    by (auto simp: expired_send_def)
  show ?case
  proof (cases "select_min ?order (expired_send now) (dl_deliveries db)")
    case None
    then have "expired_sends now db = 0"
      using select_min_None [of ?order "expired_send now"]
      by (simp add: expired_sends_def filter_empty_conv)
    then show ?thesis using None Suc.prems by (simp add: pick rows_change_refl)
  next
    case (Some d)
    note d = select_min_SomeD [OF Some]
    obtain owner key expires db1 where step: "d_lease_owner d = Some owner" "d_idempotency_key d = Some key"
        "d_lease_expires_at d = Some expires"
        "fenced_delivery_update x (expired_delivery (row_delivery_binding d owner key) expires now)
          (unknown_row now) (expired_delivery_attempt (row_delivery_binding d owner key) expires now)
          (unknown_attempt now) db = Inr db1"
        "rows_change (lost_send now) (dl_deliveries db) (dl_deliveries db1) 1"
        "rows_change (lost_attempt now) (dl_attempts db) (dl_attempts db1) 1"
      by (rule reclaim_one [OF Suc.prems, of d now]) (use d in auto)
    have count: "expired_sends now db = Suc (expired_sends now db1)"
      using rows_change_count [OF step(5), of "expired_send now"] lost_send_once
      by (simp add: expired_sends_def)
    have "delivery_inv x db1"
      using dunknown.update_preserves [where P = "\<lambda>_. True"] step(4) Suc.prems
      by (simp add: dpreserves_def dkeeps_def)
    from Suc.IH [OF this] obtain db' n where rest: "reclaim_deliveries x now limit db1 = Inr (db', n)"
        "n = min limit (expired_sends now db1)" "delivery_inv x db'"
        "rows_change (lost_send now) (dl_deliveries db1) (dl_deliveries db') n"
        "rows_change (lost_attempt now) (dl_attempts db1) (dl_attempts db') n" by blast
    have "rows_change (lost_send now) (dl_deliveries db) (dl_deliveries db') (Suc n)"
      using rows_change_trans [OF step(5) rest(4)] lost_send_once by (fastforce simp: lost_send_def)
    moreover have "rows_change (lost_attempt now) (dl_attempts db) (dl_attempts db') (Suc n)"
      using rows_change_trans [OF step(6) rest(5)] lost_attempt_once by fastforce
    ultimately show ?thesis
      using Some step(1-4) rest(1-3) count by (simp add: pick Let_def)
  qed
qed

text \<open>C8: On a database that satisfies the invariant, reclaiming never fails and reports how many sends it
  settled: all expired ones, up to the limit. Exactly that many delivery rows change; each was a send
  whose lease had run out, and is now of unknown outcome, ambiguous about what the provider wrote, with an
  error and without a lease, and otherwise as it was. Exactly as many attempts become unknown and complete,
  and are otherwise as they were. No other delivery or attempt changes, the invariant holds afterwards,
  and no expired send is left when the limit covers them all.\<close>

theorem reclaim_settles_expired_sends:
  assumes "delivery_inv x db" and "0 \<le> now" and "limit \<noteq> 0"
    and "n = min (unat limit) (expired_sends now db)"
  shows "\<exists>db'. reclaim_expired_scheduled_deliveries x now limit db = (Inr n, db')
    \<and> rows_change (lost_send now) (dl_deliveries db) (dl_deliveries db') n
    \<and> rows_change (lost_attempt now) (dl_attempts db) (dl_attempts db') n
    \<and> delivery_inv x db' \<and> expired_sends now db' = expired_sends now db - unat limit"
proof -
  obtain db' where db': "reclaim_deliveries x now (unat limit) db = Inr (db', n)" "delivery_inv x db'"
      "rows_change (lost_send now) (dl_deliveries db) (dl_deliveries db') n"
      "rows_change (lost_attempt now) (dl_attempts db) (dl_attempts db') n"
    using reclaim_deliveries_batch [OF assms(1), of now "unat limit"] assms(4) by blast
  have "expired_sends now db = expired_sends now db' + n"
    using rows_change_count [OF db'(3), of "expired_send now"] lost_send_once by (simp add: expired_sends_def)
  then show ?thesis
    using assms(2-4) db' by (auto simp: reclaim_expired_scheduled_deliveries_def transact_delivery_def)
qed

theorem reclaim_settles_expired_sends_witness:
  "\<exists>db' d'. reclaim_expired_scheduled_deliveries post_ext 200 1 sending_db = (Inr 1, db')
    \<and> dl_deliveries db' = [d'] \<and> lost_send 200 sending_row d' \<and> expired_sends 200 db' = 0"
proof -
  have inv: "delivery_inv post_ext sending_db"
    by (rule leads_to_delivery_inv [OF post_inv sending_later [of no_calendar]])
  have single: "expired_sends 200 sending_db = 1"
    by (simp add: expired_sends_def expired_send_def delivery_lease_def)
  have one: "1 = min (unat (1 :: u32)) (expired_sends 200 sending_db)" by (simp add: single)
  obtain db' where db': "reclaim_expired_scheduled_deliveries post_ext 200 1 sending_db = (Inr 1, db')"
      "rows_change (lost_send 200) [sending_row] (dl_deliveries db') 1"
      "expired_sends 200 db' = 0"
    using reclaim_settles_expired_sends [OF inv _ _ one] single by auto
  from db'(2) show ?thesis using db'(1,3) by (auto simp: rows_change_Cons rows_change_Nil)
qed

end
