(* ===== verification/Delivery_Properties.thy ===== *)
theory Delivery_Properties
  imports Delivery_Sample
begin

text \<open>
  What the delivery store promises its callers: at most one attempt of a delivery can have written
  anything unless an operator forced another, an outdated send changes nothing, a delivery advances its baseline by compare-and-swap, a
  claim stays within the frozen policy, and the completion of a run is atomic. One statement of the
  store contradicts a trigger of the schema; the last section shows what that costs.
\<close>

section \<open>Lifecycle\<close>

text \<open>C5: Whatever happens later, a delivery keeps its identity, target and policy snapshot and its
  frozen payload, moves only along the abstract lifecycle, and once it is delivered, terminally failed
  or skipped its state and counters never change again.\<close>

theorem deliveries_follow_lifecycle:
  assumes "system_inv x now db" and "leads_to cal x (now, db) (later, db')"
    and "d \<in> set (dl_deliveries db)"
  shows "\<exists>!d'. d' \<in> set (dl_deliveries db') \<and> d_delivery_id d' = d_delivery_id d
    \<and> delivery_snapshot d' = delivery_snapshot d \<and> keeps_payload d d'
    \<and> dstep\<^sup>*\<^sup>* (dlife d) (dlife d') \<and> (d_state d \<in> set settled_states \<longrightarrow> dlife d' = dlife d)"
proof -
  have h: "delivery_inv x db'" "dadvances db db'"
    using leads_to_inv [OF assms(2)] assms(1) by (simp_all add: system_inv_def)
  then obtain d' where d': "d' \<in> set (dl_deliveries db')" "devolves d d'"
    using assms(3) by (auto simp: dadvances_def)
  have id: "d_delivery_id d' = d_delivery_id d"
    using d'(2) delivery_snapshot_keys(1) [of d' d] by (simp add: devolves_def)
  have final: "dlife d' = dlife d" if "d_state d \<in> set settled_states"
  proof -
    have "dstep\<^sup>*\<^sup>* (d_state d, d_attempt d, d_fence d) (dlife d')"
      using d'(2) by (simp add: devolves_def dlife_def [of d])
    from dsteps_final [OF this that] show ?thesis by (simp add: dlife_def [of d])
  qed
  show ?thesis
  proof (rule ex1I)
    show "d' \<in> set (dl_deliveries db') \<and> d_delivery_id d' = d_delivery_id d
        \<and> delivery_snapshot d' = delivery_snapshot d \<and> keeps_payload d d'
        \<and> dstep\<^sup>*\<^sup>* (dlife d) (dlife d') \<and> (d_state d \<in> set settled_states \<longrightarrow> dlife d' = dlife d)"
      using d' id final unfolding devolves_def by blast
  qed (use delivery_key [OF h(1) _ d'(1)] id in metis)
qed

theorem deliveries_follow_lifecycle_witness:
  "\<exists>!d'. d' \<in> set (dl_deliveries sending_db) \<and> d_delivery_id d' = d_delivery_id post_row
    \<and> delivery_snapshot d' = delivery_snapshot post_row \<and> keeps_payload post_row d'
    \<and> dstep\<^sup>*\<^sup>* (dlife post_row) (dlife d')
    \<and> (d_state post_row \<in> set settled_states \<longrightarrow> dlife d' = dlife post_row)"
  by (rule deliveries_follow_lifecycle [OF post_inv sending_later [of no_calendar]]) simp

section \<open>At most one write\<close>

text \<open>C2: When a delivery was attempted again, every earlier attempt was accounted for: the provider had
  confirmed that it wrote nothing, or its outcome is unknown and an operator forced the resend under a
  recorded action that acknowledges the risk of a duplicate, names exactly this attempt and fence, and
  has been spent. No attempt follows one that succeeded or failed for good.\<close>

theorem resend_only_after_no_write_or_forced:
  assumes "system_inv x now db" and "leads_to cal x (now, db) (later, db')"
    and "a \<in> set (dl_attempts db')" and "b \<in> set (dl_attempts db')"
    and "da_row_delivery_id a = da_row_delivery_id b" and "da_attempt a < da_attempt b"
  shows "da_state a = DFailedRetryable \<or> (da_state a = DDeliveryUnknown \<and> forced db' a)"
proof -
  have inv: "delivery_inv x db'" by (rule leads_to_delivery_inv [OF assms(1,2)])
  obtain d where d: "d \<in> set (dl_deliveries db')" "attempt_ok db' d a"
    by (rule sends_coherentE [OF delivery_invD(4) [OF inv] assms(3)])
  obtain e where e: "e \<in> set (dl_deliveries db')" "attempt_ok db' e b"
    by (rule sends_coherentE [OF delivery_invD(4) [OF inv] assms(4)])
  have "d_delivery_id e = d_delivery_id d" using d(2) e(2) assms(5) unfolding attempt_ok_def by metis
  then have "e = d" by (rule delivery_key [OF inv e(1) d(1)])
  then have "da_attempt a < d_attempt d" using e(2) assms(6) by (simp add: attempt_ok_def)
  then show ?thesis using d(2) by (auto simp: attempt_ok_def settled_def resendable_def)
qed

theorem resend_only_after_no_write_or_forced_witness:
  "first_send \<in> set (dl_attempts sending_db) \<and> second_send \<in> set (dl_attempts sending_db)
    \<and> da_attempt first_send < da_attempt second_send \<and> da_state first_send = DFailedRetryable"
  using resend_only_after_no_write_or_forced [OF post_inv sending_later [of no_calendar], of first_send
      second_send] by simp

text \<open>A send the delivery has left behind.\<close>

definition outdated :: "delivery_binding \<Rightarrow> delivery_row \<Rightarrow> bool" where
  "outdated b d \<longleftrightarrow> d_delivery_id d = dlb_delivery_id b
     \<and> (dlb_fence b < d_fence d \<or> (dlb_fence b = d_fence d \<and> d_state d \<noteq> DSending))"

lemma outdated_never_matches:
  assumes "devolves d d'" and "outdated b d"
  shows "\<not> delivery_matches b d'"
proof
  assume m: "delivery_matches b d'"
  have steps: "dstep\<^sup>*\<^sup>* (d_state d, d_attempt d, d_fence d) (d_state d', d_attempt d', d_fence d')"
    using assms(1) by (simp add: devolves_def dlife_def)
  have "d_fence d \<le> d_fence d'" using dsteps_counters [OF steps] by simp
  moreover have "d_fence d < d_fence d'" if "d_state d \<noteq> DSending"
    using dsteps_release [OF steps that] m by (simp add: delivery_matches_def)
  ultimately show False using m assms(2) by (auto simp: delivery_matches_def outdated_def)
qed

definition fails_alone :: "delivery_db \<Rightarrow> (state_error + 'a) \<times> delivery_db \<Rightarrow> bool" where
  "fails_alone db r \<longleftrightarrow> (\<exists>e. fst r = Inl e) \<and> same_deliveries db (snd r)"

lemma transact_fails_alone:
  assumes "r = transact_delivery db (Inl e)"
  shows "fails_alone db r"
proof -
  obtain v db' where r: "r = (v, db')" by fastforce
  with assms have "transact_delivery db (Inl e) = (v, db')" by simp
  then have "(\<exists>e. v = Inl e) \<and> same_deliveries db db'"
    by (cases rule: transact_delivery_cases) auto
  then show ?thesis by (simp add: r fails_alone_def)
qed

lemma transact_Inl_fails_alone: "\<exists>e. m = Inl e \<Longrightarrow> fails_alone db (transact_delivery db m)"
  using transact_fails_alone by blast

lemma rbind_fails: "(\<And>v. m = Inr v \<Longrightarrow> \<exists>e. f v = Inl e) \<Longrightarrow> \<exists>e. rbind m f = Inl e"
  by (cases m) simp_all

lemma outdated_operations:
  assumes inv: "delivery_inv x db" and none: "\<forall>d \<in> set (dl_deliveries db). \<not> delivery_matches b d"
  shows "fails_alone db (heartbeat_scheduled_delivery x b now expires db)"
    and "fails_alone db (complete_scheduled_delivery_delivered x b receipt now db)"
    and "fails_alone db (complete_scheduled_delivery_failure x b failure now db)"
proof -
  have lost: "\<exists>e. transition_delivery_terminal x b t now db = Inl e" if "dt_state t \<in> set provider_states"
    for t
    using fenced_send.stale_send [OF finish_fenced [OF that] inv none]
    by (simp add: transition_delivery_terminal_def)
  show "fails_alone db (heartbeat_scheduled_delivery x b now expires db)"
    unfolding heartbeat_scheduled_delivery_def
    by (intro transact_Inl_fails_alone rbind_fails)
      (simp add: dheartbeat.stale_send [OF inv none])
  have sent: "dt_state (delivered_transition receipt) \<in> set provider_states"
    by (simp add: delivered_transition_def provider_states_def)
  show "fails_alone db (complete_scheduled_delivery_delivered x b receipt now db)"
    unfolding complete_scheduled_delivery_delivered_def
    by (intro transact_Inl_fails_alone rbind_fails) (use lost [OF sent] in auto)
  have failed: "\<exists>e. transition_delivery_terminal x b t now db = Inl e"
    if "retry_within_policy x b (failure_transition failure) now db = Inr t" for t
    using retry_within_policyD [OF that] failure_states lost by blast
  have "\<exists>e. rbind (retry_within_policy x b (failure_transition failure) now db)
      (\<lambda>t. rbind (transition_delivery_terminal x b t now db) (\<lambda>db'. Inr (db', Inr ()))) = Inl e"
    by (intro rbind_fails) (use failed in fastforce)
  then show "fails_alone db (complete_scheduled_delivery_failure x b failure now db)"
    unfolding complete_scheduled_delivery_failure_def Let_def
    by (intro transact_Inl_fails_alone rbind_fails) (auto intro: rbind_fails)
qed

text \<open>C3: Once a delivery carries a larger fence than a binding, or is no longer being sent under it,
  every later heartbeat, success or failure report with that binding fails and changes no delivery,
  attempt, baseline, job or run.\<close>

theorem outdated_send_is_fenced:
  assumes "system_inv x now db" and "leads_to cal x (now, db) (later, db')"
    and "d \<in> set (dl_deliveries db)" and "outdated b d"
  shows "fails_alone db' (heartbeat_scheduled_delivery x b t expires db')
    \<and> fails_alone db' (complete_scheduled_delivery_delivered x b receipt t db')
    \<and> fails_alone db' (complete_scheduled_delivery_failure x b failure t db')"
proof -
  have inv: "delivery_inv x db'" by (rule leads_to_delivery_inv [OF assms(1,2)])
  have none: "\<forall>d' \<in> set (dl_deliveries db'). \<not> delivery_matches b d'"
  proof (intro ballI notI)
    fix d' assume d': "d' \<in> set (dl_deliveries db')" and m: "delivery_matches b d'"
    then have "devolves d d'"
      using delivery_later [OF assms(1,2,3) d'] assms(4)
      by (simp add: delivery_matches_def outdated_def)
    then show False using outdated_never_matches assms(4) m by blast
  qed
  show ?thesis using outdated_operations [OF inv none] by blast
qed

theorem outdated_send_is_fenced_witness:
  "outdated (second_binding \<lparr>dlb_attempt := 1, dlb_fence := 1\<rparr>) post_row
    \<and> fails_alone sending_db (heartbeat_scheduled_delivery post_ext
        (second_binding \<lparr>dlb_attempt := 1, dlb_fence := 1\<rparr>) 70 200 sending_db)"
proof -
  have "outdated (second_binding \<lparr>dlb_attempt := 1, dlb_fence := 1\<rparr>) post_row"
    by (simp add: outdated_def second_binding_def)
  then show ?thesis
    using outdated_send_is_fenced [OF post_inv sending_later [of no_calendar], of post_row] by simp
qed

section \<open>The accepted baseline\<close>

definition baseline_version_of :: "accepted_baseline option \<Rightarrow> i64" where
  "baseline_version_of b = (case b of None \<Rightarrow> 0 | Some r \<Rightarrow> ab_baseline_version r)"

lemma upsert_advances:
  assumes tab: "table_ok accepted_check accepted_unique (dl_accepted db)"
    and ups: "upsert_accepted expected at_time d p a db = Inr (db', 1)"
    and key: "key = baseline_key_at d (pc_render_version p) (pc_hash_algorithm p)"
    and guard: "expected = 0 \<or> (\<exists>b. baseline_at key db = Some b \<and> ab_baseline_version b = expected)"
  shows "baseline_version_of (baseline_at key db) = expected
    \<and> baseline_at key db' = Some (accepted_from d p a at_time (expected + 1))"
proof (cases "list_ex (\<lambda>r. acc_identity r = key) (dl_accepted db)")
  case False
  then have none: "List.find (\<lambda>r. acc_identity r = key) (dl_accepted db) = None"
    by (auto simp: find_None_iff list_ex_iff)
  then have "baseline_at key db = None" by (simp add: baseline_at_def)
  moreover have "dl_accepted db' = dl_accepted db
      @ [\<lparr>acc_identity = key, acc_baseline = accepted_from d p a at_time 1\<rparr>]"
    using ups False key by (auto simp: upsert_accepted_def Let_def split: if_splits)
  ultimately show ?thesis
    using guard none by (simp add: baseline_version_of_def baseline_at_def find_append_None)
next
  case True
  define w where "w = (\<lambda>r :: accepted_row. acc_identity r = key \<and> expected < i64_max
    \<and> ab_baseline_version (acc_baseline r) = expected)"
  define f where "f = (\<lambda>r :: accepted_row. r \<lparr>acc_baseline := accepted_from d p a at_time
    (ab_baseline_version (acc_baseline r) + 1)\<rparr>)"
  have upd: "sql_update accepted_check accepted_unique w f (dl_accepted db) = Inr (dl_accepted db', 1)"
    using ups True key by (auto simp: upsert_accepted_def Let_def w_def f_def split: if_splits)
  obtain r where r: "r \<in> set (dl_accepted db)" "w r" by (rule update_oneD [OF upd])
  have "List.find (\<lambda>s. acc_identity s = key) (dl_accepted db) = Some r"
    by (rule accepted.find_row [OF tab r(1)]) (use r(2) in \<open>simp add: w_def\<close>)
  moreover have "List.find (\<lambda>s. acc_identity s = key) (dl_accepted db') = Some (f r)"
    by (rule accepted.find_row [OF accepted.update_ok [OF tab upd] update_selected [OF upd r]])
      (use r(2) in \<open>simp add: w_def f_def\<close>)
  ultimately show ?thesis
    using r(2) by (simp add: baseline_at_def baseline_version_of_def w_def f_def)
qed

lemma expected_deliveredE:
  assumes "expected_baseline x i db = Some expected" and "find_delivery i db = Some d"
    and "d_state d = DDelivered"
  obtains p where "d_payload d = Some p" "d_claimed_baseline_version d = Some expected"
  using assms by (auto simp: expected_baseline_def bind_eq_Some_conv split: if_splits)

lemma advance_baselineE:
  assumes "advance_accepted_delivery_baseline_in_transaction x i at_time db = Inr (db', True)"
    and "find_delivery i db = Some d" and "d_state d = DDelivered"
    and "table_ok accepted_check accepted_unique (dl_accepted db)"
  obtains p a claimed where "d_payload d = Some p" "artifact_of db d = Some a"
    "d_claimed_baseline_version d = Some claimed"
    "baseline_version_of (baseline_of db d) = claimed"
    "baseline_of db' d = Some (accepted_from d p a at_time (claimed + 1))"
proof -
  obtain expected where e: "expected_baseline x i db = Some expected"
    using assms(1) by (auto simp: advance_accepted_delivery_baseline_in_transaction_def)
  obtain p where p: "d_payload d = Some p" "d_claimed_baseline_version d = Some expected"
    by (rule expected_deliveredE [OF e assms(2,3)])
  obtain a where a: "artifact_of db d = Some a"
    using assms(1,2) e p by (auto simp: advance_accepted_delivery_baseline_in_transaction_def
        split: option.splits)
  define key where "key = baseline_key_at d (pc_render_version p) (pc_hash_algorithm p)"
  have of: "baseline_of s d = baseline_at key s" for s
    by (simp add: baseline_of_def baseline_key_def p(1) key_def)
  have "expected = 0 \<or> (\<exists>b. baseline_at key db = Some b \<and> ab_baseline_version b = expected)"
      "upsert_accepted expected at_time d p a db = Inr (db', 1)"
    using assms(1,2) e p(1) a of [of db]
    by (auto simp: advance_accepted_delivery_baseline_in_transaction_def split: if_splits option.splits)
  then show thesis
    using that [OF p(1) a p(2)] upsert_advances [OF assms(4) _ key_def] of by simp
qed

text \<open>What a fenced outcome writes.\<close>

lemma transitionE:
  assumes inv: "delivery_inv x db" and tr: "transition_delivery_terminal x b t now db = Inr db2"
    and ok: "dt_state t \<in> set provider_states"
  obtains d a where "d \<in> set (dl_deliveries db)" "a \<in> set (dl_attempts db)" "delivery_matches b d"
    "carries d a" "delivery_lease (\<lambda>e. e > now) d"
    "finish_delivery_row t now d \<in> set (dl_deliveries db2)"
    "finish_delivery_attempt t now a \<in> set (dl_attempts db2)"
    "dl_accepted db2 = dl_accepted db" "dl_artifacts db2 = dl_artifacts db"
proof -
  obtain db1 where sends: "update_deliveries x False (\<lambda>d. delivery_matches b d
        \<and> delivery_lease (\<lambda>e. e > now) d \<and> d_updated_at d \<le> now) (finish_delivery_row t now) db =
        Inr (db1, 1)"
      and attempts: "update_delivery_attempts (\<lambda>a. delivery_attempt_matches b a
        \<and> da_lease_expires_at a > now \<and> da_started_at a \<le> now) (finish_delivery_attempt t now) db1 =
        Inr (db2, 1)"
    using tr by (auto simp: transition_delivery_terminal_def fenced_delivery_update_def split: if_splits)
  note D = update_deliveries_InrD [OF sends] and A = update_delivery_attempts_InrD [OF attempts]
  obtain d a where sel: "d \<in> set (dl_deliveries db)" "delivery_matches b d
        \<and> delivery_lease (\<lambda>e. e > now) d \<and> d_updated_at d \<le> now" "a \<in> set (dl_attempts db)"
      "delivery_attempt_matches b a \<and> da_lease_expires_at a > now \<and> da_started_at a \<le> now" "carries d a"
    by (rule fenced_send.selected [OF finish_fenced [OF ok] inv sends attempts])
  have "finish_delivery_row t now d \<in> set (dl_deliveries db2)"
    using update_selected [OF D(1) sel(1,2)] A(2) by simp
  moreover have "finish_delivery_attempt t now a \<in> set (dl_attempts db2)"
    using update_selected [OF A(1) _ sel(4)] sel(3) D(3) by simp
  ultimately show thesis using that [OF sel(1,3)] sel(2,5) D(4,5) A(3,4) by simp
qed

lemma finish_row_columns:
  "d_delivery_id (finish_delivery_row t now d) = d_delivery_id d"
  "d_state (finish_delivery_row t now d) = dt_state t"
  "d_payload (finish_delivery_row t now d) = d_payload d"
  "d_claimed_baseline_version (finish_delivery_row t now d) = d_claimed_baseline_version d"
  "artifact_of db (finish_delivery_row t now d) = artifact_of db d"
  "baseline_of db (finish_delivery_row t now d) = baseline_of db d"
  "accepted_from (finish_delivery_row t now d) p a at_time v = accepted_from d p a at_time v"
  by (simp_all add: finish_delivery_row_def artifact_of_def baseline_of_def baseline_key_def
      baseline_key_at_def accepted_from_def)

lemma upsert_tables:
  "upsert_accepted expected at_time d p a db = Inr (db', n) \<Longrightarrow>
     dl_deliveries db' = dl_deliveries db \<and> dl_attempts db' = dl_attempts db"
  by (auto simp: upsert_accepted_def Let_def split: if_splits)

lemma advance_baseline_tables:
  assumes "advance_accepted_delivery_baseline_in_transaction x i at_time db = Inr (db', v)"
  shows "dl_deliveries db' = dl_deliveries db \<and> dl_attempts db' = dl_attempts db"
proof -
  obtain expected d where "find_delivery i db = Some d"
    using assms by (auto simp: advance_accepted_delivery_baseline_in_transaction_def
        elim!: expected_baselineE)
  then show ?thesis
    using assms upsert_tables
    by (cases "d_payload d"; cases "artifact_of db d")
      (auto simp: advance_accepted_delivery_baseline_in_transaction_def split: if_splits)
qed

text \<open>C6: When a delivery is reported delivered under its live lease, the send and its attempt become
  delivered, and the accepted baseline of its key moves from exactly the version the claim saw to the
  next one, with the delivered payload's digest; a baseline that moved in between refuses the
  report.\<close>

theorem delivered_advances_baseline:
  assumes "delivery_inv x db"
    and "complete_scheduled_delivery_delivered x b receipt now db = (Inr (), db')"
  shows "\<exists>d a p artifact claimed. d \<in> set (dl_deliveries db) \<and> a \<in> set (dl_attempts db)
    \<and> delivery_matches b d \<and> carries d a \<and> delivery_lease (\<lambda>e. e > now) d \<and> d_payload d = Some p
    \<and> finish_delivery_row (delivered_transition receipt) now d \<in> set (dl_deliveries db')
    \<and> finish_delivery_attempt (delivered_transition receipt) now a \<in> set (dl_attempts db')
    \<and> artifact_of db d = Some artifact
    \<and> da_claimed_baseline_version a = claimed \<and> baseline_version_of (baseline_of db d) = claimed
    \<and> baseline_of db' d = Some (accepted_from d p artifact now (claimed + 1))"
proof -
  let ?t = "delivered_transition receipt"
  have ok: "dt_state ?t \<in> set provider_states" and state: "dt_state ?t = DDelivered"
    by (simp_all add: delivered_transition_def provider_states_def)
  from assms(2) [unfolded complete_scheduled_delivery_delivered_def] obtain db2 where
      tr: "transition_delivery_terminal x b ?t now db = Inr db2"
      and adv: "advance_accepted_delivery_baseline_in_transaction x (dlb_delivery_id b) now db2 =
        Inr (db', True)"
    by (cases rule: transact_delivery_cases) (auto split: if_splits)
  obtain d a where sel: "d \<in> set (dl_deliveries db)" "a \<in> set (dl_attempts db)" "delivery_matches b d"
      "carries d a" "delivery_lease (\<lambda>e. e > now) d"
      "finish_delivery_row ?t now d \<in> set (dl_deliveries db2)"
      "finish_delivery_attempt ?t now a \<in> set (dl_attempts db2)"
      "dl_accepted db2 = dl_accepted db" "dl_artifacts db2 = dl_artifacts db"
    by (rule transitionE [OF assms(1) tr ok])
  have inv2: "delivery_inv x db2"
    using transition_preserves [OF tr ok] assms(1) by (simp add: dpreserves_def dkeeps_def)
  have same: "artifact_of db2 d = artifact_of db d" "baseline_of db2 d = baseline_of db d"
    using sel(8,9) by (simp_all add: artifact_of_def baseline_of_def baseline_at_def)
  have "find_delivery (dlb_delivery_id b) db2 = Some (finish_delivery_row ?t now d)"
    unfolding find_delivery_def
    by (rule deliveries.find_row [OF delivery_invD(1) [OF inv2] sel(6)])
      (use sel(3) in \<open>simp add: finish_row_columns delivery_matches_def\<close>)
  then obtain p artifact claimed where "d_payload d = Some p" "artifact_of db d = Some artifact"
      "d_claimed_baseline_version d = Some claimed" "baseline_version_of (baseline_of db d) = claimed"
      "baseline_of db' d = Some (accepted_from d p artifact now (claimed + 1))"
    by (rule advance_baselineE [OF adv _ _ delivery_invD(3) [OF inv2]])
      (simp_all add: finish_row_columns state same)
  then show ?thesis
    using sel(1-7) advance_baseline_tables [OF adv] by (auto simp: carries_def)
qed

theorem delivered_advances_baseline_witness:
  "complete_scheduled_delivery_delivered post_ext second_binding ''r1'' 100 sending_db =
      (Inr (), delivered_db)
    \<and> (\<exists>artifact. baseline_of delivered_db sending_row =
        Some (accepted_from sending_row post_payload artifact 100 1))"
proof -
  have "delivery_inv post_ext sending_db"
    by (rule leads_to_delivery_inv [OF post_inv sending_later [of no_calendar]])
  moreover have "baseline_of sending_db d = None" for d
    by (simp add: baseline_of_def baseline_at_def bind_eq_None_conv split: option.splits)
  ultimately show ?thesis
    using delivered_advances_baseline [OF _ delivered_sample] delivered_sample
    by (auto simp: baseline_version_of_def)
qed

section \<open>Claims stay within the policy\<close>

lemma exact_row_kept:
  "d_delivery_id (exact_claim_row db owner expires now d) = d_delivery_id d"
  "d_payload (exact_claim_row db owner expires now d) = d_payload d"
  "active_key (exact_claim_row db owner expires now d) = active_key d"
  "delivery_policy_int x (exact_claim_row db owner expires now d) f = delivery_policy_int x d f"
  "payload_digest_of (exact_claim_row db owner expires now d) = payload_digest_of d"
  "baseline_key (exact_claim_row db owner expires now d) = baseline_key d"
  by (simp_all add: exact_claim_row_def claim_delivery_row_def active_key_def delivery_policy_int_def
      baseline_key_def baseline_key_at_def payload_digest_of_def)

lemma unchanged_cong:
  "dl_accepted db2 = dl_accepted db1 \<Longrightarrow> payload_digest_of e = payload_digest_of d \<Longrightarrow>
     baseline_key e = baseline_key d \<Longrightarrow> unchanged db2 e = unchanged db1 d"
  by (simp add: unchanged_def baseline_of_def baseline_at_def cong: option.case_cong)

text \<open>The claim committed within its transaction's clock readings.\<close>

lemma claim_innerE:
  assumes "claim_scheduled_delivery_inner x a owner now clock db = (Inr (Some c), db')"
  shows "claim_exact_body x a owner now clock db = Inr (ClaimCommit db' (Inr (Some c)))"
    and "da_source_state a = DPending \<or> da_source_state a = DFailedRetryable"
proof -
  have no: False if "transact_delivery db (rbind (lift
      (terminalize_exact_delivery_if_exhausted x a s t db)) (\<lambda>(db', _). Inr (db', Inr None))) =
      (Inr (Some c), db')" for s t
    using that by (cases rule: transact_delivery_cases) auto
  have none: False if "transact_delivery db (Inl e) = (Inr (Some c), db')" for e
    using that by (cases rule: transact_delivery_cases) auto
  have "claim_exact_body x a owner now clock db = Inr (ClaimCommit db' (Inr (Some c)))
      \<and> (\<exists>u. validate_scheduled_delivery_authority x a = Inr u)"
    using assms no none unfolding claim_scheduled_delivery_inner_def
    by (auto split: sum.splits claim_end.splits if_splits)
  then show "claim_exact_body x a owner now clock db = Inr (ClaimCommit db' (Inr (Some c)))"
    and "da_source_state a = DPending \<or> da_source_state a = DFailedRetryable"
    using authority_not_sending by blast+
qed

text \<open>C7: An exact claim that succeeds leaves the delivery it names being sent under its binding, within
  the attempts of its frozen policy, before the policy's deadline and before the end of its own lease at
  the last clock reading, with a payload that differs from the accepted baseline, and no other send
  in flight has its key.\<close>

theorem exact_claim_respects_policy:
  assumes "delivery_inv x db"
    and "claim_scheduled_delivery_from_snapshot_with_clock x a owner now clock db = (Inr (Some c), db')"
  shows "\<exists>d t. d \<in> set (dl_deliveries db') \<and> d_delivery_id d = da_delivery_id a
    \<and> delivery_matches (cd_binding c) d \<and> dlb_lease_owner (cd_binding c) = owner
    \<and> t = max (clock_claim clock) (max (clock_observed clock) now)
    \<and> d_lease_expires_at d = Some (t + uint (delivery_lease_seconds (da_scheduler_policy a)))
    \<and> max (clock_finish clock) t < t + uint (delivery_lease_seconds (da_scheduler_policy a))
    \<and> (\<exists>m. delivery_policy_int x d ''delivery_max_attempts'' = Some m \<and> d_attempt d \<le> m)
    \<and> \<not> deadline_reached (cd_scheduler_policy c) (ps_created_at (cd_payload c))
        (max (clock_finish clock) t)
    \<and> \<not> unchanged db' d
    \<and> (\<forall>e \<in> set (dl_deliveries db'). d_state e = DSending \<longrightarrow> active_key e = active_key d \<longrightarrow> e = d)"
proof -
  note inner = claim_innerE [OF assms(2) [unfolded claim_scheduled_delivery_from_snapshot_with_clock_def]]
  have inv': "delivery_inv x db'"
    using claim_exact_preserves [OF inner] assms(1) by (simp add: dpreserves_def dkeeps_def)
  from inner show ?thesis
  proof (cases rule: claim_exactE)
    case unclaimed
    then show ?thesis by simp
  next
    case (claimed db1 db2 m n t expires b p policy)
    define d where "d = exact_claim_row db1 owner expires t m"
    note U = update_deliveries_InrD [OF claimed(6)]
    obtain key v where rec: "d_idempotency_key d = Some key" "b = binding_of_claim d owner key"
        "insert_delivery_attempt (delivery_attempt_of d owner expires t key v) db2 = Inr db'"
      using claimed(7) by (rule record_claimE) (simp add: d_def)
    note I = insert_delivery_attempt_InrD [OF rec(3)]
    have here: "d \<in> set (dl_deliveries db')"
      using update_selected [OF U(1) claimed(4,5)] I(2) by (simp add: d_def)
    have sending: "d_state d = DSending" "d_lease_owner d = Some owner"
        "d_lease_expires_at d = Some expires" "d_attempt d = d_attempt m + 1"
      using exact_row_sending by (simp_all add: d_def)
    have able: "authority_matches a m" "attempts_left x m" "\<not> unchanged db1 m"
      using claimed(5) by (simp_all add: exact_claimable_def)
    have "active_key d \<noteq> None"
      using able(1) by (auto simp: d_def exact_row_kept authority_matches_def active_key_def)
    then have only: "e = d" if "e \<in> set (dl_deliveries db')" "d_state e = DSending"
        "active_key e = active_key d" for e
      using delivery_invD(1) [OF inv'] here sending(1) that
      by (auto simp: table_ok_def delivery_unique_def distinct_map inj_on_def)
    have matches: "delivery_matches b d" "dlb_lease_owner b = owner"
      using rec(1,2) sending by (simp_all add: delivery_matches_def binding_of_claim_def)
    have "\<exists>m. delivery_policy_int x d ''delivery_max_attempts'' = Some m \<and> d_attempt d \<le> m"
      using able(2) sending(4) by (auto simp: d_def exact_row_kept attempts_left_def split: option.splits)
    moreover have "\<not> unchanged db' d"
      using able(3) unchanged_cong [of db' db1 d m] I(3) U(4) by (simp add: d_def exact_row_kept)
    moreover have "d_delivery_id d = da_delivery_id a"
      using able(1) by (simp add: d_def exact_row_kept authority_matches_def)
    ultimately show ?thesis
      using here only sending(3) matches claimed(2,3,9,10,11) by (intro exI [of _ d] exI [of _ t]) auto
  qed
qed

theorem exact_claim_respects_policy_witness:
  "\<exists>c db d. claim_scheduled_delivery_from_snapshot_with_clock post_ext post_authority ''v'' 60 sample_clock
      post_db = (Inr (Some c), db)
    \<and> d \<in> set (dl_deliveries db) \<and> delivery_matches (cd_binding c) d \<and> d_lease_expires_at d = Some 120"
proof -
  obtain c db where claim: "claim_scheduled_delivery_from_snapshot_with_clock post_ext post_authority ''v''
      60 sample_clock post_db = (Inr (Some c), db)"
    using exact_claim_sample by blast
  have "delivery_inv post_ext post_db" using post_inv by (simp add: system_inv_def)
  from exact_claim_respects_policy [OF this claim] obtain d where
      "d \<in> set (dl_deliveries db)" "delivery_matches (cd_binding c) d"
      "d_lease_expires_at d = Some (60 + uint (delivery_lease_seconds (da_scheduler_policy post_authority)))"
    by (auto simp: sample_clock_def)
  then show ?thesis using claim by (auto simp: post_authority_def default_policy_def)
qed

section \<open>Completion is atomic\<close>

definition next_baseline :: "execution_baseline_update \<Rightarrow> baseline_row \<Rightarrow> baseline_row" where
  "next_baseline u b = b \<lparr>b_version := b_version b + 1, b_hash_algorithm := Some (eb_hash_algorithm u),
     b_result_hash := Some (eb_result_hash u),
     b_previous_success_context := Some (eb_previous_success_context u),
     b_source_run_id := Some (eb_source_run_id u), b_completed_at := Some (eb_completed_at u)\<rparr>"

lemma swap_baselineE:
  assumes "compare_and_swap_execution_baseline_in_transaction u db = Inr (s, True)"
  obtains b where "b \<in> set (db_baselines db)" "b_job_id b = eb_job_id u"
    "b_version b = eb_expected_version u" "next_baseline u b \<in> set (db_baselines s)"
proof -
  let ?w = "\<lambda>b. b_job_id b = eb_job_id u \<and> b_version b = eb_expected_version u \<and> b_version b < i64_max"
  have upd: "sql_update baseline_check baseline_unique ?w (next_baseline u) (db_baselines db) =
      Inr (db_baselines s, 1)"
    using assms by (auto simp: compare_and_swap_execution_baseline_in_transaction_def count_runs_def
        next_baseline_def [abs_def] split: if_splits)
  obtain b where "b \<in> set (db_baselines db)" "?w b" by (rule update_oneD [OF upd])
  then show thesis using that update_selected [OF upd] by blast
qed

lemma complete_rows_succeed:
  assumes "complete_run_rows x b artifacts artifact_id ctxt hash now db = Inr db'"
    and "executing_pair b now db = Some (r, a)"
  shows "succeed_run artifact_id ctxt hash now r \<in> set (st_runs db')"
    and "succeed_attempt now a \<in> set (st_attempts db')"
proof -
  note E = executing_pairD [OF assms(2)]
  from assms(1) have "succeed_run artifact_id ctxt hash now r \<in> set (st_runs db')
      \<and> succeed_attempt now a \<in> set (st_attempts db')"
  proof (cases rule: complete_rowsE)
    case (1 db1)
    note A = update_attempts_InrD [OF 1(1)] and R = update_runs_InrD [OF 1(2)]
    show ?thesis
      using update_selected [OF A(1) E(2)] update_selected [OF R(1)] E A(2) R(2) by simp
  qed
  then show "succeed_run artifact_id ctxt hash now r \<in> set (st_runs db')"
    and "succeed_attempt now a \<in> set (st_attempts db')" by simp_all
qed

lemma completion_planE:
  assumes "completion_plan x result now r a = Inr (targets, version)"
  obtains base where "delivery_intent_targets x (r_targets_json r) = Inr targets"
    "r_execution_baseline_json r = Some base" "execution_baseline_version x base = Inr version"
  using assms by (auto simp: completion_plan_def split: if_splits)

text \<open>C4: The completion of a run commits everything or nothing. On success the executing run of the
  binding and its attempt succeed under a live lease, exactly one artifact and one fresh pending intent
  per target of the run's snapshot are appended, and the execution baseline of the job moves from the
  version the run started from to the next. Otherwise no run, attempt, artifact, baseline or
  delivery changes.\<close>

theorem completion_is_atomic:
  assumes "complete_scheduled_run_success x b result now db = (v, db')"
  shows "if v = Inr CompletionCommitted then
    \<exists>r a targets keys json base. r \<in> set (st_runs (db_runs (dl_db db)))
      \<and> a \<in> set (st_attempts (db_runs (dl_db db))) \<and> run_matches b r \<and> attempt_matches b a
      \<and> r_state r = Executing \<and> run_lease_after now r
      \<and> succeed_run (result_artifact_id x b) (result_previous_success_context result)
          (ar_result_hash (new_artifact x b result now)) now r \<in> set (st_runs (db_runs (dl_db db')))
      \<and> succeed_attempt now a \<in> set (st_attempts (db_runs (dl_db db')))
      \<and> dl_artifacts db' = dl_artifacts db @ [new_artifact x b result now]
      \<and> delivery_intent_targets x (r_targets_json r) = Inr targets \<and> length keys = length targets
      \<and> dl_deliveries db' = dl_deliveries db @ map2 (new_intent b (result_artifact_id x b)
          (r_policy_version r) (r_policy_json r) now) targets keys
      \<and> r_execution_baseline_json r = Some json \<and> base \<in> set (db_baselines (dl_db db))
      \<and> b_job_id base = binding_job_id b \<and> execution_baseline_version x json = Inr (b_version base)
      \<and> next_baseline (completion_cas x b result now (b_version base)) base
          \<in> set (db_baselines (dl_db db'))
    else dl_artifacts db' = dl_artifacts db \<and> dl_deliveries db' = dl_deliveries db
      \<and> db_baselines (dl_db db') = db_baselines (dl_db db)
      \<and> st_runs (db_runs (dl_db db')) = st_runs (db_runs (dl_db db))
      \<and> st_attempts (db_runs (dl_db db')) = st_attempts (db_runs (dl_db db))"
  using assms
proof (cases rule: completionE)
  case (refused e)
  then show ?thesis by simp
next
  case (committed r a targets version)
  obtain json where plan: "delivery_intent_targets x (r_targets_json r) = Inr targets"
      "r_execution_baseline_json r = Some json" "execution_baseline_version x json = Inr version"
    by (rule completion_planE [OF committed(3)])
  from committed(4) show ?thesis
  proof (cases rule: completion_writesE)
    case (1 rows s keys runs)
    note E = executing_pairD [OF committed(2)]
    have same: "same_tables (db_runs (dl_db db)) (db_runs s)"
      using swap_baselineD [OF 1(2)] by (simp add: same_jobs_def)
    have pair: "executing_pair b now (db_runs s) = Some (r, a)"
      using committed(2) same_tablesD [OF same] by (simp add: executing_pair_def)
    obtain base where base: "base \<in> set (db_baselines (dl_db db))" "b_job_id base = binding_job_id b"
        "b_version base = version"
        "next_baseline (completion_cas x b result now version) base \<in> set (db_baselines s)"
      using 1(2) by (rule swap_baselineE) (simp add: completion_cas_def)
    have fields: "dl_artifacts db' = dl_artifacts db @ [new_artifact x b result now]"
        "dl_deliveries db' = dl_deliveries db @ map2 (new_intent b (result_artifact_id x b)
          (r_policy_version r) (r_policy_json r) now) targets keys"
        "db_runs (dl_db db') = runs" "db_baselines (dl_db db') = db_baselines s"
      using 1(6) sql_insert_InrD(1) [OF 1(1)] by simp_all
    show ?thesis
      unfolding committed(1) fields(3,4) if_P [OF refl]
      apply (rule exI [where x = r], rule exI [where x = a], rule exI [where x = targets])
      apply (rule exI [where x = keys], rule exI [where x = json], rule exI [where x = base])
      using E(1,2,4,5,7,9) complete_rows_succeed [OF 1(5) pair] fields(1,2) plan 1(3) base by blast
  qed
next
  case (late evidence)
  from late(3,2) show ?thesis by (rule late_evidenceE) (simp add: late(1))
qed

theorem completion_is_atomic_witness:
  "\<exists>db. complete_scheduled_run_success post_ext first_binding done_result 30 done_db =
      (Inr CompletionCommitted, db)
    \<and> dl_artifacts db = dl_artifacts done_db @ [new_artifact post_ext first_binding done_result 30]"
proof -
  obtain db where db: "complete_scheduled_run_success post_ext first_binding done_result 30 done_db =
      (Inr CompletionCommitted, db)"
    using done_sample by blast
  from completion_is_atomic [OF this] show ?thesis using db by auto
qed

section \<open>Overdue deliveries\<close>

lemma update_refused:
  assumes "d \<in> set (dl_deliveries db)" and "w d"
    and "\<not> delivery_triggers x c (dl_accepted db) d (f d)"
  shows "update_deliveries x c w f db = Inl (scheduler_error SQLITE_CONSTRAINT_TRIGGER)"
  using assms by (auto simp: update_deliveries_def list_ex_iff)

text \<open>C39: When the first due delivery has passed its deadline, peeking at work fails with a constraint
  error and changes nothing, at every later time too: the statement that expires the delivery clears
  the error message that the trigger on terminal failures requires.\<close>

theorem overdue_delivery_blocks_peek:
  assumes "select_min work_order (due_work db now) (dl_deliveries db) = Some d"
    and "scheduled_delivery_authority_from_row x d = Inr a"
    and "deadline_reached (da_scheduler_policy a) (da_payload_created_at a) now" and "0 \<le> now"
  shows "peek_scheduled_delivery_work x now db =
    (Inl (scheduler_error SQLITE_CONSTRAINT_TRIGGER), db)"
proof -
  have a: "da_delivery_id a = d_delivery_id d" "da_source_state a = d_state d"
      "d_state d = DPending \<or> d_state d = DFailedRetryable"
    using assms(2) by (auto simp: scheduled_delivery_authority_from_row_def split: if_splits)
  have "update_deliveries x False
      (\<lambda>e. d_delivery_id e = da_delivery_id a \<and> d_state e = da_source_state a) (expire_overdue now) db =
    Inl (scheduler_error SQLITE_CONSTRAINT_TRIGGER)"
    by (rule update_refused [of d])
      (use select_min_SomeD [OF assms(1)] a in
        \<open>auto simp: delivery_triggers_def expire_overdue_def readiness_rejection_ok_def\<close>)
  then show ?thesis using assms by (simp add: peek_scheduled_delivery_work_def)
qed

theorem overdue_delivery_blocks_peek_witness:
  "peek_scheduled_delivery_work post_ext 5000 post_db =
    (Inl (scheduler_error SQLITE_CONSTRAINT_TRIGGER), post_db)"
proof (rule overdue_delivery_blocks_peek)
  show "select_min work_order (due_work post_db 5000) (dl_deliveries post_db) = Some post_row"
    by (simp add: due_work_def send_blocked_def)
  show "scheduled_delivery_authority_from_row post_ext post_row = Inr post_authority"
    using post_target_read
    by (simp add: scheduled_delivery_authority_from_row_def)
      (simp add: post_row_def post_payload_def post_authority_def)
  show "deadline_reached (da_scheduler_policy post_authority) (da_payload_created_at post_authority) 5000"
    by (simp add: post_authority_def deadline_reached_def delivery_deadline_at_def checked_add_def
        in_i64_def i64_max_def i64_min_def default_policy_def)
qed simp

end
