(* ===== verification/Operator_Sample.thy ===== *)
theory Operator_Sample
  imports Delivery_Recovery
begin

text \<open>
  Concrete operator actions, evaluated step by step: a failed run is reopened, a confirmed no-write is
  retried early, and a send that was lost is forced again. The properties of operators are applied to
  them.
\<close>

section \<open>A request\<close>

definition op_request :: "i64 \<Rightarrow> operator_request" where
  "op_request now = \<lparr>or_principal = job_principal, or_request_id = ''run'',
     or_request_digest = zero_digest, or_occurred_at = now\<rparr>"

lemma op_request_simps [simp]:
  "or_request_digest (op_request now) = zero_digest" "or_occurred_at (op_request now) = now"
  by (simp_all add: op_request_def)

lemma op_request_valid [simp]: "0 \<le> now \<Longrightarrow> validate_operator_request (op_request now) = Inr ()"
  by (simp add: validate_operator_request_def op_request_def job_principal_def principal_validate_def
      check_all.simps)

lemma op_digest [simp]: "operator_action_request_digest post_ext a = zero_digest"
  by (simp add: operator_action_request_digest_def)

lemma op_binds [simp]: "validate_operator_action_request post_ext (op_request now) a = Inr ()"
  by (simp add: validate_operator_action_request_def)

lemma lost_reason_fields [simp]:
  "as_object lost_reason = Some lost_reason_fields" "length lost_reason_fields = 3"
  "map_of lost_reason_fields ''reason'' = Some (JStr ''r'')"
  "map_of lost_reason_fields ''reason_code'' = Some (JStr ''c'')"
  "map_of lost_reason_fields ''schema_version'' = Some (JInt 1)"
  by (simp_all add: lost_reason_def lost_reason_fields_def)

lemma lost_evidence_fields [simp]:
  "as_object lost_evidence = Some lost_evidence_fields" "length lost_evidence_fields = 13"
  "map_of lost_evidence_fields ''evidence_id'' = Some (JStr ''e'')"
  "map_of lost_evidence_fields ''evidence_version'' = Some (JInt 1)"
  "map_of lost_evidence_fields ''kind'' = Some (JStr ''operator_force_resend'')"
  "map_of lost_evidence_fields ''provider'' = Some (JStr ''w'')"
  "map_of lost_evidence_fields ''provider_query_completed_at'' = Some (JInt 300)"
  "map_of lost_evidence_fields ''provider_query_result'' = Some (JStr ''no_matching_write_found'')"
  "map_of lost_evidence_fields ''provider_query_scope'' = Some (JStr ''canonical_delivery_target'')"
  "map_of lost_evidence_fields ''provider_query_started_at'' = Some (JInt 290)"
  "map_of lost_evidence_fields ''provider_query_summary_digest'' = Some (JStr zero_digest)"
  "map_of lost_evidence_fields ''provider_query_window_end'' = Some (JInt 280)"
  "map_of lost_evidence_fields ''provider_query_window_start'' = Some (JInt 60)"
  "map_of lost_evidence_fields ''target_kind'' = Some (JStr ''channel'')"
  "map_of lost_evidence_fields ''tenant'' = Some (JStr ''t'')"
  by (simp_all add: lost_evidence_def lost_evidence_fields_def)

lemma op_reason_texts [simp]: "str_trim ''r'' = ''r''" "operator_reason_code_byte CHR ''c''"
  by code_simp+

lemma op_reason [simp]: "validate_operator_reason post_ext ''Q'' zero_digest = Inr ()"
  by (simp add: validate_operator_reason_def validate_canonical_json_def Let_def MAX_CONTEXT_BYTES_def
      MAX_SNAPSHOT_BYTES_def get_str_def get_u64_def)

lemma op_evidence [simp]:
  "validate_operator_delivery_evidence post_ext ''E'' zero_digest ''operator_force_resend'' None = Inr ()"
  by (simp add: validate_operator_delivery_evidence_def expected_query_result_def evidence_keys_def
      has_exactly_def get_str_def get_u64_def get_i64_def validate_identity_fields_def
      validate_evidence_query_def check_all.simps Let_def)

lemma op_recorded:
  assumes "dl_actions db = []" and "action_check post_ext a" and "reason_authority_ok post_ext a" and "0 \<le> now"
  shows "insert_operator_action post_ext (op_request now) a db =
    Inr (db \<lparr>dl_actions := [new_operator_row post_ext (op_request now) a]\<rparr>, ActionInserted)"
proof -
  have "operator_check post_ext (new_operator_row post_ext (op_request now) a)"
    using assms(2,4)
    by (simp add: operator_check_def new_operator_row_def operator_action_id_def hex_digest_def
        op_request_def Let_def)
  then show ?thesis
    using assms(1,3) by (simp add: insert_operator_action_def sql_insert_def operator_unique_def)
qed

lemma op_reason_stored: "reason_text_ok post_ext ''Q''"
  by (simp add: reason_text_ok_def lost_reason_def sql_trimmed_def)

section \<open>A failed run\<close>

definition retried_db :: delivery_db where
  "retried_db = post_db \<lparr>dl_db := created_db \<lparr>db_runs := empty_store \<lparr>st_runs := [failed_run_row]\<rparr>\<rparr>,
     dl_deliveries := [], dl_attempts := []\<rparr>"

definition retry_time :: i64 where
  "retry_time = 100 + uint (run_retry_delay_seconds default_policy ''run'' 1)"

lemma retry_time_bounds: "100 \<le> retry_time" "retry_time \<le> 400"
proof -
  have "unat (run_retry_delay_seconds default_policy ''run'' 1) \<le> unat (run_retry_max_seconds default_policy)"
    unfolding run_retry_delay_seconds_def by (rule delay_le_cap)
  moreover have "unat (run_retry_max_seconds default_policy) = 300" by (simp add: default_policy_def)
  moreover have "uint (run_retry_delay_seconds default_policy ''run'' 1) =
      int (unat (run_retry_delay_seconds default_policy ''run'' 1))" by simp
  ultimately have "uint (run_retry_delay_seconds default_policy ''run'' 1) \<le> 300" by linarith
  then show "100 \<le> retry_time" "retry_time \<le> 400" by (simp_all add: retry_time_def)
qed

lemma retry_planned: "run_retry_at default_policy ''run'' 1 5 100 = Some retry_time"
  using retry_time_bounds
  by (simp add: run_retry_at_def retry_time_def checked_add_def run_deadline_at_def can_retry_def
      in_i64_def i64_min_def i64_max_def default_policy_def)

lemma failed_row_simps [simp]:
  "r_run_id failed_run_row = ''run''" "r_attempt failed_run_row = 1" "r_fence failed_run_row = 1"
  "r_state failed_run_row = Failed" "r_result_artifact_id failed_run_row = None"
  "r_policy_version failed_run_row = 1" "r_policy_json failed_run_row = ''[1]''"
  "r_scheduled_for failed_run_row = 5"
  by (simp_all add: failed_run_row_def sample_run_def)

lemma retried_db_simps [simp]:
  "dl_actions retried_db = []" "dl_consumptions retried_db = []"
  "st_runs (db_runs (dl_db retried_db)) = [failed_run_row]" "dl_deliveries retried_db = []"
  "find_run ''run'' 1 1 retried_db = Some failed_run_row" "find_request r retried_db = None"
  by (simp_all add: retried_db_def post_db_def find_run_def find_request_def)

lemma retried_inv: "system_inv post_ext 100 retried_db"
proof -
  have "run_check post_ext failed_run_row"
    by (simp add: run_check_def failed_run_row_def sample_run_def lease_states_def slot_states_def)
  moreover have "timely 100 (dl_db retried_db)"
    unfolding timely_def retried_db_simps
    by (simp add: retried_db_def created_db_def new_schedule_def)
  ultimately show ?thesis
    by (simp add: system_inv_def sched_inv_def store_inv_def delivery_inv_def table_ok_def
        delivery_unique_def delivery_attempt_unique_def accepted_unique_def sends_coherent_def
        baselines_truthful_def operator_unique_def audit_ok_def run_unique_def attempt_unique_def
        evidence_unique_def coherent_def evidence_bounded_def live_state_def)
      (simp add: retried_db_def post_db_def created_db_def empty_store_def job_row_checks job_proof_def
        table_ok_def attempt_unique_def evidence_unique_def accepted_unique_def)
qed

lemma retried_sample:
  "\<exists>db'. operator_retry_scheduled_run post_ext (op_request 100) ''run'' 1 1 ''Q'' zero_digest retry_time
     retried_db = (Inr OperatorApplied, db')"
proof -
  let ?a = "retry_run_action ''run'' 1 1 Failed ''Q'' zero_digest retry_time"
  let ?act = "new_operator_row post_ext (op_request 100) ?a"
  let ?db = "retried_db \<lparr>dl_actions := [?act]\<rparr>"
  have "action_check post_ext ?a" "reason_authority_ok post_ext ?a"
    using retry_time_bounds
    by (simp_all add: action_check_def retry_run_action_def target_id_check_def reason_authority_ok_def
        op_reason_stored hex_digest_def)
  then have ins: "insert_operator_action post_ext (op_request 100) ?a retried_db = Inr (?db, ActionInserted)"
    by (intro op_recorded) simp_all
  have auth: "run_authorizing failed_run_row (reopen_row retry_time 100 failed_run_row) ?db = [?act]"
    by (simp add: run_authorizing_def Let_def retry_run_action_def reopen_row_def unconsumed_def
        new_operator_row_def)
  have check: "run_check post_ext (reopen_row retry_time 100 failed_run_row)"
    by (simp add: run_check_def reopen_row_def failed_run_row_def sample_run_def lease_states_def
        slot_states_def)
  have "\<exists>db'. reopen_audited post_ext ''run'' 1 1 Failed retry_time 100 ?db = Inr (db', 1)"
    using auth check
    by (simp add: reopen_audited_def reopen_run_def update_runs_def sql_update_def reopen_selects_def
        run_unique_def Let_def consumption_check_def run_consumption_def target_id_check_def)
      (simp add: reopen_row_def)
  then obtain db' where "reopen_audited post_ext ''run'' 1 1 Failed retry_time 100 ?db = Inr (db', 1)" ..
  then have "retry_found_run post_ext (op_request 100) failed_run_row ''Q'' zero_digest retry_time retried_db =
      Inr (db', Inr OperatorApplied)"
    using ins by (simp add: retry_found_run_def retry_planned after_insert_def)
  then show ?thesis
    using retry_time_bounds
    by (simp add: operator_retry_scheduled_run_def existing_operator_request_def reopenable_states_def
        transact_delivery_def)
qed

section \<open>A lost send\<close>

lemma sql_length_le: "sql_length s \<le> length s"
  unfolding sql_length_def
  by (rule order_trans [OF length_filter_le]) (simp add: length_takeWhile_le)

lemma update_authorized_row:
  assumes "dl_deliveries db = [d]" and "w d" and "delivery_check x (f d)"
    and "delivery_triggers x c (dl_accepted db) d (f d)"
    and "authorizing x db d (f d) = [act]" and "consumption_check (consumption_of (f d) act)"
  shows "\<exists>db'. update_deliveries x c w f db = Inr (db', 1) \<and> dl_deliveries db' = [f d]"
proof -
  have "delivery_unique [f d]" by (simp add: delivery_unique_def)
  moreover have "spends x w f db = [(f d, act)]" using assms(1,2,5) by (simp add: spends_def)
  moreover have "operator_trigger_ok x db d (f d)" using assms(5) by (simp add: operator_trigger_ok_def)
  ultimately show ?thesis using assms by (simp add: update_deliveries_def sql_update_def Let_def)
qed

definition lost_row :: delivery_row where
  "lost_row = unknown_row 200 sending_row"

definition lost_db :: delivery_db where
  "lost_db = post_db \<lparr>dl_deliveries := [lost_row], dl_attempts := [first_send, unknown_attempt 200 second_send]\<rparr>"

definition resend :: unknown_action where
  "resend = ForceResend ''E'' zero_digest ''Q'' zero_digest True"

definition resend_authority :: operator_action where
  "resend_authority = \<lparr>oa_action = ''force_delivery_resend'', oa_target_kind = ''delivery'',
     oa_target_id = post_id, oa_expected_attempt = 2, oa_expected_fence = 2,
     oa_before_state = ''delivery_unknown'', oa_after_state = ''pending'',
     oa_evidence_json = Some ''E'', oa_evidence_digest = Some zero_digest,
     oa_reason_json = Some ''Q'', oa_reason_digest = Some zero_digest, oa_provider_receipt = None,
     oa_duplicate_risk_acknowledged = True, oa_effective_at = 310\<rparr>"

definition resent_row :: delivery_row where
  "resent_row = resolve_delivery (unknown_transition resend) 310 lost_row"

lemma resend_parts: "authority_parts post_ext resend post_id 2 2 310 = Inr resend_authority"
  by (simp add: authority_parts_def resend_def resend_authority_def)

lemma lost_simps [simp]:
  "d_delivery_id lost_row = post_id" "d_attempt lost_row = 2" "d_fence lost_row = 2"
  "d_state lost_row = DDeliveryUnknown" "d_payload lost_row = Some post_payload"
  "d_target_json lost_row = ''O''" "dl_deliveries lost_db = [lost_row]" "dl_actions lost_db = []"
  "dl_consumptions lost_db = []" "dl_accepted lost_db = []" "find_request r lost_db = None"
  by (simp_all add: lost_row_def unknown_row_def lost_db_def find_request_def) (simp_all add: post_db_def)

lemma lost_inv: "system_inv post_ext 200 lost_db"
proof -
  have "delivery_check post_ext lost_row"
    unfolding lost_row_def by (rule unknown_row_ok(1) [OF sending_check]) simp_all
  moreover have "delivery_attempt_check (unknown_attempt 200 second_send)"
    using second_check by (auto simp: delivery_attempt_check_def unknown_attempt_def state_outcome_def)
  moreover have "attempt_ok db lost_row first_send" "attempt_ok db lost_row (unknown_attempt 200 second_send)"
    for db
    by (simp_all add: attempt_ok_def settled_def follows_def resendable_def unknown_attempt_def)
  moreover have "sched_inv post_ext 200 (dl_db lost_db)"
    using post_inv sched_inv_later [of post_ext 50 "dl_db post_db" 200]
    by (simp add: system_inv_def lost_db_def)
  moreover have "delivery_attempt_check first_send"
    using post_inv by (simp add: system_inv_def delivery_inv_def table_ok_def)
  ultimately show ?thesis
    by (simp add: system_inv_def delivery_inv_def table_ok_def delivery_unique_def accepted_unique_def
        sends_coherent_def baselines_truthful_def operator_unique_def audit_ok_def)
      (simp add: lost_db_def delivery_attempt_unique_def unknown_attempt_def)
qed

lemma post_fields [simp]:
  "value_get post_target ''kind'' = Some (JStr ''channel'')"
  by (simp add: post_target_def)

lemma post_route:
  "\<exists>route. from_canonical_target_json post_ext ''O'' = Inr route \<and> route_provider route = ''w''
     \<and> route_tenant route = ''t'' \<and> route_kind route = ''channel''"
proof -
  obtain m where m: "post_target = JObj m" "map_of m ''provider'' = Some (JStr ''w'')"
      "map_of m ''connector'' = Some (JStr ''c'')" "map_of m ''tenant'' = Some (JStr ''t'')"
      "map_of m ''kind'' = Some (JStr ''channel'')" "map_of m ''resolver_digest'' = Some (JStr ''c'')"
      "map_of m ''identity_digest'' = Some (JStr zero_digest)"
      "map_of m ''resolver_version'' = Some (JInt 1)" "map_of m ''address'' = Some post_address"
      "length m = 8"
    by (simp add: post_target_def)
  have obj: "as_object post_target = Some m" unfolding m(1) by simp
  have "\<exists>ident. parse_delivery_target_route_address post_address ''t'' ''channel'' =
      Inr (''c'', None, zero_digest, ident)"
    by (simp add: parse_delivery_target_route_address_def post_address_def has_exactly_def
        required_delivery_route_text_def validate_delivery_route_authority_def
        validate_delivery_route_evidence_def Let_def)
  then obtain ident where "parse_delivery_target_route_address post_address ''t'' ''channel'' =
      Inr (''c'', None, zero_digest, ident)" ..
  then have "from_canonical_target_json post_ext ''O'' = Inr \<lparr>route_provider = ''w'', route_tenant = ''t'',
      route_kind = ''channel'', route_conversation_id = ''c'', route_thread_id = None,
      route_requested_identity_digest = zero_digest\<rparr>"
    using m(2-10) obj
    by (simp add: from_canonical_target_json_def has_exactly_def required_delivery_route_text_def
        check_all.simps u32_max_def del: rbind_eq_Inr)
  then show ?thesis by simp
qed

lemma lost_binding: "validate_operator_delivery_target_binding post_ext ''O'' resend = Inr ()"
proof -
  have "operator_delivery_evidence_binding post_ext resend = Inr (''w'', ''t'', ''channel'')"
    by (simp add: operator_delivery_evidence_binding_def authority_parts_def resend_def get_str_def)
  moreover obtain route where "from_canonical_target_json post_ext ''O'' = Inr route"
      "route_provider route = ''w''" "route_tenant route = ''t''" "route_kind route = ''channel''"
    using post_route by blast
  ultimately show ?thesis
    by (simp add: validate_operator_delivery_target_binding_def del: rbind_eq_Inr)
      (simp add: resend_def)
qed

lemma resent_check: "delivery_check post_ext resent_row"
proof -
  have "intent_check resent_row"
    by (rule post_intent_check)
      (simp_all add: resent_row_def lost_row_def unknown_row_def sending_row_def delivery_snapshot_def
        resolve_delivery_def)
  then show ?thesis
    by (simp add: post_check_defs resent_row_def resolve_delivery_def unknown_transition_def resend_def
        lost_row_def unknown_row_def sending_row_def post_row_def)
qed

lemma resent_triggers: "delivery_triggers post_ext True [] lost_row resent_row"
  by (simp add: delivery_triggers_def resent_row_def resolve_delivery_def unknown_transition_def resend_def
      lost_row_def unknown_row_def sending_row_def delivery_identity_def state_transition_ok_def
      claimed_baseline_ok_def)

definition resent_db :: delivery_db where
  "resent_db = snd (operator_act_on_unknown_delivery post_ext (op_request 310) post_id 2 2 resend lost_db)"

lemma resent_sample:
  "operator_act_on_unknown_delivery post_ext (op_request 310) post_id 2 2 resend lost_db =
     (Inr OperatorApplied, resent_db) \<and> dl_deliveries resent_db = [resent_row]"
proof -
  let ?act = "new_operator_row post_ext (op_request 310) resend_authority"
  let ?db = "lost_db \<lparr>dl_actions := [?act]\<rparr>"
  have "sql_length post_id \<le> 2177" by (rule order_trans [OF sql_length_le]) simp
  then have "action_check post_ext resend_authority" "reason_authority_ok post_ext resend_authority"
    by (simp_all add: action_check_def resend_authority_def target_id_check_def reason_authority_ok_def
        op_reason_stored hex_digest_def Suc_le_eq)
  then have ins: "insert_operator_action post_ext (op_request 310) resend_authority lost_db =
      Inr (?db, ActionInserted)"
    by (intro op_recorded) simp_all
  have row: "resolve_delivery (unknown_transition resend) 310 lost_row = resent_row"
    by (simp add: resent_row_def)
  have "authorizes post_ext lost_row resent_row ?act"
    by (simp add: authorizes_def Let_def new_operator_row_def resend_authority_def resent_row_def
        unknown_transition_def resend_def resolve_delivery_def resolution_ok_def query_bound_def
        evidence_field_def lost_evidence_def hex_digest_def)
  then have "authorizing post_ext ?db lost_row resent_row = [?act]"
    by (simp add: authorizing_def unconsumed_def)
  moreover have "consumption_check (consumption_of resent_row ?act)"
    using \<open>sql_length post_id \<le> 2177\<close>
    by (simp add: consumption_check_def consumption_of_def target_id_check_def resent_row_def
        resolve_delivery_def Suc_le_eq)
  ultimately obtain db' where db': "update_deliveries post_ext True (\<lambda>d. d_delivery_id d = post_id
        \<and> d_attempt d = 2 \<and> d_fence d = 2 \<and> d_state d = DDeliveryUnknown \<and> d_payload d \<noteq> None)
        (resolve_delivery (unknown_transition resend) 310) ?db = Inr (db', 1)"
      "dl_deliveries db' = [resent_row]"
    using update_authorized_row [of ?db lost_row "\<lambda>d. d_delivery_id d = post_id
        \<and> d_attempt d = 2 \<and> d_fence d = 2 \<and> d_state d = DDeliveryUnknown \<and> d_payload d \<noteq> None" post_ext
        "resolve_delivery (unknown_transition resend) 310" True ?act] resent_check resent_triggers row
    by auto
  have "dt_state (unknown_transition resend) = DPending"
    by (simp add: unknown_transition_def resend_def)
  then have "act_on_found_delivery post_ext (op_request 310) post_id 2 2 resend_authority resend lost_db =
      Inr (db', Inr OperatorApplied)"
    using ins db'(1)
    by (simp add: act_on_found_delivery_def after_insert_def apply_unknown_delivery_operator_action_def
        resend_def Let_def)
  then have "operator_act_on_unknown_delivery post_ext (op_request 310) post_id 2 2 resend lost_db =
      (Inr OperatorApplied, db')"
    using lost_binding resend_parts
    by (simp add: operator_act_on_unknown_delivery_def existing_operator_request_def
        transact_delivery_def)
  then show ?thesis using db'(2) by (simp add: resent_db_def)
qed

lemma resent_later: "leads_to cal post_ext (200, lost_db) (310, resent_db)"
  unfolding resent_db_def by (rule lt_step [OF lt_refl _ ds_unknown]) simp

text \<open>The action that forced the resend is recorded and spent.\<close>

lemma resent_spent: "dl_actions resent_db \<noteq> [] \<and> dl_consumptions resent_db \<noteq> []"
proof -
  have "unknown_kept lost_db resent_db"
    using leads_to_inv [OF resent_later [of no_calendar]] lost_inv by simp
  moreover have "d_state resent_row = DPending"
    by (simp add: resent_row_def resolve_delivery_def unknown_transition_def resend_def)
  then have "resent_row \<noteq> lost_row" by auto
  ultimately have "resolved_by_operator resent_db lost_row"
    using resent_sample by (auto simp: unknown_kept_def)
  then show ?thesis by (auto simp: resolved_by_operator_def unconsumed_def)
qed

section \<open>A confirmed no-write\<close>

definition early_row :: delivery_row where
  "early_row = post_row \<lparr>d_state := DFailedRetryable, d_next_attempt_at := Some 1000,
     d_claimed_baseline_version := Some 0, d_provider_outcome := Some ''confirmed_no_write_retryable'',
     d_error_kind := Some ''kind''\<rparr>"

definition early_db :: delivery_db where
  "early_db = post_db \<lparr>dl_deliveries := [early_row]\<rparr>"

definition early_time :: i64 where
  "early_time = 100 + uint (delivery_retry_delay_seconds default_policy post_id 1)"

lemma early_time_bounds: "100 \<le> early_time" "early_time \<le> 400"
proof -
  have "unat (delivery_retry_delay_seconds default_policy post_id 1) \<le> unat (delivery_retry_max_seconds default_policy)"
    unfolding delivery_retry_delay_seconds_def by (rule delay_le_cap)
  moreover have "unat (delivery_retry_max_seconds default_policy) = 300" by (simp add: default_policy_def)
  moreover have "uint (delivery_retry_delay_seconds default_policy post_id 1) =
      int (unat (delivery_retry_delay_seconds default_policy post_id 1))" by simp
  ultimately have "uint (delivery_retry_delay_seconds default_policy post_id 1) \<le> 300" by linarith
  then show "100 \<le> early_time" "early_time \<le> 400" by (simp_all add: early_time_def)
qed

lemma early_simps [simp]:
  "d_delivery_id early_row = post_id" "d_attempt early_row = 1" "d_fence early_row = 1"
  "d_state early_row = DFailedRetryable" "d_payload early_row = Some post_payload"
  "d_policy_version early_row = 1" "d_policy_json early_row = ''[1]''"
  "pc_created_at post_payload = 40" "dl_deliveries early_db = [early_row]" "dl_actions early_db = []"
  "dl_consumptions early_db = []" "dl_accepted early_db = []" "find_request r early_db = None"
  by (simp_all add: early_row_def early_db_def find_request_def post_payload_def) (simp_all add: post_db_def)

lemma early_planned: "planned_delivery_retry post_ext early_row 100 = Inr (Some early_time)"
proof -
  have "delivery_retry_at default_policy post_id 1 40 100 None = Inr (Some early_time)"
    using early_time_bounds
    by (simp add: delivery_retry_at_def retry_after_delay_def checked_add_def delivery_deadline_at_def
        can_retry_def in_i64_def i64_min_def i64_max_def early_time_def)
      (simp add: default_policy_def)
  then show ?thesis by (simp add: planned_delivery_retry_def)
qed

lemma early_check: "delivery_check post_ext early_row"
  "delivery_check post_ext (retry_delivery_row early_time early_row)"
proof -
  have "intent_check early_row" "intent_check (retry_delivery_row early_time early_row)"
    by (rule post_intent_check; simp add: early_row_def retry_delivery_row_def delivery_snapshot_def)+
  then show "delivery_check post_ext early_row"
      "delivery_check post_ext (retry_delivery_row early_time early_row)"
    using early_time_bounds
    by (simp_all add: post_check_defs early_row_def retry_delivery_row_def post_row_def)
qed

lemma early_inv: "system_inv post_ext 50 early_db"
proof -
  have "attempt_ok db early_row first_send" for db
    by (simp add: attempt_ok_def settled_def follows_def resendable_def)
  then show ?thesis
    using post_inv early_check(1)
    by (simp add: system_inv_def delivery_inv_def table_ok_def delivery_unique_def
        sends_coherent_def baselines_truthful_def operator_unique_def audit_ok_def)
      (simp add: early_db_def)
qed

lemma early_sample:
  "\<exists>db'. operator_retry_scheduled_delivery post_ext (op_request 100) post_id 1 1 ''Q'' zero_digest early_db =
     (Inr OperatorApplied, db')"
proof -
  let ?a = "retry_delivery_action post_id 1 1 ''Q'' zero_digest early_time"
  let ?act = "new_operator_row post_ext (op_request 100) ?a"
  let ?db = "early_db \<lparr>dl_actions := [?act]\<rparr>"
  let ?new = "retry_delivery_row early_time early_row"
  have len: "sql_length post_id \<le> 2177" by (rule order_trans [OF sql_length_le]) simp
  then have "action_check post_ext ?a" "reason_authority_ok post_ext ?a"
    using early_time_bounds
    by (simp_all add: action_check_def retry_delivery_action_def target_id_check_def
        reason_authority_ok_def hex_digest_def Suc_le_eq)
  then have ins: "insert_operator_action post_ext (op_request 100) ?a early_db = Inr (?db, ActionInserted)"
    by (intro op_recorded) simp_all
  have "authorizing post_ext ?db early_row ?new = [?act]"
    using early_time_bounds
    by (simp add: authorizing_def unconsumed_def authorizes_def Let_def new_operator_row_def
        retry_delivery_action_def retry_delivery_row_def)
  moreover have "consumption_check (consumption_of ?new ?act)"
    using len early_time_bounds
    by (simp add: consumption_check_def consumption_of_def target_id_check_def retry_delivery_row_def
        Suc_le_eq)
  moreover have "delivery_triggers post_ext True [] early_row ?new"
    by (simp add: delivery_triggers_def retry_delivery_row_def early_row_def delivery_identity_def
        state_transition_ok_def claimed_baseline_ok_def)
  ultimately obtain db' where "update_deliveries post_ext True (\<lambda>e. d_delivery_id e = post_id
        \<and> d_attempt e = 1 \<and> d_fence e = 1 \<and> d_state e = DFailedRetryable \<and> d_payload e \<noteq> None)
        (retry_delivery_row early_time) ?db = Inr (db', 1)"
    using update_authorized_row [of ?db early_row "\<lambda>e. d_delivery_id e = post_id
        \<and> d_attempt e = 1 \<and> d_fence e = 1 \<and> d_state e = DFailedRetryable \<and> d_payload e \<noteq> None" post_ext
        "retry_delivery_row early_time" True ?act] early_check(2)
    by auto
  then have "retry_found_delivery post_ext (op_request 100) early_row ''Q'' zero_digest early_db =
      Inr (db', Inr OperatorApplied)"
    using ins by (simp add: retry_found_delivery_def early_planned after_insert_def)
  moreover have "validate_canonical_json post_ext f ''Q'' = Inr ()" for f
    by (simp add: validate_canonical_json_def MAX_SNAPSHOT_BYTES_def)
  ultimately show ?thesis
    by (simp add: operator_retry_scheduled_delivery_def find_retryable_def transact_delivery_def
        MAX_CONTEXT_BYTES_def)
qed

end
