(* ===== verification/Operator_Properties.thy ===== *)
theory Operator_Properties
  imports Operator_Sample
begin

text \<open>
  The invariant of the store, and what trusted operators can and cannot do: a retried run is reopened under the one action that was
  recorded for it, a repeated request changes nothing, an unknown delivery stays as it is until an
  operator's action is spent on it, and every action is spent at most once, on its own target.
\<close>

text \<open>An acknowledgement records that the outcome stays unknown.\<close>

definition acknowledges_only :: "unknown_action \<Rightarrow> bool" where
  "acknowledges_only action \<longleftrightarrow> (case action of AcknowledgeUnknown _ _ \<Rightarrow> True | _ \<Rightarrow> False)"

section \<open>The invariant of the store\<close>

text \<open>C1: Starting from an empty store, or from any database that satisfies them, the invariants of runs,
  jobs, deliveries and operator actions hold in every database that job, run, completion, delivery and
  operator operations can lead to under a clock that does not go back: every send in flight is carried by
  exactly one attempt with its fence, owner, lease and idempotency key; every earlier attempt was confirmed
  not to have written or its resend forced; every accepted baseline names the payload of a delivery with
  its key that was delivered, or that was accepted without being sent because its target is none; and no
  operator action is spent twice. The runs are a history of the run store alone.\<close>

theorem reachable_system_invariant:
  assumes "leads_to cal x (t, db0) (now, db)"
    and "initial_system db0 \<or> system_inv x t db0 \<and> reachable x (db_runs (dl_db db0))"
  shows "system_inv x now db \<and> reachable x (db_runs (dl_db db))"
proof -
  have "initial_store (db_runs (dl_db db0)) \<Longrightarrow> reachable x (db_runs (dl_db db0))"
    by (auto simp: reachable_def)
  then have "system_inv x t db0" "reachable x (db_runs (dl_db db0))"
    using assms(2) initial_system_inv [of db0 x t] by (auto simp: initial_system_def initial_db_def)
  then show ?thesis using leads_to_inv [OF assms(1)] reachable_steps by auto
qed

theorem reachable_system_invariant_witness:
  "system_inv job_ext 10 created_system \<and> db_jobs (dl_db created_system) \<noteq> []
    \<and> system_inv post_ext 100 delivered_db \<and> reachable post_ext (db_runs (dl_db delivered_db))
    \<and> dl_deliveries delivered_db = [delivered_row] \<and> length (dl_attempts delivered_db) = 2
    \<and> length (dl_accepted delivered_db) = 1
    \<and> system_inv post_ext 310 resent_db \<and> dl_deliveries resent_db = [resent_row]
    \<and> dl_actions resent_db \<noteq> [] \<and> dl_consumptions resent_db \<noteq> []"
proof -
  have runs: "reachable post_ext (db_runs (dl_db post_db))" "reachable post_ext (db_runs (dl_db lost_db))"
    using created_runs by (simp_all add: post_db_def lost_db_def)
  have "db_jobs (dl_db created_system) \<noteq> []" by (simp add: created_system_def created_db_def)
  moreover have "dl_actions resent_db \<noteq> [] \<and> dl_consumptions resent_db \<noteq> []"
    by (rule resent_spent)
  ultimately show ?thesis
    using reachable_system_invariant [OF created_later [of no_calendar]] empty_system_initial
      reachable_system_invariant [OF delivered_later [of no_calendar]] post_inv runs
      reachable_system_invariant [OF resent_later [of no_calendar]] lost_inv
      delivered_tables resent_sample
    by simp
qed

section \<open>Recorded requests\<close>

lemma find_recorded:
  assumes "delivery_inv x db" and "act \<in> set (dl_actions db)"
    and "op_principal act = or_principal request" and "op_request_id act = or_request_id request"
  shows "find_request request db = Some act"
proof (cases "find_request request db")
  case None
  then show ?thesis using assms(2-4) by (auto simp: find_request_def find_None_iff)
next
  case (Some r)
  then have r: "r \<in> set (dl_actions db)" "op_principal r = or_principal request"
      "op_request_id r = or_request_id request"
    by (auto simp: find_request_def find_Some_iff)
  have "distinct (map (\<lambda>r. (op_principal r, op_request_id r)) (dl_actions db))"
    using delivery_invD(6) [OF assms(1)] by (simp add: table_ok_def operator_unique_def)
  then have "r = act" using r assms(2-4) by (auto simp: distinct_map inj_on_def)
  then show ?thesis using Some by simp
qed

lemma new_row_simps [simp]:
  "op_principal (new_operator_row x request a) = or_principal request"
  "op_request_id (new_operator_row x request a) = or_request_id request"
  "op_request_digest (new_operator_row x request a) = or_request_digest request"
  "op_occurred_at (new_operator_row x request a) = or_occurred_at request"
  "op_authority (new_operator_row x request a) = a"
  by (simp_all add: new_operator_row_def)

text \<open>A request is answered from the audit wherever it is repeated later.\<close>

lemma recorded_later:
  assumes "delivery_inv x db'" and "audit_grows db db'"
    and "new_operator_row x request a \<in> set (dl_actions db)"
  shows "find_request request db' = Some (new_operator_row x request a)"
    and "existing_operator_request request db' = Some OperatorReplay"
proof -
  show found: "find_request request db' = Some (new_operator_row x request a)"
    by (rule find_recorded [OF assms(1)]) (use assms(2,3) in \<open>auto simp: audit_grows_def\<close>)
  show "existing_operator_request request db' = Some OperatorReplay"
    by (simp add: existing_operator_request_def found)
qed

lemma skeeps_system: "skeeps x db db' \<Longrightarrow> system_inv x now db \<Longrightarrow> system_inv x now db'"
  by (simp add: system_inv_def skeeps_def dkeeps_def)

lemma transact_applied:
  assumes "transact_delivery db m = (Inr v, db')"
  shows "m = Inr (db', Inr v)"
  using assms by (cases rule: transact_delivery_cases) auto



section \<open>Retrying a run\<close>

text \<open>What an applied retry has checked and written.\<close>

lemma applied_retryE:
  assumes "operator_retry_scheduled_run x request i attempt fence reason digest next_at db =
      (Inr OperatorApplied, db')"
  obtains r policy db1 where "find_run i attempt fence db = Some r"
    "r_state r \<in> set reopenable_states" "r_result_artifact_id r = None"
    "scheduler_policy_from_snapshot x (r_policy_version r) (r_policy_json r) = Inr policy"
    "run_retry_at policy (r_run_id r) (r_attempt r) (r_scheduled_for r) (or_occurred_at request) =
       Some next_at"
    "dpreserves x db db1"
    "db1 = db \<lparr>dl_actions := dl_actions db @ [new_operator_row x request (retry_run_action
       (r_run_id r) (r_attempt r) (r_fence r) (r_state r) reason digest next_at)]\<rparr>"
    "reopen_audited x (r_run_id r) (r_attempt r) (r_fence r) (r_state r) next_at
       (or_occurred_at request) db1 = Inr (db', 1)"
proof -
  note body = transact_applied [OF assms [unfolded operator_retry_scheduled_run_def]]
  obtain r where r: "find_run i attempt fence db = Some r" "r_state r \<in> set reopenable_states"
      "r_result_artifact_id r = None"
      "retry_found_run x request r reason digest next_at db = Inr (db', Inr OperatorApplied)"
    using body by (auto split: if_splits option.splits simp: existing_operator_request_def)
  then obtain policy where policy:
      "scheduler_policy_from_snapshot x (r_policy_version r) (r_policy_json r) = Inr policy"
      "run_retry_at policy (r_run_id r) (r_attempt r) (r_scheduled_for r) (or_occurred_at request) =
         Some next_at"
    and rec: "rbind (lift (insert_operator_action x request (retry_run_action (r_run_id r)
        (r_attempt r) (r_fence r) (r_state r) reason digest next_at) db))
        (after_insert db (\<lambda>db1. rbind (lift (reopen_audited x (r_run_id r) (r_attempt r) (r_fence r)
          (r_state r) next_at (or_occurred_at request) db1)) (\<lambda>(db2, n).
          if n \<noteq> 1 then Inr (db, Inr OperatorConflict) else Inr (db2, Inr OperatorApplied)))) =
        Inr (db', Inr OperatorApplied)"
    unfolding retry_found_run_def
    by (cases "scheduler_policy_from_snapshot x (r_policy_version r) (r_policy_json r)")
      (auto split: if_splits)
  from rec show thesis
  proof (cases rule: recordedE)
    case (continue db1)
    then show thesis
      using that [OF r(1-3) policy continue(1,3)] by (auto split: if_splits)
  qed auto
qed





text \<open>An applied retry of a run is idempotent: the same request, repeated at any later point of the
  history, is answered as a replay and changes nothing, whatever has become of the run since.\<close>

lemma applied_run_retry_replays:
  assumes "system_inv x now db"
    and "operator_retry_scheduled_run x request i attempt fence reason digest next_at db =
      (Inr OperatorApplied, db1)"
    and "leads_to cal x (now, db1) (later, db2)"
  shows "operator_retry_scheduled_run x request i attempt fence reason digest next_at db2 =
    (Inr OperatorReplay, db2)"
proof -
  have "system_inv x now db1"
    using skeeps_system [OF retry_run_skeeps assms(1)] assms(2) by (metis snd_conv)
  then have inv: "delivery_inv x db2" by (rule leads_to_delivery_inv [OF _ assms(3)])
  obtain a where "new_operator_row x request a \<in> set (dl_actions db1)"
    using assms(2)
  proof (cases rule: applied_retryE)
    case (1 r policy db0)
    from 1(8) show thesis
      by (cases rule: reopen_auditedE) (use 1(7) that in auto)
  qed
  then have "existing_operator_request request db2 = Some OperatorReplay"
    using recorded_later(2) [OF inv] leads_to_audit [OF assms(3)] by simp
  then show ?thesis
    using transact_applied [OF assms(2) [unfolded operator_retry_scheduled_run_def]]
    by (auto simp: operator_retry_scheduled_run_def transact_delivery_def split: if_splits)
qed

lemma applied_delivery_retryE:
  assumes "operator_retry_scheduled_delivery x request i attempt fence reason digest db =
      (Inr OperatorApplied, db')"
  obtains t where "new_operator_row x request (retry_delivery_action i attempt fence reason digest t)
      \<in> set (dl_actions db')"
    "or_request_digest request = operator_action_request_digest x
       (retry_delivery_action i attempt fence reason digest t)"
proof -
  note body = transact_applied [OF assms [unfolded operator_retry_scheduled_delivery_def]]
  obtain d where d: "find_retryable i attempt fence db = Some d"
      "retry_found_delivery x request d reason digest db = Inr (db', Inr OperatorApplied)"
    using body by (auto split: if_splits option.splits)
  have keys: "d_delivery_id d = i" "d_attempt d = attempt" "d_fence d = fence"
    using d(1) by (auto simp: find_retryable_def find_Some_iff)
  obtain t where "rbind (lift (insert_operator_action x request (retry_delivery_action i attempt fence
        reason digest t) db)) (after_insert db (\<lambda>db1. rbind (lift (update_deliveries x True
          (retry_selects d) (retry_delivery_row t) db1)) (\<lambda>(db2, n).
          if n \<noteq> 1 then Inr (db, Inr OperatorConflict) else Inr (db2, Inr OperatorApplied)))) =
        Inr (db', Inr OperatorApplied)"
    using d(2) unfolding retry_found_delivery_def retry_selects_def [abs_def] keys
    by (cases "planned_delivery_retry x d (or_occurred_at request)") (auto split: option.splits)
  then show thesis
  proof (cases rule: recordedE)
    case (continue db1)
    then obtain n where "update_deliveries x True (retry_selects d) (retry_delivery_row t) db1 = Inr (db', n)"
      by (auto split: if_splits)
    then have "dl_actions db' = dl_actions db1" by (rule update_deliveries_InrD(7))
    then show thesis using that [of t] continue(3,4) by simp
  qed auto
qed

text \<open>An applied retry of a delivery is idempotent: the same request, repeated at any later point of the
  history, is answered as a replay and changes nothing.\<close>

lemma applied_delivery_retry_replays:
  assumes "system_inv x now db"
    and "operator_retry_scheduled_delivery x request i attempt fence reason digest db =
      (Inr OperatorApplied, db1)"
    and "leads_to cal x (now, db1) (later, db2)"
  shows "operator_retry_scheduled_delivery x request i attempt fence reason digest db2 =
    (Inr OperatorReplay, db2)"
proof -
  have "system_inv x now db1"
    using skeeps_system [OF skeeps_deliveries [OF retry_delivery_preserves] assms(1)] assms(2)
    by (metis snd_conv)
  then have inv: "delivery_inv x db2" by (rule leads_to_delivery_inv [OF _ assms(3)])
  obtain t where t: "new_operator_row x request (retry_delivery_action i attempt fence reason digest t)
        \<in> set (dl_actions db1)"
      "or_request_digest request = operator_action_request_digest x
         (retry_delivery_action i attempt fence reason digest t)"
    by (rule applied_delivery_retryE [OF assms(2)])
  have "find_request request db2 =
      Some (new_operator_row x request (retry_delivery_action i attempt fence reason digest t))"
    using recorded_later(1) [OF inv] leads_to_audit [OF assms(3)] t(1) by simp
  moreover have "oa_effective_at (retry_delivery_action i attempt fence reason digest t) = t"
    by (simp add: retry_delivery_action_def)
  ultimately show ?thesis
    using transact_applied [OF assms(2) [unfolded operator_retry_scheduled_delivery_def]] t(2)
    by (auto simp: operator_retry_scheduled_delivery_def transact_delivery_def
        validate_operator_action_request_def split: if_splits)
qed

section \<open>Acting on an unknown delivery\<close>

lemma unknown_appliedE:
  assumes "operator_act_on_unknown_delivery x request i attempt fence action db =
      (Inr OperatorApplied, db')"
  obtains d a where "d \<in> set (dl_deliveries db)" "unknown_selects i attempt fence d"
    "authority_parts x action i attempt fence (or_occurred_at request) = Inr a"
    "validate_operator_delivery_target_binding x (d_target_json d) action = Inr ()"
    "act_on_found_delivery x request i attempt fence a action db = Inr (db', Inr OperatorApplied)"
proof -
  note body = transact_applied [OF assms [unfolded operator_act_on_unknown_delivery_def]]
  then obtain d a where d: "List.find (\<lambda>d. d_delivery_id d = i \<and> d_attempt d = attempt
          \<and> d_fence d = fence \<and> d_payload d \<noteq> None) (dl_deliveries db) = Some d"
      "d_state d = DDeliveryUnknown"
      "authority_parts x action i attempt fence (or_occurred_at request) = Inr a"
      "validate_operator_delivery_target_binding x (d_target_json d) action = Inr ()"
      "act_on_found_delivery x request i attempt fence a action db = Inr (db', Inr OperatorApplied)"
    by (auto split: if_splits option.splits simp: existing_operator_request_def)
  have "d \<in> set (dl_deliveries db)" "unknown_selects i attempt fence d"
    using find_SomeD [OF d(1)] d(2) by (simp_all add: unknown_selects_def)
  then show thesis using that d(3-5) by blast
qed

lemma unknown_recorded:
  assumes "operator_act_on_unknown_delivery x request i attempt fence action db =
      (Inr OperatorApplied, db')"
    and "authority_parts x action i attempt fence (or_occurred_at request) = Inr a"
  shows "new_operator_row x request a \<in> set (dl_actions db')"
proof -
  obtain b where b: "authority_parts x action i attempt fence (or_occurred_at request) = Inr b"
      "act_on_found_delivery x request i attempt fence b action db = Inr (db', Inr OperatorApplied)"
    using assms(1) by (rule unknown_appliedE)
  from b(2) show ?thesis
    unfolding act_on_found_delivery_def
  proof (cases rule: recordedE)
    case (continue db1)
    then have "audit_grows db1 db'"
      by (cases action) (auto dest!: apply_unknown_preserves simp: dpreserves_def dkeeps_def)
    then show ?thesis using continue(3) b(1) assms(2) by (auto simp: audit_grows_def)
  qed auto
qed

lemma advance_baseline_same:
  assumes "advance_accepted_delivery_baseline_in_transaction x i at_time db = Inr (db', v)"
  shows "dl_deliveries db' = dl_deliveries db \<and> dl_actions db' = dl_actions db"
proof -
  have "dl_deliveries db' = dl_deliveries db \<and> dl_actions db' = dl_actions db"
    if "upsert_accepted expected at_time d p a db = Inr (db', n)" for expected d p a n
    using that by (auto simp: upsert_accepted_def Let_def split: if_splits)
  moreover obtain expected where "expected_baseline x i db = Some expected"
    using assms by (auto simp: advance_accepted_delivery_baseline_in_transaction_def)
  moreover from this obtain d p where "find_delivery i db = Some d" "d_payload d = Some p"
    by (rule expected_baselineE)
  ultimately show ?thesis
    using assms by (auto simp: advance_accepted_delivery_baseline_in_transaction_def
        split: option.splits if_splits)
qed

text \<open>C19: An action on an unknown delivery that is applied was bound to it: the request's digest is the
  one of exactly this action on this delivery, attempt and fence, and the evidence names the provider,
  tenant and kind of the delivery's frozen target. The action is recorded; an acknowledgement changes
  no delivery, every other action changes exactly this one, to the state the evidence supports.\<close>

theorem applied_unknown_action_is_bound:
  assumes "system_inv x now db"
    and "operator_act_on_unknown_delivery x request i attempt fence action db =
      (Inr OperatorApplied, db')"
  shows "\<exists>d a route. d \<in> set (dl_deliveries db) \<and> unknown_selects i attempt fence d
    \<and> authority_parts x action i attempt fence (or_occurred_at request) = Inr a
    \<and> or_request_digest request = operator_action_request_digest x a
    \<and> from_canonical_target_json x (d_target_json d) = Inr route
    \<and> operator_delivery_evidence_binding x action =
        Inr (route_provider route, route_tenant route, route_kind route)
    \<and> dl_actions db' = dl_actions db @ [new_operator_row x request a]
    \<and> dl_deliveries db' = (if acknowledges_only action then dl_deliveries db
        else map (\<lambda>e. if e = d then resolve_delivery (unknown_transition action)
          (or_occurred_at request) d else e) (dl_deliveries db))"
  using assms(2)
proof (cases rule: unknown_appliedE)
  case (1 d a)
  obtain route where route: "from_canonical_target_json x (d_target_json d) = Inr route"
      "operator_delivery_evidence_binding x action =
        Inr (route_provider route, route_tenant route, route_kind route)"
    using 1(4) by (auto simp: validate_operator_delivery_target_binding_def split: if_splits)
  have inv: "delivery_inv x db" using assms(1) by (simp add: system_inv_def)
  let ?now = "or_occurred_at request"
  have rows: "dl_deliveries db' = map (\<lambda>e. if e = d then resolve_delivery (unknown_transition action)
        ?now d else e) (dl_deliveries db) \<and> dl_actions db' = dl_actions db1"
    if act: "apply_unknown_delivery_operator_action x i attempt fence action ?now db1 = Inr db'"
      and same: "dl_deliveries db1 = dl_deliveries db" for db1
    using act
  proof (cases rule: apply_unknownE)
    case (1 dba dbb)
    have att: "dl_deliveries dba = dl_deliveries db1" "dl_actions dba = dl_actions db1"
      using 1(1) update_delivery_attempts_InrD(2,6) by (auto split: if_splits)
    note U = update_deliveries_InrD [OF 1(2)]
    have "unknown_selects i attempt fence e \<longleftrightarrow> e = d" if "e \<in> set (dl_deliveries db)" for e
      using that delivery_key [OF inv that \<open>d \<in> _\<close>] \<open>unknown_selects i attempt fence d\<close>
      by (auto simp: unknown_selects_def)
    then have "dl_deliveries dbb = map (\<lambda>e. if e = d then resolve_delivery (unknown_transition action)
        ?now d else e) (dl_deliveries db)"
      using sql_update_InrD(1) [OF U(1)] att(1) same by (simp cong: map_cong)
    moreover have "dl_deliveries db' = dl_deliveries dbb" "dl_actions db' = dl_actions dbb"
      using 1(3) by (auto dest: advance_baseline_same split: if_splits)
    ultimately show ?thesis using U(7) att(2) by simp
  qed
  have "or_request_digest request = operator_action_request_digest x a
      \<and> dl_actions db' = dl_actions db @ [new_operator_row x request a]
      \<and> dl_deliveries db' = (if acknowledges_only action then dl_deliveries db
        else map (\<lambda>e. if e = d then resolve_delivery (unknown_transition action) ?now d else e)
          (dl_deliveries db))"
    using 1(5) unfolding act_on_found_delivery_def
  proof (cases rule: recordedE)
    case (continue db1)
    then show ?thesis
      using rows [of db1] by (cases action) (auto simp: acknowledges_only_def)
  qed auto
  then show ?thesis using 1(1-3) route by blast
qed

theorem applied_unknown_action_is_bound_witness:
  "operator_act_on_unknown_delivery post_ext (op_request 310) post_id 2 2 resend lost_db =
      (Inr OperatorApplied, resent_db)
    \<and> dl_actions resent_db = [new_operator_row post_ext (op_request 310) resend_authority]
    \<and> dl_deliveries resent_db = [resent_row]"
proof -
  have op: "operator_act_on_unknown_delivery post_ext (op_request 310) post_id 2 2 resend lost_db =
      (Inr OperatorApplied, resent_db)" using resent_sample by blast
  show ?thesis
    using applied_unknown_action_is_bound [OF lost_inv op] op resent_sample resend_parts by auto
qed

lemma delivery_snapshot_target: "delivery_snapshot d = delivery_snapshot e \<Longrightarrow> d_target_json d = d_target_json e"
  by (drule arg_cong [of _ _ d_target_json]) (simp add: delivery_snapshot_def)

text \<open>C25: A repeated action on an unknown delivery is answered as a replay only while the delivery still
  has the attempt and fence the action named. Once a forced resend has been claimed, the recorded
  request is answered with a conflict: the delivery is looked up before the audit.\<close>

theorem unknown_action_replays_until_resent:
  assumes "system_inv x now db"
    and "operator_act_on_unknown_delivery x request i attempt fence action db =
      (Inr OperatorApplied, db1)"
    and "leads_to cal x (now, db1) (later, db2)"
    and "d \<in> set (dl_deliveries db2)" and "d_delivery_id d = i"
  shows "operator_act_on_unknown_delivery x request i attempt fence action db2 =
    (Inr (if d_attempt d = attempt \<and> d_fence d = fence then OperatorReplay else OperatorConflict), db2)"
proof -
  have keep: "dpreserves x db db1"
    using unknown_action_preserves [of x db request i attempt fence action] assms(2) by simp
  have inv1: "system_inv x now db1" by (rule skeeps_system [OF skeeps_deliveries [OF keep] assms(1)])
  then have inv: "delivery_inv x db2" by (rule leads_to_delivery_inv [OF _ assms(3)])
  obtain d0 a where d0: "d0 \<in> set (dl_deliveries db)" "unknown_selects i attempt fence d0"
      "authority_parts x action i attempt fence (or_occurred_at request) = Inr a"
      "validate_operator_delivery_target_binding x (d_target_json d0) action = Inr ()"
      "act_on_found_delivery x request i attempt fence a action db = Inr (db1, Inr OperatorApplied)"
    by (rule unknown_appliedE [OF assms(2)])
  have "dadvances db db2"
    using keep leads_to_inv [OF assms(3)] inv1 assms(1) dadvances_trans
    by (auto simp: dpreserves_def dkeeps_def system_inv_def)
  then obtain e where e: "e \<in> set (dl_deliveries db2)" "devolves d0 e"
    using d0(1) by (auto simp: dadvances_def)
  have "d_delivery_id e = d_delivery_id d"
    using e(2) d0(2) assms(5) delivery_snapshot_keys(1) [of e d0]
    by (simp add: devolves_def unknown_selects_def)
  then have "e = d" by (rule delivery_key [OF inv e(1) assms(4)])
  then have d: "d_target_json d = d_target_json d0" "d_payload d \<noteq> None"
    using e(2) d0(2) delivery_snapshot_target [of d d0]
    by (auto simp: devolves_def keeps_payload_def unknown_selects_def)
  have only: "f = d" if "f \<in> set (dl_deliveries db2)" "d_delivery_id f = i" for f
    using delivery_key [OF inv that(1) assms(4)] that(2) assms(5) by simp
  let ?P = "\<lambda>f. d_delivery_id f = i \<and> d_attempt f = attempt \<and> d_fence f = fence \<and> d_payload f \<noteq> None"
  have find: "List.find ?P (dl_deliveries db2) =
      (if d_attempt d = attempt \<and> d_fence d = fence then Some d else None)"
  proof (cases "List.find ?P (dl_deliveries db2)")
    case None
    then show ?thesis using assms(4,5) d(2) by (auto simp: find_None_iff)
  next
    case (Some f)
    then show ?thesis using only find_SomeD [OF Some] by auto
  qed
  have "new_operator_row x request a \<in> set (dl_actions db1)"
    by (rule unknown_recorded [OF assms(2) d0(3)])
  then have "existing_operator_request request db2 = Some OperatorReplay"
    using recorded_later(2) [OF inv] leads_to_audit [OF assms(3)] by simp
  then show ?thesis
    using transact_applied [OF assms(2) [unfolded operator_act_on_unknown_delivery_def]] find d(1) d0(3,4)
    by (auto simp: operator_act_on_unknown_delivery_def transact_delivery_def split: if_splits)
qed

theorem unknown_action_replays_until_resent_witness:
  "operator_act_on_unknown_delivery post_ext (op_request 310) post_id 2 2 resend resent_db =
    (Inr OperatorReplay, resent_db)"
proof -
  have op: "operator_act_on_unknown_delivery post_ext (op_request 310) post_id 2 2 resend lost_db =
      (Inr OperatorApplied, resent_db)" using resent_sample by blast
  have "d_attempt resent_row = 2" "d_fence resent_row = 2" "d_delivery_id resent_row = post_id"
    by (simp_all add: resent_row_def)
  then show ?thesis
    using unknown_action_replays_until_resent [OF lost_inv op lt_refl [of no_calendar], of resent_row]
      resent_sample by simp
qed

section \<open>Histories\<close>

text \<open>C10: A delivery whose outcome is unknown stays exactly as it is, column by column, whatever
  scheduler, workers and providers do later, until an operator's action that names this delivery, its
  attempt and its fence has been recorded and spent.\<close>

theorem unknown_delivery_waits_for_operator:
  assumes "system_inv x now db" and "leads_to cal x (now, db) (later, db')"
    and "d \<in> set (dl_deliveries db)" and "d_state d = DDeliveryUnknown"
  shows "d \<in> set (dl_deliveries db') \<or> resolved_by_operator db' d"
  using leads_to_inv [OF assms(2)] assms(1,3,4) by (simp add: unknown_kept_def)

theorem unknown_delivery_waits_for_operator_witness:
  "lost_row \<in> set (dl_deliveries lost_db) \<and> dl_deliveries resent_db = [resent_row]
    \<and> resolved_by_operator resent_db lost_row"
proof -
  have "leads_to no_calendar post_ext (200, lost_db) (310, resent_db)"
    unfolding resent_db_def by (rule lt_step [OF lt_refl _ ds_unknown]) simp
  then have "lost_row \<in> set (dl_deliveries resent_db) \<or> resolved_by_operator resent_db lost_row"
    by (rule unknown_delivery_waits_for_operator [OF lost_inv]) simp_all
  moreover have "d_state resent_row \<noteq> d_state lost_row"
    by (simp add: resent_row_def unknown_transition_def resend_def)
  then have "lost_row \<noteq> resent_row" by metis
  ultimately show ?thesis using resent_sample by auto
qed

text \<open>C11: The audit is append-only and every action is spent at most once: along any history recorded
  actions and consumptions stay, no two consumptions name the same action, and every consumption is of
  a recorded action on the target this action names.\<close>

theorem operator_actions_spent_once:
  assumes "system_inv x now db" and "leads_to cal x (now, db) (later, db')"
  shows "set (dl_actions db) \<subseteq> set (dl_actions db')
    \<and> set (dl_consumptions db) \<subseteq> set (dl_consumptions db')
    \<and> distinct (map oc_action_id (dl_consumptions db'))
    \<and> (\<forall>c \<in> set (dl_consumptions db'). \<exists>!act. act \<in> set (dl_actions db') \<and> spent_on act c)"
proof -
  have inv: "delivery_inv x db'" by (rule leads_to_delivery_inv [OF assms])
  have "act = act'" if "act \<in> set (dl_actions db')" "spent_on act c" "act' \<in> set (dl_actions db')"
      "spent_on act' c" for act act' c
    using operators.key_inj [OF delivery_invD(6) [OF inv] that(1,3)] that(2,4) by (simp add: spent_on_def)
  then show ?thesis
    using leads_to_audit [OF assms(2)] delivery_invD(7) [OF inv]
    by (auto simp: audit_grows_def audit_ok_def)
qed

theorem operator_actions_spent_once_witness:
  "\<exists>act. act \<in> set (dl_actions resent_db) \<and> distinct (map oc_action_id (dl_consumptions resent_db))
    \<and> (\<forall>c \<in> set (dl_consumptions resent_db). \<exists>!act. act \<in> set (dl_actions resent_db) \<and> spent_on act c)"
proof -
  have l: "leads_to no_calendar post_ext (200, lost_db) (310, resent_db)"
    unfolding resent_db_def by (rule lt_step [OF lt_refl _ ds_unknown]) simp
  have "new_operator_row post_ext (op_request 310) resend_authority \<in> set (dl_actions resent_db)"
    using resent_sample unknown_recorded resend_parts by (metis op_request_simps(2))
  then show ?thesis using operator_actions_spent_once [OF lost_inv l] by blast
qed

end
