(* ===== verification/Channel_Contract.thy ===== *)
theory Channel_Contract
  imports Job_Tables
begin

text \<open>
  The provider-neutral channel values of \<^verbatim>\<open>crates/channel/contract\<close>: normalized events, reply targets,
  message requests and connector capabilities, with the checks their constructors make.
\<close>

section \<open>Errors\<close>

datatype contract_error =
    EmptyField string
  | InvalidLimit string
  | UnsupportedCapability string
  | UnsupportedReplyTarget string

definition require_non_empty :: "string \<Rightarrow> string \<Rightarrow> contract_error + unit" where
  "require_non_empty value field = (if str_trim value = [] then Inl (EmptyField field) else Inr ())"

section \<open>Reply targets and capabilities\<close>

datatype reply_target =
    ReplyChannel string
  | ReplyThread string string
  | ReplyDirectMessage string
  | ReplyEphemeral string string

definition reply_target_validate :: "reply_target \<Rightarrow> contract_error + unit" where
  "reply_target_validate target = (case target of
     ReplyChannel channel_id \<Rightarrow> require_non_empty channel_id ''channel_id''
   | ReplyThread channel_id thread_id \<Rightarrow>
       check_all [require_non_empty channel_id ''channel_id'', require_non_empty thread_id ''thread_id'']
   | ReplyDirectMessage user \<Rightarrow> require_non_empty user ''user_account_id''
   | ReplyEphemeral channel_id user \<Rightarrow>
       check_all [require_non_empty channel_id ''channel_id'', require_non_empty user ''user_account_id''])"

definition reply_target_kind_name :: "reply_target \<Rightarrow> string" where
  "reply_target_kind_name target = (case target of
     ReplyChannel _ \<Rightarrow> ''channel'' | ReplyThread _ _ \<Rightarrow> ''thread''
   | ReplyDirectMessage _ \<Rightarrow> ''direct_message'' | ReplyEphemeral _ _ \<Rightarrow> ''ephemeral'')"

record connector_capabilities =
  receive_events :: bool
  slash_commands :: bool
  interactive_actions :: bool
  modal_inputs :: bool
  send_messages :: bool
  thread_replies :: bool
  direct_messages :: bool
  ephemeral_messages :: bool
  message_updates :: bool
  history_fetch :: bool
  user_profile_fetch :: bool
  socket_transport :: bool
  http_transport :: bool
  proactive_delivery :: bool

definition supports_reply_target :: "connector_capabilities \<Rightarrow> reply_target \<Rightarrow> bool" where
  "supports_reply_target c target \<longleftrightarrow> send_messages c \<and> (case target of
     ReplyChannel _ \<Rightarrow> True
   | ReplyThread _ _ \<Rightarrow> thread_replies c
   | ReplyDirectMessage _ \<Rightarrow> direct_messages c
   | ReplyEphemeral _ _ \<Rightarrow> ephemeral_messages c)"

section \<open>Messages\<close>

record message_request =
  mr_connector_id :: string
  mr_workspace_id :: string
  mr_dedupe_key :: string
  mr_target :: reply_target
  mr_text :: string

definition message_request_new ::
  "string \<Rightarrow> string \<Rightarrow> string \<Rightarrow> reply_target \<Rightarrow> string \<Rightarrow> contract_error + message_request" where
  "message_request_new connector_id workspace_id dedupe_key target content =
     rbind (check_all [require_non_empty connector_id ''connector_id'',
       require_non_empty workspace_id ''workspace_id'', require_non_empty dedupe_key ''dedupe_key'',
       require_non_empty content ''text'', reply_target_validate target]) (\<lambda>_.
     Inr \<lparr>mr_connector_id = connector_id, mr_workspace_id = workspace_id, mr_dedupe_key = dedupe_key,
       mr_target = target, mr_text = content\<rparr>)"

definition message_validate_for ::
  "message_request \<Rightarrow> connector_capabilities \<Rightarrow> contract_error + unit" where
  "message_validate_for request capabilities =
     (if supports_reply_target capabilities (mr_target request) then Inr ()
      else Inl (UnsupportedReplyTarget (reply_target_kind_name (mr_target request))))"

record message_receipt =
  mc_connector_id :: string
  mc_workspace_id :: string
  mc_request_dedupe_key :: string
  mc_message_id :: string

section \<open>Events\<close>

datatype event_kind =
    MessageReceived
  | MentionReceived
  | DirectMessageReceived
  | SlashCommandReceived
  | InteractionReceived
  | ReactionReceived

text \<open>The derived \<open>Debug\<close> name, which the event queue stores.\<close>

definition event_kind_debug :: "event_kind \<Rightarrow> string" where
  "event_kind_debug kind = (case kind of
     MessageReceived \<Rightarrow> ''MessageReceived'' | MentionReceived \<Rightarrow> ''MentionReceived''
   | DirectMessageReceived \<Rightarrow> ''DirectMessageReceived'' | SlashCommandReceived \<Rightarrow> ''SlashCommandReceived''
   | InteractionReceived \<Rightarrow> ''InteractionReceived'' | ReactionReceived \<Rightarrow> ''ReactionReceived'')"

record channel_event =
  ev_provider :: string
  ev_connector_id :: string
  ev_workspace_id :: string
  ev_event_id :: string
  ev_dedupe_key :: string
  ev_kind :: event_kind
  ev_text :: "string option"
  ev_reply_target :: "reply_target option"
  ev_source_reference :: "string option"

definition channel_event_new ::
  "string \<Rightarrow> string \<Rightarrow> string \<Rightarrow> string \<Rightarrow> string \<Rightarrow> event_kind \<Rightarrow> contract_error + channel_event" where
  "channel_event_new provider connector_id workspace_id event_id dedupe_key kind =
     rbind (check_all [require_non_empty provider ''provider'',
       require_non_empty connector_id ''connector_id'', require_non_empty workspace_id ''workspace_id'',
       require_non_empty event_id ''event_id'', require_non_empty dedupe_key ''dedupe_key'']) (\<lambda>_.
     Inr \<lparr>ev_provider = provider, ev_connector_id = connector_id, ev_workspace_id = workspace_id,
       ev_event_id = event_id, ev_dedupe_key = dedupe_key, ev_kind = kind, ev_text = None,
       ev_reply_target = None, ev_source_reference = None\<rparr>)"

text \<open>\<open>chars().take(n)\<close> on the UTF-8 bytes: the first \<open>n\<close> characters with their continuation bytes.\<close>

fun take_chars :: "nat \<Rightarrow> string \<Rightarrow> string" where
  "take_chars n [] = []"
| "take_chars n (c # cs) =
     (if \<not> is_char_start c then c # take_chars n cs
      else case n of 0 \<Rightarrow> [] | Suc m \<Rightarrow> c # take_chars m cs)"

definition MAX_TEXT_CHARS :: nat where
  "MAX_TEXT_CHARS = 4000"

definition bounded_text :: "string \<Rightarrow> string option" where
  "bounded_text content = (if content = [] then None else Some (take_chars MAX_TEXT_CHARS content))"

definition event_with_text :: "string option \<Rightarrow> channel_event \<Rightarrow> channel_event" where
  "event_with_text content e = e \<lparr>ev_text := Option.bind content bounded_text\<rparr>"

definition event_with_source_details ::
  "reply_target \<Rightarrow> string \<Rightarrow> channel_event \<Rightarrow> contract_error + channel_event" where
  "event_with_source_details target source_reference e =
     rbind (reply_target_validate target) (\<lambda>_.
     rbind (require_non_empty source_reference ''source_reference'') (\<lambda>_.
     Inr (e \<lparr>ev_reply_target := Some target, ev_source_reference := Some source_reference\<rparr>)))"

lemma take_chars_bound: "length (filter is_char_start (take_chars n s)) \<le> n"
  by (induction n s rule: take_chars.induct) (auto split: nat.splits)

lemma take_chars_prefix: "\<exists>rest. s = take_chars n s @ rest"
  by (induction n s rule: take_chars.induct) (auto split: nat.splits)

lemma take_chars_all: "length (filter is_char_start s) \<le> n \<Longrightarrow> take_chars n s = s"
  by (induction n s rule: take_chars.induct) (auto split: nat.splits)

end
