(* ===== verification/Channel_Tables.thy ===== *)
theory Channel_Tables
  imports Channel_Contract
begin

text \<open>
  The tables behind chat channels, as the migrations \<^verbatim>\<open>20260713000000\<close> to \<^verbatim>\<open>20260716030000\<close> declare them:
  source events, the queue of normalized events, agent drafts, context fetch attempts, conversations
  and their summaries, the queue of outbound messages with receipts and channel throttles, and the
  processing indicators. Columns that no statement reads or writes, and surrogate ids that no statement
  reads, are left out.

  SQLite's text timestamps order like the seconds they print, so a timestamp is a number of seconds; the
  functions return null outside the years they can print.
\<close>

section \<open>Statements\<close>

text \<open>\<open>insert ... on conflict(key) do nothing\<close>: the check clauses are tested first.\<close>

definition insert_new ::
  "('r \<Rightarrow> bool) \<Rightarrow> ('r \<Rightarrow> 'k) \<Rightarrow> 'r \<Rightarrow> 'r list \<Rightarrow> sqlx_error + ('r list \<times> bool)" where
  "insert_new check key r rows =
     (if \<not> check r then Inl SQLITE_CONSTRAINT_CHECK
      else if list_ex (\<lambda>s. key s = key r) rows then Inr (rows, False)
      else Inr (rows @ [r], True))"

text \<open>\<open>insert ... on conflict(key) do update\<close>.\<close>

definition upsert ::
  "('r \<Rightarrow> bool) \<Rightarrow> ('r \<Rightarrow> 'k) \<Rightarrow> ('r \<Rightarrow> 'r) \<Rightarrow> 'r \<Rightarrow> 'r list \<Rightarrow> sqlx_error + 'r list" where
  "upsert check key f r rows =
     (if \<not> check r \<or> list_ex (\<lambda>s. key s = key r \<and> \<not> check (f s)) rows then Inl SQLITE_CONSTRAINT_CHECK
      else if list_ex (\<lambda>s. key s = key r) rows
      then Inr (map (\<lambda>s. if key s = key r then f s else s) rows)
      else Inr (rows @ [r]))"

text \<open>\<open>update\<close> of a table whose statements never change a key column.\<close>

definition update_rows ::
  "('r \<Rightarrow> bool) \<Rightarrow> ('r \<Rightarrow> bool) \<Rightarrow> ('r \<Rightarrow> 'r) \<Rightarrow> 'r list \<Rightarrow> sqlx_error + ('r list \<times> nat)" where
  "update_rows check w f rows = sql_update check (\<lambda>_. True) w f rows"

text \<open>The next row id: one more than the largest.\<close>

definition next_id :: "('r \<Rightarrow> i64) \<Rightarrow> 'r list \<Rightarrow> i64" where
  "next_id ident rows = fold (\<lambda>r n. max n (ident r + 1)) rows 1"

section \<open>Time\<close>

definition SQLITE_CONSTRAINT_NOTNULL :: sqlx_error where
  "SQLITE_CONSTRAINT_NOTNULL = SqlxDatabase (Some ''1299'')"

definition sql_datetime :: "int \<Rightarrow> int option" where
  "sql_datetime t = (if - 210866760000 \<le> t \<and> t \<le> 253402300799 then Some t else None)"

definition before_cutoff :: "i64 \<Rightarrow> int option \<Rightarrow> bool" where
  "before_cutoff t cutoff = (case cutoff of None \<Rightarrow> False | Some c \<Rightarrow> t < c)"

section \<open>Rows\<close>

record source_row =
  se_workspace_id :: string
  se_event_kind :: string
  se_dedupe_key :: string
  se_envelope_id :: "string option"
  se_event_id :: "string option"
  se_channel_id :: "string option"
  se_thread_ts :: "string option"
  se_message_ts :: "string option"
  se_user_id :: "string option"
  se_raw_payload_json :: string
  se_received_at :: i64
  se_status :: string

record queue_row =
  q_id :: i64
  q_provider :: string
  q_workspace_id :: string
  q_dedupe_key :: string
  q_event_kind :: string
  q_payload_json :: string
  q_status :: string
  q_available_at :: i64
  q_attempt_count :: i64
  q_updated_at :: i64
  q_last_error :: "string option"

record agent_draft =
  ad_provider :: string
  ad_channel_id :: "string option"
  ad_thread_id :: "string option"
  ad_message_ts :: "string option"
  ad_user_id :: "string option"
  ad_event_id :: string
  ad_dedupe_key :: string
  ad_content :: string

record draft_row =
  dr_id :: i64
  dr_queue_id :: i64
  dr_draft :: agent_draft

record context_attempt =
  ca_operation :: string
  ca_provider :: string
  ca_workspace_id :: string
  ca_connector_id :: string
  ca_dedupe_key :: string
  ca_channel_id :: "string option"
  ca_thread_id :: "string option"
  ca_message_ts :: "string option"
  ca_status :: string
  ca_error_kind :: "string option"
  ca_error_message :: "string option"

record context_row =
  cr_id :: i64
  cr_attempt :: context_attempt
  cr_created_at :: i64

text \<open>The key columns of a conversation: absent parts are empty strings.\<close>

record conversation_columns =
  cc_provider :: string
  cc_workspace_id :: string
  cc_kind :: string
  cc_channel_id :: string
  cc_thread_id :: string
  cc_user_id :: string

record conversation_row =
  cv_key :: conversation_columns
  cv_codex_thread_id :: string

record summary_row =
  cs_key :: conversation_columns
  cs_summary :: string
  cs_updated_at :: i64

record message_row =
  m_id :: i64
  m_connector_id :: string
  m_workspace_id :: string
  m_dedupe_key :: string
  m_channel_id :: string
  m_thread_ts :: "string option"
  m_message_ts :: "string option"
  m_text :: string
  m_status :: string
  m_available_at :: i64
  m_attempt_count :: i64
  m_created_at :: i64
  m_updated_at :: i64
  m_sender_kind :: string
  m_sender_key :: "string option"
  m_operation :: string

record receipt_row =
  rr_connector_id :: string
  rr_workspace_id :: string
  rr_channel_id :: string
  rr_thread_ts :: "string option"
  rr_message_ts :: string
  rr_dedupe_key :: string
  rr_response_json :: string
  rr_created_at :: i64
  rr_sender_kind :: string
  rr_sender_key :: "string option"

record throttle_row =
  th_workspace_id :: string
  th_channel_id :: string
  th_next_available_at :: i64

record indicator_row =
  ir_workspace_id :: string
  ir_event_dedupe_key :: string
  ir_channel_id :: string
  ir_thread_ts :: "string option"
  ir_message_ts :: string
  ir_status :: string
  ir_error :: "string option"
  ir_created_at :: i64
  ir_updated_at :: i64
  ir_completed_at :: "i64 option"

record channel_db =
  ch_sources :: "source_row list"
  ch_queue :: "queue_row list"
  ch_drafts :: "draft_row list"
  ch_contexts :: "context_row list"
  ch_conversations :: "conversation_row list"
  ch_summaries :: "summary_row list"
  ch_messages :: "message_row list"
  ch_receipts :: "receipt_row list"
  ch_throttles :: "throttle_row list"
  ch_indicators :: "indicator_row list"

section \<open>Constraints\<close>

abbreviation filled :: "string \<Rightarrow> bool" where
  "filled s \<equiv> sql_length s > 0"

definition source_check :: "ext \<Rightarrow> source_row \<Rightarrow> bool" where
  "source_check x s \<longleftrightarrow> filled (se_workspace_id s) \<and> filled (se_event_kind s) \<and> filled (se_dedupe_key s)
     \<and> sql_json_valid x (se_raw_payload_json s)
     \<and> se_status s \<in> set [''received'', ''queued'', ''processed'', ''failed'']"

definition source_key :: "source_row \<Rightarrow> string \<times> string" where
  "source_key s = (se_workspace_id s, se_dedupe_key s)"

definition queue_check :: "ext \<Rightarrow> queue_row \<Rightarrow> bool" where
  "queue_check x q \<longleftrightarrow> filled (q_provider q) \<and> filled (q_workspace_id q) \<and> filled (q_dedupe_key q)
     \<and> filled (q_event_kind q) \<and> sql_json_valid x (q_payload_json q)
     \<and> q_status q \<in> set [''pending'', ''processing'', ''processed'', ''failed''] \<and> q_attempt_count q \<ge> 0"

definition queue_key :: "queue_row \<Rightarrow> string \<times> string \<times> string" where
  "queue_key q = (q_provider q, q_workspace_id q, q_dedupe_key q)"

definition draft_check :: "draft_row \<Rightarrow> bool" where
  "draft_check d \<longleftrightarrow> filled (ad_provider (dr_draft d)) \<and> filled (ad_event_id (dr_draft d))
     \<and> filled (ad_dedupe_key (dr_draft d)) \<and> filled (ad_content (dr_draft d))"

definition context_check :: "context_row \<Rightarrow> bool" where
  "context_check c \<longleftrightarrow> (let a = cr_attempt c in
     filled (ca_provider a) \<and> filled (ca_workspace_id a) \<and> filled (ca_connector_id a)
     \<and> filled (ca_dedupe_key a) \<and> filled (ca_operation a) \<and> ca_status a \<in> set [''success'', ''failed''])"

definition conversation_key_check :: "conversation_columns \<Rightarrow> bool" where
  "conversation_key_check k \<longleftrightarrow> filled (cc_provider k) \<and> filled (cc_workspace_id k)
     \<and> cc_kind k \<in> set [''thread'', ''dm'', ''channel''] \<and> filled (cc_channel_id k)
     \<and> (filled (cc_thread_id k) \<longleftrightarrow> cc_kind k = ''thread'')
     \<and> (filled (cc_user_id k) \<longleftrightarrow> cc_kind k = ''dm'')"

definition conversation_check :: "conversation_row \<Rightarrow> bool" where
  "conversation_check c \<longleftrightarrow> conversation_key_check (cv_key c) \<and> filled (cv_codex_thread_id c)"

definition summary_check :: "summary_row \<Rightarrow> bool" where
  "summary_check s \<longleftrightarrow> conversation_key_check (cs_key s) \<and> filled (cs_summary s)"

definition sender_check :: "string \<Rightarrow> string option \<Rightarrow> bool" where
  "sender_check kind key \<longleftrightarrow>
     (kind = ''bot'' \<and> key = None) \<or> (kind = ''user'' \<and> (case key of None \<Rightarrow> False | Some k \<Rightarrow> filled k))"

definition message_check :: "message_row \<Rightarrow> bool" where
  "message_check m \<longleftrightarrow> filled (m_connector_id m) \<and> filled (m_workspace_id m) \<and> filled (m_dedupe_key m)
     \<and> filled (m_channel_id m) \<and> filled (m_text m)
     \<and> m_status m \<in> set [''pending'', ''processing'', ''delivered'', ''failed''] \<and> m_attempt_count m \<ge> 0
     \<and> sender_check (m_sender_kind m) (m_sender_key m)
     \<and> m_operation m \<in> set [''post_message'', ''stop_stream'']
     \<and> (case m_message_ts m of None \<Rightarrow> True | Some ts \<Rightarrow> filled ts)"

definition message_key :: "message_row \<Rightarrow> string \<times> string" where
  "message_key m = (m_workspace_id m, m_dedupe_key m)"

definition receipt_check :: "ext \<Rightarrow> receipt_row \<Rightarrow> bool" where
  "receipt_check x r \<longleftrightarrow> filled (rr_connector_id r) \<and> filled (rr_workspace_id r) \<and> filled (rr_channel_id r)
     \<and> filled (rr_message_ts r) \<and> filled (rr_dedupe_key r) \<and> sql_json_valid x (rr_response_json r)
     \<and> sender_check (rr_sender_kind r) (rr_sender_key r)"

definition receipt_key :: "receipt_row \<Rightarrow> string \<times> string" where
  "receipt_key r = (rr_workspace_id r, rr_dedupe_key r)"

definition throttle_check :: "throttle_row \<Rightarrow> bool" where
  "throttle_check t \<longleftrightarrow> filled (th_workspace_id t) \<and> filled (th_channel_id t)"

definition throttle_key :: "throttle_row \<Rightarrow> string \<times> string" where
  "throttle_key t = (th_workspace_id t, th_channel_id t)"

definition indicator_check :: "indicator_row \<Rightarrow> bool" where
  "indicator_check i \<longleftrightarrow> filled (ir_workspace_id i) \<and> filled (ir_event_dedupe_key i) \<and> filled (ir_channel_id i)
     \<and> (case ir_thread_ts i of None \<Rightarrow> True | Some ts \<Rightarrow> filled ts) \<and> filled (ir_message_ts i)
     \<and> (if ir_status i = ''started'' then ir_completed_at i = None
        else ir_status i \<in> set [''completed'', ''failed''] \<and> ir_completed_at i \<noteq> None)"

definition indicator_key :: "indicator_row \<Rightarrow> string \<times> string" where
  "indicator_key i = (ir_workspace_id i, ir_event_dedupe_key i)"

text \<open>What every table keeps: check clauses and distinct keys.\<close>

definition keyed :: "('r \<Rightarrow> bool) \<Rightarrow> ('r \<Rightarrow> 'k) \<Rightarrow> 'r list \<Rightarrow> bool" where
  "keyed check key rows \<longleftrightarrow> list_all check rows \<and> distinct (map key rows)"

section \<open>Lemmas on statements\<close>

lemma has_key: "list_ex (\<lambda>s. key s = k) rows \<longleftrightarrow> k \<in> key ` set rows"
  by (auto simp: list_ex_iff)

lemma insert_new_InrD:
  assumes "insert_new check key r rows = Inr (rows', new)"
  shows "check r" and "rows' = (if new then rows @ [r] else rows)"
    and "new \<longleftrightarrow> key r \<notin> key ` set rows"
  using assms by (auto simp: insert_new_def has_key split: if_splits)

lemma insert_new_keyed:
  assumes "keyed check key rows" and "insert_new check key r rows = Inr (rows', new)"
  shows "keyed check key rows'"
  using assms insert_new_InrD [OF assms(2)] by (auto simp: keyed_def split: if_splits)

lemma upsert_InrD:
  assumes "upsert check key f r rows = Inr rows'"
  shows "check r" and "rows' = (if key r \<in> key ` set rows
      then map (\<lambda>s. if key s = key r then f s else s) rows else rows @ [r])"
    and "\<And>s. s \<in> set rows \<Longrightarrow> key s = key r \<Longrightarrow> check (f s)"
proof -
  have "list_ex (\<lambda>s. key s = key r \<and> \<not> check (f s)) rows \<longleftrightarrow> (\<exists>s \<in> set rows. key s = key r \<and> \<not> check (f s))"
    by (simp add: list_ex_iff)
  then show "check r" and "rows' = (if key r \<in> key ` set rows
      then map (\<lambda>s. if key s = key r then f s else s) rows else rows @ [r])"
    and "\<And>s. s \<in> set rows \<Longrightarrow> key s = key r \<Longrightarrow> check (f s)"
    using assms by (auto simp only: upsert_def has_key sum.simps split: if_splits)
qed

lemma map_same_keys:
  assumes "\<And>s. s \<in> set rows \<Longrightarrow> key (g s) = key s"
  shows "map key (map g rows) = map key rows"
  using assms by simp

lemma upsert_keyed:
  assumes "keyed check key rows" and "upsert check key f r rows = Inr rows'"
    and "\<And>s. key (f s) = key s"
  shows "keyed check key rows'"
proof (cases "key r \<in> key ` set rows")
  case True
  have "map key rows' = map key rows"
    using upsert_InrD(2) [OF assms(2)] True assms(3) by (auto simp: o_def)
  moreover have "list_all check rows'"
    using upsert_InrD(2,3) [OF assms(2)] True assms(1) by (auto simp: keyed_def list_all_iff)
  ultimately show ?thesis using assms(1) by (simp add: keyed_def)
next
  case False
  then show ?thesis using upsert_InrD [OF assms(2)] assms(1) by (auto simp: keyed_def)
qed

lemma update_rows_InrD:
  assumes "update_rows check w f rows = Inr (rows', n)"
  shows "rows' = map (\<lambda>r. if w r then f r else r) rows" and "n = length (filter w rows)"
    and "\<And>r. r \<in> set rows \<Longrightarrow> w r \<Longrightarrow> check (f r)"
  using sql_update_InrD [OF assms [unfolded update_rows_def]] by auto

lemma update_rows_keyed:
  assumes "keyed check key rows" and "update_rows check w f rows = Inr (rows', n)"
    and "\<And>s. key (f s) = key s"
  shows "keyed check key rows'"
proof -
  have "map key rows' = map key rows"
    using update_rows_InrD(1) [OF assms(2)] assms(3) by (auto simp: o_def)
  moreover have "list_all check rows'"
    using update_rows_InrD(1,3) [OF assms(2)] assms(1) by (auto simp: keyed_def list_all_iff)
  ultimately show ?thesis using assms(1) by (simp add: keyed_def)
qed

lemma update_rows_ok:
  assumes "\<And>r. r \<in> set rows \<Longrightarrow> w r \<Longrightarrow> check (f r)"
  shows "update_rows check w f rows =
    Inr (map (\<lambda>r. if w r then f r else r) rows, length (filter w rows))"
  using assms by (auto simp: update_rows_def sql_update_def list_ex_iff Let_def)

lemma filter_keyed: "keyed check key rows \<Longrightarrow> keyed check key (filter w rows)"
  by (auto simp: keyed_def list_all_iff distinct_map inj_on_def)

lemma keyed_inj: "keyed check key rows \<Longrightarrow> r \<in> set rows \<Longrightarrow> s \<in> set rows \<Longrightarrow> key r = key s \<Longrightarrow> r = s"
  by (auto simp: keyed_def distinct_map dest: inj_onD)

lemma keyed_check: "keyed check key rows \<Longrightarrow> r \<in> set rows \<Longrightarrow> check r"
  by (simp add: keyed_def list_all_iff)

lemma keyed_find:
  assumes "keyed check key rows" and "r \<in> set rows" and "w r" and "\<And>s. w s \<Longrightarrow> key s = key r"
  shows "List.find w rows = Some r"
proof (cases "List.find w rows")
  case None
  then show ?thesis using assms(2,3) by (auto simp: find_None_iff)
next
  case (Some s)
  then have "s \<in> set rows" "w s" by (auto simp: find_Some_iff)
  then show ?thesis using Some keyed_inj [OF assms(1) _ assms(2)] assms(4) by simp
qed

lemma fold_max_ge: "(n :: int) \<le> fold (\<lambda>r n. max n (ident r + 1)) rows n"
proof (induction rows arbitrary: n)
  case (Cons s rows)
  show ?case using Cons [of "max n (ident s + 1)"] by simp
qed simp

lemma next_id_fresh: "r \<in> set rows \<Longrightarrow> ident r < next_id ident rows"
proof -
  have "\<forall>r \<in> set rows. ident r < fold (\<lambda>r n. max n (ident r + 1)) rows n" for n
  proof (induction rows arbitrary: n)
    case (Cons s rows)
    have "ident s < fold (\<lambda>r n. max n (ident r + 1)) rows (max n (ident s + 1))"
      using fold_max_ge [of "max n (ident s + 1)" ident rows] by linarith
    then show ?case using Cons by simp
  qed simp
  then show "r \<in> set rows \<Longrightarrow> ident r < next_id ident rows" by (simp add: next_id_def)
qed

end
