(* ===== verification/Slack_Source.thy ===== *)
theory Slack_Source
  imports Json_Value
begin

text \<open>
  What the store reads out of a raw Slack payload (\<^verbatim>\<open>crates/state/src/store.rs\<close>): a text preview, the
  links in the text, in rich-text blocks and in attachment titles, the attachments and the files.
  \<open>serde_json\<close> keeps the keys of an object sorted, which is the order in which \<open>values()\<close> visits them.
\<close>

record source_link =
  sl_url :: string
  sl_text :: "string option"

record source_attachment =
  sa_title :: "string option"
  sa_text :: "string option"

record source_file =
  sf_resource_id :: "string option"
  sf_name :: "string option"
  sf_title :: "string option"
  sf_media_type :: "string option"
  sf_size_bytes :: "int option"

record source_metadata =
  sm_text_preview :: "string option"
  sm_links :: "source_link list"
  sm_attachments :: "source_attachment list"
  sm_files :: "source_file list"

text \<open>The characters \<open>trim_matches\<close> strips from both ends of a word.\<close>

definition link_edge :: "char \<Rightarrow> bool" where
  "link_edge c \<longleftrightarrow> c \<in> set [CHR ''<'', CHR ''>'', CHR 0x22, CHR 0x27, CHR '')'', CHR ''('', CHR '','', CHR ''.'',
     CHR '';'', CHR '':'']"

definition trim_link :: "string \<Rightarrow> string" where
  "trim_link token = rev (dropWhile link_edge (rev (dropWhile link_edge token)))"

definition is_http_url :: "string \<Rightarrow> bool" where
  "is_http_url url \<longleftrightarrow> drop_prefix ''http://'' url \<noteq> None \<or> drop_prefix ''https://'' url \<noteq> None"

definition collect_text_links :: "string option \<Rightarrow> source_link list" where
  "collect_text_links content = (case content of
     None \<Rightarrow> []
   | Some t \<Rightarrow> map (\<lambda>url. \<lparr>sl_url = url, sl_text = None\<rparr>)
       (filter is_http_url (map trim_link (split_whitespace t))))"

text \<open>Links of rich-text blocks, at any depth; an object that is a link comes before what it contains.\<close>

fun block_links :: "json \<Rightarrow> source_link list" where
  "block_links (JArr items) = concat (map block_links items)"
| "block_links (JObj object) =
     (case (map_of object ''type'', map_of object ''url'') of
        (Some (JStr kind), Some (JStr url)) \<Rightarrow>
          if kind = ''link'' then [\<lparr>sl_url = url, sl_text = get_str (JObj object) ''text''\<rparr>] else []
      | _ \<Rightarrow> [])
     @ concat (map (\<lambda>(_, v). block_links v) object)"
| "block_links _ = []"

definition collect_block_links :: "json option \<Rightarrow> source_link list" where
  "collect_block_links value = (case value of None \<Rightarrow> [] | Some v \<Rightarrow> block_links v)"

text \<open>One attachment: the link of its title, and the attachment itself unless it has neither title nor
  text.\<close>

definition attachment_link :: "json \<Rightarrow> source_link list" where
  "attachment_link a = (case get_str a ''title_link'' of
     None \<Rightarrow> [] | Some url \<Rightarrow> [\<lparr>sl_url = url, sl_text = get_str a ''title''\<rparr>])"

definition attachment_of :: "json \<Rightarrow> source_attachment list" where
  "attachment_of a =
     (if get_str a ''title'' = None \<and> get_str a ''text'' = None then []
      else [\<lparr>sa_title = get_str a ''title'', sa_text = get_str a ''text''\<rparr>])"

definition array_items :: "json option \<Rightarrow> json list" where
  "array_items value = (case Option.bind value as_array of None \<Rightarrow> [] | Some items \<Rightarrow> items)"

definition collect_attachments :: "json option \<Rightarrow> source_attachment list \<times> source_link list" where
  "collect_attachments value =
     (concat (map attachment_of (array_items value)), concat (map attachment_link (array_items value)))"

definition file_of :: "json \<Rightarrow> source_file" where
  "file_of f = \<lparr>sf_resource_id = get_str f ''id'', sf_name = get_str f ''name'', sf_title = get_str f ''title'',
     sf_media_type = Option.bind
       (case value_get f ''mimetype'' of None \<Rightarrow> value_get f ''filetype'' | Some v \<Rightarrow> Some v) as_str,
     sf_size_bytes = get_u64 f ''size''\<rparr>"

definition collect_files :: "json option \<Rightarrow> source_file list" where
  "collect_files value = map file_of (array_items value)"

definition slack_source_metadata :: "ext \<Rightarrow> string \<Rightarrow> source_metadata" where
  "slack_source_metadata x raw_payload_json =
     (let root = (case json_parse x raw_payload_json of Inl _ \<Rightarrow> JNull | Inr v \<Rightarrow> v);
          event = (case value_get root ''event'' of None \<Rightarrow> root | Some e \<Rightarrow> e);
          (attachments, links) = collect_attachments (value_get event ''attachments'') in
      \<lparr>sm_text_preview = get_str event ''text'',
       sm_links = collect_text_links (get_str event ''text'')
         @ collect_block_links (value_get event ''blocks'') @ links,
       sm_attachments = attachments,
       sm_files = collect_files (value_get event ''files'')\<rparr>)"

section \<open>What is extracted\<close>

text \<open>Every link taken from the text is an absolute web address that occurs in it as a whole word, up to
  surrounding punctuation.\<close>

lemma text_link_is_url:
  assumes "l \<in> set (collect_text_links content)"
  shows "is_http_url (sl_url l) \<and> sl_text l = None"
  using assms by (auto simp: collect_text_links_def split: option.splits)

text \<open>The values a JSON document contains at any depth.\<close>

inductive contains :: "json \<Rightarrow> json \<Rightarrow> bool" where
  contains_refl: "contains v v"
| contains_item: "v \<in> set items \<Longrightarrow> contains v w \<Longrightarrow> contains (JArr items) w"
| contains_field: "(k, v) \<in> set object \<Longrightarrow> contains v w \<Longrightarrow> contains (JObj object) w"

lemma link_found:
  assumes "contains v (JObj object)" and "map_of object ''type'' = Some (JStr ''link'')"
    and "map_of object ''url'' = Some (JStr url)"
  shows "\<lparr>sl_url = url, sl_text = get_str (JObj object) ''text''\<rparr> \<in> set (block_links v)"
  using assms
proof (induction v "JObj object" rule: contains.induct)
  case (contains_field k v obj)
  then show ?case by auto
qed auto

lemma link_justified:
  assumes "l \<in> set (block_links v)"
  shows "\<exists>object. contains v (JObj object) \<and> map_of object ''type'' = Some (JStr ''link'')
    \<and> map_of object ''url'' = Some (JStr (sl_url l)) \<and> sl_text l = get_str (JObj object) ''text''"
  using assms
proof (induction v rule: block_links.induct)
  case (1 items)
  then obtain v where "v \<in> set items" "l \<in> set (block_links v)" by auto
  then show ?case using 1(1) [of v] contains_item by blast
next
  case (2 object)
  note IH = 2(1)
  consider "map_of object ''type'' = Some (JStr ''link'')" "map_of object ''url'' = Some (JStr (sl_url l))"
      "sl_text l = get_str (JObj object) ''text''"
    | k v where "(k, v) \<in> set object" "l \<in> set (block_links v)"
    using 2(2) by (auto split: option.splits json.splits if_splits)
  then show ?case
  proof cases
    case 1
    then show ?thesis using contains_refl by blast
  next
    case (2 k v)
    then show ?thesis using IH [of "(k, v)" k v] contains_field by (metis prod.collapse)
  qed
qed auto

end
