(* ===== verification/Channel_Store.thy ===== *)
theory Channel_Store
  imports Channel_Tables Slack_Source
begin

text \<open>
  The operations of \<^verbatim>\<open>crates/state/src/store.rs\<close> on chat channels: persisting and claiming events,
  conversations and drafts, the queue of outbound messages, processing indicators and retention.

  Every operation is one statement or one transaction, so it is a function from the database to a
  result and the database that is left. \<open>clock\<close> is SQLite's \<open>datetime('now')\<close>; \<open>now\<close> is the time the
  caller passes. The derived serde codec of \<open>ChannelEvent\<close> is the parameter \<open>codec\<close>.
\<close>

record event_codec =
  event_print :: "channel_event \<Rightarrow> string option"
  event_parse :: "string \<Rightarrow> channel_event option"

definition i64_of_u64 :: "u64 \<Rightarrow> i64" where
  "i64_of_u64 n = min (uint n) i64_max"

definition u64_of_i64 :: "i64 \<Rightarrow> u64" where
  "u64_of_i64 n = (if n < 0 then 0 else word_of_int n)"

definition saturating_add_u64 :: "u64 \<Rightarrow> u64 \<Rightarrow> u64" where
  "saturating_add_u64 a b = (if uint a + uint b \<ge> 2 ^ 64 then - 1 else a + b)"

section \<open>Inbound events\<close>

record slack_source_event =
  sse_workspace_id :: string
  sse_event_kind :: string
  sse_dedupe_key :: string
  sse_envelope_id :: "string option"
  sse_event_id :: "string option"
  sse_channel_id :: "string option"
  sse_thread_ts :: "string option"
  sse_message_ts :: "string option"
  sse_user_id :: "string option"
  sse_raw_payload_json :: string

record claimed_event =
  ce_id :: i64
  ce_attempt_count :: i64
  ce_event :: channel_event

datatype event_status_kind = EventPending | EventProcessing | EventProcessed | EventFailed

definition new_source_row :: "i64 \<Rightarrow> slack_source_event \<Rightarrow> source_row" where
  "new_source_row clock s = \<lparr>se_workspace_id = sse_workspace_id s, se_event_kind = sse_event_kind s,
     se_dedupe_key = sse_dedupe_key s, se_envelope_id = sse_envelope_id s, se_event_id = sse_event_id s,
     se_channel_id = sse_channel_id s, se_thread_ts = sse_thread_ts s, se_message_ts = sse_message_ts s,
     se_user_id = sse_user_id s, se_raw_payload_json = sse_raw_payload_json s, se_received_at = clock,
     se_status = ''queued''\<rparr>"

definition new_queue_row :: "i64 \<Rightarrow> channel_event \<Rightarrow> string \<Rightarrow> queue_row list \<Rightarrow> queue_row" where
  "new_queue_row clock e payload rows = \<lparr>q_id = next_id q_id rows, q_provider = ev_provider e,
     q_workspace_id = ev_workspace_id e, q_dedupe_key = ev_dedupe_key e,
     q_event_kind = event_kind_debug (ev_kind e), q_payload_json = payload, q_status = ''pending'',
     q_available_at = clock, q_attempt_count = 0, q_updated_at = clock, q_last_error = None\<rparr>"

definition persist_slack_source_event ::
  "ext \<Rightarrow> event_codec \<Rightarrow> i64 \<Rightarrow> slack_source_event \<Rightarrow> channel_event \<Rightarrow> channel_db
     \<Rightarrow> (state_error + bool) \<times> channel_db" where
  "persist_slack_source_event x codec clock source event db =
     (case event_print codec event of
        None \<Rightarrow> (Inl SerializeChannelEvent, db)
      | Some payload \<Rightarrow>
          (case insert_new (source_check x) source_key (new_source_row clock source) (ch_sources db) of
             Inl e \<Rightarrow> (Inl (PersistSlackSourceEvent e), db)
           | Inr (sources, False) \<Rightarrow> (Inr False, db)
           | Inr (sources, True) \<Rightarrow>
               (case insert_new (queue_check x) queue_key
                   (new_queue_row clock event payload (ch_queue db)) (ch_queue db) of
                  Inl e \<Rightarrow> (Inl (PersistSlackSourceEvent e), db)
                | Inr (queue, _) \<Rightarrow> (Inr True, db \<lparr>ch_sources := sources, ch_queue := queue\<rparr>))))"

definition channel_event_queue_count :: "channel_db \<Rightarrow> nat" where
  "channel_event_queue_count db = length (ch_queue db)"

definition due_event :: "i64 \<Rightarrow> queue_row \<Rightarrow> bool" where
  "due_event clock q \<longleftrightarrow> q_status q = ''pending'' \<and> q_available_at q \<le> clock"

definition claim_queue_row :: "i64 \<Rightarrow> queue_row \<Rightarrow> queue_row" where
  "claim_queue_row clock q = q \<lparr>q_status := ''processing'', q_attempt_count := q_attempt_count q + 1,
     q_updated_at := clock\<rparr>"

text \<open>The statement commits on its own, before the payload of the claimed row is decoded.\<close>

definition claim_next_channel_event ::
  "ext \<Rightarrow> event_codec \<Rightarrow> i64 \<Rightarrow> channel_db \<Rightarrow> (state_error + claimed_event option) \<times> channel_db" where
  "claim_next_channel_event x codec clock db =
     (case select_min (\<lambda>q. (q_available_at q, q_id q)) (due_event clock) (ch_queue db) of
        None \<Rightarrow> (Inr None, db)
      | Some q \<Rightarrow>
          (case update_rows (queue_check x) (\<lambda>r. q_id r = q_id q \<and> q_status r = ''pending'')
              (claim_queue_row clock) (ch_queue db) of
             Inl e \<Rightarrow> (Inl (ChannelEventQueue e), db)
           | Inr (rows, _) \<Rightarrow>
               ((case event_parse codec (q_payload_json q) of
                   None \<Rightarrow> Inl DeserializeChannelEvent
                 | Some event \<Rightarrow> Inr (Some \<lparr>ce_id = q_id q, ce_attempt_count = q_attempt_count q + 1,
                     ce_event = event\<rparr>)),
                db \<lparr>ch_queue := rows\<rparr>)))"

definition update_claimed_event ::
  "ext \<Rightarrow> i64 \<Rightarrow> (queue_row \<Rightarrow> queue_row) \<Rightarrow> channel_db \<Rightarrow> (state_error + unit) \<times> channel_db" where
  "update_claimed_event x i f db =
     (case update_rows (queue_check x) (\<lambda>q. q_id q = i \<and> q_status q = ''processing'') f (ch_queue db) of
        Inl e \<Rightarrow> (Inl (ChannelEventQueue e), db)
      | Inr (rows, _) \<Rightarrow> (Inr (), db \<lparr>ch_queue := rows\<rparr>))"

definition complete_channel_event ::
  "ext \<Rightarrow> i64 \<Rightarrow> i64 \<Rightarrow> channel_db \<Rightarrow> (state_error + unit) \<times> channel_db" where
  "complete_channel_event x clock i db =
     update_claimed_event x i (\<lambda>q. q \<lparr>q_status := ''processed'', q_updated_at := clock\<rparr>) db"

definition release_channel_event ::
  "ext \<Rightarrow> i64 \<Rightarrow> i64 \<Rightarrow> u64 \<Rightarrow> channel_db \<Rightarrow> (state_error + unit) \<times> channel_db" where
  "release_channel_event x clock i delay db =
     (case sql_datetime (clock + max (uint delay) 1) of
        None \<Rightarrow>
          if list_ex (\<lambda>q. q_id q = i \<and> q_status q = ''processing'') (ch_queue db)
          then (Inl (ChannelEventQueue SQLITE_CONSTRAINT_NOTNULL), db) else (Inr (), db)
      | Some available_at \<Rightarrow>
          update_claimed_event x i (\<lambda>q. q \<lparr>q_status := ''pending'',
            q_attempt_count := max (q_attempt_count q - 1) 0, q_available_at := available_at,
            q_updated_at := clock\<rparr>) db)"

definition fail_channel_event ::
  "ext \<Rightarrow> i64 \<Rightarrow> i64 \<Rightarrow> string \<Rightarrow> channel_db \<Rightarrow> (state_error + unit) \<times> channel_db" where
  "fail_channel_event x clock i error db =
     update_claimed_event x i (\<lambda>q. q \<lparr>q_status := ''failed'', q_last_error := Some error,
       q_updated_at := clock\<rparr>) db"

definition find_event :: "string \<Rightarrow> string \<Rightarrow> string \<Rightarrow> channel_db \<Rightarrow> queue_row option" where
  "find_event provider workspace_id dedupe_key db =
     List.find (\<lambda>q. queue_key q = (provider, workspace_id, dedupe_key)) (ch_queue db)"

definition event_status_from_row :: "queue_row \<Rightarrow> state_error + (event_status_kind \<times> i64)" where
  "event_status_from_row q =
     rbind (if q_status q = ''pending'' then Inr EventPending
       else if q_status q = ''processing'' then Inr EventProcessing
       else if q_status q = ''processed'' then Inr EventProcessed
       else if q_status q = ''failed'' then Inr EventFailed
       else Inl (InvalidChannelEventStatus (q_status q))) (\<lambda>status. Inr (status, q_attempt_count q))"

definition channel_event_status ::
  "string \<Rightarrow> string \<Rightarrow> string \<Rightarrow> channel_db \<Rightarrow> state_error + (event_status_kind \<times> i64) option" where
  "channel_event_status provider workspace_id dedupe_key db =
     (case find_event provider workspace_id dedupe_key db of
        None \<Rightarrow> Inr None
      | Some q \<Rightarrow> rbind (event_status_from_row q) (\<lambda>s. Inr (Some s)))"

definition find_channel_event ::
  "event_codec \<Rightarrow> string \<Rightarrow> string \<Rightarrow> string \<Rightarrow> channel_db \<Rightarrow> state_error + channel_event option" where
  "find_channel_event codec provider workspace_id dedupe_key db =
     (case find_event provider workspace_id dedupe_key db of
        None \<Rightarrow> Inr None
      | Some q \<Rightarrow> rbind (ok_or DeserializeChannelEvent (event_parse codec (q_payload_json q)))
          (\<lambda>e. Inr (Some e)))"

record source_references =
  sr_found :: bool
  sr_event_kind :: "string option"
  sr_channel_id :: "string option"
  sr_thread_id :: "string option"
  sr_message_ts :: "string option"
  sr_user_id :: "string option"
  sr_metadata :: source_metadata

definition references_from_row :: "ext \<Rightarrow> source_row \<Rightarrow> source_references" where
  "references_from_row x s = \<lparr>sr_found = True, sr_event_kind = Some (se_event_kind s),
     sr_channel_id = se_channel_id s, sr_thread_id = se_thread_ts s, sr_message_ts = se_message_ts s,
     sr_user_id = se_user_id s, sr_metadata = slack_source_metadata x (se_raw_payload_json s)\<rparr>"

definition slack_source_references :: "ext \<Rightarrow> string \<Rightarrow> string \<Rightarrow> channel_db \<Rightarrow> source_references" where
  "slack_source_references x workspace_id dedupe_key db =
     (case List.find (\<lambda>s. source_key s = (workspace_id, dedupe_key)) (ch_sources db) of
        None \<Rightarrow> \<lparr>sr_found = False, sr_event_kind = None, sr_channel_id = None, sr_thread_id = None,
          sr_message_ts = None, sr_user_id = None, sr_metadata = \<lparr>sm_text_preview = None, sm_links = [],
          sm_attachments = [], sm_files = []\<rparr>\<rparr>
      | Some s \<Rightarrow> references_from_row x s)"

definition slack_source_event_count :: "channel_db \<Rightarrow> nat" where
  "slack_source_event_count db = length (ch_sources db)"

section \<open>Conversations, drafts and context\<close>

record conversation_key =
  ck_provider :: string
  ck_workspace_id :: string
  ck_kind :: string
  ck_channel_id :: "string option"
  ck_thread_id :: "string option"
  ck_user_id :: "string option"

definition normalized_key_part :: "string option \<Rightarrow> string" where
  "normalized_key_part value = (case value of None \<Rightarrow> [] | Some s \<Rightarrow> s)"

definition key_columns :: "conversation_key \<Rightarrow> conversation_columns" where
  "key_columns k = \<lparr>cc_provider = ck_provider k, cc_workspace_id = ck_workspace_id k, cc_kind = ck_kind k,
     cc_channel_id = normalized_key_part (ck_channel_id k),
     cc_thread_id = normalized_key_part (ck_thread_id k),
     cc_user_id = normalized_key_part (ck_user_id k)\<rparr>"

definition channel_conversation_thread_id :: "conversation_key \<Rightarrow> channel_db \<Rightarrow> string option" where
  "channel_conversation_thread_id k db =
     map_option cv_codex_thread_id (List.find (\<lambda>c. cv_key c = key_columns k) (ch_conversations db))"

definition upsert_channel_conversation_thread_id ::
  "conversation_key \<Rightarrow> string \<Rightarrow> channel_db \<Rightarrow> (state_error + unit) \<times> channel_db" where
  "upsert_channel_conversation_thread_id k codex_thread_id db =
     (case upsert conversation_check cv_key (\<lambda>c. c \<lparr>cv_codex_thread_id := codex_thread_id\<rparr>)
         \<lparr>cv_key = key_columns k, cv_codex_thread_id = codex_thread_id\<rparr> (ch_conversations db) of
        Inl e \<Rightarrow> (Inl (ChannelEventQueue e), db)
      | Inr rows \<Rightarrow> (Inr (), db \<lparr>ch_conversations := rows\<rparr>))"

definition channel_conversation_summary :: "conversation_key \<Rightarrow> channel_db \<Rightarrow> (string \<times> i64) option" where
  "channel_conversation_summary k db =
     map_option (\<lambda>s. (cs_summary s, cs_updated_at s))
       (List.find (\<lambda>s. cs_key s = key_columns k) (ch_summaries db))"

definition upsert_channel_conversation_summary ::
  "i64 \<Rightarrow> conversation_key \<Rightarrow> string \<Rightarrow> channel_db \<Rightarrow> (state_error + unit) \<times> channel_db" where
  "upsert_channel_conversation_summary clock k summary db =
     (case upsert summary_check cs_key (\<lambda>s. s \<lparr>cs_summary := summary, cs_updated_at := clock\<rparr>)
         \<lparr>cs_key = key_columns k, cs_summary = summary, cs_updated_at = clock\<rparr> (ch_summaries db) of
        Inl e \<Rightarrow> (Inl (ChannelEventQueue e), db)
      | Inr rows \<Rightarrow> (Inr (), db \<lparr>ch_summaries := rows\<rparr>))"

definition save_agent_draft ::
  "i64 \<Rightarrow> agent_draft \<Rightarrow> channel_db \<Rightarrow> (state_error + unit) \<times> channel_db" where
  "save_agent_draft queue_event_id draft db =
     (case insert_new draft_check dr_queue_id \<lparr>dr_id = next_id dr_id (ch_drafts db),
         dr_queue_id = queue_event_id, dr_draft = draft\<rparr> (ch_drafts db) of
        Inl e \<Rightarrow> (Inl (ChannelEventQueue e), db)
      | Inr (rows, new) \<Rightarrow>
          if new \<and> \<not> list_ex (\<lambda>q. q_id q = queue_event_id) (ch_queue db)
          then (Inl (ChannelEventQueue SQLITE_CONSTRAINT_FOREIGNKEY), db)
          else (Inr (), db \<lparr>ch_drafts := rows\<rparr>))"

definition latest_agent_draft :: "channel_db \<Rightarrow> agent_draft option" where
  "latest_agent_draft db = map_option dr_draft (select_min (\<lambda>d. - dr_id d) (\<lambda>_. True) (ch_drafts db))"

definition record_context_fetch_attempt ::
  "i64 \<Rightarrow> context_attempt \<Rightarrow> channel_db \<Rightarrow> (state_error + unit) \<times> channel_db" where
  "record_context_fetch_attempt clock attempt db =
     (let row = \<lparr>cr_id = next_id cr_id (ch_contexts db), cr_attempt = attempt, cr_created_at = clock\<rparr> in
      if \<not> context_check row then (Inl (ContextFetchAttempt SQLITE_CONSTRAINT_CHECK), db)
      else (Inr (), db \<lparr>ch_contexts := ch_contexts db @ [row]\<rparr>))"

definition latest_context_fetch_attempt :: "string \<Rightarrow> string \<Rightarrow> channel_db \<Rightarrow> context_attempt option" where
  "latest_context_fetch_attempt workspace_id dedupe_key db =
     map_option cr_attempt (select_min (\<lambda>c. - cr_id c) (\<lambda>c. ca_workspace_id (cr_attempt c) = workspace_id
       \<and> ca_dedupe_key (cr_attempt c) = dedupe_key) (ch_contexts db))"

end
