(* ===== verification/Message_Store.thy ===== *)
theory Message_Store
  imports Channel_Store
begin

text \<open>
  Outbound messages (\<^verbatim>\<open>crates/state/src/store.rs\<close>): the durable queue with its receipts and channel
  throttles, the processing indicators, and the cleanup of old channel rows.
\<close>

section \<open>Values\<close>

datatype message_sender = SenderBot | SenderUser string

definition sender_kind :: "message_sender \<Rightarrow> string" where
  "sender_kind s = (case s of SenderBot \<Rightarrow> ''bot'' | SenderUser _ \<Rightarrow> ''user'')"

definition sender_key :: "message_sender \<Rightarrow> string option" where
  "sender_key s = (case s of SenderBot \<Rightarrow> None | SenderUser key \<Rightarrow> Some key)"

definition sender_from_parts :: "string \<Rightarrow> string option \<Rightarrow> state_error + message_sender" where
  "sender_from_parts kind key =
     (if kind = ''bot'' then Inr SenderBot
      else if kind = ''user'' then (case key of
          Some k \<Rightarrow> Inr (SenderUser k)
        | None \<Rightarrow> Inl (InvalidSlackDeliveryStatus ''missing user sender key''))
      else Inl (InvalidSlackDeliveryStatus kind))"

record post_request =
  pr_connector_id :: string
  pr_workspace_id :: string
  pr_dedupe_key :: string
  pr_channel_id :: string
  pr_thread_ts :: "string option"
  pr_text :: string
  pr_sender :: message_sender

record stop_request =
  st_connector_id :: string
  st_workspace_id :: string
  st_dedupe_key :: string
  st_channel_id :: string
  st_thread_ts :: "string option"
  st_message_ts :: string
  st_text :: string
  st_sender :: message_sender

record delivery_receipt =
  rc_connector_id :: string
  rc_workspace_id :: string
  rc_channel_id :: string
  rc_thread_ts :: "string option"
  rc_message_ts :: string
  rc_dedupe_key :: string
  rc_sender :: message_sender

datatype message_status_kind = MsgPending | MsgDeferred | MsgProcessing | MsgDelivered | MsgFailed

record message_status =
  ms_connector_id :: string
  ms_workspace_id :: string
  ms_channel_id :: string
  ms_thread_ts :: "string option"
  ms_message_ts :: "string option"
  ms_dedupe_key :: string
  ms_status :: message_status_kind
  ms_available_at :: "u64 option"
  ms_attempt_count :: "i64 option"
  ms_sender_kind :: string
  ms_sender_key :: "string option"

datatype message_claim = ClaimReady post_request | ClaimDelivered delivery_receipt | ClaimDeferred u64

datatype operation_claim =
    OpPostMessage post_request
  | OpStopStream stop_request
  | OpDelivered delivery_receipt
  | OpDeferred u64

section \<open>Rows\<close>

definition post_from_row :: "message_row \<Rightarrow> state_error + post_request" where
  "post_from_row m = rbind (sender_from_parts (m_sender_kind m) (m_sender_key m)) (\<lambda>sender.
     Inr \<lparr>pr_connector_id = m_connector_id m, pr_workspace_id = m_workspace_id m,
       pr_dedupe_key = m_dedupe_key m, pr_channel_id = m_channel_id m, pr_thread_ts = m_thread_ts m,
       pr_text = m_text m, pr_sender = sender\<rparr>)"

definition stop_from_row :: "message_row \<Rightarrow> state_error + stop_request" where
  "stop_from_row m = rbind (sender_from_parts (m_sender_kind m) (m_sender_key m)) (\<lambda>sender.
     rbind (ok_or (InvalidSlackDeliveryOperation (m_operation m)) (m_message_ts m)) (\<lambda>message_ts.
     Inr \<lparr>st_connector_id = m_connector_id m, st_workspace_id = m_workspace_id m,
       st_dedupe_key = m_dedupe_key m, st_channel_id = m_channel_id m, st_thread_ts = m_thread_ts m,
       st_message_ts = message_ts, st_text = m_text m, st_sender = sender\<rparr>))"

definition operation_from_row :: "message_row \<Rightarrow> state_error + operation_claim" where
  "operation_from_row m =
     (if m_operation m = ''post_message'' then rbind (post_from_row m) (\<lambda>r. Inr (OpPostMessage r))
      else if m_operation m = ''stop_stream'' then rbind (stop_from_row m) (\<lambda>r. Inr (OpStopStream r))
      else Inl (InvalidSlackDeliveryOperation (m_operation m)))"

definition receipt_from_row :: "receipt_row \<Rightarrow> state_error + delivery_receipt" where
  "receipt_from_row r = rbind (sender_from_parts (rr_sender_kind r) (rr_sender_key r)) (\<lambda>sender.
     Inr \<lparr>rc_connector_id = rr_connector_id r, rc_workspace_id = rr_workspace_id r,
       rc_channel_id = rr_channel_id r, rc_thread_ts = rr_thread_ts r, rc_message_ts = rr_message_ts r,
       rc_dedupe_key = rr_dedupe_key r, rc_sender = sender\<rparr>)"

section \<open>The queue\<close>

definition new_message_row ::
  "i64 \<Rightarrow> u64 \<Rightarrow> post_request \<Rightarrow> string option \<Rightarrow> string \<Rightarrow> message_row list \<Rightarrow> message_row" where
  "new_message_row clock now r message_ts operation rows = \<lparr>m_id = next_id m_id rows,
     m_connector_id = pr_connector_id r, m_workspace_id = pr_workspace_id r,
     m_dedupe_key = pr_dedupe_key r, m_channel_id = pr_channel_id r, m_thread_ts = pr_thread_ts r,
     m_message_ts = message_ts, m_text = pr_text r, m_status = ''pending'',
     m_available_at = i64_of_u64 now, m_attempt_count = 0, m_created_at = clock, m_updated_at = clock,
     m_sender_kind = sender_kind (pr_sender r), m_sender_key = sender_key (pr_sender r),
     m_operation = operation\<rparr>"

definition enqueue_message :: "message_row \<Rightarrow> channel_db \<Rightarrow> (state_error + bool) \<times> channel_db" where
  "enqueue_message row db =
     (case insert_new message_check message_key row (ch_messages db) of
        Inl e \<Rightarrow> (Inl (SlackDelivery e), db)
      | Inr (rows, new) \<Rightarrow> (Inr new, db \<lparr>ch_messages := rows\<rparr>))"

definition enqueue_slack_delivery ::
  "i64 \<Rightarrow> u64 \<Rightarrow> post_request \<Rightarrow> channel_db \<Rightarrow> (state_error + bool) \<times> channel_db" where
  "enqueue_slack_delivery clock now r db =
     enqueue_message (new_message_row clock now r None ''post_message'' (ch_messages db)) db"

definition enqueue_slack_stop_stream_delivery ::
  "i64 \<Rightarrow> u64 \<Rightarrow> stop_request \<Rightarrow> channel_db \<Rightarrow> (state_error + bool) \<times> channel_db" where
  "enqueue_slack_stop_stream_delivery clock now r db =
     enqueue_message (new_message_row clock now \<lparr>pr_connector_id = st_connector_id r,
         pr_workspace_id = st_workspace_id r, pr_dedupe_key = st_dedupe_key r,
         pr_channel_id = st_channel_id r, pr_thread_ts = st_thread_ts r, pr_text = st_text r,
         pr_sender = st_sender r\<rparr> (Some (st_message_ts r)) ''stop_stream'' (ch_messages db)) db"

definition find_receipt :: "string \<Rightarrow> string \<Rightarrow> channel_db \<Rightarrow> receipt_row option" where
  "find_receipt workspace_id dedupe_key db =
     List.find (\<lambda>r. receipt_key r = (workspace_id, dedupe_key)) (ch_receipts db)"

definition find_message :: "string \<Rightarrow> string \<Rightarrow> channel_db \<Rightarrow> message_row option" where
  "find_message workspace_id dedupe_key db =
     List.find (\<lambda>m. message_key m = (workspace_id, dedupe_key)) (ch_messages db)"

definition channel_available_at :: "string \<Rightarrow> string \<Rightarrow> channel_db \<Rightarrow> i64" where
  "channel_available_at workspace_id channel_id db =
     (case List.find (\<lambda>t. throttle_key t = (workspace_id, channel_id)) (ch_throttles db) of
        None \<Rightarrow> 0 | Some t \<Rightarrow> th_next_available_at t)"

text \<open>When a queued message may be sent: its own time or its channel's, whichever is later.\<close>

definition message_due_at :: "channel_db \<Rightarrow> message_row \<Rightarrow> i64" where
  "message_due_at db m =
     max (m_available_at m) (channel_available_at (m_workspace_id m) (m_channel_id m) db)"

definition message_status_of_row ::
  "channel_db \<Rightarrow> i64 \<Rightarrow> message_row \<Rightarrow> state_error + message_status_kind" where
  "message_status_of_row db now m =
     (if m_status m = ''pending'' then Inr (if message_due_at db m > now then MsgDeferred else MsgPending)
      else if m_status m = ''processing'' then Inr MsgProcessing
      else if m_status m = ''failed'' then Inr MsgFailed
      else if m_status m = ''delivered'' then Inr MsgDelivered
      else Inl (InvalidSlackDeliveryStatus (m_status m)))"

definition slack_delivery_status ::
  "string \<Rightarrow> string \<Rightarrow> u64 \<Rightarrow> channel_db \<Rightarrow> state_error + message_status option" where
  "slack_delivery_status workspace_id dedupe_key now db =
     (case find_receipt workspace_id dedupe_key db of
        Some r \<Rightarrow>
          rbind (sender_from_parts (rr_sender_kind r) (rr_sender_key r)) (\<lambda>sender.
          Inr (Some \<lparr>ms_connector_id = rr_connector_id r, ms_workspace_id = rr_workspace_id r,
            ms_channel_id = rr_channel_id r, ms_thread_ts = rr_thread_ts r,
            ms_message_ts = Some (rr_message_ts r), ms_dedupe_key = rr_dedupe_key r,
            ms_status = MsgDelivered, ms_available_at = None, ms_attempt_count = None,
            ms_sender_kind = sender_kind sender, ms_sender_key = sender_key sender\<rparr>))
      | None \<Rightarrow>
          (case find_message workspace_id dedupe_key db of
             None \<Rightarrow> Inr None
           | Some m \<Rightarrow>
               rbind (message_status_of_row db (i64_of_u64 now) m) (\<lambda>status.
               rbind (sender_from_parts (m_sender_kind m) (m_sender_key m)) (\<lambda>sender.
               Inr (Some \<lparr>ms_connector_id = m_connector_id m, ms_workspace_id = m_workspace_id m,
                 ms_channel_id = m_channel_id m, ms_thread_ts = m_thread_ts m,
                 ms_message_ts = m_message_ts m, ms_dedupe_key = m_dedupe_key m, ms_status = status,
                 ms_available_at = Some (u64_of_i64 (message_due_at db m)),
                 ms_attempt_count = Some (m_attempt_count m), ms_sender_kind = sender_kind sender,
                 ms_sender_key = sender_key sender\<rparr>)))))"

definition claim_message_row :: "i64 \<Rightarrow> message_row \<Rightarrow> message_row" where
  "claim_message_row clock m = m \<lparr>m_status := ''processing'', m_attempt_count := m_attempt_count m + 1,
     m_updated_at := clock\<rparr>"

text \<open>The guarded update that takes a pending message.\<close>

definition take_message ::
  "i64 \<Rightarrow> string \<times> string \<Rightarrow> channel_db \<Rightarrow> state_error + (channel_db \<times> nat)" where
  "take_message clock key db =
     rbind (map_err SlackDelivery (update_rows message_check (\<lambda>m. message_key m = key \<and> m_status m = ''pending'')
       (claim_message_row clock) (ch_messages db))) (\<lambda>(rows, n).
     Inr (db \<lparr>ch_messages := rows\<rparr>, n))"

definition commit :: "channel_db \<Rightarrow> state_error + (channel_db \<times> 'a) \<Rightarrow> (state_error + 'a) \<times> channel_db" where
  "commit db m = (case m of Inl e \<Rightarrow> (Inl e, db) | Inr (db', v) \<Rightarrow> (Inr v, db'))"

text \<open>A claim by key, for the operations it accepts.\<close>

definition claim_by_key ::
  "(message_row \<Rightarrow> bool) \<Rightarrow> (message_row \<Rightarrow> state_error + 'c) \<Rightarrow> (delivery_receipt \<Rightarrow> 'c) \<Rightarrow> (u64 \<Rightarrow> 'c)
     \<Rightarrow> i64 \<Rightarrow> string \<Rightarrow> string \<Rightarrow> u64 \<Rightarrow> channel_db \<Rightarrow> state_error + (channel_db \<times> 'c)" where
  "claim_by_key accepts decode delivered deferred clock workspace_id dedupe_key now db =
     (case find_receipt workspace_id dedupe_key db of
        Some r \<Rightarrow> rbind (receipt_from_row r) (\<lambda>receipt. Inr (db, delivered receipt))
      | None \<Rightarrow>
          (case List.find (\<lambda>m. message_key m = (workspace_id, dedupe_key) \<and> accepts m) (ch_messages db) of
             None \<Rightarrow> Inl (SlackDelivery SqlxOther)
           | Some m \<Rightarrow>
               if m_status m \<noteq> ''pending'' then Inr (db, deferred (saturating_add_u64 now 1))
               else if message_due_at db m > i64_of_u64 now
               then Inr (db, deferred (u64_of_i64 (message_due_at db m)))
               else rbind (decode m) (\<lambda>claim.
                 rbind (take_message clock (workspace_id, dedupe_key) db) (\<lambda>(db', n).
                 if n = 0 then Inr (db, deferred (saturating_add_u64 now 1)) else Inr (db', claim)))))"

definition claim_slack_delivery ::
  "i64 \<Rightarrow> string \<Rightarrow> string \<Rightarrow> u64 \<Rightarrow> channel_db \<Rightarrow> (state_error + message_claim) \<times> channel_db" where
  "claim_slack_delivery clock workspace_id dedupe_key now db =
     commit db (claim_by_key (\<lambda>m. m_operation m = ''post_message'')
       (\<lambda>m. rbind (post_from_row m) (\<lambda>r. Inr (ClaimReady r))) ClaimDelivered ClaimDeferred
       clock workspace_id dedupe_key now db)"

definition claim_slack_delivery_operation ::
  "i64 \<Rightarrow> string \<Rightarrow> string \<Rightarrow> u64 \<Rightarrow> channel_db \<Rightarrow> (state_error + operation_claim) \<times> channel_db" where
  "claim_slack_delivery_operation clock workspace_id dedupe_key now db =
     commit db (claim_by_key (\<lambda>_. True) operation_from_row OpDelivered OpDeferred
       clock workspace_id dedupe_key now db)"

text \<open>A claim of the next due message; the receipts are not consulted.\<close>

definition claim_next ::
  "(message_row \<Rightarrow> bool) \<Rightarrow> (message_row \<Rightarrow> state_error + 'c) \<Rightarrow> i64 \<Rightarrow> u64 \<Rightarrow> channel_db
     \<Rightarrow> state_error + (channel_db \<times> 'c option)" where
  "claim_next accepts decode clock now db =
     (case select_min (\<lambda>m. (message_due_at db m, m_created_at m, m_id m))
         (\<lambda>m. m_status m = ''pending'' \<and> accepts m \<and> message_due_at db m \<le> i64_of_u64 now) (ch_messages db) of
        None \<Rightarrow> Inr (db, None)
      | Some m \<Rightarrow>
          rbind (decode m) (\<lambda>claim.
          rbind (take_message clock (message_key m) db) (\<lambda>(db', n).
          Inr (db', if n = 0 then None else Some claim))))"

definition claim_next_due_slack_delivery ::
  "i64 \<Rightarrow> u64 \<Rightarrow> channel_db \<Rightarrow> (state_error + message_claim option) \<times> channel_db" where
  "claim_next_due_slack_delivery clock now db =
     commit db (claim_next (\<lambda>m. m_operation m = ''post_message'')
       (\<lambda>m. rbind (post_from_row m) (\<lambda>r. Inr (ClaimReady r))) clock now db)"

definition claim_next_due_slack_delivery_operation ::
  "i64 \<Rightarrow> u64 \<Rightarrow> channel_db \<Rightarrow> (state_error + operation_claim option) \<times> channel_db" where
  "claim_next_due_slack_delivery_operation clock now db =
     commit db (claim_next (\<lambda>_. True) operation_from_row clock now db)"

definition retry_slack_delivery ::
  "i64 \<Rightarrow> string \<Rightarrow> string \<Rightarrow> u64 \<Rightarrow> channel_db \<Rightarrow> (state_error + unit) \<times> channel_db" where
  "retry_slack_delivery clock workspace_id dedupe_key available_at db =
     commit db (rbind (map_err SlackDelivery (update_rows message_check
       (\<lambda>m. message_key m = (workspace_id, dedupe_key))
       (\<lambda>m. m \<lparr>m_status := ''pending'', m_available_at := i64_of_u64 available_at, m_updated_at := clock\<rparr>)
       (ch_messages db))) (\<lambda>(rows, _). Inr (db \<lparr>ch_messages := rows\<rparr>, ())))"

definition new_receipt_row :: "i64 \<Rightarrow> delivery_receipt \<Rightarrow> string \<Rightarrow> receipt_row" where
  "new_receipt_row clock r response_json = \<lparr>rr_connector_id = rc_connector_id r,
     rr_workspace_id = rc_workspace_id r, rr_channel_id = rc_channel_id r, rr_thread_ts = rc_thread_ts r,
     rr_message_ts = rc_message_ts r, rr_dedupe_key = rc_dedupe_key r, rr_response_json = response_json,
     rr_created_at = clock, rr_sender_kind = sender_kind (rc_sender r),
     rr_sender_key = sender_key (rc_sender r)\<rparr>"

definition complete_slack_delivery ::
  "ext \<Rightarrow> i64 \<Rightarrow> delivery_receipt \<Rightarrow> string \<Rightarrow> u64 \<Rightarrow> channel_db \<Rightarrow> (state_error + unit) \<times> channel_db" where
  "complete_slack_delivery x clock r response_json next_available_at db =
     commit db
       (rbind (map_err SlackDelivery (insert_new (receipt_check x) receipt_key
          (new_receipt_row clock r response_json) (ch_receipts db))) (\<lambda>(receipts, _).
        rbind (map_err SlackDelivery (update_rows message_check
          (\<lambda>m. message_key m = (rc_workspace_id r, rc_dedupe_key r))
          (\<lambda>m. m \<lparr>m_status := ''delivered'', m_updated_at := clock\<rparr>) (ch_messages db))) (\<lambda>(messages, _).
        rbind (map_err SlackDelivery (upsert throttle_check throttle_key
          (\<lambda>t. t \<lparr>th_next_available_at := max (th_next_available_at t) (i64_of_u64 next_available_at)\<rparr>)
          \<lparr>th_workspace_id = rc_workspace_id r, th_channel_id = rc_channel_id r,
           th_next_available_at = i64_of_u64 next_available_at\<rparr> (ch_throttles db))) (\<lambda>throttles.
        Inr (db \<lparr>ch_receipts := receipts, ch_messages := messages, ch_throttles := throttles\<rparr>, ())))))"

definition slack_delivery_receipt_count :: "channel_db \<Rightarrow> nat" where
  "slack_delivery_receipt_count db = length (ch_receipts db)"

section \<open>Processing indicators\<close>

datatype indicator_status_kind = IndicatorStarted | IndicatorCompleted | IndicatorFailed

definition create_slack_processing_indicator ::
  "i64 \<Rightarrow> string \<Rightarrow> string \<Rightarrow> string \<Rightarrow> string option \<Rightarrow> string \<Rightarrow> channel_db
     \<Rightarrow> (state_error + bool) \<times> channel_db" where
  "create_slack_processing_indicator clock workspace_id event_dedupe_key channel_id thread_ts message_ts db =
     commit db (rbind (map_err SlackDelivery (insert_new indicator_check indicator_key
       \<lparr>ir_workspace_id = workspace_id, ir_event_dedupe_key = event_dedupe_key,
        ir_channel_id = channel_id, ir_thread_ts = thread_ts, ir_message_ts = message_ts,
        ir_status = ''started'', ir_error = None, ir_created_at = clock, ir_updated_at = clock,
        ir_completed_at = None\<rparr> (ch_indicators db))) (\<lambda>(rows, new).
     Inr (db \<lparr>ch_indicators := rows\<rparr>, new)))"

definition indicator_from_row :: "indicator_row \<Rightarrow> state_error + (indicator_row \<times> indicator_status_kind)" where
  "indicator_from_row i =
     rbind (if ir_status i = ''started'' then Inr IndicatorStarted
       else if ir_status i = ''completed'' then Inr IndicatorCompleted
       else if ir_status i = ''failed'' then Inr IndicatorFailed
       else Inl (InvalidSlackProcessingIndicatorStatus (ir_status i))) (\<lambda>status. Inr (i, status))"

definition slack_processing_indicator ::
  "string \<Rightarrow> string \<Rightarrow> channel_db \<Rightarrow> state_error + (indicator_row \<times> indicator_status_kind) option" where
  "slack_processing_indicator workspace_id event_dedupe_key db =
     (case List.find (\<lambda>i. indicator_key i = (workspace_id, event_dedupe_key)) (ch_indicators db) of
        None \<Rightarrow> Inr None
      | Some i \<Rightarrow> rbind (indicator_from_row i) (\<lambda>v. Inr (Some v)))"

definition close_indicator :: "i64 \<Rightarrow> string \<Rightarrow> string option \<Rightarrow> indicator_row \<Rightarrow> indicator_row" where
  "close_indicator clock status error i = i \<lparr>ir_status := status, ir_error := error,
     ir_completed_at := Some (case ir_completed_at i of None \<Rightarrow> clock | Some t \<Rightarrow> t), ir_updated_at := clock\<rparr>"

definition update_indicator ::
  "string \<Rightarrow> string \<Rightarrow> (indicator_row \<Rightarrow> indicator_row) \<Rightarrow> channel_db \<Rightarrow> (state_error + unit) \<times> channel_db" where
  "update_indicator workspace_id event_dedupe_key f db =
     commit db (rbind (map_err SlackDelivery (update_rows indicator_check
       (\<lambda>i. indicator_key i = (workspace_id, event_dedupe_key)) f (ch_indicators db))) (\<lambda>(rows, _).
     Inr (db \<lparr>ch_indicators := rows\<rparr>, ())))"

definition complete_slack_processing_indicator ::
  "i64 \<Rightarrow> string \<Rightarrow> string \<Rightarrow> channel_db \<Rightarrow> (state_error + unit) \<times> channel_db" where
  "complete_slack_processing_indicator clock workspace_id event_dedupe_key db =
     update_indicator workspace_id event_dedupe_key (close_indicator clock ''completed'' None) db"

definition fail_slack_processing_indicator ::
  "i64 \<Rightarrow> string \<Rightarrow> string \<Rightarrow> string \<Rightarrow> channel_db \<Rightarrow> (state_error + unit) \<times> channel_db" where
  "fail_slack_processing_indicator clock workspace_id event_dedupe_key error db =
     update_indicator workspace_id event_dedupe_key (close_indicator clock ''failed'' (Some error)) db"

section \<open>Retention\<close>

record retention_policy =
  rp_enabled :: bool
  inbound_payload_days :: u16
  delivery_days :: u16
  context_attempt_days :: u16
  conversation_summary_days :: u16
  artifact_days :: u16
  scheduled_run_days :: u16
  scheduled_delivery_days :: u16
  scheduled_retention_batch_limit :: u16

definition default_retention_policy :: retention_policy where
  "default_retention_policy = \<lparr>rp_enabled = True, inbound_payload_days = 30, delivery_days = 30,
     context_attempt_days = 14, conversation_summary_days = 90, artifact_days = 7,
     scheduled_run_days = 30, scheduled_delivery_days = 30, scheduled_retention_batch_limit = 100\<rparr>"

text \<open>\<open>datetime(now, 'unixepoch', '-n days')\<close>.\<close>

definition retention_cutoff :: "i64 \<Rightarrow> u16 \<Rightarrow> int option" where
  "retention_cutoff now days = Option.bind (sql_datetime now) (\<lambda>t. sql_datetime (t - uint days * 86400))"

definition in_workspace :: "string option \<Rightarrow> string \<Rightarrow> bool" where
  "in_workspace scope workspace_id \<longleftrightarrow> scope = None \<or> scope = Some workspace_id"

definition old_source :: "int option \<Rightarrow> string option \<Rightarrow> channel_db \<Rightarrow> source_row \<Rightarrow> bool" where
  "old_source cutoff scope db s \<longleftrightarrow> before_cutoff (se_received_at s) cutoff
     \<and> in_workspace scope (se_workspace_id s)
     \<and> \<not> list_ex (\<lambda>q. q_workspace_id q = se_workspace_id s \<and> q_dedupe_key q = se_dedupe_key s
          \<and> q_status q \<in> set [''pending'', ''processing'']) (ch_queue db)"

definition old_event :: "int option \<Rightarrow> string option \<Rightarrow> queue_row \<Rightarrow> bool" where
  "old_event cutoff scope q \<longleftrightarrow> before_cutoff (q_updated_at q) cutoff
     \<and> q_status q \<in> set [''processed'', ''failed''] \<and> in_workspace scope (q_workspace_id q)"

definition old_receipt :: "int option \<Rightarrow> string option \<Rightarrow> receipt_row \<Rightarrow> bool" where
  "old_receipt cutoff scope r \<longleftrightarrow> before_cutoff (rr_created_at r) cutoff \<and> in_workspace scope (rr_workspace_id r)"

definition old_message :: "int option \<Rightarrow> string option \<Rightarrow> message_row \<Rightarrow> bool" where
  "old_message cutoff scope m \<longleftrightarrow> before_cutoff (m_updated_at m) cutoff
     \<and> m_status m \<in> set [''delivered'', ''failed''] \<and> in_workspace scope (m_workspace_id m)"

definition old_indicator :: "int option \<Rightarrow> string option \<Rightarrow> indicator_row \<Rightarrow> bool" where
  "old_indicator cutoff scope i \<longleftrightarrow>
     before_cutoff (case ir_completed_at i of None \<Rightarrow> ir_updated_at i | Some t \<Rightarrow> t) cutoff
     \<and> ir_status i \<in> set [''completed'', ''failed''] \<and> in_workspace scope (ir_workspace_id i)"

definition old_context :: "int option \<Rightarrow> string option \<Rightarrow> context_row \<Rightarrow> bool" where
  "old_context cutoff scope c \<longleftrightarrow> before_cutoff (cr_created_at c) cutoff
     \<and> in_workspace scope (ca_workspace_id (cr_attempt c))"

definition old_summary :: "int option \<Rightarrow> string option \<Rightarrow> summary_row \<Rightarrow> bool" where
  "old_summary cutoff scope s \<longleftrightarrow> before_cutoff (cs_updated_at s) cutoff
     \<and> in_workspace scope (cc_workspace_id (cs_key s))"

definition delete_rows :: "('r \<Rightarrow> bool) \<Rightarrow> 'r list \<Rightarrow> 'r list" where
  "delete_rows w rows = filter (\<lambda>r. \<not> w r) rows"

text \<open>The transaction of \<open>cleanup_retained_data\<close> over the channel tables; a deleted event takes its draft
  with it.\<close>

definition cleanup_channel_rows ::
  "string option \<Rightarrow> u64 \<Rightarrow> retention_policy \<Rightarrow> channel_db \<Rightarrow> channel_db" where
  "cleanup_channel_rows scope now_seconds policy db =
     (if \<not> rp_enabled policy then db
      else
        let now = i64_of_u64 now_seconds;
            inbound = retention_cutoff now (inbound_payload_days policy);
            delivery = retention_cutoff now (delivery_days policy);
            attempts = retention_cutoff now (context_attempt_days policy);
            summaries = retention_cutoff now (conversation_summary_days policy);
            db1 = db \<lparr>ch_sources := delete_rows (old_source inbound scope db) (ch_sources db)\<rparr>;
            queue = delete_rows (old_event inbound scope) (ch_queue db1);
            db2 = db1 \<lparr>ch_queue := queue,
              ch_drafts := delete_rows (\<lambda>d. list_ex (\<lambda>q. q_id q = dr_queue_id d \<and> old_event inbound scope q)
                (ch_queue db1)) (ch_drafts db1)\<rparr>;
            db3 = db2 \<lparr>ch_receipts := delete_rows (old_receipt delivery scope) (ch_receipts db2)\<rparr>;
            db4 = db3 \<lparr>ch_messages := delete_rows (old_message delivery scope) (ch_messages db3)\<rparr>;
            db5 = db4 \<lparr>ch_indicators := delete_rows (old_indicator attempts scope) (ch_indicators db4)\<rparr>;
            db6 = db5 \<lparr>ch_contexts := delete_rows (old_context attempts scope) (ch_contexts db5)\<rparr>
        in db6 \<lparr>ch_summaries := delete_rows (old_summary summaries scope) (ch_summaries db6)\<rparr>)"

end
