(* ===== verification/Slack_Queue.thy ===== *)
theory Slack_Queue
  imports Message_Store
begin

text \<open>
  The worker that sends queued messages (\<^verbatim>\<open>crates/channel/slack/src/delivery.rs\<close>). It claims a message,
  calls the Slack API, and records the receipt; a receipt it cannot store because the database is
  contended is kept in memory and stored later, and meanwhile the channel is throttled in memory.

  A handler awaits the API in its middle, so it is split there: what it does before the call, and what
  it does with the reply. The reply is an argument, as is what the storage engine does: \<open>faults\<close> names
  the error with which a statement fails without effect, if it does.
\<close>

section \<open>Values\<close>

datatype api_error_class = ClassInvalid | ClassUnauthorized | ClassTargetUnavailable | ClassTransient

datatype api_error_scope = ScopeGlobalProvider | ScopeTarget | ScopeUnknown

datatype web_api_error =
    ApiRequest string
  | RateLimited "u64 option"
  | ApiUnavailable
  | InvalidResponse string
  | ApiProvider string
  | ApiRejected api_error_class api_error_scope
  | UnsupportedTarget
  | ApiDeferred u64

text \<open>The fields of a posted or stopped message that the queue reads.\<close>

record posted_message =
  po_channel_id :: string
  po_thread_ts :: "string option"
  po_message_ts :: string
  po_response_body :: string

record pending_completion =
  pn_receipt :: delivery_receipt
  pn_response_json :: string
  pn_next_attempt_at :: u64
  pn_retry_delay_seconds :: u64
  pn_next_available_at :: u64

record slack_queue =
  sq_db :: channel_db
  sq_pending :: "pending_completion list"
  sq_throttles :: "(string \<times> string) \<rightharpoonup> u64"

definition channel_interval_seconds :: u64 where
  "channel_interval_seconds = 1"

definition INITIAL_COMPLETION_PERSISTENCE_RETRY_DELAY_SECONDS :: u64 where
  "INITIAL_COMPLETION_PERSISTENCE_RETRY_DELAY_SECONDS = 1"

definition MAX_COMPLETION_PERSISTENCE_RETRY_DELAY_SECONDS :: u64 where
  "MAX_COMPLETION_PERSISTENCE_RETRY_DELAY_SECONDS = 60"

text \<open>The statements of a handler that the storage engine may fail.\<close>

datatype store_call = CallEnqueue | CallClaim | CallRetry | CallComplete | CallFlush

record slack_env =
  env_ext :: ext
  env_clock :: i64
  env_display :: "state_error \<Rightarrow> string"
  env_faults :: "store_call \<Rightarrow> sqlx_error option"

definition faulted ::
  "slack_env \<Rightarrow> store_call \<Rightarrow> (channel_db \<Rightarrow> (state_error + 'a) \<times> channel_db) \<Rightarrow> channel_db
     \<Rightarrow> (state_error + 'a) \<times> channel_db" where
  "faulted env call f db = (case env_faults env call of None \<Rightarrow> f db | Some e \<Rightarrow> (Inl (SlackDelivery e), db))"

definition api_state_error :: "slack_env \<Rightarrow> state_error \<Rightarrow> web_api_error" where
  "api_state_error env e = ApiRequest (''slack delivery state error: '' @ env_display env e)"

definition request_to_delivery :: "message_request \<Rightarrow> web_api_error + post_request" where
  "request_to_delivery r =
     rbind (case mr_target r of
         ReplyThread channel_id thread_id \<Rightarrow> Inr (channel_id, Some thread_id)
       | ReplyDirectMessage user \<Rightarrow> Inr (user, None)
       | ReplyChannel _ \<Rightarrow> Inl UnsupportedTarget
       | ReplyEphemeral _ _ \<Rightarrow> Inl UnsupportedTarget) (\<lambda>(channel_id, thread_ts).
     Inr \<lparr>pr_connector_id = mr_connector_id r, pr_workspace_id = mr_workspace_id r,
       pr_dedupe_key = mr_dedupe_key r, pr_channel_id = channel_id, pr_thread_ts = thread_ts,
       pr_text = mr_text r, pr_sender = SenderBot\<rparr>)"

definition receipt_to_channel :: "delivery_receipt \<Rightarrow> message_receipt" where
  "receipt_to_channel r = \<lparr>mc_connector_id = rc_connector_id r, mc_workspace_id = rc_workspace_id r,
     mc_request_dedupe_key = rc_dedupe_key r, mc_message_id = rc_message_ts r\<rparr>"

section \<open>Throttles in memory\<close>

definition in_memory_channel_available_at :: "post_request \<Rightarrow> u64 \<Rightarrow> slack_queue \<Rightarrow> u64 option" where
  "in_memory_channel_available_at d now sq =
     (case sq_throttles sq (pr_workspace_id d, pr_channel_id d) of
        None \<Rightarrow> None
      | Some available_at \<Rightarrow> if available_at > now then Some available_at else None)"

definition set_in_memory_channel_throttle :: "delivery_receipt \<Rightarrow> u64 \<Rightarrow> slack_queue \<Rightarrow> slack_queue" where
  "set_in_memory_channel_throttle r next_available_at sq =
     (let key = (rc_workspace_id r, rc_channel_id r) in
      sq \<lparr>sq_throttles := (sq_throttles sq)(key \<mapsto>
        (case sq_throttles sq key of None \<Rightarrow> next_available_at | Some t \<Rightarrow> max t next_available_at))\<rparr>)"

definition clear_in_memory_channel_throttle :: "delivery_receipt \<Rightarrow> u64 \<Rightarrow> slack_queue \<Rightarrow> slack_queue" where
  "clear_in_memory_channel_throttle r persisted sq =
     (let key = (rc_workspace_id r, rc_channel_id r) in
      case sq_throttles sq key of
        None \<Rightarrow> sq
      | Some t \<Rightarrow> if t \<le> persisted then sq \<lparr>sq_throttles := (sq_throttles sq)(key := None)\<rparr> else sq)"

section \<open>Receipts\<close>

definition persist_or_defer_completion ::
  "slack_env \<Rightarrow> delivery_receipt \<Rightarrow> string \<Rightarrow> u64 \<Rightarrow> u64 \<Rightarrow> slack_queue
     \<Rightarrow> (web_api_error + bool) \<times> slack_queue" where
  "persist_or_defer_completion env r response_json next_available_at now sq =
     (case faulted env CallComplete (complete_slack_delivery (env_ext env) (env_clock env) r response_json
         next_available_at) (sq_db sq) of
        (Inr (), db) \<Rightarrow> (Inr False, sq \<lparr>sq_db := db\<rparr>)
      | (Inl e, db) \<Rightarrow>
          if is_transient_storage_contention e
          then (Inr True, sq \<lparr>sq_pending := sq_pending sq @ [\<lparr>pn_receipt = r,
            pn_response_json = response_json, pn_next_attempt_at =
              saturating_add_u64 now INITIAL_COMPLETION_PERSISTENCE_RETRY_DELAY_SECONDS,
            pn_retry_delay_seconds = INITIAL_COMPLETION_PERSISTENCE_RETRY_DELAY_SECONDS,
            pn_next_available_at = next_available_at\<rparr>]\<rparr>)
          else (Inl (api_state_error env e), sq))"

text \<open>The first due completion, with the rest of the deque.\<close>

fun take_due_pending ::
  "u64 \<Rightarrow> pending_completion list \<Rightarrow> (pending_completion \<times> pending_completion list) option" where
  "take_due_pending now [] = None"
| "take_due_pending now (p # ps) =
     (if pn_next_attempt_at p \<le> now then Some (p, ps)
      else map_option (\<lambda>(q, rest). (q, p # rest)) (take_due_pending now ps))"

definition saturating_double :: "u64 \<Rightarrow> u64" where
  "saturating_double n = saturating_add_u64 n n"

definition back_off :: "u64 \<Rightarrow> pending_completion \<Rightarrow> pending_completion" where
  "back_off now p =
     (let delay = min (saturating_double (pn_retry_delay_seconds p))
        MAX_COMPLETION_PERSISTENCE_RETRY_DELAY_SECONDS in
      p \<lparr>pn_retry_delay_seconds := delay, pn_next_attempt_at := saturating_add_u64 now delay\<rparr>)"

definition complete_due_pending ::
  "slack_env \<Rightarrow> u64 \<Rightarrow> slack_queue \<Rightarrow> (web_api_error + delivery_receipt option) \<times> slack_queue" where
  "complete_due_pending env now sq =
     (case take_due_pending now (sq_pending sq) of
        None \<Rightarrow> (Inr None, sq)
      | Some (p, rest) \<Rightarrow>
          (case faulted env CallFlush (complete_slack_delivery (env_ext env) (env_clock env) (pn_receipt p)
              (pn_response_json p) (pn_next_available_at p)) (sq_db sq) of
             (Inr (), db) \<Rightarrow>
               (Inr (Some (pn_receipt p)), clear_in_memory_channel_throttle (pn_receipt p)
                 (pn_next_available_at p) (sq \<lparr>sq_db := db, sq_pending := rest\<rparr>))
           | (Inl e, db) \<Rightarrow>
               if is_transient_storage_contention e
               then (Inr None, sq \<lparr>sq_pending := rest @ [back_off now p]\<rparr>)
               else (Inl (api_state_error env e), sq \<lparr>sq_pending := rest\<rparr>)))"

section \<open>Handlers\<close>

text \<open>Where a handler stands before the API is called: it has answered, or it is about to post.\<close>

datatype begun =
    Finished "web_api_error + message_receipt option"
  | Posting post_request
  | Stopping stop_request

definition answer :: "web_api_error + message_receipt \<Rightarrow> web_api_error + message_receipt option" where
  "answer r = rbind r (\<lambda>v. Inr (Some v))"

definition deliver_claim ::
  "slack_env \<Rightarrow> message_request \<Rightarrow> u64 \<Rightarrow> slack_queue \<Rightarrow> begun \<times> slack_queue" where
  "deliver_claim env request now sq =
     (case request_to_delivery request of
        Inl e \<Rightarrow> (Finished (Inl e), sq)
      | Inr queued \<Rightarrow>
          (case faulted env CallEnqueue (enqueue_slack_delivery (env_clock env) now queued) (sq_db sq) of
             (Inl e, _) \<Rightarrow> (Finished (Inl (api_state_error env e)), sq)
           | (Inr _, db) \<Rightarrow>
               (let sq1 = sq \<lparr>sq_db := db\<rparr> in
                case in_memory_channel_available_at queued now sq1 of
                  Some available_at \<Rightarrow> (Finished (Inl (ApiDeferred available_at)), sq1)
                | None \<Rightarrow>
                    (case faulted env CallClaim (claim_slack_delivery (env_clock env)
                        (pr_workspace_id queued) (pr_dedupe_key queued) now) db of
                       (Inl e, _) \<Rightarrow> (Finished (Inl (api_state_error env e)), sq1)
                     | (Inr (ClaimDelivered r), db') \<Rightarrow>
                         (Finished (Inr (Some (receipt_to_channel r))), sq1 \<lparr>sq_db := db'\<rparr>)
                     | (Inr (ClaimDeferred t), db') \<Rightarrow> (Finished (Inl (ApiDeferred t)), sq1 \<lparr>sq_db := db'\<rparr>)
                     | (Inr (ClaimReady d), db') \<Rightarrow> (Posting d, sq1 \<lparr>sq_db := db'\<rparr>)))))"

text \<open>A claimed post whose channel is throttled in memory goes back to the queue.\<close>

definition drain_claim :: "slack_env \<Rightarrow> u64 \<Rightarrow> slack_queue \<Rightarrow> begun \<times> slack_queue" where
  "drain_claim env now sq =
     (case complete_due_pending env now sq of
        (Inl e, sq1) \<Rightarrow> (Finished (Inl e), sq1)
      | (Inr (Some r), sq1) \<Rightarrow> (Finished (Inr (Some (receipt_to_channel r))), sq1)
      | (Inr None, sq1) \<Rightarrow>
          (case faulted env CallClaim (claim_next_due_slack_delivery_operation (env_clock env) now) (sq_db sq1) of
             (Inl e, _) \<Rightarrow> (Finished (Inl (api_state_error env e)), sq1)
           | (Inr None, db) \<Rightarrow> (Finished (Inr None), sq1 \<lparr>sq_db := db\<rparr>)
           | (Inr (Some (OpDelivered r)), db) \<Rightarrow>
               (Finished (Inr (Some (receipt_to_channel r))), sq1 \<lparr>sq_db := db\<rparr>)
           | (Inr (Some (OpDeferred t)), db) \<Rightarrow> (Finished (Inl (ApiDeferred t)), sq1 \<lparr>sq_db := db\<rparr>)
           | (Inr (Some (OpStopStream d)), db) \<Rightarrow> (Stopping d, sq1 \<lparr>sq_db := db\<rparr>)
           | (Inr (Some (OpPostMessage d)), db) \<Rightarrow>
               (case in_memory_channel_available_at d now sq1 of
                  None \<Rightarrow> (Posting d, sq1 \<lparr>sq_db := db\<rparr>)
                | Some available_at \<Rightarrow>
                    (case faulted env CallRetry (retry_slack_delivery (env_clock env) (pr_workspace_id d)
                        (pr_dedupe_key d) available_at) db of
                       (Inl e, db') \<Rightarrow> (Finished (Inl (api_state_error env e)), sq1 \<lparr>sq_db := db'\<rparr>)
                     | (Inr (), db') \<Rightarrow> (Finished (Inr None), sq1 \<lparr>sq_db := db'\<rparr>)))))"

text \<open>What both kinds of messages do with the reply.\<close>

definition record_reply ::
  "slack_env \<Rightarrow> string \<Rightarrow> string \<Rightarrow> string \<Rightarrow> string option \<Rightarrow> message_sender \<Rightarrow> u64
     \<Rightarrow> web_api_error + posted_message \<Rightarrow> slack_queue \<Rightarrow> (web_api_error + message_receipt) \<times> slack_queue" where
  "record_reply env connector_id workspace_id dedupe_key thread_ts sender now reply sq =
     (case reply of
        Inl error \<Rightarrow>
          (let delay = (case error of RateLimited (Some s) \<Rightarrow> s | _ \<Rightarrow> 1) in
           case faulted env CallRetry (retry_slack_delivery (env_clock env) workspace_id dedupe_key
               (saturating_add_u64 now delay)) (sq_db sq) of
             (Inl e, _) \<Rightarrow> (Inl (api_state_error env e), sq)
           | (Inr (), db) \<Rightarrow> (Inl error, sq \<lparr>sq_db := db\<rparr>))
      | Inr posted \<Rightarrow>
          (let receipt = \<lparr>rc_connector_id = connector_id, rc_workspace_id = workspace_id,
                 rc_channel_id = po_channel_id posted,
                 rc_thread_ts = (case po_thread_ts posted of None \<Rightarrow> thread_ts | Some t \<Rightarrow> Some t),
                 rc_message_ts = po_message_ts posted, rc_dedupe_key = dedupe_key, rc_sender = sender\<rparr>;
               next_available_at = saturating_add_u64 now channel_interval_seconds in
           case persist_or_defer_completion env receipt (po_response_body posted) next_available_at now
               (set_in_memory_channel_throttle receipt next_available_at sq) of
             (Inl e, sq1) \<Rightarrow> (Inl e, sq1)
           | (Inr deferred, sq1) \<Rightarrow> (Inr (receipt_to_channel receipt),
               if deferred then sq1 else clear_in_memory_channel_throttle receipt next_available_at sq1)))"

definition post_and_record ::
  "slack_env \<Rightarrow> post_request \<Rightarrow> u64 \<Rightarrow> web_api_error + posted_message \<Rightarrow> slack_queue
     \<Rightarrow> (web_api_error + message_receipt) \<times> slack_queue" where
  "post_and_record env d now reply sq =
     record_reply env (pr_connector_id d) (pr_workspace_id d) (pr_dedupe_key d) (pr_thread_ts d)
       (pr_sender d) now reply sq"

definition stop_stream_and_record ::
  "slack_env \<Rightarrow> stop_request \<Rightarrow> u64 \<Rightarrow> web_api_error + posted_message \<Rightarrow> slack_queue
     \<Rightarrow> (web_api_error + message_receipt) \<times> slack_queue" where
  "stop_stream_and_record env d now reply sq =
     record_reply env (st_connector_id d) (st_workspace_id d) (st_dedupe_key d) (st_thread_ts d)
       (st_sender d) now reply sq"

definition finish_call ::
  "slack_env \<Rightarrow> u64 \<Rightarrow> (post_request \<Rightarrow> web_api_error + posted_message)
     \<Rightarrow> (stop_request \<Rightarrow> web_api_error + posted_message) \<Rightarrow> begun \<times> slack_queue
     \<Rightarrow> (web_api_error + message_receipt option) \<times> slack_queue" where
  "finish_call env now post stop = (\<lambda>(b, sq). case b of
     Finished r \<Rightarrow> (r, sq)
   | Posting d \<Rightarrow> map_prod answer id (post_and_record env d now (post d) sq)
   | Stopping d \<Rightarrow> map_prod answer id (stop_stream_and_record env d now (stop d) sq))"

definition deliver ::
  "slack_env \<Rightarrow> (post_request \<Rightarrow> web_api_error + posted_message)
     \<Rightarrow> (stop_request \<Rightarrow> web_api_error + posted_message) \<Rightarrow> message_request \<Rightarrow> u64 \<Rightarrow> slack_queue
     \<Rightarrow> (web_api_error + message_receipt option) \<times> slack_queue" where
  "deliver env post stop request now sq = finish_call env now post stop (deliver_claim env request now sq)"

definition drain_due_once ::
  "slack_env \<Rightarrow> (post_request \<Rightarrow> web_api_error + posted_message)
     \<Rightarrow> (stop_request \<Rightarrow> web_api_error + posted_message) \<Rightarrow> u64 \<Rightarrow> slack_queue
     \<Rightarrow> (web_api_error + message_receipt option) \<times> slack_queue" where
  "drain_due_once env post stop now sq = finish_call env now post stop (drain_claim env now sq)"

end
