(* ===== verification/Slack_Safety.thy ===== *)
theory Slack_Safety
  imports Slack_Queue
begin

text \<open>
  The outbound queue as a state machine. The abstract state of a queue maps the key of every message to
  its status; each operation of the store is one of four moves on it. A world is the queue with the
  calls that are in flight and the posts Slack has confirmed; its steps interleave enqueueing, the two
  halves of the handlers of any number of workers, and crashes.
\<close>

section \<open>The abstract queue\<close>

type_synonym message_id = "string \<times> string"

definition statuses :: "channel_db \<Rightarrow> message_id \<rightharpoonup> string" where
  "statuses db = map_of (map (\<lambda>m. (message_key m, m_status m)) (ch_messages db))"

definition messages_ok :: "channel_db \<Rightarrow> bool" where
  "messages_ok db \<longleftrightarrow> keyed message_check message_key (ch_messages db)"

lemma statuses_row: "messages_ok db \<Longrightarrow> m \<in> set (ch_messages db) \<Longrightarrow> statuses db (message_key m) = Some (m_status m)"
  unfolding statuses_def messages_ok_def keyed_def
  by (rule map_of_is_SomeI) (auto simp: o_def)

lemma statuses_dom: "dom (statuses db) = message_key ` set (ch_messages db)"
  by (auto simp: statuses_def dom_map_of_conv_image_fst image_image)

lemma statuses_set:
  assumes "\<And>m. message_key (f m) = message_key m" and "\<And>m. m_status (f m) = s"
    and "ch_messages db' = map (\<lambda>m. if message_key m = k \<and> P (m_status m) then f m else m) (ch_messages db)"
  shows "statuses db' = (case statuses db k of None \<Rightarrow> statuses db
    | Some s0 \<Rightarrow> if P s0 then (statuses db)(k \<mapsto> s) else statuses db)"
proof -
  have "map_of (map (\<lambda>m. (message_key m, m_status m))
      (map (\<lambda>m. if message_key m = k \<and> P (m_status m) then f m else m) ms)) =
    (let old = map_of (map (\<lambda>m. (message_key m, m_status m)) ms) in
     case old k of None \<Rightarrow> old | Some s0 \<Rightarrow> if P s0 then old(k \<mapsto> s) else old)" for ms
    using assms(1,2) by (induction ms) (auto simp: Let_def fun_eq_iff split: option.splits)
  then show ?thesis unfolding statuses_def assms(3) by (simp only: Let_def)
qed

text \<open>The four moves.\<close>

inductive queue_move :: "(message_id \<rightharpoonup> string) \<Rightarrow> (message_id \<rightharpoonup> string) \<Rightarrow> bool" where
  move_add: "st k = None \<Longrightarrow> queue_move st (st(k \<mapsto> ''pending''))"
| move_take: "st k = Some ''pending'' \<Longrightarrow> queue_move st (st(k \<mapsto> ''processing''))"
| move_retry: "st k = Some s \<Longrightarrow> queue_move st (st(k \<mapsto> ''pending''))"
| move_deliver: "st k = Some s \<Longrightarrow> queue_move st (st(k \<mapsto> ''delivered''))"

section \<open>Operations as moves\<close>

lemma enqueue_moves:
  assumes "enqueue_message row db = (r, db')" and "messages_ok db" and "m_status row = ''pending''"
  shows "messages_ok db' \<and> (statuses db' = statuses db
    \<or> (statuses db (message_key row) = None \<and> statuses db' = (statuses db)(message_key row \<mapsto> ''pending'')))"
proof (cases "insert_new message_check message_key row (ch_messages db)")
  case (Inl e)
  then show ?thesis using assms by (simp add: enqueue_message_def)
next
  case (Inr v)
  obtain rows new where v: "v = (rows, new)" by (cases v)
  have db': "db' = db \<lparr>ch_messages := rows\<rparr>" using assms(1) Inr v by (simp add: enqueue_message_def)
  note ins = insert_new_InrD [OF Inr [unfolded v]]
  have "messages_ok db'"
    using insert_new_keyed [OF assms(2) [unfolded messages_ok_def] Inr [unfolded v]] db'
    by (simp add: messages_ok_def)
  moreover have "statuses db' = statuses db \<or> (statuses db (message_key row) = None
      \<and> statuses db' = (statuses db)(message_key row \<mapsto> ''pending''))"
  proof (cases new)
    case True
    then have none: "statuses db (message_key row) = None"
      using ins(3) statuses_dom [of db] by (metis domIff)
    have "statuses db' = [message_key row \<mapsto> ''pending''] ++ statuses db"
      using ins(2) True db' assms(3) by (simp add: statuses_def map_of_append)
    also have "\<dots> = (statuses db)(message_key row \<mapsto> ''pending'')"
      using none by (auto simp: map_add_def fun_eq_iff split: option.splits)
    finally show ?thesis using none by blast
  next
    case False
    then show ?thesis using ins(2) db' by (simp add: statuses_def)
  qed
  ultimately show ?thesis by blast
qed

lemma take_message_InrD:
  assumes "take_message clock k db = Inr (db', n)" and "messages_ok db"
  shows "messages_ok db'" and "n \<noteq> 0 \<Longrightarrow> statuses db k = Some ''pending''"
    and "statuses db' = (if statuses db k = Some ''pending'' then (statuses db)(k \<mapsto> ''processing'') else statuses db)"
proof -
  obtain rows where upd: "update_rows message_check (\<lambda>m. message_key m = k \<and> m_status m = ''pending'')
      (claim_message_row clock) (ch_messages db) = Inr (rows, n)" and db': "db' = db \<lparr>ch_messages := rows\<rparr>"
    using assms(1) by (cases "update_rows message_check (\<lambda>m. message_key m = k \<and> m_status m = ''pending'')
      (claim_message_row clock) (ch_messages db)") (auto simp: take_message_def map_err_def)
  have key: "message_key (claim_message_row clock m) = message_key m" for m
    by (simp add: claim_message_row_def message_key_def)
  show "messages_ok db'"
    using update_rows_keyed [OF assms(2) [unfolded messages_ok_def] upd key] db' by (simp add: messages_ok_def)
  show "statuses db k = Some ''pending''" if "n \<noteq> 0"
  proof -
    have "filter (\<lambda>m. message_key m = k \<and> m_status m = ''pending'') (ch_messages db) \<noteq> []"
      using that update_rows_InrD(2) [OF upd] by auto
    then obtain m where "m \<in> set (ch_messages db)" "message_key m = k" "m_status m = ''pending''"
      by (auto simp: filter_empty_conv)
    then show ?thesis using statuses_row [OF assms(2)] by metis
  qed
  have "statuses db' = (case statuses db k of None \<Rightarrow> statuses db
      | Some s0 \<Rightarrow> if s0 = ''pending'' then (statuses db)(k \<mapsto> ''processing'') else statuses db)"
    by (rule statuses_set [where f = "claim_message_row clock", OF key])
      (use update_rows_InrD(1) [OF upd] db' in \<open>simp_all add: claim_message_row_def [of clock]\<close>)
  then show "statuses db' = (if statuses db k = Some ''pending'' then (statuses db)(k \<mapsto> ''processing'') else statuses db)"
    by (auto split: option.splits)
qed

lemma decoded_keys:
  "post_from_row m = Inr d \<Longrightarrow> (pr_workspace_id d, pr_dedupe_key d) = message_key m"
  "stop_from_row m = Inr e \<Longrightarrow> (st_workspace_id e, st_dedupe_key e) = message_key m"
  by (auto simp: post_from_row_def stop_from_row_def message_key_def)

text \<open>What a claim leaves: nothing changed, or one pending message is being processed.\<close>

definition takes :: "message_id \<Rightarrow> channel_db \<Rightarrow> channel_db \<Rightarrow> bool" where
  "takes k db db' \<longleftrightarrow> statuses db k = Some ''pending'' \<and> statuses db' = (statuses db)(k \<mapsto> ''processing'')"

lemma take_takes:
  assumes "take_message clock k db = Inr (db', n)" and "messages_ok db" and "n \<noteq> 0"
  shows "messages_ok db' \<and> takes k db db'"
  using take_message_InrD [OF assms(1,2)] assms(3) by (simp add: takes_def)

lemma claim_by_keyE:
  assumes "claim_by_key accepts decode delivered deferred clock ws key now db = Inr (db', c)"
    and "messages_ok db"
  obtains (same) "db' = db" "\<exists>v. c = delivered v \<or> (\<exists>t. c = deferred t)"
  | (taken) m where "m \<in> set (ch_messages db)" "message_key m = (ws, key)" "accepts m" "decode m = Inr c"
      "message_due_at db m \<le> i64_of_u64 now" "find_receipt ws key db = None"
      "messages_ok db'" "takes (ws, key) db db'"
proof (cases "find_receipt ws key db")
  case (Some r)
  then show thesis using assms(1) same by (auto simp: claim_by_key_def)
next
  case None
  show thesis
  proof (cases "List.find (\<lambda>m. message_key m = (ws, key) \<and> accepts m) (ch_messages db)")
    case None
    then show thesis using assms(1) \<open>find_receipt ws key db = None\<close> by (simp add: claim_by_key_def)
  next
    case (Some m)
    then have m: "m \<in> set (ch_messages db)" "message_key m = (ws, key)" "accepts m"
      using find_SomeD [OF Some] by auto
    note step = assms(1) [unfolded claim_by_key_def None Some, simplified]
    show thesis
    proof (cases "m_status m \<noteq> ''pending'' \<or> message_due_at db m > i64_of_u64 now")
      case True
      then show thesis using step same by (auto split: if_splits)
    next
      case False
      then obtain claim db1 n where c: "decode m = Inr claim" "take_message clock (ws, key) db = Inr (db1, n)"
          "(if n = 0 then Inr (db, deferred (saturating_add_u64 now 1)) else Inr (db1, claim)) =
            (Inr (db', c) :: state_error + _)"
        using step by auto
      show thesis
      proof (cases "n = 0")
        case True
        then show thesis using c(3) same by auto
      next
        case False
        then show thesis
          using taken [OF m _ _ \<open>find_receipt ws key db = None\<close>] c take_takes [OF c(2) assms(2)]
            \<open>\<not> (_ \<or> _)\<close> by auto
      qed
    qed
  qed
qed

lemma claim_messageE:
  assumes "claim_next accepts decode clock now db = Inr (db', c)" and "messages_ok db"
  obtains (none) "c = None" "statuses db' = statuses db" "messages_ok db'"
  | (taken) m claim where "m \<in> set (ch_messages db)" "m_status m = ''pending''" "accepts m"
      "message_due_at db m \<le> i64_of_u64 now" "decode m = Inr claim" "c = Some claim" "messages_ok db'"
      "takes (message_key m) db db'"
      "\<And>k. k \<in> set (ch_messages db) \<Longrightarrow> m_status k = ''pending'' \<Longrightarrow> accepts k \<Longrightarrow>
         message_due_at db k \<le> i64_of_u64 now \<Longrightarrow> (message_due_at db m, m_created_at m, m_id m)
           \<le> (message_due_at db k, m_created_at k, m_id k)"
proof (cases "select_min (\<lambda>m. (message_due_at db m, m_created_at m, m_id m))
    (\<lambda>m. m_status m = ''pending'' \<and> accepts m \<and> message_due_at db m \<le> i64_of_u64 now) (ch_messages db)")
  case None
  then show thesis using assms none by (simp add: claim_next_def)
next
  case (Some m)
  note m = select_min_SomeD [OF Some]
  obtain claim n where c: "decode m = Inr claim" "take_message clock (message_key m) db = Inr (db', n)"
      "c = (if n = 0 then None else Some claim)"
    using assms(1) Some by (auto simp: claim_next_def)
  have "n \<noteq> 0"
  proof
    assume "n = 0"
    have pend: "statuses db (message_key m) = Some ''pending''"
      using m statuses_row [OF assms(2), of m] by simp
    obtain rows where "update_rows message_check (\<lambda>r. message_key r = message_key m \<and> m_status r = ''pending'')
        (claim_message_row clock) (ch_messages db) = Inr (rows, n)"
      using c(2) by (cases "update_rows message_check (\<lambda>r. message_key r = message_key m
        \<and> m_status r = ''pending'') (claim_message_row clock) (ch_messages db)")
        (auto simp: take_message_def map_err_def)
    from update_rows_InrD(2) [OF this] \<open>n = 0\<close> m show False by (auto simp: filter_empty_conv)
  qed
  then show thesis using taken [of m claim] m c take_takes [OF c(2) assms(2)] by auto
qed

text \<open>Returning a message to the queue and recording its receipt set the status of one message.\<close>

definition sets :: "message_id \<Rightarrow> string \<Rightarrow> channel_db \<Rightarrow> channel_db \<Rightarrow> bool" where
  "sets k s db db' \<longleftrightarrow> statuses db' = (case statuses db k of None \<Rightarrow> statuses db | Some _ \<Rightarrow> (statuses db)(k \<mapsto> s))"

lemma update_sets:
  assumes "update_rows message_check (\<lambda>m. message_key m = k) f (ch_messages db) = Inr (rows, n)"
    and "messages_ok db" and "ch_messages db' = rows"
    and "\<And>m. message_key (f m) = message_key m" and "\<And>m. m_status (f m) = s"
  shows "messages_ok db' \<and> sets k s db db'"
proof -
  have "statuses db' = (case statuses db k of None \<Rightarrow> statuses db
      | Some s0 \<Rightarrow> if True then (statuses db)(k \<mapsto> s) else statuses db)"
    by (rule statuses_set [where f = f and P = "\<lambda>_. True", OF assms(4,5)])
      (use update_rows_InrD(1) [OF assms(1)] assms(3) in simp)
  then show ?thesis
    using update_rows_keyed [OF assms(2) [unfolded messages_ok_def] assms(1,4)] assms(3)
    by (simp add: sets_def messages_ok_def)
qed

lemma commitE:
  assumes "commit db m = (v, db')"
  obtains (failed) e where "m = Inl e" "v = Inl e" "db' = db"
  | (stored) w where "m = Inr (db', w)" "v = Inr w"
  using assms by (auto simp: commit_def split: sum.splits)

lemma retry_sets:
  assumes "retry_slack_delivery clock ws key t db = (r, db')" and "messages_ok db"
  shows "messages_ok db'" and "db' = db \<or> sets (ws, key) ''pending'' db db'" and "ch_receipts db' = ch_receipts db"
proof -
  let ?f = "\<lambda>m. m \<lparr>m_status := ''pending'', m_available_at := i64_of_u64 t, m_updated_at := clock\<rparr>"
  have "messages_ok db' \<and> (db' = db \<or> sets (ws, key) ''pending'' db db') \<and> ch_receipts db' = ch_receipts db"
  proof (cases "update_rows message_check (\<lambda>m. message_key m = (ws, key)) ?f (ch_messages db)")
    case (Inl e)
    then show ?thesis using assms by (simp add: retry_slack_delivery_def commit_def map_err_def)
  next
    case (Inr v)
    obtain rows n where v: "v = (rows, n)" by (cases v)
    have db': "db' = db \<lparr>ch_messages := rows\<rparr>"
      using assms(1) Inr v by (simp add: retry_slack_delivery_def commit_def map_err_def)
    show ?thesis
      using update_sets [OF Inr [unfolded v] assms(2), of db' "''pending''"] db'
      by (simp add: message_key_def)
  qed
  then show "messages_ok db'" and "db' = db \<or> sets (ws, key) ''pending'' db db'"
    and "ch_receipts db' = ch_receipts db" by blast+
qed

lemma complete_sets:
  assumes "complete_slack_delivery x clock r json t db = (v, db')" and "messages_ok db"
  shows "messages_ok db'"
    and "v = Inr () \<Longrightarrow> sets (rc_workspace_id r, rc_dedupe_key r) ''delivered'' db db'"
    and "v \<noteq> Inr () \<Longrightarrow> db' = db"
proof -
  let ?f = "\<lambda>m. m \<lparr>m_status := ''delivered'', m_updated_at := clock\<rparr>"
  let ?k = "(rc_workspace_id r, rc_dedupe_key r)"
  consider (failed) e where "v = Inl e" "db' = db"
    | (stored) receipts rows n throttles where
      "update_rows message_check (\<lambda>m. message_key m = ?k) ?f (ch_messages db) = Inr (rows, n)"
      "db' = db \<lparr>ch_receipts := receipts, ch_messages := rows, ch_throttles := throttles\<rparr>" "v = Inr ()"
    using assms(1) unfolding complete_slack_delivery_def
  proof (cases rule: commitE)
    case (stored w)
    then show ?thesis using that(2) by auto
  qed (use that in blast)
  then have "messages_ok db' \<and> (v = Inr () \<longrightarrow> sets ?k ''delivered'' db db') \<and> (v \<noteq> Inr () \<longrightarrow> db' = db)"
  proof cases
    case stored
    show ?thesis
      using update_sets [OF stored(1) assms(2), of db' "''delivered''"] stored(2,3)
      by (simp add: message_key_def)
  qed (use assms(2) in simp)
  then show "messages_ok db'" and "v = Inr () \<Longrightarrow> sets ?k ''delivered'' db db'" and "v \<noteq> Inr () \<Longrightarrow> db' = db"
    by blast+
qed

section \<open>Worlds\<close>

definition begun_keys :: "begun \<Rightarrow> message_id list" where
  "begun_keys b = (case b of
     Finished _ \<Rightarrow> []
   | Posting d \<Rightarrow> [(pr_workspace_id d, pr_dedupe_key d)]
   | Stopping d \<Rightarrow> [(st_workspace_id d, st_dedupe_key d)])"

definition pending_keys :: "slack_queue \<Rightarrow> message_id list" where
  "pending_keys sq = map (\<lambda>p. (rc_workspace_id (pn_receipt p), rc_dedupe_key (pn_receipt p))) (sq_pending sq)"

record world =
  w_queue :: slack_queue
  w_flight :: "begun list"
  w_posts :: "message_id list"

definition flight_keys :: "world \<Rightarrow> message_id list" where
  "flight_keys w = concat (map begun_keys (w_flight w))"

definition with_db :: "slack_queue \<Rightarrow> channel_db \<Rightarrow> slack_queue" where
  "with_db sq db = sq \<lparr>sq_db := db\<rparr>"

text \<open>The steps of a world: others enqueue messages, a worker begins a delivery or drains the queue, a call
  in flight returns with any reply, or the process stops and loses what it had in memory.\<close>

inductive world_step :: "world \<Rightarrow> world \<Rightarrow> bool" where
  ws_enqueue: "enqueue_slack_delivery clock now r (sq_db (w_queue w)) = (v, db) \<Longrightarrow>
    world_step w (w \<lparr>w_queue := with_db (w_queue w) db\<rparr>)"
| ws_enqueue_stop: "enqueue_slack_stop_stream_delivery clock now s (sq_db (w_queue w)) = (v, db) \<Longrightarrow>
    world_step w (w \<lparr>w_queue := with_db (w_queue w) db\<rparr>)"
| ws_deliver: "deliver_claim env request now (w_queue w) = (b, sq) \<Longrightarrow>
    world_step w (w \<lparr>w_queue := sq, w_flight := b # w_flight w\<rparr>)"
| ws_drain: "drain_claim env now (w_queue w) = (b, sq) \<Longrightarrow>
    world_step w (w \<lparr>w_queue := sq, w_flight := b # w_flight w\<rparr>)"
| ws_post: "w_flight w = before @ Posting d # later \<Longrightarrow> post_and_record env d now reply (w_queue w) = (v, sq) \<Longrightarrow>
    world_step w (w \<lparr>w_queue := sq, w_flight := before @ later,
      w_posts := (if is_ok reply then begun_keys (Posting d) else []) @ w_posts w\<rparr>)"
| ws_stop: "w_flight w = before @ Stopping d # later \<Longrightarrow>
    stop_stream_and_record env d now reply (w_queue w) = (v, sq) \<Longrightarrow>
    world_step w (w \<lparr>w_queue := sq, w_flight := before @ later,
      w_posts := (if is_ok reply then begun_keys (Stopping d) else []) @ w_posts w\<rparr>)"
| ws_crash: "world_step w (w \<lparr>w_queue := (w_queue w) \<lparr>sq_pending := [], sq_throttles := Map.empty\<rparr>,
    w_flight := []\<rparr>)"

text \<open>The bookkeeping of claims: what is in flight is being processed and was not confirmed before, what
  was confirmed is never pending again, and every receipt kept in memory is of a confirmed post. A lost
  message is being processed by nobody: it is neither in flight nor confirmed.\<close>

definition confirmed :: "string option \<Rightarrow> bool" where
  "confirmed s \<longleftrightarrow> s = Some ''processing'' \<or> s = Some ''delivered''"

lemma confirmed_simps [simp]:
  "confirmed (Some ''processing'')" "confirmed (Some ''delivered'')" "\<not> confirmed None"
  "\<not> confirmed (Some ''pending'')"
  by (simp_all add: confirmed_def)

definition claims_ok ::
  "message_id set \<Rightarrow> (message_id \<rightharpoonup> string) \<Rightarrow> message_id list \<Rightarrow> message_id list \<Rightarrow> message_id set \<Rightarrow> bool" where
  "claims_ok lost st flight posts kept \<longleftrightarrow>
     (\<forall>k \<in> lost. st k = Some ''processing'' \<and> k \<notin> set flight \<and> k \<notin> kept \<and> k \<notin> set posts)
     \<and> distinct flight \<and> distinct posts \<and> set flight \<inter> set posts = {}
     \<and> (\<forall>k \<in> set flight. st k = Some ''processing'')
     \<and> (\<forall>k \<in> set posts. confirmed (st k))
     \<and> kept \<subseteq> set posts"

definition world_inv :: "message_id set \<Rightarrow> world \<Rightarrow> bool" where
  "world_inv lost w \<longleftrightarrow> messages_ok (sq_db (w_queue w))
     \<and> claims_ok lost (statuses (sq_db (w_queue w))) (flight_keys w) (w_posts w)
         (set (pending_keys (w_queue w)))"

lemma claims_take:
  assumes "claims_ok lost (statuses db) flight posts kept" and "takes k db db'"
  shows "claims_ok lost (statuses db') (k # flight) posts kept"
  using assms by (auto simp: claims_ok_def takes_def)

lemma claims_untake:
  assumes "claims_ok lost (statuses db) (before @ k # later) posts kept" and "db' = db \<or> sets k ''pending'' db db'"
  shows "claims_ok lost (statuses db') (before @ later) posts kept"
  using assms by (auto simp: claims_ok_def sets_def)

lemma claims_post:
  assumes "claims_ok lost (statuses db) (before @ k # later) posts kept" and "db' = db \<or> sets k ''delivered'' db db'"
    and "kept' \<subseteq> insert k kept"
  shows "claims_ok lost (statuses db') (before @ later) (k # posts) kept'"
  using assms by (auto simp: claims_ok_def sets_def)

lemma claims_flush:
  assumes "claims_ok lost (statuses db) flight posts kept" and "k \<in> kept" and "db' = db \<or> sets k ''delivered'' db db'"
    and "kept' \<subseteq> kept"
  shows "claims_ok lost (statuses db') flight posts kept'"
  using assms by (auto simp: claims_ok_def sets_def split: option.splits)

lemma claims_kept: "claims_ok lost st flight posts kept \<Longrightarrow> kept' \<subseteq> kept \<Longrightarrow> claims_ok lost st flight posts kept'"
  by (auto simp: claims_ok_def)

lemma claims_add:
  assumes "claims_ok lost (statuses db) flight posts kept"
    and "statuses db' = statuses db \<or> (statuses db k = None \<and> statuses db' = (statuses db)(k \<mapsto> ''pending''))"
  shows "claims_ok lost (statuses db') flight posts kept"
proof -
  have "k \<notin> set flight \<union> set posts" if "statuses db k = None"
    using that assms(1) unfolding claims_ok_def
    by (metis Un_iff confirmed_simps(3) option.distinct(1))
  then show ?thesis using assms by (auto simp: claims_ok_def)
qed

section \<open>Handlers keep the bookkeeping\<close>

definition queue_ok :: "message_id set \<Rightarrow> slack_queue \<Rightarrow> message_id list \<Rightarrow> message_id list \<Rightarrow> bool" where
  "queue_ok lost sq flight posts \<longleftrightarrow> messages_ok (sq_db sq)
     \<and> claims_ok lost (statuses (sq_db sq)) flight posts (set (pending_keys sq))"

lemma throttle_simps [simp]:
  "sq_db (set_in_memory_channel_throttle r t sq) = sq_db sq"
  "sq_db (clear_in_memory_channel_throttle r t sq) = sq_db sq"
  "pending_keys (set_in_memory_channel_throttle r t sq) = pending_keys sq"
  "pending_keys (clear_in_memory_channel_throttle r t sq) = pending_keys sq"
  by (simp_all add: set_in_memory_channel_throttle_def clear_in_memory_channel_throttle_def pending_keys_def
      Let_def split: option.splits)

lemma pending_keys_simps [simp]:
  "pending_keys (sq \<lparr>sq_db := db\<rparr>) = pending_keys sq"
  "pending_keys (sq \<lparr>sq_throttles := th\<rparr>) = pending_keys sq"
  "pending_keys (sq \<lparr>sq_pending := ps\<rparr>) =
     map (\<lambda>p. (rc_workspace_id (pn_receipt p), rc_dedupe_key (pn_receipt p))) ps"
  by (simp_all add: pending_keys_def)

lemma queue_ok_throttles [simp]:
  "queue_ok lost (set_in_memory_channel_throttle r t sq) flight posts = queue_ok lost sq flight posts"
  "queue_ok lost (clear_in_memory_channel_throttle r t sq) flight posts = queue_ok lost sq flight posts"
  by (simp_all add: queue_ok_def)

lemma faultedE:
  assumes "faulted env call f db = (v, db')"
  obtains (fault) e where "v = Inl (SlackDelivery e)" "db' = db" | (ran) "f db = (v, db')"
  using assms by (auto simp: faulted_def split: option.splits)

lemma enqueue_queue_ok:
  assumes "enqueue_message row (sq_db sq) = (v, db)" and "m_status row = ''pending''" and "queue_ok lost sq flight posts"
  shows "queue_ok lost (sq \<lparr>sq_db := db\<rparr>) flight posts"
  using enqueue_moves [OF assms(1) _ assms(2)] assms(3) claims_add [of lost "sq_db sq" flight posts _ db "message_key row"]
  by (auto simp: queue_ok_def)

lemma enqueue_delivery_ok:
  assumes "faulted env CallEnqueue (enqueue_slack_delivery clock now r) (sq_db sq) = (v, db)"
    and "queue_ok lost sq flight posts"
  shows "queue_ok lost (sq \<lparr>sq_db := db\<rparr>) flight posts"
  using assms(1)
proof (cases rule: faultedE)
  case ran
  then show ?thesis
    using enqueue_queue_ok [OF ran [unfolded enqueue_slack_delivery_def] _ assms(2)]
    by (simp add: new_message_row_def)
qed (use assms(2) in simp)

lemma claim_delivery_ok:
  assumes "faulted env CallClaim (claim_slack_delivery clock ws key now) (sq_db sq) = (v, db)"
    and "queue_ok lost sq flight posts"
  shows "queue_ok lost (sq \<lparr>sq_db := db\<rparr>) ((case v of Inr (ClaimReady d) \<Rightarrow> begun_keys (Posting d) | _ \<Rightarrow> []) @ flight) posts"
  using assms(1)
proof (cases rule: faultedE)
  case fault
  then show ?thesis using assms(2) by simp
next
  case ran
  have ok: "messages_ok (sq_db sq)" using assms(2) by (simp add: queue_ok_def)
  from ran [unfolded claim_slack_delivery_def] show ?thesis
  proof (cases rule: commitE)
    case (stored w)
    from stored(1) ok show ?thesis
    proof (cases rule: claim_by_keyE)
      case same
      then show ?thesis using stored(2) assms(2) by auto
    next
      case (taken m)
      then obtain d where d: "post_from_row m = Inr d" "w = ClaimReady d" by auto
      then have "(pr_workspace_id d, pr_dedupe_key d) = (ws, key)" using decoded_keys(1) taken(2) by metis
      then show ?thesis
        using stored(2) d(2) taken(7) claims_take [OF _ taken(8), of lost flight posts] assms(2)
        by (simp add: queue_ok_def begun_keys_def)
    qed
  qed (use assms(2) in simp)
qed

lemma deliver_claim_ok:
  assumes "deliver_claim env request now sq = (b, sq')" and "queue_ok lost sq flight posts"
  shows "queue_ok lost sq' (begun_keys b @ flight) posts"
proof (cases "request_to_delivery request")
  case (Inl e)
  then show ?thesis using assms by (auto simp: deliver_claim_def begun_keys_def)
next
  case (Inr queued)
  obtain v db where enq: "faulted env CallEnqueue (enqueue_slack_delivery (env_clock env) now queued) (sq_db sq) = (v, db)"
    by (cases "faulted env CallEnqueue (enqueue_slack_delivery (env_clock env) now queued) (sq_db sq)")
  let ?sq = "sq \<lparr>sq_db := db\<rparr>"
  have ok: "queue_ok lost ?sq flight posts" by (rule enqueue_delivery_ok [OF enq assms(2)])
  obtain c db' where claim: "faulted env CallClaim (claim_slack_delivery (env_clock env) (pr_workspace_id queued)
      (pr_dedupe_key queued) now) (sq_db ?sq) = (c, db')"
    by (cases "faulted env CallClaim (claim_slack_delivery (env_clock env) (pr_workspace_id queued)
      (pr_dedupe_key queued) now) (sq_db ?sq)")
  note taken = claim_delivery_ok [OF claim ok]
  show ?thesis
    using assms Inr enq ok claim taken
    by (auto simp: deliver_claim_def Let_def begun_keys_def split: sum.splits option.splits message_claim.splits)
qed

lemma take_due_set: "take_due_pending now ps = Some (p, rest) \<Longrightarrow> set ps = insert p (set rest)"
  by (induction ps arbitrary: p rest) (auto split: if_splits)

lemma flush_ok:
  assumes "complete_due_pending env now sq = (v, sq')" and "queue_ok lost sq flight posts"
  shows "queue_ok lost sq' flight posts"
proof (cases "take_due_pending now (sq_pending sq)")
  case None
  then show ?thesis using assms by (simp add: complete_due_pending_def)
next
  case (Some pr)
  obtain p rest where p: "pr = (p, rest)" by (cases pr)
  let ?k = "(rc_workspace_id (pn_receipt p), rc_dedupe_key (pn_receipt p))"
  let ?key = "\<lambda>p. (rc_workspace_id (pn_receipt p), rc_dedupe_key (pn_receipt p))"
  have keys: "set (pending_keys sq) = insert ?k (?key ` set rest)"
    using take_due_set [OF Some [unfolded p]] by (simp add: pending_keys_def)
  have again: "?key (back_off now p) = ?k" by (simp add: back_off_def Let_def)
  obtain c db where c: "faulted env CallFlush (complete_slack_delivery (env_ext env) (env_clock env) (pn_receipt p)
      (pn_response_json p) (pn_next_available_at p)) (sq_db sq) = (c, db)"
    by (cases "faulted env CallFlush (complete_slack_delivery (env_ext env) (env_clock env) (pn_receipt p)
      (pn_response_json p) (pn_next_available_at p)) (sq_db sq)")
  have ok: "messages_ok (sq_db sq)" "claims_ok lost (statuses (sq_db sq)) flight posts (insert ?k (?key ` set rest))"
    using assms(2) keys by (simp_all add: queue_ok_def)
  from c have "messages_ok db \<and> (c = Inr () \<longrightarrow> sets ?k ''delivered'' (sq_db sq) db)"
    by (cases rule: faultedE) (use ok(1) complete_sets(1,2) in auto)
  then have done_ok: "queue_ok lost (sq \<lparr>sq_db := db, sq_pending := rest\<rparr>) flight posts" if "c = Inr ()"
    using that claims_flush [OF ok(2), of ?k db "?key ` set rest"] by (auto simp: queue_ok_def pending_keys_def)
  have kept_ok: "queue_ok lost (sq \<lparr>sq_pending := ps\<rparr>) flight posts" if "?key ` set ps \<subseteq> insert ?k (?key ` set rest)" for ps
    using ok(1) claims_kept [OF ok(2) that] by (simp add: queue_ok_def)
  show ?thesis
  proof (cases c)
    case (Inl e)
    then have "sq' = sq \<lparr>sq_pending := rest @ [back_off now p]\<rparr> \<or> sq' = sq \<lparr>sq_pending := rest\<rparr>"
      using assms(1) Some p c by (simp add: complete_due_pending_def split: if_splits)
    moreover have "queue_ok lost (sq \<lparr>sq_pending := rest @ [back_off now p]\<rparr>) flight posts"
      by (rule kept_ok) (use again in simp)
    moreover have "queue_ok lost (sq \<lparr>sq_pending := rest\<rparr>) flight posts" by (rule kept_ok) blast
    ultimately show ?thesis by blast
  next
    case (Inr u)
    then have "sq' = clear_in_memory_channel_throttle (pn_receipt p) (pn_next_available_at p)
        (sq \<lparr>sq_db := db, sq_pending := rest\<rparr>)"
      using assms(1) Some p c by (simp add: complete_due_pending_def split: unit.splits)
    then show ?thesis using done_ok Inr by simp
  qed
qed

lemma claim_next_ok:
  assumes "faulted env CallClaim (claim_next_due_slack_delivery_operation clock now) (sq_db sq) = (v, db)"
    and "queue_ok lost sq flight posts"
  shows "queue_ok lost (sq \<lparr>sq_db := db\<rparr>) ((case v of
      Inr (Some (OpPostMessage d)) \<Rightarrow> begun_keys (Posting d)
    | Inr (Some (OpStopStream d)) \<Rightarrow> begun_keys (Stopping d) | _ \<Rightarrow> []) @ flight) posts"
  using assms(1)
proof (cases rule: faultedE)
  case fault
  then show ?thesis using assms(2) by simp
next
  case ran
  have ok: "messages_ok (sq_db sq)" using assms(2) by (simp add: queue_ok_def)
  from ran [unfolded claim_next_due_slack_delivery_operation_def] show ?thesis
  proof (cases rule: commitE)
    case (stored w)
    from stored(1) ok show ?thesis
    proof (cases rule: claim_messageE)
      case none
      then show ?thesis using stored(2) assms(2) by (simp add: queue_ok_def)
    next
      case (taken m claim)
      have took: "claims_ok lost (statuses db) (message_key m # flight) posts (set (pending_keys sq))"
        using claims_take [OF _ taken(8), of lost flight posts] assms(2) by (simp add: queue_ok_def)
      have keys: "(case claim of OpPostMessage d \<Rightarrow> begun_keys (Posting d)
          | OpStopStream d \<Rightarrow> begun_keys (Stopping d) | _ \<Rightarrow> []) = [message_key m]"
        using taken(5) decoded_keys [of m] by (auto simp: operation_from_row_def begun_keys_def split: if_splits)
      then show ?thesis
        using stored(2) taken(6,7) took by (simp add: queue_ok_def split: operation_claim.splits)
    qed
  qed (use assms(2) in simp)
qed

lemma retry_ok:
  assumes "faulted env CallRetry (retry_slack_delivery clock ws key t) (sq_db sq) = (v, db)"
    and "queue_ok lost sq (before @ (ws, key) # later) posts"
  shows "queue_ok lost (sq \<lparr>sq_db := db\<rparr>) (before @ later) posts"
  using assms(1)
proof (cases rule: faultedE)
  case fault
  then show ?thesis using assms(2) claims_untake [of lost "sq_db sq" before "(ws, key)" later posts] by (auto simp: queue_ok_def)
next
  case ran
  have ok: "messages_ok (sq_db sq)" using assms(2) by (simp add: queue_ok_def)
  show ?thesis
    using retry_sets [OF ran ok] assms(2) claims_untake [of lost "sq_db sq" before "(ws, key)" later posts _ db]
    by (auto simp: queue_ok_def)
qed

lemma drain_claim_ok:
  assumes "drain_claim env now sq = (b, sq')" and "queue_ok lost sq flight posts"
  shows "queue_ok lost sq' (begun_keys b @ flight) posts"
proof -
  obtain v sq1 where flush: "complete_due_pending env now sq = (v, sq1)" by (cases "complete_due_pending env now sq")
  note ok = flush_ok [OF flush assms(2)]
  obtain c db where claim: "faulted env CallClaim (claim_next_due_slack_delivery_operation (env_clock env) now)
      (sq_db sq1) = (c, db)"
    by (cases "faulted env CallClaim (claim_next_due_slack_delivery_operation (env_clock env) now) (sq_db sq1)")
  note taken = claim_next_ok [OF claim ok]
  have returned: "queue_ok lost (sq1 \<lparr>sq_db := db'\<rparr>) flight posts"
    if "c = Inr (Some (OpPostMessage d))" "faulted env CallRetry (retry_slack_delivery (env_clock env)
      (pr_workspace_id d) (pr_dedupe_key d) t) db = (e, db')" for d t e db'
    using retry_ok [of env "env_clock env" _ _ t "sq1 \<lparr>sq_db := db\<rparr>" e db' lost "[]" flight posts] that taken
    by (simp add: begun_keys_def)
  show ?thesis
  proof (cases "v = Inr None")
    case False
    then show ?thesis
      using assms(1) flush ok by (auto simp: drain_claim_def begun_keys_def split: sum.splits option.splits)
  next
    case True
    show ?thesis
    proof (cases c)
      case (Inl e)
      then show ?thesis using assms(1) flush True claim ok by (auto simp: drain_claim_def begun_keys_def)
    next
      case (Inr w)
      show ?thesis
      proof (cases "\<exists>d t. w = Some (OpPostMessage d) \<and> in_memory_channel_available_at d now sq1 = Some t")
        case True
        then obtain d t where d: "w = Some (OpPostMessage d)" "in_memory_channel_available_at d now sq1 = Some t"
          by blast
        obtain e db' where r: "faulted env CallRetry (retry_slack_delivery (env_clock env)
            (pr_workspace_id d) (pr_dedupe_key d) t) db = (e, db')"
          by (cases "faulted env CallRetry (retry_slack_delivery (env_clock env)
            (pr_workspace_id d) (pr_dedupe_key d) t) db")
        then show ?thesis
          using assms(1) flush \<open>v = Inr None\<close> claim Inr d returned [of d t e db']
          by (cases e) (auto simp: drain_claim_def begun_keys_def split: unit.splits)
      next
        case False
        then show ?thesis
          using assms(1) flush \<open>v = Inr None\<close> claim Inr taken
          by (cases w; cases "the w"; cases "in_memory_channel_available_at (case the w of OpPostMessage d \<Rightarrow> d) now sq1")
            (auto simp: drain_claim_def begun_keys_def)
      qed
    qed
  qed
qed

lemma persist_ok:
  assumes "persist_or_defer_completion env r json t now sq = (v, sq')"
    and "queue_ok lost sq (before @ (rc_workspace_id r, rc_dedupe_key r) # later) posts"
  shows "queue_ok lost sq' (before @ later) ((rc_workspace_id r, rc_dedupe_key r) # posts)"
proof -
  let ?k = "(rc_workspace_id r, rc_dedupe_key r)"
  have ok: "messages_ok (sq_db sq)"
      "claims_ok lost (statuses (sq_db sq)) (before @ ?k # later) posts (set (pending_keys sq))"
    using assms(2) by (simp_all add: queue_ok_def)
  obtain c db where c: "faulted env CallComplete (complete_slack_delivery (env_ext env) (env_clock env) r json t)
      (sq_db sq) = (c, db)"
    by (cases "faulted env CallComplete (complete_slack_delivery (env_ext env) (env_clock env) r json t) (sq_db sq)")
  show ?thesis
  proof (cases c)
    case (Inl e)
    have posted: "claims_ok lost (statuses (sq_db sq)) (before @ later) (?k # posts) kept"
      if "kept \<subseteq> insert ?k (set (pending_keys sq))" for kept
      by (rule claims_post [OF ok(2)]) (use that in auto)
    show ?thesis
      using assms(1) c Inl ok(1) posted
      by (auto simp: persist_or_defer_completion_def queue_ok_def pending_keys_def split: if_splits)
  next
    case (Inr u)
    from c have "messages_ok db \<and> sets ?k ''delivered'' (sq_db sq) db"
      by (cases rule: faultedE) (use Inr complete_sets(1,2) [OF _ ok(1)] in auto)
    moreover have "sq' = sq \<lparr>sq_db := db\<rparr>"
      using assms(1) c Inr by (simp add: persist_or_defer_completion_def split: unit.splits)
    ultimately show ?thesis
      using claims_post [OF ok(2), of db "set (pending_keys sq)"] by (auto simp: queue_ok_def)
  qed
qed

lemma record_reply_ok:
  assumes "record_reply env connector ws key thread sender now reply sq = (v, sq')"
    and "queue_ok lost sq (before @ (ws, key) # later) posts"
  shows "queue_ok lost sq' (before @ later) ((if is_ok reply then [(ws, key)] else []) @ posts)"
proof (cases reply)
  case (Inl error)
  let ?delay = "case error of RateLimited (Some s) \<Rightarrow> s | _ \<Rightarrow> 1"
  obtain c db where c: "faulted env CallRetry (retry_slack_delivery (env_clock env) ws key
      (saturating_add_u64 now ?delay)) (sq_db sq) = (c, db)"
    by (cases "faulted env CallRetry (retry_slack_delivery (env_clock env) ws key
      (saturating_add_u64 now ?delay)) (sq_db sq)")
  note back_ok = retry_ok [OF c assms(2)]
  have kept: "queue_ok lost sq (before @ later) posts"
    using assms(2) claims_untake [of lost "sq_db sq" before "(ws, key)" later posts] by (auto simp: queue_ok_def)
  have "sq' = sq \<or> sq' = sq \<lparr>sq_db := db\<rparr>"
    using assms(1) Inl c by (cases c) (auto simp: record_reply_def Let_def split: unit.splits)
  then show ?thesis using Inl back_ok kept by (auto simp: is_ok_def)
next
  case (Inr posted)
  let ?r = "\<lparr>rc_connector_id = connector, rc_workspace_id = ws, rc_channel_id = po_channel_id posted,
    rc_thread_ts = (case po_thread_ts posted of None \<Rightarrow> thread | Some t \<Rightarrow> Some t),
    rc_message_ts = po_message_ts posted, rc_dedupe_key = key, rc_sender = sender\<rparr>"
  let ?t = "saturating_add_u64 now channel_interval_seconds"
  obtain c sq1 where c: "persist_or_defer_completion env ?r (po_response_body posted) ?t now
      (set_in_memory_channel_throttle ?r ?t sq) = (c, sq1)"
    by (cases "persist_or_defer_completion env ?r (po_response_body posted) ?t now
      (set_in_memory_channel_throttle ?r ?t sq)")
  have "queue_ok lost sq1 (before @ later) ((ws, key) # posts)"
    using persist_ok [OF c, of lost before later posts] assms(2) by simp
  moreover have "sq' = sq1 \<or> sq' = clear_in_memory_channel_throttle ?r ?t sq1"
    using assms(1) Inr c by (cases c) (auto simp: record_reply_def Let_def split: if_splits)
  ultimately show ?thesis using Inr by (auto simp: is_ok_def)
qed

section \<open>Histories\<close>

lemma world_inv_queue: "world_inv lost w = queue_ok lost (w_queue w) (flight_keys w) (w_posts w)"
  by (simp add: world_inv_def queue_ok_def)

lemma world_step_inv:
  assumes "world_step w w'" and "world_inv lost w"
  shows "world_inv lost w'"
  using assms
proof (induction rule: world_step.induct)
  case (ws_enqueue clock now r w v db)
  then show ?case
    using enqueue_queue_ok [OF ws_enqueue(1) [unfolded enqueue_slack_delivery_def]]
    by (simp add: world_inv_queue flight_keys_def with_db_def new_message_row_def)
next
  case (ws_enqueue_stop clock now s w v db)
  then show ?case
    using enqueue_queue_ok [OF ws_enqueue_stop(1) [unfolded enqueue_slack_stop_stream_delivery_def]]
    by (simp add: world_inv_queue flight_keys_def with_db_def new_message_row_def)
next
  case (ws_deliver env request now w b sq)
  then show ?case using deliver_claim_ok [OF ws_deliver(1)] by (simp add: world_inv_queue flight_keys_def)
next
  case (ws_drain env now w b sq)
  then show ?case using drain_claim_ok [OF ws_drain(1)] by (simp add: world_inv_queue flight_keys_def)
next
  case (ws_post w before d later env now reply v sq)
  then show ?case
    using record_reply_ok [OF ws_post(2) [unfolded post_and_record_def], of lost
      "concat (map begun_keys before)" "concat (map begun_keys later)" "w_posts w"]
    by (cases "is_ok reply") (simp_all add: world_inv_queue flight_keys_def begun_keys_def)
next
  case (ws_stop w before d later env now reply v sq)
  then show ?case
    using record_reply_ok [OF ws_stop(2) [unfolded stop_stream_and_record_def], of lost
      "concat (map begun_keys before)" "concat (map begun_keys later)" "w_posts w"]
    by (cases "is_ok reply") (simp_all add: world_inv_queue flight_keys_def begun_keys_def)
next
  case (ws_crash w)
  then show ?case
    by (auto simp: world_inv_queue queue_ok_def flight_keys_def claims_ok_def pending_keys_def)
qed

lemma world_steps_inv: "world_step\<^sup>*\<^sup>* w w' \<Longrightarrow> world_inv lost w \<Longrightarrow> world_inv lost w'"
  by (induction rule: rtranclp_induct) (auto intro: world_step_inv)

definition initial_world :: "world \<Rightarrow> bool" where
  "initial_world w \<longleftrightarrow> ch_messages (sq_db (w_queue w)) = [] \<and> sq_pending (w_queue w) = [] \<and> w_flight w = []
     \<and> w_posts w = []"

lemma initial_world_inv: "initial_world w \<Longrightarrow> world_inv {} w"
  by (simp add: initial_world_def world_inv_def messages_ok_def keyed_def claims_ok_def flight_keys_def
      pending_keys_def)

end
