(* ===== verification/Channel_History.thy ===== *)
theory Channel_History
  imports Slack_Safety
begin

text \<open>
  Histories of the channel database: every operation of the store that changes a channel table, as one
  value, its execution, and what every history keeps. The constraints of all tables are one predicate;
  each statement form keeps them by one lemma, and each operation follows from the lemmas of its
  statements.
\<close>

section \<open>Operations\<close>

datatype channel_op =
    DoPersist i64 slack_source_event channel_event
  | DoClaimEvent i64
  | DoCompleteEvent i64 i64
  | DoReleaseEvent i64 i64 u64
  | DoFailEvent i64 i64 string
  | DoConversation conversation_key string
  | DoSummary i64 conversation_key string
  | DoDraft i64 agent_draft
  | DoContext i64 context_attempt
  | DoEnqueue i64 u64 post_request
  | DoEnqueueStop i64 u64 stop_request
  | DoClaimMessage i64 string string u64
  | DoClaimOperation i64 string string u64
  | DoClaimNext i64 u64
  | DoClaimNextOperation i64 u64
  | DoRetry i64 string string u64
  | DoCompleteMessage i64 delivery_receipt string u64
  | DoIndicator i64 string string string "string option" string
  | DoIndicatorDone i64 string string
  | DoIndicatorFail i64 string string string
  | DoCleanup "string option" u64 retention_policy

fun channel_exec :: "ext \<Rightarrow> event_codec \<Rightarrow> channel_op \<Rightarrow> channel_db \<Rightarrow> channel_db" where
  "channel_exec x codec (DoPersist clock s e) db = snd (persist_slack_source_event x codec clock s e db)"
| "channel_exec x codec (DoClaimEvent clock) db = snd (claim_next_channel_event x codec clock db)"
| "channel_exec x codec (DoCompleteEvent clock i) db = snd (complete_channel_event x clock i db)"
| "channel_exec x codec (DoReleaseEvent clock i delay) db = snd (release_channel_event x clock i delay db)"
| "channel_exec x codec (DoFailEvent clock i e) db = snd (fail_channel_event x clock i e db)"
| "channel_exec x codec (DoConversation k t) db = snd (upsert_channel_conversation_thread_id k t db)"
| "channel_exec x codec (DoSummary clock k s) db = snd (upsert_channel_conversation_summary clock k s db)"
| "channel_exec x codec (DoDraft i d) db = snd (save_agent_draft i d db)"
| "channel_exec x codec (DoContext clock a) db = snd (record_context_fetch_attempt clock a db)"
| "channel_exec x codec (DoEnqueue clock now r) db = snd (enqueue_slack_delivery clock now r db)"
| "channel_exec x codec (DoEnqueueStop clock now r) db = snd (enqueue_slack_stop_stream_delivery clock now r db)"
| "channel_exec x codec (DoClaimMessage clock ws k now) db = snd (claim_slack_delivery clock ws k now db)"
| "channel_exec x codec (DoClaimOperation clock ws k now) db = snd (claim_slack_delivery_operation clock ws k now db)"
| "channel_exec x codec (DoClaimNext clock now) db = snd (claim_next_due_slack_delivery clock now db)"
| "channel_exec x codec (DoClaimNextOperation clock now) db = snd (claim_next_due_slack_delivery_operation clock now db)"
| "channel_exec x codec (DoRetry clock ws k t) db = snd (retry_slack_delivery clock ws k t db)"
| "channel_exec x codec (DoCompleteMessage clock r json t) db = snd (complete_slack_delivery x clock r json t db)"
| "channel_exec x codec (DoIndicator clock ws k ch th ts) db =
     snd (create_slack_processing_indicator clock ws k ch th ts db)"
| "channel_exec x codec (DoIndicatorDone clock ws k) db = snd (complete_slack_processing_indicator clock ws k db)"
| "channel_exec x codec (DoIndicatorFail clock ws k e) db = snd (fail_slack_processing_indicator clock ws k e db)"
| "channel_exec x codec (DoCleanup scope now policy) db = cleanup_channel_rows scope now policy db"

fun channel_history :: "ext \<Rightarrow> event_codec \<Rightarrow> channel_op list \<Rightarrow> channel_db \<Rightarrow> channel_db" where
  "channel_history x codec [] db = db"
| "channel_history x codec (op # ops) db = channel_history x codec ops (channel_exec x codec op db)"

definition empty_channel_db :: channel_db where
  "empty_channel_db = \<lparr>ch_sources = [], ch_queue = [], ch_drafts = [], ch_contexts = [], ch_conversations = [],
     ch_summaries = [], ch_messages = [], ch_receipts = [], ch_throttles = [], ch_indicators = []\<rparr>"

text \<open>A fact that every operation keeps unless it ends it holds along every history that does not end it.\<close>

locale lasting =
  fixes x :: ext and codec :: event_codec and fact :: "channel_db \<Rightarrow> bool" and ends :: "channel_op \<Rightarrow> bool"
  assumes kept: "fact db \<Longrightarrow> \<not> ends op \<Longrightarrow> fact (channel_exec x codec op db)"
begin

lemma along: "fact db \<Longrightarrow> list_all (\<lambda>op. \<not> ends op) ops \<Longrightarrow> fact (channel_history x codec ops db)"
  by (induction ops arbitrary: db) (auto intro: kept)

end

lemma history_append:
  "channel_history x codec (ops @ later) db = channel_history x codec later (channel_history x codec ops db)"
  by (induction ops arbitrary: db) simp_all

section \<open>The constraints of all tables\<close>

definition drafts_linked :: "draft_row list \<Rightarrow> queue_row list \<Rightarrow> bool" where
  "drafts_linked drafts queue \<longleftrightarrow> list_all (\<lambda>d. list_ex (\<lambda>q. q_id q = dr_queue_id d) queue) drafts"

definition channel_ok :: "ext \<Rightarrow> channel_db \<Rightarrow> bool" where
  "channel_ok x db \<longleftrightarrow>
     keyed (source_check x) source_key (ch_sources db)
     \<and> keyed (queue_check x) queue_key (ch_queue db) \<and> keyed (queue_check x) q_id (ch_queue db)
     \<and> keyed draft_check dr_queue_id (ch_drafts db) \<and> keyed draft_check dr_id (ch_drafts db)
     \<and> drafts_linked (ch_drafts db) (ch_queue db)
     \<and> keyed context_check cr_id (ch_contexts db)
     \<and> keyed conversation_check cv_key (ch_conversations db)
     \<and> keyed summary_check cs_key (ch_summaries db)
     \<and> keyed message_check message_key (ch_messages db) \<and> keyed message_check m_id (ch_messages db)
     \<and> keyed (receipt_check x) receipt_key (ch_receipts db)
     \<and> keyed throttle_check throttle_key (ch_throttles db)
     \<and> keyed indicator_check indicator_key (ch_indicators db)"

lemma insert_new_ident:
  assumes "keyed check ident rows" and "insert_new check key r rows = Inr (rows', new)"
    and "ident r = next_id ident rows"
  shows "keyed check ident rows'"
proof -
  have "ident r \<notin> ident ` set rows" using next_id_fresh [of _ rows ident] assms(3) by force
  then show ?thesis
    using assms(1) insert_new_InrD [OF assms(2)] by (auto simp: keyed_def split: if_splits)
qed

lemma linked_same_ids:
  "map q_id queue' = map q_id queue \<Longrightarrow> drafts_linked drafts queue' = drafts_linked drafts queue"
  unfolding drafts_linked_def list_ex_iff list_all_iff by (metis (no_types, opaque_lifting) image_iff set_map)

lemma linked_append: "drafts_linked drafts queue \<Longrightarrow> drafts_linked drafts (queue @ rows)"
  by (auto simp: drafts_linked_def list_all_iff)

lemma empty_channel_ok: "channel_ok x empty_channel_db"
  by (simp add: channel_ok_def empty_channel_db_def keyed_def drafts_linked_def)

text \<open>An update of the event queue that keeps identity columns.\<close>

lemma queue_update_ok:
  assumes "channel_ok x db" and "update_rows (queue_check x) w f (ch_queue db) = Inr (rows, n)"
    and "\<And>q. queue_key (f q) = queue_key q" and "\<And>q. q_id (f q) = q_id q"
  shows "channel_ok x (db \<lparr>ch_queue := rows\<rparr>)"
proof -
  have "map q_id rows = map q_id (ch_queue db)"
    using update_rows_InrD(1) [OF assms(2)] assms(4) by simp
  then show ?thesis
    using assms(1) update_rows_keyed [OF _ assms(2), of queue_key] update_rows_keyed [OF _ assms(2), of q_id]
      assms(3,4) linked_same_ids [of rows "ch_queue db"] by (simp add: channel_ok_def)
qed

lemma message_update_ok:
  assumes "channel_ok x db" and "update_rows message_check w f (ch_messages db) = Inr (rows, n)"
    and "\<And>m. message_key (f m) = message_key m" and "\<And>m. m_id (f m) = m_id m"
  shows "channel_ok x (db \<lparr>ch_messages := rows\<rparr>)"
  using assms(1) update_rows_keyed [OF _ assms(2), of message_key] update_rows_keyed [OF _ assms(2), of m_id]
    assms(3,4)
  by (simp add: channel_ok_def)

section \<open>Every operation keeps the constraints\<close>

lemma persist_ok_tables:
  assumes "channel_ok x db" and "persist_slack_source_event x codec clock s e db = (v, db')"
  shows "channel_ok x db'"
proof (cases "v = Inr True")
  case False
  then show ?thesis
    using assms by (auto simp: persist_slack_source_event_def split: option.splits sum.splits prod.splits bool.splits)
next
  case True
  then obtain payload sources queue new where step:
      "insert_new (source_check x) source_key (new_source_row clock s) (ch_sources db) = Inr (sources, True)"
      "insert_new (queue_check x) queue_key (new_queue_row clock e payload (ch_queue db)) (ch_queue db) = Inr (queue, new)"
      "db' = db \<lparr>ch_sources := sources, ch_queue := queue\<rparr>"
    using assms(2) by (auto simp: persist_slack_source_event_def split: option.splits sum.splits prod.splits bool.splits)
  have "drafts_linked (ch_drafts db) queue"
    using assms(1) insert_new_InrD(2) [OF step(2)] linked_append by (simp add: channel_ok_def)
  then show ?thesis
    using assms(1) insert_new_keyed [OF _ step(1)] insert_new_keyed [OF _ step(2)]
      insert_new_ident [OF _ step(2), of q_id] step(3)
    by (simp add: channel_ok_def new_queue_row_def)
qed

lemma claim_event_ok_tables:
  assumes "channel_ok x db"
  shows "channel_ok x (snd (claim_next_channel_event x codec clock db))"
proof (cases "select_min (\<lambda>q. (q_available_at q, q_id q)) (due_event clock) (ch_queue db)")
  case None
  then show ?thesis using assms by (simp add: claim_next_channel_event_def)
next
  case (Some q)
  show ?thesis
  proof (cases "update_rows (queue_check x) (\<lambda>r. q_id r = q_id q \<and> q_status r = ''pending'')
      (claim_queue_row clock) (ch_queue db)")
    case (Inl e)
    then show ?thesis using assms Some by (simp add: claim_next_channel_event_def)
  next
    case (Inr v)
    then show ?thesis
      using assms Some queue_update_ok [OF assms, of _ "claim_queue_row clock" "fst v" "snd v"]
      by (cases v) (simp add: claim_next_channel_event_def claim_queue_row_def queue_key_def)
  qed
qed

lemma update_claimed_ok_tables:
  assumes "channel_ok x db" and "\<And>q. queue_key (f q) = queue_key q" and "\<And>q. q_id (f q) = q_id q"
  shows "channel_ok x (snd (update_claimed_event x i f db))"
  using assms queue_update_ok [OF assms(1) _ assms(2,3)]
  by (auto simp: update_claimed_event_def split: sum.splits prod.splits)

lemma release_ok_tables: "channel_ok x db \<Longrightarrow> channel_ok x (snd (release_channel_event x clock i delay db))"
  by (auto simp: release_channel_event_def queue_key_def intro!: update_claimed_ok_tables split: option.splits)

lemma upsert_ok_tables:
  assumes "channel_ok x db"
  shows "channel_ok x (snd (upsert_channel_conversation_thread_id k t db))"
    and "channel_ok x (snd (upsert_channel_conversation_summary clock k s db))"
  using assms upsert_keyed [where check = conversation_check and key = cv_key]
    upsert_keyed [where check = summary_check and key = cs_key]
  by (auto simp: channel_ok_def upsert_channel_conversation_thread_id_def
      upsert_channel_conversation_summary_def split: sum.splits)

lemma draft_ok_tables:
  assumes "channel_ok x db"
  shows "channel_ok x (snd (save_agent_draft i d db))"
proof (cases "insert_new draft_check dr_queue_id \<lparr>dr_id = next_id dr_id (ch_drafts db),
    dr_queue_id = i, dr_draft = d\<rparr> (ch_drafts db)")
  case (Inl e)
  then show ?thesis using assms by (simp add: save_agent_draft_def)
next
  case (Inr v)
  obtain rows new where v: "v = (rows, new)" by (cases v)
  note ins = Inr [unfolded v]
  have "drafts_linked rows (ch_queue db)" if "new \<longrightarrow> list_ex (\<lambda>q. q_id q = i) (ch_queue db)"
    using that assms insert_new_InrD(2) [OF ins] by (auto simp: channel_ok_def drafts_linked_def)
  then show ?thesis
    using assms ins insert_new_keyed [OF _ ins] insert_new_ident [OF _ ins, of dr_id]
    by (auto simp: save_agent_draft_def channel_ok_def)
qed

lemma context_ok_tables:
  assumes "channel_ok x db"
  shows "channel_ok x (snd (record_context_fetch_attempt clock a db))"
proof -
  have "next_id cr_id (ch_contexts db) \<notin> cr_id ` set (ch_contexts db)"
    using next_id_fresh [of _ "ch_contexts db" cr_id] by force
  then show ?thesis
    using assms by (auto simp: record_context_fetch_attempt_def Let_def channel_ok_def keyed_def)
qed

lemma enqueue_ok_tables:
  assumes "channel_ok x db" and "m_id row = next_id m_id (ch_messages db)"
  shows "channel_ok x (snd (enqueue_message row db))"
  using assms insert_new_keyed [where check = message_check and key = message_key]
    insert_new_ident [where check = message_check and ident = m_id and key = message_key]
  by (auto simp: enqueue_message_def channel_ok_def split: sum.splits prod.splits)

lemma take_ok_tables:
  assumes "channel_ok x db" and "take_message clock k db = Inr (db', n)"
  shows "channel_ok x db'"
  using assms message_update_ok [OF assms(1), of _ "claim_message_row clock"]
  by (auto simp: take_message_def map_err_def claim_message_row_def message_key_def split: sum.splits)

lemma commit_ok: "channel_ok x db \<Longrightarrow> (\<And>db' v. m = Inr (db', v) \<Longrightarrow> channel_ok x db') \<Longrightarrow> channel_ok x (snd (commit db m))"
  by (auto simp: commit_def split: sum.splits)

lemma claims_ok_tables:
  assumes "channel_ok x db"
  shows "claim_by_key accepts decode delivered deferred clock ws key now db = Inr (db', c) \<Longrightarrow> channel_ok x db'"
    and "claim_next accepts decode' clock now db = Inr (db', c') \<Longrightarrow> channel_ok x db'"
  using assms by (auto simp: claim_by_key_def claim_next_def intro: take_ok_tables split: option.splits if_splits)

lemma retry_ok_tables: "channel_ok x db \<Longrightarrow> channel_ok x (snd (retry_slack_delivery clock ws k t db))"
  unfolding retry_slack_delivery_def
  by (rule commit_ok) (auto simp: map_err_def message_key_def intro: message_update_ok split: sum.splits)

lemma complete_ok_tables:
  assumes "channel_ok x db"
  shows "channel_ok x (snd (complete_slack_delivery x clock r json t db))"
  unfolding complete_slack_delivery_def
proof (rule commit_ok [OF assms], goal_cases)
  case (1 db' v)
  then obtain receipts new messages n throttles where step:
      "insert_new (receipt_check x) receipt_key (new_receipt_row clock r json) (ch_receipts db) = Inr (receipts, new)"
      "update_rows message_check (\<lambda>m. message_key m = (rc_workspace_id r, rc_dedupe_key r))
        (\<lambda>m. m \<lparr>m_status := ''delivered'', m_updated_at := clock\<rparr>) (ch_messages db) = Inr (messages, n)"
      "upsert throttle_check throttle_key
        (\<lambda>h. h \<lparr>th_next_available_at := max (th_next_available_at h) (i64_of_u64 t)\<rparr>)
        \<lparr>th_workspace_id = rc_workspace_id r, th_channel_id = rc_channel_id r,
         th_next_available_at = i64_of_u64 t\<rparr> (ch_throttles db) = Inr throttles"
      "db' = db \<lparr>ch_receipts := receipts, ch_messages := messages, ch_throttles := throttles\<rparr>"
    by (auto simp: map_err_def split: sum.splits)
  have "channel_ok x (db \<lparr>ch_messages := messages\<rparr>)"
    by (rule message_update_ok [OF assms step(2)]) (simp_all add: message_key_def)
  then show ?case
    using insert_new_keyed [OF _ step(1)] upsert_keyed [OF _ step(3)] assms step(4)
    by (simp add: channel_ok_def throttle_key_def)
qed

lemma indicators_kept:
  "channel_ok x db \<Longrightarrow> keyed indicator_check indicator_key rows \<Longrightarrow> channel_ok x (db \<lparr>ch_indicators := rows\<rparr>)"
  by (simp add: channel_ok_def)

lemma indicator_ok_tables:
  assumes "channel_ok x db"
  shows "channel_ok x (snd (create_slack_processing_indicator clock ws k ch th ts db))"
    and "channel_ok x (snd (update_indicator ws k (close_indicator clock status e) db))"
proof -
  have old: "keyed indicator_check indicator_key (ch_indicators db)" using assms by (simp add: channel_ok_def)
  have key: "indicator_key (close_indicator clock status e i) = indicator_key i" for i
    by (simp add: close_indicator_def indicator_key_def)
  show "channel_ok x (snd (create_slack_processing_indicator clock ws k ch th ts db))"
    unfolding create_slack_processing_indicator_def
    by (rule commit_ok [OF assms])
      (auto simp: map_err_def intro!: indicators_kept [OF assms] dest: insert_new_keyed [OF old] split: sum.splits)
  show "channel_ok x (snd (update_indicator ws k (close_indicator clock status e) db))"
    unfolding update_indicator_def
    by (rule commit_ok [OF assms])
      (auto simp: map_err_def intro!: indicators_kept [OF assms]
        dest: update_rows_keyed [where key = indicator_key, OF old _ key] split: sum.splits)
qed

lemma cleanup_linked:
  assumes "drafts_linked drafts queue"
  shows "drafts_linked (delete_rows (\<lambda>d. list_ex (\<lambda>q. q_id q = dr_queue_id d \<and> w q) queue) drafts)
    (delete_rows w queue)"
  using assms by (auto simp: drafts_linked_def delete_rows_def list_all_iff list_ex_iff)

lemma cleanup_ok_tables: "channel_ok x db \<Longrightarrow> channel_ok x (cleanup_channel_rows scope now policy db)"
  using cleanup_linked [of "ch_drafts db" "ch_queue db"]
  by (simp add: cleanup_channel_rows_def Let_def channel_ok_def) (simp add: delete_rows_def filter_keyed)

lemma claim_ok_tables:
  assumes "channel_ok x db"
  shows "channel_ok x (snd (claim_slack_delivery clock ws k now db))"
    and "channel_ok x (snd (claim_slack_delivery_operation clock ws k now db))"
    and "channel_ok x (snd (claim_next_due_slack_delivery clock now db))"
    and "channel_ok x (snd (claim_next_due_slack_delivery_operation clock now db))"
  unfolding claim_slack_delivery_def claim_slack_delivery_operation_def claim_next_due_slack_delivery_def
    claim_next_due_slack_delivery_operation_def
  by (rule commit_ok [OF assms], erule claims_ok_tables [OF assms])+

lemmas tables_ok =
  persist_ok_tables [OF _ surjective_pairing] claim_event_ok_tables update_claimed_ok_tables
  release_ok_tables upsert_ok_tables draft_ok_tables context_ok_tables enqueue_ok_tables claim_ok_tables
  retry_ok_tables complete_ok_tables indicator_ok_tables cleanup_ok_tables

lemma exec_ok: "channel_ok x db \<Longrightarrow> channel_ok x (channel_exec x codec op db)"
  by (cases op) (auto intro!: tables_ok
      simp: complete_channel_event_def fail_channel_event_def queue_key_def enqueue_slack_delivery_def
        enqueue_slack_stop_stream_delivery_def new_message_row_def
        complete_slack_processing_indicator_def fail_slack_processing_indicator_def)

interpretation tables: lasting x codec "channel_ok x" "\<lambda>_. False" for x codec
  by unfold_locales (rule exec_ok)

lemma history_ok: "channel_ok x db \<Longrightarrow> channel_ok x (channel_history x codec ops db)"
  by (rule tables.along) (simp_all add: list_all_iff)

end
