(* ===== verification/Channel_Claims.thy ===== *)
theory Channel_Claims
  imports Channel_History
begin

text \<open>
  What a history keeps: which tables an operation touches, that an event stays with the worker that
  claimed it until the event is settled, and that source events and receipts stay until they are cleaned
  up.
\<close>

section \<open>Frames\<close>

lemma take_frame: "take_message clock k db = Inr (db', n) \<Longrightarrow> \<exists>rows. db' = db \<lparr>ch_messages := rows\<rparr>"
  by (auto simp: take_message_def map_err_def split: sum.splits)

lemma same_messages: "\<exists>rows. db = db \<lparr>ch_messages := rows\<rparr>"
  by (rule exI [of _ "ch_messages db"]) simp

lemma claim_by_key_frame:
  "claim_by_key accepts decode delivered deferred clock ws key now db = Inr (db', c)
    \<Longrightarrow> \<exists>rows. db' = db \<lparr>ch_messages := rows\<rparr>"
  using same_messages [of db]
  by (auto simp: claim_by_key_def dest: take_frame split: option.splits if_splits)

lemma claim_next_frame:
  "claim_next accepts decode clock now db = Inr (db', c) \<Longrightarrow> \<exists>rows. db' = db \<lparr>ch_messages := rows\<rparr>"
  using same_messages [of db] by (auto simp: claim_next_def dest: take_frame split: option.splits)

lemma commit_frame:
  assumes "\<And>db' v. m = Inr (db', v) \<Longrightarrow> \<exists>rows. db' = db \<lparr>ch_messages := rows\<rparr>"
  shows "\<exists>rows. snd (commit db m) = db \<lparr>ch_messages := rows\<rparr>"
  using assms same_messages [of db] by (auto simp: commit_def split: sum.splits)

text \<open>Queueing, claiming and returning messages touch no other table.\<close>

fun message_op :: "channel_op \<Rightarrow> bool" where
  "message_op (DoEnqueue _ _ _) = True"
| "message_op (DoEnqueueStop _ _ _) = True"
| "message_op (DoClaimMessage _ _ _ _) = True"
| "message_op (DoClaimOperation _ _ _ _) = True"
| "message_op (DoClaimNext _ _) = True"
| "message_op (DoClaimNextOperation _ _) = True"
| "message_op (DoRetry _ _ _ _) = True"
| "message_op _ = False"

lemma enqueue_frame: "\<exists>rows. snd (enqueue_message row db) = db \<lparr>ch_messages := rows\<rparr>"
  using same_messages [of db] by (auto simp: enqueue_message_def split: sum.splits)

lemma retry_frame: "\<exists>rows. snd (retry_slack_delivery clock ws k t db) = db \<lparr>ch_messages := rows\<rparr>"
  unfolding retry_slack_delivery_def
  by (rule commit_frame) (auto simp: map_err_def split: sum.splits)

lemma message_op_frame: "message_op op \<Longrightarrow> \<exists>rows. channel_exec x codec op db = db \<lparr>ch_messages := rows\<rparr>"
  by (cases op) (simp_all add: enqueue_slack_delivery_def enqueue_slack_stop_stream_delivery_def
      claim_slack_delivery_def claim_slack_delivery_operation_def claim_next_due_slack_delivery_def
      claim_next_due_slack_delivery_operation_def enqueue_frame retry_frame commit_frame claim_by_key_frame
      claim_next_frame)

lemma complete_frame:
  assumes "complete_slack_delivery x clock r json t db = (v, db')"
  obtains "v \<noteq> Inr ()" "db' = db"
  | receipts messages throttles new where "v = Inr ()"
      "insert_new (receipt_check x) receipt_key (new_receipt_row clock r json) (ch_receipts db) = Inr (receipts, new)"
      "db' = db \<lparr>ch_receipts := receipts, ch_messages := messages, ch_throttles := throttles\<rparr>"
proof -
  from assms [unfolded complete_slack_delivery_def] show thesis
  proof (cases rule: commitE)
    case (failed e)
    then show thesis using that(1) by simp
  next
    case (stored w)
    then show thesis using that(2) by (auto simp: map_err_def split: sum.splits)
  qed
qed

lemma complete_queue [simp]:
  "ch_queue (snd (complete_slack_delivery x clock r json t db)) = ch_queue db"
  "ch_sources (snd (complete_slack_delivery x clock r json t db)) = ch_sources db"
  by (cases "complete_slack_delivery x clock r json t db"; rule complete_frame; simp)+

lemma indicator_frames [simp]:
  "ch_queue (snd (create_slack_processing_indicator clock ws k ch th ts db)) = ch_queue db"
  "ch_sources (snd (create_slack_processing_indicator clock ws k ch th ts db)) = ch_sources db"
  "ch_receipts (snd (create_slack_processing_indicator clock ws k ch th ts db)) = ch_receipts db"
  "ch_queue (snd (update_indicator ws k f db)) = ch_queue db"
  "ch_sources (snd (update_indicator ws k f db)) = ch_sources db"
  "ch_receipts (snd (update_indicator ws k f db)) = ch_receipts db"
  by (auto simp: create_slack_processing_indicator_def update_indicator_def commit_def map_err_def rbind_def
      split: sum.splits)

lemma conversation_frames [simp]:
  "ch_queue (snd (upsert_channel_conversation_thread_id k t db)) = ch_queue db"
  "ch_sources (snd (upsert_channel_conversation_thread_id k t db)) = ch_sources db"
  "ch_receipts (snd (upsert_channel_conversation_thread_id k t db)) = ch_receipts db"
  "ch_queue (snd (upsert_channel_conversation_summary clock k s db)) = ch_queue db"
  "ch_sources (snd (upsert_channel_conversation_summary clock k s db)) = ch_sources db"
  "ch_receipts (snd (upsert_channel_conversation_summary clock k s db)) = ch_receipts db"
  "ch_queue (snd (save_agent_draft i d db)) = ch_queue db"
  "ch_sources (snd (save_agent_draft i d db)) = ch_sources db"
  "ch_receipts (snd (save_agent_draft i d db)) = ch_receipts db"
  "ch_queue (snd (record_context_fetch_attempt clock a db)) = ch_queue db"
  "ch_sources (snd (record_context_fetch_attempt clock a db)) = ch_sources db"
  "ch_receipts (snd (record_context_fetch_attempt clock a db)) = ch_receipts db"
  by (auto simp: upsert_channel_conversation_thread_id_def upsert_channel_conversation_summary_def
      save_agent_draft_def record_context_fetch_attempt_def Let_def split: sum.splits)

section \<open>Claimed events\<close>

definition event_held :: "i64 \<Rightarrow> channel_db \<Rightarrow> bool" where
  "event_held i db \<longleftrightarrow> list_ex (\<lambda>q. q_id q = i \<and> q_status q = ''processing'') (ch_queue db)"

fun settles_event :: "i64 \<Rightarrow> channel_op \<Rightarrow> bool" where
  "settles_event i (DoCompleteEvent _ j) = (i = j)"
| "settles_event i (DoReleaseEvent _ j _) = (i = j)"
| "settles_event i (DoFailEvent _ j _) = (i = j)"
| "settles_event i _ = False"

lemma held_update:
  assumes "event_held i db" and "\<And>q. w q \<Longrightarrow> q_id q = i \<Longrightarrow> q_status q \<noteq> ''processing''"
    and "update_rows (queue_check x) w f (ch_queue db) = Inr (rows, n)"
  shows "event_held i (db \<lparr>ch_queue := rows\<rparr>)"
  using assms update_rows_InrD(1) [OF assms(3)] by (fastforce simp: event_held_def list_ex_iff)

lemma held_update_claimed:
  "event_held i db \<Longrightarrow> i \<noteq> j \<Longrightarrow> event_held i (snd (update_claimed_event x j f db))"
  using held_update [of i db "\<lambda>q. q_id q = j \<and> q_status q = ''processing''" x f]
  by (auto simp: update_claimed_event_def split: sum.splits)

lemma held_claim: "event_held i db \<Longrightarrow> event_held i (snd (claim_next_channel_event x codec clock db))"
  by (auto simp: claim_next_channel_event_def elim: held_update [rotated 2] split: option.splits sum.splits)

lemma held_persist: "event_held i db \<Longrightarrow> event_held i (snd (persist_slack_source_event x codec clock s e db))"
  by (auto simp: persist_slack_source_event_def event_held_def list_ex_iff
      dest!: insert_new_InrD(2) split: option.splits sum.splits bool.splits)

lemma held_release:
  "event_held i db \<Longrightarrow> i \<noteq> j \<Longrightarrow> event_held i (snd (release_channel_event x clock j delay db))"
  by (auto simp: release_channel_event_def intro: held_update_claimed split: option.splits)

lemma cleanup_queue:
  "ch_queue (cleanup_channel_rows scope now policy db) = (if rp_enabled policy
     then delete_rows (old_event (retention_cutoff (i64_of_u64 now) (inbound_payload_days policy)) scope) (ch_queue db)
     else ch_queue db)"
  by (simp add: cleanup_channel_rows_def Let_def)

lemma held_cleanup: "event_held i db \<Longrightarrow> event_held i (cleanup_channel_rows scope now policy db)"
  by (auto simp: event_held_def cleanup_queue delete_rows_def list_ex_iff old_event_def)

lemma held_exec:
  assumes "event_held i db" and "\<not> settles_event i op"
  shows "event_held i (channel_exec x codec op db)"
proof (cases "message_op op")
  case True
  then show ?thesis using message_op_frame [OF True, of x codec db] assms(1) by (auto simp: event_held_def)
next
  case False
  then show ?thesis
    using assms held_claim held_persist held_release held_update_claimed held_cleanup
    by (cases op) (simp_all add: event_held_def complete_channel_event_def fail_channel_event_def
        complete_slack_processing_indicator_def fail_slack_processing_indicator_def)
qed

interpretation held: lasting x codec "event_held i" "settles_event i" for x codec i
  by unfold_locales (rule held_exec)

lemma claim_eventE:
  assumes "claim_next_channel_event x codec clock db = (v, db')"
  obtains (none) "v = Inr None" "db' = db" | (failed) e where "v = Inl (ChannelEventQueue e)" "db' = db"
  | (claimed) q where "q \<in> set (ch_queue db)" "due_event clock q"
      "\<And>r. r \<in> set (ch_queue db) \<Longrightarrow> due_event clock r \<Longrightarrow> (q_available_at q, q_id q) \<le> (q_available_at r, q_id r)"
      "v = (case event_parse codec (q_payload_json q) of None \<Rightarrow> Inl DeserializeChannelEvent
        | Some event \<Rightarrow> Inr (Some \<lparr>ce_id = q_id q, ce_attempt_count = q_attempt_count q + 1, ce_event = event\<rparr>))"
      "event_held (q_id q) db'"
proof (cases "select_min (\<lambda>q. (q_available_at q, q_id q)) (due_event clock) (ch_queue db)")
  case None
  then show thesis using assms none by (simp add: claim_next_channel_event_def)
next
  case (Some q)
  let ?w = "\<lambda>r. q_id r = q_id q \<and> q_status r = ''pending''"
  show thesis
  proof (cases "update_rows (queue_check x) ?w (claim_queue_row clock) (ch_queue db)")
    case (Inl e)
    then show thesis using assms Some failed by (auto simp: claim_next_channel_event_def)
  next
    case (Inr u)
    note q = select_min_SomeD [OF Some]
    have "fst u = map (\<lambda>r. if ?w r then claim_queue_row clock r else r) (ch_queue db)"
      by (rule update_rows_InrD(1) [where n = "snd u"]) (use Inr in simp)
    then have "claim_queue_row clock q \<in> set (fst u)" using q by (auto simp: due_event_def)
    then have "event_held (q_id q) (db \<lparr>ch_queue := fst u\<rparr>)"
      by (auto simp: event_held_def list_ex_iff claim_queue_row_def intro!: bexI [of _ "claim_queue_row clock q"])
    then show thesis
      using assms Some Inr claimed [of q] q by (cases u) (simp add: claim_next_channel_event_def)
  qed
qed

text \<open>A held event is not pending, so no claim takes it.\<close>

lemma held_not_due:
  assumes "channel_ok x db" and "event_held i db" and "q \<in> set (ch_queue db)" and "q_id q = i"
  shows "\<not> due_event clock q"
proof -
  obtain r where r: "r \<in> set (ch_queue db)" "q_id r = i" "q_status r = ''processing''"
    using assms(2) by (auto simp: event_held_def list_ex_iff)
  have "keyed (queue_check x) q_id (ch_queue db)" using assms(1) by (simp add: channel_ok_def)
  then have "q = r" using keyed_inj assms(3,4) r(1,2) by metis
  then show ?thesis using r(3) by (simp add: due_event_def)
qed

section \<open>Source events and receipts\<close>

fun cleans_up :: "channel_op \<Rightarrow> bool" where
  "cleans_up (DoCleanup _ _ _) = True"
| "cleans_up _ = False"

definition source_known :: "string \<times> string \<Rightarrow> channel_db \<Rightarrow> bool" where
  "source_known k db \<longleftrightarrow> list_ex (\<lambda>s. source_key s = k) (ch_sources db)"

lemma update_claimed_frames [simp]:
  "ch_sources (snd (update_claimed_event x j f db)) = ch_sources db"
  "ch_receipts (snd (update_claimed_event x j f db)) = ch_receipts db"
  "ch_sources (snd (release_channel_event x clock j delay db)) = ch_sources db"
  "ch_receipts (snd (release_channel_event x clock j delay db)) = ch_receipts db"
  "ch_sources (snd (claim_next_channel_event x codec clock db)) = ch_sources db"
  "ch_receipts (snd (claim_next_channel_event x codec clock db)) = ch_receipts db"
  "ch_receipts (snd (persist_slack_source_event x codec clock s e db)) = ch_receipts db"
  by (auto simp: release_channel_event_def update_claimed_event_def claim_next_channel_event_def
      persist_slack_source_event_def split: option.splits sum.splits bool.splits)

lemma known_persist:
  "source_known k db \<Longrightarrow> source_known k (snd (persist_slack_source_event x codec clock s e db))"
  by (auto simp: persist_slack_source_event_def source_known_def list_ex_iff
      dest!: insert_new_InrD(2) split: option.splits sum.splits bool.splits)

lemma known_exec:
  assumes "source_known k db" and "\<not> cleans_up op"
  shows "source_known k (channel_exec x codec op db)"
proof (cases "message_op op")
  case True
  then show ?thesis using message_op_frame [OF True, of x codec db] assms(1) by (auto simp: source_known_def)
next
  case False
  then show ?thesis
    using assms known_persist
    by (cases op) (simp_all add: source_known_def complete_channel_event_def fail_channel_event_def
        complete_slack_processing_indicator_def fail_slack_processing_indicator_def)
qed

interpretation known: lasting x codec "source_known k" cleans_up for x codec k
  by unfold_locales (rule known_exec)

definition has_receipt :: "receipt_row \<Rightarrow> channel_db \<Rightarrow> bool" where
  "has_receipt r db \<longleftrightarrow> find_receipt (rr_workspace_id r) (rr_dedupe_key r) db = Some r"

lemma find_append: "List.find P xs = Some r \<Longrightarrow> List.find P (xs @ ys) = Some r"
  by (induction xs) auto

lemma receipt_complete:
  "has_receipt r db \<Longrightarrow> has_receipt r (snd (complete_slack_delivery x clock r' json t db))"
  by (cases "complete_slack_delivery x clock r' json t db"; rule complete_frame)
    (auto simp: has_receipt_def find_receipt_def find_append dest!: insert_new_InrD(2))

lemma receipt_exec:
  assumes "has_receipt r db" and "\<not> cleans_up op"
  shows "has_receipt r (channel_exec x codec op db)"
proof (cases "message_op op")
  case True
  then show ?thesis
    using message_op_frame [OF True, of x codec db] assms(1) by (auto simp: has_receipt_def find_receipt_def)
next
  case False
  then show ?thesis
    using assms receipt_complete
    by (cases op) (simp_all add: has_receipt_def find_receipt_def complete_channel_event_def fail_channel_event_def
        complete_slack_processing_indicator_def fail_slack_processing_indicator_def)
qed

interpretation receipts: lasting x codec "has_receipt r" cleans_up for x codec r
  by unfold_locales (rule receipt_exec)

lemma sender_roundtrip: "sender_from_parts (sender_kind s) (sender_key s) = Inr s"
  by (cases s) (simp_all add: sender_from_parts_def sender_kind_def sender_key_def)

lemma receipt_roundtrip: "receipt_from_row (new_receipt_row clock r json) = Inr r"
  by (simp add: receipt_from_row_def new_receipt_row_def sender_roundtrip)

text \<open>The first receipt of a message is the one that is kept.\<close>

lemma completed_has_receipt:
  assumes "complete_slack_delivery x clock r json t db = (Inr (), db')"
    and "find_receipt (rc_workspace_id r) (rc_dedupe_key r) db = None"
  shows "has_receipt (new_receipt_row clock r json) db'"
  using assms(1)
proof (rule complete_frame)
  fix receipts messages throttles new
  let ?row = "new_receipt_row clock r json"
  assume ins: "insert_new (receipt_check x) receipt_key ?row (ch_receipts db) = Inr (receipts, new)"
    and db': "db' = db \<lparr>ch_receipts := receipts, ch_messages := messages, ch_throttles := throttles\<rparr>"
  have key: "receipt_key ?row = (rc_workspace_id r, rc_dedupe_key r)"
    by (simp add: receipt_key_def new_receipt_row_def)
  have "receipt_key ?row \<notin> receipt_key ` set (ch_receipts db)"
    using assms(2) unfolding find_receipt_def find_None_iff key by fastforce
  then have "receipts = ch_receipts db @ [?row]" using insert_new_InrD(2,3) [OF ins] by simp
  moreover have "List.find (\<lambda>s. receipt_key s = receipt_key ?row) (rows @ [?row]) = Some ?row"
    if "List.find (\<lambda>s. receipt_key s = receipt_key ?row) rows = None" for rows
    using that by (induction rows) (auto split: if_splits)
  ultimately show ?thesis
    using assms(2) db' key by (simp add: has_receipt_def find_receipt_def new_receipt_row_def receipt_key_def)
qed simp

section \<open>The lifecycle of an event\<close>

text \<open>What an event of the inbox does, as states and counts of attempts: it is claimed, settled as processed
  or failed, or handed back, and handing it back takes back the attempt.\<close>

inductive event_step :: "string \<times> i64 \<Rightarrow> string \<times> i64 \<Rightarrow> bool" where
  es_claim: "event_step (''pending'', n) (''processing'', n + 1)"
| es_complete: "event_step (''processing'', n) (''processed'', n)"
| es_fail: "event_step (''processing'', n) (''failed'', n)"
| es_release: "event_step (''processing'', n) (''pending'', max (n - 1) 0)"

inductive_simps event_step_settled: "event_step (''processed'', n) l" "event_step (''failed'', n) l"

definition event_life :: "queue_row \<Rightarrow> string \<times> i64" where
  "event_life q = (q_status q, q_attempt_count q)"

definition event_identity :: "queue_row \<Rightarrow> i64 \<times> (string \<times> string \<times> string) \<times> string \<times> string" where
  "event_identity q = (q_id q, queue_key q, q_event_kind q, q_payload_json q)"

definition event_settled :: "queue_row \<Rightarrow> bool" where
  "event_settled q \<longleftrightarrow> q_status q \<in> set [''processed'', ''failed'']"

definition event_evolves :: "queue_row \<Rightarrow> queue_row \<Rightarrow> bool" where
  "event_evolves q q' \<longleftrightarrow> event_identity q' = event_identity q
     \<and> event_step\<^sup>*\<^sup>* (event_life q) (event_life q') \<and> (event_settled q \<longrightarrow> q' = q)"

lemma event_evolves_refl [simp, intro]: "event_evolves q q"
  by (simp add: event_evolves_def)

lemma event_evolves_one:
  "event_identity q' = event_identity q \<Longrightarrow> event_step (event_life q) (event_life q') \<Longrightarrow> \<not> event_settled q \<Longrightarrow>
   event_evolves q q'"
  by (simp add: event_evolves_def r_into_rtranclp)

lemma event_evolves_trans: "event_evolves q q' \<Longrightarrow> event_evolves q' q'' \<Longrightarrow> event_evolves q q''"
  by (auto simp: event_evolves_def)

text \<open>An event that was never handled has no attempt, any other has one.\<close>

definition one_attempt :: "string \<times> i64 \<Rightarrow> bool" where
  "one_attempt l \<longleftrightarrow> l \<in> set [(''pending'', 0), (''processing'', 1), (''processed'', 1), (''failed'', 1)]"

lemma one_attempt_step: "event_step l l' \<Longrightarrow> one_attempt l \<Longrightarrow> one_attempt l'"
  by (induction rule: event_step.induct) (auto simp: one_attempt_def)

lemma one_attempt_later: "event_evolves q q' \<Longrightarrow> one_attempt (event_life q) \<Longrightarrow> one_attempt (event_life q')"
proof -
  assume "event_evolves q q'" and one: "one_attempt (event_life q)"
  then have "event_step\<^sup>*\<^sup>* (event_life q) (event_life q')" by (simp add: event_evolves_def)
  then show "one_attempt (event_life q')" using one by induction (simp_all add: one_attempt_step)
qed

text \<open>One operation: the rows of the queue evolve in place, and new ones are appended.\<close>

definition events_move :: "queue_row list \<Rightarrow> queue_row list \<Rightarrow> bool" where
  "events_move queue queue' \<longleftrightarrow> (\<exists>f new. queue' = map f queue @ new
     \<and> (\<forall>q \<in> set queue. event_evolves q (f q)) \<and> (\<forall>q \<in> set new. event_life q = (''pending'', 0)))"

lemma events_stay [simp]: "events_move queue queue"
  unfolding events_move_def by (rule exI [of _ id], rule exI [of _ "[]"]) simp

lemma events_updated:
  assumes "update_rows check w f queue = Inr (rows, n)" and "\<And>q. w q \<Longrightarrow> event_evolves q (f q)"
  shows "events_move queue rows"
  unfolding events_move_def update_rows_InrD(1) [OF assms(1)]
  by (rule exI [of _ "\<lambda>q. if w q then f q else q"], rule exI [of _ "[]"]) (simp add: assms(2))

lemmas event_row_defs = event_identity_def event_life_def event_settled_def queue_key_def

lemma claim_moves: "events_move (ch_queue db) (ch_queue (snd (claim_next_channel_event x codec clock db)))"
proof -
  have "event_evolves q (claim_queue_row clock q)" if "q_status q = ''pending''" for q
    using that es_claim by (intro event_evolves_one) (simp_all add: claim_queue_row_def event_row_defs)
  then show ?thesis
    by (auto simp: claim_next_channel_event_def elim!: events_updated split: option.splits sum.splits)
qed

lemma update_claimed_moves:
  assumes "\<And>q. q_status q = ''processing'' \<Longrightarrow> event_evolves q (f q)"
  shows "events_move (ch_queue db) (ch_queue (snd (update_claimed_event x i f db)))"
  using assms by (auto simp: update_claimed_event_def elim!: events_updated split: sum.splits)

lemma settle_moves:
  "events_move (ch_queue db) (ch_queue (snd (complete_channel_event x clock i db)))"
  "events_move (ch_queue db) (ch_queue (snd (fail_channel_event x clock i e db)))"
  "events_move (ch_queue db) (ch_queue (snd (release_channel_event x clock i delay db)))"
  unfolding complete_channel_event_def fail_channel_event_def release_channel_event_def
  by (auto intro!: update_claimed_moves event_evolves_one simp: event_row_defs event_step.intros
      split: option.splits)

lemma persist_moves:
  "events_move (ch_queue db) (ch_queue (snd (persist_slack_source_event x codec clock s e db)))"
proof -
  have "events_move queue queue'"
    if "insert_new (queue_check x) queue_key (new_queue_row clock e payload queue) queue = Inr (queue', b)"
    for payload queue queue' b
    unfolding events_move_def insert_new_InrD(2) [OF that]
    by (rule exI [of _ id], rule exI [of _ "if b then [new_queue_row clock e payload queue] else []"])
      (simp add: new_queue_row_def event_life_def)
  then show ?thesis
    by (auto simp: persist_slack_source_event_def split: option.splits sum.splits bool.splits)
qed

lemma exec_moves:
  assumes "\<not> cleans_up op"
  shows "events_move (ch_queue db) (ch_queue (channel_exec x codec op db))"
proof (cases "message_op op")
  case True
  then show ?thesis using message_op_frame [OF True, of x codec db] by auto
next
  case False
  then show ?thesis
    using assms claim_moves settle_moves persist_moves
    by (cases op) (simp_all add: complete_slack_processing_indicator_def fail_slack_processing_indicator_def)
qed

text \<open>A settled event that a cleanup of the history deletes.\<close>

definition cleaned_away :: "ext \<Rightarrow> event_codec \<Rightarrow> channel_op list \<Rightarrow> channel_db \<Rightarrow> queue_row \<Rightarrow> bool" where
  "cleaned_away x codec ops db q \<longleftrightarrow> (\<exists>before scope now policy after q'.
     ops = before @ DoCleanup scope now policy # after
     \<and> q' \<in> set (ch_queue (channel_history x codec before db)) \<and> event_evolves q q'
     \<and> event_settled q' \<and> rp_enabled policy
     \<and> before_cutoff (q_updated_at q') (retention_cutoff (i64_of_u64 now) (inbound_payload_days policy))
     \<and> in_workspace scope (q_workspace_id q'))"

lemma cleaned_by: "cleaned_away x codec ops db q \<Longrightarrow> list_ex cleans_up ops"
  by (auto simp: cleaned_away_def)

lemma cleaned_later:
  assumes "cleaned_away x codec ops (channel_exec x codec op db) q" and "event_evolves p q"
  shows "cleaned_away x codec (op # ops) db p"
proof -
  obtain before scope now policy after q' where "ops = before @ DoCleanup scope now policy # after"
      "q' \<in> set (ch_queue (channel_history x codec before (channel_exec x codec op db)))"
      "event_evolves p q'" "event_settled q'" "rp_enabled policy"
      "before_cutoff (q_updated_at q') (retention_cutoff (i64_of_u64 now) (inbound_payload_days policy))"
      "in_workspace scope (q_workspace_id q')"
    using assms event_evolves_trans unfolding cleaned_away_def by blast
  then show ?thesis
    unfolding cleaned_away_def by (intro exI [of _ "op # before"] exI) auto
qed

lemma cleanup_event:
  assumes "q \<in> set (ch_queue db)" and "q \<notin> set (ch_queue (cleanup_channel_rows scope now policy db))"
  shows "cleaned_away x codec (DoCleanup scope now policy # ops) db q"
  using assms unfolding cleaned_away_def
  by (intro exI [of _ "[]"] exI)
    (auto simp: cleanup_queue delete_rows_def old_event_def event_settled_def split: if_splits)

lemma event_continues:
  assumes "q \<in> set (ch_queue db)"
  shows "(\<exists>q' \<in> set (ch_queue (channel_history x codec ops db)). event_evolves q q')
    \<or> cleaned_away x codec ops db q"
  using assms
proof (induction ops arbitrary: db q)
  case Nil
  then show ?case by auto
next
  case (Cons op ops)
  have "(\<exists>p \<in> set (ch_queue (channel_exec x codec op db)). event_evolves q p)
      \<or> cleaned_away x codec (op # ops) db q"
  proof (cases "cleans_up op")
    case True
    then obtain scope now policy where "op = DoCleanup scope now policy" by (cases op) auto
    then show ?thesis using cleanup_event [OF Cons.prems, of scope now policy x codec ops] by auto
  next
    case False
    then show ?thesis using exec_moves [OF False, of db x codec] Cons.prems by (auto simp: events_move_def)
  qed
  then show ?case using Cons.IH event_evolves_trans cleaned_later by (metis channel_history.simps(2))
qed

lemma event_origin:
  assumes "q' \<in> set (ch_queue (channel_history x codec ops db))"
  shows "(\<exists>q \<in> set (ch_queue db). event_evolves q q') \<or> one_attempt (event_life q')"
  using assms
proof (induction ops arbitrary: db)
  case Nil
  then show ?case by auto
next
  case (Cons op ops)
  then consider p where "p \<in> set (ch_queue (channel_exec x codec op db))" "event_evolves p q'"
    | "one_attempt (event_life q')" by auto
  then show ?case
  proof cases
    case (1 p)
    have "(\<exists>q \<in> set (ch_queue db). event_evolves q p) \<or> event_life p = (''pending'', 0)"
    proof (cases "cleans_up op")
      case True
      then have "p \<in> set (ch_queue db)"
        using 1(1) by (cases op) (auto simp: cleanup_queue delete_rows_def split: if_splits)
      then show ?thesis by auto
    next
      case False
      then show ?thesis using exec_moves [OF False, of db x codec] 1(1) unfolding events_move_def by fastforce
    qed
    then show ?thesis
      using 1(2) event_evolves_trans one_attempt_later [OF 1(2)] by (auto simp: one_attempt_def)
  qed simp
qed

end
