(* ===== verification/Channel_Properties.thy ===== *)
theory Channel_Properties
  imports Channel_Claims
begin

text \<open>
  The properties of the chat channel: one confirmed post per message whatever interleaving, storage fault
  or crash, the message that a crash leaves behind, the permanence of receipts, the exclusive claim and
  the lifecycle of an inbound event, and the deduplication of source events. The samples give each of them a concrete instance.
\<close>

section \<open>Samples\<close>

definition chat_ext :: ext where
  "chat_ext = tiny_ext \<lparr>sql_json_valid := \<lambda>_. True\<rparr>"

definition chat_env :: slack_env where
  "chat_env = \<lparr>env_ext = chat_ext, env_clock = 100, env_display = \<lambda>_. ''error'', env_faults = \<lambda>_. None\<rparr>"

definition chat_codec :: event_codec where
  "chat_codec = \<lparr>event_print = \<lambda>e. Some (ev_event_id e), event_parse = \<lambda>t. Some \<lparr>ev_provider = ''slack'',
     ev_connector_id = ''c'', ev_workspace_id = ''W'', ev_event_id = t, ev_dedupe_key = t,
     ev_kind = MessageReceived, ev_text = None, ev_reply_target = None, ev_source_reference = None\<rparr>\<rparr>"

definition chat_event :: channel_event where
  "chat_event = \<lparr>ev_provider = ''slack'', ev_connector_id = ''c'', ev_workspace_id = ''W'', ev_event_id = ''E1'',
     ev_dedupe_key = ''E1'', ev_kind = MessageReceived, ev_text = None, ev_reply_target = None,
     ev_source_reference = None\<rparr>"

definition chat_source :: slack_source_event where
  "chat_source = \<lparr>sse_workspace_id = ''W'', sse_event_kind = ''message'', sse_dedupe_key = ''E1'',
     sse_envelope_id = None, sse_event_id = None, sse_channel_id = None, sse_thread_ts = None,
     sse_message_ts = None, sse_user_id = None, sse_raw_payload_json = ''{}''\<rparr>"

definition chat_request :: message_request where
  "chat_request = \<lparr>mr_connector_id = ''c'', mr_workspace_id = ''W'', mr_dedupe_key = ''K'',
     mr_target = ReplyThread ''C1'' ''T1'', mr_text = ''hi''\<rparr>"

definition chat_post :: post_request where
  "chat_post = \<lparr>pr_connector_id = ''c'', pr_workspace_id = ''W'', pr_dedupe_key = ''K'', pr_channel_id = ''C1'',
     pr_thread_ts = Some ''T1'', pr_text = ''hi'', pr_sender = SenderBot\<rparr>"

definition chat_reply :: posted_message where
  "chat_reply = \<lparr>po_channel_id = ''C1'', po_thread_ts = None, po_message_ts = ''M1'', po_response_body = ''{}''\<rparr>"

definition chat_receipt :: delivery_receipt where
  "chat_receipt = \<lparr>rc_connector_id = ''c'', rc_workspace_id = ''W'', rc_channel_id = ''C1'',
     rc_thread_ts = Some ''T1'', rc_message_ts = ''M1'', rc_dedupe_key = ''K'', rc_sender = SenderBot\<rparr>"

definition idle_queue :: slack_queue where
  "idle_queue = \<lparr>sq_db = empty_channel_db, sq_pending = [], sq_throttles = Map.empty\<rparr>"

definition idle_world :: world where
  "idle_world = \<lparr>w_queue = idle_queue, w_flight = [], w_posts = []\<rparr>"

text \<open>A worker begins to deliver the sample message, and Slack confirms it.\<close>

definition busy_queue :: slack_queue where
  "busy_queue = snd (deliver_claim chat_env chat_request 5 idle_queue)"

definition busy_world :: world where
  "busy_world = idle_world \<lparr>w_queue := busy_queue, w_flight := [Posting chat_post]\<rparr>"

definition posted_world :: world where
  "posted_world = busy_world \<lparr>w_queue := snd (post_and_record chat_env chat_post 5 (Inr chat_reply) busy_queue),
     w_flight := [], w_posts := [(''W'', ''K'')]\<rparr>"

definition crashed_world :: world where
  "crashed_world = busy_world \<lparr>w_queue := busy_queue \<lparr>sq_pending := [], sq_throttles := Map.empty\<rparr>, w_flight := []\<rparr>"

text \<open>After the restart a worker drains the queue, much later.\<close>

definition drained_world :: world where
  "drained_world = crashed_world \<lparr>w_queue := snd (drain_claim chat_env 9000 (w_queue crashed_world)),
     w_flight := [fst (drain_claim chat_env 9000 (w_queue crashed_world))]\<rparr>"

lemma idle_initial: "initial_world idle_world"
  by (simp add: initial_world_def idle_world_def idle_queue_def empty_channel_db_def)

lemma busy_begun: "fst (deliver_claim chat_env chat_request 5 idle_queue) = Posting chat_post"
  by code_simp

lemma idle_busy: "world_step idle_world busy_world"
  using ws_deliver [of chat_env chat_request 5 idle_world "Posting chat_post" busy_queue] busy_begun
  by (simp add: busy_world_def busy_queue_def idle_world_def prod_eq_iff)

lemma busy_posted: "world_step busy_world posted_world"
  using ws_post [of busy_world "[]" chat_post "[]" chat_env 5 "Inr chat_reply"]
  by (simp add: posted_world_def busy_world_def idle_world_def is_ok_def begun_keys_def prod_eq_iff chat_post_def)

lemma busy_crashed: "world_step busy_world crashed_world"
  using ws_crash [of busy_world] by (simp add: crashed_world_def busy_world_def)

lemma crashed_drained: "world_step crashed_world drained_world"
  using ws_drain [of chat_env 9000 crashed_world]
  by (simp add: drained_world_def prod_eq_iff) (simp add: crashed_world_def)

section \<open>Outbound messages\<close>

text \<open>C12: Slack confirms every message at most once. Take any history of worlds that starts with an empty
  queue: any number of workers deliver and drain, messages are queued by others, calls return in any
  order with any reply, every statement may fail with any storage error, and the process may stop at any
  moment. Then no key occurs twice among the posts whose success a worker has seen. A call that failed
  for the worker does not count: its message goes back to the queue.\<close>

theorem message_posted_at_most_once:
  assumes "initial_world w0" and "world_step\<^sup>*\<^sup>* w0 w"
  shows "distinct (w_posts w)"
  using world_steps_inv [OF assms(2) initial_world_inv [OF assms(1)]] by (simp add: world_inv_def claims_ok_def)

theorem message_posted_at_most_once_witness:
  "world_step\<^sup>*\<^sup>* idle_world posted_world \<and> w_posts posted_world = [(''W'', ''K'')] \<and> distinct (w_posts posted_world)"
proof -
  have steps: "world_step\<^sup>*\<^sup>* idle_world posted_world"
    by (meson idle_busy busy_posted converse_rtranclp_into_rtranclp rtranclp.rtrancl_refl)
  then show ?thesis
    using message_posted_at_most_once [OF idle_initial steps] by (simp add: posted_world_def)
qed

text \<open>C40: A message abandoned in processing is never sent. If a reachable world has a message in state
  processing that no call in flight and no receipt kept in memory belongs to and that was never confirmed
  (a crash between claim and reply leaves such a message), then in every later world it is still
  processing and still not confirmed: no statement of the queue returns it to pending.\<close>

theorem abandoned_message_is_never_sent:
  assumes "initial_world w0" and "world_step\<^sup>*\<^sup>* w0 w"
    and "statuses (sq_db (w_queue w)) k = Some ''processing''" and "k \<notin> set (flight_keys w)"
    and "k \<notin> set (pending_keys (w_queue w))" and "k \<notin> set (w_posts w)" and "world_step\<^sup>*\<^sup>* w w'"
  shows "statuses (sq_db (w_queue w')) k = Some ''processing'' \<and> k \<notin> set (w_posts w')"
proof -
  have "world_inv {} w" by (rule world_steps_inv [OF assms(2) initial_world_inv [OF assms(1)]])
  then have "world_inv {k} w" using assms(3-6) by (simp add: world_inv_def claims_ok_def)
  from world_steps_inv [OF assms(7) this] show ?thesis by (simp add: world_inv_def claims_ok_def)
qed

theorem abandoned_message_is_never_sent_witness:
  "statuses (sq_db (w_queue drained_world)) (''W'', ''K'') = Some ''processing''
     \<and> (''W'', ''K'') \<notin> set (w_posts drained_world)"
proof -
  have steps: "world_step\<^sup>*\<^sup>* idle_world crashed_world"
    by (meson idle_busy busy_crashed converse_rtranclp_into_rtranclp rtranclp.rtrancl_refl)
  have status: "statuses (sq_db (w_queue crashed_world)) (''W'', ''K'') = Some ''processing''" by code_simp
  have idle: "flight_keys crashed_world = []" "pending_keys (w_queue crashed_world) = []" "w_posts crashed_world = []"
    by (simp_all add: crashed_world_def busy_world_def idle_world_def flight_keys_def pending_keys_def)
  show ?thesis
    by (rule abandoned_message_is_never_sent [OF idle_initial steps status])
      (simp_all add: idle crashed_drained r_into_rtranclp)
qed

text \<open>C21: A recorded receipt is final. Once the delivery of a message is completed with its first receipt,
  then after any history without cleanup the status of the message is delivered with the timestamp of that
  receipt, and claiming the message answers with exactly that receipt and changes nothing.\<close>

theorem recorded_receipt_is_final:
  assumes "complete_slack_delivery x clock r json t db = (Inr (), db')"
    and "find_receipt (rc_workspace_id r) (rc_dedupe_key r) db = None"
    and "list_all (\<lambda>op. \<not> cleans_up op) ops" and "later = channel_history x codec ops db'"
  shows "claim_slack_delivery clock' (rc_workspace_id r) (rc_dedupe_key r) now later = (Inr (ClaimDelivered r), later)
    \<and> (\<exists>s. slack_delivery_status (rc_workspace_id r) (rc_dedupe_key r) now later = Inr (Some s)
         \<and> ms_status s = MsgDelivered \<and> ms_message_ts s = Some (rc_message_ts r))"
proof -
  let ?row = "new_receipt_row clock r json"
  have "has_receipt ?row later"
    unfolding assms(4) by (rule receipts.along [OF completed_has_receipt [OF assms(1,2)] assms(3)])
  then have found: "find_receipt (rc_workspace_id r) (rc_dedupe_key r) later = Some ?row"
    by (simp add: has_receipt_def new_receipt_row_def)
  have sender: "sender_from_parts (rr_sender_kind ?row) (rr_sender_key ?row) = Inr (rc_sender r)"
    by (simp add: new_receipt_row_def sender_roundtrip)
  show ?thesis
    using found sender receipt_roundtrip [of clock r json]
    by (simp add: claim_slack_delivery_def claim_by_key_def commit_def slack_delivery_status_def)
      (simp add: new_receipt_row_def)
qed

theorem recorded_receipt_is_final_witness:
  "\<exists>db. claim_slack_delivery 7 ''W'' ''K'' 9 db = (Inr (ClaimDelivered chat_receipt), db)"
proof -
  let ?queued = "snd (enqueue_slack_delivery 100 5 chat_post empty_channel_db)"
  let ?finished = "snd (complete_slack_delivery chat_ext 100 chat_receipt ''{}'' 6 ?queued)"
  have "fst (complete_slack_delivery chat_ext 100 chat_receipt ''{}'' 6 ?queued) = Inr ()" by code_simp
  then have step: "complete_slack_delivery chat_ext 100 chat_receipt ''{}'' 6 ?queued = (Inr (), ?finished)"
    by (metis prod.collapse)
  have "ch_receipts ?queued = []" by code_simp
  then have none: "find_receipt (rc_workspace_id chat_receipt) (rc_dedupe_key chat_receipt) ?queued = None"
    by (simp add: find_receipt_def)
  show ?thesis
    using recorded_receipt_is_final [OF step none, of "[DoRetry 101 ''W'' ''K'' 8]" _ chat_codec 7 9]
    by (auto simp: chat_receipt_def)
qed

section \<open>Inbound events\<close>

text \<open>C13: A claimed event belongs to one worker. After a claim has returned an event, and through any history
  that does not complete, release or fail that event, cleanup included, its row stays in state processing
  and no claim returns it again.\<close>

theorem claimed_event_is_exclusive:
  assumes "channel_ok x db" and "claim_next_channel_event x codec clock db = (Inr (Some c), db')"
    and "list_all (\<lambda>op. \<not> settles_event (ce_id c) op) ops"
    and "claim_next_channel_event x codec clock' (channel_history x codec ops db') = (Inr (Some c'), db'')"
  shows "ce_id c' \<noteq> ce_id c \<and> event_held (ce_id c) db''"
proof -
  let ?later = "channel_history x codec ops db'"
  have held: "event_held (ce_id c) db'"
    using assms(2) by (cases rule: claim_eventE) (auto split: option.splits)
  have ok: "channel_ok x ?later"
    using claim_event_ok_tables [OF assms(1), of codec clock] assms(2) by (simp add: history_ok)
  have later: "event_held (ce_id c) ?later" by (rule held.along [OF held assms(3)])
  from assms(4) have "ce_id c' \<noteq> ce_id c"
  proof (cases rule: claim_eventE)
    case (claimed q)
    then have "ce_id c' = q_id q" by (simp split: option.splits)
    then show ?thesis using held_not_due [OF ok later claimed(1)] claimed(2) by metis
  qed simp_all
  then show ?thesis using held_claim [OF later, of x codec clock'] assms(4) by simp
qed

definition second_source :: slack_source_event where
  "second_source = chat_source \<lparr>sse_dedupe_key := ''E2''\<rparr>"

definition second_event :: channel_event where
  "second_event = chat_event \<lparr>ev_event_id := ''E2'', ev_dedupe_key := ''E2''\<rparr>"

definition inbox :: channel_db where
  "inbox = channel_history chat_ext chat_codec
     [DoPersist 100 chat_source chat_event, DoPersist 101 second_source second_event] empty_channel_db"

definition first_claim :: claimed_event where
  "first_claim = \<lparr>ce_id = 1, ce_attempt_count = 1, ce_event = chat_event\<rparr>"

definition second_claim :: claimed_event where
  "second_claim = \<lparr>ce_id = 2, ce_attempt_count = 1, ce_event = second_event\<rparr>"

theorem claimed_event_is_exclusive_witness:
  "\<exists>db. ce_id second_claim \<noteq> ce_id first_claim \<and> event_held (ce_id first_claim) db"
proof -
  let ?db = "snd (claim_next_channel_event chat_ext chat_codec 110 inbox)"
  let ?ops = "[DoCompleteEvent 111 2, DoCleanup None 9000000 default_retention_policy]"
  let ?later = "channel_history chat_ext chat_codec ?ops ?db"
  have ok: "channel_ok chat_ext inbox" unfolding inbox_def by (rule history_ok [OF empty_channel_ok])
  have "fst (claim_next_channel_event chat_ext chat_codec 110 inbox) = Inr (Some first_claim)" by code_simp
  then have one: "claim_next_channel_event chat_ext chat_codec 110 inbox = (Inr (Some first_claim), ?db)"
    by (metis prod.collapse)
  have "fst (claim_next_channel_event chat_ext chat_codec 120 ?later) = Inr (Some second_claim)" by code_simp
  then have two: "claim_next_channel_event chat_ext chat_codec 120 ?later
      = (Inr (Some second_claim), snd (claim_next_channel_event chat_ext chat_codec 120 ?later))"
    by (metis prod.collapse)
  have free: "list_all (\<lambda>op. \<not> settles_event (ce_id first_claim) op) ?ops" by (simp add: first_claim_def)
  show ?thesis using claimed_event_is_exclusive [OF ok one free two] by blast
qed

text \<open>C22: A source event is queued once. After an event with a workspace and deduplication key has been
  accepted, and through any history without cleanup, a further event under the same key that is well formed
  is answered with false and changes nothing, whatever its payload.\<close>

theorem source_event_is_queued_once:
  assumes "persist_slack_source_event x codec clock s e db = (Inr True, db')"
    and "list_all (\<lambda>op. \<not> cleans_up op) ops" and "later = channel_history x codec ops db'"
    and "sse_workspace_id s' = sse_workspace_id s" and "sse_dedupe_key s' = sse_dedupe_key s"
    and "source_check x (new_source_row clock' s')" and "event_print codec e' \<noteq> None"
  shows "persist_slack_source_event x codec clock' s' e' later = (Inr False, later)"
proof -
  let ?k = "source_key (new_source_row clock s)"
  obtain sources where ins: "insert_new (source_check x) source_key (new_source_row clock s) (ch_sources db)
      = Inr (sources, True)" "ch_sources db' = sources"
    using assms(1) by (auto simp: persist_slack_source_event_def split: option.splits sum.splits bool.splits)
  have "source_known ?k db'" using insert_new_InrD(2) [OF ins(1)] ins(2) by (simp add: source_known_def)
  then have "source_known ?k later" using known.along assms(2,3) by blast
  moreover have "?k = source_key (new_source_row clock' s')"
    using assms(4,5) by (simp add: source_key_def new_source_row_def)
  ultimately have "insert_new (source_check x) source_key (new_source_row clock' s') (ch_sources later)
      = Inr (ch_sources later, False)"
    using assms(6) by (simp add: insert_new_def source_known_def)
  then show ?thesis using assms(7) by (auto simp: persist_slack_source_event_def)
qed

theorem source_event_is_queued_once_witness:
  "\<exists>db. persist_slack_source_event chat_ext chat_codec 300 chat_source second_event db = (Inr False, db)"
proof -
  let ?db = "snd (persist_slack_source_event chat_ext chat_codec 100 chat_source chat_event empty_channel_db)"
  have "fst (persist_slack_source_event chat_ext chat_codec 100 chat_source chat_event empty_channel_db) = Inr True"
    by code_simp
  then have step: "persist_slack_source_event chat_ext chat_codec 100 chat_source chat_event empty_channel_db
      = (Inr True, ?db)"
    by (metis prod.collapse)
  have check: "source_check chat_ext (new_source_row 300 chat_source)" by code_simp
  show ?thesis
    using source_event_is_queued_once [OF step, of "[DoClaimEvent 200]", OF _ refl refl refl check, of second_event]
    by (auto simp: chat_codec_def)
qed

text \<open>C14: Inbound events follow their lifecycle. Through any history of channel operations, every queued
  event keeps its id, key, kind and payload in exactly one row and moves only from pending to processing
  with one more attempt, from processing to processed or failed, or back to pending with the attempt taken
  back; once it is processed or failed its row never changes again, until a cleanup deletes it. A row
  disappears only that way: settled, older than the retention period, in the scope of an enabled cleanup.
  Every event queued by the history is pending with no attempt, or has had exactly one.\<close>

theorem channel_events_follow_lifecycle:
  assumes "channel_ok x db" and "later = channel_history x codec ops db"
  shows "(\<forall>q \<in> set (ch_queue db). (\<exists>!q'. q' \<in> set (ch_queue later) \<and> event_evolves q q')
        \<or> cleaned_away x codec ops db q)
    \<and> (\<forall>q' \<in> set (ch_queue later). (\<exists>q \<in> set (ch_queue db). event_evolves q q')
        \<or> one_attempt (event_life q'))"
proof -
  have keyed: "keyed (queue_check x) q_id (ch_queue later)"
    using history_ok [OF assms(1)] assms(2) by (simp add: channel_ok_def)
  have "p = q'" if "p \<in> set (ch_queue later)" "q' \<in> set (ch_queue later)" "event_evolves q p" "event_evolves q q'"
    for p q q'
    using keyed_inj [OF keyed that(1,2)] that(3,4) by (simp add: event_evolves_def event_identity_def)
  then show ?thesis
    using event_continues [of _ db x codec ops] event_origin [of _ x codec ops db] assms(2)
    by (metis (no_types, lifting))
qed

text \<open>Of two events the first is claimed, handed back, claimed again and processed, and a late failure
  changes nothing; much later a cleanup deletes it. The second is handed back and waits.\<close>

definition handled :: "channel_op list" where
  "handled = [DoClaimEvent 110, DoReleaseEvent 111 1 2, DoClaimEvent 111, DoReleaseEvent 112 2 900,
     DoClaimEvent 120, DoCompleteEvent 121 1, DoFailEvent 122 1 ''late'']"

definition swept :: "channel_op list" where
  "swept = handled @ [DoCleanup None 90000000 default_retention_policy]"

theorem channel_events_follow_lifecycle_witness:
  "\<exists>q p. ch_queue inbox = [q, p] \<and> event_life q = (''pending'', 0)
    \<and> (\<exists>q'. q' \<in> set (ch_queue (channel_history chat_ext chat_codec handled inbox))
         \<and> event_evolves q q' \<and> event_life q' = (''processed'', 1))
    \<and> cleaned_away chat_ext chat_codec swept inbox q"
proof -
  let ?later = "channel_history chat_ext chat_codec handled inbox"
  let ?swept = "channel_history chat_ext chat_codec swept inbox"
  have ok: "channel_ok chat_ext inbox" unfolding inbox_def by (rule history_ok [OF empty_channel_ok])
  have "map (\<lambda>q. (q_id q, event_life q)) (ch_queue inbox) = [(1, ''pending'', 0), (2, ''pending'', 0)]"
    by code_simp
  then obtain q p where q: "ch_queue inbox = [q, p]" "q_id q = 1" "event_life q = (''pending'', 0)" by auto
  have rows: "map (\<lambda>q. (q_id q, event_life q)) (ch_queue ?later) = [(1, ''processed'', 1), (2, ''pending'', 0)]"
    by code_simp
  then obtain r s where r: "ch_queue ?later = [r, s]" "event_life r = (''processed'', 1)" "q_id s = 2" by auto
  have rest: "map q_id (ch_queue ?swept) = [2]" by code_simp
  then obtain t where t: "ch_queue ?swept = [t]" "q_id t = 2" by auto
  have other: "\<not> event_evolves q u" if "q_id u = 2" for u
    using that q(2) by (simp add: event_evolves_def event_identity_def)
  have "\<not> cleaned_away chat_ext chat_codec handled inbox q"
    using cleaned_by [of chat_ext chat_codec handled inbox q] by (auto simp: handled_def)
  then have "event_evolves q r"
    using channel_events_follow_lifecycle [OF ok refl, of chat_codec handled] q(1) r other [OF r(3)] by auto
  moreover have "cleaned_away chat_ext chat_codec swept inbox q"
    using channel_events_follow_lifecycle [OF ok refl, of chat_codec swept] q(1) t other [OF t(2)] by auto
  ultimately show ?thesis using q r by auto
qed

end
