(* ===== verification/Spec2Isabelle.thy ===== *)
theory Spec2Isabelle
  imports Scheduler_Policy Scheduled_Identity Schedule_Spec Attested_Capability Prepare_Authority
    Run_Outcomes Mutation_Properties Delivery_Recovery Delivery_Properties Operator_Properties
    Channel_Properties
begin

text \<open>
  \<^bold>\<open>The codeoff scheduler and chat channel.\<close>

  codeoff answers chat messages with coding agents and runs agent jobs on a schedule. This library
  models two parts of it. The durable scheduler: the values, the operational policy and the calendar arithmetic of
  \<^verbatim>\<open>crates/core\<close> and \<^verbatim>\<open>crates/state/src/scheduler.rs\<close>, and the transactions of
  \<^verbatim>\<open>crates/state/src/scheduler/store.rs\<close> over the SQLite tables that
  \<^verbatim>\<open>crates/state/migrations\<close> declare. And the durable side of a chat channel: the contract of
  \<^verbatim>\<open>crates/channel/contract\<close>, the channel tables of \<^verbatim>\<open>crates/state/src/store.rs\<close>, and the worker of
  \<^verbatim>\<open>crates/channel/slack/src/delivery.rs\<close> that sends queued messages.

  \<^bold>\<open>How the parts interact.\<close> A principal creates, updates, pauses, resumes and deletes jobs through
  idempotent, audited mutations. A job carries a schedule, delivery targets, a capability snapshot and
  a snapshot of the operational policy. When an occurrence is due, materialization inserts one pending
  run with a snapshot of the job and moves the schedule on. Workers claim runs under a lease with an
  attempt number and a fence; they attest their profile, start, report outcomes, and lose their
  authority when the lease expires and another worker reclaims the run. An executor epoch admits
  claims and materializations of a remote deployment and consumes single-use permits. A successful run
  is completed in one transaction that stores its result artifact, advances the execution baseline of
  the job and writes one pending delivery intent per target. A delivery is rendered once, claimed under
  a lease with an attempt number, a fence and an idempotency key, sent, and settled by what the provider
  confirmed; a delivered payload becomes the accepted baseline that later payloads are compared with.
  A trusted operator can reopen a failed run, requeue a retryable delivery, and resolve a delivery whose
  outcome is unknown; each of these records an action in an append-only audit, and the transition it
  authorizes spends it.

  On the chat side an inbound event is stored once under its deduplication key and queued; a worker
  claims it, answers it with the agent of its conversation, and completes, releases or fails it. Answers
  are queued as messages. The Slack worker claims a message, posts it, and stores the receipt; while the
  database is contended it keeps the receipt in memory and the channel throttled.

  \<^bold>\<open>Theories, in dependency order.\<close>

  \<^item> \<open>Prelude\<close>: results as sums, checked 64-bit arithmetic, UTF-8 trimming and splitting, shared lemmas.
  \<^item> \<open>State_Error\<close> (\<^verbatim>\<open>error.rs\<close>): the error values and the contention classifier.
  \<^item> \<open>Scheduler_Policy\<close> (\<^verbatim>\<open>scheduler_policy.rs\<close>): the policy at source widths, its validator, the
    backoff, retry and deadline arithmetic. What an accepted policy guarantees, over the naturals: the
    delivery backoff is bounded, run retries terminate, and one accepted policy has a zero backoff.
  \<^item> \<open>Scheduled_Identity\<close> (\<^verbatim>\<open>scheduled_identity.rs\<close>): the identifier parsers and their grammar.
  \<^item> \<open>Json_Value\<close>: JSON values and accessors; the record \<open>ext\<close> of everything outside the sources.
  \<^item> \<open>Schedule_Spec\<close> (\<^verbatim>\<open>scheduler.rs\<close>, \<^verbatim>\<open>timezone.rs\<close>): schedules, occurrence search, coalescing,
    cadence proofs, storage. croner, jiff and chrono are the record \<open>calendar\<close>. Coalescing windows,
    the constant-time interval search, the soundness of cadence proofs.
  \<^item> \<open>State_Values\<close> (\<^verbatim>\<open>scheduler.rs\<close>): principals, snapshots, digests, leases, permits and their
    validators; snapshots carry no credential-like keys, framed digests separate their fields.
  \<^item> \<open>Attested_Capability\<close> (\<^verbatim>\<open>attested_capability.rs\<close>): capability profiles and their strict parser.
  \<^item> \<open>Prepare_Authority\<close> (\<^verbatim>\<open>scheduler.rs\<close>): the authority of a claimed run and its attestations.
  \<^item> \<open>Delivery_Target\<close> (\<^verbatim>\<open>scheduler.rs\<close>): resolved targets and the reader of canonical routes.
  \<^item> \<open>Sql_Table\<close>: update and insert of a table with check clauses and unique keys; the locale
    \<open>checked_table\<close> states what such a table promises and every table of the model interprets it.
  \<^item> \<open>Run_Tables\<close>, \<open>Run_Store\<close> (\<^verbatim>\<open>store.rs\<close>): runs, attempts, late evidence, epochs, permits and
    counters; registration, permits, claims, heartbeats, start, preflight failures, execution
    outcomes, reclamation, reconciliation, late evidence, cancellation.
  \<^item> \<open>Run_Lifecycle\<close>, \<open>Run_Safety\<close>: the abstract lifecycle, the store invariant, the step relation
    \<open>run_step\<close> and \<open>reachable\<close>; every operation preserves the invariant and refines the lifecycle.
  \<^item> \<open>Run_Sample\<close>, \<open>Run_Properties\<close>, \<open>Run_Claims\<close>, \<open>Run_Admission\<close>, \<open>Run_Recovery\<close>,
    \<open>Run_Outcomes\<close>: the properties of runs and the concrete history they are applied to.
  \<^item> \<open>Job_Tables\<close>, \<open>Job_Store\<close>, \<open>Job_Mutations\<close>, \<open>Materialization\<close> (\<^verbatim>\<open>store.rs\<close>): jobs, schedules,
    targets, baselines, overlap cursors, idempotency keys, audit and policy lock beside the run store,
    in the record \<open>sched_db\<close>, and the operations on them.
  \<^item> \<open>Job_Safety\<close>, \<open>Job_History\<close>: the effect of every job operation, the step relation \<open>job_step\<close>,
    histories under a clock that does not go back, their invariant, and the refinement of every job
    operation into steps of the run store.
  \<^item> \<open>Job_Sample\<close>, \<open>Job_Properties\<close>, \<open>Mutation_Properties\<close>: materialization, compare-and-swap, limits,
    replay and reads.
  \<^item> \<open>Delivery_Value\<close> (\<^verbatim>\<open>delivery.rs\<close>, \<^verbatim>\<open>store.rs\<close>): delivery states, payload snapshots, bindings,
    authorities, baselines and intent targets with their validators and keys.
  \<^item> \<open>Operator_Value\<close> (\<^verbatim>\<open>scheduler.rs\<close>, \<^verbatim>\<open>store.rs\<close>), \<open>Operator_Tables\<close>: operator requests bound
    to one exact action by a digest, the validators of receipts and evidence, the projections operators
    read; the audit of actions and consumptions with its checks and triggers.
  \<^item> \<open>Delivery_Tables\<close>: result artifacts, deliveries, delivery attempts and accepted baselines with
    their checks, unique keys and triggers, beside the jobs in the record \<open>delivery_db\<close>.
  \<^item> \<open>Delivery_Store\<close>, \<open>Run_Completion\<close> (\<^verbatim>\<open>store.rs\<close>): preparation, peeking, skipping, readiness
    rejection, oldest and exact claims, heartbeats, delivered and failure reports, reconciliation,
    reclamation, requeueing, and the completion of a run.
  \<^item> \<open>Operator_Store\<close> (\<^verbatim>\<open>store.rs\<close>): the audited retries of runs and deliveries, the actions on an
    unknown delivery, replay of recorded requests, and the operator reads.
  \<^item> \<open>Delivery_Lifecycle\<close>, \<open>Delivery_Safety\<close>, \<open>Operator_Safety\<close>, \<open>Delivery_History\<close>: the abstract lifecycle of a
    delivery, the locale of fenced sends, the delivery invariant, the step relation \<open>delivery_step\<close>
    over jobs, runs, deliveries and operator actions, and the invariant of its histories \<open>leads_to\<close>.
  \<^item> \<open>Delivery_Sample\<close>, \<open>Delivery_Recovery\<close>, \<open>Delivery_Properties\<close>: unless an operator
    forced a resend, at most one attempt of a delivery can have written; outdated sends are fenced, baselines advance by compare-and-swap,
    claims stay within the frozen policy, completion is atomic, reclamation settles every expired
    send; and one statement that a trigger of the schema always refuses.
  \<^item> \<open>Operator_Sample\<close>, \<open>Operator_Properties\<close>: the invariant of the whole store; an applied action is bound to its target and recorded,
    a repeated request is answered from the audit, an unknown delivery waits for an operator, and every
    action is spent at most once.
  \<^item> \<open>Channel_Contract\<close> (\<^verbatim>\<open>crates/channel/contract\<close>): reply targets, requests, capabilities and events.
  \<^item> \<open>Slack_Source\<close>, \<open>Channel_Tables\<close>, \<open>Channel_Store\<close>, \<open>Message_Store\<close> (\<^verbatim>\<open>crates/state/src/store.rs\<close>):
    the metadata of a Slack payload; the channel tables in the record \<open>channel_db\<close>; inbound events,
    conversations, drafts and context attempts; outbound messages, receipts, throttles, indicators, cleanup.
  \<^item> \<open>Slack_Queue\<close> (\<^verbatim>\<open>delivery.rs\<close>): the worker, split where it awaits the Slack API. The reply of the API
    and the error with which a statement may fail are arguments.
  \<^item> \<open>Slack_Safety\<close>: the queue abstracted to the status of each key, worlds of interleaved workers with
    crashes (\<open>world_step\<close>), and their invariant.
  \<^item> \<open>Channel_History\<close>, \<open>Channel_Claims\<close>: every operation on the channel tables as a value, histories of
    them, the locale \<open>lasting\<close> of facts that histories keep, interpreted for the table constraints, held
    events, known sources and receipts; the abstract lifecycle of an inbound event.
  \<^item> \<open>Channel_Properties\<close>: a message is confirmed at most once, a message abandoned in processing is never
    sent, receipts are final, claims of events are exclusive, events follow their lifecycle, sources are queued once.

  \<^bold>\<open>Conventions.\<close> A \<open>Result\<close> is a sum with the error on the left; an \<open>i64\<close> is an \<open>int\<close> with the checked
  operations written out; a \<open>u32\<close> is a word; a string is the list of its UTF-8 bytes. A transaction is
  a function from the store to a result and the store that is left: an error rolls back, except for the
  lost-lease exit of run operations, which counts the rejection after the rollback. serde, SHA-256,
  SQLite's JSON functions, croner, jiff and chrono are parameters; where a property needs something of
  them (canonical zone names resolve, a hash has 32 bytes, the printer is injective on the values
  compared), the property assumes exactly that. A clock read inside a transaction and the cancellation
  flag are arguments. The loop bounds are the code's own: the occurrence search limit of the policy and
  the ten-year cron horizon; no fuel was added.

  \<^bold>\<open>Not modelled.\<close> The retention of scheduler history and the observability queries of
  \<^verbatim>\<open>scheduler/store.rs\<close>; the execution and delivery loops of \<^verbatim>\<open>crates/runtime\<close>, the Codex and MCP
  adapters, the Slack web client and the normalization of its events, configuration and the command line,
  which drive the store or do I/O. The worlds of the message queue run no cleanup, since a cleaned-up
  message may be queued afresh. Failures of the storage engine are modelled for the Slack worker only, and
  the scheduling of concurrent transactions inside SQLite is outside the model: a transaction is one step.
\<close>

end
